(* ===== verification/Js_Text.thy ===== *)
theory Js_Text imports Main "HOL-Library.Sublist" begin

text \<open>
  The JavaScript string operations the services use, on \<open>string\<close> with one \<open>char\<close> per code
  unit in the range 0 to 255 (Latin-1): substring search, prefix tests, \<open>toLowerCase\<close>,
  \<open>trim\<close>, the digit test of the regular expression \<open>/^\d+$/\<close>, decimal printing and
  \<open>parseInt\<close>.  A JavaScript truth test of a string is \<open>truthy\<close>.
\<close>

section \<open>Search and prefixes\<close>

fun starts_with :: "string \<Rightarrow> string \<Rightarrow> bool" where
  "starts_with s [] = True"
| "starts_with [] (p # ps) = False"
| "starts_with (c # s) (p # ps) = (c = p \<and> starts_with s ps)"

fun str_includes :: "string \<Rightarrow> string \<Rightarrow> bool" where
  "str_includes [] p = (p = [])"
| "str_includes (c # s) p = (starts_with (c # s) p \<or> str_includes s p)"

lemma starts_with_prefix: "starts_with s p \<longleftrightarrow> prefix p s"
  by (induction s p rule: starts_with.induct) auto

lemma starts_with_append: "starts_with (p @ s) p"
  by (simp add: starts_with_prefix)

lemma includes_sublist: "str_includes s p \<longleftrightarrow> sublist p s"
proof (induction s)
  case Nil
  then show ?case by simp
next
  case (Cons c s)
  then show ?case by (simp add: starts_with_prefix sublist_Cons_right)
qed

lemma includes_append: "str_includes (a @ p @ b) p"
  by (simp add: includes_sublist)

lemma includes_prefix: "str_includes (p @ b) p"
  using includes_append [of "[]" p b] by simp

lemma includes_self [simp]: "str_includes p p"
  by (simp add: includes_sublist)

definition truthy :: "string \<Rightarrow> bool" where
  "truthy s \<longleftrightarrow> s \<noteq> []"

definition truthy_opt :: "string option \<Rightarrow> bool" where
  "truthy_opt x = (case x of None \<Rightarrow> False | Some s \<Rightarrow> s \<noteq> [])"

text \<open>\<open>a || b\<close> on an optional string\<close>

definition or_else :: "string option \<Rightarrow> string \<Rightarrow> string" where
  "or_else x d = (case x of None \<Rightarrow> d | Some s \<Rightarrow> (if s = [] then d else s))"

section \<open>Case and white space\<close>

definition lower_char :: "char \<Rightarrow> char" where
  "lower_char c =
     (let n = (of_char c :: nat)
      in if (65 \<le> n \<and> n \<le> 90) \<or> (192 \<le> n \<and> n \<le> 222 \<and> n \<noteq> 215) then char_of (n + 32) else c)"

definition to_lower :: "string \<Rightarrow> string" where
  "to_lower s = map lower_char s"

lemma lower_char_code:
  "(of_char (lower_char c) :: nat) =
     (let n = (of_char c :: nat)
      in if (65 \<le> n \<and> n \<le> 90) \<or> (192 \<le> n \<and> n \<le> 222 \<and> n \<noteq> 215) then n + 32 else n)"
  by (simp add: lower_char_def Let_def)

lemma lower_char_idem [simp]: "lower_char (lower_char c) = lower_char c"
  unfolding lower_char_def [of "lower_char c"] lower_char_code by (auto simp: Let_def)

lemma to_lower_idem [simp]: "to_lower (to_lower s) = to_lower s"
  by (simp add: to_lower_def)

lemma length_to_lower [simp]: "length (to_lower s) = length s"
  by (simp add: to_lower_def)

lemma to_lower_append [simp]: "to_lower (a @ b) = to_lower a @ to_lower b"
  by (simp add: to_lower_def)

text \<open>The code points up to 255 that \<open>trim\<close> removes.\<close>

definition is_space :: "char \<Rightarrow> bool" where
  "is_space c = (let n = (of_char c :: nat) in (9 \<le> n \<and> n \<le> 13) \<or> n = 32 \<or> n = 160)"

definition trim :: "string \<Rightarrow> string" where
  "trim s = rev (dropWhile is_space (rev (dropWhile is_space s)))"

lemma dropWhile_idem: "dropWhile P (dropWhile P xs) = dropWhile P xs"
  by (induction xs) auto

lemma dropWhile_no_head: "xs = [] \<or> \<not> P (hd xs) \<Longrightarrow> dropWhile P xs = xs"
  by (cases xs) auto

lemma trim_stripped:
  assumes "s = [] \<or> (\<not> is_space (hd s) \<and> \<not> is_space (last s))"
  shows "trim s = s"
  using assms by (cases "s = []") (simp_all add: trim_def dropWhile_no_head hd_rev)

lemma trim_ends: "trim s = [] \<or> (\<not> is_space (hd (trim s)) \<and> \<not> is_space (last (trim s)))"
proof (cases "trim s = []")
  case True
  then show ?thesis by simp
next
  case False
  let ?t = "dropWhile is_space s"
  from False have ne: "dropWhile is_space (rev ?t) \<noteq> []" by (auto simp: trim_def)
  then have l: "\<not> is_space (last (trim s))"
    by (simp add: trim_def last_rev hd_dropWhile)
  have "?t \<noteq> []"
  proof
    assume "?t = []"
    with ne show False by simp
  qed
  then have h: "\<not> is_space (hd ?t)" by (simp add: hd_dropWhile)
  obtain pre where pre: "rev ?t = pre @ dropWhile is_space (rev ?t)"
    using takeWhile_dropWhile_id [of is_space "rev ?t"] by metis
  have "?t = rev (dropWhile is_space (rev ?t)) @ rev pre"
    using arg_cong [OF pre, of rev] by simp
  then have "hd ?t = hd (trim s)"
    using ne by (metis hd_append2 rev_is_Nil_conv trim_def)
  with h l show ?thesis by simp
qed

lemma trim_idem [simp]: "trim (trim s) = trim s"
  by (rule trim_stripped) (rule trim_ends)

lemma is_space_lower [simp]: "is_space (lower_char c) = is_space c"
  unfolding is_space_def lower_char_code by (simp add: Let_def)

lemma dropWhile_to_lower: "dropWhile is_space (to_lower s) = to_lower (dropWhile is_space s)"
  by (induction s) (auto simp: to_lower_def)

lemma rev_to_lower: "rev (to_lower s) = to_lower (rev s)"
  by (simp add: to_lower_def rev_map)

lemma trim_to_lower: "trim (to_lower s) = to_lower (trim s)"
  by (simp add: trim_def dropWhile_to_lower rev_to_lower)

section \<open>Joining and splitting\<close>

text \<open>\<open>xs.join(sep)\<close>, and \<open>s.split(c)\<close> for a separator of one character.\<close>

fun join_with :: "string \<Rightarrow> string list \<Rightarrow> string" where
  "join_with sep [] = []"
| "join_with sep [s] = s"
| "join_with sep (s # t # ts) = s @ sep @ join_with sep (t # ts)"

fun split_at :: "char \<Rightarrow> string \<Rightarrow> string list" where
  "split_at c [] = [[]]"
| "split_at c (x # xs) =
     (if x = c then [] # split_at c xs
      else (case split_at c xs of [] \<Rightarrow> [[x]] | y # ys \<Rightarrow> (x # y) # ys))"

lemma split_at_plain: "c \<notin> set s \<Longrightarrow> split_at c s = [s]"
  by (induction s) auto

lemma split_at_append: "c \<notin> set s \<Longrightarrow> split_at c (s @ c # t) = s # split_at c t"
  by (induction s) auto

lemma split_join:
  assumes "xs \<noteq> []" and "\<And>x. x \<in> set xs \<Longrightarrow> c \<notin> set x"
  shows "split_at c (join_with [c] xs) = xs"
  using assms by (induction "[c]" xs rule: join_with.induct) (auto simp: split_at_plain split_at_append)

lemma split_at_pieces: "p \<in> set (split_at c s) \<Longrightarrow> c \<notin> set p \<and> set p \<subseteq> set s"
  by (induction s arbitrary: p) (simp, fastforce split: list.splits if_splits)

lemma set_join_with: "c \<in> set (join_with sep xs) \<Longrightarrow> c \<in> set sep \<or> (\<exists>x \<in> set xs. c \<in> set x)"
  by (induction sep xs rule: join_with.induct) auto

section \<open>Digits and numbers\<close>

definition is_digit :: "char \<Rightarrow> bool" where
  "is_digit c = (let n = (of_char c :: nat) in 48 \<le> n \<and> n \<le> 57)"

text \<open>\<open>/^\d+$/.test(s)\<close>\<close>

definition all_digits :: "string \<Rightarrow> bool" where
  "all_digits s \<longleftrightarrow> s \<noteq> [] \<and> list_all is_digit s"

definition digit_val :: "char \<Rightarrow> nat" where
  "digit_val c = of_char c - 48"

fun nat_of_digits :: "nat \<Rightarrow> string \<Rightarrow> nat" where
  "nat_of_digits acc [] = acc"
| "nat_of_digits acc (c # cs) = nat_of_digits (10 * acc + digit_val c) cs"

fun show_nat :: "nat \<Rightarrow> string" where
  "show_nat n = (if n < 10 then [char_of (48 + n)] else show_nat (n div 10) @ [char_of (48 + n mod 10)])"

declare show_nat.simps [simp del]

definition show_int :: "int \<Rightarrow> string" where
  "show_int i = (if i < 0 then CHR ''-'' # show_nat (nat (- i)) else show_nat (nat i))"

lemma digit_char: "d < 10 \<Longrightarrow> (of_char (char_of (48 + d) :: char) :: nat) = 48 + d"
  by simp

lemma all_digits_show_nat: "all_digits (show_nat n)"
proof (induction n rule: show_nat.induct)
  case (1 n)
  show ?case
  proof (cases "n < 10")
    case True
    then show ?thesis
      by (subst show_nat.simps) (simp add: all_digits_def is_digit_def digit_char Let_def)
  next
    case False
    with 1 have "all_digits (show_nat (n div 10))" by simp
    moreover have "is_digit (char_of (48 + n mod 10))"
      by (simp add: is_digit_def Let_def)
    ultimately show ?thesis
      using False by (subst show_nat.simps) (simp add: all_digits_def)
  qed
qed

lemma nat_of_digits_append:
  "nat_of_digits acc (xs @ [c]) = 10 * nat_of_digits acc xs + digit_val c"
  by (induction xs arbitrary: acc) auto

lemma nat_of_digits_show_nat: "nat_of_digits 0 (show_nat n) = n"
proof (induction n rule: show_nat.induct)
  case (1 n)
  show ?case
  proof (cases "n < 10")
    case True
    then show ?thesis by (subst show_nat.simps) (simp add: digit_val_def)
  next
    case False
    with 1 have "nat_of_digits 0 (show_nat (n div 10)) = n div 10" by simp
    with False show ?thesis
      by (subst show_nat.simps) (simp add: nat_of_digits_append digit_val_def)
  qed
qed

lemma show_nat_inj: "show_nat a = show_nat b \<longleftrightarrow> a = b"
  by (metis nat_of_digits_show_nat)

lemma show_nat_is_zero [simp]: "show_nat n = ''0'' \<longleftrightarrow> n = 0"
proof -
  have "show_nat 0 = ''0''" by code_simp
  then show ?thesis by (metis show_nat_inj)
qed

text \<open>Hexadecimal digits.\<close>

definition hex_val :: "char \<Rightarrow> nat option" where
  "hex_val c =
     (let n = (of_char c :: nat)
      in if 48 \<le> n \<and> n \<le> 57 then Some (n - 48)
         else if 97 \<le> n \<and> n \<le> 102 then Some (n - 87)
         else if 65 \<le> n \<and> n \<le> 70 then Some (n - 55)
         else None)"

definition is_hex :: "char \<Rightarrow> bool" where
  "is_hex c = (hex_val c \<noteq> None)"

fun nat_of_hex :: "nat \<Rightarrow> string \<Rightarrow> nat" where
  "nat_of_hex acc [] = acc"
| "nat_of_hex acc (c # cs) =
     (case hex_val c of None \<Rightarrow> acc | Some d \<Rightarrow> nat_of_hex (16 * acc + d) cs)"

text \<open>
  \<open>Buffer.from(s, 'hex')\<close>: pairs of hexadecimal digits, up to the first pair that is not one.
\<close>

fun from_hex :: "string \<Rightarrow> nat list" where
  "from_hex (a # b # cs) =
     (case (hex_val a, hex_val b) of
        (Some x, Some y) \<Rightarrow> (16 * x + y) # from_hex cs
      | _ \<Rightarrow> [])"
| "from_hex _ = []"

lemma hex_val_lower [simp]: "hex_val (lower_char c) = hex_val c"
  unfolding hex_val_def lower_char_code by (auto simp: Let_def)

lemma from_hex_lower: "from_hex (to_lower s) = from_hex s"
  by (induction s rule: from_hex.induct)
     (auto simp: to_lower_def split: option.splits)

text \<open>
  \<open>parseInt(s)\<close>: leading white space, a sign, the prefix \<open>0x\<close>, then the longest run of
  digits; \<open>None\<close> is \<open>NaN\<close>.
\<close>

definition parse_int :: "string \<Rightarrow> int option" where
  "parse_int s =
     (let t = dropWhile is_space s;
          neg = starts_with t ''-'';
          u = (if neg \<or> starts_with t ''+'' then drop 1 t else t)
      in if starts_with u ''0x'' \<or> starts_with u ''0X'' then
           (let ds = takeWhile is_hex (drop 2 u)
            in if ds = [] then None
               else Some (if neg then - int (nat_of_hex 0 ds) else int (nat_of_hex 0 ds)))
         else
           (let ds = takeWhile is_digit u
            in if ds = [] then None
               else Some (if neg then - int (nat_of_digits 0 ds) else int (nat_of_digits 0 ds))))"

text \<open>\<open>parseInt(s, 10)\<close> has no prefix rule.\<close>

definition parse_int10 :: "string \<Rightarrow> int option" where
  "parse_int10 s =
     (let t = dropWhile is_space s;
          neg = starts_with t ''-'';
          u = (if neg \<or> starts_with t ''+'' then drop 1 t else t);
          ds = takeWhile is_digit u
      in if ds = [] then None
         else Some (if neg then - int (nat_of_digits 0 ds) else int (nat_of_digits 0 ds)))"

end
