(* ===== verification/Trade_Types.thy ===== *)
theory Trade_Types imports Main Js_Text begin

text \<open>
  The data shared by the SDK and the services: the trade status enumeration and the trade
  record of \<open>sdk/src/types/trade.ts\<close>, the JavaScript error values, and the parameter
  checks of \<open>sdk/src/utils/validation.ts\<close>.  A \<open>Date\<close> is its number of milliseconds, a
  \<open>bigint\<close> is an \<open>int\<close>.
\<close>

section \<open>Errors\<close>

datatype error_type = VALIDATION | NETWORK | CONTRACT | TERMINAL | INDEXER_LAG

text \<open>
  A thrown \<open>Error\<close>: its \<open>name\<close>, \<open>message\<close>, the optional \<open>code\<close> and \<open>reason\<close> that database,
  SDK and ethers errors carry, and, when it is an instance of the oracle's \<open>OracleError\<close>,
  its \<open>errorType\<close> and \<open>isTerminal\<close>.
\<close>

record js_error =
  js_name :: string
  js_message :: string
  js_code :: "string option"
  js_reason :: "string option"
  js_oracle :: "(error_type \<times> bool) option"

definition plain_error :: "string \<Rightarrow> js_error" where
  "plain_error m = \<lparr>js_name = ''Error'', js_message = m, js_code = None, js_reason = None, js_oracle = None\<rparr>"

definition sdk_contract_error :: "string \<Rightarrow> js_error" where
  "sdk_contract_error m =
     \<lparr>js_name = ''ContractError'', js_message = m, js_code = Some ''CONTRACT_ERROR'',
      js_reason = None, js_oracle = None\<rparr>"

definition sdk_validation_error :: "string \<Rightarrow> js_error" where
  "sdk_validation_error m =
     \<lparr>js_name = ''ValidationError'', js_message = m, js_code = Some ''VALIDATION_ERROR'',
      js_reason = None, js_oracle = None\<rparr>"

definition sdk_authorization_error :: "string \<Rightarrow> js_error" where
  "sdk_authorization_error m =
     \<lparr>js_name = ''AuthorizationError'', js_message = m, js_code = Some ''AUTHORIZATION_ERROR'',
      js_reason = None, js_oracle = None\<rparr>"

section \<open>Trade status\<close>

text \<open>
  The numeric enumeration \<open>TradeStatus\<close>.  The SDK casts any number to it
  (\<open>Number(trade.status) as TradeStatus\<close>), so the numbers above 4 are values too:
  \<open>OtherStatus k\<close> is the number \<open>k + 5\<close>.
\<close>

datatype trade_status = LOCKED | IN_TRANSIT | ARRIVAL_CONFIRMED | FROZEN | CLOSED | OtherStatus nat

fun status_number :: "trade_status \<Rightarrow> nat" where
  "status_number LOCKED = 0"
| "status_number IN_TRANSIT = 1"
| "status_number ARRIVAL_CONFIRMED = 2"
| "status_number FROZEN = 3"
| "status_number CLOSED = 4"
| "status_number (OtherStatus k) = k + 5"

definition status_of_number :: "nat \<Rightarrow> trade_status" where
  "status_of_number n =
     (if n = 0 then LOCKED else if n = 1 then IN_TRANSIT else if n = 2 then ARRIVAL_CONFIRMED
      else if n = 3 then FROZEN else if n = 4 then CLOSED else OtherStatus (n - 5))"

lemma status_of_number_inverse [simp]: "status_of_number (status_number s) = s"
  by (cases s) (simp_all add: status_of_number_def)

lemma status_number_inverse [simp]: "status_number (status_of_number n) = n"
  by (simp add: status_of_number_def)

lemma status_number_inject [simp]: "status_number a = status_number b \<longleftrightarrow> a = b"
  by (metis status_of_number_inverse)

text \<open>Statuses compare as their numbers, as the enumeration's values do.\<close>

instantiation trade_status :: linorder
begin

definition less_eq_trade_status :: "trade_status \<Rightarrow> trade_status \<Rightarrow> bool" where
  "less_eq_trade_status a b \<longleftrightarrow> status_number a \<le> status_number b"

definition less_trade_status :: "trade_status \<Rightarrow> trade_status \<Rightarrow> bool" where
  "less_trade_status a b \<longleftrightarrow> status_number a < status_number b"

instance
  by standard (auto simp: less_eq_trade_status_def less_trade_status_def)

end

text \<open>\<open>TradeStatus[s]\<close>: the reverse mapping of the enumeration.\<close>

fun status_name :: "trade_status \<Rightarrow> string" where
  "status_name LOCKED = ''LOCKED''"
| "status_name IN_TRANSIT = ''IN_TRANSIT''"
| "status_name ARRIVAL_CONFIRMED = ''ARRIVAL_CONFIRMED''"
| "status_name FROZEN = ''FROZEN''"
| "status_name CLOSED = ''CLOSED''"
| "status_name (OtherStatus _) = ''undefined''"

section \<open>Trades\<close>

record trade =
  td_tradeId :: string
  td_buyer :: string
  td_supplier :: string
  td_status :: trade_status
  td_totalAmountLocked :: int
  td_logisticsAmount :: int
  td_platformFeesAmount :: int
  td_supplierFirstTranche :: int
  td_supplierSecondTranche :: int
  td_ricardianHash :: string
  td_createdAt :: int
  td_arrivalTimestamp :: "int option"

record trade_parameters =
  tp_supplier :: string
  tp_totalAmount :: int
  tp_logisticsAmount :: int
  tp_platformFeesAmount :: int
  tp_supplierFirstTranche :: int
  tp_supplierSecondTranche :: int
  tp_ricardianHash :: string
  tp_deadline :: "int option"

section \<open>Parameter checks\<close>

text \<open>
  \<open>ethers.isAddress\<close> is a parameter of the model (\<open>isaddr\<close>): the address checksum is a hash of
  a package that is not part of the repository.
\<close>

definition zero_address :: string where
  "zero_address = ''0x'' @ replicate 40 (CHR ''0'')"

definition validateAddress :: "(string \<Rightarrow> bool) \<Rightarrow> string \<Rightarrow> string \<Rightarrow> js_error + unit" where
  "validateAddress isaddr address fieldName =
     (if \<not> isaddr address then
        Inl (sdk_validation_error (''invalid '' @ fieldName @ '' address''))
      else if address = zero_address then
        Inl (sdk_validation_error (fieldName @ '' cannot be zero address''))
      else Inr ())"

text \<open>\<open>/^0x[a-fA-F0-9]{64}$/.test(s)\<close>\<close>

definition is_bytes32_hex :: "string \<Rightarrow> bool" where
  "is_bytes32_hex s \<longleftrightarrow> starts_with s ''0x'' \<and> length (drop 2 s) = 64 \<and> list_all is_hex (drop 2 s)"

definition validateTradeParameters :: "(string \<Rightarrow> bool) \<Rightarrow> trade_parameters \<Rightarrow> js_error + unit" where
  "validateTradeParameters isaddr params =
     (case validateAddress isaddr (tp_supplier params) ''supplier'' of
        Inl e \<Rightarrow> Inl e
      | Inr _ \<Rightarrow>
        (if tp_totalAmount params \<le> 0 then
           Inl (sdk_validation_error ''totalAmount must be positive'')
         else if tp_logisticsAmount params < 0 then
           Inl (sdk_validation_error ''logisticsAmount cannot be negative'')
         else if tp_platformFeesAmount params < 0 then
           Inl (sdk_validation_error ''platformFeesAmount cannot be negative'')
         else if tp_supplierFirstTranche params \<le> 0 then
           Inl (sdk_validation_error ''supplierFirstTranche must be positive'')
         else if tp_supplierSecondTranche params \<le> 0 then
           Inl (sdk_validation_error ''supplierSecondTranche must be positive'')
         else
           (let expectedTotal = tp_logisticsAmount params + tp_platformFeesAmount params
                  + tp_supplierFirstTranche params + tp_supplierSecondTranche params
            in if tp_totalAmount params \<noteq> expectedTotal then
                 Inl (sdk_validation_error ''amount breakdown does not match totalAmount'')
               else if \<not> is_bytes32_hex (tp_ricardianHash params) then
                 Inl (sdk_validation_error ''ricardianHash must be a 32-byte hex string (0x...)'')
               else Inr ())))"

lemma validateAddress_ok:
  "validateAddress isaddr a f = Inr u \<longleftrightarrow> isaddr a \<and> a \<noteq> zero_address"
  by (simp add: validateAddress_def)

text \<open>The accepted parameters are exactly the well-formed ones.\<close>

definition well_formed_parameters :: "(string \<Rightarrow> bool) \<Rightarrow> trade_parameters \<Rightarrow> bool" where
  "well_formed_parameters isaddr p \<longleftrightarrow>
     isaddr (tp_supplier p) \<and> tp_supplier p \<noteq> zero_address \<and>
     0 \<le> tp_logisticsAmount p \<and> 0 \<le> tp_platformFeesAmount p \<and>
     0 < tp_supplierFirstTranche p \<and> 0 < tp_supplierSecondTranche p \<and>
     tp_totalAmount p = sum_list [tp_logisticsAmount p, tp_platformFeesAmount p,
       tp_supplierFirstTranche p, tp_supplierSecondTranche p] \<and>
     is_bytes32_hex (tp_ricardianHash p)"

lemma validateTradeParameters_iff:
  "validateTradeParameters isaddr p = Inr () \<longleftrightarrow> well_formed_parameters isaddr p"
  unfolding validateTradeParameters_def well_formed_parameters_def
  by (auto simp: validateAddress_def Let_def)

end
