(* ===== verification/Effect.thy ===== *)
theory Effect imports Main "HOL-Library.Sublist" begin

text \<open>
  The effects of a service method.  A method of the TypeScript classes is an asynchronous
  function that reads and writes some state and either returns a value or throws.  It is
  modelled as a state transformer with an error sum: \<open>m w = (Inl e, w')\<close> is a throw of \<open>e\<close>
  that leaves the state \<open>w'\<close> (JavaScript does not roll a state back), and
  \<open>m w = (Inr x, w')\<close> is a return of \<open>x\<close>.  The theory holds the combinators, the
  invariant predicate \<open>keeps\<close> with its rules, and the triples \<open>triple\<close>.
\<close>

type_synonym ('e, 'w, 'a) eff = "'w \<Rightarrow> ('e + 'a) \<times> 'w"

named_theorems eff_simps "evaluation of the effect combinators"
named_theorems keeps_rules "rules that split an invariant goal along a method body"

section \<open>Combinators\<close>

definition ret :: "'a \<Rightarrow> ('e, 'w, 'a) eff" where
  "ret x w = (Inr x, w)"

definition throw :: "'e \<Rightarrow> ('e, 'w, 'a) eff" where
  "throw e w = (Inl e, w)"

definition bindE :: "('e, 'w, 'a) eff \<Rightarrow> ('a \<Rightarrow> ('e, 'w, 'b) eff) \<Rightarrow> ('e, 'w, 'b) eff" where
  "bindE m f w = (case m w of (Inl e, w') \<Rightarrow> (Inl e, w') | (Inr x, w') \<Rightarrow> f x w')"

definition seqE :: "('e, 'w, 'a) eff \<Rightarrow> ('e, 'w, 'b) eff \<Rightarrow> ('e, 'w, 'b) eff" where
  "seqE m n = bindE m (\<lambda>_. n)"

text \<open>\<open>try { m } catch (e) { h(e) }\<close>\<close>

definition catchE :: "('e, 'w, 'a) eff \<Rightarrow> ('e \<Rightarrow> ('e, 'w, 'a) eff) \<Rightarrow> ('e, 'w, 'a) eff" where
  "catchE m h w = (case m w of (Inl e, w') \<Rightarrow> h e w' | (Inr x, w') \<Rightarrow> (Inr x, w'))"

definition asks :: "('w \<Rightarrow> 'a) \<Rightarrow> ('e, 'w, 'a) eff" where
  "asks f w = (Inr (f w), w)"

definition change :: "('w \<Rightarrow> 'w) \<Rightarrow> ('e, 'w, unit) eff" where
  "change f w = (Inr (), f w)"

text \<open>A pure check that may throw.\<close>

definition lift :: "'e + 'a \<Rightarrow> ('e, 'w, 'a) eff" where
  "lift r w = (r, w)"

text \<open>\<open>for (const x of xs) { await f(x); }\<close>\<close>

fun forE :: "'a list \<Rightarrow> ('a \<Rightarrow> ('e, 'w, unit) eff) \<Rightarrow> ('e, 'w, unit) eff" where
  "forE [] f = ret ()"
| "forE (x # xs) f = seqE (f x) (forE xs f)"

text \<open>The same with an accumulator, the local variables that the body updates.\<close>

fun foldE :: "('s \<Rightarrow> 'a \<Rightarrow> ('e, 'w, 's) eff) \<Rightarrow> 's \<Rightarrow> 'a list \<Rightarrow> ('e, 'w, 's) eff" where
  "foldE f s [] = ret s"
| "foldE f s (x # xs) = bindE (f s x) (\<lambda>s'. foldE f s' xs)"

abbreviation result_of :: "('e + 'a) \<times> 'w \<Rightarrow> 'e + 'a" where
  "result_of \<equiv> fst"

abbreviation state_of :: "('e + 'a) \<times> 'w \<Rightarrow> 'w" where
  "state_of \<equiv> snd"

lemma ret_app [eff_simps]: "ret x w = (Inr x, w)"
  by (simp add: ret_def)

lemma throw_app [eff_simps]: "throw e w = (Inl e, w)"
  by (simp add: throw_def)

lemma asks_app [eff_simps]: "asks f w = (Inr (f w), w)"
  by (simp add: asks_def)

lemma change_app [eff_simps]: "change f w = (Inr (), f w)"
  by (simp add: change_def)

lemma lift_app [eff_simps]: "lift r w = (r, w)"
  by (simp add: lift_def)

lemma bindE_app [eff_simps]:
  "bindE m f w = (case m w of (r, w') \<Rightarrow> (case r of Inl e \<Rightarrow> (Inl e, w') | Inr x \<Rightarrow> f x w'))"
  by (simp add: bindE_def split: prod.splits sum.splits)

lemma seqE_app [eff_simps]:
  "seqE m n w = (case m w of (r, w') \<Rightarrow> (case r of Inl e \<Rightarrow> (Inl e, w') | Inr x \<Rightarrow> n w'))"
  by (simp add: seqE_def bindE_app)

lemma catchE_app [eff_simps]:
  "catchE m h w = (case m w of (r, w') \<Rightarrow> (case r of Inl e \<Rightarrow> h e w' | Inr x \<Rightarrow> (Inr x, w')))"
  by (simp add: catchE_def split: prod.splits sum.splits)

lemma bindE_ret [simp]: "bindE (ret x) f = f x"
  by (rule ext) (simp add: eff_simps)

lemma bindE_assoc: "bindE (bindE m f) g = bindE m (\<lambda>x. bindE (f x) g)"
  by (rule ext) (simp add: eff_simps split: prod.splits sum.splits)

lemma forE_append: "forE (xs @ ys) f = seqE (forE xs f) (forE ys f)"
  by (induction xs) (auto simp: fun_eq_iff eff_simps split: prod.splits sum.splits)

section \<open>State predicates a method keeps\<close>

definition keeps :: "('w \<Rightarrow> bool) \<Rightarrow> ('e, 'w, 'a) eff \<Rightarrow> bool" where
  "keeps P m \<longleftrightarrow> (\<forall>w. P w \<longrightarrow> P (state_of (m w)))"

lemma keepsI: "(\<And>w. P w \<Longrightarrow> P (state_of (m w))) \<Longrightarrow> keeps P m"
  by (simp add: keeps_def)

lemma keepsD: "keeps P m \<Longrightarrow> P w \<Longrightarrow> P (state_of (m w))"
  by (simp add: keeps_def)

lemma keeps_ret [keeps_rules]: "keeps P (ret x)"
  by (rule keepsI) (simp add: eff_simps)

lemma keeps_throw [keeps_rules]: "keeps P (throw e)"
  by (rule keepsI) (simp add: eff_simps)

lemma keeps_asks [keeps_rules]: "keeps P (asks f)"
  by (rule keepsI) (simp add: eff_simps)

lemma keeps_lift [keeps_rules]: "keeps P (lift r)"
  by (rule keepsI) (simp add: eff_simps)

lemma keeps_change: "(\<And>w. P w \<Longrightarrow> P (f w)) \<Longrightarrow> keeps P (change f)"
  by (rule keepsI) (simp add: eff_simps)

lemma keeps_bind [keeps_rules]:
  assumes "keeps P m" and "\<And>x. keeps P (f x)"
  shows "keeps P (bindE m f)"
proof (rule keepsI)
  fix w assume P: "P w"
  obtain r w' where mw: "m w = (r, w')" by (cases "m w")
  with assms(1) P have "P w'" by (auto dest: keepsD)
  with assms(2) mw show "P (state_of (bindE m f w))"
    by (cases r) (auto simp: eff_simps dest: keepsD)
qed

lemma keeps_seq [keeps_rules]: "keeps P m \<Longrightarrow> keeps P n \<Longrightarrow> keeps P (seqE m n)"
  unfolding seqE_def by (rule keeps_bind)

lemma keeps_catch [keeps_rules]:
  assumes "keeps P m" and "\<And>e. keeps P (h e)"
  shows "keeps P (catchE m h)"
proof (rule keepsI)
  fix w assume P: "P w"
  obtain r w' where mw: "m w = (r, w')" by (cases "m w")
  with assms(1) P have "P w'" by (auto dest: keepsD)
  with assms(2) mw show "P (state_of (catchE m h w))"
    by (cases r) (auto simp: eff_simps dest: keepsD)
qed

lemma keeps_if [keeps_rules]:
  "(b \<Longrightarrow> keeps P m) \<Longrightarrow> (\<not> b \<Longrightarrow> keeps P n) \<Longrightarrow> keeps P (if b then m else n)"
  by simp

lemma keeps_case_option [keeps_rules]:
  "(x = None \<Longrightarrow> keeps P m) \<Longrightarrow> (\<And>y. x = Some y \<Longrightarrow> keeps P (f y)) \<Longrightarrow>
   keeps P (case x of None \<Rightarrow> m | Some y \<Rightarrow> f y)"
  by (cases x) simp_all

lemma keeps_case_sum [keeps_rules]:
  "(\<And>y. x = Inl y \<Longrightarrow> keeps P (f y)) \<Longrightarrow> (\<And>y. x = Inr y \<Longrightarrow> keeps P (g y)) \<Longrightarrow>
   keeps P (case x of Inl y \<Rightarrow> f y | Inr y \<Rightarrow> g y)"
  by (cases x) simp_all

lemma keeps_let [keeps_rules]: "keeps P (f x) \<Longrightarrow> keeps P (let y = x in f y)"
  by simp

lemma keeps_case_prod [keeps_rules]: "(\<And>a b. keeps P (f a b)) \<Longrightarrow> keeps P (case x of (a, b) \<Rightarrow> f a b)"
  by (cases x) simp

lemma keeps_for [keeps_rules]: "(\<And>x. x \<in> set xs \<Longrightarrow> keeps P (f x)) \<Longrightarrow> keeps P (forE xs f)"
  by (induction xs) (auto intro: keeps_ret keeps_seq)

lemma keeps_foldE [keeps_rules]:
  "(\<And>s x. x \<in> set xs \<Longrightarrow> keeps P (f s x)) \<Longrightarrow> keeps P (foldE f s xs)"
  by (induction xs arbitrary: s) (auto intro: keeps_ret keeps_bind)

section \<open>Triples\<close>

definition triple :: "('w \<Rightarrow> bool) \<Rightarrow> ('e, 'w, 'a) eff \<Rightarrow> ('e + 'a \<Rightarrow> 'w \<Rightarrow> bool) \<Rightarrow> bool" where
  "triple P m Q \<longleftrightarrow> (\<forall>w. P w \<longrightarrow> Q (result_of (m w)) (state_of (m w)))"

lemma tripleI: "(\<And>w. P w \<Longrightarrow> Q (result_of (m w)) (state_of (m w))) \<Longrightarrow> triple P m Q"
  by (simp add: triple_def)

lemma tripleD: "triple P m Q \<Longrightarrow> P w \<Longrightarrow> Q (result_of (m w)) (state_of (m w))"
  by (simp add: triple_def)

lemma triple_bind:
  assumes "triple P m R" and "\<And>e w. R (Inl e) w \<Longrightarrow> Q (Inl e) w"
    and "\<And>x. triple (R (Inr x)) (f x) Q"
  shows "triple P (bindE m f) Q"
proof (rule tripleI)
  fix w assume P: "P w"
  obtain r w' where mw: "m w = (r, w')" by (cases "m w")
  with assms(1) P have R: "R r w'" by (auto dest: tripleD)
  show "Q (result_of (bindE m f w)) (state_of (bindE m f w))"
  proof (cases r)
    case (Inl e)
    with mw R assms(2) show ?thesis by (simp add: eff_simps)
  next
    case (Inr x)
    with R have "R (Inr x) w'" by simp
    then have "Q (result_of (f x w')) (state_of (f x w'))"
      by (rule tripleD [OF assms(3)])
    with mw Inr show ?thesis by (simp add: eff_simps)
  qed
qed

lemma triple_seq:
  assumes "triple P m R" and "\<And>e w. R (Inl e) w \<Longrightarrow> Q (Inl e) w"
    and "\<And>x. triple (R (Inr x)) n Q"
  shows "triple P (seqE m n) Q"
  unfolding seqE_def using assms by (rule triple_bind)

lemma triple_post: "triple P m R \<Longrightarrow> (\<And>r w. R r w \<Longrightarrow> Q r w) \<Longrightarrow> triple P m Q"
  by (simp add: triple_def)

lemma triple_pre: "triple P m Q \<Longrightarrow> (\<And>w. P' w \<Longrightarrow> P w) \<Longrightarrow> triple P' m Q"
  by (simp add: triple_def)

lemma triple_ret: "(\<And>w. P w \<Longrightarrow> Q (Inr x) w) \<Longrightarrow> triple P (ret x) Q"
  by (simp add: triple_def ret_app)

lemma triple_False: "triple (\<lambda>_. False) m Q"
  by (simp add: triple_def)

lemma triple_keeps: "keeps P m \<Longrightarrow> triple P m (\<lambda>_. P)"
  by (simp add: keeps_def triple_def)

end
