(* ===== verification/Notifier.thy ===== *)
theory Notifier imports Main Js_Text "HOL-Library.AList" begin

text \<open>
  The webhook notifier of \<open>notifications/src/index.ts\<close>: routing of an event to a Slack
  payload, the cool-down cache keyed by \<open>dedupKey\<close>, and delivery with bounded retries.
  The clock and the outcome of each HTTP request are functions of a tick, a counter that each
  of them advances.  Log calls are left out, and so is the field \<open>metadata\<close> of an event, which
  the payload does not use.  The retry settings are integers (\<open>Math.trunc\<close> is the identity).
  The property is at the end.
\<close>

section \<open>Events and payloads\<close>

datatype notification_severity = Sev_info | Sev_warning | Sev_critical

fun severity_text :: "notification_severity \<Rightarrow> string" where
  "severity_text Sev_info = ''info''"
| "severity_text Sev_warning = ''warning''"
| "severity_text Sev_critical = ''critical''"

record correlation =
  co_tradeId :: "string option"
  co_actionKey :: "string option"
  co_requestId :: "string option"
  co_txHash :: "string option"
  co_runKey :: "string option"
  co_mismatchCode :: "string option"

definition no_correlation :: correlation where
  "no_correlation = \<lparr>co_tradeId = None, co_actionKey = None, co_requestId = None,
     co_txHash = None, co_runKey = None, co_mismatchCode = None\<rparr>"

record notification_event =
  ne_source :: string
  ne_type :: string
  ne_severity :: notification_severity
  ne_dedupKey :: string
  ne_message :: string
  ne_correlation :: correlation

record notifier_config =
  nc_enabled :: bool
  nc_webhookUrl :: "string option"
  nc_cooldownMs :: int
  nc_requestTimeoutMs :: "int option"
  nc_retryAttempts :: "int option"
  nc_retryDelayMs :: "int option"
  nc_maxRetryDelayMs :: "int option"

record slack_field =
  sf_title :: string
  sf_value :: string
  sf_short :: bool

record slack_payload =
  sp_text :: string
  sp_color :: string
  sp_fields :: "slack_field list"

definition notification_template_versions :: "(string \<times> string) list" where
  "notification_template_versions =
     [(''ORACLE_TRIGGER_TERMINAL_FAILURE'', ''oracle-terminal-v1''),
      (''ORACLE_TRIGGER_EXHAUSTED_NEEDS_REDRIVE'', ''oracle-redrive-v1''),
      (''ORACLE_CONFIRMATION_TIMEOUT'', ''oracle-confirmation-timeout-v1''),
      (''RECONCILIATION_CRITICAL_DRIFT'', ''reconciliation-critical-drift-v1'')]"

fun colorForSeverity :: "notification_severity \<Rightarrow> string" where
  "colorForSeverity Sev_critical = ''#d32f2f''"
| "colorForSeverity Sev_warning = ''#f57c00''"
| "colorForSeverity Sev_info = ''#1976d2''"

fun severityRouteForSeverity :: "notification_severity \<Rightarrow> string" where
  "severityRouteForSeverity Sev_critical = ''pager''"
| "severityRouteForSeverity Sev_warning = ''operations''"
| "severityRouteForSeverity Sev_info = ''informational''"

definition templateVersionForType :: "string \<Rightarrow> string" where
  "templateVersionForType ty =
     (case map_of notification_template_versions ty of None \<Rightarrow> ''generic-v1'' | Some v \<Rightarrow> v)"

definition correlationRows :: "notification_event \<Rightarrow> (string \<times> string option) list" where
  "correlationRows ev =
     (let c = ne_correlation ev in
      [(''tradeId'', co_tradeId c), (''actionKey'', co_actionKey c),
       (''requestId'', co_requestId c), (''txHash'', co_txHash c),
       (''runKey'', co_runKey c), (''mismatchCode'', co_mismatchCode c),
       (''templateVersion'', Some (templateVersionForType (ne_type ev))),
       (''severityRoute'', Some (severityRouteForSeverity (ne_severity ev))),
       (''routingVersion'', Some ''2026-02-21'')])"

definition toSlackPayload :: "notification_event \<Rightarrow> slack_payload" where
  "toSlackPayload ev =
     \<lparr>sp_text = ''['' @ ne_source ev @ ''] '' @ ne_type ev @ '' ('' @ severity_text (ne_severity ev) @ '')'',
      sp_color = colorForSeverity (ne_severity ev),
      sp_fields = \<lparr>sf_title = ''message'', sf_value = ne_message ev, sf_short = False\<rparr> #
        map (\<lambda>(title, value). \<lparr>sf_title = title, sf_value = the value, sf_short = True\<rparr>)
          (filter (\<lambda>(_, value). truthy_opt value) (correlationRows ev))\<rparr>"

section \<open>Retry settings\<close>

definition normalizeRetryAttempts :: "notifier_config \<Rightarrow> int" where
  "normalizeRetryAttempts cfg =
     (let configured = (case nc_retryAttempts cfg of None \<Rightarrow> 0 | Some n \<Rightarrow> n)
      in if configured \<le> 0 then 0 else min configured 5)"

definition normalizeRetryDelayMs :: "notifier_config \<Rightarrow> int" where
  "normalizeRetryDelayMs cfg = max 0 (case nc_retryDelayMs cfg of None \<Rightarrow> 250 | Some n \<Rightarrow> n)"

definition normalizeMaxRetryDelayMs :: "notifier_config \<Rightarrow> int \<Rightarrow> int" where
  "normalizeMaxRetryDelayMs cfg baseDelayMs =
     max baseDelayMs (max 0 (case nc_maxRetryDelayMs cfg of None \<Rightarrow> 2000 | Some n \<Rightarrow> n))"

definition retryDelayForAttempt :: "int \<Rightarrow> int \<Rightarrow> int \<Rightarrow> int" where
  "retryDelayForAttempt attempt baseDelayMs maxDelayMs =
     min (baseDelayMs * 2 ^ nat (max 0 (attempt - 1))) maxDelayMs"

section \<open>Delivery\<close>

datatype http_outcome = HttpStatus int | HttpThrows

definition http_ok :: "http_outcome \<Rightarrow> bool" where
  "http_ok r = (case r of HttpStatus n \<Rightarrow> 200 \<le> n \<and> n \<le> 299 | HttpThrows \<Rightarrow> False)"

text \<open>The clock and the webhook, as functions of the tick.\<close>

record notifier_env =
  nv_now :: "nat \<Rightarrow> int"
  nv_http :: "nat \<Rightarrow> http_outcome"

text \<open>
  The notifier's state: the tick, the cache \<open>dedupCache\<close>, and two logs of what it did, the
  payloads posted and the delays slept.
\<close>

record notifier_state =
  ns_tick :: nat
  ns_cache :: "(string \<times> int) list"
  ns_posts :: "slack_payload list"
  ns_sleeps :: "int list"

definition isInCooldown :: "notifier_config \<Rightarrow> string \<Rightarrow> int \<Rightarrow> (string \<times> int) list \<Rightarrow> bool" where
  "isInCooldown cfg dedupKey now cache =
     (case map_of cache dedupKey of
        None \<Rightarrow> False
      | Some previous \<Rightarrow> previous \<noteq> 0 \<and> now - previous < nc_cooldownMs cfg)"

definition markSent :: "notifier_env \<Rightarrow> string \<Rightarrow> notifier_state \<Rightarrow> notifier_state" where
  "markSent env dedupKey s =
     s\<lparr>ns_cache := AList.update dedupKey (nv_now env (ns_tick s)) (ns_cache s),
       ns_tick := Suc (ns_tick s)\<rparr>"

text \<open>One POST: the outcome, and the state with the payload logged.\<close>

definition post_webhook ::
  "notifier_env \<Rightarrow> slack_payload \<Rightarrow> notifier_state \<Rightarrow> http_outcome \<times> notifier_state" where
  "post_webhook env payload s =
     (nv_http env (ns_tick s), s\<lparr>ns_posts := ns_posts s @ [payload], ns_tick := Suc (ns_tick s)\<rparr>)"

text \<open>\<open>sleep\<close> returns at once for a delay of 0 or less.\<close>

definition sleep_ms :: "int \<Rightarrow> notifier_state \<Rightarrow> notifier_state" where
  "sleep_ms ms s = (if ms \<le> 0 then s else s\<lparr>ns_sleeps := ns_sleeps s @ [ms]\<rparr>)"

function deliver ::
  "notifier_env \<Rightarrow> notification_event \<Rightarrow> slack_payload \<Rightarrow> int \<Rightarrow> int \<Rightarrow> int \<Rightarrow> int \<Rightarrow>
   notifier_state \<Rightarrow> bool \<times> notifier_state" where
  "deliver env ev payload baseDelayMs maxDelayMs totalAttempts attempt s =
     (if attempt \<le> totalAttempts then
        (case post_webhook env payload s of
           (r, s1) \<Rightarrow>
             if http_ok r then (True, markSent env (ne_dedupKey ev) s1)
             else
               deliver env ev payload baseDelayMs maxDelayMs totalAttempts (attempt + 1)
                 (if attempt < totalAttempts
                  then sleep_ms (retryDelayForAttempt attempt baseDelayMs maxDelayMs) s1
                  else s1))
      else (False, s))"
  by pat_completeness auto
termination
  by (relation "measure (\<lambda>(_, _, _, _, _, tot, attempt, _). nat (tot + 1 - attempt))") auto

declare deliver.simps [simp del]

definition notify :: "notifier_config \<Rightarrow> notifier_env \<Rightarrow> notification_event \<Rightarrow> notifier_state \<Rightarrow> bool \<times> notifier_state" where
  "notify cfg env ev s =
     (if \<not> nc_enabled cfg then (False, s)
      else if \<not> truthy_opt (nc_webhookUrl cfg) then (False, s)
      else
        (let now = nv_now env (ns_tick s); s1 = s\<lparr>ns_tick := Suc (ns_tick s)\<rparr>
         in if isInCooldown cfg (ne_dedupKey ev) now (ns_cache s1) then (False, s1)
            else
              (let payload = toSlackPayload ev;
                   retryAttempts = normalizeRetryAttempts cfg;
                   baseDelayMs = normalizeRetryDelayMs cfg;
                   maxDelayMs = normalizeMaxRetryDelayMs cfg baseDelayMs
               in deliver env ev payload baseDelayMs maxDelayMs (retryAttempts + 1) 1 s1)))"

section \<open>Bounds\<close>

lemma normalizeRetryAttempts_bounds:
  "0 \<le> normalizeRetryAttempts cfg" "normalizeRetryAttempts cfg \<le> 5"
  by (auto simp: normalizeRetryAttempts_def Let_def)

lemma post_webhook_simps [simp]:
  "fst (post_webhook env p s) = nv_http env (ns_tick s)"
  "ns_posts (snd (post_webhook env p s)) = ns_posts s @ [p]"
  "ns_cache (snd (post_webhook env p s)) = ns_cache s"
  "ns_sleeps (snd (post_webhook env p s)) = ns_sleeps s"
  "ns_tick (snd (post_webhook env p s)) = Suc (ns_tick s)"
  by (simp_all add: post_webhook_def)

lemma sleep_ms_simps [simp]:
  "ns_posts (sleep_ms ms s) = ns_posts s"
  "ns_cache (sleep_ms ms s) = ns_cache s"
  "ns_tick (sleep_ms ms s) = ns_tick s"
  by (simp_all add: sleep_ms_def)

lemma markSent_simps [simp]:
  "ns_posts (markSent env k s) = ns_posts s"
  "ns_sleeps (markSent env k s) = ns_sleeps s"
  "map_of (ns_cache (markSent env k s)) = (map_of (ns_cache s))(k \<mapsto> nv_now env (ns_tick s))"
  "ns_tick (markSent env k s) = Suc (ns_tick s)"
  by (simp_all add: markSent_def update_conv')

text \<open>
  What a delivery does: it posts copies of one payload, at least one and at most one per attempt, and
  between two of them it sleeps for the delay of the earlier attempt.
\<close>

definition delays :: "int \<Rightarrow> int \<Rightarrow> int \<Rightarrow> nat \<Rightarrow> int list" where
  "delays attempt baseDelayMs maxDelayMs j =
     filter (\<lambda>d. 0 < d) (map (\<lambda>i. retryDelayForAttempt (attempt + int i) baseDelayMs maxDelayMs) [0..<j])"

lemma delays_Suc:
  "delays a b m (Suc j) =
     (if 0 < retryDelayForAttempt a b m then [retryDelayForAttempt a b m] else []) @ delays (a + 1) b m j"
proof -
  have "[0..<Suc j] = 0 # map Suc [0..<j]" by (simp add: map_Suc_upt upt_conv_Cons del: upt_Suc)
  then show ?thesis by (simp add: delays_def comp_def add.assoc del: upt_Suc)
qed

definition delivers :: "slack_payload \<Rightarrow> int \<Rightarrow> int \<Rightarrow> int \<Rightarrow> int \<Rightarrow> notifier_state \<Rightarrow> notifier_state \<Rightarrow> nat \<Rightarrow> nat \<Rightarrow> bool" where
  "delivers p b m tot a s s' k j \<longleftrightarrow>
     ns_posts s' = ns_posts s @ replicate k p \<and> ns_sleeps s' = ns_sleeps s @ delays a b m j \<and>
     (if a \<le> tot then j < k \<and> int k \<le> tot + 1 - a else k = 0 \<and> j = 0)"

lemma deliver_delivers: "\<exists>k j. delivers p b m tot a s (snd (deliver env ev p b m tot a s)) k j"
proof (induction env ev p b m tot a s rule: deliver.induct)
  case (1 env ev p b m tot a s)
  show ?case
  proof (cases "a \<le> tot")
    case False
    then show ?thesis by (intro exI [of _ 0]) (simp add: deliver.simps delivers_def delays_def)
  next
    case True
    obtain r s1 where ps: "post_webhook env p s = (r, s1)" by (cases "post_webhook env p s")
    then have s1: "ns_posts s1 = ns_posts s @ [p]" "ns_sleeps s1 = ns_sleeps s"
      using post_webhook_simps(2,4) [of env p s] by simp_all
    show ?thesis
    proof (cases "http_ok r")
      case ok: True
      with True ps s1 show ?thesis
        by (intro exI [of _ "Suc 0"] exI [of _ "0::nat"]) (simp add: deliver.simps delivers_def delays_def)
    next
      case no: False
      let ?d = "retryDelayForAttempt a b m"
      let ?s2 = "if a < tot then sleep_ms ?d s1 else s1"
      have eq: "deliver env ev p b m tot a s = deliver env ev p b m tot (a + 1) ?s2"
        by (subst deliver.simps) (simp add: True ps no)
      obtain k j where kj: "delivers p b m tot (a + 1) ?s2 (snd (deliver env ev p b m tot (a + 1) ?s2)) k j"
        using "1.IH" [OF True ps [symmetric] no] by blast
      have "delivers p b m tot a s (snd (deliver env ev p b m tot a s)) (Suc k) (if a < tot then Suc j else 0)"
        using kj True s1 unfolding eq by (auto simp: delivers_def delays_Suc sleep_ms_def delays_def [of _ _ _ 0])
      then show ?thesis by blast
    qed
  qed
qed

lemma deliver_cache:
  "map_of (ns_cache (snd (deliver env ev p b m tot a s))) =
     (if fst (deliver env ev p b m tot a s)
      then (map_of (ns_cache s))
             (ne_dedupKey ev \<mapsto> nv_now env (ns_tick (snd (deliver env ev p b m tot a s)) - 1))
      else map_of (ns_cache s))"
proof (induction env ev p b m tot a s rule: deliver.induct)
  case (1 env ev p b m tot a s)
  show ?case
  proof (cases "a \<le> tot")
    case False
    then show ?thesis by (simp add: deliver.simps)
  next
    case True
    obtain r s1 where ps: "post_webhook env p s = (r, s1)" by (cases "post_webhook env p s")
    then have s1: "ns_cache s1 = ns_cache s" using post_webhook_simps(3) [of env p s] by simp
    show ?thesis
    proof (cases "http_ok r")
      case ok: True
      with True ps s1 show ?thesis by (simp add: deliver.simps)
    next
      case no: False
      let ?s2 = "if a < tot then sleep_ms (retryDelayForAttempt a b m) s1 else s1"
      have eq: "deliver env ev p b m tot a s = deliver env ev p b m tot (a + 1) ?s2"
        by (subst deliver.simps) (simp add: True ps no)
      have c: "ns_cache ?s2 = ns_cache s" using s1 by simp
      show ?thesis
        unfolding eq using "1.IH" [OF True ps [symmetric] no] by (simp only: c)
    qed
  qed
qed

section \<open>Properties\<close>

text \<open>The properties of the webhook notifier.\<close>

text \<open>
  C40: one notification posts copies of one payload, at most six and at most one more than the
  configured retries; it sleeps only between two posts, and the delays are the exponential ones,
  \<open>base * 2 ^ i\<close>, up to the larger one of the base delay and the configured cap.  So no delay is above
  the cap as long as the base delay is not.
\<close>

theorem notification_is_bounded:
  "let attempts = (case nc_retryAttempts cfg of None \<Rightarrow> 0 | Some n \<Rightarrow> n);
       base = max 0 (case nc_retryDelayMs cfg of None \<Rightarrow> 250 | Some n \<Rightarrow> n);
       cap = max 0 (case nc_maxRetryDelayMs cfg of None \<Rightarrow> 2000 | Some n \<Rightarrow> n)
   in \<exists>n j. ns_posts (snd (notify cfg env ev s)) = ns_posts s @ replicate n (toSlackPayload ev) \<and>
     int n \<le> 1 + min 5 (max 0 attempts) \<and> j \<le> n - 1 \<and>
     ns_sleeps (snd (notify cfg env ev s)) =
       ns_sleeps s @ (if base = 0 then [] else map (\<lambda>i. min (base * 2 ^ i) (max base cap)) [0..<j])"
proof -
  let ?b = "normalizeRetryDelayMs cfg"
  let ?m = "normalizeMaxRetryDelayMs cfg ?b"
  let ?n = "normalizeRetryAttempts cfg"
  let ?s1 = "s\<lparr>ns_tick := Suc (ns_tick s)\<rparr>"
  let ?d = "deliver env ev (toSlackPayload ev) ?b ?m (?n + 1) 1 ?s1"
  obtain k j where kj: "delivers (toSlackPayload ev) ?b ?m (?n + 1) 1 ?s1 (snd ?d) k j"
    using deliver_delivers by blast
  have n: "?n = min 5 (max 0 (case nc_retryAttempts cfg of None \<Rightarrow> 0 | Some n \<Rightarrow> n))"
    by (auto simp: normalizeRetryAttempts_def Let_def)
  have b: "?b = max 0 (case nc_retryDelayMs cfg of None \<Rightarrow> 250 | Some n \<Rightarrow> n)"
    by (simp add: normalizeRetryDelayMs_def)
  have m: "?m = max ?b (max 0 (case nc_maxRetryDelayMs cfg of None \<Rightarrow> 2000 | Some n \<Rightarrow> n))"
    by (simp add: normalizeMaxRetryDelayMs_def)
  have "0 \<le> ?b" "?b \<le> ?m" unfolding m by (simp_all add: b)
  then have pos: "0 < min (?b * 2 ^ i) ?m" if "?b \<noteq> 0" for i using that by auto
  have "retryDelayForAttempt (1 + int i) ?b ?m = min (?b * 2 ^ i) ?m" for i
    by (simp add: retryDelayForAttempt_def)
  then have delays: "delays 1 ?b ?m j = (if ?b = 0 then [] else map (\<lambda>i. min (?b * 2 ^ i) ?m) [0..<j])"
    using pos by (auto simp: delays_def filter_empty_conv)
  have "notify cfg env ev s = (False, s) \<or> notify cfg env ev s = (False, ?s1) \<or> notify cfg env ev s = ?d"
    by (simp add: notify_def Let_def)
  then have "\<exists>k j. ns_posts (snd (notify cfg env ev s)) = ns_posts s @ replicate k (toSlackPayload ev) \<and>
      int k \<le> 1 + ?n \<and> j \<le> k - 1 \<and>
      ns_sleeps (snd (notify cfg env ev s)) = ns_sleeps s @ (if ?b = 0 then [] else map (\<lambda>i. min (?b * 2 ^ i) ?m) [0..<j])"
  proof (elim disjE)
    assume d: "notify cfg env ev s = ?d"
    show ?thesis unfolding d
      using kj normalizeRetryAttempts_bounds(1) [of cfg] unfolding delivers_def delays
      by (intro exI [of _ k] exI [of _ j]) (auto split: if_splits)
  qed (use normalizeRetryAttempts_bounds(1) [of cfg] in \<open>auto intro!: exI [of _ "0::nat"]\<close>)
  then show ?thesis unfolding Let_def n [symmetric] b [symmetric] unfolding m by simp
qed

text \<open>
  The cap is not one when the base delay is above it: with a base delay of 5000 and a cap of 2000 the
  notifier sleeps for 5000 milliseconds.
\<close>

lemma base_delay_exceeds_the_cap:
  "ns_sleeps (snd (notify
     \<lparr>nc_enabled = True, nc_webhookUrl = Some ''u'', nc_cooldownMs = 100, nc_requestTimeoutMs = None,
      nc_retryAttempts = Some 1, nc_retryDelayMs = Some 5000, nc_maxRetryDelayMs = Some 2000\<rparr>
     \<lparr>nv_now = int, nv_http = \<lambda>_. HttpThrows\<rparr>
     \<lparr>ne_source = ''oracle'', ne_type = ''T'', ne_severity = Sev_critical, ne_dedupKey = ''k'', ne_message = ''a'',
      ne_correlation = no_correlation\<rparr>
     \<lparr>ns_tick = 5, ns_cache = [], ns_posts = [], ns_sleeps = []\<rparr>)) = [5000]"
  by (simp add: notify_def truthy_opt_def isInCooldown_def deliver.simps normalizeRetryAttempts_def
      normalizeRetryDelayMs_def normalizeMaxRetryDelayMs_def retryDelayForAttempt_def post_webhook_def http_ok_def sleep_ms_def Let_def)

text \<open>
  when a notification was sent, another one with the same key posts nothing while the cooldown
  lasts, whatever its content.
\<close>

theorem sent_notification_is_not_repeated:
  assumes "notify cfg env ev s = (True, s')"
    and "ne_dedupKey ev' = ne_dedupKey ev" "nv_now env (ns_tick s' - 1) \<noteq> 0"
    and "nv_now env (ns_tick s') - nv_now env (ns_tick s' - 1) < nc_cooldownMs cfg"
  shows "notify cfg env ev' s' = (False, s'\<lparr>ns_tick := Suc (ns_tick s')\<rparr>)"
proof -
  let ?b = "normalizeRetryDelayMs cfg"
  let ?s1 = "s\<lparr>ns_tick := Suc (ns_tick s)\<rparr>"
  have on: "nc_enabled cfg" "truthy_opt (nc_webhookUrl cfg)"
    and d: "deliver env ev (toSlackPayload ev) ?b (normalizeMaxRetryDelayMs cfg ?b)
      (normalizeRetryAttempts cfg + 1) 1 ?s1 = (True, s')"
    using assms(1) by (auto simp: notify_def Let_def split: if_splits)
  have "map_of (ns_cache s') (ne_dedupKey ev) = Some (nv_now env (ns_tick s' - 1))"
    using deliver_cache [of env ev "toSlackPayload ev" ?b "normalizeMaxRetryDelayMs cfg ?b"
        "normalizeRetryAttempts cfg + 1" 1 ?s1] unfolding d by simp
  with assms(2-4) on show ?thesis by (simp add: notify_def Let_def isInCooldown_def)
qed

definition sample_event :: "string \<Rightarrow> notification_event" where
  "sample_event m = \<lparr>ne_source = ''oracle'', ne_type = ''T'', ne_severity = Sev_critical,
     ne_dedupKey = ''k'', ne_message = m, ne_correlation = no_correlation\<rparr>"

definition sample_notifier_cfg :: notifier_config where
  "sample_notifier_cfg = \<lparr>nc_enabled = True, nc_webhookUrl = Some ''u'', nc_cooldownMs = 100,
     nc_requestTimeoutMs = None, nc_retryAttempts = None, nc_retryDelayMs = None, nc_maxRetryDelayMs = None\<rparr>"

lemma sent_notification_is_not_repeated_witness:
  "\<exists>s'. notify sample_notifier_cfg \<lparr>nv_now = int, nv_http = \<lambda>_. HttpStatus 200\<rparr> (sample_event ''a'')
      \<lparr>ns_tick = 5, ns_cache = [], ns_posts = [], ns_sleeps = []\<rparr> = (True, s') \<and>
    fst (notify sample_notifier_cfg \<lparr>nv_now = int, nv_http = \<lambda>_. HttpStatus 200\<rparr> (sample_event ''b'') s') = False"
proof -
  let ?env = "\<lparr>nv_now = int, nv_http = \<lambda>_. HttpStatus 200\<rparr>"
  let ?s = "\<lparr>ns_tick = 5, ns_cache = [], ns_posts = [], ns_sleeps = []\<rparr>"
  obtain s' where s': "notify sample_notifier_cfg ?env (sample_event ''a'') ?s = (True, s')" "ns_tick s' = 8"
    by (simp add: notify_def sample_notifier_cfg_def Let_def truthy_opt_def isInCooldown_def deliver.simps
        normalizeRetryAttempts_def post_webhook_def http_ok_def markSent_def)
  show ?thesis
    using sent_notification_is_not_repeated [OF s'(1), of "sample_event ''b''"] s'
    by (simp add: sample_event_def sample_notifier_cfg_def)
qed

end
