(* ===== verification/Nonce_Store.thy ===== *)
theory Nonce_Store imports Main begin

text \<open>
  The interface \<open>NonceStore\<close> that the request authentication of the services relies on, as a
  locale: \<open>consume s now k n ttl\<close> tries to use the nonce \<open>n\<close> of the API key \<open>k\<close> at time \<open>now\<close>
  (milliseconds) for \<open>ttl\<close> seconds.  The client's theorem, replay protection over a run of
  requests, is proved once in the locale.  The theory also holds the table implementation, the
  SQL statement that prunes expired rows and inserts a new one.
\<close>

section \<open>The interface\<close>

locale nonce_store =
  fixes consume :: "'s \<Rightarrow> int \<Rightarrow> 'k \<Rightarrow> 'n \<Rightarrow> int \<Rightarrow> bool \<times> 's"
    and live :: "'s \<Rightarrow> int \<Rightarrow> 'k \<Rightarrow> 'n \<Rightarrow> bool"
  assumes live_rejects: "live s now k n \<Longrightarrow> \<not> fst (consume s now k n ttl)"
    and accept_live:
      "fst (consume s now k n ttl) \<Longrightarrow> now \<le> t \<Longrightarrow> t < now + ttl * 1000 \<Longrightarrow>
       live (snd (consume s now k n ttl)) t k n"
    and keep_live:
      "live s t k n \<Longrightarrow> now \<le> t \<Longrightarrow> live (snd (consume s now k' n' ttl)) t k n"
begin

fun run :: "'s \<Rightarrow> (int \<times> 'k \<times> 'n \<times> int) list \<Rightarrow> 's" where
  "run s [] = s"
| "run s ((now, k, n, ttl) # rs) = run (snd (consume s now k n ttl)) rs"

lemma run_keeps_live:
  "live s t k n \<Longrightarrow> \<forall>r \<in> set rs. fst r \<le> t \<Longrightarrow> live (run s rs) t k n"
proof (induction rs arbitrary: s)
  case Nil
  then show ?case by simp
next
  case (Cons r rs)
  then show ?case by (cases r) (auto intro: keep_live)
qed

text \<open>
  A nonce that was accepted is rejected again until its time to live has passed, whatever
  requests are served in between.
\<close>

lemma replay_rejected:
  assumes "fst (consume s t0 k n ttl)" "t0 \<le> t" "t < t0 + ttl * 1000"
    and "\<forall>r \<in> set rs. fst r \<le> t"
  shows "\<not> fst (consume (run (snd (consume s t0 k n ttl)) rs) t k n ttl')"
proof -
  have "live (snd (consume s t0 k n ttl)) t k n"
    using assms(1-3) by (rule accept_live)
  then have "live (run (snd (consume s t0 k n ttl)) rs) t k n"
    using assms(4) by (rule run_keeps_live)
  then show ?thesis by (rule live_rejects)
qed

end

section \<open>The table implementation\<close>

record nonce_row =
  nr_api_key :: string
  nr_nonce :: string
  nr_expires_at :: int

definition nonce_present :: "nonce_row list \<Rightarrow> string \<Rightarrow> string \<Rightarrow> bool" where
  "nonce_present rows k n = list_ex (\<lambda>r. nr_api_key r = k \<and> nr_nonce r = n) rows"

text \<open>
  The statement of \<open>consumeHmacNonce\<close>: \<open>DELETE\<close> of the expired rows and
  \<open>INSERT ... ON CONFLICT DO NOTHING\<close> as two common table expressions.  PostgreSQL leaves the
  order of the two open, so it is an argument: with \<open>prune_first\<close> an expired row does not
  conflict, without it it does.  A row inserted by the statement is not seen by its \<open>DELETE\<close>.
\<close>

definition consume_row ::
  "bool \<Rightarrow> nonce_row list \<Rightarrow> int \<Rightarrow> string \<Rightarrow> string \<Rightarrow> int \<Rightarrow> bool \<times> nonce_row list" where
  "consume_row prune_first rows now k n ttl =
     (let pruned = filter (\<lambda>r. now < nr_expires_at r) rows;
          seen = (if prune_first then pruned else rows);
          accepted = (\<not> nonce_present seen k n)
      in (accepted,
          if accepted
          then pruned @ [\<lparr>nr_api_key = k, nr_nonce = n, nr_expires_at = now + ttl * 1000\<rparr>]
          else pruned))"

definition live_row :: "nonce_row list \<Rightarrow> int \<Rightarrow> string \<Rightarrow> string \<Rightarrow> bool" where
  "live_row rows t k n =
     list_ex (\<lambda>r. nr_api_key r = k \<and> nr_nonce r = n \<and> t < nr_expires_at r) rows"

lemma live_row_present:
  "live_row rows now k n \<Longrightarrow> nonce_present (filter (\<lambda>r. now < nr_expires_at r) rows) k n"
  by (auto simp: live_row_def nonce_present_def list_ex_iff)

lemma nonce_present_filter: "nonce_present (filter P rows) k n \<Longrightarrow> nonce_present rows k n"
  by (auto simp: nonce_present_def list_ex_iff)

interpretation nonce_table: nonce_store "consume_row p" live_row
proof unfold_locales
  fix rows now k n ttl
  assume "live_row rows now k n"
  then have pruned: "nonce_present (filter (\<lambda>r. now < nr_expires_at r) rows) k n"
    by (rule live_row_present)
  then have "nonce_present rows k n" by (rule nonce_present_filter)
  with pruned show "\<not> fst (consume_row p rows now k n ttl)"
    by (simp add: consume_row_def Let_def)
next
  fix rows now k n ttl t
  assume "fst (consume_row p rows now k n ttl)" "now \<le> t" "t < now + ttl * 1000"
  then show "live_row (snd (consume_row p rows now k n ttl)) t k n"
    by (simp add: consume_row_def live_row_def Let_def)
next
  fix rows t k n now k' n' ttl
  assume "live_row rows t k n" "now \<le> t"
  then show "live_row (snd (consume_row p rows now k' n' ttl)) t k n"
    by (force simp: consume_row_def live_row_def Let_def list_ex_iff)
qed

end
