(* ===== verification/Oracle_World.thy ===== *)
theory Oracle_World imports Main Trade_Types Complex_Main Effect Notifier Nonce_Store begin

text \<open>
  The oracle's data (\<open>oracle/src/types/trigger.ts\<close>): trigger statuses and types, the row of the
  table \<open>oracle_triggers\<close> with the column updates, and the error classification of
  \<open>oracle/src/utils/errors.ts\<close>.  Log calls are left out here and in the other oracle theories.
  Then the environment and the state of the oracle.
\<close>

section \<open>Triggers\<close>

datatype trigger_status =
    PENDING | EXECUTING | SUBMITTED | CONFIRMED | FAILED | EXHAUSTED_NEEDS_REDRIVE
  | TERMINAL_FAILURE | PENDING_APPROVAL | REJECTED

datatype trigger_type = RELEASE_STAGE_1 | CONFIRM_ARRIVAL | FINALIZE_TRADE

fun trigger_type_name :: "trigger_type \<Rightarrow> string" where
  "trigger_type_name RELEASE_STAGE_1 = ''RELEASE_STAGE_1''"
| "trigger_type_name CONFIRM_ARRIVAL = ''CONFIRM_ARRIVAL''"
| "trigger_type_name FINALIZE_TRADE = ''FINALIZE_TRADE''"

fun trigger_status_name :: "trigger_status \<Rightarrow> string" where
  "trigger_status_name PENDING = ''PENDING''"
| "trigger_status_name EXECUTING = ''EXECUTING''"
| "trigger_status_name SUBMITTED = ''SUBMITTED''"
| "trigger_status_name CONFIRMED = ''CONFIRMED''"
| "trigger_status_name FAILED = ''FAILED''"
| "trigger_status_name EXHAUSTED_NEEDS_REDRIVE = ''EXHAUSTED_NEEDS_REDRIVE''"
| "trigger_status_name TERMINAL_FAILURE = ''TERMINAL_FAILURE''"
| "trigger_status_name PENDING_APPROVAL = ''PENDING_APPROVAL''"
| "trigger_status_name REJECTED = ''REJECTED''"

text \<open>A row of \<open>oracle_triggers\<close>; the serial column \<open>id\<close>, which no code reads, is left out.\<close>

record trigger =
  action_key :: string
  request_id :: string
  idempotency_key :: string
  trade_id :: string
  trigger_type :: trigger_type
  request_hash :: "string option"
  attempt_count :: int
  status :: trigger_status
  tx_hash :: "string option"
  block_number :: "int option"
  indexer_confirmed :: bool
  indexer_confirmed_at :: "int option"
  indexer_event_id :: "string option"
  last_error :: "string option"
  error_type :: "error_type option"
  on_chain_verified :: bool
  on_chain_verified_at :: "int option"
  created_at :: int
  submitted_at :: "int option"
  confirmed_at :: "int option"
  updated_at :: int
  approved_by :: "string option"
  approved_at :: "int option"
  rejected_by :: "string option"
  rejected_at :: "int option"
  rejection_reason :: "string option"

record create_trigger_data =
  ct_actionKey :: string
  ct_requestId :: string
  ct_idempotencyKey :: string
  ct_tradeId :: string
  ct_triggerType :: trigger_type
  ct_requestHash :: "string option"
  ct_status :: trigger_status

text \<open>\<open>UpdateTriggerData\<close>: the present entries of the object, one per column.\<close>

datatype column_update =
    U_status trigger_status
  | U_attempt_count int
  | U_tx_hash string
  | U_block_number int
  | U_indexer_confirmed bool
  | U_indexer_confirmed_at int
  | U_indexer_event_id string
  | U_last_error string
  | U_error_type error_type
  | U_submitted_at int
  | U_confirmed_at int
  | U_on_chain_verified bool
  | U_on_chain_verified_at int

fun set_column :: "column_update \<Rightarrow> trigger \<Rightarrow> trigger" where
  "set_column (U_status s) t = t\<lparr>status := s\<rparr>"
| "set_column (U_attempt_count n) t = t\<lparr>attempt_count := n\<rparr>"
| "set_column (U_tx_hash h) t = t\<lparr>tx_hash := Some h\<rparr>"
| "set_column (U_block_number n) t = t\<lparr>block_number := Some n\<rparr>"
| "set_column (U_indexer_confirmed b) t = t\<lparr>indexer_confirmed := b\<rparr>"
| "set_column (U_indexer_confirmed_at d) t = t\<lparr>indexer_confirmed_at := Some d\<rparr>"
| "set_column (U_indexer_event_id e) t = t\<lparr>indexer_event_id := Some e\<rparr>"
| "set_column (U_last_error m) t = t\<lparr>last_error := Some m\<rparr>"
| "set_column (U_error_type e) t = t\<lparr>error_type := Some e\<rparr>"
| "set_column (U_submitted_at d) t = t\<lparr>submitted_at := Some d\<rparr>"
| "set_column (U_confirmed_at d) t = t\<lparr>confirmed_at := Some d\<rparr>"
| "set_column (U_on_chain_verified b) t = t\<lparr>on_chain_verified := b\<rparr>"
| "set_column (U_on_chain_verified_at d) t = t\<lparr>on_chain_verified_at := Some d\<rparr>"

lemma set_column_keys [simp]:
  "action_key (set_column u t) = action_key t"
  "idempotency_key (set_column u t) = idempotency_key t"
  "trade_id (set_column u t) = trade_id t"
  "trigger_type (set_column u t) = trigger_type t"
  "created_at (set_column u t) = created_at t"
  by (cases u; simp)+

section \<open>Errors\<close>

definition validation_error :: "string \<Rightarrow> js_error" where
  "validation_error m =
     \<lparr>js_name = ''ValidationError'', js_message = m, js_code = None, js_reason = None,
      js_oracle = Some (VALIDATION, True)\<rparr>"

definition network_error :: "string \<Rightarrow> js_error" where
  "network_error m =
     \<lparr>js_name = ''NetworkError'', js_message = m, js_code = None, js_reason = None,
      js_oracle = Some (NETWORK, False)\<rparr>"

definition contract_error :: "string \<Rightarrow> bool \<Rightarrow> js_error" where
  "contract_error m terminal =
     \<lparr>js_name = ''ContractError'', js_message = m, js_code = None, js_reason = None,
      js_oracle = Some (CONTRACT, terminal)\<rparr>"

text \<open>\<open>error instanceof ValidationError\<close>, for the oracle's class of that name\<close>

definition is_validation_error :: "js_error \<Rightarrow> bool" where
  "is_validation_error e \<longleftrightarrow> js_oracle e \<noteq> None \<and> js_name e = ''ValidationError''"

definition is_terminal :: "js_error \<Rightarrow> bool" where
  "is_terminal e = (case js_oracle e of None \<Rightarrow> False | Some (_, b) \<Rightarrow> b)"

definition oracle_error_type :: "js_error \<Rightarrow> error_type option" where
  "oracle_error_type e = map_option fst (js_oracle e)"

definition includes_any :: "string \<Rightarrow> string list \<Rightarrow> bool" where
  "includes_any m ps = list_ex (str_includes m) ps"

definition terminal_messages :: "string list" where
  "terminal_messages =
     [''Cannot release stage 1'', ''Cannot confirm arrival'', ''Cannot finalize'',
      ''Invalid trade ID'', ''Dispute window'', ''expected LOCKED'', ''expected IN_TRANSIT'',
      ''expected ARRIVAL_CONFIRMED'']"

definition network_messages :: "string list" where
  "network_messages =
     [''network'', ''timeout'', ''ECONNREFUSED'', ''ETIMEDOUT'', ''ENOTFOUND'',
      ''fetch failed'', ''connection'']"

definition contract_messages :: "string list" where
  "contract_messages = [''execution reverted'', ''revert'', ''require'']"

definition terminal_contract_messages :: "string list" where
  "terminal_contract_messages =
     [''invalid state'', ''not authorized'', ''trade does not exist'', ''already executed'',
      ''paused'', ''oracle disabled'', ''only oracle'', ''proposal expired'',
      ''timelock not elapsed'']"

text \<open>\<open>error.message || error.toString()\<close>: an \<open>Error\<close> without a message prints its name.\<close>

definition error_text :: "js_error \<Rightarrow> string" where
  "error_text e = (if js_message e = [] then js_name e else js_message e)"

definition classifyError :: "js_error \<Rightarrow> js_error" where
  "classifyError error =
     (let message = error_text error;
          lowerMessage = to_lower message
      in if js_oracle error \<noteq> None then error
         else if includes_any message terminal_messages then validation_error message
         else if includes_any message network_messages then network_error message
         else if includes_any message contract_messages then
           contract_error message (includes_any lowerMessage terminal_contract_messages)
         else network_error message)"

definition determineNextStatus :: "js_error \<Rightarrow> int \<Rightarrow> int \<Rightarrow> trigger_status" where
  "determineNextStatus error attemptCount maxAttempts =
     (if is_terminal error then TERMINAL_FAILURE
      else if attemptCount \<ge> maxAttempts then EXHAUSTED_NEEDS_REDRIVE
      else FAILED)"

lemmas error_defs = validation_error_def network_error_def contract_error_def plain_error_def
  sdk_contract_error_def sdk_validation_error_def sdk_authorization_error_def

lemma is_terminal_simps [simp]:
  "is_terminal (validation_error m)"
  "\<not> is_terminal (network_error m)"
  "is_terminal (contract_error m b) = b"
  by (simp_all add: is_terminal_def error_defs)

lemma is_validation_error_simps [simp]:
  "is_validation_error (validation_error m)"
  "\<not> is_validation_error (network_error m)"
  "\<not> is_validation_error (contract_error m b)"
  "\<not> is_validation_error (plain_error m)"
  "\<not> is_validation_error (sdk_contract_error m)"
  "\<not> is_validation_error (sdk_authorization_error m)"
  by (simp_all add: is_validation_error_def error_defs)

lemma js_message_simps [simp]:
  "js_message (validation_error m) = m" "js_message (network_error m) = m"
  "js_message (contract_error m b) = m" "js_message (plain_error m) = m"
  "js_message (sdk_contract_error m) = m" "js_message (sdk_authorization_error m) = m"
  by (simp_all add: error_defs)

lemma js_oracle_simps [simp]:
  "js_oracle (validation_error m) = Some (VALIDATION, True)"
  "js_oracle (network_error m) = Some (NETWORK, False)"
  "js_oracle (contract_error m b) = Some (CONTRACT, b)"
  "js_oracle (plain_error m) = None" "js_oracle (sdk_contract_error m) = None"
  by (simp_all add: error_defs)

lemma classifyError_oracle [simp]: "js_oracle (classifyError e) \<noteq> None"
  by (auto simp: classifyError_def Let_def error_defs)

lemma classifyError_own: "js_oracle e \<noteq> None \<Longrightarrow> classifyError e = e"
  by (simp add: classifyError_def Let_def)

lemma classifyError_idem: "classifyError (classifyError e) = classifyError e"
  by (rule classifyError_own) simp

lemma classifyError_message:
  "js_oracle e = None \<Longrightarrow> js_message (classifyError e) = error_text e"
  by (simp add: classifyError_def Let_def)

lemma determineNextStatus_cases:
  "determineNextStatus e a n = TERMINAL_FAILURE \<longleftrightarrow> is_terminal e"
  "determineNextStatus e a n = EXHAUSTED_NEEDS_REDRIVE \<longleftrightarrow> \<not> is_terminal e \<and> n \<le> a"
  "determineNextStatus e a n = FAILED \<longleftrightarrow> \<not> is_terminal e \<and> a < n"
  by (auto simp: determineNextStatus_def)

lemma determineNextStatus_inactive:
  "determineNextStatus e a n \<in> {TERMINAL_FAILURE, EXHAUSTED_NEEDS_REDRIVE, FAILED}"
  by (simp add: determineNextStatus_def)

section \<open>The world\<close>

text \<open>
  What surrounds the oracle's code, and the state it works on.  Everything outside the
  repository is a function of a tick, a counter that every external call advances: the clock,
  the random generator, the failures of the database connection, the contract read and written
  through ethers, the indexer's HTTP endpoint and the webhook.  The state holds the database
  tables, the in-memory maps and counters, and logs of the external calls that change the
  outside world.
\<close>

section \<open>The environment\<close>

text \<open>The result of \<open>contract.trades(tradeId)\<close>: unsigned integers as decoded by ethers.\<close>

record raw_trade =
  rt_tradeId :: nat
  rt_buyerAddress :: string
  rt_supplierAddress :: string
  rt_status :: nat
  rt_totalAmountLocked :: int
  rt_logisticsAmount :: int
  rt_platformFeesAmount :: int
  rt_supplierFirstTranche :: int
  rt_supplierSecondTranche :: int
  rt_ricardianHash :: string
  rt_createdAt :: nat
  rt_arrivalTimestamp :: nat

record blockchain_result =
  br_txHash :: string
  br_blockNumber :: int

text \<open>An element of the GraphQL answer to \<open>tradeEvents\<close>.\<close>

record indexer_event =
  ie_id :: string
  ie_tradeId :: string
  ie_eventName :: string
  ie_txHash :: string
  ie_blockNumber :: int

text \<open>
  The answer of the indexer's endpoint: the request fails (network, timeout), the HTTP status
  is not a success, the body reports errors, or it holds a list of events (\<open>None\<close> when the
  field is missing).
\<close>

datatype gql_events =
    Gql_fetch_fails
  | Gql_http_error
  | Gql_errors
  | Gql_events "indexer_event list option"

record oracle_env =
  oe_now :: "nat \<Rightarrow> int"
  oe_random_id :: "nat \<Rightarrow> string"
  oe_random :: "nat \<Rightarrow> rat"
  oe_db :: "nat \<Rightarrow> js_error option"
  oe_prune_first :: "nat \<Rightarrow> bool"
  oe_trades :: "nat \<Rightarrow> string \<Rightarrow> js_error + raw_trade"
  oe_oracle_address :: "nat \<Rightarrow> js_error + string"
  oe_signer_address :: string
  oe_send :: "nat \<Rightarrow> trigger_type \<Rightarrow> string \<Rightarrow> js_error + blockchain_result option"
  oe_events :: "nat \<Rightarrow> string \<Rightarrow> gql_events"
  oe_http :: "nat \<Rightarrow> http_outcome"
  oe_toFixed1 :: "int \<Rightarrow> string"
  oe_notifier :: "notifier_config option"

section \<open>The state\<close>

record oracle_counters =
  oc_exhaustedRetries :: nat
  oc_redriveAttempts :: nat
  oc_pendingApproval :: nat
  oc_approved :: nat
  oc_rejected :: nat

text \<open>The transactions sent: the tick at which each was, the action and the trade id.\<close>

type_synonym sent_log = "(nat \<times> trigger_type \<times> string) list"

record oracle_world =
  ow_tick :: nat
  ow_triggers :: "trigger list"
  ow_nonces :: "nonce_row list"
  ow_counters :: oracle_counters
  ow_notifier :: notifier_state
  ow_checks :: "(string \<times> int) list"
  ow_sent :: sent_log
  ow_sleeps :: "int list"

type_synonym 'a oracle_eff = "(js_error, oracle_world, 'a) eff"

definition init_world :: oracle_world where
  "init_world =
     \<lparr>ow_tick = 0, ow_triggers = [], ow_nonces = [],
      ow_counters = \<lparr>oc_exhaustedRetries = 0, oc_redriveAttempts = 0, oc_pendingApproval = 0,
        oc_approved = 0, oc_rejected = 0\<rparr>,
      ow_notifier = \<lparr>ns_tick = 0, ns_cache = [], ns_posts = [], ns_sleeps = []\<rparr>,
      ow_checks = [], ow_sent = [], ow_sleeps = []\<rparr>"

section \<open>External calls\<close>

definition tick :: "oracle_world \<Rightarrow> oracle_world" where
  "tick w = w\<lparr>ow_tick := Suc (ow_tick w)\<rparr>"

text \<open>An external read: its value at the present tick.\<close>

definition ask_env :: "(nat \<Rightarrow> 'a) \<Rightarrow> 'a oracle_eff" where
  "ask_env f w = (Inr (f (ow_tick w)), tick w)"

definition try_env :: "(nat \<Rightarrow> js_error + 'a) \<Rightarrow> 'a oracle_eff" where
  "try_env f w = (f (ow_tick w), tick w)"

text \<open>\<open>Date.now()\<close>\<close>

definition date_now :: "oracle_env \<Rightarrow> int oracle_eff" where
  "date_now env = ask_env (oe_now env)"

text \<open>
  A database statement: it fails without effect when the connection does, and otherwise runs
  \<open>stmt now\<close> on the state, \<open>now\<close> being the value of \<open>NOW()\<close>; a statement may itself be refused
  by a constraint.
\<close>

definition db_query :: "oracle_env \<Rightarrow> (int \<Rightarrow> oracle_world \<Rightarrow> (js_error + 'a) \<times> oracle_world) \<Rightarrow> 'a oracle_eff" where
  "db_query env stmt w =
     (case oe_db env (ow_tick w) of
        Some e \<Rightarrow> (Inl e, tick w)
      | None \<Rightarrow> stmt (oe_now env (ow_tick w)) (tick w))"

text \<open>\<open>notifier.notify(event)\<close>, on the notifier's state at the present tick\<close>

definition notifyE :: "oracle_env \<Rightarrow> notifier_config \<Rightarrow> notification_event \<Rightarrow> bool oracle_eff" where
  "notifyE env cfg ev w =
     (case notify cfg \<lparr>nv_now = oe_now env, nv_http = oe_http env\<rparr> ev
             ((ow_notifier w)\<lparr>ns_tick := ow_tick w\<rparr>) of
        (sent, s) \<Rightarrow> (Inr sent, w\<lparr>ow_notifier := s, ow_tick := ns_tick s\<rparr>))"

definition sleepE :: "int \<Rightarrow> unit oracle_eff" where
  "sleepE ms = change (\<lambda>w. w\<lparr>ow_sleeps := ow_sleeps w @ [ms]\<rparr>)"

lemma tick_simps [simp]:
  "ow_tick (tick w) = Suc (ow_tick w)" "ow_triggers (tick w) = ow_triggers w"
  "ow_nonces (tick w) = ow_nonces w" "ow_counters (tick w) = ow_counters w"
  "ow_notifier (tick w) = ow_notifier w" "ow_checks (tick w) = ow_checks w"
  "ow_sent (tick w) = ow_sent w" "ow_sleeps (tick w) = ow_sleeps w"
  by (simp_all add: tick_def)

lemma ask_env_app [eff_simps]: "ask_env f w = (Inr (f (ow_tick w)), tick w)"
  by (simp add: ask_env_def)

lemma try_env_app [eff_simps]: "try_env f w = (f (ow_tick w), tick w)"
  by (simp add: try_env_def)

lemma date_now_app [eff_simps]: "date_now env w = (Inr (oe_now env (ow_tick w)), tick w)"
  by (simp add: date_now_def ask_env_app)

lemma sleepE_app [eff_simps]: "sleepE ms w = (Inr (), w\<lparr>ow_sleeps := ow_sleeps w @ [ms]\<rparr>)"
  by (simp add: sleepE_def change_app)

section \<open>Views\<close>

text \<open>
  Most invariants read the trigger table or the log of sent transactions only; a method that
  changes neither keeps them.
\<close>

definition on_view :: "(trigger list \<Rightarrow> sent_log \<Rightarrow> bool) \<Rightarrow> oracle_world \<Rightarrow> bool" where
  "on_view P w = P (ow_triggers w) (ow_sent w)"

lemma on_view_tick [simp]: "on_view P (tick w) = on_view P w"
  by (simp add: on_view_def)

lemma keeps_ask_env [keeps_rules]: "keeps (on_view P) (ask_env f)"
  by (rule keepsI) (simp add: eff_simps)

lemma keeps_try_env [keeps_rules]: "keeps (on_view P) (try_env f)"
  by (rule keepsI) (simp add: eff_simps)

lemma keeps_date_now [keeps_rules]: "keeps (on_view P) (date_now env)"
  by (rule keepsI) (simp add: eff_simps)

lemma keeps_sleepE [keeps_rules]: "keeps (on_view P) (sleepE ms)"
  by (rule keepsI) (simp add: eff_simps on_view_def)

lemma keeps_notifyE [keeps_rules]: "keeps (on_view P) (notifyE env cfg ev)"
  by (rule keepsI) (simp add: notifyE_def on_view_def split: prod.splits)

lemma keeps_db_query:
  assumes "\<And>now w. on_view P w \<Longrightarrow> on_view P (state_of (stmt now w))"
  shows "keeps (on_view P) (db_query env stmt)"
  by (rule keepsI) (simp add: db_query_def assms split: option.splits)

end
