(* ===== verification/Sql_Table.thy ===== *)
theory Sql_Table imports Main begin

text \<open>
  Database tables as lists of rows in insertion order, with the statements the services use:
  an insert and an update that a constraint may refuse, and look-ups by a key.  The locale
  \<open>sql_table\<close> is the contract of a table with a unique key, and holds the look-up laws that its
  clients use.
\<close>

definition guarded_insert :: "('r list \<Rightarrow> bool) \<Rightarrow> 'r \<Rightarrow> 'r list \<Rightarrow> 'r list option" where
  "guarded_insert ok r rows = (let rows' = rows @ [r] in if ok rows' then Some rows' else None)"

definition update_where :: "('r \<Rightarrow> bool) \<Rightarrow> ('r \<Rightarrow> 'r) \<Rightarrow> 'r list \<Rightarrow> 'r list" where
  "update_where P f rows = map (\<lambda>r. if P r then f r else r) rows"

definition guarded_update ::
  "('r list \<Rightarrow> bool) \<Rightarrow> ('r \<Rightarrow> bool) \<Rightarrow> ('r \<Rightarrow> 'r) \<Rightarrow> 'r list \<Rightarrow> 'r list option" where
  "guarded_update ok P f rows =
     (let rows' = update_where P f rows in if ok rows' then Some rows' else None)"

definition row_by :: "('r \<Rightarrow> 'k) \<Rightarrow> 'k \<Rightarrow> 'r list \<Rightarrow> 'r option" where
  "row_by key k rows = find (\<lambda>r. key r = k) rows"

text \<open>\<open>INSERT ... ON CONFLICT (key) DO UPDATE\<close>: \<open>f\<close> updates the row that is there.\<close>

definition upsert :: "('r \<Rightarrow> 'k) \<Rightarrow> ('r \<Rightarrow> 'r) \<Rightarrow> 'r \<Rightarrow> 'r list \<Rightarrow> 'r list" where
  "upsert key f r rows =
     (if key r \<in> key ` set rows then update_where (\<lambda>q. key q = key r) f rows else rows @ [r])"

text \<open>\<open>ORDER BY t DESC LIMIT 1\<close>; of rows with the same \<open>t\<close> the one inserted last.\<close>

fun latest_by :: "('r \<Rightarrow> int) \<Rightarrow> 'r list \<Rightarrow> 'r option" where
  "latest_by t [] = None"
| "latest_by t (r # rs) =
     (case latest_by t rs of
        None \<Rightarrow> Some r
      | Some b \<Rightarrow> if t b \<ge> t r then Some b else Some r)"

lemma guarded_insert_Some:
  "guarded_insert ok r rows = Some rows' \<longleftrightarrow> rows' = rows @ [r] \<and> ok rows'"
  by (auto simp: guarded_insert_def Let_def)

lemma guarded_update_Some:
  "guarded_update ok P f rows = Some rows' \<longleftrightarrow> rows' = update_where P f rows \<and> ok rows'"
  by (auto simp: guarded_update_def Let_def)

lemma length_update_where [simp]: "length (update_where P f rows) = length rows"
  by (simp add: update_where_def)

lemma map_update_where:
  "(\<And>r. g (f r) = g r) \<Longrightarrow> map g (update_where P f rows) = map g rows"
  by (simp add: update_where_def)

lemma set_update_where:
  "r \<in> set (update_where P f rows) \<longleftrightarrow> (\<exists>q \<in> set rows. r = (if P q then f q else q))"
  by (auto simp: update_where_def)

lemma row_by_Some: "row_by key k rows = Some r \<Longrightarrow> r \<in> set rows \<and> key r = k"
  by (auto simp: row_by_def find_Some_iff)

lemma row_by_None: "row_by key k rows = None \<longleftrightarrow> k \<notin> key ` set rows"
  by (auto simp: row_by_def find_None_iff)

lemma row_by_Cons: "row_by key k (r # rs) = (if key r = k then Some r else row_by key k rs)"
  by (simp add: row_by_def)

lemma row_by_append:
  "row_by key k (xs @ ys) =
     (case row_by key k xs of None \<Rightarrow> row_by key k ys | Some r \<Rightarrow> Some r)"
  by (induction xs) (auto simp: row_by_def)

lemma latest_by_None: "latest_by t rs = None \<longleftrightarrow> rs = []"
  by (cases rs) (auto split: option.splits)

lemma latest_by_Some:
  "latest_by t rs = Some b \<Longrightarrow> b \<in> set rs \<and> (\<forall>r \<in> set rs. t r \<le> t b)"
  by (induction rs arbitrary: b) (auto split: option.splits if_splits simp: latest_by_None)

lemma latest_by_append:
  "(\<forall>r \<in> set rs. t r \<le> t b) \<Longrightarrow> latest_by t (rs @ [b]) = Some b"
  by (induction rs) auto

lemma distinct_upsert:
  "distinct (map key rows) \<Longrightarrow> (\<And>q. key (f q) = key q) \<Longrightarrow> distinct (map key (upsert key f r rows))"
  by (auto simp: upsert_def map_update_where)

lemma row_by_upsert:
  assumes "\<And>q. key (f q) = key q"
  shows "row_by key k (upsert key f r rows) =
    (if key r = k then Some (case row_by key k rows of None \<Rightarrow> r | Some q \<Rightarrow> f q)
     else row_by key k rows)"
proof (cases "row_by key (key r) rows")
  case None
  then have "key r \<notin> key ` set rows" by (simp add: row_by_None)
  then have u: "upsert key f r rows = rows @ [r]" by (simp add: upsert_def)
  show ?thesis
    using None unfolding u
    by (auto simp: row_by_append row_by_Cons split: option.splits) (simp_all add: row_by_def)
next
  case (Some q)
  then have "key r \<in> key ` set rows" by (metis image_eqI row_by_Some)
  then have u: "upsert key f r rows = update_where (\<lambda>q. key q = key r) f rows" by (simp add: upsert_def)
  have "row_by key k (update_where (\<lambda>q. key q = key r) f rs) =
      (if k = key r then map_option f (row_by key k rs) else row_by key k rs)" for rs
    using assms by (induction rs) (auto simp: update_where_def row_by_def)
  with Some show ?thesis unfolding u by auto
qed

section \<open>The contract of a table with a unique key\<close>

locale sql_table =
  fixes key :: "'r \<Rightarrow> 'k" and ok :: "'r list \<Rightarrow> bool"
  assumes ok_empty: "ok []"
    and ok_unique: "ok rows \<Longrightarrow> distinct (map key rows)"
begin

lemma row_by_iff:
  assumes "ok rows"
  shows "row_by key k rows = Some r \<longleftrightarrow> r \<in> set rows \<and> key r = k"
proof
  assume "row_by key k rows = Some r"
  then show "r \<in> set rows \<and> key r = k" by (rule row_by_Some)
next
  assume r: "r \<in> set rows \<and> key r = k"
  then have "row_by key k rows \<noteq> None" by (auto simp: row_by_None)
  then obtain q where q: "row_by key k rows = Some q" by blast
  then have "q \<in> set rows" "key q = k" by (auto dest: row_by_Some)
  with r ok_unique [OF assms] have "q = r"
    by (auto simp: distinct_map dest: inj_onD)
  with q show "row_by key k rows = Some r" by simp
qed

lemma insert_fresh:
  assumes "guarded_insert ok r rows = Some rows'"
  shows "row_by key (key r) rows = None"
proof -
  from assms have "ok (rows @ [r])" by (auto simp: guarded_insert_Some)
  then have "distinct (map key (rows @ [r]))" by (rule ok_unique)
  then show ?thesis by (auto simp: row_by_None)
qed

lemma row_by_insert:
  assumes "guarded_insert ok r rows = Some rows'"
  shows "row_by key k rows' = (if key r = k then Some r else row_by key k rows)"
  using assms insert_fresh [OF assms]
  by (auto simp: guarded_insert_Some row_by_append row_by_Cons split: option.splits)
     (simp add: row_by_def)

lemma row_by_update_where:
  assumes "\<And>r. key (f r) = key r"
  shows "row_by key k (update_where (\<lambda>r. key r = k0) f rows) =
    (if k = k0 then map_option f (row_by key k rows) else row_by key k rows)"
  using assms by (induction rows) (auto simp: update_where_def row_by_def)

text \<open>The ways a table comes about: any sequence of accepted statements.\<close>

lemma insert_ok: "guarded_insert ok r rows = Some rows' \<Longrightarrow> ok rows'"
  by (auto simp: guarded_insert_Some)

lemma update_ok: "guarded_update ok P f rows = Some rows' \<Longrightarrow> ok rows'"
  by (auto simp: guarded_update_Some)

end

end
