(* ===== verification/Oracle_Store.thy ===== *)
theory Oracle_Store imports Main Oracle_World Sql_Table begin

text \<open>
  The oracle's database queries (\<open>oracle/src/database/queries.ts\<close>) on the table
  \<open>oracle_triggers\<close> with its primary key and its partial unique index on active actions
  (\<open>schema.sql\<close>), and on the table of consumed HMAC nonces.
\<close>

section \<open>The table\<close>

definition is_active :: "trigger_status \<Rightarrow> bool" where
  "is_active s \<longleftrightarrow> s = PENDING \<or> s = EXECUTING \<or> s = SUBMITTED \<or> s = PENDING_APPROVAL"

definition active_keys :: "trigger list \<Rightarrow> string list" where
  "active_keys rows = map action_key (filter (\<lambda>t. is_active (status t)) rows)"

text \<open>The primary key and \<open>idx_active_action_key_unique\<close>.\<close>

definition triggers_ok :: "trigger list \<Rightarrow> bool" where
  "triggers_ok rows \<longleftrightarrow> distinct (map idempotency_key rows) \<and> distinct (active_keys rows)"

interpretation trigger_table: sql_table idempotency_key triggers_ok
  by unfold_locales (auto simp: triggers_ok_def active_keys_def)

definition unique_violation :: "string \<Rightarrow> js_error" where
  "unique_violation c =
     \<lparr>js_name = ''error'',
      js_message = ''duplicate key value violates unique constraint \"'' @ c @ ''\"'',
      js_code = Some ''23505'', js_reason = None, js_oracle = None\<rparr>"

definition violated_constraint :: "trigger list \<Rightarrow> js_error" where
  "violated_constraint rows =
     unique_violation
       (if distinct (map idempotency_key rows) then ''idx_active_action_key_unique''
        else ''oracle_triggers_pkey'')"

section \<open>Queries\<close>

definition new_trigger :: "int \<Rightarrow> create_trigger_data \<Rightarrow> trigger" where
  "new_trigger now data =
     \<lparr>action_key = ct_actionKey data, request_id = ct_requestId data,
      idempotency_key = ct_idempotencyKey data, trade_id = ct_tradeId data,
      trigger_type = ct_triggerType data, request_hash = ct_requestHash data,
      attempt_count = 0, status = ct_status data, tx_hash = None, block_number = None,
      indexer_confirmed = False, indexer_confirmed_at = None, indexer_event_id = None,
      last_error = None, error_type = None, on_chain_verified = False,
      on_chain_verified_at = None, created_at = now, submitted_at = None, confirmed_at = None,
      updated_at = now, approved_by = None, approved_at = None, rejected_by = None,
      rejected_at = None, rejection_reason = None\<rparr>"

definition getTriggerByIdempotencyKey :: "oracle_env \<Rightarrow> string \<Rightarrow> trigger option oracle_eff" where
  "getTriggerByIdempotencyKey env k =
     db_query env (\<lambda>_ w. (Inr (row_by idempotency_key k (ow_triggers w)), w))"

definition getLatestTriggerByActionKey :: "oracle_env \<Rightarrow> string \<Rightarrow> trigger option oracle_eff" where
  "getLatestTriggerByActionKey env k =
     db_query env (\<lambda>_ w. (Inr (latest_by created_at (filter (\<lambda>t. action_key t = k) (ow_triggers w))), w))"

definition getTriggersByStatus :: "oracle_env \<Rightarrow> trigger_status \<Rightarrow> nat \<Rightarrow> trigger list oracle_eff" where
  "getTriggersByStatus env s limit =
     db_query env (\<lambda>_ w. (Inr (take limit (sort_key created_at
        (filter (\<lambda>t. status t = s) (ow_triggers w)))), w))"

definition getExhaustedTriggersForRedrive :: "oracle_env \<Rightarrow> nat \<Rightarrow> trigger list oracle_eff" where
  "getExhaustedTriggersForRedrive env limit =
     db_query env (\<lambda>_ w. (Inr (take limit (sort_key updated_at
        (filter (\<lambda>t. status t = EXHAUSTED_NEEDS_REDRIVE) (ow_triggers w)))), w))"

definition insert_trigger :: "create_trigger_data \<Rightarrow> int \<Rightarrow> oracle_world \<Rightarrow> (js_error + trigger) \<times> oracle_world" where
  "insert_trigger data now w =
     (let t = new_trigger now data
      in case guarded_insert triggers_ok t (ow_triggers w) of
           None \<Rightarrow> (Inl (violated_constraint (ow_triggers w @ [t])), w)
         | Some rows \<Rightarrow> (Inr t, w\<lparr>ow_triggers := rows\<rparr>))"

definition createTrigger :: "oracle_env \<Rightarrow> create_trigger_data \<Rightarrow> trigger oracle_eff" where
  "createTrigger env data =
     catchE (db_query env (insert_trigger data))
       (\<lambda>error.
          if js_code error = Some ''23505'' then
            bindE (getLatestTriggerByActionKey env (ct_actionKey data))
              (\<lambda>existing. case existing of Some t \<Rightarrow> ret t | None \<Rightarrow> throw error)
          else throw error)"

text \<open>\<open>SET c1 = v1, ..., updated_at = NOW()\<close>\<close>

definition set_columns :: "column_update list \<Rightarrow> int \<Rightarrow> trigger \<Rightarrow> trigger" where
  "set_columns updates now t = (fold set_column updates t)\<lparr>updated_at := now\<rparr>"

definition update_rows ::
  "(trigger \<Rightarrow> bool) \<Rightarrow> (trigger \<Rightarrow> trigger) \<Rightarrow> 'a \<Rightarrow> oracle_world \<Rightarrow> (js_error + 'a) \<times> oracle_world" where
  "update_rows P f res w =
     (case guarded_update triggers_ok P f (ow_triggers w) of
        None \<Rightarrow> (Inl (violated_constraint (update_where P f (ow_triggers w))), w)
      | Some rows \<Rightarrow> (Inr res, w\<lparr>ow_triggers := rows\<rparr>))"

definition updateTrigger :: "oracle_env \<Rightarrow> string \<Rightarrow> column_update list \<Rightarrow> unit oracle_eff" where
  "updateTrigger env k updates =
     (if updates = [] then ret ()
      else db_query env (\<lambda>now. update_rows (\<lambda>t. idempotency_key t = k) (set_columns updates now) ()))"

definition approved :: "string \<Rightarrow> int \<Rightarrow> trigger \<Rightarrow> trigger" where
  "approved actor now t =
     t\<lparr>status := PENDING, approved_by := Some actor, approved_at := Some now, updated_at := now\<rparr>"

definition rejected :: "string \<Rightarrow> string option \<Rightarrow> int \<Rightarrow> trigger \<Rightarrow> trigger" where
  "rejected actor reason now t =
     t\<lparr>status := REJECTED, rejected_by := Some actor, rejected_at := Some now,
       rejection_reason := reason, updated_at := now\<rparr>"

text \<open>\<open>UPDATE ... WHERE idempotency_key = k AND status = 'PENDING_APPROVAL' RETURNING *\<close>\<close>

definition decide_pending ::
  "oracle_env \<Rightarrow> string \<Rightarrow> (int \<Rightarrow> trigger \<Rightarrow> trigger) \<Rightarrow> trigger option oracle_eff" where
  "decide_pending env k f =
     db_query env (\<lambda>now w.
       update_rows (\<lambda>t. idempotency_key t = k \<and> status t = PENDING_APPROVAL) (f now)
         (map_option (f now)
            (find (\<lambda>t. idempotency_key t = k \<and> status t = PENDING_APPROVAL) (ow_triggers w))) w)"

definition approveTrigger :: "oracle_env \<Rightarrow> string \<Rightarrow> string \<Rightarrow> trigger option oracle_eff" where
  "approveTrigger env k actor = decide_pending env k (approved actor)"

definition rejectTrigger :: "oracle_env \<Rightarrow> string \<Rightarrow> string \<Rightarrow> string option \<Rightarrow> trigger option oracle_eff" where
  "rejectTrigger env k actor reason = decide_pending env k (rejected actor reason)"

definition consumeHmacNonce :: "oracle_env \<Rightarrow> string \<Rightarrow> string \<Rightarrow> int \<Rightarrow> bool oracle_eff" where
  "consumeHmacNonce env apiKey nonce ttlSeconds =
     db_query env (\<lambda>now w.
       (case consume_row (oe_prune_first env (ow_tick w)) (ow_nonces w) now apiKey nonce ttlSeconds of
          (accepted, rows) \<Rightarrow> (Inr accepted, w\<lparr>ow_nonces := rows\<rparr>)))"

section \<open>Rows under updates\<close>

lemma fold_set_column_keys [simp]:
  "action_key (fold set_column us t) = action_key t"
  "idempotency_key (fold set_column us t) = idempotency_key t"
  "trade_id (fold set_column us t) = trade_id t"
  "trigger_type (fold set_column us t) = trigger_type t"
  "created_at (fold set_column us t) = created_at t"
  by (induction us arbitrary: t) simp_all

lemma set_columns_keys [simp]:
  "action_key (set_columns us now t) = action_key t"
  "idempotency_key (set_columns us now t) = idempotency_key t"
  "trade_id (set_columns us now t) = trade_id t"
  "trigger_type (set_columns us now t) = trigger_type t"
  "created_at (set_columns us now t) = created_at t"
  by (simp_all add: set_columns_def)

lemma decided_keys [simp]:
  "idempotency_key (approved actor now t) = idempotency_key t"
  "action_key (approved actor now t) = action_key t"
  "idempotency_key (rejected actor reason now t) = idempotency_key t"
  "action_key (rejected actor reason now t) = action_key t"
  "status (approved actor now t) = PENDING"
  "status (rejected actor reason now t) = REJECTED"
  by (simp_all add: approved_def rejected_def)

lemma status_set_columns_first [simp]:
  "\<forall>u \<in> set us. \<forall>s. u \<noteq> U_status s \<Longrightarrow> status (fold set_column us t) = status t"
proof (induction us arbitrary: t)
  case Nil
  then show ?case by simp
next
  case (Cons u us)
  then have "status (set_column u t) = status t" by (cases u) auto
  with Cons show ?case by simp
qed

section \<open>The constraints as an invariant\<close>

abbreviation rows_ok :: "oracle_world \<Rightarrow> bool" where
  "rows_ok \<equiv> on_view (\<lambda>rows _. triggers_ok rows)"

lemma rows_ok_iff: "rows_ok w \<longleftrightarrow> triggers_ok (ow_triggers w)"
  by (simp add: on_view_def)

lemma update_rows_ok: "triggers_ok (ow_triggers w) \<Longrightarrow> triggers_ok (ow_triggers (state_of (update_rows P f r w)))"
  by (auto simp: update_rows_def guarded_update_Some split: option.splits)

lemma insert_trigger_ok: "triggers_ok (ow_triggers w) \<Longrightarrow> triggers_ok (ow_triggers (state_of (insert_trigger d now w)))"
  by (auto simp: insert_trigger_def guarded_insert_Some Let_def split: option.splits)

lemma keeps_query_read: "keeps (on_view P) (db_query env (\<lambda>now w. (Inr (f now w), w)))"
  by (rule keeps_db_query) simp

lemma keeps_getTriggerByIdempotencyKey [keeps_rules]: "keeps (on_view P) (getTriggerByIdempotencyKey env k)"
  unfolding getTriggerByIdempotencyKey_def by (rule keeps_query_read)

lemma keeps_getLatestTriggerByActionKey [keeps_rules]: "keeps (on_view P) (getLatestTriggerByActionKey env k)"
  unfolding getLatestTriggerByActionKey_def by (rule keeps_query_read)

lemma keeps_getTriggersByStatus [keeps_rules]: "keeps (on_view P) (getTriggersByStatus env s n)"
  unfolding getTriggersByStatus_def by (rule keeps_query_read)

lemma keeps_getExhausted [keeps_rules]: "keeps (on_view P) (getExhaustedTriggersForRedrive env n)"
  unfolding getExhaustedTriggersForRedrive_def by (rule keeps_query_read)

lemma keeps_consumeHmacNonce [keeps_rules]: "keeps (on_view P) (consumeHmacNonce env k n ttl)"
  unfolding consumeHmacNonce_def
  by (rule keeps_db_query) (simp add: on_view_def split: prod.splits)

lemma rows_ok_createTrigger [keeps_rules]: "keeps rows_ok (createTrigger env d)"
proof -
  have "keeps rows_ok (db_query env (insert_trigger d))"
    by (rule keeps_db_query) (auto simp: on_view_def insert_trigger_ok)
  then show ?thesis
    unfolding createTrigger_def
    by (intro keeps_rules)
qed

lemma rows_ok_updateTrigger [keeps_rules]: "keeps rows_ok (updateTrigger env k us)"
  unfolding updateTrigger_def
  by (intro keeps_rules keeps_db_query) (auto simp: on_view_def update_rows_ok)

lemma rows_ok_decide_pending: "keeps rows_ok (decide_pending env k f)"
  unfolding decide_pending_def
  by (rule keeps_db_query) (auto simp: on_view_def update_rows_ok)

lemma rows_ok_approveTrigger [keeps_rules]: "keeps rows_ok (approveTrigger env k a)"
  unfolding approveTrigger_def by (rule rows_ok_decide_pending)

lemma rows_ok_rejectTrigger [keeps_rules]: "keeps rows_ok (rejectTrigger env k a r)"
  unfolding rejectTrigger_def by (rule rows_ok_decide_pending)

section \<open>The log of sent transactions\<close>

abbreviation sent_is :: "sent_log \<Rightarrow> oracle_world \<Rightarrow> bool" where
  "sent_is xs \<equiv> on_view (\<lambda>_ sent. sent = xs)"

lemma sent_is_iff: "sent_is xs w \<longleftrightarrow> ow_sent w = xs"
  by (simp add: on_view_def)

lemma update_rows_sent [simp]: "ow_sent (state_of (update_rows P f r w)) = ow_sent w"
  by (simp add: update_rows_def split: option.splits)

lemma insert_trigger_sent [simp]: "ow_sent (state_of (insert_trigger d now w)) = ow_sent w"
  by (simp add: insert_trigger_def Let_def split: option.splits)

lemma sent_createTrigger [keeps_rules]: "keeps (on_view (\<lambda>_ sent. Q sent)) (createTrigger env d)"
proof -
  have "keeps (on_view (\<lambda>_ sent. Q sent)) (db_query env (insert_trigger d))"
    by (rule keeps_db_query) (auto simp: on_view_def)
  then show ?thesis
    unfolding createTrigger_def
    by (intro keeps_rules)
qed

lemma sent_updateTrigger [keeps_rules]: "keeps (on_view (\<lambda>_ sent. Q sent)) (updateTrigger env k us)"
  unfolding updateTrigger_def
  by (intro keeps_rules keeps_db_query) (auto simp: on_view_def)

lemma sent_decide_pending: "keeps (on_view (\<lambda>_ sent. Q sent)) (decide_pending env k f)"
  unfolding decide_pending_def
  by (rule keeps_db_query) (auto simp: on_view_def)

lemma sent_approveTrigger [keeps_rules]: "keeps (on_view (\<lambda>_ sent. Q sent)) (approveTrigger env k a)"
  unfolding approveTrigger_def by (rule sent_decide_pending)

lemma sent_rejectTrigger [keeps_rules]: "keeps (on_view (\<lambda>_ sent. Q sent)) (rejectTrigger env k a r)"
  unfolding rejectTrigger_def by (rule sent_decide_pending)

lemma updateTrigger_tick:
  "us \<noteq> [] \<Longrightarrow> ow_tick (state_of (updateTrigger env k us w)) = Suc (ow_tick w)"
  by (simp add: updateTrigger_def db_query_def update_rows_def split: option.splits)

section \<open>Active actions\<close>

text \<open>At most one active trigger per action key.\<close>

lemma triggers_ok_active_unique:
  assumes "triggers_ok rows" "s \<in> set rows" "t \<in> set rows"
    and "is_active (status s)" "is_active (status t)" "action_key s = action_key t"
  shows "s = t"
proof -
  from assms(1) have "inj_on action_key (set (filter (\<lambda>t. is_active (status t)) rows))"
    by (simp add: triggers_ok_def active_keys_def distinct_map)
  then show ?thesis
    by (rule inj_onD) (use assms in auto)
qed

end
