(* ===== verification/Oracle_Chain.thy ===== *)
theory Oracle_Chain imports Main Oracle_World begin

text \<open>
  The oracle's access to the chain: the methods of \<open>OracleSDK\<close> (\<open>sdk/src/modules/oracleSDK.ts\<close>)
  that it calls, over the contract as the environment gives it, and the wrapper \<open>SDKClient\<close>
  (\<open>oracle/src/blockchain/sdk-client.ts\<close>).  Sending a transaction and waiting for its receipt
  is one external call, logged in \<open>ow_sent\<close> when it is made.
\<close>

section \<open>OracleSDK\<close>

definition sdk_getOracleAddress :: "oracle_env \<Rightarrow> string oracle_eff" where
  "sdk_getOracleAddress env =
     catchE (try_env (oe_oracle_address env))
       (\<lambda>error. throw (sdk_contract_error (''Failed to get oracle address: '' @ js_message error)))"

definition verifyOracle :: "oracle_env \<Rightarrow> unit oracle_eff" where
  "verifyOracle env =
     bindE (sdk_getOracleAddress env)
       (\<lambda>authorizedOracle.
          if to_lower (oe_signer_address env) \<noteq> to_lower authorizedOracle
          then throw (sdk_authorization_error ''Caller is not the authorized oracle'')
          else ret ())"

definition send_tx :: "oracle_env \<Rightarrow> trigger_type \<Rightarrow> string \<Rightarrow> blockchain_result option oracle_eff" where
  "send_tx env ty tradeId w =
     (oe_send env (ow_tick w) ty tradeId, (tick w)\<lparr>ow_sent := ow_sent w @ [(ow_tick w, ty, tradeId)]\<rparr>)"

text \<open>The body shared by the three transactions; \<open>what\<close> completes the message of a failure.\<close>

definition sdk_transaction :: "oracle_env \<Rightarrow> trigger_type \<Rightarrow> string \<Rightarrow> string \<Rightarrow> blockchain_result oracle_eff" where
  "sdk_transaction env ty what tradeId =
     catchE
       (bindE (send_tx env ty tradeId)
          (\<lambda>receipt. case receipt of
             None \<Rightarrow> throw (sdk_contract_error ''Transaction receipt not available'')
           | Some r \<Rightarrow> ret r))
       (\<lambda>error. throw (sdk_contract_error (''Failed to '' @ what @ '': '' @ js_message error)))"

definition sdk_releaseFundsStage1 :: "oracle_env \<Rightarrow> string \<Rightarrow> blockchain_result oracle_eff" where
  "sdk_releaseFundsStage1 env tradeId =
     seqE (verifyOracle env) (sdk_transaction env RELEASE_STAGE_1 ''release stage 1 funds'' tradeId)"

definition sdk_confirmArrival :: "oracle_env \<Rightarrow> string \<Rightarrow> blockchain_result oracle_eff" where
  "sdk_confirmArrival env tradeId =
     seqE (verifyOracle env) (sdk_transaction env CONFIRM_ARRIVAL ''confirm arrival'' tradeId)"

definition sdk_finalizeAfterDisputeWindow :: "oracle_env \<Rightarrow> string \<Rightarrow> blockchain_result oracle_eff" where
  "sdk_finalizeAfterDisputeWindow env tradeId =
     sdk_transaction env FINALIZE_TRADE ''finalize trade'' tradeId"

definition trade_of_raw :: "raw_trade \<Rightarrow> trade" where
  "trade_of_raw r =
     \<lparr>td_tradeId = show_nat (rt_tradeId r), td_buyer = rt_buyerAddress r,
      td_supplier = rt_supplierAddress r, td_status = status_of_number (rt_status r),
      td_totalAmountLocked = rt_totalAmountLocked r, td_logisticsAmount = rt_logisticsAmount r,
      td_platformFeesAmount = rt_platformFeesAmount r,
      td_supplierFirstTranche = rt_supplierFirstTranche r,
      td_supplierSecondTranche = rt_supplierSecondTranche r,
      td_ricardianHash = rt_ricardianHash r, td_createdAt = int (rt_createdAt r) * 1000,
      td_arrivalTimestamp =
        (if rt_arrivalTimestamp r > 0 then Some (int (rt_arrivalTimestamp r) * 1000) else None)\<rparr>"

definition sdk_getTrade :: "oracle_env \<Rightarrow> string \<Rightarrow> trade oracle_eff" where
  "sdk_getTrade env tradeId =
     catchE (bindE (try_env (\<lambda>n. oe_trades env n tradeId)) (\<lambda>r. ret (trade_of_raw r)))
       (\<lambda>error. throw (sdk_contract_error (''Failed to get trade: '' @ js_message error)))"

section \<open>SDKClient\<close>

definition getTrade :: "oracle_env \<Rightarrow> string \<Rightarrow> trade oracle_eff" where
  "getTrade env tradeId =
     bindE (sdk_getTrade env tradeId)
       (\<lambda>trade.
          if td_tradeId trade = ''0'' \<or> td_buyer trade = zero_address
          then throw (validation_error (''Trade '' @ tradeId @ '' does not exist on-chain''))
          else ret trade)"

definition releaseFundsStage1 :: "oracle_env \<Rightarrow> string \<Rightarrow> blockchain_result oracle_eff" where
  "releaseFundsStage1 env tradeId =
     bindE (sdk_releaseFundsStage1 env tradeId)
       (\<lambda>r. ret \<lparr>br_txHash = br_txHash r, br_blockNumber = br_blockNumber r\<rparr>)"

definition confirmArrival :: "oracle_env \<Rightarrow> string \<Rightarrow> blockchain_result oracle_eff" where
  "confirmArrival env tradeId =
     bindE (sdk_confirmArrival env tradeId)
       (\<lambda>r. ret \<lparr>br_txHash = br_txHash r, br_blockNumber = br_blockNumber r\<rparr>)"

definition finalizeTrade :: "oracle_env \<Rightarrow> string \<Rightarrow> blockchain_result oracle_eff" where
  "finalizeTrade env tradeId =
     bindE (sdk_finalizeAfterDisputeWindow env tradeId)
       (\<lambda>r. ret \<lparr>br_txHash = br_txHash r, br_blockNumber = br_blockNumber r\<rparr>)"

section \<open>What they keep\<close>

lemma send_tx_app [eff_simps]:
  "send_tx env ty tid w =
     (oe_send env (ow_tick w) ty tid, (tick w)\<lparr>ow_sent := ow_sent w @ [(ow_tick w, ty, tid)]\<rparr>)"
  by (simp add: send_tx_def)

lemma keeps_sdk_getTrade [keeps_rules]: "keeps (on_view P) (sdk_getTrade env tid)"
  unfolding sdk_getTrade_def by (intro keeps_rules)

lemma keeps_getTrade [keeps_rules]: "keeps (on_view P) (getTrade env tid)"
  unfolding getTrade_def by (intro keeps_rules)

lemma keeps_verifyOracle [keeps_rules]: "keeps (on_view P) (verifyOracle env)"
  unfolding verifyOracle_def sdk_getOracleAddress_def by (intro keeps_rules)

lemma rows_send_tx: "keeps (on_view (\<lambda>rows _. P rows)) (send_tx env ty tid)"
  by (rule keepsI) (simp add: eff_simps on_view_def)

lemma rows_sdk_transaction: "keeps (on_view (\<lambda>rows _. P rows)) (sdk_transaction env ty what tid)"
  unfolding sdk_transaction_def by (intro keeps_rules rows_send_tx)

lemma rows_submissions [keeps_rules]:
  "keeps (on_view (\<lambda>rows _. P rows)) (releaseFundsStage1 env tid)"
  "keeps (on_view (\<lambda>rows _. P rows)) (confirmArrival env tid)"
  "keeps (on_view (\<lambda>rows _. P rows)) (finalizeTrade env tid)"
  unfolding releaseFundsStage1_def confirmArrival_def finalizeTrade_def sdk_releaseFundsStage1_def
    sdk_confirmArrival_def sdk_finalizeAfterDisputeWindow_def
  by (intro keeps_rules rows_sdk_transaction)+

text \<open>What a successful read says of the chain's answer.\<close>

lemma getTrade_Inr:
  assumes "getTrade env tid w = (Inr t, w')"
  obtains r where "oe_trades env (ow_tick w) tid = Inr r" "t = trade_of_raw r"
    "rt_tradeId r \<noteq> 0" "rt_buyerAddress r \<noteq> zero_address" "w' = tick w"
  using assms that
  by (cases "oe_trades env (ow_tick w) tid")
     (auto simp: getTrade_def sdk_getTrade_def eff_simps trade_of_raw_def split: if_splits)

text \<open>A transaction is sent at most once, and only the one asked for.\<close>

lemma sdk_transaction_sent:
  "ow_sent (state_of (sdk_transaction env ty what tid w)) = ow_sent w @ [(ow_tick w, ty, tid)]"
  by (auto simp: sdk_transaction_def eff_simps split: sum.splits option.splits)

lemma verifyOracle_sent [simp]:
  "ow_sent (state_of (verifyOracle env w)) = ow_sent w"
  "ow_triggers (state_of (verifyOracle env w)) = ow_triggers w"
  by (auto simp: verifyOracle_def sdk_getOracleAddress_def eff_simps split: sum.splits)

end
