(* ===== verification/Oracle_Crypto.thy ===== *)
theory Oracle_Crypto imports Main Complex_Main Oracle_World begin

text \<open>
  Keys, back-off and request signatures of the oracle (\<open>oracle/src/utils/crypto.ts\<close>).  The hash
  functions are parameters, \<open>hmac secret payload\<close> and \<open>sha256 text\<close>, both with hexadecimal
  results; \<open>Math.random()\<close> is a parameter \<open>u\<close> in \<open>[0, 1)\<close>.
\<close>

section \<open>Keys\<close>

definition generateActionKey :: "trigger_type \<Rightarrow> string \<Rightarrow> string" where
  "generateActionKey operation tradeId = trigger_type_name operation @ '':'' @ tradeId"

definition generateRequestId :: "oracle_env \<Rightarrow> string oracle_eff" where
  "generateRequestId env = ask_env (oe_random_id env)"

definition generateIdempotencyKey :: "oracle_env \<Rightarrow> string \<Rightarrow> string oracle_eff" where
  "generateIdempotencyKey env actionKey =
     bindE (generateRequestId env) (\<lambda>requestId. ret (actionKey @ '':'' @ requestId))"

section \<open>Back-off\<close>

definition generateJitter :: "rat \<Rightarrow> int \<Rightarrow> int" where
  "generateJitter u maxJitterMs =
     (if maxJitterMs \<le> 0 then 0 else \<lfloor>u * of_int maxJitterMs\<rfloor>)"

text \<open>
  The delay before attempt \<open>attempt + 1\<close>, for \<open>attempt \<ge> 1\<close>.  The numbers stay far below
  \<open>2 ^ 53\<close> (\<open>RETRY_ATTEMPTS\<close> is at most 10, \<open>RETRY_DELAY\<close> at most 30000), so integers are exact.
\<close>

definition calculateBackoff :: "rat \<Rightarrow> int \<Rightarrow> int \<Rightarrow> int \<Rightarrow> int \<Rightarrow> int" where
  "calculateBackoff u attempt baseDelay maxDelayMs maxJitterMs =
     (let exponentialDelay = baseDelay * 2 ^ nat (attempt - 1);
          cappedExponentialDelay = min exponentialDelay maxDelayMs;
          availableJitterWindow = max 0 (maxDelayMs - cappedExponentialDelay);
          jitter = generateJitter u (min maxJitterMs (availableJitterWindow + 1))
      in cappedExponentialDelay + jitter)"

lemma generateJitter_bounds:
  assumes "0 \<le> u" "u < 1"
  shows "0 \<le> generateJitter u m" "generateJitter u m \<le> max 0 (m - 1)"
proof -
  show "0 \<le> generateJitter u m"
    using assms by (simp add: generateJitter_def)
  show "generateJitter u m \<le> max 0 (m - 1)"
  proof (cases "m \<le> 0")
    case True
    then show ?thesis by (simp add: generateJitter_def)
  next
    case False
    with assms(2) have "u * of_int m < of_int m" by simp
    then have "\<lfloor>u * of_int m\<rfloor> < m" by (simp add: floor_less_iff)
    with False show ?thesis by (simp add: generateJitter_def)
  qed
qed

text \<open>The delay is never above the cap, and never below the capped exponential delay.\<close>

lemma calculateBackoff_bounds:
  assumes "0 \<le> u" "u < 1"
  shows "calculateBackoff u a b cap j \<le> cap"
    and "min (b * 2 ^ nat (a - 1)) cap \<le> calculateBackoff u a b cap j"
proof -
  obtain c where c_def: "c = min (b * 2 ^ nat (a - 1)) cap" by blast
  obtain g where g_def: "g = generateJitter u (min j (max 0 (cap - c) + 1))" by blast
  have eq: "calculateBackoff u a b cap j = c + g"
    by (simp add: calculateBackoff_def Let_def c_def g_def)
  have "g \<le> max 0 (min j (max 0 (cap - c) + 1) - 1)"
    unfolding g_def using assms by (rule generateJitter_bounds)
  moreover have "c \<le> cap" by (simp add: c_def)
  ultimately show "calculateBackoff u a b cap j \<le> cap" unfolding eq by linarith
  have "0 \<le> g" unfolding g_def using assms by (rule generateJitter_bounds)
  then show "min (b * 2 ^ nat (a - 1)) cap \<le> calculateBackoff u a b cap j"
    unfolding eq c_def [symmetric] by simp
qed

section \<open>Signatures\<close>

definition generateRequestHash :: "(string \<Rightarrow> string \<Rightarrow> string) \<Rightarrow> string \<Rightarrow> string \<Rightarrow> string \<Rightarrow> string" where
  "generateRequestHash hmac timestamp body secret = hmac secret (timestamp @ body)"

definition deriveRequestNonce :: "(string \<Rightarrow> string) \<Rightarrow> string \<Rightarrow> string \<Rightarrow> string \<Rightarrow> string" where
  "deriveRequestNonce sha256 timestamp body signature =
     sha256 (timestamp @ '':'' @ body @ '':'' @ signature)"

text \<open>
  \<open>new Date(parseInt(timestamp)).getTime()\<close>: \<open>None\<close> for an invalid date, whose comparisons
  are all false.
\<close>

definition request_time :: "string \<Rightarrow> int option" where
  "request_time timestamp =
     (case parse_int timestamp of
        None \<Rightarrow> None
      | Some n \<Rightarrow> if \<bar>n\<bar> \<le> 8640000000000000 then Some n else None)"

definition range_error :: js_error where
  "range_error = (plain_error ''Input buffers must have the same byte length'')\<lparr>js_name := ''RangeError''\<rparr>"

definition verifyRequestSignature ::
  "(string \<Rightarrow> string \<Rightarrow> string) \<Rightarrow> (int \<Rightarrow> string) \<Rightarrow> int \<Rightarrow> string \<Rightarrow> string \<Rightarrow> string \<Rightarrow>
   string \<Rightarrow> int \<Rightarrow> js_error + unit" where
  "verifyRequestSignature hmac toFixed1 now timestamp body signature secret maxAgeMinutes =
     (let age = map_option (\<lambda>t. now - t) (request_time timestamp);
          expectedHash = generateRequestHash hmac timestamp body secret
      in if (case age of None \<Rightarrow> False | Some a \<Rightarrow> a > maxAgeMinutes * 60000) then
           Inl (plain_error (''Request timestamp too old: '' @ toFixed1 (the age) @ '' minutes''))
         else if (case age of None \<Rightarrow> False | Some a \<Rightarrow> a < - 60000) then
           Inl (plain_error ''Request timestamp is in the future'')
         else if length signature \<noteq> length expectedHash then
           Inl (plain_error ''Invalid HMAC signature'')
         else if length (from_hex signature) \<noteq> length (from_hex expectedHash) then
           Inl range_error
         else if from_hex signature \<noteq> from_hex expectedHash then
           Inl (plain_error ''Invalid HMAC signature'')
         else Inr ())"

lemma verifyRequestSignature_ok:
  "verifyRequestSignature hmac fmt now ts body sig secret m = Inr u \<longleftrightarrow>
     (\<forall>t. request_time ts = Some t \<longrightarrow> - 60000 \<le> now - t \<and> now - t \<le> m * 60000) \<and>
     length sig = length (hmac secret (ts @ body)) \<and>
     from_hex sig = from_hex (hmac secret (ts @ body))"
  by (cases "request_time ts")
     (auto simp: verifyRequestSignature_def generateRequestHash_def Let_def)

lemma verifyRequestSignature_upper:
  "verifyRequestSignature hmac fmt now ts body (to_lower sig) secret m = Inr () \<longleftrightarrow>
   verifyRequestSignature hmac fmt now ts body sig secret m = Inr ()"
  by (simp add: verifyRequestSignature_ok from_hex_lower)

end
