(* ===== verification/Oracle_Validator.thy ===== *)
theory Oracle_Validator imports Main Oracle_World begin

text \<open>
  The checks of \<open>oracle/src/core/state-validator.ts\<close>: the state a trade must be in before the
  oracle acts on it, and the format of a trade id.
\<close>

definition dispute_window_ms :: int where
  "dispute_window_ms = 24 * 60 * 60 * 1000"

text \<open>\<open>Math.ceil(a / b)\<close> on integers\<close>

definition ceil_div :: "int \<Rightarrow> int \<Rightarrow> int" where
  "ceil_div a b = - ((- a) div b)"

definition wrong_status :: "string \<Rightarrow> trade \<Rightarrow> string \<Rightarrow> js_error" where
  "wrong_status what trade expected =
     validation_error (what @ '': Trade '' @ td_tradeId trade @ '' is in status '' @
       status_name (td_status trade) @ '', expected '' @ expected)"

definition validateReleaseStage1 :: "trade \<Rightarrow> unit oracle_eff" where
  "validateReleaseStage1 trade =
     (if td_status trade \<noteq> LOCKED
      then throw (wrong_status ''Cannot release stage 1'' trade ''LOCKED'')
      else ret ())"

definition validateConfirmArrival :: "trade \<Rightarrow> unit oracle_eff" where
  "validateConfirmArrival trade =
     (if td_status trade \<noteq> IN_TRANSIT
      then throw (wrong_status ''Cannot confirm arrival'' trade ''IN_TRANSIT'')
      else ret ())"

definition validateFinalizeTrade :: "oracle_env \<Rightarrow> trade \<Rightarrow> unit oracle_eff" where
  "validateFinalizeTrade env trade =
     (if td_status trade \<noteq> ARRIVAL_CONFIRMED
      then throw (wrong_status ''Cannot finalize'' trade ''ARRIVAL_CONFIRMED'')
      else
        (case td_arrivalTimestamp trade of
           Some arrivalTime \<Rightarrow>
             bindE (date_now env)
               (\<lambda>now.
                  if now \<le> arrivalTime + dispute_window_ms then
                    (let remainingMs = arrivalTime + dispute_window_ms - now;
                         remainingHours = ceil_div remainingMs (60 * 60 * 1000);
                         remainingMinutes = ceil_div remainingMs (60 * 1000)
                     in throw (validation_error
                          (''Cannot finalize: Dispute window (24h) not expired. Remaining: '' @
                           show_int remainingHours @ ''h ('' @ show_int remainingMinutes @ '' minutes)'')))
                  else ret ())
         | None \<Rightarrow>
             throw (validation_error
               (''Cannot finalize: Trade '' @ td_tradeId trade @ '' has no arrival timestamp''))))"

fun validateTradeState :: "oracle_env \<Rightarrow> trade \<Rightarrow> trigger_type \<Rightarrow> unit oracle_eff" where
  "validateTradeState env trade RELEASE_STAGE_1 = validateReleaseStage1 trade"
| "validateTradeState env trade CONFIRM_ARRIVAL = validateConfirmArrival trade"
| "validateTradeState env trade FINALIZE_TRADE = validateFinalizeTrade env trade"

definition validateTradeId :: "string \<Rightarrow> unit oracle_eff" where
  "validateTradeId tradeId =
     (if \<not> all_digits tradeId
      then throw (validation_error (''Invalid trade ID format: '' @ tradeId))
      else ret ())"

section \<open>What passing means\<close>

fun required_status :: "trigger_type \<Rightarrow> trade_status" where
  "required_status RELEASE_STAGE_1 = LOCKED"
| "required_status CONFIRM_ARRIVAL = IN_TRANSIT"
| "required_status FINALIZE_TRADE = ARRIVAL_CONFIRMED"

text \<open>The specification: the trade is in the status the action starts from, and a trade to be
  finalized has been in it for more than the dispute window.\<close>

definition action_allowed :: "int \<Rightarrow> trade \<Rightarrow> trigger_type \<Rightarrow> bool" where
  "action_allowed now trade ty \<longleftrightarrow>
     td_status trade = required_status ty \<and>
     (ty = FINALIZE_TRADE \<longrightarrow>
        (case td_arrivalTimestamp trade of None \<Rightarrow> False | Some a \<Rightarrow> now > a + 86400000))"

lemmas validator_defs = validateReleaseStage1_def validateConfirmArrival_def
  validateFinalizeTrade_def dispute_window_ms_def

lemma validateTradeState_result:
  "(\<exists>u. result_of (validateTradeState env t ty w) = Inr u) \<longleftrightarrow>
   action_allowed (oe_now env (ow_tick w)) t ty"
  by (cases ty)
     (auto simp: validator_defs action_allowed_def eff_simps Let_def split: option.splits)

text \<open>A refusal is always the oracle's own validation error, so it is terminal.\<close>

lemma validateTradeState_error:
  "result_of (validateTradeState env t ty w) = Inl e \<Longrightarrow> is_validation_error e \<and> is_terminal e"
  by (cases ty)
     (auto simp: validator_defs wrong_status_def eff_simps Let_def split: option.splits if_splits)

lemma keeps_validateTradeState [keeps_rules]: "keeps (on_view P) (validateTradeState env t ty)"
  by (cases ty) (auto simp: validator_defs Let_def intro!: keeps_rules)

lemma keeps_validateTradeId [keeps_rules]: "keeps (on_view P) (validateTradeId i)"
  unfolding validateTradeId_def by (intro keeps_rules)

lemma validateTradeState_views [simp]:
  "ow_sent (state_of (validateTradeState env t ty w)) = ow_sent w"
  "ow_triggers (state_of (validateTradeState env t ty w)) = ow_triggers w"
  by (cases ty; auto simp: validator_defs eff_simps Let_def split: option.splits)+

end
