(* ===== verification/Oracle_Manager.thy ===== *)
theory Oracle_Manager imports Main Oracle_Store Oracle_Chain Oracle_Crypto Oracle_Validator begin

text \<open>
  The trigger manager (\<open>oracle/src/core/trigger-manager.ts\<close>) with the counters of
  \<open>oracle/src/metrics/counters.ts\<close>: from a request to a transaction on the chain, through the
  approval gate, bounded retries and the re-drive of exhausted triggers.
\<close>

section \<open>Requests, responses, configuration\<close>

record manager_config =
  mc_maxAttempts :: int
  mc_baseDelayMs :: int
  mc_manualApprovalEnabled :: bool

definition maxBackoffMs :: int where
  "maxBackoffMs = 30000"

record trigger_request =
  tq_tradeId :: string
  tq_requestId :: string
  tq_triggerType :: trigger_type
  tq_requestHash :: "string option"
  tq_isRedrive :: bool

record trigger_response =
  rs_idempotencyKey :: string
  rs_actionKey :: string
  rs_requestId :: string
  rs_status :: trigger_status
  rs_txHash :: "string option"
  rs_blockNumber :: "int option"
  rs_message :: string

text \<open>\<open>x || undefined\<close> on a string, and \<open>b ? Number(b) : undefined\<close> on a \<open>bigint\<close> (0 is falsy).\<close>

definition or_undefined :: "string option \<Rightarrow> string option" where
  "or_undefined x = (if truthy_opt x then x else None)"

definition block_or_undefined :: "int option \<Rightarrow> int option" where
  "block_or_undefined b = (if b = Some 0 then None else b)"

section \<open>Counters\<close>

definition count :: "(oracle_counters \<Rightarrow> oracle_counters) \<Rightarrow> unit oracle_eff" where
  "count f = change (\<lambda>w. w\<lparr>ow_counters := f (ow_counters w)\<rparr>)"

definition incrementOracleExhaustedRetries :: "unit oracle_eff" where
  "incrementOracleExhaustedRetries =
     count (\<lambda>c. c\<lparr>oc_exhaustedRetries := oc_exhaustedRetries c + 1\<rparr>)"

definition incrementOracleRedriveAttempts :: "unit oracle_eff" where
  "incrementOracleRedriveAttempts =
     count (\<lambda>c. c\<lparr>oc_redriveAttempts := oc_redriveAttempts c + 1\<rparr>)"

definition incrementOraclePendingApproval :: "unit oracle_eff" where
  "incrementOraclePendingApproval =
     count (\<lambda>c. c\<lparr>oc_pendingApproval := oc_pendingApproval c + 1\<rparr>)"

definition incrementOracleApproved :: "unit oracle_eff" where
  "incrementOracleApproved = count (\<lambda>c. c\<lparr>oc_approved := oc_approved c + 1\<rparr>)"

definition incrementOracleRejected :: "unit oracle_eff" where
  "incrementOracleRejected = count (\<lambda>c. c\<lparr>oc_rejected := oc_rejected c + 1\<rparr>)"

lemmas counter_defs = incrementOracleExhaustedRetries_def incrementOracleRedriveAttempts_def
  incrementOraclePendingApproval_def incrementOracleApproved_def incrementOracleRejected_def

lemma keeps_count: "keeps (on_view P) (count f)"
  unfolding count_def by (rule keeps_change) (simp add: on_view_def)

lemma keeps_counters [keeps_rules]:
  "keeps (on_view P) incrementOracleExhaustedRetries"
  "keeps (on_view P) incrementOracleRedriveAttempts"
  "keeps (on_view P) incrementOraclePendingApproval"
  "keeps (on_view P) incrementOracleApproved"
  "keeps (on_view P) incrementOracleRejected"
  unfolding counter_defs by (rule keeps_count)+

section \<open>Responses\<close>

definition isActionAlreadyCompleted :: "trigger \<Rightarrow> bool" where
  "isActionAlreadyCompleted t \<longleftrightarrow> status t = CONFIRMED \<or> status t = SUBMITTED"

definition completed_response :: "string \<Rightarrow> trigger \<Rightarrow> trigger_response" where
  "completed_response actionKey t =
     \<lparr>rs_idempotencyKey = idempotency_key t, rs_actionKey = actionKey,
      rs_requestId = request_id t, rs_status = status t, rs_txHash = or_undefined (tx_hash t),
      rs_blockNumber = block_or_undefined (block_number t),
      rs_message = ''Action already completed (idempotent)''\<rparr>"

definition handleExistingTrigger :: "trigger \<Rightarrow> string \<Rightarrow> trigger_response" where
  "handleExistingTrigger t actionKey =
     (let response = \<lambda>tx block message.
        \<lparr>rs_idempotencyKey = idempotency_key t, rs_actionKey = actionKey,
         rs_requestId = request_id t, rs_status = status t, rs_txHash = tx,
         rs_blockNumber = block, rs_message = message\<rparr>
      in if status t = CONFIRMED \<or> status t = SUBMITTED then
           response (or_undefined (tx_hash t)) (block_or_undefined (block_number t))
             ''Trigger already executed for this request (idempotent)''
         else if status t = TERMINAL_FAILURE then
           response None None (or_else (last_error t) ''Trigger failed with terminal error'')
         else if status t = EXHAUSTED_NEEDS_REDRIVE then
           response None None
             ''Trigger exhausted retries. Use re-drive endpoint to retry with on-chain verification.''
         else response None None ''Trigger in progress'')"

definition buildResponseFromTrigger :: "trigger \<Rightarrow> string \<Rightarrow> trigger_response" where
  "buildResponseFromTrigger t message =
     \<lparr>rs_idempotencyKey = idempotency_key t, rs_actionKey = action_key t,
      rs_requestId = request_id t, rs_status = status t, rs_txHash = tx_hash t,
      rs_blockNumber = block_or_undefined (block_number t), rs_message = message\<rparr>"

section \<open>Execution with retries\<close>

definition executeBlockchainAction :: "oracle_env \<Rightarrow> trigger_type \<Rightarrow> string \<Rightarrow> blockchain_result oracle_eff" where
  "executeBlockchainAction env ty tradeId =
     (case ty of
        RELEASE_STAGE_1 \<Rightarrow> releaseFundsStage1 env tradeId
      | CONFIRM_ARRIVAL \<Rightarrow> confirmArrival env tradeId
      | FINALIZE_TRADE \<Rightarrow> finalizeTrade env tradeId)"

definition terminal_event :: "trigger \<Rightarrow> string \<Rightarrow> trigger_status \<Rightarrow> string \<Rightarrow> notification_event" where
  "terminal_event t actionKey s message =
     \<lparr>ne_source = ''oracle'',
      ne_type = (if s = TERMINAL_FAILURE then ''ORACLE_TRIGGER_TERMINAL_FAILURE''
                 else ''ORACLE_TRIGGER_EXHAUSTED_NEEDS_REDRIVE''),
      ne_severity = Sev_critical,
      ne_dedupKey = ''oracle:'' @ trigger_status_name s @ '':'' @ actionKey,
      ne_message = message,
      ne_correlation = no_correlation\<lparr>co_tradeId := Some (trade_id t),
        co_actionKey := Some actionKey, co_requestId := Some (request_id t),
        co_txHash := or_undefined (tx_hash t)\<rparr>\<rparr>"

definition notifyTerminalStatus ::
  "oracle_env \<Rightarrow> trigger \<Rightarrow> string \<Rightarrow> trigger_status \<Rightarrow> string \<Rightarrow> unit oracle_eff" where
  "notifyTerminalStatus env t actionKey s message =
     (case oe_notifier env of
        None \<Rightarrow> ret ()
      | Some cfg \<Rightarrow> bindE (notifyE env cfg (terminal_event t actionKey s message)) (\<lambda>_. ret ()))"

definition record_submission ::
  "oracle_env \<Rightarrow> trigger \<Rightarrow> string \<Rightarrow> blockchain_result \<Rightarrow> trigger_response oracle_eff" where
  "record_submission env t actionKey result =
     bindE (date_now env) (\<lambda>now.
      seqE (updateTrigger env (idempotency_key t)
              [U_status SUBMITTED, U_tx_hash (br_txHash result),
               U_block_number (br_blockNumber result), U_submitted_at now])
       (ret \<lparr>rs_idempotencyKey = idempotency_key t, rs_actionKey = actionKey,
             rs_requestId = request_id t, rs_status = SUBMITTED,
             rs_txHash = Some (br_txHash result), rs_blockNumber = Some (br_blockNumber result),
             rs_message = ''Transaction submitted, awaiting confirmation''\<rparr>))"

text \<open>The body of the \<open>try\<close>: one attempt.\<close>

definition attempt_once :: "oracle_env \<Rightarrow> trigger \<Rightarrow> string \<Rightarrow> int \<Rightarrow> trigger_response oracle_eff" where
  "attempt_once env t actionKey attempt =
     bindE (getTrade env (trade_id t)) (\<lambda>trade.
     seqE (validateTradeState env trade (trigger_type t))
     (seqE (updateTrigger env (idempotency_key t) [U_status EXECUTING, U_attempt_count attempt])
     (bindE (executeBlockchainAction env (trigger_type t) (trade_id t))
       (record_submission env t actionKey))))"

definition failure_response :: "trigger \<Rightarrow> string \<Rightarrow> trigger_status \<Rightarrow> string \<Rightarrow> trigger_response" where
  "failure_response t actionKey s message =
     \<lparr>rs_idempotencyKey = idempotency_key t, rs_actionKey = actionKey,
      rs_requestId = request_id t, rs_status = s, rs_txHash = None, rs_blockNumber = None,
      rs_message = message\<rparr>"

text \<open>The columns a failed attempt sets.\<close>

definition failure_columns :: "trigger_status \<Rightarrow> int \<Rightarrow> js_error \<Rightarrow> column_update list" where
  "failure_columns nextStatus attempt oracleError =
     [U_status nextStatus, U_attempt_count attempt, U_last_error (js_message oracleError)] @
     (case oracle_error_type oracleError of None \<Rightarrow> [] | Some ty \<Rightarrow> [U_error_type ty])"

text \<open>The \<open>catch\<close>: \<open>None\<close> stands for \<open>attempt++; continue\<close>.\<close>

definition after_failure ::
  "oracle_env \<Rightarrow> manager_config \<Rightarrow> trigger \<Rightarrow> string \<Rightarrow> int \<Rightarrow> js_error \<Rightarrow> trigger_response option oracle_eff" where
  "after_failure env cfg t actionKey attempt error =
     (let oracleError = classifyError error;
          nextStatus = determineNextStatus oracleError attempt (mc_maxAttempts cfg)
      in seqE (updateTrigger env (idempotency_key t)
                 (failure_columns nextStatus attempt oracleError))
          (if nextStatus = TERMINAL_FAILURE then
             seqE (notifyTerminalStatus env t actionKey nextStatus (js_message oracleError))
               (ret (Some (failure_response t actionKey nextStatus (js_message oracleError))))
           else if nextStatus = EXHAUSTED_NEEDS_REDRIVE then
             (let exhaustedMessage = ''Exhausted '' @ show_int (mc_maxAttempts cfg) @ '' attempts: '' @
                    js_message oracleError @ ''. Use re-drive endpoint to retry.''
              in seqE incrementOracleExhaustedRetries
                 (seqE (notifyTerminalStatus env t actionKey nextStatus exhaustedMessage)
                   (ret (Some (failure_response t actionKey nextStatus exhaustedMessage)))))
           else if attempt < mc_maxAttempts cfg \<and> \<not> is_terminal oracleError then
             bindE (ask_env (oe_random env))
               (\<lambda>u. seqE (sleepE (calculateBackoff u attempt (mc_baseDelayMs cfg) maxBackoffMs 1000))
                 (ret None))
           else throw error))"

function retry_loop ::
  "oracle_env \<Rightarrow> manager_config \<Rightarrow> trigger \<Rightarrow> string \<Rightarrow> int \<Rightarrow> trigger_response oracle_eff" where
  "retry_loop env cfg t actionKey attempt =
     (if attempt \<le> mc_maxAttempts cfg then
        bindE
          (catchE (bindE (attempt_once env t actionKey attempt) (\<lambda>r. ret (Some r)))
             (after_failure env cfg t actionKey attempt))
          (\<lambda>r. case r of Some response \<Rightarrow> ret response
                        | None \<Rightarrow> retry_loop env cfg t actionKey (attempt + 1))
      else throw (plain_error
        (''Retry loop exited without terminal status for action '' @ actionKey @ '' after '' @
         show_int (mc_maxAttempts cfg) @ '' attempts'')))"
  by pat_completeness auto
termination
  by (relation "measure (\<lambda>(_, cfg, _, _, attempt). nat (mc_maxAttempts cfg + 1 - attempt))") auto

declare retry_loop.simps [simp del]

definition executeWithRetry :: "oracle_env \<Rightarrow> manager_config \<Rightarrow> trigger \<Rightarrow> string \<Rightarrow> trigger_response oracle_eff" where
  "executeWithRetry env cfg t actionKey = retry_loop env cfg t actionKey 1"

section \<open>Entry points\<close>

definition createNewTrigger :: "oracle_env \<Rightarrow> trigger_request \<Rightarrow> string \<Rightarrow> trigger oracle_eff" where
  "createNewTrigger env request actionKey =
     bindE (generateIdempotencyKey env actionKey) (\<lambda>idempotencyKey.
       createTrigger env
         \<lparr>ct_actionKey = actionKey, ct_requestId = tq_requestId request,
          ct_idempotencyKey = idempotencyKey, ct_tradeId = tq_tradeId request,
          ct_triggerType = tq_triggerType request,
          ct_requestHash = or_undefined (tq_requestHash request), ct_status = PENDING\<rparr>)"

definition redrive_new :: "oracle_env \<Rightarrow> manager_config \<Rightarrow> trigger \<Rightarrow> trigger_request \<Rightarrow> trigger_response oracle_eff" where
  "redrive_new env cfg exhausted request =
     bindE (getTrade env (trade_id exhausted)) (\<lambda>trade.
     seqE (validateTradeState env trade (trigger_type exhausted))
     (bindE (generateRequestId env) (\<lambda>newRequestId.
      bindE (generateIdempotencyKey env (action_key exhausted)) (\<lambda>newIdempotencyKey.
      bindE (createTrigger env
               \<lparr>ct_actionKey = action_key exhausted, ct_requestId = newRequestId,
                ct_idempotencyKey = newIdempotencyKey, ct_tradeId = trade_id exhausted,
                ct_triggerType = trigger_type exhausted,
                ct_requestHash = or_undefined (tq_requestHash request), ct_status = PENDING\<rparr>)
        (\<lambda>newTrigger. executeWithRetry env cfg newTrigger (action_key exhausted))))))"

definition handleRedrive :: "oracle_env \<Rightarrow> manager_config \<Rightarrow> trigger \<Rightarrow> trigger_request \<Rightarrow> trigger_response oracle_eff" where
  "handleRedrive env cfg exhausted request =
     seqE incrementOracleRedriveAttempts
       (catchE (redrive_new env cfg exhausted request)
          (\<lambda>error.
             if is_validation_error error then
               bindE (date_now env) (\<lambda>verifiedAt.
               bindE (date_now env) (\<lambda>confirmedAt.
               seqE (updateTrigger env (idempotency_key exhausted)
                       [U_status CONFIRMED, U_on_chain_verified True,
                        U_on_chain_verified_at verifiedAt, U_confirmed_at confirmedAt])
                 (ret \<lparr>rs_idempotencyKey = idempotency_key exhausted,
                       rs_actionKey = action_key exhausted, rs_requestId = request_id exhausted,
                       rs_status = CONFIRMED, rs_txHash = or_undefined (tx_hash exhausted),
                       rs_blockNumber = None,
                       rs_message = ''Action already executed on-chain (verified during re-drive)''\<rparr>)))
             else throw error))"

definition await_approval :: "oracle_env \<Rightarrow> trigger_request \<Rightarrow> string \<Rightarrow> trigger_response oracle_eff" where
  "await_approval env request actionKey =
     bindE (createNewTrigger env request actionKey) (\<lambda>t.
     seqE (updateTrigger env (idempotency_key t) [U_status PENDING_APPROVAL])
     (seqE incrementOraclePendingApproval
       (ret \<lparr>rs_idempotencyKey = idempotency_key t, rs_actionKey = actionKey,
             rs_requestId = tq_requestId request, rs_status = PENDING_APPROVAL,
             rs_txHash = None, rs_blockNumber = None,
             rs_message = ''Trigger created and awaiting manual approval''\<rparr>)))"

definition missing_on_chain :: "js_error \<Rightarrow> bool" where
  "missing_on_chain e \<longleftrightarrow> js_code e = Some ''CALL_EXCEPTION'' \<or>
     str_includes (js_message e) ''trade not found'' \<or>
     str_includes (js_message e) ''execution reverted''"

definition run_new :: "oracle_env \<Rightarrow> manager_config \<Rightarrow> trigger_request \<Rightarrow> string \<Rightarrow> trigger_response oracle_eff" where
  "run_new env cfg request actionKey =
     catchE
       (bindE (getTrade env (tq_tradeId request)) (\<lambda>trade.
        seqE (validateTradeState env trade (tq_triggerType request))
        (if mc_manualApprovalEnabled cfg \<and> \<not> tq_isRedrive request
         then await_approval env request actionKey
         else bindE (createNewTrigger env request actionKey)
                (\<lambda>t. executeWithRetry env cfg t actionKey))))
       (\<lambda>error.
          if missing_on_chain error
          then throw (validation_error (''Trade '' @ tq_tradeId request @
                 '' does not exist on-chain: '' @ or_else (js_reason error) (js_message error)))
          else throw error)"

text \<open>The look-up by a fresh key, then the new trigger.\<close>

definition run_unseen :: "oracle_env \<Rightarrow> manager_config \<Rightarrow> trigger_request \<Rightarrow> string \<Rightarrow> trigger_response oracle_eff" where
  "run_unseen env cfg request actionKey =
     bindE (generateIdempotencyKey env actionKey) (\<lambda>existingRequestIdKey.
     bindE (getTriggerByIdempotencyKey env existingRequestIdKey) (\<lambda>existingRequest.
       case existingRequest of
         Some e \<Rightarrow> ret (handleExistingTrigger e actionKey)
       | None \<Rightarrow> run_new env cfg request actionKey))"

definition executeTrigger :: "oracle_env \<Rightarrow> manager_config \<Rightarrow> trigger_request \<Rightarrow> trigger_response oracle_eff" where
  "executeTrigger env cfg request =
     seqE (validateTradeId (tq_tradeId request))
     (let actionKey = generateActionKey (tq_triggerType request) (tq_tradeId request)
      in bindE (getLatestTriggerByActionKey env actionKey) (\<lambda>latestTrigger.
         case latestTrigger of
           None \<Rightarrow> run_unseen env cfg request actionKey
         | Some t \<Rightarrow>
             if isActionAlreadyCompleted t then ret (completed_response actionKey t)
             else if tq_isRedrive request \<and> status t = EXHAUSTED_NEEDS_REDRIVE
             then handleRedrive env cfg t request
             else run_unseen env cfg request actionKey))"

definition already_processed :: "oracle_env \<Rightarrow> string \<Rightarrow> trigger_response oracle_eff" where
  "already_processed env idempotencyKey =
     bindE (getTriggerByIdempotencyKey env idempotencyKey) (\<lambda>existing.
       case existing of
         None \<Rightarrow> throw (validation_error (''Trigger not found: '' @ idempotencyKey))
       | Some t \<Rightarrow> ret (buildResponseFromTrigger t ''Trigger already processed''))"

definition resumeAfterApproval :: "oracle_env \<Rightarrow> manager_config \<Rightarrow> string \<Rightarrow> string \<Rightarrow> trigger_response oracle_eff" where
  "resumeAfterApproval env cfg idempotencyKey actor =
     bindE (approveTrigger env idempotencyKey actor) (\<lambda>updated.
       case updated of
         None \<Rightarrow> already_processed env idempotencyKey
       | Some t \<Rightarrow>
           seqE incrementOracleApproved (executeWithRetry env cfg t (action_key t)))"

definition rejectPendingTrigger :: "oracle_env \<Rightarrow> string \<Rightarrow> string \<Rightarrow> string option \<Rightarrow> trigger_response oracle_eff" where
  "rejectPendingTrigger env idempotencyKey actor reason =
     bindE (rejectTrigger env idempotencyKey actor reason) (\<lambda>updated.
       case updated of
         None \<Rightarrow> already_processed env idempotencyKey
       | Some t \<Rightarrow>
           seqE incrementOracleRejected
             (ret (buildResponseFromTrigger t (''Trigger rejected by '' @ actor))))"

end
