(* ===== verification/Oracle_Manager_Facts.thy ===== *)
theory Oracle_Manager_Facts imports Main Oracle_Manager begin

text \<open>
  What the trigger manager keeps: the constraints of the table under every entry point, and
  the log of transactions, each of which follows a read of the chain that allowed it.
\<close>

section \<open>The constraints of the table\<close>

lemma rows_executeBlockchainAction [keeps_rules]:
  "keeps (on_view (\<lambda>rows _. P rows)) (executeBlockchainAction env ty tid)"
  unfolding executeBlockchainAction_def by (cases ty) (auto intro: keeps_rules)

lemma keeps_notifyTerminalStatus [keeps_rules]:
  "keeps (on_view P) (notifyTerminalStatus env t k s m)"
  unfolding notifyTerminalStatus_def by (intro keeps_rules)

lemma keeps_generateIdempotencyKey [keeps_rules]:
  "keeps (on_view P) (generateIdempotencyKey env k)"
  "keeps (on_view P) (generateRequestId env)"
  unfolding generateIdempotencyKey_def generateRequestId_def by (intro keeps_rules)+

lemma rows_ok_attempt_once [keeps_rules]: "keeps rows_ok (attempt_once env t k a)"
  unfolding attempt_once_def record_submission_def by (intro keeps_rules)

lemma keeps_after_failure:
  assumes "\<And>k us. keeps (on_view P) (updateTrigger env k us)"
  shows "keeps (on_view P) (after_failure env cfg t k a e)"
  unfolding after_failure_def Let_def by (intro keeps_rules assms)

text \<open>The loop keeps what an attempt and its \<open>catch\<close> keep.\<close>

lemma keeps_retry_loop:
  assumes "\<And>a. keeps P (attempt_once env t k a)"
    and "\<And>a e. keeps P (after_failure env cfg t k a e)"
  shows "keeps P (retry_loop env cfg t k a)"
proof (induction "nat (mc_maxAttempts cfg + 1 - a)" arbitrary: a rule: less_induct)
  case less
  show ?case
    by (subst retry_loop.simps) (intro keeps_rules assms less; simp)
qed

lemma rows_ok_executeWithRetry [keeps_rules]: "keeps rows_ok (executeWithRetry env cfg t k)"
  unfolding executeWithRetry_def
  by (intro keeps_retry_loop keeps_after_failure keeps_rules)

lemma rows_ok_createNewTrigger [keeps_rules]: "keeps rows_ok (createNewTrigger env q k)"
  unfolding createNewTrigger_def by (intro keeps_rules)

lemma rows_ok_handleRedrive [keeps_rules]: "keeps rows_ok (handleRedrive env cfg t q)"
  unfolding handleRedrive_def redrive_new_def by (intro keeps_rules)

lemma rows_ok_run_unseen [keeps_rules]: "keeps rows_ok (run_unseen env cfg q k)"
  unfolding run_unseen_def run_new_def await_approval_def by (intro keeps_rules)

lemma rows_ok_executeTrigger [keeps_rules]: "keeps rows_ok (executeTrigger env cfg q)"
  unfolding executeTrigger_def by (intro keeps_rules)

lemma keeps_already_processed [keeps_rules]: "keeps (on_view P) (already_processed env k)"
  unfolding already_processed_def by (intro keeps_rules)

lemma rows_ok_resumeAfterApproval [keeps_rules]: "keeps rows_ok (resumeAfterApproval env cfg k a)"
  unfolding resumeAfterApproval_def by (intro keeps_rules)

lemma rows_ok_rejectPendingTrigger [keeps_rules]: "keeps rows_ok (rejectPendingTrigger env k a r)"
  unfolding rejectPendingTrigger_def by (intro keeps_rules)

section \<open>The log of transactions\<close>

text \<open>
  A logged transaction is justified when the chain, read three external calls before it was
  sent, held the trade in the state that the action starts from.
\<close>

fun justified :: "oracle_env \<Rightarrow> nat \<times> trigger_type \<times> string \<Rightarrow> bool" where
  "justified env (k, ty, tid) \<longleftrightarrow> 3 \<le> k \<and>
     (case oe_trades env (k - 3) tid of
        Inl _ \<Rightarrow> False
      | Inr r \<Rightarrow> rt_tradeId r \<noteq> 0 \<and> rt_buyerAddress r \<noteq> zero_address \<and>
          action_allowed (oe_now env (k - 2)) (trade_of_raw r) ty)"

abbreviation log_justified :: "oracle_env \<Rightarrow> oracle_world \<Rightarrow> bool" where
  "log_justified env \<equiv> on_view (\<lambda>_ sent. list_all (justified env) sent)"

lemma updateTrigger_sent [simp]: "ow_sent (state_of (updateTrigger env k us w)) = ow_sent w"
  using keepsD [OF sent_updateTrigger [of "\<lambda>s. s = ow_sent w"]] by (auto simp: on_view_def)

lemma executeBlockchainAction_sent:
  "ow_sent (state_of (executeBlockchainAction env ty tid w)) = ow_sent w \<or>
   ow_sent (state_of (executeBlockchainAction env ty tid w)) =
     ow_sent w @ [(ow_tick w + (if ty = FINALIZE_TRADE then 0 else 1), ty, tid)]"
  by (cases ty)
     (auto simp: executeBlockchainAction_def releaseFundsStage1_def confirmArrival_def
        finalizeTrade_def sdk_releaseFundsStage1_def sdk_confirmArrival_def
        sdk_finalizeAfterDisputeWindow_def sdk_transaction_def verifyOracle_def
        sdk_getOracleAddress_def eff_simps split: sum.splits option.splits)

lemma validateTradeState_tick:
  "result_of (validateTradeState env t ty w) = Inr u \<Longrightarrow>
   ow_tick (state_of (validateTradeState env t ty w)) =
     ow_tick w + (if ty = FINALIZE_TRADE then 1 else 0)"
  by (cases ty) (auto simp: validator_defs eff_simps Let_def split: option.splits if_splits)

lemma sent_record_submission [simp]:
  "ow_sent (state_of (record_submission env t k r w)) = ow_sent w"
proof -
  have "keeps (on_view (\<lambda>_ sent. sent = ow_sent w)) (record_submission env t k r)"
    unfolding record_submission_def by (intro keeps_rules)
  then show ?thesis by (auto simp: keeps_def on_view_def)
qed

text \<open>An attempt sends at most one transaction, a justified one.\<close>

lemma attempt_once_sent:
  "ow_sent (state_of (attempt_once env t k a w)) = ow_sent w \<or>
   (\<exists>n. ow_sent (state_of (attempt_once env t k a w)) =
          ow_sent w @ [(n, trigger_type t, trade_id t)] \<and>
        justified env (n, trigger_type t, trade_id t))"
proof -
  let ?go = "\<lambda>trade. seqE (validateTradeState env trade (trigger_type t))
     (seqE (updateTrigger env (idempotency_key t) [U_status EXECUTING, U_attempt_count a])
     (bindE (executeBlockchainAction env (trigger_type t) (trade_id t)) (record_submission env t k)))"
  have body: "attempt_once env t k a = bindE (getTrade env (trade_id t)) ?go"
    by (simp add: attempt_once_def)
  obtain r1 w1 where g: "getTrade env (trade_id t) w = (r1, w1)" by fastforce
  have s1: "ow_sent w1 = ow_sent w"
    using keepsD [OF keeps_getTrade [of "\<lambda>_ s. s = ow_sent w"], of w env "trade_id t"] g
    by (auto simp: on_view_def)
  show ?thesis
  proof (cases r1)
    case (Inl e)
    with g s1 show ?thesis by (simp add: body eff_simps)
  next
    case (Inr trade)
    with g obtain r where r: "oe_trades env (ow_tick w) (trade_id t) = Inr r"
      "trade = trade_of_raw r" "rt_tradeId r \<noteq> 0" "rt_buyerAddress r \<noteq> zero_address" "w1 = tick w"
      by (auto elim: getTrade_Inr)
    obtain r2 w2 where v: "validateTradeState env trade (trigger_type t) w1 = (r2, w2)" by fastforce
    have s2: "ow_sent w2 = ow_sent w"
      using validateTradeState_views(1) [of env trade "trigger_type t" w1] v s1 by simp
    show ?thesis
    proof (cases r2)
      case (Inl e)
      with g v r s2 \<open>r1 = Inr trade\<close> show ?thesis by (simp add: body eff_simps)
    next
      case (Inr u)
      have ok: "action_allowed (oe_now env (Suc (ow_tick w))) trade (trigger_type t)"
        using validateTradeState_result [of env trade "trigger_type t" w1] v Inr r by auto
      have t2: "ow_tick w2 = Suc (ow_tick w) + (if trigger_type t = FINALIZE_TRADE then 1 else 0)"
        using validateTradeState_tick [of env trade "trigger_type t" w1 u] v Inr r by simp
      obtain r3 w3 where up: "updateTrigger env (idempotency_key t)
          [U_status EXECUTING, U_attempt_count a] w2 = (r3, w3)" by fastforce
      have s3: "ow_sent w3 = ow_sent w" and t3: "ow_tick w3 = Suc (ow_tick w2)"
        using updateTrigger_sent [of env "idempotency_key t" "[U_status EXECUTING, U_attempt_count a]" w2]
          updateTrigger_tick [of "[U_status EXECUTING, U_attempt_count a]" env "idempotency_key t" w2]
          up s2 by simp_all
      have unfold: "attempt_once env t k a w =
          (case r3 of Inl e \<Rightarrow> (Inl e, w3) | Inr _ \<Rightarrow>
             bindE (executeBlockchainAction env (trigger_type t) (trade_id t)) (record_submission env t k) w3)"
        using g v up \<open>r1 = Inr trade\<close> Inr by (simp add: body eff_simps split: sum.splits)
      show ?thesis
      proof (cases r3)
        case (Inl e)
        with s3 show ?thesis by (simp add: unfold)
      next
        case (Inr u)
        obtain r4 w4 where x: "executeBlockchainAction env (trigger_type t) (trade_id t) w3 = (r4, w4)"
          by fastforce
        then have fin: "ow_sent (state_of (attempt_once env t k a w)) = ow_sent w4"
          by (cases r4) (simp_all add: unfold Inr eff_simps)
        have n: "ow_tick w3 + (if trigger_type t = FINALIZE_TRADE then 0 else 1) = ow_tick w + 3"
          using t2 t3 by simp
        have "justified env (ow_tick w + 3, trigger_type t, trade_id t)"
          using r ok by simp
        with executeBlockchainAction_sent [of env "trigger_type t" "trade_id t" w3] x s3 n
        show ?thesis unfolding fin by auto
      qed
    qed
  qed
qed

lemma log_attempt_once [keeps_rules]: "keeps (log_justified env) (attempt_once env t k a)"
proof (rule keepsI)
  fix w assume "log_justified env w"
  with attempt_once_sent [of env t k a w] show "log_justified env (state_of (attempt_once env t k a w))"
    by (auto simp: on_view_def simp del: justified.simps)
qed

lemma log_executeWithRetry [keeps_rules]: "keeps (log_justified env) (executeWithRetry env cfg t k)"
  unfolding executeWithRetry_def
  by (intro keeps_retry_loop keeps_after_failure keeps_rules)

lemma log_createNewTrigger [keeps_rules]: "keeps (on_view (\<lambda>_ s. Q s)) (createNewTrigger env q k)"
  unfolding createNewTrigger_def by (intro keeps_rules)

lemma log_executeTrigger [keeps_rules]: "keeps (log_justified env) (executeTrigger env cfg q)"
  unfolding executeTrigger_def run_unseen_def run_new_def await_approval_def handleRedrive_def
    redrive_new_def
  by (intro keeps_rules)

lemma log_resumeAfterApproval [keeps_rules]: "keeps (log_justified env) (resumeAfterApproval env cfg k a)"
  unfolding resumeAfterApproval_def by (intro keeps_rules)

lemma sent_rejectPendingTrigger [keeps_rules]:
  "keeps (on_view (\<lambda>_ s. Q s)) (rejectPendingTrigger env k a r)"
  unfolding rejectPendingTrigger_def by (intro keeps_rules)

end
