(* ===== verification/Oracle_Manager_Loop.thy ===== *)
theory Oracle_Manager_Loop imports Main Oracle_Manager_Facts begin

text \<open>
  The retry loop as a whole: how many transactions it can send, and, while the database
  answers, that it ends with a recorded status.
\<close>

section \<open>Methods that leave a part of the state alone\<close>

lemma same_rows:
  assumes "\<And>Q. keeps (on_view (\<lambda>rows _. Q rows)) m"
  shows "ow_triggers (state_of (m w)) = ow_triggers w"
  using keepsD [OF assms [of "\<lambda>rows. rows = ow_triggers w"], of w] by (simp add: on_view_def)

lemma same_sent:
  assumes "\<And>Q. keeps (on_view (\<lambda>_ sent. Q sent)) m"
  shows "ow_sent (state_of (m w)) = ow_sent w"
  using keepsD [OF assms [of "\<lambda>sent. sent = ow_sent w"], of w] by (simp add: on_view_def)

lemma sent_after_failure: "ow_sent (state_of (after_failure env cfg t k a e w)) = ow_sent w"
  by (rule same_sent) (intro keeps_after_failure keeps_rules)

section \<open>The number of transactions\<close>

lemma retry_loop_sent:
  "\<exists>ys. ow_sent (state_of (retry_loop env cfg t k a w)) = ow_sent w @ ys \<and>
        int (length ys) \<le> max 0 (mc_maxAttempts cfg + 1 - a) \<and>
        list_all (\<lambda>y. snd y = (trigger_type t, trade_id t)) ys"
proof (induction "nat (mc_maxAttempts cfg + 1 - a)" arbitrary: a w rule: less_induct)
  case less
  show ?case
  proof (cases "a \<le> mc_maxAttempts cfg")
    case False
    then show ?thesis by (subst retry_loop.simps) (simp add: eff_simps)
  next
    case True
    obtain r1 w1 where at: "attempt_once env t k a w = (r1, w1)" by fastforce
    obtain zs where zs: "ow_sent w1 = ow_sent w @ zs" "length zs \<le> 1"
      "list_all (\<lambda>y. snd y = (trigger_type t, trade_id t)) zs"
      using attempt_once_sent [of env t k a w] at by fastforce
    show ?thesis
    proof (cases r1)
      case (Inr r)
      with True at zs show ?thesis by (subst retry_loop.simps) (simp add: eff_simps)
    next
      case (Inl e)
      obtain r2 w2 where af: "after_failure env cfg t k a e w1 = (r2, w2)" by fastforce
      then have s2: "ow_sent w2 = ow_sent w1" using sent_after_failure [of env cfg t k a e w1] by simp
      show ?thesis
      proof (cases "r2 = Inr None")
        case False
        with True at Inl af s2 zs show ?thesis
          by (subst retry_loop.simps) (auto simp: eff_simps split: sum.splits option.splits)
      next
        case more: True
        have "nat (mc_maxAttempts cfg + 1 - (a + 1)) < nat (mc_maxAttempts cfg + 1 - a)"
          using True by simp
        from less [OF this, of w2] obtain ys where
          ys: "ow_sent (state_of (retry_loop env cfg t k (a + 1) w2)) = ow_sent w2 @ ys"
            "int (length ys) \<le> max 0 (mc_maxAttempts cfg + 1 - (a + 1))"
            "list_all (\<lambda>y. snd y = (trigger_type t, trade_id t)) ys"
          by blast
        have "retry_loop env cfg t k a w = retry_loop env cfg t k (a + 1) w2"
          by (subst retry_loop.simps) (simp add: True at Inl af more eff_simps)
        with ys s2 zs True show ?thesis by (intro exI [of _ "zs @ ys"]) auto
      qed
    qed
  qed
qed

section \<open>Holding the slot of an action\<close>

text \<open>
  The database answers every query, and the trigger of the loop is the only one of its action
  that is or may become active.
\<close>

definition db_up :: "oracle_env \<Rightarrow> bool" where
  "db_up env \<longleftrightarrow> (\<forall>n. oe_db env n = None)"

definition holds_slot :: "trigger \<Rightarrow> trigger list \<Rightarrow> bool" where
  "holds_slot t rows \<longleftrightarrow> triggers_ok rows \<and>
     list_ex (\<lambda>s. idempotency_key s = idempotency_key t \<and> action_key s = action_key t) rows \<and>
     list_all (\<lambda>s. is_active (status s) \<and> action_key s = action_key t \<longrightarrow>
                   idempotency_key s = idempotency_key t) rows"

lemma holds_slot_action_key:
  assumes "holds_slot t rows" "s \<in> set rows" "idempotency_key s = idempotency_key t"
  shows "action_key s = action_key t"
proof -
  from assms(1) obtain q where q: "q \<in> set rows" "idempotency_key q = idempotency_key t"
    "action_key q = action_key t"
    by (auto simp: holds_slot_def list_ex_iff)
  from assms(1) have "inj_on idempotency_key (set rows)"
    by (auto simp: holds_slot_def triggers_ok_def distinct_map)
  then have "s = q" by (rule inj_onD) (use assms q in simp_all)
  with q show ?thesis by simp
qed

lemma holds_slot_update:
  assumes slot: "holds_slot t rows"
  shows "holds_slot t (update_where (\<lambda>r. idempotency_key r = idempotency_key t) (set_columns us now) rows)"
    (is "holds_slot t ?rows")
proof -
  let ?f = "\<lambda>q. if idempotency_key q = idempotency_key t then set_columns us now q else q"
  from slot have ok: "triggers_ok rows"
    and free: "\<And>s. s \<in> set rows \<Longrightarrow> is_active (status s) \<Longrightarrow> action_key s = action_key t \<Longrightarrow>
      idempotency_key s = idempotency_key t"
    by (auto simp: holds_slot_def list_all_iff)
  then have dist: "distinct (map idempotency_key rows)" by (simp add: triggers_ok_def)
  have keys: "map idempotency_key ?rows = map idempotency_key rows" "map action_key ?rows = map action_key rows"
    by (simp_all add: map_update_where)
  have mine: "action_key q = action_key t" if "q \<in> set rows" "idempotency_key q = idempotency_key t" for q
    using holds_slot_action_key [OF slot] that .
  have held: "idempotency_key p = idempotency_key t"
    if "p \<in> set rows" "is_active (status (?f p))" "action_key (?f p) = action_key t" for p
    using that free [of p] by (cases "idempotency_key p = idempotency_key t") simp_all
  have of_mine: "action_key (?f p) = action_key t" if "p \<in> set rows" "idempotency_key p = idempotency_key t" for p
    using that mine by simp
  have inj: "inj_on action_key (set (filter (\<lambda>s. is_active (status s)) ?rows))"
  proof (rule inj_onI)
    fix x y assume x: "x \<in> set (filter (\<lambda>s. is_active (status s)) ?rows)"
      and y: "y \<in> set (filter (\<lambda>s. is_active (status s)) ?rows)" and eq: "action_key x = action_key y"
    from x obtain p where p: "p \<in> set rows" "x = ?f p" "is_active (status (?f p))"
      by (auto simp: set_update_where)
    from y obtain q where q: "q \<in> set rows" "y = ?f q" "is_active (status (?f q))"
      by (auto simp: set_update_where)
    from eq p q have same: "action_key (?f p) = action_key (?f q)" by simp
    have "idempotency_key p = idempotency_key q"
    proof (cases "idempotency_key p = idempotency_key t \<or> idempotency_key q = idempotency_key t")
      case True
      with of_mine p(1) q(1) same have "action_key (?f p) = action_key t" by metis
      with same have "action_key (?f q) = action_key t" by simp
      with held [OF q(1) q(3)] held [OF p(1) p(3) \<open>action_key (?f p) = action_key t\<close>]
      show ?thesis by simp
    next
      case False
      with p q same have "p = q"
        by (intro triggers_ok_active_unique [OF ok p(1) q(1)]) simp_all
      then show ?thesis by simp
    qed
    moreover have "inj_on idempotency_key (set rows)" using dist by (simp add: distinct_map)
    ultimately have "p = q" using p(1) q(1) by (auto dest: inj_onD)
    with p q show "x = y" by simp
  qed
  have "distinct ?rows"
    using dist keys(1) by (metis distinct_map)
  with inj have "distinct (active_keys ?rows)"
    by (simp add: active_keys_def distinct_map)
  with dist keys(1) have ok': "triggers_ok ?rows" by (simp add: triggers_ok_def)
  have free': "\<And>s. s \<in> set ?rows \<Longrightarrow> is_active (status s) \<Longrightarrow> action_key s = action_key t \<Longrightarrow>
      idempotency_key s = idempotency_key t"
    using free by (auto simp: set_update_where split: if_splits)
  have "\<exists>s \<in> set ?rows. idempotency_key s = idempotency_key t \<and> action_key s = action_key t"
  proof -
    from slot obtain q where "q \<in> set rows" "idempotency_key q = idempotency_key t"
      "action_key q = action_key t" by (auto simp: holds_slot_def list_ex_iff)
    then show ?thesis by (intro bexI [of _ "set_columns us now q"]) (auto simp: set_update_where)
  qed
  with ok' free' show ?thesis
    unfolding holds_slot_def list_ex_iff list_all_iff by blast
qed

abbreviation my_row :: "trigger \<Rightarrow> oracle_world \<Rightarrow> trigger option" where
  "my_row t w \<equiv> row_by idempotency_key (idempotency_key t) (ow_triggers w)"

lemma holds_slot_row:
  "holds_slot t (ow_triggers w) \<Longrightarrow> \<exists>s. my_row t w = Some s"
proof -
  assume "holds_slot t (ow_triggers w)"
  then have "idempotency_key t \<in> idempotency_key ` set (ow_triggers w)"
    unfolding holds_slot_def list_ex_iff by (metis image_eqI)
  then show ?thesis by (metis row_by_None not_None_eq)
qed

text \<open>While the slot is held and the database answers, an update of the trigger succeeds.\<close>

lemma updateTrigger_held:
  assumes "db_up env" "holds_slot t (ow_triggers w)" "us \<noteq> []"
  obtains w' where "updateTrigger env (idempotency_key t) us w = (Inr (), w')"
    "holds_slot t (ow_triggers w')"
    "my_row t w' = map_option (set_columns us (oe_now env (ow_tick w))) (my_row t w)"
proof
  let ?rows = "update_where (\<lambda>r. idempotency_key r = idempotency_key t)
    (set_columns us (oe_now env (ow_tick w))) (ow_triggers w)"
  let ?w' = "(tick w)\<lparr>ow_triggers := ?rows\<rparr>"
  have slot: "holds_slot t ?rows" using assms(2) by (rule holds_slot_update)
  then have "triggers_ok ?rows" by (simp add: holds_slot_def)
  then show "updateTrigger env (idempotency_key t) us w = (Inr (), ?w')"
    using assms by (simp add: updateTrigger_def db_query_def db_up_def update_rows_def guarded_update_def)
  show "holds_slot t (ow_triggers ?w')" using slot by simp
  show "my_row t ?w' = map_option (set_columns us (oe_now env (ow_tick w))) (my_row t w)"
    by (simp add: trigger_table.row_by_update_where)
qed

section \<open>The loop ends with a recorded status\<close>

text \<open>
  No slot is needed for that: an update that would break a constraint throws and is recorded
  as a failure of the attempt, and a failure status is never active.
\<close>

definition row_with :: "string \<Rightarrow> (trigger \<Rightarrow> bool) \<Rightarrow> oracle_world \<Rightarrow> bool" where
  "row_with k P w \<longleftrightarrow> triggers_ok (ow_triggers w) \<and>
     (case row_by idempotency_key k (ow_triggers w) of None \<Rightarrow> False | Some s \<Rightarrow> P s)"

lemma row_with_iff:
  "row_with k P w \<longleftrightarrow> triggers_ok (ow_triggers w) \<and>
     (\<exists>s. row_by idempotency_key k (ow_triggers w) = Some s \<and> P s)"
  by (simp add: row_with_def split: option.splits)

lemma triple_row_with:
  assumes "\<And>Q. keeps (on_view (\<lambda>rows _. Q rows)) m"
  shows "triple (row_with k P) m (\<lambda>_. row_with k P)"
  by (rule tripleI) (simp add: row_with_def same_rows [OF assms])

lemma row_with_same:
  assumes "\<And>Q. keeps (on_view (\<lambda>rows _. Q rows)) m"
  shows "row_with k P (state_of (m w)) = row_with k P w"
  by (simp add: row_with_def same_rows [OF assms])

lemma row_with_mono: "row_with k P w \<Longrightarrow> (\<And>s. P s \<Longrightarrow> Q s) \<Longrightarrow> row_with k Q w"
  by (auto simp: row_with_iff)

lemma row_withD: "row_with k P w \<Longrightarrow> row_with k (\<lambda>_. True) w"
  by (erule row_with_mono) simp

lemma updateTrigger_cases:
  assumes "us \<noteq> []"
  obtains e where "updateTrigger env k us w = (Inl e, tick w)"
  | "updateTrigger env k us w = (Inr (), (tick w)\<lparr>ow_triggers :=
       update_where (\<lambda>r. idempotency_key r = k) (set_columns us (oe_now env (ow_tick w))) (ow_triggers w)\<rparr>)"
    "triggers_ok (update_where (\<lambda>r. idempotency_key r = k) (set_columns us (oe_now env (ow_tick w))) (ow_triggers w))"
proof (cases "oe_db env (ow_tick w)")
  case (Some e)
  with assms that(1) show thesis by (simp add: updateTrigger_def db_query_def)
next
  case None
  let ?rows = "update_where (\<lambda>r. idempotency_key r = k) (set_columns us (oe_now env (ow_tick w))) (ow_triggers w)"
  show thesis
  proof (cases "triggers_ok ?rows")
    case True
    with None assms show thesis
      by (intro that(2)) (simp_all add: updateTrigger_def db_query_def update_rows_def guarded_update_def)
  next
    case False
    with None assms show thesis
      by (intro that(1) [of "violated_constraint ?rows"])
        (simp add: updateTrigger_def db_query_def update_rows_def guarded_update_def)
  qed
qed

lemma triple_updateTrigger:
  assumes "us \<noteq> []" "\<And>now s. P s \<Longrightarrow> R (set_columns us now s)"
  shows "triple (row_with k P) (updateTrigger env k us)
           (\<lambda>r w. row_with k (case r of Inl _ \<Rightarrow> P | Inr _ \<Rightarrow> R) w)"
proof (rule tripleI)
  fix w assume w: "row_with k P w"
  show "row_with k (case result_of (updateTrigger env k us w) of Inl _ \<Rightarrow> P | Inr _ \<Rightarrow> R)
      (state_of (updateTrigger env k us w))"
    by (rule updateTrigger_cases [OF assms(1), of env k w])
       (use w assms(2) in \<open>auto simp: row_with_iff trigger_table.row_by_update_where\<close>)
qed

lemma distinct_active_inactive_update:
  assumes "distinct (active_keys rows)" "\<And>r. \<not> is_active (status (f r))"
  shows "distinct (active_keys (update_where P f rows))"
proof -
  have "active_keys (update_where P f rows) =
      map action_key (filter (\<lambda>r. \<not> P r) (filter (\<lambda>r. is_active (status r)) rows))"
    using assms(2) by (induction rows) (auto simp: active_keys_def update_where_def)
  moreover have "distinct \<dots>"
    using assms(1) unfolding active_keys_def by (rule distinct_map_filter)
  ultimately show ?thesis by simp
qed

lemma triple_updateTrigger_inactive:
  assumes "db_up env" "us \<noteq> []" "\<And>now s. R (set_columns us now s)"
    "\<And>now s. \<not> is_active (status (set_columns us now s))"
  shows "triple (row_with k (\<lambda>_. True)) (updateTrigger env k us) (\<lambda>r w. r = Inr () \<and> row_with k R w)"
proof (rule tripleI)
  fix w assume w: "row_with k (\<lambda>_. True) w"
  let ?rows = "update_where (\<lambda>r. idempotency_key r = k) (set_columns us (oe_now env (ow_tick w))) (ow_triggers w)"
  from w have "triggers_ok (ow_triggers w)" by (simp add: row_with_iff)
  then have "triggers_ok ?rows"
    using assms(4) distinct_active_inactive_update [of "ow_triggers w"]
    by (simp add: triggers_ok_def map_update_where)
  with w assms show "result_of (updateTrigger env k us w) = Inr () \<and> row_with k R (state_of (updateTrigger env k us w))"
    by (auto simp: updateTrigger_def db_query_def db_up_def update_rows_def guarded_update_def
        row_with_iff trigger_table.row_by_update_where)
qed

definition recorded :: "int \<Rightarrow> int \<Rightarrow> trigger \<Rightarrow> trigger_response \<Rightarrow> oracle_world \<Rightarrow> bool" where
  "recorded lo hi t x w \<longleftrightarrow>
     rs_idempotencyKey x = idempotency_key t \<and>
     rs_status x \<in> {SUBMITTED, TERMINAL_FAILURE, EXHAUSTED_NEEDS_REDRIVE} \<and>
     row_with (idempotency_key t)
       (\<lambda>s. status s = rs_status x \<and> lo \<le> attempt_count s \<and> attempt_count s \<le> hi) w"

lemma recorded_mono: "recorded lo hi t x w \<Longrightarrow> lo' \<le> lo \<Longrightarrow> hi \<le> hi' \<Longrightarrow> recorded lo' hi' t x w"
  unfolding recorded_def by (auto elim: row_with_mono)

lemma attempt_once_row:
  "triple (row_with (idempotency_key t) (\<lambda>_. True)) (attempt_once env t k a)
     (\<lambda>r w. row_with (idempotency_key t) (\<lambda>_. True) w \<and>
        (\<forall>x. r = Inr x \<longrightarrow> recorded a a t x w))"
    (is "triple ?I _ ?Q")
proof -
  let ?tried = "row_with (idempotency_key t) (\<lambda>s. attempt_count s = a)"
  let ?done = "\<lambda>s. status s = SUBMITTED \<and> attempt_count s = a"
  have now: "triple ?tried (date_now env) (\<lambda>_. ?tried)"
    by (rule triple_row_with) (intro keeps_rules)
  have last: "triple ?tried (updateTrigger env (idempotency_key t)
       [U_status SUBMITTED, U_tx_hash h, U_block_number b, U_submitted_at n])
       (\<lambda>r w. row_with (idempotency_key t) (case r of Inl _ \<Rightarrow> (\<lambda>s. attempt_count s = a) | Inr _ \<Rightarrow> ?done) w)"
    for h b n
    by (rule triple_updateTrigger) (auto simp: set_columns_def)
  have rec: "triple ?tried (record_submission env t k r) ?Q" for r
    unfolding record_submission_def
    by (rule triple_bind [OF now], simp, erule row_withD, rule triple_seq [OF last], simp,
        erule row_withD, rule triple_ret)
       (auto simp: recorded_def elim: row_with_mono)
  have exec: "triple ?tried (executeBlockchainAction env ty tid) (\<lambda>_. ?tried)" for ty tid
    by (rule triple_row_with) (intro keeps_rules)
  have upd: "triple ?I
      (updateTrigger env (idempotency_key t) [U_status EXECUTING, U_attempt_count a])
      (\<lambda>r w. row_with (idempotency_key t) (case r of Inl _ \<Rightarrow> (\<lambda>_. True) | Inr _ \<Rightarrow> (\<lambda>s. attempt_count s = a)) w)"
    by (rule triple_updateTrigger) (auto simp: set_columns_def)
  have reads: "triple ?I (getTrade env tid) (\<lambda>_. ?I)"
    "triple ?I (validateTradeState env tr ty) (\<lambda>_. ?I)" for tid tr ty
    by (rule triple_row_with, intro keeps_rules)+
  have send: "triple ?tried (bindE (executeBlockchainAction env ty tid) (record_submission env t k)) ?Q" for ty tid
    by (rule triple_bind [OF exec _ rec]) (simp add: row_withD)
  have go: "triple ?I (seqE (updateTrigger env (idempotency_key t) [U_status EXECUTING, U_attempt_count a])
      (bindE (executeBlockchainAction env ty tid) (record_submission env t k))) ?Q" for ty tid
    by (rule triple_seq [OF upd]) (simp_all add: send)
  have check: "triple ?I (seqE (validateTradeState env tr ty)
      (seqE (updateTrigger env (idempotency_key t) [U_status EXECUTING, U_attempt_count a])
        (bindE (executeBlockchainAction env ty tid) (record_submission env t k)))) ?Q" for tr ty tid
    by (rule triple_seq [OF reads(2) _ go]) simp
  show ?thesis
    unfolding attempt_once_def by (rule triple_bind [OF reads(1) _ check]) simp
qed

lemma failure_columns_simps [simp]:
  "failure_columns s a e \<noteq> []"
  "status (set_columns (failure_columns s a e) now t) = s"
  "attempt_count (set_columns (failure_columns s a e) now t) = a"
  "last_error (set_columns (failure_columns s a e) now t) = Some (js_message e)"
  by (simp add: failure_columns_def, (cases "oracle_error_type e"; simp add: failure_columns_def set_columns_def)+)

lemma determined_inactive: "\<not> is_active (determineNextStatus e a n)"
  using determineNextStatus_inactive [of e a n] by (auto simp: is_active_def)

lemma after_failure_row:
  assumes "db_up env" "a \<le> mc_maxAttempts cfg"
  shows "triple (row_with (idempotency_key t) (\<lambda>_. True)) (after_failure env cfg t k a e)
     (\<lambda>r w. row_with (idempotency_key t) (\<lambda>_. True) w \<and>
        ((r = Inr None \<and> a < mc_maxAttempts cfg) \<or> (\<exists>x. r = Inr (Some x) \<and> recorded a a t x w)))"
    (is "triple ?I _ ?Q")
proof -
  let ?e = "classifyError e"
  let ?st = "determineNextStatus ?e a (mc_maxAttempts cfg)"
  let ?R = "row_with (idempotency_key t) (\<lambda>s. status s = ?st \<and> attempt_count s = a)"
  have upd: "triple ?I (updateTrigger env (idempotency_key t) (failure_columns ?st a ?e))
      (\<lambda>r w. r = Inr () \<and> ?R w)"
    by (rule triple_updateTrigger_inactive [OF assms(1)]) (simp_all add: determined_inactive)
  have notif: "triple ?R (notifyTerminalStatus env t k s m) (\<lambda>r w. (\<exists>u. r = Inr u) \<and> ?R w)" for s m
  proof (rule tripleI)
    fix w assume "?R w"
    then have "?R (state_of (notifyTerminalStatus env t k s m w))"
      by (subst row_with_same) (intro keeps_rules)
    then show "(\<exists>u. result_of (notifyTerminalStatus env t k s m w) = Inr u) \<and>
        ?R (state_of (notifyTerminalStatus env t k s m w))"
      by (auto simp: notifyTerminalStatus_def notifyE_def eff_simps split: option.splits prod.splits)
  qed
  have fin: "?Q (Inr (Some (failure_response t k ?st m))) w"
    if "?R w" "?st \<noteq> FAILED" for w m
    using that determineNextStatus_inactive [of ?e a "mc_maxAttempts cfg"]
    by (auto simp: recorded_def failure_response_def elim: row_with_mono dest: row_withD)
  have then_notif: "triple ?R (seqE (notifyTerminalStatus env t k s m) (ret (Some (failure_response t k ?st m')))) ?Q"
    if "?st \<noteq> FAILED" for s m m'
    by (rule triple_seq [OF notif], simp, rule triple_ret) (use fin that in simp)
  have tail: "triple ?R
     (if ?st = TERMINAL_FAILURE then
        seqE (notifyTerminalStatus env t k ?st (js_message ?e))
          (ret (Some (failure_response t k ?st (js_message ?e))))
      else if ?st = EXHAUSTED_NEEDS_REDRIVE then
        seqE incrementOracleExhaustedRetries
          (seqE (notifyTerminalStatus env t k ?st m) (ret (Some (failure_response t k ?st m))))
      else if a < mc_maxAttempts cfg \<and> \<not> is_terminal ?e then
        bindE (ask_env (oe_random env)) (\<lambda>u. seqE (sleepE (d u)) (ret None))
      else throw e) ?Q" for m d
  proof -
    have incr: "triple ?R incrementOracleExhaustedRetries (\<lambda>r w. (\<exists>u. r = Inr u) \<and> ?R w)"
      by (rule tripleI) (auto simp: counter_defs count_def row_with_def eff_simps)
    have two: "triple ?R (seqE incrementOracleExhaustedRetries
          (seqE (notifyTerminalStatus env t k ?st m) (ret (Some (failure_response t k ?st m))))) ?Q"
      if "?st \<noteq> FAILED"
      by (rule triple_seq [OF incr]) (use then_notif [OF that] in simp_all)
    have three: "triple ?R (bindE (ask_env (oe_random env)) (\<lambda>u. seqE (sleepE (d u)) (ret None))) ?Q"
      if "a < mc_maxAttempts cfg"
      by (rule tripleI) (use that in \<open>auto simp: eff_simps row_with_def split: option.splits\<close>)
    show ?thesis
      using two three then_notif determineNextStatus_cases(3) [of ?e a "mc_maxAttempts cfg"]
        determineNextStatus_inactive [of ?e a "mc_maxAttempts cfg"]
      by auto
  qed
  show ?thesis
    unfolding after_failure_def Let_def by (rule triple_seq [OF upd]) (use tail in simp_all)
qed

lemma retry_loop_recorded:
  assumes "db_up env"
  shows "a \<le> mc_maxAttempts cfg \<Longrightarrow>
    triple (row_with (idempotency_key t) (\<lambda>_. True)) (retry_loop env cfg t k a)
      (\<lambda>r w. \<exists>x. r = Inr x \<and> recorded a (mc_maxAttempts cfg) t x w)"
proof (induction "nat (mc_maxAttempts cfg - a)" arbitrary: a rule: less_induct)
  case less
  let ?I = "row_with (idempotency_key t) (\<lambda>_. True)"
  let ?Q = "\<lambda>r w. \<exists>x. r = Inr x \<and> recorded a (mc_maxAttempts cfg) t x w"
  let ?C = "\<lambda>r w. ?I w \<and> ((r = Inr None \<and> a < mc_maxAttempts cfg) \<or>
      (\<exists>x. r = Inr (Some x) \<and> recorded a a t x w))"
  have body: "triple ?I (catchE (bindE (attempt_once env t k a) (\<lambda>r. ret (Some r)))
      (after_failure env cfg t k a)) ?C"
  proof (rule tripleI)
    fix w assume I: "?I w"
    obtain r w' where at: "attempt_once env t k a w = (r, w')" by fastforce
    have post: "?I w' \<and> (\<forall>x. r = Inr x \<longrightarrow> recorded a a t x w')"
      using tripleD [OF attempt_once_row I, of env k a] at by simp
    show "?C (result_of (catchE (bindE (attempt_once env t k a) (\<lambda>r. ret (Some r))) (after_failure env cfg t k a) w))
        (state_of (catchE (bindE (attempt_once env t k a) (\<lambda>r. ret (Some r))) (after_failure env cfg t k a) w))"
    proof (cases r)
      case (Inr x)
      with at post show ?thesis by (simp add: eff_simps)
    next
      case (Inl e)
      have "catchE (bindE (attempt_once env t k a) (\<lambda>r. ret (Some r))) (after_failure env cfg t k a) w =
          after_failure env cfg t k a e w'"
        using at Inl by (simp add: eff_simps)
      with tripleD [OF after_failure_row [OF assms less.prems], of t w' k e] post
      show ?thesis by simp
    qed
  qed
  have next_: "triple (\<lambda>w. ?I w \<and> a < mc_maxAttempts cfg) (retry_loop env cfg t k (a + 1)) ?Q"
  proof (rule tripleI)
    fix w assume w: "?I w \<and> a < mc_maxAttempts cfg"
    then have "nat (mc_maxAttempts cfg - (a + 1)) < nat (mc_maxAttempts cfg - a)"
      "a + 1 \<le> mc_maxAttempts cfg" by simp_all
    from tripleD [OF less.hyps [OF this], of w] w obtain x where
      "result_of (retry_loop env cfg t k (a + 1) w) = Inr x"
      "recorded (a + 1) (mc_maxAttempts cfg) t x (state_of (retry_loop env cfg t k (a + 1) w))"
      by blast
    then show "?Q (result_of (retry_loop env cfg t k (a + 1) w)) (state_of (retry_loop env cfg t k (a + 1) w))"
      by (auto intro: recorded_mono)
  qed
  show ?case
    by (subst retry_loop.simps, simp add: less.prems, rule triple_bind [OF body], simp)
       (use next_ less.prems in \<open>auto simp: triple_def ret_app split: option.splits intro: recorded_mono\<close>)
qed

section \<open>A healthy chain gives a submission\<close>

text \<open>
  The chain holds the trade in the right state throughout, the oracle's key is the authorized
  one, and the transaction is mined.
\<close>

definition chain_accepts :: "oracle_env \<Rightarrow> trigger_type \<Rightarrow> string \<Rightarrow> bool" where
  "chain_accepts env ty tid \<longleftrightarrow>
     (\<forall>n. \<exists>r. oe_trades env n tid = Inr r \<and> rt_tradeId r \<noteq> 0 \<and> rt_buyerAddress r \<noteq> zero_address \<and>
        action_allowed (oe_now env (Suc n)) (trade_of_raw r) ty) \<and>
     (\<forall>n. oe_oracle_address env n = Inr (oe_signer_address env)) \<and>
     (\<forall>n. \<exists>br. oe_send env n ty tid = Inr (Some br))"

lemma getTrade_accepts:
  assumes "chain_accepts env ty tid"
  obtains trade where "getTrade env tid w = (Inr trade, tick w)"
    "action_allowed (oe_now env (Suc (ow_tick w))) trade ty"
proof -
  from assms obtain r where r: "oe_trades env (ow_tick w) tid = Inr r" "rt_tradeId r \<noteq> 0"
    "rt_buyerAddress r \<noteq> zero_address"
    "action_allowed (oe_now env (Suc (ow_tick w))) (trade_of_raw r) ty"
    unfolding chain_accepts_def by meson
  from r show thesis
    by (intro that [of "trade_of_raw r"])
       (auto simp: getTrade_def sdk_getTrade_def eff_simps trade_of_raw_def)
qed

lemma executeBlockchainAction_accepts:
  assumes "chain_accepts env ty tid"
  obtains br w' where "executeBlockchainAction env ty tid w = (Inr br, w')"
    "ow_triggers w' = ow_triggers w"
    "\<exists>n. ow_sent w' = ow_sent w @ [(n, ty, tid)] \<and> oe_send env n ty tid = Inr (Some br)"
proof -
  have a: "oe_oracle_address env (ow_tick w) = Inr (oe_signer_address env)"
    using assms by (simp add: chain_accepts_def)
  have s: "\<exists>br. oe_send env n ty tid = Inr (Some br)" for n
    using assms by (simp add: chain_accepts_def)
  obtain b1 where b1: "oe_send env (ow_tick w) ty tid = Inr (Some b1)" using s by blast
  obtain b2 where b2: "oe_send env (Suc (ow_tick w)) ty tid = Inr (Some b2)" using s by blast
  show thesis
    using a b1 b2 that
    by (cases ty)
       (auto simp: executeBlockchainAction_def releaseFundsStage1_def confirmArrival_def
          finalizeTrade_def sdk_releaseFundsStage1_def sdk_confirmArrival_def
          sdk_finalizeAfterDisputeWindow_def sdk_transaction_def verifyOracle_def
          sdk_getOracleAddress_def eff_simps)
qed

lemma validateTradeState_accepts:
  assumes "action_allowed (oe_now env (ow_tick w)) trade ty"
  obtains w' where "validateTradeState env trade ty w = (Inr (), w')" "ow_triggers w' = ow_triggers w"
    "ow_sent w' = ow_sent w"
proof -
  obtain r w' where v: "validateTradeState env trade ty w = (r, w')" by fastforce
  from validateTradeState_result [of env trade ty w] assms v obtain u where "r = Inr u" by auto
  moreover have "ow_triggers w' = ow_triggers w" "ow_sent w' = ow_sent w"
    using validateTradeState_views [of env trade ty w] v by simp_all
  ultimately show thesis using v that by simp
qed

text \<open>The first attempt of a trigger that holds its slot is the submission.\<close>

lemma executeWithRetry_accepts:
  assumes "db_up env" "chain_accepts env (trigger_type t) (trade_id t)"
    "holds_slot t (ow_triggers w)" "1 \<le> mc_maxAttempts cfg"
  obtains x w' s n where "executeWithRetry env cfg t k w = (Inr x, w')" "rs_status x = SUBMITTED"
    "rs_idempotencyKey x = idempotency_key t"
    "my_row t w' = Some s" "status s = SUBMITTED" "attempt_count s = 1" "tx_hash s = rs_txHash x"
    "ow_sent w' = ow_sent w @ [(n, trigger_type t, trade_id t)]"
proof -
  let ?k = "idempotency_key t"
  let ?u1 = "[U_status EXECUTING, U_attempt_count 1]"
  obtain trade where g: "getTrade env (trade_id t) w = (Inr trade, tick w)"
    and ok: "action_allowed (oe_now env (ow_tick (tick w))) trade (trigger_type t)"
    using getTrade_accepts [OF assms(2)] by (metis tick_simps(1))
  from validateTradeState_accepts [OF ok] obtain w1 where
    v: "validateTradeState env trade (trigger_type t) (tick w) = (Inr (), w1)"
    "ow_triggers w1 = ow_triggers w" "ow_sent w1 = ow_sent w" by auto
  then have slot1: "holds_slot t (ow_triggers w1)" using assms(3) by simp
  obtain w2 where u1: "updateTrigger env ?k ?u1 w1 = (Inr (), w2)" "holds_slot t (ow_triggers w2)"
    "my_row t w2 = map_option (set_columns ?u1 (oe_now env (ow_tick w1))) (my_row t w1)"
    by (rule updateTrigger_held [OF assms(1) slot1, of ?u1]) auto
  obtain br w3 n where x: "executeBlockchainAction env (trigger_type t) (trade_id t) w2 = (Inr br, w3)"
    "ow_triggers w3 = ow_triggers w2" "ow_sent w3 = ow_sent w2 @ [(n, trigger_type t, trade_id t)]"
    using executeBlockchainAction_accepts [OF assms(2)] by metis
  let ?u2 = "[U_status SUBMITTED, U_tx_hash (br_txHash br), U_block_number (br_blockNumber br),
    U_submitted_at (oe_now env (ow_tick w3))]"
  have slot3: "holds_slot t (ow_triggers (tick w3))" using u1 x by simp
  obtain w4 where u2: "updateTrigger env ?k ?u2 (tick w3) = (Inr (), w4)" "holds_slot t (ow_triggers w4)"
    "my_row t w4 = map_option (set_columns ?u2 (oe_now env (ow_tick (tick w3)))) (my_row t (tick w3))"
    by (rule updateTrigger_held [OF assms(1) slot3, of ?u2]) auto
  obtain s1 where "my_row t w1 = Some s1" using holds_slot_row [OF slot1] by blast
  then obtain s where s: "my_row t w4 = Some s" "status s = SUBMITTED" "attempt_count s = 1"
    "tx_hash s = Some (br_txHash br)"
    using u2(3) u1(3) x(2) by (auto simp: set_columns_def)
  have sent: "ow_sent w4 = ow_sent w @ [(n, trigger_type t, trade_id t)]"
    using updateTrigger_sent [of env ?k ?u2 "tick w3"] updateTrigger_sent [of env ?k ?u1 w1] u1(1) u2(1) v x
    by simp
  have "executeWithRetry env cfg t k w = (Inr \<lparr>rs_idempotencyKey = ?k, rs_actionKey = k,
      rs_requestId = request_id t, rs_status = SUBMITTED, rs_txHash = Some (br_txHash br),
      rs_blockNumber = Some (br_blockNumber br),
      rs_message = ''Transaction submitted, awaiting confirmation''\<rparr>, w4)"
    unfolding executeWithRetry_def
    by (subst retry_loop.simps)
       (use assms(4) g v u1 x u2 in \<open>simp add: attempt_once_def record_submission_def eff_simps\<close>)
  with s sent show thesis by (intro that) auto
qed

end
