(* ===== verification/Oracle_Manager_Entry.thy ===== *)
theory Oracle_Manager_Entry imports Main Oracle_Manager_Loop begin

text \<open>
  The entry points of the trigger manager as wholes: a budget calculus for the transactions
  they send, and what their responses say of the table.
\<close>

section \<open>Transaction budgets\<close>

definition sends_within :: "nat \<Rightarrow> 'a oracle_eff \<Rightarrow> bool" where
  "sends_within n m \<longleftrightarrow>
     (\<forall>w. \<exists>ys. ow_sent (state_of (m w)) = ow_sent w @ ys \<and> length ys \<le> n)"

lemma sends_withinD:
  "sends_within n m \<Longrightarrow> length (ow_sent (state_of (m w))) \<le> length (ow_sent w) + n"
  unfolding sends_within_def by (metis add_le_cancel_left length_append)

lemma sends_none:
  assumes "\<And>Q. keeps (on_view (\<lambda>_ sent. Q sent)) m"
  shows "sends_within n m"
  unfolding sends_within_def by (intro allI exI [of _ "[]"]) (simp add: same_sent [OF assms])

lemma sends_bind:
  assumes "\<And>Q. keeps (on_view (\<lambda>_ sent. Q sent)) m" and "\<And>x. sends_within n (f x)"
  shows "sends_within n (bindE m f)"
proof -
  have "\<exists>ys. ow_sent (state_of (bindE m f w)) = ow_sent w @ ys \<and> length ys \<le> n" for w
  proof -
    obtain r w' where mw: "m w = (r, w')" by fastforce
    then have s: "ow_sent w' = ow_sent w" using same_sent [OF assms(1), of w] by simp
    show ?thesis
    proof (cases r)
      case (Inl e)
      with mw s show ?thesis by (simp add: eff_simps)
    next
      case (Inr x)
      from assms(2) [of x] s have "\<exists>ys. ow_sent (state_of (f x w')) = ow_sent w @ ys \<and> length ys \<le> n"
        unfolding sends_within_def by metis
      with mw Inr show ?thesis by (simp add: eff_simps)
    qed
  qed
  then show ?thesis unfolding sends_within_def by blast
qed

lemma sends_seq:
  assumes "\<And>Q. keeps (on_view (\<lambda>_ sent. Q sent)) m" and "sends_within n m'"
  shows "sends_within n (seqE m m')"
  unfolding seqE_def using assms by (rule sends_bind)

lemma sends_catch:
  assumes "sends_within n m" and "\<And>e Q. keeps (on_view (\<lambda>_ sent. Q sent)) (h e)"
  shows "sends_within n (catchE m h)"
proof -
  have "\<exists>ys. ow_sent (state_of (catchE m h w)) = ow_sent w @ ys \<and> length ys \<le> n" for w
  proof -
    obtain r w' where mw: "m w = (r, w')" by fastforce
    from assms(1) obtain ys where ys: "ow_sent (state_of (m w)) = ow_sent w @ ys" "length ys \<le> n"
      unfolding sends_within_def by blast
    show ?thesis
      using mw ys same_sent [OF assms(2), of _ w'] by (cases r) (auto simp: eff_simps)
  qed
  then show ?thesis unfolding sends_within_def by blast
qed

lemma sends_if: "sends_within n a \<Longrightarrow> sends_within n b \<Longrightarrow> sends_within n (if c then a else b)"
  by simp

lemma sends_case_option:
  "sends_within n a \<Longrightarrow> (\<And>y. sends_within n (f y)) \<Longrightarrow>
   sends_within n (case x of None \<Rightarrow> a | Some y \<Rightarrow> f y)"
  by (cases x) simp_all

lemmas sends_rules = sends_bind sends_seq sends_catch sends_if sends_case_option

lemma sends_executeWithRetry: "sends_within (nat (mc_maxAttempts cfg)) (executeWithRetry env cfg t k)"
  unfolding sends_within_def
proof
  fix w
  obtain ys where "ow_sent (state_of (retry_loop env cfg t k 1 w)) = ow_sent w @ ys"
    "int (length ys) \<le> max 0 (mc_maxAttempts cfg + 1 - 1)"
    using retry_loop_sent [of env cfg t k 1 w] by blast
  then show "\<exists>ys. ow_sent (state_of (executeWithRetry env cfg t k w)) = ow_sent w @ ys \<and>
      length ys \<le> nat (mc_maxAttempts cfg)"
    unfolding executeWithRetry_def by (intro exI [of _ ys]) auto
qed

lemma sends_handleRedrive: "sends_within (nat (mc_maxAttempts cfg)) (handleRedrive env cfg t q)"
  unfolding handleRedrive_def redrive_new_def
  by (intro sends_rules sends_executeWithRetry keeps_rules)

lemma keeps_await_approval [keeps_rules]:
  "keeps (on_view (\<lambda>_ sent. Q sent)) (await_approval env q k)"
  unfolding await_approval_def by (intro keeps_rules)

lemma sends_run_unseen: "sends_within (nat (mc_maxAttempts cfg)) (run_unseen env cfg q k)"
  unfolding run_unseen_def run_new_def
  by (intro sends_rules sends_executeWithRetry sends_none [of "ret _"]
        sends_none [of "await_approval _ _ _"] keeps_rules)

lemma sends_executeTrigger: "sends_within (nat (mc_maxAttempts cfg)) (executeTrigger env cfg q)"
  unfolding executeTrigger_def Let_def
  by (intro sends_rules sends_run_unseen sends_handleRedrive sends_none [of "ret _"] keeps_rules)

lemma sends_resumeAfterApproval:
  "sends_within (nat (mc_maxAttempts cfg)) (resumeAfterApproval env cfg k a)"
  unfolding resumeAfterApproval_def
  by (intro sends_rules sends_executeWithRetry sends_none [of "already_processed _ _"] keeps_rules)

section \<open>Responses and rows\<close>

text \<open>The response names a row of the table and reports its status.\<close>

definition reports :: "trigger_response \<Rightarrow> oracle_world \<Rightarrow> bool" where
  "reports x w \<longleftrightarrow> row_with (rs_idempotencyKey x) (\<lambda>s. status s = rs_status x) w"

abbreviation reporting :: "trigger_response oracle_eff \<Rightarrow> bool" where
  "reporting m \<equiv> triple rows_ok m (\<lambda>r w. rows_ok w \<and> (\<forall>x. r = Inr x \<longrightarrow> reports x w))"

definition has_row :: "trigger \<Rightarrow> oracle_world \<Rightarrow> bool" where
  "has_row t w \<longleftrightarrow> rows_ok w \<and> row_by idempotency_key (idempotency_key t) (ow_triggers w) = Some t"

lemma has_row_row_with: "has_row t w \<Longrightarrow> row_with (idempotency_key t) (\<lambda>s. s = t) w"
  by (simp add: has_row_def row_with_iff rows_ok_iff)

lemma row_with_rows_ok: "row_with k P w \<Longrightarrow> rows_ok w"
  by (simp add: row_with_iff rows_ok_iff)

lemma latest_has_row:
  assumes "rows_ok w" "getLatestTriggerByActionKey env k w = (Inr (Some t), w')"
  shows "has_row t w'" "action_key t = k" "w' = tick w"
proof -
  from assms(2) have l: "latest_by created_at (filter (\<lambda>t. action_key t = k) (ow_triggers w)) = Some t"
    and w': "w' = tick w"
    by (auto simp: getLatestTriggerByActionKey_def db_query_def split: option.splits)
  from latest_by_Some [OF l] have t: "t \<in> set (ow_triggers w)" "action_key t = k" by auto
  with assms(1) w' show "has_row t w'" "action_key t = k" "w' = tick w"
    by (auto simp: has_row_def on_view_def trigger_table.row_by_iff)
qed

lemma lookup_has_row:
  assumes "rows_ok w" "getTriggerByIdempotencyKey env k w = (Inr (Some t), w')"
  shows "has_row t w'" "idempotency_key t = k" "w' = tick w"
  using assms row_by_Some [of idempotency_key k "ow_triggers w" t]
  by (auto simp: getTriggerByIdempotencyKey_def db_query_def has_row_def on_view_def
      split: option.splits)

lemma createTrigger_has_row:
  assumes "rows_ok w" "createTrigger env d w = (Inr t, w')"
  shows "has_row t w'"
proof -
  have ok': "rows_ok w'" using keepsD [OF rows_ok_createTrigger assms(1), of env d] assms(2) by simp
  obtain r w1 where q: "db_query env (insert_trigger d) w = (r, w1)" by fastforce
  show ?thesis
  proof (cases r)
    case (Inr s)
    with q assms(2) have "s = t" "w1 = w'" by (simp_all add: createTrigger_def eff_simps)
    with q Inr have "t \<in> set (ow_triggers w')"
      by (auto simp: db_query_def insert_trigger_def guarded_insert_Some Let_def split: option.splits)
    with ok' show ?thesis by (simp add: has_row_def rows_ok_iff trigger_table.row_by_iff)
  next
    case (Inl e)
    then have w1: "rows_ok w1"
      using q assms(1) by (auto simp: db_query_def insert_trigger_def Let_def on_view_def split: option.splits)
    from q Inl assms(2) obtain w2 where
      "getLatestTriggerByActionKey env (ct_actionKey d) w1 = (Inr (Some t), w2)" "w2 = w'"
      by (auto simp: createTrigger_def eff_simps split: if_splits prod.splits sum.splits option.splits)
    with latest_has_row [OF w1] show ?thesis by blast
  qed
qed

text \<open>Keys, once in the table, stay there.\<close>

abbreviation keyed :: "string \<Rightarrow> oracle_world \<Rightarrow> bool" where
  "keyed k \<equiv> on_view (\<lambda>rows _. triggers_ok rows \<and> k \<in> idempotency_key ` set rows)"

lemma keyed_iff: "keyed k w \<longleftrightarrow> row_with k (\<lambda>_. True) w"
  using row_by_None [of idempotency_key k "ow_triggers w"]
  by (auto simp: on_view_def row_with_iff)

lemma keyed_updateTrigger [keeps_rules]: "keeps (keyed k) (updateTrigger env k' us)"
proof (cases "us = []")
  case True
  then show ?thesis by (simp add: updateTrigger_def keeps_ret)
next
  case False
  show ?thesis
  proof (rule keepsI)
    fix w assume w: "keyed k w"
    have same: "idempotency_key ` set (update_where P (set_columns us now) rows) = idempotency_key ` set rows"
      for P now rows
      by (metis list.set_map map_update_where set_columns_keys(2))
    show "keyed k (state_of (updateTrigger env k' us w))"
      by (rule updateTrigger_cases [OF False, of env k' w])
         (use w in \<open>simp_all add: on_view_def same\<close>)
  qed
qed

lemma keyed_createTrigger [keeps_rules]: "keeps (keyed k) (createTrigger env d)"
proof -
  have "keeps (keyed k) (db_query env (insert_trigger d))"
    by (rule keeps_db_query)
       (auto simp: on_view_def insert_trigger_def Let_def guarded_insert_Some split: option.splits)
  then show ?thesis unfolding createTrigger_def by (intro keeps_rules)
qed

lemma keyed_executeWithRetry [keeps_rules]: "keeps (keyed k) (executeWithRetry env cfg t ak)"
  unfolding executeWithRetry_def attempt_once_def record_submission_def
  by (intro keeps_retry_loop keeps_after_failure keeps_rules)
     (auto simp: attempt_once_def record_submission_def intro!: keeps_rules)

lemma keyed_redrive_new [keeps_rules]: "keeps (keyed k) (redrive_new env cfg t q)"
  unfolding redrive_new_def by (intro keeps_rules)

lemma has_row_keyed: "has_row t w \<Longrightarrow> keyed (idempotency_key t) w"
  by (auto simp: has_row_def on_view_def dest: row_by_Some)

section \<open>Every response reports the table\<close>

lemma rows_ok_triple:
  assumes "keeps rows_ok m"
  shows "triple rows_ok m (\<lambda>_. rows_ok)"
  using assms by (rule triple_keeps)

lemma reporting_executeWithRetry:
  assumes "db_up env" "1 \<le> mc_maxAttempts cfg"
  shows "triple (keyed (idempotency_key t)) (executeWithRetry env cfg t k)
           (\<lambda>r w. rows_ok w \<and> (\<forall>x. r = Inr x \<longrightarrow> reports x w))"
proof (rule tripleI)
  fix w assume "keyed (idempotency_key t) w"
  then have "row_with (idempotency_key t) (\<lambda>_. True) w" by (simp add: keyed_iff)
  from tripleD [OF retry_loop_recorded [OF assms] this, of k] obtain x where
    x: "result_of (executeWithRetry env cfg t k w) = Inr x"
    "recorded 1 (mc_maxAttempts cfg) t x (state_of (executeWithRetry env cfg t k w))"
    unfolding executeWithRetry_def by blast
  then have "row_with (rs_idempotencyKey x) (\<lambda>s. status s = rs_status x)
      (state_of (executeWithRetry env cfg t k w))"
    by (auto simp: recorded_def elim: row_with_mono)
  with x(1) show "rows_ok (state_of (executeWithRetry env cfg t k w)) \<and>
      (\<forall>x. result_of (executeWithRetry env cfg t k w) = Inr x \<longrightarrow>
         reports x (state_of (executeWithRetry env cfg t k w)))"
    by (auto simp: reports_def dest: row_with_rows_ok)
qed

lemma triple_createTrigger:
  "triple rows_ok (createTrigger env d) (\<lambda>r w. rows_ok w \<and> (\<forall>t. r = Inr t \<longrightarrow> has_row t w))"
proof (rule tripleI)
  fix w assume w: "rows_ok w"
  obtain r w' where c: "createTrigger env d w = (r, w')" by fastforce
  have "rows_ok w'" using keepsD [OF rows_ok_createTrigger w, of env d] c by simp
  with c createTrigger_has_row [OF w]
  show "rows_ok (state_of (createTrigger env d w)) \<and>
      (\<forall>t. result_of (createTrigger env d w) = Inr t \<longrightarrow> has_row t (state_of (createTrigger env d w)))"
    by auto
qed

lemma triple_createNewTrigger:
  "triple rows_ok (createNewTrigger env q k) (\<lambda>r w. rows_ok w \<and> (\<forall>t. r = Inr t \<longrightarrow> has_row t w))"
  unfolding createNewTrigger_def
  by (rule triple_bind [OF rows_ok_triple _ triple_createTrigger]) (simp_all add: keeps_rules)

lemma triple_has_row_keyed:
  assumes "triple (keyed (idempotency_key t)) m Q"
  shows "triple (\<lambda>w. rows_ok w \<and> (\<forall>s. Inr t = Inr s \<longrightarrow> has_row s w)) m Q"
  using assms by (rule triple_pre) (simp add: has_row_keyed)

lemma reporting_await_approval: "reporting (await_approval env q k)"
proof -
  let ?I = "\<lambda>t. row_with (idempotency_key t) (\<lambda>_. True)"
  let ?R = "\<lambda>t. row_with (idempotency_key t) (\<lambda>s. status s = PENDING_APPROVAL)"
  have upd: "triple (?I t) (updateTrigger env (idempotency_key t) [U_status PENDING_APPROVAL])
      (\<lambda>r w. row_with (idempotency_key t)
         (case r of Inl _ \<Rightarrow> (\<lambda>_. True) | Inr _ \<Rightarrow> (\<lambda>s. status s = PENDING_APPROVAL)) w)" for t
    by (rule triple_updateTrigger) (auto simp: set_columns_def)
  have incr: "triple (?R t) incrementOraclePendingApproval (\<lambda>_. ?R t)" for t
    by (rule triple_row_with) (intro keeps_rules)
  have fin: "triple (?R t) (seqE incrementOraclePendingApproval (ret x))
      (\<lambda>r w. rows_ok w \<and> (\<forall>x. r = Inr x \<longrightarrow> reports x w))"
    if "rs_idempotencyKey x = idempotency_key t" "rs_status x = PENDING_APPROVAL" for t x
    by (rule triple_seq [OF incr], simp add: row_with_rows_ok, rule triple_ret)
       (use that in \<open>auto simp: reports_def dest: row_with_rows_ok\<close>)
  show ?thesis
    unfolding await_approval_def
    by (rule triple_bind [OF triple_createNewTrigger], simp, rule triple_has_row_keyed,
        rule triple_pre [OF triple_seq [OF upd]])
       (auto simp: keyed_iff row_with_rows_ok intro!: fin)
qed

lemma reporting_redrive_new:
  assumes "db_up env" "1 \<le> mc_maxAttempts cfg"
  shows "reporting (redrive_new env cfg t q)"
  unfolding redrive_new_def
  by (rule triple_bind [OF rows_ok_triple _ triple_seq [OF rows_ok_triple _
        triple_bind [OF rows_ok_triple _ triple_bind [OF rows_ok_triple _
          triple_bind [OF triple_createTrigger _
            triple_has_row_keyed [OF reporting_executeWithRetry [OF assms]]]]]]])
     (simp_all add: keeps_rules)

lemma reporting_handleRedrive:
  assumes "db_up env" "1 \<le> mc_maxAttempts cfg"
  shows "triple (has_row t) (handleRedrive env cfg t q)
           (\<lambda>r w. rows_ok w \<and> (\<forall>x. r = Inr x \<longrightarrow> reports x w))"
    (is "triple _ _ ?Q")
proof -
  let ?k = "idempotency_key t"
  let ?us = "\<lambda>v c. [U_status CONFIRMED, U_on_chain_verified True, U_on_chain_verified_at v, U_confirmed_at c]"
  have I: "keyed ?k w \<Longrightarrow> rows_ok w" for w by (simp add: on_view_def)
  have upd: "triple (keyed ?k) (updateTrigger env ?k (?us v c))
      (\<lambda>r w. row_with ?k (case r of Inl _ \<Rightarrow> (\<lambda>_. True) | Inr _ \<Rightarrow> (\<lambda>s. status s = CONFIRMED)) w)" for v c
    unfolding keyed_iff by (rule triple_updateTrigger) (auto simp: set_columns_def)
  have after: "triple (keyed ?k) (seqE (updateTrigger env ?k (?us v c)) (ret x)) ?Q"
    if "rs_idempotencyKey x = ?k" "rs_status x = CONFIRMED" for v c x
    by (rule triple_seq [OF upd], simp add: row_with_rows_ok, rule triple_ret)
       (use that in \<open>auto simp: reports_def dest: row_with_rows_ok\<close>)
  have now: "triple (keyed ?k) (date_now env) (\<lambda>_. keyed ?k)"
    by (rule triple_keeps) (rule keeps_date_now)
  have marks: "triple (keyed ?k) (bindE (date_now env) (\<lambda>v. bindE (date_now env) (\<lambda>c.
      seqE (updateTrigger env ?k (?us v c)) (ret x)))) ?Q"
    if "rs_idempotencyKey x = ?k" "rs_status x = CONFIRMED" for x
    by (rule triple_bind [OF now _ triple_bind [OF now _ after]]) (simp_all add: I that)
  have new: "triple (keyed ?k) (redrive_new env cfg t q) (\<lambda>r w. keyed ?k w \<and> ?Q r w)"
  proof (rule tripleI)
    fix w assume w: "keyed ?k w"
    show "keyed ?k (state_of (redrive_new env cfg t q w)) \<and>
        ?Q (result_of (redrive_new env cfg t q w)) (state_of (redrive_new env cfg t q w))"
      using keepsD [OF keyed_redrive_new w] tripleD [OF reporting_redrive_new [OF assms] I [OF w]]
      by blast
  qed
  have body: "triple (keyed ?k) (catchE (redrive_new env cfg t q) h) ?Q"
    if "\<And>e. triple (keyed ?k) (h e) ?Q" for h
  proof (rule tripleI)
    fix w assume w: "keyed ?k w"
    obtain r w' where n: "redrive_new env cfg t q w = (r, w')" by fastforce
    with tripleD [OF new w] have "keyed ?k w'" "?Q r w'" by simp_all
    with n show "?Q (result_of (catchE (redrive_new env cfg t q) h w)) (state_of (catchE (redrive_new env cfg t q) h w))"
      using tripleD [OF that, of w'] by (cases r) (simp_all add: eff_simps)
  qed
  have incr: "triple (has_row t) incrementOracleRedriveAttempts (\<lambda>_. keyed ?k)"
    by (rule triple_pre [OF triple_keeps]) (auto intro: keeps_rules has_row_keyed)
  have throws: "triple (keyed ?k) (throw e) ?Q" for e
    by (rule tripleI) (simp add: eff_simps I)
  show ?thesis
    unfolding handleRedrive_def
    by (rule triple_seq [OF incr], erule conjI [OF I], simp, rule body)
       (auto intro: marks throws split: if_splits)
qed

lemma reporting_catch_throw:
  assumes "reporting m" "\<And>e. \<exists>e'. h e = throw e'"
  shows "reporting (catchE m h)"
proof (rule tripleI)
  fix w assume w: "rows_ok w"
  obtain r w' where mw: "m w = (r, w')" by fastforce
  with tripleD [OF assms(1) w] have post: "rows_ok w'" "\<forall>x. r = Inr x \<longrightarrow> reports x w'" by simp_all
  show "rows_ok (state_of (catchE m h w)) \<and>
      (\<forall>x. result_of (catchE m h w) = Inr x \<longrightarrow> reports x (state_of (catchE m h w)))"
  proof (cases r)
    case (Inl e)
    from assms(2) obtain e' where "h e = throw e'" by blast
    with mw Inl post show ?thesis by (simp add: eff_simps)
  next
    case (Inr x)
    with mw post show ?thesis by (simp add: eff_simps)
  qed
qed

lemma reporting_run_new:
  assumes "db_up env" "1 \<le> mc_maxAttempts cfg"
  shows "reporting (run_new env cfg q k)"
proof -
  have direct: "reporting (bindE (createNewTrigger env q k) (\<lambda>t. executeWithRetry env cfg t k))"
    by (rule triple_bind [OF triple_createNewTrigger _
          triple_has_row_keyed [OF reporting_executeWithRetry [OF assms]]]) simp
  have checks: "reporting (bindE (getTrade env tid) (\<lambda>tr. seqE (validateTradeState env tr ty) m))"
    if "reporting m" for tid ty m
    by (rule triple_bind [OF rows_ok_triple _ triple_seq [OF rows_ok_triple _ that]])
       (simp_all add: keeps_rules)
  show ?thesis
    unfolding run_new_def
    by (intro reporting_catch_throw checks) (auto simp: direct reporting_await_approval)
qed

lemma has_row_reports:
  "has_row t w \<Longrightarrow> rs_idempotencyKey x = idempotency_key t \<Longrightarrow> rs_status x = status t \<Longrightarrow> reports x w"
  by (auto simp: has_row_def reports_def row_with_iff rows_ok_iff)

lemma has_row_rows_ok: "has_row t w \<Longrightarrow> rows_ok w"
  by (simp add: has_row_def)

lemma handleExisting_keys:
  "rs_idempotencyKey (handleExistingTrigger t k) = idempotency_key t"
  "rs_status (handleExistingTrigger t k) = status t"
  by (auto simp: handleExistingTrigger_def Let_def)

lemma triple_lookup:
  "triple rows_ok (getTriggerByIdempotencyKey env k)
     (\<lambda>r w. rows_ok w \<and> (\<forall>t. r = Inr (Some t) \<longrightarrow> has_row t w \<and> idempotency_key t = k))"
proof (rule tripleI)
  fix w assume w: "rows_ok w"
  obtain r w' where g: "getTriggerByIdempotencyKey env k w = (r, w')" by fastforce
  have "rows_ok w'"
    using keepsD [OF keeps_getTriggerByIdempotencyKey w, of env k] g by simp
  with g lookup_has_row [OF w]
  show "rows_ok (state_of (getTriggerByIdempotencyKey env k w)) \<and>
      (\<forall>t. result_of (getTriggerByIdempotencyKey env k w) = Inr (Some t) \<longrightarrow>
        has_row t (state_of (getTriggerByIdempotencyKey env k w)) \<and> idempotency_key t = k)"
    by auto
qed

lemma triple_latest:
  "triple rows_ok (getLatestTriggerByActionKey env k)
     (\<lambda>r w. rows_ok w \<and> (\<forall>t. r = Inr (Some t) \<longrightarrow> has_row t w))"
proof (rule tripleI)
  fix w assume w: "rows_ok w"
  obtain r w' where g: "getLatestTriggerByActionKey env k w = (r, w')" by fastforce
  have "rows_ok w'"
    using keepsD [OF keeps_getLatestTriggerByActionKey w, of env k] g by simp
  with g latest_has_row [OF w]
  show "rows_ok (state_of (getLatestTriggerByActionKey env k w)) \<and>
      (\<forall>t. result_of (getLatestTriggerByActionKey env k w) = Inr (Some t) \<longrightarrow>
        has_row t (state_of (getLatestTriggerByActionKey env k w)))"
    by auto
qed

lemma reporting_run_unseen:
  assumes "db_up env" "1 \<le> mc_maxAttempts cfg"
  shows "reporting (run_unseen env cfg q k)"
  unfolding run_unseen_def
  by (rule triple_bind [OF rows_ok_triple _ triple_bind [OF triple_lookup]], intro keeps_rules, simp, simp)
     (auto simp: triple_def ret_app handleExisting_keys has_row_rows_ok intro: has_row_reports
        dest: tripleD [OF reporting_run_new [OF assms]] split: option.splits)

lemma reporting_executeTrigger:
  assumes "db_up env" "1 \<le> mc_maxAttempts cfg"
  shows "reporting (executeTrigger env cfg q)"
  unfolding executeTrigger_def Let_def
proof (rule triple_seq [OF rows_ok_triple], intro keeps_rules, simp, rule triple_bind [OF triple_latest], simp)
  fix k l
  let ?m = "case l of None \<Rightarrow> run_unseen env cfg q k
     | Some t \<Rightarrow> if isActionAlreadyCompleted t then ret (completed_response k t)
        else if tq_isRedrive q \<and> status t = EXHAUSTED_NEEDS_REDRIVE then handleRedrive env cfg t q
        else run_unseen env cfg q k"
  show "triple (\<lambda>w. rows_ok w \<and> (\<forall>t. Inr l = Inr (Some t) \<longrightarrow> has_row t w)) ?m
      (\<lambda>r w. rows_ok w \<and> (\<forall>x. r = Inr x \<longrightarrow> reports x w))"
  proof (cases l)
    case None
    with reporting_run_unseen [OF assms] show ?thesis by simp
  next
    case (Some t)
    have completed: "triple (has_row t) (ret (completed_response k t) :: trigger_response oracle_eff)
       (\<lambda>r w. rows_ok w \<and> (\<forall>x. r = Inr x \<longrightarrow> reports x w))"
      by (rule triple_ret) (auto simp: completed_response_def has_row_rows_ok intro: has_row_reports)
    have "triple (has_row t) ?m (\<lambda>r w. rows_ok w \<and> (\<forall>x. r = Inr x \<longrightarrow> reports x w))"
      using Some completed reporting_handleRedrive [OF assms]
        triple_pre [OF reporting_run_unseen [OF assms] has_row_rows_ok]
      by simp
    then show ?thesis by (rule triple_pre) (simp add: Some)
  qed
qed

section \<open>Approval and rejection\<close>

definition find_pending :: "string \<Rightarrow> trigger list \<Rightarrow> trigger option" where
  "find_pending k rows = find (\<lambda>t. idempotency_key t = k \<and> status t = PENDING_APPROVAL) rows"

lemma find_pending_row:
  assumes "triggers_ok rows"
  shows "find_pending k rows =
    (case row_by idempotency_key k rows of
       None \<Rightarrow> None | Some t \<Rightarrow> if status t = PENDING_APPROVAL then Some t else None)"
proof (cases "find_pending k rows")
  case None
  then have "\<forall>t \<in> set rows. idempotency_key t = k \<longrightarrow> status t \<noteq> PENDING_APPROVAL"
    by (auto simp: find_pending_def find_None_iff)
  with None show ?thesis by (auto dest: row_by_Some split: option.splits)
next
  case (Some t)
  then have "t \<in> set rows" "idempotency_key t = k" "status t = PENDING_APPROVAL"
    by (auto simp: find_pending_def find_Some_iff)
  moreover from this have "row_by idempotency_key k rows = Some t"
    using assms by (simp add: trigger_table.row_by_iff)
  ultimately show ?thesis using Some by simp
qed

text \<open>The guarded update either decides the one pending row or changes nothing.\<close>

lemma decide_pending_cases:
  assumes "rows_ok w" and keys: "\<And>now t. idempotency_key (f now t) = idempotency_key t"
  obtains e where "decide_pending env k f w = (Inl e, tick w)"
  | (no) "decide_pending env k f w = (Inr None, tick w)" "find_pending k (ow_triggers w) = None"
  | (yes) t w' where "decide_pending env k f w = (Inr (Some (f (oe_now env (ow_tick w)) t)), w')"
      "find_pending k (ow_triggers w) = Some t" "ow_sent w' = ow_sent w"
      "has_row (f (oe_now env (ow_tick w)) t) w'"
proof (cases "oe_db env (ow_tick w)")
  case (Some e)
  with that(1) show thesis by (simp add: decide_pending_def db_query_def)
next
  case None
  let ?P = "\<lambda>t. idempotency_key t = k \<and> status t = PENDING_APPROVAL"
  let ?f = "f (oe_now env (ow_tick w))"
  let ?rows = "update_where ?P ?f (ow_triggers w)"
  have run: "decide_pending env k f w =
      (if triggers_ok ?rows then (Inr (map_option ?f (find_pending k (ow_triggers w))), (tick w)\<lparr>ow_triggers := ?rows\<rparr>)
       else (Inl (violated_constraint ?rows), tick w))"
    using None by (simp add: decide_pending_def db_query_def update_rows_def guarded_update_def find_pending_def)
  from assms(1) have ok: "triggers_ok (ow_triggers w)" by (simp add: rows_ok_iff)
  show thesis
  proof (cases "find_pending k (ow_triggers w)")
    case no: None
    then have "\<not> ?P r" if "r \<in> set (ow_triggers w)" for r
      using that by (auto simp: find_pending_def find_None_iff)
    then have same: "?rows = ow_triggers w"
      unfolding update_where_def by (intro map_idI) auto
    have "(tick w)\<lparr>ow_triggers := ow_triggers w\<rparr> = tick w" by (simp add: tick_def)
    with run same ok no that(2) show thesis by simp
  next
    case (Some t)
    then have t: "t \<in> set (ow_triggers w)" "?P t"
      by (auto simp: find_pending_def find_Some_iff)
    show thesis
    proof (cases "triggers_ok ?rows")
      case False
      with run that(1) show thesis by simp
    next
      case True
      from t have "?f t \<in> set ?rows" by (auto simp: set_update_where)
      with True have "has_row (?f t) ((tick w)\<lparr>ow_triggers := ?rows\<rparr>)"
        by (simp add: has_row_def on_view_def trigger_table.row_by_iff)
      with run True Some that(3) show thesis by simp
    qed
  qed
qed

lemma reporting_already_processed: "reporting (already_processed env k)"
  unfolding already_processed_def
  by (rule triple_bind [OF triple_lookup])
     (auto simp: triple_def eff_simps buildResponseFromTrigger_def has_row_rows_ok
        intro: has_row_reports split: option.splits)

lemma triple_decide_pending:
  assumes "\<And>now t. idempotency_key (f now t) = idempotency_key t"
  shows "triple rows_ok (decide_pending env k f)
    (\<lambda>r w. rows_ok w \<and> (\<forall>t. r = Inr (Some t) \<longrightarrow> has_row t w))"
proof (rule tripleI)
  fix w assume w: "rows_ok w"
  then show "rows_ok (state_of (decide_pending env k f w)) \<and>
    (\<forall>t. result_of (decide_pending env k f w) = Inr (Some t) \<longrightarrow> has_row t (state_of (decide_pending env k f w)))"
    by (rule decide_pending_cases [where f = f and env = env and k = k, OF _ assms]) (use w in \<open>auto simp: has_row_rows_ok\<close>)
qed

lemma reporting_resumeAfterApproval:
  assumes "db_up env" "1 \<le> mc_maxAttempts cfg"
  shows "reporting (resumeAfterApproval env cfg k actor)"
proof -
  have go: "triple (has_row t) (seqE incrementOracleApproved (executeWithRetry env cfg t ak))
      (\<lambda>r w. rows_ok w \<and> (\<forall>x. r = Inr x \<longrightarrow> reports x w))" for t ak
  proof (rule triple_pre [OF triple_seq [OF triple_keeps]])
    show "keeps (keyed (idempotency_key t)) incrementOracleApproved" by (rule keeps_counters)
    show "triple (keyed (idempotency_key t)) (executeWithRetry env cfg t ak)
      (\<lambda>r w. rows_ok w \<and> (\<forall>x. r = Inr x \<longrightarrow> reports x w))"
      by (rule reporting_executeWithRetry [OF assms])
  qed (auto simp: on_view_def has_row_def dest: row_by_Some)
  show ?thesis
    unfolding resumeAfterApproval_def approveTrigger_def
    by (rule triple_bind [OF triple_decide_pending])
       (auto simp: triple_def reporting_already_processed [unfolded triple_def, rule_format]
          go [unfolded triple_def, rule_format] split: option.splits)
qed

lemma reporting_rejectPendingTrigger: "reporting (rejectPendingTrigger env k actor reason)"
  unfolding rejectPendingTrigger_def rejectTrigger_def
  by (rule triple_bind [OF triple_decide_pending])
     (auto simp: triple_def eff_simps counter_defs count_def buildResponseFromTrigger_def reports_def
        row_with_def has_row_def rows_ok_iff
        reporting_already_processed [unfolded triple_def reports_def row_with_def rows_ok_iff, rule_format]
      split: option.splits)

end
