(* ===== verification/Oracle_Manager_Runs.thy ===== *)
theory Oracle_Manager_Runs imports Main Oracle_Manager_Entry begin

text \<open>
  Runs of \<open>executeTrigger\<close> with the database and the chain up: creation of a trigger on a free
  and on a taken action, and the run from there.
\<close>

lemma getLatest_up:
  "db_up env \<Longrightarrow> getLatestTriggerByActionKey env k w =
     (Inr (latest_by created_at (filter (\<lambda>t. action_key t = k) (ow_triggers w))), tick w)"
  by (simp add: getLatestTriggerByActionKey_def db_query_def db_up_def)

lemma lookup_up:
  "db_up env \<Longrightarrow> getTriggerByIdempotencyKey env k w = (Inr (row_by idempotency_key k (ow_triggers w)), tick w)"
  by (simp add: getTriggerByIdempotencyKey_def db_query_def db_up_def)

lemma new_trigger_simps:
  "trigger_type (new_trigger now d) = ct_triggerType d" "trade_id (new_trigger now d) = ct_tradeId d"
  "action_key (new_trigger now d) = ct_actionKey d" "request_id (new_trigger now d) = ct_requestId d"
  "status (new_trigger now d) = ct_status d"
  by (simp_all add: new_trigger_def)

text \<open>The keys that the random generator can give are not in the table.\<close>

definition fresh_ids :: "oracle_env \<Rightarrow> string \<Rightarrow> trigger list \<Rightarrow> bool" where
  "fresh_ids env k rows \<longleftrightarrow> (\<forall>n. k @ '':'' @ oe_random_id env n \<notin> idempotency_key ` set rows)"

definition slot_free :: "string \<Rightarrow> trigger list \<Rightarrow> bool" where
  "slot_free k rows \<longleftrightarrow> k \<notin> set (active_keys rows)"

lemma createNewTrigger_free:
  assumes "db_up env" "triggers_ok (ow_triggers w)" "fresh_ids env k (ow_triggers w)"
    "slot_free k (ow_triggers w)"
  obtains t w' where "createNewTrigger env q k w = (Inr t, w')" "holds_slot t (ow_triggers w')"
    "trigger_type t = tq_triggerType q" "trade_id t = tq_tradeId q" "action_key t = k"
    "request_id t = tq_requestId q" "status t = PENDING" "ow_sent w' = ow_sent w"
proof -
  let ?t = "new_trigger (oe_now env (Suc (ow_tick w)))
    \<lparr>ct_actionKey = k, ct_requestId = tq_requestId q,
     ct_idempotencyKey = k @ '':'' @ oe_random_id env (ow_tick w), ct_tradeId = tq_tradeId q,
     ct_triggerType = tq_triggerType q, ct_requestHash = or_undefined (tq_requestHash q),
     ct_status = PENDING\<rparr>"
  let ?rows = "ow_triggers w @ [?t]"
  have ok: "triggers_ok ?rows"
    using assms(2-4) by (auto simp: triggers_ok_def active_keys_def new_trigger_def fresh_ids_def slot_free_def)
  have "holds_slot ?t ?rows"
    using ok assms(4)
    by (auto simp: holds_slot_def list_all_iff slot_free_def active_keys_def new_trigger_def image_iff)
  moreover have "createNewTrigger env q k w = (Inr ?t, (tick (tick w))\<lparr>ow_triggers := ?rows\<rparr>)"
    using assms(1) ok
    by (simp add: createNewTrigger_def generateIdempotencyKey_def generateRequestId_def eff_simps
        createTrigger_def db_query_def db_up_def insert_trigger_def guarded_insert_def Let_def)
  moreover have "trigger_type ?t = tq_triggerType q" "trade_id ?t = tq_tradeId q"
    "action_key ?t = k" "request_id ?t = tq_requestId q" "status ?t = PENDING"
    by (simp_all add: new_trigger_simps)
  moreover obtain t where "t = ?t" by blast
  ultimately have run: "createNewTrigger env q k w = (Inr t, (tick (tick w))\<lparr>ow_triggers := ow_triggers w @ [t]\<rparr>)"
    "holds_slot t (ow_triggers w @ [t])" "trigger_type t = tq_triggerType q" "trade_id t = tq_tradeId q"
    "action_key t = k" "request_id t = tq_requestId q" "status t = PENDING"
    by simp_all
  show thesis by (rule that [OF run(1) _ run(3-7)]) (simp_all add: run(2))
qed

text \<open>On a taken action the insert is refused and the latest trigger is returned as it is.\<close>

lemma createNewTrigger_taken:
  assumes "db_up env" "\<not> slot_free k (ow_triggers w)"
    "latest_by created_at (filter (\<lambda>t. action_key t = k) (ow_triggers w)) = Some t"
  obtains w' where "createNewTrigger env q k w = (Inr t, w')" "ow_triggers w' = ow_triggers w"
    "ow_sent w' = ow_sent w"
proof -
  have "\<not> triggers_ok (ow_triggers w @ [new_trigger now
    \<lparr>ct_actionKey = k, ct_requestId = a, ct_idempotencyKey = b, ct_tradeId = c, ct_triggerType = d,
     ct_requestHash = e, ct_status = PENDING\<rparr>])" for now a b c d e
    using assms(2) by (auto simp: triggers_ok_def active_keys_def slot_free_def new_trigger_def is_active_def)
  then show thesis
    using assms(1,3)
    by (intro that [of "tick (tick (tick w))"])
       (simp_all add: createNewTrigger_def generateIdempotencyKey_def generateRequestId_def eff_simps
        createTrigger_def db_query_def db_up_def insert_trigger_def guarded_insert_def Let_def
        violated_constraint_def unique_violation_def getLatest_up)
qed

lemma holds_slot_active:
  assumes "triggers_ok rows" "t \<in> set rows" "is_active (status t)"
  shows "holds_slot t rows"
  using assms triggers_ok_active_unique [OF assms(1) _ assms(2) _ assms(3)]
  by (auto simp: holds_slot_def list_ex_iff list_all_iff)

text \<open>From a created trigger that holds its slot to the submission.\<close>

lemma run_new_runs:
  assumes "db_up env" "chain_accepts env (tq_triggerType q) (tq_tradeId q)"
    "1 \<le> mc_maxAttempts cfg" "\<not> mc_manualApprovalEnabled cfg \<or> tq_isRedrive q"
    and created: "\<And>w1. ow_triggers w1 = ow_triggers w \<Longrightarrow> \<exists>t w2. createNewTrigger env q k w1 = (Inr t, w2) \<and>
       holds_slot t (ow_triggers w2) \<and> trigger_type t = tq_triggerType q \<and>
       trade_id t = tq_tradeId q \<and> ow_sent w2 = ow_sent w1 \<and> A t"
  obtains x w' t s n where "run_new env cfg q k w = (Inr x, w')" "rs_status x = SUBMITTED"
    "rs_idempotencyKey x = idempotency_key t" "A t"
    "my_row t w' = Some s" "status s = SUBMITTED" "attempt_count s = 1"
    "ow_sent w' = ow_sent w @ [(n, tq_triggerType q, tq_tradeId q)]"
proof -
  obtain trade where g: "getTrade env (tq_tradeId q) w = (Inr trade, tick w)"
    and ok: "action_allowed (oe_now env (ow_tick (tick w))) trade (tq_triggerType q)"
    using getTrade_accepts [OF assms(2)] by (metis tick_simps(1))
  from validateTradeState_accepts [OF ok] obtain w1 where
    v: "validateTradeState env trade (tq_triggerType q) (tick w) = (Inr (), w1)"
    "ow_triggers w1 = ow_triggers w" "ow_sent w1 = ow_sent w" by auto
  from created [OF v(2)] obtain t w2 where
    c: "createNewTrigger env q k w1 = (Inr t, w2)" "holds_slot t (ow_triggers w2)"
    "trigger_type t = tq_triggerType q" "trade_id t = tq_tradeId q" "ow_sent w2 = ow_sent w1" "A t"
    by blast
  have acc: "chain_accepts env (trigger_type t) (trade_id t)" using assms(2) c by simp
  obtain x w' s n where e: "executeWithRetry env cfg t k w2 = (Inr x, w')" "rs_status x = SUBMITTED"
    "rs_idempotencyKey x = idempotency_key t" "my_row t w' = Some s" "status s = SUBMITTED"
    "attempt_count s = 1" "ow_sent w' = ow_sent w2 @ [(n, trigger_type t, trade_id t)]"
    using executeWithRetry_accepts [OF assms(1) acc c(2) assms(3), of k] by metis
  have "run_new env cfg q k w = (Inr x, w')"
    using g v c(1) e(1) assms(4) by (auto simp: run_new_def eff_simps)
  with e c v show thesis by (intro that) auto
qed

lemma validateTradeId_ok: "all_digits i \<Longrightarrow> validateTradeId i w = (Inr (), w)"
  by (simp add: validateTradeId_def eff_simps)

lemma run_unseen_fresh:
  assumes "db_up env" "fresh_ids env k (ow_triggers w)"
  shows "run_unseen env cfg q k w = run_new env cfg q k (tick (tick w))"
proof -
  have "row_by idempotency_key (k @ '':'' @ oe_random_id env (ow_tick w)) (ow_triggers w) = None"
    using assms(2) by (simp add: fresh_ids_def row_by_None)
  then show ?thesis
    using assms(1)
    by (simp add: run_unseen_def generateIdempotencyKey_def generateRequestId_def eff_simps lookup_up)
qed

lemma executeTrigger_start:
  assumes "db_up env" "all_digits (tq_tradeId q)"
    "k = generateActionKey (tq_triggerType q) (tq_tradeId q)"
  shows "executeTrigger env cfg q w =
    (case latest_by created_at (filter (\<lambda>t. action_key t = k) (ow_triggers w)) of
       None \<Rightarrow> run_unseen env cfg q k
     | Some t \<Rightarrow>
         if isActionAlreadyCompleted t then ret (completed_response k t)
         else if tq_isRedrive q \<and> status t = EXHAUSTED_NEEDS_REDRIVE then handleRedrive env cfg t q
         else run_unseen env cfg q k) (tick w)"
  using assms(1,2) unfolding assms(3)
  by (simp add: executeTrigger_def seqE_app bindE_app validateTradeId_ok getLatest_up Let_def)

text \<open>A trade in the wrong state is refused by the checks, with nothing recorded or sent.\<close>

definition chain_refuses :: "oracle_env \<Rightarrow> trigger_type \<Rightarrow> string \<Rightarrow> bool" where
  "chain_refuses env ty tid \<longleftrightarrow>
     (\<forall>n. \<exists>r. oe_trades env n tid = Inr r \<and> \<not> action_allowed (oe_now env (Suc n)) (trade_of_raw r) ty)"

lemma checks_refused:
  assumes "chain_refuses env ty tid"
  obtains e w' where
    "bindE (getTrade env tid) (\<lambda>tr. seqE (validateTradeState env tr ty) (m tr)) w = (Inl e, w')"
    "is_validation_error e" "ow_triggers w' = ow_triggers w" "ow_sent w' = ow_sent w"
proof -
  from assms obtain r where r: "oe_trades env (ow_tick w) tid = Inr r"
    "\<not> action_allowed (oe_now env (ow_tick (tick w))) (trade_of_raw r) ty"
    unfolding chain_refuses_def tick_simps by blast
  show thesis
  proof (cases "fst (getTrade env tid w)")
    case (Inl e)
    with r have "getTrade env tid w = (Inl e, tick w)" "is_validation_error e"
      by (auto simp: getTrade_def sdk_getTrade_def eff_simps split: if_splits)
    then show ?thesis by (intro that [of e "tick w"]) (simp_all add: eff_simps)
  next
    case (Inr trade)
    then have "getTrade env tid w = (Inr trade, snd (getTrade env tid w))" by (simp add: prod_eq_iff)
    then obtain r' where "oe_trades env (ow_tick w) tid = Inr r'" "trade = trade_of_raw r'"
      "snd (getTrade env tid w) = tick w"
      by (rule getTrade_Inr)
    with Inr r(1) have g: "getTrade env tid w = (Inr (trade_of_raw r), tick w)"
      by (simp add: prod_eq_iff)
    obtain e w1 where v: "validateTradeState env (trade_of_raw r) ty (tick w) = (Inl e, w1)"
      using r(2) validateTradeState_result [of env "trade_of_raw r" ty "tick w"]
      by (metis prod.collapse sum.exhaust)
    have "is_validation_error e"
      using validateTradeState_error [of env "trade_of_raw r" ty "tick w" e] v by simp
    moreover have "ow_triggers w1 = ow_triggers w" "ow_sent w1 = ow_sent w"
      using validateTradeState_views [of env "trade_of_raw r" ty "tick w"] v by simp_all
    ultimately show ?thesis using g v by (intro that [of e w1]) (simp_all add: eff_simps)
  qed
qed

end
