(* ===== verification/Oracle_Sample.thy ===== *)
theory Oracle_Sample imports Main Oracle_Manager begin

text \<open>
  A concrete environment, configuration and state, on which the theorems' hypotheses are
  discharged: a connection that never fails, a trade 7 that is locked on the chain, and
  transactions that are mined.
\<close>

definition buyer_address :: string where
  "buyer_address = ''0x'' @ replicate 40 (CHR ''a'')"

definition sample_raw :: "nat \<Rightarrow> raw_trade" where
  "sample_raw st =
     \<lparr>rt_tradeId = 7, rt_buyerAddress = buyer_address, rt_supplierAddress = buyer_address,
      rt_status = st, rt_totalAmountLocked = 100, rt_logisticsAmount = 10,
      rt_platformFeesAmount = 10, rt_supplierFirstTranche = 40, rt_supplierSecondTranche = 40,
      rt_ricardianHash = [], rt_createdAt = 1, rt_arrivalTimestamp = 0\<rparr>"

definition sample_env :: "nat \<Rightarrow> oracle_env" where
  "sample_env st =
     \<lparr>oe_now = (\<lambda>n. 1700000000000 + int n), oe_random_id = show_nat, oe_random = (\<lambda>_. 1 / 2),
      oe_db = (\<lambda>_. None), oe_prune_first = (\<lambda>_. True),
      oe_trades = (\<lambda>_ _. Inr (sample_raw st)),
      oe_oracle_address = (\<lambda>_. Inr ''0xCc''), oe_signer_address = ''0xCc'',
      oe_send = (\<lambda>n ty tid. Inr (Some \<lparr>br_txHash = ''0xabc'', br_blockNumber = 12\<rparr>)),
      oe_events = (\<lambda>_ _. Gql_events (Some [])), oe_http = (\<lambda>_. HttpStatus 200),
      oe_toFixed1 = (\<lambda>_. ''9.9''), oe_notifier = None\<rparr>"

definition sample_cfg :: "bool \<Rightarrow> manager_config" where
  "sample_cfg manual =
     \<lparr>mc_maxAttempts = 3, mc_baseDelayMs = 1000, mc_manualApprovalEnabled = manual\<rparr>"

definition sample_request :: "bool \<Rightarrow> trigger_request" where
  "sample_request redrive =
     \<lparr>tq_tradeId = ''7'', tq_requestId = ''r'', tq_triggerType = RELEASE_STAGE_1,
      tq_requestHash = None, tq_isRedrive = redrive\<rparr>"

definition sample_trigger :: "trigger_status \<Rightarrow> trigger" where
  "sample_trigger s =
     new_trigger 5 \<lparr>ct_actionKey = ''RELEASE_STAGE_1:7'', ct_requestId = ''q'',
       ct_idempotencyKey = ''k'', ct_tradeId = ''7'', ct_triggerType = RELEASE_STAGE_1,
       ct_requestHash = None, ct_status = s\<rparr>"

definition sample_world :: "trigger list \<Rightarrow> oracle_world" where
  "sample_world rows = init_world\<lparr>ow_triggers := rows\<rparr>"

lemma sample_trigger_simps [simp]:
  "status (sample_trigger s) = s" "idempotency_key (sample_trigger s) = ''k''"
  "action_key (sample_trigger s) = ''RELEASE_STAGE_1:7''" "trade_id (sample_trigger s) = ''7''"
  "trigger_type (sample_trigger s) = RELEASE_STAGE_1" "created_at (sample_trigger s) = 5"
  by (simp_all add: sample_trigger_def new_trigger_def)

lemma sample_world_simps [simp]:
  "ow_triggers (sample_world rows) = rows" "ow_sent (sample_world rows) = []"
  "ow_tick (sample_world rows) = 0"
  by (simp_all add: sample_world_def init_world_def)

lemma sample_ok [simp]: "triggers_ok [sample_trigger s]" "triggers_ok []"
  by (simp_all add: triggers_ok_def active_keys_def)

end
