(* ===== verification/Oracle_Manager_Props.thy ===== *)
theory Oracle_Manager_Props imports Main Oracle_Manager_Runs Oracle_Sample begin

text \<open>The properties of the trigger manager, each with a concrete instance.\<close>

section \<open>Facts about the sample\<close>

lemma sample_db_up [simp]: "db_up (sample_env st)"
  by (simp add: db_up_def sample_env_def)

lemma buyer_not_zero [simp]: "buyer_address \<noteq> zero_address"
  by (simp add: buyer_address_def zero_address_def)

lemma sample_accepts [simp]: "chain_accepts (sample_env 0) RELEASE_STAGE_1 tid"
  by (simp add: chain_accepts_def sample_env_def sample_raw_def action_allowed_def
      trade_of_raw_def status_of_number_def)

lemma sample_refuses [simp]: "st \<noteq> 0 \<Longrightarrow> chain_refuses (sample_env st) RELEASE_STAGE_1 tid"
  by (simp add: chain_refuses_def sample_env_def sample_raw_def action_allowed_def
      trade_of_raw_def status_of_number_def)

lemma sample_cfg_simps [simp]:
  "mc_maxAttempts (sample_cfg b) = 3" "mc_manualApprovalEnabled (sample_cfg b) = b"
  by (simp_all add: sample_cfg_def)

lemma sample_key [simp]: "generateActionKey RELEASE_STAGE_1 ''7'' = ''RELEASE_STAGE_1:7''"
  by (simp add: generateActionKey_def)

lemma sample_request_simps [simp]:
  "tq_triggerType (sample_request b) = RELEASE_STAGE_1" "tq_tradeId (sample_request b) = ''7''"
  "tq_isRedrive (sample_request b) = b"
  by (simp_all add: sample_request_def)

lemma sample_digits [simp]: "all_digits ''7''"
  by code_simp

lemma sample_rows_ok: "rows_ok (sample_world [sample_trigger s])" "rows_ok (sample_world [])"
  by (simp_all add: rows_ok_iff)

section \<open>Transactions\<close>

text \<open>
  C1: every transaction that an entry point sends is justified: three external calls before it
  was sent, the chain held the trade (with a non-zero id and buyer) in the status the action
  starts from, and for a finalization the dispute window had passed.
\<close>

theorem transactions_justified:
  assumes "list_all (justified env) (ow_sent w)"
  shows "list_all (justified env) (ow_sent (state_of (executeTrigger env cfg q w))) \<and>
    list_all (justified env) (ow_sent (state_of (resumeAfterApproval env cfg k actor w)))"
  using assms keepsD [OF log_executeTrigger, of env w cfg q]
    keepsD [OF log_resumeAfterApproval, of env w cfg k actor]
  by (simp add: on_view_def)

lemma transactions_justified_witness:
  "list_all (justified (sample_env 0)) (ow_sent (state_of (executeTrigger (sample_env 0)
     (sample_cfg False) (sample_request False) (sample_world []))))"
  using transactions_justified [of "sample_env 0" "sample_world []"] by simp

text \<open>
  C2: a call of an entry point sends at most as many transactions as it has attempts
  configured, and a rejection sends none.
\<close>

theorem transactions_bounded:
  "length (ow_sent (state_of (executeTrigger env cfg q w))) \<le> length (ow_sent w) + nat (mc_maxAttempts cfg) \<and>
   length (ow_sent (state_of (resumeAfterApproval env cfg k actor w))) \<le> length (ow_sent w) + nat (mc_maxAttempts cfg) \<and>
   ow_sent (state_of (rejectPendingTrigger env k actor reason w)) = ow_sent w"
  using sends_withinD [OF sends_executeTrigger] sends_withinD [OF sends_resumeAfterApproval]
    same_sent [OF sent_rejectPendingTrigger]
  by blast

section \<open>Outcome\<close>

text \<open>
  C24: while the database answers and at least one attempt is configured, an attempt loop on a
  trigger of the table always returns, never throws: the response is a submission, a terminal
  failure or exhaustion, that status and an attempt count between 1 and the limit are recorded
  in the trigger's row, and at most as many transactions were sent.
\<close>

theorem retry_loop_ends:
  assumes "\<forall>n. oe_db env n = None" "triggers_ok (ow_triggers w)" "t \<in> set (ow_triggers w)"
    "1 \<le> mc_maxAttempts cfg"
  shows "\<exists>x w' s. executeWithRetry env cfg t k w = (Inr x, w') \<and>
    rs_status x \<in> {SUBMITTED, TERMINAL_FAILURE, EXHAUSTED_NEEDS_REDRIVE} \<and>
    row_by idempotency_key (idempotency_key t) (ow_triggers w') = Some s \<and>
    status s = rs_status x \<and> 1 \<le> attempt_count s \<and> attempt_count s \<le> mc_maxAttempts cfg \<and>
    int (length (ow_sent w')) \<le> int (length (ow_sent w)) + mc_maxAttempts cfg"
proof -
  have "row_with (idempotency_key t) (\<lambda>_. True) w"
    using assms(2,3) by (simp add: row_with_iff trigger_table.row_by_iff) blast
  moreover have "db_up env" using assms(1) by (simp add: db_up_def)
  ultimately obtain x where
    x0: "result_of (executeWithRetry env cfg t k w) = Inr x"
    "recorded 1 (mc_maxAttempts cfg) t x (state_of (executeWithRetry env cfg t k w))"
    using tripleD [OF retry_loop_recorded [OF _ assms(4)], of env t w k]
    unfolding executeWithRetry_def by blast
  then obtain w' where x: "executeWithRetry env cfg t k w = (Inr x, w')" "recorded 1 (mc_maxAttempts cfg) t x w'"
    by (cases "executeWithRetry env cfg t k w") simp
  have "length (ow_sent w') \<le> length (ow_sent w) + nat (mc_maxAttempts cfg)"
    using sends_withinD [OF sends_executeWithRetry, of env cfg t k w] x(1) by simp
  with x assms(4) show ?thesis by (auto simp: recorded_def row_with_iff)
qed

lemma retry_loop_ends_witness:
  "\<exists>x w' s. executeWithRetry (sample_env 3) (sample_cfg False) (sample_trigger PENDING) []
       (sample_world [sample_trigger PENDING]) = (Inr x, w') \<and>
     row_by idempotency_key ''k'' (ow_triggers w') = Some s \<and> status s = rs_status x"
  using retry_loop_ends [of "sample_env 3" "sample_world [sample_trigger PENDING]" "sample_trigger PENDING"
      "sample_cfg False" "[]"] sample_db_up [unfolded db_up_def, of 3]
  by auto

text \<open>
  C3: while the database answers and at least one attempt is configured, every response of an entry
  point tells the truth about the table: the row with the idempotency key of the response exists after
  the call, and its status is the one that the response reports, on every path (a completed action, a
  new trigger, the approval gate, a re-drive, an insert that met the unique index, an approval, a
  rejection, a decision that was already made).
\<close>

theorem responses_report_the_table:
  assumes "\<forall>n. oe_db env n = None" "triggers_ok (ow_triggers w)" "1 \<le> mc_maxAttempts cfg"
    and "executeTrigger env cfg q w = (Inr x, w') \<or>
      resumeAfterApproval env cfg k actor w = (Inr x, w') \<or>
      rejectPendingTrigger env k actor reason w = (Inr x, w')"
  shows "\<exists>s. row_by idempotency_key (rs_idempotencyKey x) (ow_triggers w') = Some s \<and> status s = rs_status x"
proof -
  have up: "db_up env" using assms(1) by (simp add: db_up_def)
  have w: "rows_ok w" using assms(2) by (simp add: rows_ok_iff)
  have "reports x w'"
    using assms(4) tripleD [OF reporting_executeTrigger [OF up assms(3)] w, of q]
      tripleD [OF reporting_resumeAfterApproval [OF up assms(3)] w, of k actor]
      tripleD [OF reporting_rejectPendingTrigger w, of env k actor reason]
    by auto
  then show ?thesis by (simp add: reports_def row_with_iff)
qed

lemma responses_report_the_table_witness:
  "\<exists>s. row_by idempotency_key ''k''
      (ow_triggers (state_of (rejectPendingTrigger (sample_env 0) ''k'' ''a'' None
        (sample_world [sample_trigger PENDING_APPROVAL])))) = Some s \<and> status s = REJECTED"
proof -
  let ?w = "sample_world [sample_trigger PENDING_APPROVAL]"
  let ?x = "buildResponseFromTrigger (rejected ''a'' None 1700000000000 (sample_trigger PENDING_APPROVAL))
      ''Trigger rejected by a''"
  let ?r = "rejectPendingTrigger (sample_env 0) ''k'' ''a'' None ?w"
  have run: "result_of ?r = Inr ?x"
    by (simp add: rejectPendingTrigger_def rejectTrigger_def decide_pending_def db_query_def eff_simps
        sample_env_def update_rows_def guarded_update_def update_where_def rejected_def
        triggers_ok_def active_keys_def is_active_def counter_defs count_def Let_def
        sample_world_def init_world_def)
  then have "?r = (Inr ?x, state_of ?r)" by (simp add: prod_eq_iff)
  with responses_report_the_table [of "sample_env 0" ?w "sample_cfg False" "sample_request False" ?x
      "state_of ?r" "''k''" "''a''" None]
  show ?thesis
    using sample_db_up [unfolded db_up_def, of 0] by (simp add: buildResponseFromTrigger_def)
qed



text \<open>
  requests are idempotent: when the latest trigger of an action is confirmed or submitted, a
  request for it, re-drive or not, answers with that trigger's result, changes no row and sends
  no transaction.
\<close>

theorem completed_action_is_idempotent:
  assumes "\<forall>n. oe_db env n = None" "all_digits (tq_tradeId q)"
    and "k = generateActionKey (tq_triggerType q) (tq_tradeId q)"
    and "latest_by created_at (filter (\<lambda>t. action_key t = k) (ow_triggers w)) = Some t"
    and "status t = CONFIRMED \<or> status t = SUBMITTED"
  shows "\<exists>x w'. executeTrigger env cfg q w = (Inr x, w') \<and>
    rs_idempotencyKey x = idempotency_key t \<and> rs_requestId x = request_id t \<and>
    rs_status x = status t \<and> ow_triggers w' = ow_triggers w \<and> ow_sent w' = ow_sent w"
  using executeTrigger_start [OF _ assms(2,3), of env cfg w] assms(1,4,5)
  by (simp add: db_up_def isActionAlreadyCompleted_def completed_response_def ret_app)

lemma completed_action_is_idempotent_witness:
  "\<exists>x w'. executeTrigger (sample_env 0) (sample_cfg False) (sample_request True)
       (sample_world [sample_trigger CONFIRMED]) = (Inr x, w') \<and> ow_sent w' = []"
  using completed_action_is_idempotent [of "sample_env 0" "sample_request True" "''RELEASE_STAGE_1:7''"
      "sample_world [sample_trigger CONFIRMED]" "sample_trigger CONFIRMED" "sample_cfg False"]
    sample_db_up [unfolded db_up_def, of 0]
  by auto

text \<open>
  a request that the trade's state on the chain does not allow is refused with the oracle's
  validation error before anything is recorded: no row is written and no transaction is sent.
\<close>

theorem disallowed_request_is_refused:
  assumes "\<forall>n. oe_db env n = None" "all_digits (tq_tradeId q)"
    and "k = generateActionKey (tq_triggerType q) (tq_tradeId q)"
    and "filter (\<lambda>t. action_key t = k) (ow_triggers w) = []" "fresh_ids env k (ow_triggers w)"
    and "chain_refuses env (tq_triggerType q) (tq_tradeId q)"
  shows "\<exists>e w'. executeTrigger env cfg q w = (Inl e, w') \<and> is_validation_error e \<and>
    ow_triggers w' = ow_triggers w \<and> ow_sent w' = ow_sent w"
proof -
  have db: "db_up env" using assms(1) by (simp add: db_up_def)
  let ?w = "tick (tick (tick w))"
  let ?m = "\<lambda>_. if mc_manualApprovalEnabled cfg \<and> \<not> tq_isRedrive q then await_approval env q k
    else bindE (createNewTrigger env q k) (\<lambda>t. executeWithRetry env cfg t k)"
  obtain e w' where "bindE (getTrade env (tq_tradeId q))
      (\<lambda>tr. seqE (validateTradeState env tr (tq_triggerType q)) (?m tr)) ?w = (Inl e, w')"
    "is_validation_error e" "ow_triggers w' = ow_triggers ?w" "ow_sent w' = ow_sent ?w"
    by (rule checks_refused [OF assms(6), of ?m ?w])
  then have "\<exists>e w'. run_new env cfg q k ?w = (Inl e, w') \<and> is_validation_error e \<and>
      ow_triggers w' = ow_triggers ?w \<and> ow_sent w' = ow_sent ?w"
    by (simp add: run_new_def catchE_app throw_app)
  moreover have "run_unseen env cfg q k (tick w) = run_new env cfg q k ?w"
    using run_unseen_fresh [OF db, of k "tick w"] assms(5) by simp
  ultimately show ?thesis
    using executeTrigger_start [OF db assms(2,3), of cfg w] assms(4) by simp
qed

lemma disallowed_request_is_refused_witness:
  "\<exists>e w'. executeTrigger (sample_env 1) (sample_cfg False) (sample_request False) (sample_world []) = (Inl e, w') \<and>
     is_validation_error e \<and> ow_triggers w' = [] \<and> ow_sent w' = []"
  using disallowed_request_is_refused [of "sample_env 1" "sample_request False" "''RELEASE_STAGE_1:7''"
      "sample_world []" "sample_cfg False"] sample_db_up [unfolded db_up_def, of 1]
  by (auto simp: fresh_ids_def)

section \<open>The approval gate\<close>

text \<open>
  with manual approval on, a request that is not a re-drive never sends a transaction,
  whatever the environment does.
\<close>

theorem approval_gate_sends_nothing:
  assumes "mc_manualApprovalEnabled cfg" "\<not> tq_isRedrive q"
  shows "ow_sent (state_of (executeTrigger env cfg q w)) = ow_sent w"
proof (rule same_sent)
  show "keeps (on_view (\<lambda>_ sent. Q sent)) (executeTrigger env cfg q)" for Q
    unfolding executeTrigger_def run_unseen_def run_new_def
    using assms by (simp add: Let_def) (intro keeps_rules, simp)
qed

lemma approval_gate_sends_nothing_witness:
  "ow_sent (state_of (executeTrigger (sample_env 0) (sample_cfg True) (sample_request False) (sample_world []))) = []"
  using approval_gate_sends_nothing [of "sample_cfg True" "sample_request False" "sample_env 0" "sample_world []"]
  by simp

text \<open>
  C4: an approval or a rejection acts only on a trigger that is awaiting approval: on any other
  key it changes no row and sends nothing, so a second approval, or an approval after a
  rejection, does not run the action again.
\<close>

theorem decision_needs_pending_approval:
  assumes "triggers_ok (ow_triggers w)"
    and "case row_by idempotency_key k (ow_triggers w) of None \<Rightarrow> True | Some t \<Rightarrow> status t \<noteq> PENDING_APPROVAL"
  shows "ow_triggers (state_of (resumeAfterApproval env cfg k actor w)) = ow_triggers w \<and>
    ow_sent (state_of (resumeAfterApproval env cfg k actor w)) = ow_sent w \<and>
    ow_triggers (state_of (rejectPendingTrigger env k actor reason w)) = ow_triggers w"
proof -
  from assms(1) have ok: "rows_ok w" by (simp add: rows_ok_iff)
  have none: "find_pending k (ow_triggers w) = None"
    using assms by (auto simp: find_pending_row split: option.splits)
  have dec: "\<exists>r. decide_pending env k f w = (r, tick w) \<and> (\<forall>t. r \<noteq> Inr (Some t))"
    if keys: "\<And>now t. idempotency_key (f now t) = idempotency_key t" for f
    by (rule decide_pending_cases [where f = f and env = env and k = k, OF ok keys]) (simp_all add: none)
  have same: "ow_triggers (state_of (already_processed env k w')) = ow_triggers w'"
    "ow_sent (state_of (already_processed env k w')) = ow_sent w'" for w'
    by (rule same_rows same_sent, rule keeps_already_processed)+
  from dec [of "approved actor"] dec [of "rejected actor reason"] show ?thesis
    by (auto simp: resumeAfterApproval_def rejectPendingTrigger_def approveTrigger_def
        rejectTrigger_def eff_simps same split: sum.splits option.splits)
qed

lemma decision_needs_pending_approval_witness:
  "ow_sent (state_of (resumeAfterApproval (sample_env 0) (sample_cfg True) ''k'' ''a''
     (sample_world [sample_trigger REJECTED]))) = []"
  using decision_needs_pending_approval [of "sample_world [sample_trigger REJECTED]" "''k''" "sample_env 0"
      "sample_cfg True" "''a''"]
  by (simp add: row_by_def)

text \<open>
  a re-drive request runs a trigger that is awaiting approval without its approval: when
  the latest trigger of the action is \<open>PENDING_APPROVAL\<close> and not exhausted, the insert of a new
  trigger conflicts with it, the conflict returns it, and it is executed on the chain.
\<close>

theorem redrive_bypasses_approval:
  assumes up: "\<forall>n. oe_db env n = None"
    and accepts: "chain_accepts env (tq_triggerType q) (tq_tradeId q)"
    and cfg: "1 \<le> mc_maxAttempts cfg" "mc_manualApprovalEnabled cfg" "tq_isRedrive q"
    and k: "k = generateActionKey (tq_triggerType q) (tq_tradeId q)" "all_digits (tq_tradeId q)"
    and rows: "triggers_ok (ow_triggers w)" "fresh_ids env k (ow_triggers w)"
      "latest_by created_at (filter (\<lambda>t. action_key t = k) (ow_triggers w)) = Some t"
    and t: "status t = PENDING_APPROVAL" "trigger_type t = tq_triggerType q" "trade_id t = tq_tradeId q"
  shows "\<exists>x w' n. executeTrigger env cfg q w = (Inr x, w') \<and> rs_status x = SUBMITTED \<and>
    rs_idempotencyKey x = idempotency_key t \<and>
    ow_sent w' = ow_sent w @ [(n, tq_triggerType q, tq_tradeId q)]"
proof -
  have db: "db_up env" using up by (simp add: db_up_def)
  let ?w = "tick (tick (tick w))"
  from latest_by_Some [OF rows(3)] have mem: "t \<in> set (ow_triggers w)" "action_key t = k" by auto
  have active: "is_active (status t)" using t(1) by (simp add: is_active_def)
  have taken: "\<not> slot_free k (ow_triggers w)"
    using mem active by (auto simp: slot_free_def active_keys_def)
  have held: "holds_slot t (ow_triggers w)" using rows(1) mem(1) active by (rule holds_slot_active)
  have created: "\<exists>t' w2. createNewTrigger env q k w1 = (Inr t', w2) \<and>
       holds_slot t' (ow_triggers w2) \<and> trigger_type t' = tq_triggerType q \<and>
       trade_id t' = tq_tradeId q \<and> ow_sent w2 = ow_sent w1 \<and> t' = t"
    if w1: "ow_triggers w1 = ow_triggers ?w" for w1
    using createNewTrigger_taken [OF db, of k w1 t q] w1 taken rows(3) held t(2,3) by (metis tick_simps(2))
  obtain x w' s n where run: "run_new env cfg q k ?w = (Inr x, w')" "rs_status x = SUBMITTED"
    "rs_idempotencyKey x = idempotency_key t"
    "ow_sent w' = ow_sent ?w @ [(n, tq_triggerType q, tq_tradeId q)]"
    using run_new_runs [where A = "\<lambda>t'. t' = t", OF db accepts cfg(1) _ created] cfg(3) by metis
  have unseen: "run_unseen env cfg q k (tick w) = run_new env cfg q k ?w"
    using run_unseen_fresh [OF db, of k "tick w"] rows(2) by simp
  have "executeTrigger env cfg q w = run_new env cfg q k ?w"
    using executeTrigger_start [OF db k(2,1), of cfg w] rows(3) unseen t(1)
    by (simp add: isActionAlreadyCompleted_def)
  with run show ?thesis by auto
qed

lemma redrive_bypasses_approval_witness:
  "\<exists>x w' n. executeTrigger (sample_env 0) (sample_cfg True) (sample_request True)
       (sample_world [sample_trigger PENDING_APPROVAL]) = (Inr x, w') \<and> rs_status x = SUBMITTED \<and>
     rs_idempotencyKey x = ''k'' \<and> ow_sent w' = [(n, RELEASE_STAGE_1, ''7'')]"
  using redrive_bypasses_approval [of "sample_env 0" "sample_request True" "sample_cfg True"
      "''RELEASE_STAGE_1:7''" "sample_world [sample_trigger PENDING_APPROVAL]" "sample_trigger PENDING_APPROVAL"]
    sample_db_up [unfolded db_up_def, of 0]
  by (auto simp: fresh_ids_def)

section \<open>Re-drives and single steps\<close>

text \<open>
  a re-drive of an exhausted trigger marks it \<open>CONFIRMED\<close> and verified on the chain
  whenever the trade is not in the state that the action starts from, without asking whether
  the action was executed: a frozen trade, or a dispute window that is still open, confirms the
  trigger too, and nothing is sent.
\<close>

theorem redrive_confirms_on_any_refusal:
  assumes up: "\<forall>n. oe_db env n = None"
    and k: "k = generateActionKey (tq_triggerType q) (tq_tradeId q)" "all_digits (tq_tradeId q)"
    and q: "tq_isRedrive q"
    and rows: "triggers_ok (ow_triggers w)"
      "latest_by created_at (filter (\<lambda>t. action_key t = k) (ow_triggers w)) = Some t"
    and t: "status t = EXHAUSTED_NEEDS_REDRIVE" "chain_refuses env (trigger_type t) (trade_id t)"
  shows "\<exists>x w' s. executeTrigger env cfg q w = (Inr x, w') \<and> rs_status x = CONFIRMED \<and>
    row_by idempotency_key (idempotency_key t) (ow_triggers w') = Some s \<and>
    status s = CONFIRMED \<and> on_chain_verified s \<and> ow_sent w' = ow_sent w"
proof -
  have db: "db_up env" using up by (simp add: db_up_def)
  let ?k = "idempotency_key t"
  let ?w = "state_of (incrementOracleRedriveAttempts (tick w))"
  have w: "ow_triggers ?w = ow_triggers w" "ow_sent ?w = ow_sent w"
    "result_of (incrementOracleRedriveAttempts (tick w)) = Inr ()"
    by (simp_all add: counter_defs count_def change_app)
  obtain e w1 where e: "redrive_new env cfg t q ?w = (Inl e, w1)" "is_validation_error e"
    "ow_triggers w1 = ow_triggers ?w" "ow_sent w1 = ow_sent ?w"
    unfolding redrive_new_def by (rule checks_refused [OF t(2)])
  let ?w2 = "tick (tick w1)"
  let ?us = "[U_status CONFIRMED, U_on_chain_verified True,
    U_on_chain_verified_at (oe_now env (ow_tick w1)), U_confirmed_at (oe_now env (ow_tick (tick w1)))]"
  from latest_by_Some [OF rows(2)] have "t \<in> set (ow_triggers w)" by auto
  then have row: "row_with ?k (\<lambda>_. True) ?w2"
    using rows(1) e(3) w(1) by (auto simp: row_with_iff trigger_table.row_by_iff)
  have "triple (row_with ?k (\<lambda>_. True)) (updateTrigger env ?k ?us)
      (\<lambda>r w. r = Inr () \<and> row_with ?k (\<lambda>s. status s = CONFIRMED \<and> on_chain_verified s) w)"
    by (rule triple_updateTrigger_inactive [OF db]) (simp_all add: set_columns_def is_active_def)
  from tripleD [OF this row] obtain w3 where
    u: "updateTrigger env ?k ?us ?w2 = (Inr (), w3)"
    "row_with ?k (\<lambda>s. status s = CONFIRMED \<and> on_chain_verified s) w3"
    by (cases "updateTrigger env ?k ?us ?w2") auto
  have sent: "ow_sent w3 = ow_sent w"
    using updateTrigger_sent [of env ?k ?us ?w2] unfolding u(1) by (simp add: e(4) w(2))
  have "executeTrigger env cfg q w = handleRedrive env cfg t q (tick w)"
    using executeTrigger_start [OF db k(2,1), of cfg w] rows(2) t(1) q
    by (simp add: isActionAlreadyCompleted_def)
  moreover have "\<exists>x. handleRedrive env cfg t q (tick w) = (Inr x, w3) \<and> rs_status x = CONFIRMED"
    using e(1,2) u(1) w(3)
    by (cases "incrementOracleRedriveAttempts (tick w)") (auto simp: handleRedrive_def eff_simps)
  ultimately show ?thesis using u(2) sent by (auto simp: row_with_iff)
qed

lemma redrive_confirms_on_any_refusal_witness:
  "\<exists>x w'. executeTrigger (sample_env 3) (sample_cfg False) (sample_request True)
       (sample_world [sample_trigger EXHAUSTED_NEEDS_REDRIVE]) = (Inr x, w') \<and>
     rs_status x = CONFIRMED \<and> ow_sent w' = []"
  using redrive_confirms_on_any_refusal [of "sample_env 3" "''RELEASE_STAGE_1:7''" "sample_request True"
      "sample_world [sample_trigger EXHAUSTED_NEEDS_REDRIVE]" "sample_trigger EXHAUSTED_NEEDS_REDRIVE"
      "sample_cfg False"] sample_db_up [unfolded db_up_def, of 3]
  by auto

text \<open>
  the oracle takes the trade whose id is 0 for a missing one, although the contract numbers
  its trades from 0: every read of it fails with a terminal validation error.
\<close>

theorem trade_zero_is_missing:
  assumes "oe_trades env (ow_tick w) tid = Inr r" "rt_tradeId r = 0"
  shows "getTrade env tid w =
    (Inl (validation_error (''Trade '' @ tid @ '' does not exist on-chain'')), tick w)"
  using assms by (simp add: getTrade_def sdk_getTrade_def eff_simps trade_of_raw_def)

lemma trade_zero_is_missing_witness:
  "getTrade ((sample_env 0)\<lparr>oe_trades := \<lambda>_ _. Inr ((sample_raw 0)\<lparr>rt_tradeId := 0\<rparr>)\<rparr>) ''0'' init_world =
     (Inl (validation_error ''Trade 0 does not exist on-chain''), tick init_world)"
  using trade_zero_is_missing [of "(sample_env 0)\<lparr>oe_trades := \<lambda>_ _. Inr ((sample_raw 0)\<lparr>rt_tradeId := 0\<rparr>)\<rparr>"
      init_world "''0''" "(sample_raw 0)\<lparr>rt_tradeId := 0\<rparr>"]
  by simp

text \<open>
  the delay before a retry is at least the capped exponential delay and never more than the
  cap of 30 seconds, for every value of the random generator in \<open>[0, 1)\<close>.
\<close>

theorem backoff_within_bounds:
  assumes "0 \<le> u" "u < 1"
  shows "min (base * 2 ^ nat (attempt - 1)) maxBackoffMs \<le> calculateBackoff u attempt base maxBackoffMs 1000 \<and>
    calculateBackoff u attempt base maxBackoffMs 1000 \<le> maxBackoffMs"
  using calculateBackoff_bounds [OF assms] by blast

lemma backoff_within_bounds_witness:
  "4000 \<le> calculateBackoff (1 / 2) 3 1000 maxBackoffMs 1000 \<and>
   calculateBackoff (1 / 2) 3 1000 maxBackoffMs 1000 \<le> 30000"
  using backoff_within_bounds [of "1 / 2" 1000 3] by (simp add: maxBackoffMs_def)

end
