(* ===== verification/Oracle_Worker.thy ===== *)
theory Oracle_Worker imports Main Oracle_Manager_Loop begin

text \<open>
  The confirmation worker (\<open>oracle/src/worker/confirmation-worker.ts\<close>) and the event look-up of
  the indexer client (\<open>oracle/src/blockchain/indexer-client.ts\<close>): submitted triggers become
  confirmed through the indexer or the chain, or exhausted when the hard timeout passes.
\<close>

section \<open>Constants\<close>

definition CONFIRMATION_TIMEOUT_MS :: int where "CONFIRMATION_TIMEOUT_MS = 5 * 60 * 1000"
definition HARD_TIMEOUT_MS :: int where "HARD_TIMEOUT_MS = 30 * 60 * 1000"
definition ON_CHAIN_FALLBACK_THRESHOLD_MS :: int where "ON_CHAIN_FALLBACK_THRESHOLD_MS = 20 * 60 * 1000"
definition ON_CHAIN_FALLBACK_MIN_INTERVAL_MS :: int where "ON_CHAIN_FALLBACK_MIN_INTERVAL_MS = 5 * 60 * 1000"
definition BATCH_SIZE :: nat where "BATCH_SIZE = 100"

section \<open>The indexer\<close>

text \<open>Every failure is answered with \<open>null\<close>.\<close>

definition findConfirmationEvent :: "oracle_env \<Rightarrow> string \<Rightarrow> string \<Rightarrow> indexer_event option oracle_eff" where
  "findConfirmationEvent env txHash tradeId =
     bindE (ask_env (\<lambda>n. oe_events env n txHash)) (\<lambda>answer. ret
       (case answer of
          Gql_fetch_fails \<Rightarrow> None
        | Gql_http_error \<Rightarrow> None
        | Gql_errors \<Rightarrow> None
        | Gql_events None \<Rightarrow> None
        | Gql_events (Some []) \<Rightarrow> None
        | Gql_events (Some (event # _)) \<Rightarrow>
            if ie_tradeId event \<noteq> tradeId then None else Some event))"

section \<open>The fallback to the chain\<close>

text \<open>The map \<open>lastOnChainCheckByTradeId\<close> is the association list \<open>ow_checks\<close>.\<close>

definition shouldRunOnChainCheck :: "string \<Rightarrow> int \<Rightarrow> int \<Rightarrow> bool oracle_eff" where
  "shouldRunOnChainCheck tradeId now ageMs =
     (if ageMs < ON_CHAIN_FALLBACK_THRESHOLD_MS then ret False
      else bindE (asks (\<lambda>w. map_of (ow_checks w) tradeId)) (\<lambda>lastCheckedAt.
        if (case lastCheckedAt of None \<Rightarrow> False
            | Some l \<Rightarrow> now - l < ON_CHAIN_FALLBACK_MIN_INTERVAL_MS)
        then ret False
        else seqE (change (\<lambda>w. w\<lparr>ow_checks := AList.update tradeId now (ow_checks w)\<rparr>)) (ret True)))"

definition isTradeStateAdvanced :: "trigger_type \<Rightarrow> trade_status \<Rightarrow> bool" where
  "isTradeStateAdvanced ty st =
     (case ty of
        RELEASE_STAGE_1 \<Rightarrow> status_number st \<noteq> 0
      | CONFIRM_ARRIVAL \<Rightarrow> status_number st \<noteq> 1
      | FINALIZE_TRADE \<Rightarrow> status_number st \<noteq> 2)"

definition tryOnChainFallback :: "oracle_env \<Rightarrow> trigger \<Rightarrow> int \<Rightarrow> int \<Rightarrow> bool oracle_eff" where
  "tryOnChainFallback env t now ageMs =
     bindE (shouldRunOnChainCheck (trade_id t) now ageMs) (\<lambda>run.
       if \<not> run then ret False
       else catchE
         (bindE (getTrade env (trade_id t)) (\<lambda>trade.
            if \<not> isTradeStateAdvanced (trigger_type t) (td_status trade) then ret False
            else bindE (date_now env) (\<lambda>verifiedAt.
              bindE (date_now env) (\<lambda>confirmedAt.
              seqE (updateTrigger env (idempotency_key t)
                      [U_status CONFIRMED, U_on_chain_verified True,
                       U_on_chain_verified_at verifiedAt, U_confirmed_at confirmedAt])
                (ret True)))))
         (\<lambda>_. ret False))"

section \<open>One check\<close>

definition timeout_event :: "trigger \<Rightarrow> notification_event" where
  "timeout_event t =
     \<lparr>ne_source = ''oracle'', ne_type = ''ORACLE_CONFIRMATION_TIMEOUT'',
      ne_severity = Sev_critical,
      ne_dedupKey = ''oracle:confirmation-timeout:'' @ action_key t,
      ne_message = ''Confirmation timeout exceeded hard limit and trigger moved to EXHAUSTED_NEEDS_REDRIVE.'',
      ne_correlation = no_correlation\<lparr>co_tradeId := Some (trade_id t),
        co_actionKey := Some (action_key t), co_requestId := Some (request_id t),
        co_txHash := tx_hash t\<rparr>\<rparr>"

definition notifyTimeout :: "oracle_env \<Rightarrow> trigger \<Rightarrow> unit oracle_eff" where
  "notifyTimeout env t =
     (case oe_notifier env of
        None \<Rightarrow> ret ()
      | Some cfg \<Rightarrow> bindE (notifyE env cfg (timeout_event t)) (\<lambda>_. ret ()))"

text \<open>\<open>new Date(null)\<close> is the epoch.\<close>

definition submitted_ms :: "trigger \<Rightarrow> int" where
  "submitted_ms t = (case submitted_at t of None \<Rightarrow> 0 | Some d \<Rightarrow> d)"

definition timeout_message :: "oracle_env \<Rightarrow> int \<Rightarrow> string" where
  "timeout_message env ageMs =
     ''Confirmation timeout after '' @ oe_toFixed1 env ageMs @
     '' minutes. Transaction may have failed or indexer is lagging. Re-drive will verify on-chain status.''"

definition confirm_from_indexer :: "oracle_env \<Rightarrow> trigger \<Rightarrow> string \<Rightarrow> unit oracle_eff" where
  "confirm_from_indexer env t tx =
     bindE (findConfirmationEvent env tx (trade_id t)) (\<lambda>event.
       case event of
         None \<Rightarrow> ret ()
       | Some e \<Rightarrow>
           bindE (date_now env) (\<lambda>indexedAt.
           bindE (date_now env) (\<lambda>confirmedAt.
             updateTrigger env (idempotency_key t)
               [U_status CONFIRMED, U_indexer_confirmed True, U_indexer_confirmed_at indexedAt,
                U_indexer_event_id (ie_id e), U_confirmed_at confirmedAt])))"

definition checkConfirmation :: "oracle_env \<Rightarrow> trigger \<Rightarrow> unit oracle_eff" where
  "checkConfirmation env t =
     catchE
       (if \<not> truthy_opt (tx_hash t) then ret ()
        else bindE (date_now env) (\<lambda>now.
          let ageMs = now - submitted_ms t
          in bindE (tryOnChainFallback env t now ageMs) (\<lambda>onChainConfirmed.
               if onChainConfirmed then ret ()
               else if ageMs > HARD_TIMEOUT_MS then
                 seqE (updateTrigger env (idempotency_key t)
                         [U_status EXHAUSTED_NEEDS_REDRIVE,
                          U_last_error (timeout_message env ageMs), U_error_type INDEXER_LAG])
                   (notifyTimeout env t)
               else confirm_from_indexer env t (the (tx_hash t)))))
       (\<lambda>_. ret ())"

definition pollConfirmations :: "oracle_env \<Rightarrow> unit oracle_eff" where
  "pollConfirmations env =
     catchE
       (bindE (getTriggersByStatus env SUBMITTED BATCH_SIZE) (\<lambda>ts. forE ts (checkConfirmation env)))
       (\<lambda>_. ret ())"

section \<open>Start and stop\<close>

text \<open>\<open>isRunning\<close> and the intervals that are set.\<close>

record worker_control =
  wk_isRunning :: bool
  wk_intervals :: nat

definition worker_start :: "worker_control \<Rightarrow> worker_control" where
  "worker_start c =
     (if wk_isRunning c then c else \<lparr>wk_isRunning = True, wk_intervals = wk_intervals c + 1\<rparr>)"

definition worker_stop :: "worker_control \<Rightarrow> worker_control" where
  "worker_stop c =
     (if \<not> wk_isRunning c then c else \<lparr>wk_isRunning = False, wk_intervals = wk_intervals c - 1\<rparr>)"

definition worker_ok :: "worker_control \<Rightarrow> bool" where
  "worker_ok c \<longleftrightarrow> wk_intervals c = (if wk_isRunning c then 1 else 0)"

lemma worker_ok_steps: "worker_ok c \<Longrightarrow> worker_ok (worker_start c) \<and> worker_ok (worker_stop c)"
  by (simp add: worker_ok_def worker_start_def worker_stop_def)

section \<open>What the worker keeps\<close>

lemma keeps_findConfirmationEvent [keeps_rules]: "keeps (on_view P) (findConfirmationEvent env h i)"
  unfolding findConfirmationEvent_def by (intro keeps_rules)

lemma keeps_shouldRun [keeps_rules]: "keeps (on_view P) (shouldRunOnChainCheck i now age)"
  unfolding shouldRunOnChainCheck_def by (intro keeps_rules keeps_change) (simp add: on_view_def)

lemma keeps_notifyTimeout [keeps_rules]: "keeps (on_view P) (notifyTimeout env t)"
  unfolding notifyTimeout_def by (intro keeps_rules)

lemma keeps_checkConfirmation:
  assumes "\<And>k us. keeps (on_view P) (updateTrigger env k us)"
  shows "keeps (on_view P) (checkConfirmation env t)"
  unfolding checkConfirmation_def tryOnChainFallback_def confirm_from_indexer_def Let_def
  by (intro keeps_rules assms)

lemma keeps_pollConfirmations:
  assumes "\<And>k us. keeps (on_view P) (updateTrigger env k us)"
  shows "keeps (on_view P) (pollConfirmations env)"
  unfolding pollConfirmations_def by (intro keeps_rules keeps_checkConfirmation assms)

lemma rows_ok_pollConfirmations [keeps_rules]: "keeps rows_ok (pollConfirmations env)"
  by (rule keeps_pollConfirmations) (rule rows_ok_updateTrigger)

lemma sent_pollConfirmations [keeps_rules]: "keeps (on_view (\<lambda>_ sent. Q sent)) (pollConfirmations env)"
  by (rule keeps_pollConfirmations) (rule sent_updateTrigger)

lemma pollConfirmations_returns: "\<exists>w'. pollConfirmations env w = (Inr (), w')"
proof -
  obtain r w1 where "bindE (getTriggersByStatus env SUBMITTED BATCH_SIZE)
      (\<lambda>ts. forE ts (checkConfirmation env)) w = (r, w1)" by fastforce
  then show ?thesis by (cases r) (simp_all add: pollConfirmations_def eff_simps)
qed

lemma checkConfirmation_returns: "\<exists>w'. checkConfirmation env t w = (Inr (), w')"
  unfolding checkConfirmation_def catchE_app
  by (auto simp: ret_app split: prod.splits sum.splits)

end
