(* ===== verification/Oracle_Worker_Props.thy ===== *)
theory Oracle_Worker_Props imports Main Oracle_Worker Oracle_Sample begin

text \<open>The properties of the confirmation worker.\<close>

section \<open>How a poll moves the rows\<close>

definition resolved :: "trigger_status \<Rightarrow> bool" where
  "resolved s \<longleftrightarrow> s = CONFIRMED \<or> s = EXHAUSTED_NEEDS_REDRIVE"

text \<open>A row stays as it is, or, when its key is among \<open>ks\<close>, is resolved.\<close>

definition row_move :: "string set \<Rightarrow> trigger \<Rightarrow> trigger \<Rightarrow> bool" where
  "row_move ks a b \<longleftrightarrow>
     b = a \<or> (idempotency_key a \<in> ks \<and> idempotency_key b = idempotency_key a \<and> resolved (status b))"

definition moves :: "string set \<Rightarrow> oracle_world \<Rightarrow> oracle_world \<Rightarrow> bool" where
  "moves ks w w' \<longleftrightarrow> list_all2 (row_move ks) (ow_triggers w) (ow_triggers w')"

lemma moves_refl: "ow_triggers w' = ow_triggers w \<Longrightarrow> moves ks w w'"
  by (simp add: moves_def row_move_def list_all2_same)

lemma moves_trans: "moves ks u v \<Longrightarrow> moves ls v w \<Longrightarrow> moves (ks \<union> ls) u w"
  unfolding moves_def
  by (erule list_all2_trans [rotated, of _ _ _ "row_move ls"])
     (auto simp: row_move_def)

lemma moves_update:
  assumes "us \<noteq> []" "\<And>now s. resolved (status (set_columns us now s))"
  shows "moves {k} w (state_of (updateTrigger env k us w))"
  by (rule updateTrigger_cases [OF assms(1), of env k w])
     (auto simp: moves_def row_move_def assms(2) list_all2_same update_where_def list_all2_conv_all_nth)

lemma moves_bind:
  assumes "\<And>w. ow_triggers (state_of (m w)) = ow_triggers w" "\<And>x w. moves ks w (state_of (f x w))"
  shows "moves ks w (state_of (bindE m f w))"
proof -
  obtain r w' where mw: "m w = (r, w')" by fastforce
  with assms(1) [of w] have s: "ow_triggers w' = ow_triggers w" by simp
  show ?thesis
  proof (cases r)
    case (Inl e)
    with mw s show ?thesis by (simp add: eff_simps moves_refl)
  next
    case (Inr x)
    have "moves ks w' (state_of (f x w'))" by (rule assms(2))
    with s have "moves ks w (state_of (f x w'))" by (simp add: moves_def)
    with mw Inr show ?thesis by (simp add: eff_simps)
  qed
qed

lemma moves_then:
  assumes "\<And>w. moves ks w (state_of (m w))" "\<And>x w. moves ks w (state_of (f x w))"
  shows "moves ks w (state_of (bindE m f w))"
proof -
  obtain r w' where mw: "m w = (r, w')" by fastforce
  with assms(1) [of w] have s: "moves ks w w'" by simp
  show ?thesis
  proof (cases r)
    case (Inl e)
    with mw s show ?thesis by (simp add: eff_simps)
  next
    case (Inr x)
    have "moves ks w' (state_of (f x w'))" by (rule assms(2))
    with s have "moves ks w (state_of (f x w'))" using moves_trans [of ks w w' ks] by simp
    with mw Inr show ?thesis by (simp add: eff_simps)
  qed
qed

lemma moves_catch:
  assumes "\<And>w. moves ks w (state_of (m w))" "\<And>e w. moves ks w (state_of (h e w))"
  shows "moves ks w (state_of (catchE m h w))"
proof -
  obtain r w' where mw: "m w = (r, w')" by fastforce
  with assms(1) [of w] have s: "moves ks w w'" by simp
  show ?thesis
  proof (cases r)
    case (Inr e)
    with mw s show ?thesis by (simp add: eff_simps)
  next
    case (Inl x)
    have "moves ks w' (state_of (h x w'))" by (rule assms(2))
    with s have "moves ks w (state_of (h x w'))" using moves_trans [of ks w w' ks] by simp
    with mw Inl show ?thesis by (simp add: eff_simps)
  qed
qed

lemma moves_same:
  assumes "\<And>Q. keeps (on_view (\<lambda>rows _. Q rows)) m"
  shows "moves ks w (state_of (m w))"
  by (rule moves_refl) (rule same_rows [OF assms])

lemma moves_checkConfirmation: "moves {idempotency_key t} w (state_of (checkConfirmation env t w))"
proof -
  let ?ks = "{idempotency_key t}"
  have upd: "moves ?ks w (state_of (updateTrigger env (idempotency_key t) us w))"
    if "us \<noteq> []" "\<And>now s. resolved (status (set_columns us now s))" for us w
    using that by (rule moves_update)
  have stay: "moves ?ks w (state_of (ret x w))" for x :: bool and w
    by (rule moves_refl) (simp add: ret_app)
  have mark: "moves ?ks w (state_of (bindE (updateTrigger env (idempotency_key t)
      [U_status CONFIRMED, U_on_chain_verified True, U_on_chain_verified_at v, U_confirmed_at c])
      (\<lambda>_. ret True) w))" for v c w
    by (rule moves_then [OF upd stay]) (simp_all add: set_columns_def resolved_def)
  have confirm: "moves ?ks w (state_of (bindE (date_now env) (\<lambda>v. bindE (date_now env) (\<lambda>c.
      bindE (updateTrigger env (idempotency_key t)
        [U_status CONFIRMED, U_on_chain_verified True, U_on_chain_verified_at v, U_confirmed_at c])
      (\<lambda>_. ret True))) w))" for w
    by (intro moves_bind mark same_rows keeps_date_now)
  have body: "moves ?ks w (state_of (bindE (getTrade env (trade_id t)) (\<lambda>trade.
      if \<not> isTradeStateAdvanced (trigger_type t) (td_status trade) then ret False
      else bindE (date_now env) (\<lambda>v. bindE (date_now env) (\<lambda>c.
        bindE (updateTrigger env (idempotency_key t)
          [U_status CONFIRMED, U_on_chain_verified True, U_on_chain_verified_at v, U_confirmed_at c])
        (\<lambda>_. ret True)))) w))" for w
    by (rule moves_bind [OF same_rows [OF keeps_getTrade]]) (simp add: confirm stay)
  have fallback: "moves ?ks w (state_of (tryOnChainFallback env t now age w))" for now age w
    unfolding tryOnChainFallback_def seqE_def
    by (rule moves_bind [OF same_rows [OF keeps_shouldRun]]) (auto intro: moves_catch body stay)
  have noevent: "moves ?ks w (state_of (ret () w))" for w
    by (rule moves_refl) (simp add: ret_app)
  have indexed: "moves ?ks w (state_of (bindE (date_now env) (\<lambda>i. bindE (date_now env) (\<lambda>c.
      updateTrigger env (idempotency_key t)
        [U_status CONFIRMED, U_indexer_confirmed True, U_indexer_confirmed_at i,
         U_indexer_event_id ev, U_confirmed_at c])) w))" for ev w
    by (intro moves_bind same_rows keeps_date_now) (rule upd; simp add: set_columns_def resolved_def)
  have indexer: "moves ?ks w (state_of (confirm_from_indexer env t tx w))" for tx w
    unfolding confirm_from_indexer_def
    by (rule moves_bind [OF same_rows [OF keeps_findConfirmationEvent]])
       (auto intro: indexed noevent split: option.splits)
  have timeout: "moves ?ks w (state_of (bindE (updateTrigger env (idempotency_key t)
      [U_status EXHAUSTED_NEEDS_REDRIVE, U_last_error m, U_error_type INDEXER_LAG])
      (\<lambda>_. notifyTimeout env t) w))" for m w
    by (rule moves_then [OF upd moves_same [OF keeps_notifyTimeout]])
       (simp_all add: set_columns_def resolved_def)
  have checked: "moves ?ks w (state_of (bindE (tryOnChainFallback env t now age) (\<lambda>c.
      if c then ret ()
      else if age > HARD_TIMEOUT_MS then
        bindE (updateTrigger env (idempotency_key t)
          [U_status EXHAUSTED_NEEDS_REDRIVE, U_last_error m, U_error_type INDEXER_LAG])
          (\<lambda>_. notifyTimeout env t)
      else confirm_from_indexer env t tx) w))" for now age m tx w
    by (rule moves_then [OF fallback]) (simp add: noevent timeout indexer)
  have timed: "moves ?ks w (state_of (bindE (date_now env) (\<lambda>now.
      bindE (tryOnChainFallback env t now (now - submitted_ms t)) (\<lambda>c.
        if c then ret ()
        else if now - submitted_ms t > HARD_TIMEOUT_MS then
          bindE (updateTrigger env (idempotency_key t)
            [U_status EXHAUSTED_NEEDS_REDRIVE, U_last_error (timeout_message env (now - submitted_ms t)),
             U_error_type INDEXER_LAG])
            (\<lambda>_. notifyTimeout env t)
        else confirm_from_indexer env t tx)) w))" for tx w
    by (rule moves_bind [OF same_rows [OF keeps_date_now] checked])
  show ?thesis
    unfolding checkConfirmation_def Let_def seqE_def
    by (rule moves_catch) (simp_all add: noevent timed)
qed

lemma moves_forE:
  assumes "\<And>t w. moves {idempotency_key t} w (state_of (f t w))" "\<And>t w. \<exists>w'. f t w = (Inr (), w')"
  shows "moves (idempotency_key ` set ts) w (state_of (forE ts f w))"
proof (induction ts arbitrary: w)
  case Nil
  then show ?case by (simp add: ret_app moves_refl)
next
  case (Cons t ts)
  obtain w' where w': "f t w = (Inr (), w')" using assms(2) by blast
  with assms(1) [of t w] have "moves {idempotency_key t} w w'" by simp
  from moves_trans [OF this Cons.IH] w' show ?case by (simp add: seqE_app)
qed

text \<open>
  a poll of the confirmation worker never throws and never sends a transaction; it keeps
  the constraints of the table, and row by row it either leaves a trigger as it was or takes a
  \<open>SUBMITTED\<close> one to \<open>CONFIRMED\<close> or to \<open>EXHAUSTED_NEEDS_REDRIVE\<close>.
\<close>

theorem poll_moves_submitted_rows:
  assumes "triggers_ok (ow_triggers w)"
  shows "\<exists>w'. pollConfirmations env w = (Inr (), w') \<and> ow_sent w' = ow_sent w \<and>
    triggers_ok (ow_triggers w') \<and>
    list_all2 (\<lambda>a b. b = a \<or> (status a = SUBMITTED \<and> idempotency_key b = idempotency_key a \<and>
        (status b = CONFIRMED \<or> status b = EXHAUSTED_NEEDS_REDRIVE)))
      (ow_triggers w) (ow_triggers w')"
proof -
  obtain w' where run: "pollConfirmations env w = (Inr (), w')" using pollConfirmations_returns by blast
  have sent: "ow_sent w' = ow_sent w" using same_sent [OF sent_pollConfirmations, of env w] run by simp
  have ok: "triggers_ok (ow_triggers w')"
    using keepsD [OF rows_ok_pollConfirmations, of w env] run assms by (simp add: on_view_def)
  let ?ts = "take BATCH_SIZE (sort_key created_at (filter (\<lambda>t. status t = SUBMITTED) (ow_triggers w)))"
  have "moves (idempotency_key ` set ?ts) w w'"
  proof (cases "oe_db env (ow_tick w)")
    case (Some e)
    with run have "ow_triggers w' = ow_triggers w"
      by (auto simp: pollConfirmations_def eff_simps getTriggersByStatus_def db_query_def)
    then show ?thesis by (rule moves_refl)
  next
    case None
    have "moves (idempotency_key ` set ?ts) (tick w) (state_of (forE ?ts (checkConfirmation env) (tick w)))"
      by (rule moves_forE [OF moves_checkConfirmation checkConfirmation_returns])
    moreover have "w' = state_of (forE ?ts (checkConfirmation env) (tick w))"
      using run None
      by (auto simp: pollConfirmations_def eff_simps getTriggersByStatus_def db_query_def
          split: prod.splits sum.splits)
    ultimately show ?thesis by (simp add: moves_def)
  qed
  moreover have "status a = SUBMITTED"
    if "a \<in> set (ow_triggers w)" "idempotency_key a \<in> idempotency_key ` set ?ts" for a
  proof -
    from that(2) obtain t where t: "t \<in> set ?ts" "idempotency_key t = idempotency_key a" by auto
    then have "t \<in> set (ow_triggers w)" "status t = SUBMITTED" by (auto dest!: in_set_takeD)
    moreover have "inj_on idempotency_key (set (ow_triggers w))"
      using assms by (simp add: triggers_ok_def distinct_map)
    ultimately show ?thesis using t(2) that(1) by (auto dest: inj_onD)
  qed
  ultimately have "list_all2 (\<lambda>a b. b = a \<or> (status a = SUBMITTED \<and> idempotency_key b = idempotency_key a \<and>
        (status b = CONFIRMED \<or> status b = EXHAUSTED_NEEDS_REDRIVE))) (ow_triggers w) (ow_triggers w')"
    unfolding moves_def row_move_def resolved_def
    by (elim list.rel_mono_strong) blast
  with run sent ok show ?thesis by blast
qed

lemma poll_moves_submitted_rows_witness:
  "\<exists>w'. pollConfirmations (sample_env 1) (sample_world [sample_trigger SUBMITTED]) = (Inr (), w') \<and>
     triggers_ok (ow_triggers w') \<and> length (ow_triggers w') = 1"
  using poll_moves_submitted_rows [of "sample_world [sample_trigger SUBMITTED]" "sample_env 1"]
  by (auto dest: list_all2_lengthD)

section \<open>Timeouts and the fallback\<close>

lemma shouldRun_cases:
  obtains w' where "shouldRunOnChainCheck i now age w = (Inr True, w')" "ow_triggers w' = ow_triggers w"
  | "shouldRunOnChainCheck i now age w = (Inr False, w)"
proof -
  let ?recent = "case map_of (ow_checks w) i of None \<Rightarrow> False
    | Some l \<Rightarrow> now - l < ON_CHAIN_FALLBACK_MIN_INTERVAL_MS"
  show thesis
  proof (cases "age < ON_CHAIN_FALLBACK_THRESHOLD_MS \<or> ?recent")
    case True
    then show thesis
      by (intro that(2)) (auto simp: shouldRunOnChainCheck_def eff_simps)
  next
    case False
    then show thesis
      by (intro that(1) [of "w\<lparr>ow_checks := AList.update i now (ow_checks w)\<rparr>"])
         (auto simp: shouldRunOnChainCheck_def eff_simps)
  qed
qed

lemma marks_confirmed:
  assumes "db_up env"
  shows "triple (row_with k (\<lambda>_. True)) (bindE (date_now env) (\<lambda>v. bindE (date_now env) (\<lambda>c.
      seqE (updateTrigger env k
        [U_status CONFIRMED, U_on_chain_verified True, U_on_chain_verified_at v, U_confirmed_at c])
      (ret True))))
    (\<lambda>r w. r = Inr True \<and> row_with k (\<lambda>s. status s = CONFIRMED \<and> on_chain_verified s) w)"
proof -
  let ?Q = "\<lambda>r w. r = Inr True \<and> row_with k (\<lambda>s. status s = CONFIRMED \<and> on_chain_verified s) w"
  have now: "triple (row_with k (\<lambda>_. True)) (bindE (date_now env) f) ?Q"
    if "\<And>v. triple (row_with k (\<lambda>_. True)) (f v) ?Q" for f
    using that by (auto simp: triple_def eff_simps row_with_def)
  have "triple (row_with k (\<lambda>_. True)) (updateTrigger env k
        [U_status CONFIRMED, U_on_chain_verified True, U_on_chain_verified_at v, U_confirmed_at c])
      (\<lambda>r w. r = Inr () \<and> row_with k (\<lambda>s. status s = CONFIRMED \<and> on_chain_verified s) w)" for v c
    by (rule triple_updateTrigger_inactive [OF assms]) (simp_all add: set_columns_def is_active_def)
  then have "triple (row_with k (\<lambda>_. True)) (seqE (updateTrigger env k
        [U_status CONFIRMED, U_on_chain_verified True, U_on_chain_verified_at v, U_confirmed_at c])
      (ret True)) ?Q" for v c
    by (rule triple_seq) (auto intro: triple_ret)
  then show ?thesis by (intro now)
qed

lemma fallback_row:
  assumes "db_up env" "row_with (idempotency_key t) (\<lambda>_. True) w"
  obtains (confirmed) w' where "tryOnChainFallback env t now age w = (Inr True, w')"
      "row_with (idempotency_key t) (\<lambda>s. status s = CONFIRMED \<and> on_chain_verified s) w'"
  | (pending) w' where "tryOnChainFallback env t now age w = (Inr False, w')"
      "row_with (idempotency_key t) (\<lambda>_. True) w'"
proof (rule shouldRun_cases [of "trade_id t" now age w])
  assume no: "shouldRunOnChainCheck (trade_id t) now age w = (Inr False, w)"
  then show thesis using assms(2) pending by (simp add: tryOnChainFallback_def eff_simps)
next
  fix w1 assume yes: "shouldRunOnChainCheck (trade_id t) now age w = (Inr True, w1)"
    "ow_triggers w1 = ow_triggers w"
  obtain r w2 where g: "getTrade env (trade_id t) w1 = (r, w2)" by fastforce
  have row2: "row_with (idempotency_key t) (\<lambda>_. True) w2"
    using same_rows [OF keeps_getTrade, of env "trade_id t" w1] g yes(2) assms(2) by (simp add: row_with_def)
  show thesis
  proof (cases "\<exists>trade. r = Inr trade \<and> isTradeStateAdvanced (trigger_type t) (td_status trade)")
    case False
    then show thesis using yes g row2 pending
      by (cases r) (auto simp: tryOnChainFallback_def eff_simps)
  next
    case True
    from tripleD [OF marks_confirmed [OF assms(1)] row2] obtain w3 where
      "bindE (date_now env) (\<lambda>v. bindE (date_now env) (\<lambda>c.
        seqE (updateTrigger env (idempotency_key t)
          [U_status CONFIRMED, U_on_chain_verified True, U_on_chain_verified_at v, U_confirmed_at c])
        (ret True))) w2 = (Inr True, w3)"
      "row_with (idempotency_key t) (\<lambda>s. status s = CONFIRMED \<and> on_chain_verified s) w3"
      by (metis (no_types, lifting) prod.collapse)
    with True yes g confirmed show thesis
      by (auto simp: tryOnChainFallback_def bindE_app catchE_app)
  qed
qed

text \<open>
  no submitted trigger waits for ever: when a trigger with a transaction hash is checked
  more than 30 minutes after its submission and the database answers, its row is \<open>CONFIRMED\<close>
  or \<open>EXHAUSTED_NEEDS_REDRIVE\<close> afterwards, whatever the chain and the indexer answer.
\<close>

theorem hard_timeout_resolves:
  assumes "\<forall>n. oe_db env n = None" "triggers_ok (ow_triggers w)" "t \<in> set (ow_triggers w)"
    and "truthy_opt (tx_hash t)" "oe_now env (ow_tick w) - submitted_ms t > 30 * 60 * 1000"
  shows "\<exists>w' s. checkConfirmation env t w = (Inr (), w') \<and>
    row_by idempotency_key (idempotency_key t) (ow_triggers w') = Some s \<and>
    (status s = CONFIRMED \<or> status s = EXHAUSTED_NEEDS_REDRIVE)"
proof -
  have db: "db_up env" using assms(1) by (simp add: db_up_def)
  let ?k = "idempotency_key t" and ?now = "oe_now env (ow_tick w)"
  let ?age = "?now - submitted_ms t"
  have row: "row_with ?k (\<lambda>_. True) (tick w)"
    using assms(2,3) by (simp add: row_with_iff trigger_table.row_by_iff) blast
  have late: "HARD_TIMEOUT_MS < ?age" using assms(5) by (simp add: HARD_TIMEOUT_MS_def)
  show ?thesis
  proof (rule fallback_row [OF db row, where now = ?now and age = ?age])
    fix w' assume "tryOnChainFallback env t ?now ?age (tick w) = (Inr True, w')"
      "row_with ?k (\<lambda>s. status s = CONFIRMED \<and> on_chain_verified s) w'"
    with assms(4) show ?thesis
      by (auto simp: checkConfirmation_def Let_def eff_simps row_with_iff)
  next
    fix w1 assume f: "tryOnChainFallback env t ?now ?age (tick w) = (Inr False, w1)"
      and r1: "row_with ?k (\<lambda>_. True) w1"
    let ?us = "[U_status EXHAUSTED_NEEDS_REDRIVE, U_last_error (timeout_message env ?age), U_error_type INDEXER_LAG]"
    have "triple (row_with ?k (\<lambda>_. True)) (updateTrigger env ?k ?us)
        (\<lambda>r w. r = Inr () \<and> row_with ?k (\<lambda>s. status s = EXHAUSTED_NEEDS_REDRIVE) w)"
      by (rule triple_updateTrigger_inactive [OF db]) (simp_all add: set_columns_def is_active_def)
    from tripleD [OF this r1] obtain w2 where u: "updateTrigger env ?k ?us w1 = (Inr (), w2)"
      "row_with ?k (\<lambda>s. status s = EXHAUSTED_NEEDS_REDRIVE) w2"
      by (cases "updateTrigger env ?k ?us w1") auto
    obtain r w3 where n: "notifyTimeout env t w2 = (r, w3)" by fastforce
    have "ow_triggers w3 = ow_triggers w2" using same_rows [OF keeps_notifyTimeout, of env t w2] n by simp
    with u have "row_with ?k (\<lambda>s. status s = EXHAUSTED_NEEDS_REDRIVE) w3" by (simp add: row_with_def)
    moreover have "checkConfirmation env t w = (Inr (), w3)"
      using assms(4) f late u(1) n
      by (cases r) (simp_all add: checkConfirmation_def Let_def eff_simps)
    ultimately show ?thesis by (auto simp: row_with_iff)
  qed
qed

definition sample_submitted :: trigger where
  "sample_submitted = (sample_trigger SUBMITTED)\<lparr>tx_hash := Some ''0xabc'', submitted_at := Some 5\<rparr>"

lemma sample_submitted_simps [simp]:
  "status sample_submitted = SUBMITTED" "idempotency_key sample_submitted = ''k''"
  "tx_hash sample_submitted = Some ''0xabc''" "submitted_at sample_submitted = Some 5"
  "trigger_type sample_submitted = RELEASE_STAGE_1" "trade_id sample_submitted = ''7''"
  by (simp_all add: sample_submitted_def)

lemma hard_timeout_resolves_witness:
  "\<exists>w' s. checkConfirmation (sample_env 0) sample_submitted (sample_world [sample_submitted]) = (Inr (), w') \<and>
     row_by idempotency_key ''k'' (ow_triggers w') = Some s \<and>
     (status s = CONFIRMED \<or> status s = EXHAUSTED_NEEDS_REDRIVE)"
proof -
  have "triggers_ok [sample_submitted]" by (simp add: triggers_ok_def active_keys_def)
  with hard_timeout_resolves [of "sample_env 0" "sample_world [sample_submitted]" sample_submitted]
  show ?thesis by (simp add: sample_env_def submitted_ms_def truthy_opt_def)
qed

text \<open>
  the fallback to the chain takes any status but the one an action starts from for its
  success: a trigger that finalizes a trade, 20 minutes old and not checked before, is marked
  \<open>CONFIRMED\<close> and verified on the chain while the trade is \<open>FROZEN\<close> by a dispute.
\<close>

theorem fallback_confirms_frozen_trade:
  assumes "\<forall>n. oe_db env n = None" "triggers_ok (ow_triggers w)" "t \<in> set (ow_triggers w)"
    and "truthy_opt (tx_hash t)" "oe_now env (ow_tick w) - submitted_ms t \<ge> 20 * 60 * 1000"
    and "map_of (ow_checks w) (trade_id t) = None" "trigger_type t = FINALIZE_TRADE"
    and "oe_trades env (Suc (ow_tick w)) (trade_id t) = Inr r"
      "rt_status r = 3" "rt_tradeId r \<noteq> 0" "rt_buyerAddress r \<noteq> zero_address"
  shows "\<exists>w' s. checkConfirmation env t w = (Inr (), w') \<and>
    row_by idempotency_key (idempotency_key t) (ow_triggers w') = Some s \<and>
    status s = CONFIRMED \<and> on_chain_verified s"
proof -
  have db: "db_up env" using assms(1) by (simp add: db_up_def)
  let ?k = "idempotency_key t" and ?now = "oe_now env (ow_tick w)"
  let ?w1 = "(tick w)\<lparr>ow_checks := AList.update (trade_id t) ?now (ow_checks w)\<rparr>"
  have run: "shouldRunOnChainCheck (trade_id t) ?now (?now - submitted_ms t) (tick w) = (Inr True, ?w1)"
    using assms(5,6) by (simp add: shouldRunOnChainCheck_def eff_simps ON_CHAIN_FALLBACK_THRESHOLD_MS_def)
  have g: "getTrade env (trade_id t) ?w1 = (Inr (trade_of_raw r), tick ?w1)"
    using assms(8,10,11)
    by (simp add: getTrade_def sdk_getTrade_def eff_simps trade_of_raw_def)
  have adv: "isTradeStateAdvanced (trigger_type t) (td_status (trade_of_raw r))"
    using assms(7,9) by (simp add: isTradeStateAdvanced_def trade_of_raw_def)
  have row: "row_with ?k (\<lambda>_. True) (tick ?w1)"
    using assms(2,3) by (simp add: row_with_iff trigger_table.row_by_iff) blast
  from tripleD [OF marks_confirmed [OF db] row] obtain w2 where
    "bindE (date_now env) (\<lambda>v. bindE (date_now env) (\<lambda>c.
        seqE (updateTrigger env ?k
          [U_status CONFIRMED, U_on_chain_verified True, U_on_chain_verified_at v, U_confirmed_at c])
        (ret True))) (tick ?w1) = (Inr True, w2)"
    "row_with ?k (\<lambda>s. status s = CONFIRMED \<and> on_chain_verified s) w2"
    by (cases "bindE (date_now env) (\<lambda>v. bindE (date_now env) (\<lambda>c.
        seqE (updateTrigger env ?k
          [U_status CONFIRMED, U_on_chain_verified True, U_on_chain_verified_at v, U_confirmed_at c])
        (ret True))) (tick ?w1)") auto
  with run g adv have "tryOnChainFallback env t ?now (?now - submitted_ms t) (tick w) = (Inr True, w2)"
    "row_with ?k (\<lambda>s. status s = CONFIRMED \<and> on_chain_verified s) w2"
    by (simp_all add: tryOnChainFallback_def bindE_app catchE_app)
  with assms(4) show ?thesis
    by (auto simp: checkConfirmation_def Let_def eff_simps row_with_iff)
qed

lemma fallback_confirms_frozen_trade_witness:
  "\<exists>w' s. checkConfirmation (sample_env 3) (sample_submitted\<lparr>trigger_type := FINALIZE_TRADE\<rparr>)
       (sample_world [sample_submitted\<lparr>trigger_type := FINALIZE_TRADE\<rparr>]) = (Inr (), w') \<and>
     row_by idempotency_key ''k'' (ow_triggers w') = Some s \<and> status s = CONFIRMED"
proof -
  let ?t = "sample_submitted\<lparr>trigger_type := FINALIZE_TRADE\<rparr>"
  have "triggers_ok [?t]" by (simp add: triggers_ok_def active_keys_def)
  with fallback_confirms_frozen_trade [of "sample_env 3" "sample_world [?t]" ?t "sample_raw 3"]
  show ?thesis
    by (auto simp: sample_env_def submitted_ms_def truthy_opt_def sample_raw_def sample_world_def init_world_def
        buyer_address_def zero_address_def)
qed

end
