(* ===== verification/Oracle_Api.thy ===== *)
theory Oracle_Api imports Main Oracle_Store Oracle_Crypto Oracle_Manager_Entry begin

text \<open>
  Request authentication of the oracle (\<open>oracle/src/middleware/middleware.ts\<close>): the bearer token
  and the HMAC signature with its replay protection.  A header is an optional string; the text
  \<open>hr_body\<close> is \<open>JSON.stringify(req.body)\<close>.
  Then the handlers and the routes.
\<close>

record http_request =
  hr_authorization :: "string option"
  hr_timestamp :: "string option"
  hr_signature :: "string option"
  hr_nonce :: "string option"
  hr_body :: string

record auth_config =
  ac_apiKey :: string
  ac_hmacSecret :: string
  ac_hmacNonceTtlSeconds :: int

text \<open>The two hash functions, with hexadecimal results.\<close>

record hash_functions =
  hf_hmac :: "string \<Rightarrow> string \<Rightarrow> string"
  hf_sha256 :: "string \<Rightarrow> string"

text \<open>A response with status and message, or \<open>next()\<close> with what the middleware put on the request.\<close>

datatype 'a middleware_result = Respond int string | Next 'a

definition extractBearerToken :: "string option \<Rightarrow> string option" where
  "extractBearerToken authHeader =
     (if \<not> truthy_opt authHeader then None
      else if \<not> starts_with (the authHeader) ''Bearer '' then None
      else Some (drop 7 (the authHeader)))"

text \<open>The result carries \<open>req.apiKeyToken\<close>.\<close>

definition authMiddleware :: "auth_config \<Rightarrow> http_request \<Rightarrow> string middleware_result" where
  "authMiddleware cfg req =
     (let token = extractBearerToken (hr_authorization req)
      in if \<not> truthy_opt token then Respond 401 ''Missing authorization header''
         else if the token \<noteq> ac_apiKey cfg then Respond 401 ''Invalid API key''
         else Next (the token))"

definition api_key_token :: "string option \<Rightarrow> http_request \<Rightarrow> string" where
  "api_key_token apiKeyToken req =
     or_else apiKeyToken (or_else (extractBearerToken (hr_authorization req)) ''oracle-service'')"

definition request_nonce :: "hash_functions \<Rightarrow> http_request \<Rightarrow> string" where
  "request_nonce hf req =
     or_else (map_option trim (hr_nonce req))
       (deriveRequestNonce (hf_sha256 hf) (the (hr_timestamp req)) (hr_body req) (the (hr_signature req)))"

text \<open>The \<open>try\<close>: verification and the nonce; the result carries the signature and the nonce.\<close>

definition hmac_checks ::
  "hash_functions \<Rightarrow> oracle_env \<Rightarrow> auth_config \<Rightarrow> string option \<Rightarrow> http_request \<Rightarrow>
   (string \<times> string) middleware_result oracle_eff" where
  "hmac_checks hf env cfg apiKeyToken req =
     bindE (date_now env) (\<lambda>now.
     seqE (lift (verifyRequestSignature (hf_hmac hf) (oe_toFixed1 env) now (the (hr_timestamp req))
             (hr_body req) (the (hr_signature req)) (ac_hmacSecret cfg) 5))
     (let nonce = request_nonce hf req
      in if nonce = [] \<or> length nonce > 255 then ret (Respond 401 ''Invalid X-Nonce header'')
         else bindE (consumeHmacNonce env (api_key_token apiKeyToken req) nonce (ac_hmacNonceTtlSeconds cfg))
           (\<lambda>nonceAccepted.
              if \<not> nonceAccepted then ret (Respond 401 ''Replay detected for nonce'')
              else ret (Next (the (hr_signature req), nonce)))))"

definition is_signature_error :: "js_error \<Rightarrow> bool" where
  "is_signature_error e \<longleftrightarrow> str_includes (js_message e) ''Request timestamp'' \<or>
     str_includes (js_message e) ''Invalid HMAC signature''"

definition hmacMiddleware ::
  "hash_functions \<Rightarrow> oracle_env \<Rightarrow> auth_config \<Rightarrow> string option \<Rightarrow> http_request \<Rightarrow>
   (string \<times> string) middleware_result oracle_eff" where
  "hmacMiddleware hf env cfg apiKeyToken req =
     (if \<not> truthy_opt (hr_timestamp req) \<or> \<not> truthy_opt (hr_signature req)
      then ret (Respond 401 ''Missing X-Timestamp or X-Signature headers'')
      else catchE (hmac_checks hf env cfg apiKeyToken req)
        (\<lambda>error. ret (if is_signature_error error then Respond 401 (js_message error)
                      else Respond 503 ''Authentication nonce store unavailable'')))"

section \<open>What an answer says\<close>

lemma keeps_hmac_checks [keeps_rules]: "keeps (on_view P) (hmac_checks hf env cfg k req)"
  unfolding hmac_checks_def Let_def by (intro keeps_rules)

lemma keeps_hmacMiddleware [keeps_rules]: "keeps (on_view P) (hmacMiddleware hf env cfg k req)"
  unfolding hmacMiddleware_def by (intro keeps_rules)

lemma hmacMiddleware_returns: "\<exists>r w'. hmacMiddleware hf env cfg k req w = (Inr r, w')"
  unfolding hmacMiddleware_def
  by (auto simp: catchE_app ret_app split: prod.splits sum.splits)

text \<open>The statement of the nonce store, as the middleware runs it.\<close>

definition consume_at :: "oracle_env \<Rightarrow> nat \<Rightarrow> nonce_row list \<Rightarrow> string \<Rightarrow> string \<Rightarrow> int \<Rightarrow> bool \<times> nonce_row list" where
  "consume_at env n rows k nonce ttl = consume_row (oe_prune_first env (Suc n)) rows (oe_now env n) k nonce ttl"

lemma consumeHmacNonce_app:
  "consumeHmacNonce env k nonce ttl w =
     (case oe_db env (ow_tick w) of
        Some e \<Rightarrow> (Inl e, tick w)
      | None \<Rightarrow> (Inr (fst (consume_at env (ow_tick w) (ow_nonces w) k nonce ttl)),
                 (tick w)\<lparr>ow_nonces := snd (consume_at env (ow_tick w) (ow_nonces w) k nonce ttl)\<rparr>))"
  by (simp add: consumeHmacNonce_def db_query_def consume_at_def split: option.splits prod.splits)

text \<open>The request passes exactly when the signature verifies and its nonce is accepted.\<close>

lemma hmacMiddleware_Next:
  "result_of (hmacMiddleware hf env cfg k req w) = Inr (Next p) \<longleftrightarrow>
     truthy_opt (hr_timestamp req) \<and> truthy_opt (hr_signature req) \<and>
     verifyRequestSignature (hf_hmac hf) (oe_toFixed1 env) (oe_now env (ow_tick w))
       (the (hr_timestamp req)) (hr_body req) (the (hr_signature req)) (ac_hmacSecret cfg) 5 = Inr () \<and>
     request_nonce hf req \<noteq> [] \<and> length (request_nonce hf req) \<le> 255 \<and>
     oe_db env (Suc (ow_tick w)) = None \<and>
     fst (consume_at env (Suc (ow_tick w)) (ow_nonces w) (api_key_token k req) (request_nonce hf req)
            (ac_hmacNonceTtlSeconds cfg)) \<and>
     p = (the (hr_signature req), request_nonce hf req)"
proof (cases "truthy_opt (hr_timestamp req) \<and> truthy_opt (hr_signature req)")
  case False
  then show ?thesis by (auto simp: hmacMiddleware_def ret_app)
next
  case heads: True
  let ?v = "verifyRequestSignature (hf_hmac hf) (oe_toFixed1 env) (oe_now env (ow_tick w))
       (the (hr_timestamp req)) (hr_body req) (the (hr_signature req)) (ac_hmacSecret cfg) 5"
  show ?thesis
  proof (cases ?v)
    case (Inl e)
    with heads show ?thesis
      by (simp add: hmacMiddleware_def hmac_checks_def eff_simps)
  next
    case (Inr u)
    with heads show ?thesis
      by (auto simp: hmacMiddleware_def hmac_checks_def Let_def catchE_app bindE_app seqE_app lift_app
          date_now_app ret_app consumeHmacNonce_app not_le split: option.splits)
  qed
qed

lemma hmacMiddleware_nonces:
  assumes "result_of (hmacMiddleware hf env cfg k req w) = Inr (Next p)"
  shows "ow_nonces (state_of (hmacMiddleware hf env cfg k req w)) =
    snd (consume_at env (Suc (ow_tick w)) (ow_nonces w) (api_key_token k req) (request_nonce hf req)
           (ac_hmacNonceTtlSeconds cfg))"
proof -
  from assms [unfolded hmacMiddleware_Next] have facts:
    "truthy_opt (hr_timestamp req)" "truthy_opt (hr_signature req)"
    "verifyRequestSignature (hf_hmac hf) (oe_toFixed1 env) (oe_now env (ow_tick w))
       (the (hr_timestamp req)) (hr_body req) (the (hr_signature req)) (ac_hmacSecret cfg) 5 = Inr ()"
    "request_nonce hf req \<noteq> []" "length (request_nonce hf req) \<le> 255"
    "oe_db env (Suc (ow_tick w)) = None"
    "fst (consume_at env (Suc (ow_tick w)) (ow_nonces w) (api_key_token k req) (request_nonce hf req)
            (ac_hmacNonceTtlSeconds cfg))"
    by simp_all
  then show ?thesis
    by (simp add: hmacMiddleware_def hmac_checks_def Let_def catchE_app bindE_app seqE_app lift_app
        date_now_app ret_app consumeHmacNonce_app)
qed

section \<open>The interface\<close>

text \<open>
  The HTTP interface of the oracle (\<open>oracle/src/api/controller.ts\<close> and \<open>routes.ts\<close>): each route
  authenticates, checks the fields of its body and calls the trigger manager.  A field of a body is
  absent or of the type that the route declares for it: \<open>triggerType\<close> is not checked by the code, and a
  text outside the enumeration is left out.  The time stamp of a response is left out.
\<close>

record api_body =
  ab_tradeId :: "string option"
  ab_requestId :: "string option"
  ab_triggerType :: "trigger_type option"
  ab_idempotencyKey :: "string option"
  ab_actor :: "string option"
  ab_reason :: "string option"

datatype api_response =
    Ok_response trigger_response
  | Error_response (er_status: int) (er_error: string) (er_message: string)

section \<open>Controller\<close>

text \<open>The \<open>catch\<close> of every handler: the oracle's own validation errors are the client's fault.\<close>

definition error_reply :: "string \<Rightarrow> js_error \<Rightarrow> api_response" where
  "error_reply fallback e =
     Error_response (if is_validation_error e then 400 else 500)
       (if js_name e = [] then fallback else js_name e) (js_message e)"

definition reply :: "string \<Rightarrow> trigger_response oracle_eff \<Rightarrow> api_response oracle_eff" where
  "reply fallback m =
     catchE (bindE m (\<lambda>r. ret (Ok_response r))) (\<lambda>e. ret (error_reply fallback e))"

definition trigger_handler ::
  "oracle_env \<Rightarrow> manager_config \<Rightarrow> trigger_type \<Rightarrow> string option \<Rightarrow> api_body \<Rightarrow> api_response oracle_eff" where
  "trigger_handler env cfg ty hmacSignature body =
     (if \<not> truthy_opt (ab_tradeId body) \<or> \<not> truthy_opt (ab_requestId body)
      then ret (Error_response 400 ''ValidationError'' ''tradeId and requestId are required'')
      else reply ''ContractError''
        (executeTrigger env cfg
           \<lparr>tq_tradeId = the (ab_tradeId body), tq_requestId = the (ab_requestId body),
            tq_triggerType = ty, tq_requestHash = hmacSignature, tq_isRedrive = False\<rparr>))"

definition releaseStage1 where "releaseStage1 env cfg = trigger_handler env cfg RELEASE_STAGE_1"
definition confirmArrival_handler where "confirmArrival_handler env cfg = trigger_handler env cfg CONFIRM_ARRIVAL"
definition finalizeTrade_handler where "finalizeTrade_handler env cfg = trigger_handler env cfg FINALIZE_TRADE"

definition redriveTrigger ::
  "oracle_env \<Rightarrow> manager_config \<Rightarrow> string option \<Rightarrow> api_body \<Rightarrow> api_response oracle_eff" where
  "redriveTrigger env cfg hmacSignature body =
     (if \<not> truthy_opt (ab_tradeId body) \<or> ab_triggerType body = None \<or> \<not> truthy_opt (ab_requestId body)
      then ret (Error_response 400 ''ValidationError'' ''tradeId, triggerType, and requestId are required'')
      else reply ''ContractError''
        (executeTrigger env cfg
           \<lparr>tq_tradeId = the (ab_tradeId body), tq_requestId = the (ab_requestId body),
            tq_triggerType = the (ab_triggerType body), tq_requestHash = hmacSignature,
            tq_isRedrive = True\<rparr>))"

definition approveTrigger_handler ::
  "oracle_env \<Rightarrow> manager_config \<Rightarrow> api_body \<Rightarrow> api_response oracle_eff" where
  "approveTrigger_handler env cfg body =
     (if \<not> truthy_opt (ab_idempotencyKey body) \<or> \<not> truthy_opt (ab_actor body)
      then ret (Error_response 400 ''ValidationError'' ''idempotencyKey and actor are required'')
      else reply ''InternalError''
        (resumeAfterApproval env cfg (the (ab_idempotencyKey body)) (the (ab_actor body))))"

text \<open>The response to a rejection has no transaction fields.\<close>

definition rejectTrigger_handler :: "oracle_env \<Rightarrow> api_body \<Rightarrow> api_response oracle_eff" where
  "rejectTrigger_handler env body =
     (if \<not> truthy_opt (ab_idempotencyKey body) \<or> \<not> truthy_opt (ab_actor body)
      then ret (Error_response 400 ''ValidationError'' ''idempotencyKey and actor are required'')
      else reply ''InternalError''
        (bindE (rejectPendingTrigger env (the (ab_idempotencyKey body)) (the (ab_actor body)) (ab_reason body))
           (\<lambda>r. ret (r\<lparr>rs_txHash := None, rs_blockNumber := None\<rparr>))))"

section \<open>Routes\<close>

datatype route = R_release_stage1 | R_confirm_arrival | R_finalize_trade | R_redrive | R_approve | R_reject

fun dispatch ::
  "oracle_env \<Rightarrow> manager_config \<Rightarrow> route \<Rightarrow> string option \<Rightarrow> api_body \<Rightarrow> api_response oracle_eff" where
  "dispatch env cfg R_release_stage1 sig body = releaseStage1 env cfg sig body"
| "dispatch env cfg R_confirm_arrival sig body = confirmArrival_handler env cfg sig body"
| "dispatch env cfg R_finalize_trade sig body = finalizeTrade_handler env cfg sig body"
| "dispatch env cfg R_redrive sig body = redriveTrigger env cfg sig body"
| "dispatch env cfg R_approve sig body = approveTrigger_handler env cfg body"
| "dispatch env cfg R_reject sig body = rejectTrigger_handler env body"

text \<open>\<open>router.post(path, authMiddleware, hmacMiddleware, handler)\<close>\<close>

definition serve ::
  "hash_functions \<Rightarrow> oracle_env \<Rightarrow> auth_config \<Rightarrow> manager_config \<Rightarrow> route \<Rightarrow> http_request \<Rightarrow> api_body \<Rightarrow>
   api_response oracle_eff" where
  "serve hf env acfg cfg route req body =
     (case authMiddleware acfg req of
        Respond code message \<Rightarrow> ret (Error_response code ''Unauthorized'' message)
      | Next token \<Rightarrow>
          bindE (hmacMiddleware hf env acfg (Some token) req) (\<lambda>r.
            case r of
              Respond code message \<Rightarrow>
                ret (Error_response code
                  (if code = 503 then ''ServiceUnavailable'' else ''Unauthorized'') message)
            | Next (signature, _) \<Rightarrow> dispatch env cfg route (Some signature) body))"

section \<open>What the routes keep\<close>

lemma keeps_reply: "keeps (on_view P) m \<Longrightarrow> keeps (on_view P) (reply f m)"
  unfolding reply_def by (intro keeps_rules)

lemma keeps_dispatch:
  assumes "\<And>q. keeps (on_view P) (executeTrigger env cfg q)"
    "\<And>k a. keeps (on_view P) (resumeAfterApproval env cfg k a)"
    "\<And>k a r. keeps (on_view P) (rejectPendingTrigger env k a r)"
  shows "keeps (on_view P) (dispatch env cfg route sig body)"
  by (cases route)
     (auto simp: releaseStage1_def confirmArrival_handler_def finalizeTrade_handler_def
        trigger_handler_def redriveTrigger_def approveTrigger_handler_def rejectTrigger_handler_def
        intro!: keeps_rules keeps_reply assms)

lemma keeps_serve:
  assumes "\<And>q. keeps (on_view P) (executeTrigger env cfg q)"
    "\<And>k a. keeps (on_view P) (resumeAfterApproval env cfg k a)"
    "\<And>k a r. keeps (on_view P) (rejectPendingTrigger env k a r)"
  shows "keeps (on_view P) (serve hf env acfg cfg route req body)"
  unfolding serve_def
  by (auto intro!: keeps_rules keeps_dispatch assms split: middleware_result.split)

lemma dispatch_returns: "\<exists>r w'. dispatch env cfg route sig body w = (Inr r, w')"
proof -
  have r: "\<exists>r w'. reply f m w = (Inr r, w')" for f m w
    unfolding reply_def by (auto simp: catchE_app bindE_app ret_app split: prod.splits sum.splits)
  show ?thesis
    by (cases route)
       (auto simp: releaseStage1_def confirmArrival_handler_def finalizeTrade_handler_def
        trigger_handler_def redriveTrigger_def approveTrigger_handler_def rejectTrigger_handler_def
        ret_app r)
qed

lemma serve_returns: "\<exists>r w'. serve hf env acfg cfg route req body w = (Inr r, w')"
proof (cases "authMiddleware acfg req")
  case (Respond s m)
  then show ?thesis by (simp add: serve_def ret_app)
next
  case (Next token)
  obtain r w1 where h: "hmacMiddleware hf env acfg (Some token) req w = (Inr r, w1)"
    using hmacMiddleware_returns by blast
  show ?thesis
  proof (cases r)
    case (Respond s m)
    with Next h show ?thesis by (simp add: serve_def bindE_app ret_app)
  next
    case (Next p)
    with \<open>authMiddleware acfg req = Next token\<close> h dispatch_returns [of env cfg route _ body w1]
    show ?thesis by (cases p) (simp add: serve_def bindE_app)
  qed
qed

end
