(* ===== verification/Oracle_Config.thy ===== *)
theory Oracle_Config imports Main Js_Text begin

text \<open>
  The configuration of the oracle (\<open>oracle/src/config.ts\<close>): it is read from the process
  environment, a function from names to optional strings, and checked; a failed assertion, which
  ends the process, is its message.
\<close>

definition bindS :: "'e + 'a \<Rightarrow> ('a \<Rightarrow> 'e + 'b) \<Rightarrow> 'e + 'b" where
  "bindS m f = (case m of Inl e \<Rightarrow> Inl e | Inr x \<Rightarrow> f x)"

definition assertS :: "bool \<Rightarrow> string \<Rightarrow> string + unit" where
  "assertS b message = (if b then Inr () else Inl message)"

definition guardS :: "bool \<Rightarrow> string \<Rightarrow> string + 'b \<Rightarrow> string + 'b" where
  "guardS b message m = bindS (assertS b message) (\<lambda>_. m)"

type_synonym process_env = "string \<Rightarrow> string option"

definition validateEnv :: "process_env \<Rightarrow> string \<Rightarrow> string + string" where
  "validateEnv penv name =
     (if truthy_opt (penv name) then Inr (the (penv name)) else Inl (name @ '' is missing''))"

definition validateEnvNumber :: "process_env \<Rightarrow> string \<Rightarrow> int option \<Rightarrow> string + int" where
  "validateEnvNumber penv name fallback =
     (if (penv name = None \<or> penv name = Some []) \<and> fallback \<noteq> None then Inr (the fallback)
      else bindS (case penv name of Some v \<Rightarrow> Inr v | None \<Rightarrow> validateEnv penv name) (\<lambda>required.
        case parse_int10 required of
          None \<Rightarrow> Inl (name @ '' must be a number'')
        | Some n \<Rightarrow> Inr n))"

definition validateEnvBool :: "process_env \<Rightarrow> string \<Rightarrow> bool \<Rightarrow> bool" where
  "validateEnvBool penv name fallback =
     (if \<not> truthy_opt (penv name) then fallback else to_lower (the (penv name)) = ''true'')"

record oracle_config =
  og_port :: int
  og_apiKey :: string
  og_hmacSecret :: string
  og_rpcUrl :: string
  og_chainId :: int
  og_escrowAddress :: string
  og_usdcAddress :: string
  og_oraclePrivateKey :: string
  og_dbHost :: string
  og_dbPort :: int
  og_dbName :: string
  og_dbUser :: string
  og_dbPassword :: string
  og_indexerGraphqlUrl :: string
  og_indexerGraphqlRequestTimeoutMs :: int
  og_retryAttempts :: int
  og_retryDelay :: int
  og_hmacNonceTtlSeconds :: int
  og_notificationsEnabled :: bool
  og_notificationsWebhookUrl :: "string option"
  og_notificationsCooldownMs :: int
  og_notificationsRequestTimeoutMs :: int
  og_manualApprovalEnabled :: bool

text \<open>The checks after the object is built.\<close>

definition check_ranges :: "oracle_config \<Rightarrow> string + oracle_config" where
  "check_ranges c =
     guardS (og_retryAttempts c \<ge> 0 \<and> og_retryAttempts c \<le> 10) ''RETRY_ATTEMPTS must be between 0 and 10''
     (guardS (og_retryDelay c \<ge> 100 \<and> og_retryDelay c \<le> 30000) ''RETRY_DELAY must be between 100 and 30000''
     (guardS (og_hmacNonceTtlSeconds c \<ge> 60 \<and> og_hmacNonceTtlSeconds c \<le> 3600)
        ''HMAC_NONCE_TTL_SECONDS must be between 60 and 3600''
     (guardS (og_notificationsCooldownMs c \<ge> 0) ''NOTIFICATIONS_COOLDOWN_MS must be >= 0''
     (guardS (og_notificationsRequestTimeoutMs c \<ge> 1000) ''NOTIFICATIONS_REQUEST_TIMEOUT_MS must be >= 1000''
       (Inr c)))))"

text \<open>The fields of the object, read in the order of the source.\<close>

definition read_fields ::
  "process_env \<Rightarrow> bool \<Rightarrow> string option \<Rightarrow> int \<Rightarrow> int \<Rightarrow> int \<Rightarrow> int \<Rightarrow> bool \<Rightarrow> string + oracle_config" where
  "read_fields penv notificationsEnabled notificationsWebhookUrl timeoutMs retryAttempts retryDelay
     hmacNonceTtlSeconds manualApprovalEnabled =
     bindS (validateEnvNumber penv ''PORT'' None) (\<lambda>port.
     bindS (validateEnv penv ''API_KEY'') (\<lambda>apiKey.
     bindS (validateEnv penv ''HMAC_SECRET'') (\<lambda>hmacSecret.
     bindS (validateEnv penv ''RPC_URL'') (\<lambda>rpcUrl.
     bindS (validateEnvNumber penv ''CHAIN_ID'' None) (\<lambda>chainId.
     bindS (validateEnv penv ''ESCROW_ADDRESS'') (\<lambda>escrowAddress.
     bindS (validateEnv penv ''USDC_ADDRESS'') (\<lambda>usdcAddress.
     bindS (validateEnv penv ''ORACLE_PRIVATE_KEY'') (\<lambda>oraclePrivateKey.
     bindS (validateEnv penv ''DB_HOST'') (\<lambda>dbHost.
     bindS (validateEnvNumber penv ''DB_PORT'' None) (\<lambda>dbPort.
     bindS (validateEnv penv ''DB_NAME'') (\<lambda>dbName.
     bindS (validateEnv penv ''DB_USER'') (\<lambda>dbUser.
     bindS (validateEnv penv ''DB_PASSWORD'') (\<lambda>dbPassword.
     bindS (validateEnv penv ''INDEXER_GRAPHQL_URL'') (\<lambda>indexerGraphqlUrl.
     bindS (validateEnvNumber penv ''NOTIFICATIONS_COOLDOWN_MS'' (Some 300000)) (\<lambda>cooldownMs.
     bindS (validateEnvNumber penv ''NOTIFICATIONS_REQUEST_TIMEOUT_MS'' (Some 5000)) (\<lambda>requestTimeoutMs.
     Inr \<lparr>og_port = port, og_apiKey = apiKey, og_hmacSecret = hmacSecret, og_rpcUrl = rpcUrl,
          og_chainId = chainId, og_escrowAddress = to_lower escrowAddress,
          og_usdcAddress = to_lower usdcAddress, og_oraclePrivateKey = oraclePrivateKey,
          og_dbHost = dbHost, og_dbPort = dbPort, og_dbName = dbName, og_dbUser = dbUser,
          og_dbPassword = dbPassword, og_indexerGraphqlUrl = indexerGraphqlUrl,
          og_indexerGraphqlRequestTimeoutMs = timeoutMs, og_retryAttempts = retryAttempts,
          og_retryDelay = retryDelay, og_hmacNonceTtlSeconds = hmacNonceTtlSeconds,
          og_notificationsEnabled = notificationsEnabled,
          og_notificationsWebhookUrl = notificationsWebhookUrl,
          og_notificationsCooldownMs = cooldownMs,
          og_notificationsRequestTimeoutMs = requestTimeoutMs,
          og_manualApprovalEnabled = manualApprovalEnabled\<rparr>))))))))))))))))"

definition loadConfig :: "process_env \<Rightarrow> string + oracle_config" where
  "loadConfig penv =
     (let notificationsEnabled = validateEnvBool penv ''NOTIFICATIONS_ENABLED'' False;
          notificationsWebhookUrl = penv ''NOTIFICATIONS_WEBHOOK_URL''
      in bindS (validateEnvNumber penv ''INDEXER_GQL_TIMEOUT_MIN_MS'' (Some 1000)) (\<lambda>timeoutMin.
         bindS (validateEnvNumber penv ''INDEXER_GQL_TIMEOUT_MAX_MS'' (Some 60000)) (\<lambda>timeoutMax.
         bindS (validateEnvNumber penv ''INDEXER_GQL_TIMEOUT_MS'' (Some 10000)) (\<lambda>timeoutMs.
         bindS (validateEnvNumber penv ''RETRY_ATTEMPTS'' (Some 3)) (\<lambda>retryAttempts.
         bindS (validateEnvNumber penv ''RETRY_DELAY'' (Some 1000)) (\<lambda>retryDelay.
         bindS (validateEnvNumber penv ''HMAC_NONCE_TTL_SECONDS'' (Some 600)) (\<lambda>hmacNonceTtlSeconds.
         (let manualApprovalEnabled = validateEnvBool penv ''ORACLE_MANUAL_APPROVAL_ENABLED'' False
          in guardS (notificationsEnabled \<longrightarrow> truthy_opt notificationsWebhookUrl)
               ''NOTIFICATIONS_WEBHOOK_URL is required when NOTIFICATIONS_ENABLED=true''
             (guardS (timeoutMin \<ge> 1000) ''INDEXER_GQL_TIMEOUT_MIN_MS must be >= 1000''
             (guardS (timeoutMax \<le> 60000) ''INDEXER_GQL_TIMEOUT_MAX_MS must be <= 60000''
             (guardS (timeoutMin \<le> timeoutMax)
                ''INDEXER_GQL_TIMEOUT_MIN_MS must be <= INDEXER_GQL_TIMEOUT_MAX_MS''
             (guardS (timeoutMs \<ge> timeoutMin \<and> timeoutMs \<le> timeoutMax)
                (''INDEXER_GQL_TIMEOUT_MS must be between '' @ show_int timeoutMin @ '' and '' @ show_int timeoutMax)
             (bindS (read_fields penv notificationsEnabled notificationsWebhookUrl timeoutMs
                       retryAttempts retryDelay hmacNonceTtlSeconds manualApprovalEnabled)
                check_ranges)))))))))))))"

section \<open>What a loaded configuration satisfies\<close>

lemma bindS_Inr: "bindS m f = Inr y \<longleftrightarrow> (\<exists>x. m = Inr x \<and> f x = Inr y)"
  by (cases m) (auto simp: bindS_def)

lemma guardS_Inr: "guardS b msg m = Inr y \<longleftrightarrow> b \<and> m = Inr y"
  by (auto simp: guardS_def assertS_def bindS_def)

lemma check_ranges_Inr:
  "check_ranges c = Inr d \<longleftrightarrow> d = c \<and> 0 \<le> og_retryAttempts c \<and> og_retryAttempts c \<le> 10 \<and>
     100 \<le> og_retryDelay c \<and> og_retryDelay c \<le> 30000 \<and>
     60 \<le> og_hmacNonceTtlSeconds c \<and> og_hmacNonceTtlSeconds c \<le> 3600 \<and>
     0 \<le> og_notificationsCooldownMs c \<and> 1000 \<le> og_notificationsRequestTimeoutMs c"
  by (auto simp: check_ranges_def guardS_Inr)

lemma validateEnv_Inr: "validateEnv penv n = Inr v \<Longrightarrow> v \<noteq> []"
  by (auto simp: validateEnv_def truthy_opt_def split: if_splits option.splits)

end
