(* ===== verification/Oracle_Api_Props.thy ===== *)
theory Oracle_Api_Props imports Main Oracle_Api Oracle_Config Oracle_Sample begin

text \<open>
  The properties of the oracle's interface: authentication, replay protection, the routes and
  the configuration.
\<close>

section \<open>Authentication\<close>

text \<open>
  C38: a route runs only for an authenticated request: when the bearer token is not the API key,
  or no signature with the secret over timestamp and body is presented, the table of triggers is
  unchanged, nothing is sent, and the answer is an error with status 401 or 503.
\<close>

theorem unauthenticated_request_does_nothing:
  assumes "extractBearerToken (hr_authorization req) \<noteq> Some (ac_apiKey acfg) \<or>
    from_hex (the (hr_signature req)) \<noteq>
      from_hex (hf_hmac hf (ac_hmacSecret acfg) (the (hr_timestamp req) @ hr_body req))"
  shows "\<exists>e w'. serve hf env acfg cfg route req body w = (Inr e, w') \<and>
    (\<exists>code kind msg. e = Error_response code kind msg \<and> code \<in> {401, 503}) \<and>
    ow_triggers w' = ow_triggers w \<and> ow_sent w' = ow_sent w"
proof (cases "authMiddleware acfg req")
  case (Respond code msg)
  then show ?thesis
    by (auto simp: serve_def ret_app authMiddleware_def Let_def split: if_splits)
next
  case (Next token)
  then have "extractBearerToken (hr_authorization req) = Some (ac_apiKey acfg)"
    by (auto simp: authMiddleware_def Let_def truthy_opt_def split: if_splits option.splits)
  with assms have bad: "from_hex (the (hr_signature req)) \<noteq>
      from_hex (hf_hmac hf (ac_hmacSecret acfg) (the (hr_timestamp req) @ hr_body req))" by simp
  obtain r w1 where h: "hmacMiddleware hf env acfg (Some token) req w = (Inr r, w1)"
    using hmacMiddleware_returns by blast
  have same: "ow_triggers w1 = ow_triggers w" "ow_sent w1 = ow_sent w"
    using same_rows [OF keeps_hmacMiddleware, of hf env acfg "Some token" req w]
      same_sent [OF keeps_hmacMiddleware, of hf env acfg "Some token" req w] h by simp_all
  show ?thesis
  proof (cases r)
    case (Next p)
    with h have "result_of (hmacMiddleware hf env acfg (Some token) req w) = Inr (Next p)" by simp
    with bad show ?thesis unfolding hmacMiddleware_Next verifyRequestSignature_ok by blast
  next
    case (Respond code msg)
    have "code \<in> {401, 503}"
      using h Respond
      by (auto simp: hmacMiddleware_def hmac_checks_def Let_def eff_simps
          split: if_splits prod.splits sum.splits)
    then show ?thesis
      using h Respond Next same by (auto simp: serve_def bindE_app ret_app)
  qed
qed

definition sample_hash :: hash_functions where
  "sample_hash = \<lparr>hf_hmac = (\<lambda>secret text. ''ab12''), hf_sha256 = (\<lambda>text. ''cd'')\<rparr>"

definition sample_auth :: auth_config where
  "sample_auth = \<lparr>ac_apiKey = ''key'', ac_hmacSecret = ''secret'', ac_hmacNonceTtlSeconds = 600\<rparr>"

definition sample_http :: "string \<Rightarrow> string option \<Rightarrow> http_request" where
  "sample_http sig nonce =
     \<lparr>hr_authorization = Some ''Bearer key'', hr_timestamp = Some ''5'',
      hr_signature = Some sig, hr_nonce = nonce, hr_body = ''{}''\<rparr>"

lemma sample_auth_simps [simp]:
  "ac_apiKey sample_auth = ''key''" "ac_hmacSecret sample_auth = ''secret''"
  "ac_hmacNonceTtlSeconds sample_auth = 600" "hf_hmac sample_hash s t = ''ab12''"
  "hf_sha256 sample_hash t = ''cd''" "hr_body (sample_http sig nonce) = ''{}''"
  "hr_timestamp (sample_http sig nonce) = Some ''5''"
  "hr_signature (sample_http sig nonce) = Some sig" "hr_nonce (sample_http sig nonce) = nonce"
  by (simp_all add: sample_auth_def sample_hash_def sample_http_def)

lemma unauthenticated_request_does_nothing_witness:
  "\<exists>e w'. serve sample_hash (sample_env 0) sample_auth (sample_cfg False) R_release_stage1
       (sample_http ''ab13'' None)
       \<lparr>ab_tradeId = Some ''7'', ab_requestId = Some ''r'', ab_triggerType = None,
        ab_idempotencyKey = None, ab_actor = None, ab_reason = None\<rparr> (sample_world []) = (Inr e, w') \<and>
     ow_sent w' = []"
proof -
  have "from_hex ''ab13'' \<noteq> from_hex ''ab12''" by code_simp
  with unauthenticated_request_does_nothing [of "sample_http ''ab13'' None" sample_auth sample_hash
      "sample_env 0" "sample_cfg False" R_release_stage1
      "\<lparr>ab_tradeId = Some ''7'', ab_requestId = Some ''r'', ab_triggerType = None,
        ab_idempotencyKey = None, ab_actor = None, ab_reason = None\<rparr>" "sample_world []"]
  show ?thesis by auto
qed

text \<open>
  a request never makes the interface throw, whatever the handlers, the chain and the
  database do: every route answers, and it keeps the constraints of the table.
\<close>

theorem every_request_is_answered:
  "\<exists>r w'. serve hf env acfg cfg route req body w = (Inr r, w') \<and>
     \<not> (triggers_ok (ow_triggers w) \<and> \<not> triggers_ok (ow_triggers w'))"
proof -
  have "keeps rows_ok (serve hf env acfg cfg route req body)"
    by (intro keeps_serve rows_ok_executeTrigger rows_ok_resumeAfterApproval rows_ok_rejectPendingTrigger)
  with serve_returns [of hf env acfg cfg route req body w] show ?thesis
    by (auto simp: keeps_def on_view_def)
qed

section \<open>Replay protection\<close>

text \<open>Statements of the nonce table between two requests: pruning order, time, key, nonce, ttl.\<close>

definition nonce_history ::
  "nonce_row list \<Rightarrow> (bool \<times> int \<times> string \<times> string \<times> int) list \<Rightarrow> nonce_row list" where
  "nonce_history rows ops = fold (\<lambda>(p, now, k, n, ttl) rows. snd (consume_row p rows now k n ttl)) ops rows"

lemma nonce_history_live:
  "live_row rows t k n \<Longrightarrow> list_all (\<lambda>(p, now, _). now \<le> t) ops \<Longrightarrow> live_row (nonce_history rows ops) t k n"
proof (induction ops arbitrary: rows)
  case Nil
  then show ?case by (simp add: nonce_history_def)
next
  case (Cons op ops)
  obtain p now k' n' ttl where op: "op = (p, now, k', n', ttl)" by (cases op)
  have "live_row (snd (consume_row p rows now k' n' ttl)) t k n"
    using Cons.prems op by (auto intro: nonce_table.keep_live)
  then have "live_row (nonce_history (snd (consume_row p rows now k' n' ttl)) ops) t k n"
    using Cons.prems(2) by (intro Cons.IH) simp_all
  then show ?case by (simp add: nonce_history_def op)
qed

text \<open>
  an accepted request is not accepted a second time within the life of its nonce: the same
  request, sent again before the time to live has passed, is answered with an error whatever
  other requests used the nonce table in between, when the clock does not run backwards.
\<close>

theorem replay_is_rejected:
  assumes first: "result_of (hmacMiddleware hf env acfg k req w) = Inr (Next p)"
    and between: "ow_nonces w2 = nonce_history (ow_nonces (state_of (hmacMiddleware hf env acfg k req w))) ops"
    and times: "list_all (\<lambda>(p, now, _). now \<le> oe_now env (Suc (ow_tick w2))) ops"
      "oe_now env (Suc (ow_tick w)) \<le> oe_now env (Suc (ow_tick w2))"
      "oe_now env (Suc (ow_tick w2)) < oe_now env (Suc (ow_tick w)) + ac_hmacNonceTtlSeconds acfg * 1000"
  shows "\<forall>q. result_of (hmacMiddleware hf env acfg k req w2) \<noteq> Inr (Next q)"
proof -
  let ?key = "api_key_token k req" and ?n = "request_nonce hf req"
  let ?t = "oe_now env (Suc (ow_tick w2))"
  from first have acc: "fst (consume_at env (Suc (ow_tick w)) (ow_nonces w) ?key ?n (ac_hmacNonceTtlSeconds acfg))"
    by (simp add: hmacMiddleware_Next)
  have "live_row (ow_nonces (state_of (hmacMiddleware hf env acfg k req w))) ?t ?key ?n"
    unfolding hmacMiddleware_nonces [OF first] consume_at_def
    by (rule nonce_table.accept_live [OF acc [unfolded consume_at_def] times(2,3)])
  then have "live_row (ow_nonces w2) ?t ?key ?n"
    unfolding between using times(1) by (rule nonce_history_live)
  then have "\<not> fst (consume_at env (Suc (ow_tick w2)) (ow_nonces w2) ?key ?n (ac_hmacNonceTtlSeconds acfg))"
    unfolding consume_at_def by (rule nonce_table.live_rejects)
  then show ?thesis by (simp add: hmacMiddleware_Next)
qed

definition auth_env :: oracle_env where
  "auth_env = (sample_env 0)\<lparr>oe_now := int\<rparr>"

lemma auth_env_simps [simp]:
  "oe_now auth_env n = int n" "oe_db auth_env n = None" "oe_prune_first auth_env n"
  by (simp_all add: auth_env_def sample_env_def)

lemma sample_request_nonce: "request_nonce sample_hash (sample_http ''ab12'' None) = ''cd''"
  by (simp add: request_nonce_def or_else_def deriveRequestNonce_def)

lemma sample_accepted:
  "result_of (hmacMiddleware sample_hash auth_env sample_auth None (sample_http ''ab12'' None) init_world) =
     Inr (Next (''ab12'', ''cd''))"
proof -
  have t: "request_time ''5'' = Some 5" by code_simp
  show ?thesis
    by (simp add: hmacMiddleware_Next sample_request_nonce verifyRequestSignature_ok t truthy_opt_def
        consume_at_def consume_row_def nonce_present_def init_world_def auth_env_simps Let_def)
qed

lemma replay_is_rejected_witness:
  "result_of (hmacMiddleware sample_hash auth_env sample_auth None (sample_http ''ab12'' None)
     (state_of (hmacMiddleware sample_hash auth_env sample_auth None (sample_http ''ab12'' None) init_world)))
   \<noteq> Inr (Next (''ab12'', ''cd''))"
proof -
  let ?w = "state_of (hmacMiddleware sample_hash auth_env sample_auth None (sample_http ''ab12'' None) init_world)"
  have t: "request_time ''5'' = Some 5" by code_simp
  have tick: "ow_tick ?w = 2"
    by (simp add: hmacMiddleware_def hmac_checks_def Let_def catchE_app bindE_app seqE_app lift_app
        date_now_app ret_app consumeHmacNonce_app verifyRequestSignature_ok sample_request_nonce t
        truthy_opt_def auth_env_simps init_world_def consume_at_def consume_row_def nonce_present_def
        verifyRequestSignature_def generateRequestHash_def)
  show ?thesis
    using replay_is_rejected [OF sample_accepted, of ?w "[]"]
    by (simp add: nonce_history_def tick) (simp add: auth_env_simps init_world_def)
qed

text \<open>
  the nonce header is not covered by the signature: a request whose signature verifies at
  the present time passes under every unused nonce of a legal length, so a captured request can
  be replayed with a new \<open>X-Nonce\<close> while its timestamp is fresh.
\<close>

theorem unsigned_nonce_allows_replay:
  assumes "truthy_opt (hr_timestamp req)" "truthy_opt (hr_signature req)"
    and "verifyRequestSignature (hf_hmac hf) (oe_toFixed1 env) (oe_now env (ow_tick w))
       (the (hr_timestamp req)) (hr_body req) (the (hr_signature req)) (ac_hmacSecret acfg) 5 = Inr ()"
    and "trim nonce = nonce" "nonce \<noteq> []" "length nonce \<le> 255"
    and "\<not> nonce_present (ow_nonces w) (api_key_token k req) nonce"
    and "\<forall>n. oe_db env n = None"
  shows "result_of (hmacMiddleware hf env acfg k (req\<lparr>hr_nonce := Some nonce\<rparr>) w) =
    Inr (Next (the (hr_signature req), nonce))"
proof -
  have n: "request_nonce hf (req\<lparr>hr_nonce := Some nonce\<rparr>) = nonce"
    using assms(4,5) by (simp add: request_nonce_def or_else_def)
  have key: "api_key_token k (req\<lparr>hr_nonce := Some nonce\<rparr>) = api_key_token k req"
    by (simp add: api_key_token_def)
  have "\<not> nonce_present (filter P (ow_nonces w)) (api_key_token k req) nonce" for P
    using assms(7) nonce_present_filter by blast
  then have "fst (consume_at env (Suc (ow_tick w)) (ow_nonces w) (api_key_token k req) nonce (ac_hmacNonceTtlSeconds acfg))"
    using assms(7) by (simp add: consume_at_def consume_row_def Let_def)
  with n key assms show ?thesis by (simp add: hmacMiddleware_Next)
qed

lemma unsigned_nonce_allows_replay_witness:
  "result_of (hmacMiddleware sample_hash auth_env sample_auth None
     ((sample_http ''ab12'' None)\<lparr>hr_nonce := Some ''other''\<rparr>)
     (init_world\<lparr>ow_nonces := [\<lparr>nr_api_key = ''key'', nr_nonce = ''cd'', nr_expires_at = 600005\<rparr>]\<rparr>)) =
   Inr (Next (''ab12'', ''other''))"
proof -
  have "request_time ''5'' = Some 5" "trim ''other'' = ''other''" by code_simp+
  with unsigned_nonce_allows_replay [of "sample_http ''ab12'' None" sample_hash auth_env
      "init_world\<lparr>ow_nonces := [\<lparr>nr_api_key = ''key'', nr_nonce = ''cd'', nr_expires_at = 600005\<rparr>]\<rparr>"
      sample_auth "''other''" None]
  show ?thesis
    by (simp add: verifyRequestSignature_ok truthy_opt_def nonce_present_def auth_env_simps init_world_def)
qed

section \<open>Configuration\<close>

text \<open>
  a configuration that loads is within its documented ranges, its secrets are present, its
  indexer timeout is between one second and one minute, and notifications have a webhook.
\<close>

theorem loaded_config_in_range:
  assumes "loadConfig penv = Inr c"
  shows "og_apiKey c \<noteq> [] \<and> og_hmacSecret c \<noteq> [] \<and>
    0 \<le> og_retryAttempts c \<and> og_retryAttempts c \<le> 10 \<and>
    100 \<le> og_retryDelay c \<and> og_retryDelay c \<le> 30000 \<and>
    60 \<le> og_hmacNonceTtlSeconds c \<and> og_hmacNonceTtlSeconds c \<le> 3600 \<and>
    1000 \<le> og_indexerGraphqlRequestTimeoutMs c \<and> og_indexerGraphqlRequestTimeoutMs c \<le> 60000 \<and>
    \<not> (og_notificationsEnabled c \<and> \<not> truthy_opt (og_notificationsWebhookUrl c)) \<and>
    to_lower (og_escrowAddress c) = og_escrowAddress c"
proof -
  from assms obtain tmin tmax t a d n where
    r: "read_fields penv (validateEnvBool penv ''NOTIFICATIONS_ENABLED'' False)
         (penv ''NOTIFICATIONS_WEBHOOK_URL'') t a d n (validateEnvBool penv ''ORACLE_MANUAL_APPROVAL_ENABLED'' False) = Inr c"
    and range: "check_ranges c = Inr c"
    and hook: "validateEnvBool penv ''NOTIFICATIONS_ENABLED'' False \<longrightarrow> truthy_opt (penv ''NOTIFICATIONS_WEBHOOK_URL'')"
    and tm: "1000 \<le> tmin" "tmax \<le> 60000" "tmin \<le> t" "t \<le> tmax"
    by (auto simp: loadConfig_def Let_def bindS_Inr guardS_Inr check_ranges_Inr)
  have "og_apiKey c \<noteq> []" "og_hmacSecret c \<noteq> []" "og_indexerGraphqlRequestTimeoutMs c = t"
    "og_notificationsEnabled c = validateEnvBool penv ''NOTIFICATIONS_ENABLED'' False"
    "og_notificationsWebhookUrl c = penv ''NOTIFICATIONS_WEBHOOK_URL''"
    "to_lower (og_escrowAddress c) = og_escrowAddress c"
    using r by (auto simp: read_fields_def bindS_Inr dest: validateEnv_Inr)
  with range hook tm show ?thesis by (auto simp: check_ranges_Inr)
qed

definition sample_penv :: process_env where
  "sample_penv name = Some (if name = ''RETRY_ATTEMPTS'' then ''0'' else ''1000'')"

lemma sample_parse: "parse_int10 ''1000'' = Some 1000" "parse_int10 ''0'' = Some 0"
  by (simp_all add: parse_int10_def Let_def is_space_def is_digit_def digit_val_def)

lemma sample_reads:
  "validateEnvNumber sample_penv n f = Inr (if n = ''RETRY_ATTEMPTS'' then 0 else 1000)"
  "validateEnv sample_penv n = Inr (if n = ''RETRY_ATTEMPTS'' then ''0'' else ''1000'')"
  "validateEnvBool sample_penv n b = False"
  by (simp_all add: validateEnvNumber_def validateEnv_def validateEnvBool_def sample_penv_def bindS_def
      sample_parse truthy_opt_def to_lower_def lower_char_def Let_def)

lemma sample_loads: "\<exists>c. loadConfig sample_penv = Inr c \<and> og_retryAttempts c = 0"
  by (simp add: loadConfig_def Let_def sample_reads read_fields_def bindS_def guardS_def assertS_def
      check_ranges_def)

lemma loaded_config_in_range_witness:
  "\<exists>c. loadConfig sample_penv = Inr c \<and> og_retryAttempts c = 0 \<and> 60 \<le> og_hmacNonceTtlSeconds c"
  using sample_loads loaded_config_in_range [of sample_penv] by blast

text \<open>
  with zero attempts, which the configuration allows, a trigger is never executed: the loop
  throws at once and leaves the state, and so the trigger's status, as it was.
\<close>

theorem zero_attempts_never_execute:
  assumes "mc_maxAttempts cfg \<le> 0"
  shows "\<exists>e. executeWithRetry env cfg t k w = (Inl e, w) \<and> \<not> is_validation_error e"
  using assms by (simp add: executeWithRetry_def retry_loop.simps throw_app)

lemma zero_attempts_never_execute_witness:
  "\<exists>e. executeWithRetry (sample_env 0) ((sample_cfg False)\<lparr>mc_maxAttempts := 0\<rparr>) (sample_trigger PENDING) []
     (sample_world [sample_trigger PENDING]) = (Inl e, sample_world [sample_trigger PENDING])"
  using zero_attempts_never_execute [of "(sample_cfg False)\<lparr>mc_maxAttempts := 0\<rparr>"] by simp blast

end
