(* ===== verification/Recon_Classifier.thy ===== *)
theory Recon_Classifier imports Main Trade_Types begin

text \<open>
  The drift classifier of the reconciliation service (\<open>reconciliation/src/core/classifier.ts\<close>,
  \<open>types.ts\<close>, \<open>utils/address.ts\<close>): it compares a trade as indexed with the trade on the chain.
  \<open>ethers.isAddress\<close> and \<open>ethers.getAddress\<close> are parameters.  An ISO time text is represented by
  the time it prints (\<open>toISOString\<close> prints different valid times differently).
\<close>

section \<open>Data\<close>

datatype drift_severity = CRITICAL | HIGH | MEDIUM | LOW

datatype drift_code =
    ONCHAIN_READ_ERROR | ONCHAIN_TRADE_MISSING | STATUS_MISMATCH | PARTICIPANT_MISMATCH
  | AMOUNT_MISMATCH | HASH_MISMATCH | ARRIVAL_TIMESTAMP_MISMATCH | INDEXED_INVALID_ADDRESS
  | ONCHAIN_INVALID_ADDRESS

fun drift_code_name :: "drift_code \<Rightarrow> string" where
  "drift_code_name ONCHAIN_READ_ERROR = ''ONCHAIN_READ_ERROR''"
| "drift_code_name ONCHAIN_TRADE_MISSING = ''ONCHAIN_TRADE_MISSING''"
| "drift_code_name STATUS_MISMATCH = ''STATUS_MISMATCH''"
| "drift_code_name PARTICIPANT_MISMATCH = ''PARTICIPANT_MISMATCH''"
| "drift_code_name AMOUNT_MISMATCH = ''AMOUNT_MISMATCH''"
| "drift_code_name HASH_MISMATCH = ''HASH_MISMATCH''"
| "drift_code_name ARRIVAL_TIMESTAMP_MISMATCH = ''ARRIVAL_TIMESTAMP_MISMATCH''"
| "drift_code_name INDEXED_INVALID_ADDRESS = ''INDEXED_INVALID_ADDRESS''"
| "drift_code_name ONCHAIN_INVALID_ADDRESS = ''ONCHAIN_INVALID_ADDRESS''"

record indexed_trade =
  it_tradeId :: string
  it_buyer :: string
  it_supplier :: string
  it_status :: string
  it_totalAmountLocked :: int
  it_logisticsAmount :: int
  it_platformFeesAmount :: int
  it_supplierFirstTranche :: int
  it_supplierSecondTranche :: int
  it_ricardianHash :: string
  it_createdAt :: int
  it_arrivalTimestamp :: "int option"

datatype drift_value = Text string | Iso_time int

record drift_finding =
  df_tradeId :: string
  df_severity :: drift_severity
  df_mismatchCode :: drift_code
  df_comparedField :: string
  df_onchainValue :: "drift_value option"
  df_indexedValue :: "drift_value option"
  df_details :: "(string \<times> string) list"

record compare_input =
  ci_indexedTrade :: indexed_trade
  ci_onchainTrade :: "trade option"
  ci_onchainReadError :: "string option"

text \<open>The address functions of ethers.\<close>

record address_functions =
  af_isAddress :: "string \<Rightarrow> bool"
  af_getAddress :: "string \<Rightarrow> string"

definition normalizeAddressOrNull :: "address_functions \<Rightarrow> string \<Rightarrow> string option" where
  "normalizeAddressOrNull af v = (if \<not> af_isAddress af v then None else Some (af_getAddress af v))"

definition isZeroAddress :: "address_functions \<Rightarrow> string \<Rightarrow> bool" where
  "isZeroAddress af v \<longleftrightarrow> normalizeAddressOrNull af v = Some zero_address"

section \<open>Comparison\<close>

fun statusLabel :: "trade_status \<Rightarrow> string" where
  "statusLabel LOCKED = ''LOCKED''"
| "statusLabel IN_TRANSIT = ''IN_TRANSIT''"
| "statusLabel ARRIVAL_CONFIRMED = ''ARRIVAL_CONFIRMED''"
| "statusLabel FROZEN = ''FROZEN''"
| "statusLabel CLOSED = ''CLOSED''"
| "statusLabel (OtherStatus k) = ''UNKNOWN_'' @ show_nat (status_number (OtherStatus k))"

definition bigintToString :: "int \<Rightarrow> string" where
  "bigintToString = show_int"

definition amount_fields :: "indexed_trade \<Rightarrow> trade \<Rightarrow> (string \<times> int \<times> int) list" where
  "amount_fields indexed onchain =
     [(''totalAmountLocked'', td_totalAmountLocked onchain, it_totalAmountLocked indexed),
      (''logisticsAmount'', td_logisticsAmount onchain, it_logisticsAmount indexed),
      (''platformFeesAmount'', td_platformFeesAmount onchain, it_platformFeesAmount indexed),
      (''supplierFirstTranche'', td_supplierFirstTranche onchain, it_supplierFirstTranche indexed),
      (''supplierSecondTranche'', td_supplierSecondTranche onchain, it_supplierSecondTranche indexed)]"

definition compareAmounts :: "indexed_trade \<Rightarrow> trade \<Rightarrow> drift_finding list" where
  "compareAmounts indexed onchain =
     map (\<lambda>(field, onchainValue, indexedValue).
        \<lparr>df_tradeId = it_tradeId indexed, df_severity = CRITICAL,
         df_mismatchCode = AMOUNT_MISMATCH, df_comparedField = field,
         df_onchainValue = Some (Text (bigintToString onchainValue)),
         df_indexedValue = Some (Text (bigintToString indexedValue)),
         df_details = [(''field'', field), (''impact'', ''financial'')]\<rparr>)
       (filter (\<lambda>(_, onchainValue, indexedValue). onchainValue \<noteq> indexedValue)
          (amount_fields indexed onchain))"

definition invalidAddressFinding :: "string \<Rightarrow> bool \<Rightarrow> string \<Rightarrow> string \<Rightarrow> drift_finding" where
  "invalidAddressFinding tradeId indexed field v =
     \<lparr>df_tradeId = tradeId, df_severity = CRITICAL,
      df_mismatchCode = (if indexed then INDEXED_INVALID_ADDRESS else ONCHAIN_INVALID_ADDRESS),
      df_comparedField = field,
      df_onchainValue = (if indexed then None else Some (Text v)),
      df_indexedValue = (if indexed then Some (Text v) else None),
      df_details = [(''source'', if indexed then ''indexed'' else ''onchain''), (''field'', field),
        (''reason'', ''address is not a valid hex EVM address'')]\<rparr>"

definition participant_finding :: "string \<Rightarrow> string \<Rightarrow> string \<Rightarrow> string \<Rightarrow> drift_finding" where
  "participant_finding tradeId field onchain indexed =
     \<lparr>df_tradeId = tradeId, df_severity = CRITICAL, df_mismatchCode = PARTICIPANT_MISMATCH,
      df_comparedField = field, df_onchainValue = Some (Text onchain),
      df_indexedValue = Some (Text indexed), df_details = [(''field'', field)]\<rparr>"

definition differ :: "string option \<Rightarrow> string option \<Rightarrow> bool" where
  "differ indexed onchain \<longleftrightarrow> indexed \<noteq> None \<and> onchain \<noteq> None \<and> onchain \<noteq> indexed"

text \<open>The part after the two early returns.\<close>

definition compare_present :: "address_functions \<Rightarrow> indexed_trade \<Rightarrow> trade \<Rightarrow> drift_finding list" where
  "compare_present af indexed onchain =
     (let tid = it_tradeId indexed;
          onchainStatus = statusLabel (td_status onchain);
          indexedBuyer = normalizeAddressOrNull af (it_buyer indexed);
          indexedSupplier = normalizeAddressOrNull af (it_supplier indexed);
          onchainBuyer = normalizeAddressOrNull af (td_buyer onchain);
          onchainSupplier = normalizeAddressOrNull af (td_supplier onchain)
      in (if onchainStatus \<noteq> it_status indexed then
            [\<lparr>df_tradeId = tid, df_severity = HIGH, df_mismatchCode = STATUS_MISMATCH,
              df_comparedField = ''status'', df_onchainValue = Some (Text onchainStatus),
              df_indexedValue = Some (Text (it_status indexed)),
              df_details = [(''impact'', ''workflow divergence'')]\<rparr>] else []) @
         (if indexedBuyer = None then [invalidAddressFinding tid True ''buyer'' (it_buyer indexed)] else []) @
         (if indexedSupplier = None then [invalidAddressFinding tid True ''supplier'' (it_supplier indexed)] else []) @
         (if onchainBuyer = None then [invalidAddressFinding tid False ''buyer'' (td_buyer onchain)] else []) @
         (if onchainSupplier = None then [invalidAddressFinding tid False ''supplier'' (td_supplier onchain)] else []) @
         (if differ indexedBuyer onchainBuyer
          then [participant_finding tid ''buyer'' (td_buyer onchain) (it_buyer indexed)] else []) @
         (if differ indexedSupplier onchainSupplier
          then [participant_finding tid ''supplier'' (td_supplier onchain) (it_supplier indexed)] else []) @
         compareAmounts indexed onchain @
         (if to_lower (td_ricardianHash onchain) \<noteq> to_lower (it_ricardianHash indexed) then
            [\<lparr>df_tradeId = tid, df_severity = CRITICAL, df_mismatchCode = HASH_MISMATCH,
              df_comparedField = ''ricardianHash'', df_onchainValue = Some (Text (td_ricardianHash onchain)),
              df_indexedValue = Some (Text (it_ricardianHash indexed)),
              df_details = [(''impact'', ''legal linkage divergence'')]\<rparr>] else []) @
         (if td_arrivalTimestamp onchain \<noteq> it_arrivalTimestamp indexed then
            [\<lparr>df_tradeId = tid, df_severity = MEDIUM, df_mismatchCode = ARRIVAL_TIMESTAMP_MISMATCH,
              df_comparedField = ''arrivalTimestamp'',
              df_onchainValue = map_option Iso_time (td_arrivalTimestamp onchain),
              df_indexedValue = map_option Iso_time (it_arrivalTimestamp indexed),
              df_details = [(''impact'', ''timeline divergence'')]\<rparr>] else []))"

definition classifyDrifts :: "address_functions \<Rightarrow> compare_input \<Rightarrow> drift_finding list" where
  "classifyDrifts af input =
     (let indexed = ci_indexedTrade input
      in if truthy_opt (ci_onchainReadError input) then
           [\<lparr>df_tradeId = it_tradeId indexed, df_severity = CRITICAL,
             df_mismatchCode = ONCHAIN_READ_ERROR, df_comparedField = ''tradeLookup'',
             df_onchainValue = None, df_indexedValue = Some (Text (it_status indexed)),
             df_details = [(''error'', the (ci_onchainReadError input))]\<rparr>]
         else if (case ci_onchainTrade input of None \<Rightarrow> True | Some t \<Rightarrow> isZeroAddress af (td_buyer t)) then
           [\<lparr>df_tradeId = it_tradeId indexed, df_severity = CRITICAL,
             df_mismatchCode = ONCHAIN_TRADE_MISSING, df_comparedField = ''tradePresence'',
             df_onchainValue = None, df_indexedValue = Some (Text (it_tradeId indexed)),
             df_details = [(''reason'', ''trade not found on-chain'')]\<rparr>]
         else compare_present af indexed (the (ci_onchainTrade input)))"

section \<open>What the findings say\<close>

text \<open>The specification: the two views agree.\<close>

definition views_agree :: "address_functions \<Rightarrow> indexed_trade \<Rightarrow> trade \<Rightarrow> bool" where
  "views_agree af i c \<longleftrightarrow>
     statusLabel (td_status c) = it_status i \<and>
     af_isAddress af (it_buyer i) \<and> af_isAddress af (td_buyer c) \<and>
     af_getAddress af (it_buyer i) = af_getAddress af (td_buyer c) \<and>
     af_isAddress af (it_supplier i) \<and> af_isAddress af (td_supplier c) \<and>
     af_getAddress af (it_supplier i) = af_getAddress af (td_supplier c) \<and>
     td_totalAmountLocked c = it_totalAmountLocked i \<and>
     td_logisticsAmount c = it_logisticsAmount i \<and>
     td_platformFeesAmount c = it_platformFeesAmount i \<and>
     td_supplierFirstTranche c = it_supplierFirstTranche i \<and>
     td_supplierSecondTranche c = it_supplierSecondTranche i \<and>
     to_lower (td_ricardianHash c) = to_lower (it_ricardianHash i) \<and>
     td_arrivalTimestamp c = it_arrivalTimestamp i"

lemma compareAmounts_empty:
  "compareAmounts i c = [] \<longleftrightarrow>
     td_totalAmountLocked c = it_totalAmountLocked i \<and> td_logisticsAmount c = it_logisticsAmount i \<and>
     td_platformFeesAmount c = it_platformFeesAmount i \<and>
     td_supplierFirstTranche c = it_supplierFirstTranche i \<and>
     td_supplierSecondTranche c = it_supplierSecondTranche i"
  by (auto simp: compareAmounts_def amount_fields_def)

lemma compare_present_empty: "compare_present af i c = [] \<longleftrightarrow> views_agree af i c"
  by (auto simp: compare_present_def Let_def compareAmounts_empty views_agree_def
      normalizeAddressOrNull_def differ_def)

definition finding_key :: "drift_finding \<Rightarrow> drift_code \<times> string" where
  "finding_key f = (df_mismatchCode f, df_comparedField f)"

text \<open>The key under which the findings of one trade are stored does not repeat.\<close>

lemma compareAmounts_keys:
  "\<exists>fs. map finding_key (compareAmounts i c) = map (Pair AMOUNT_MISMATCH) fs \<and> distinct fs"
proof -
  let ?fs = "map fst (filter (\<lambda>(_, a, b). a \<noteq> b) (amount_fields i c))"
  have "map finding_key (compareAmounts i c) = map (Pair AMOUNT_MISMATCH) ?fs"
    by (simp add: compareAmounts_def finding_key_def case_prod_beta comp_def)
  moreover have "distinct ?fs"
    by (rule distinct_map_filter) (simp add: amount_fields_def)
  ultimately show ?thesis by blast
qed

lemma map_guarded: "map g (if b then [x] else []) = (if b then [g x] else [])"
  by simp

lemma distinct_guarded: "k \<notin> set ys \<Longrightarrow> distinct ys \<Longrightarrow> distinct ((if b then [k] else []) @ ys)"
  by simp

lemma not_in_guarded: "k \<noteq> k' \<Longrightarrow> k \<notin> set ys \<Longrightarrow> k \<notin> set ((if b then [k'] else []) @ ys)"
  by simp

lemma distinct_present_keys: "distinct (map finding_key (compare_present af i c))"
proof -
  obtain fs where fs: "map finding_key (compareAmounts i c) = map (Pair AMOUNT_MISMATCH) fs" "distinct fs"
    using compareAmounts_keys by metis
  let ?A = "map (Pair AMOUNT_MISMATCH) fs :: (drift_code \<times> string) list"
  have keys: "finding_key (invalidAddressFinding t b f v) =
      (if b then INDEXED_INVALID_ADDRESS else ONCHAIN_INVALID_ADDRESS, f)"
    "finding_key (participant_finding t f a b') = (PARTICIPANT_MISMATCH, f)" for t b f v a b'
    by (simp_all add: finding_key_def invalidAddressFinding_def participant_finding_def)
  have amounts: "distinct (?A @ ys)" if "distinct ys" "\<forall>k \<in> set ys. fst k \<noteq> AMOUNT_MISMATCH" for ys
    using that fs(2) by (auto simp: distinct_map inj_on_def)
  have other: "k \<notin> set (?A @ ys)" if "fst k \<noteq> AMOUNT_MISMATCH" "k \<notin> set ys" for k ys
    using that by auto
  have key: "finding_key f = (df_mismatchCode f, df_comparedField f)" for f by (simp add: finding_key_def)
  have "distinct ((if b1 then [(STATUS_MISMATCH, ''status'')] else []) @
     (if b2 then [(INDEXED_INVALID_ADDRESS, ''buyer'')] else []) @
     (if b3 then [(INDEXED_INVALID_ADDRESS, ''supplier'')] else []) @
     (if b4 then [(ONCHAIN_INVALID_ADDRESS, ''buyer'')] else []) @
     (if b5 then [(ONCHAIN_INVALID_ADDRESS, ''supplier'')] else []) @
     (if b6 then [(PARTICIPANT_MISMATCH, ''buyer'')] else []) @
     (if b7 then [(PARTICIPANT_MISMATCH, ''supplier'')] else []) @ ?A @
     (if b8 then [(HASH_MISMATCH, ''ricardianHash'')] else []) @
     (if b9 then [(ARRIVAL_TIMESTAMP_MISMATCH, ''arrivalTimestamp'')] else []))"
    for b1 b2 b3 b4 b5 b6 b7 b8 b9
    by (intro distinct_guarded not_in_guarded other amounts) auto
  then show ?thesis
    unfolding compare_present_def Let_def map_append map_guarded fs(1) keys
    by (simp only: key drift_finding.simps if_True if_False simp_thms)
qed

lemma distinct_finding_keys: "distinct (map finding_key (classifyDrifts af input))"
  using distinct_present_keys by (simp add: classifyDrifts_def Let_def)

lemma finding_trade: "f \<in> set (classifyDrifts af input) \<Longrightarrow> df_tradeId f = it_tradeId (ci_indexedTrade input)"
  by (auto simp: classifyDrifts_def compare_present_def Let_def compareAmounts_def
      invalidAddressFinding_def participant_finding_def split: if_splits)

text \<open>The severity is a function of the code.\<close>

fun severity_of :: "drift_code \<Rightarrow> drift_severity" where
  "severity_of STATUS_MISMATCH = HIGH"
| "severity_of ARRIVAL_TIMESTAMP_MISMATCH = MEDIUM"
| "severity_of _ = CRITICAL"

lemma finding_severity:
  "f \<in> set (classifyDrifts af input) \<Longrightarrow> df_severity f = severity_of (df_mismatchCode f)"
  by (auto simp: classifyDrifts_def compare_present_def Let_def compareAmounts_def
      invalidAddressFinding_def participant_finding_def split: if_splits)

end
