(* ===== verification/Recon_Run.thy ===== *)
theory Recon_Run imports Main Effect Sql_Table Notifier Recon_Classifier Oracle_Chain begin

text \<open>
  A reconciliation run (\<open>reconciliation/src/core/reconciler.ts\<close>, \<open>database/queries.ts\<close>): the run
  row that makes a run key idempotent, the pages of indexed trades, the comparison of each trade
  with the chain, and the stored findings.  As in the oracle, what is outside is a function of a
  tick.  Serial ids are left out; a run is named by its key.
\<close>

section \<open>State and environment\<close>

datatype reconcile_mode = ONCE | DAEMON

datatype run_status = RUNNING | COMPLETED | RUN_FAILED | SKIPPED

record severity_counts =
  sc_critical :: nat
  sc_high :: nat
  sc_medium :: nat
  sc_low :: nat

definition no_counts :: severity_counts where
  "no_counts = \<lparr>sc_critical = 0, sc_high = 0, sc_medium = 0, sc_low = 0\<rparr>"

fun count_severity :: "drift_severity \<Rightarrow> severity_counts \<Rightarrow> severity_counts" where
  "count_severity CRITICAL c = c\<lparr>sc_critical := sc_critical c + 1\<rparr>"
| "count_severity HIGH c = c\<lparr>sc_high := sc_high c + 1\<rparr>"
| "count_severity MEDIUM c = c\<lparr>sc_medium := sc_medium c + 1\<rparr>"
| "count_severity LOW c = c\<lparr>sc_low := sc_low c + 1\<rparr>"

definition total_counts :: "severity_counts \<Rightarrow> nat" where
  "total_counts c = sc_critical c + sc_high c + sc_medium c + sc_low c"

record run_stats =
  st_runKey :: string
  st_mode :: reconcile_mode
  st_totalTrades :: nat
  st_driftCount :: nat
  st_severityCounts :: severity_counts
  st_status :: run_status
  st_skippedReason :: "string option"

record run_row =
  rr_run_key :: string
  rr_mode :: reconcile_mode
  rr_status :: run_status
  rr_started_at :: int
  rr_completed_at :: "int option"
  rr_total_trades :: nat
  rr_drift_count :: nat
  rr_counts :: severity_counts
  rr_error_message :: "string option"

record drift_row =
  dr_run_key :: string
  dr_finding :: drift_finding
  dr_occurrences :: nat
  dr_created_at :: int
  dr_updated_at :: int

definition dr_key :: "drift_row \<Rightarrow> string \<times> string \<times> drift_code \<times> string" where
  "dr_key d = (dr_run_key d, df_tradeId (dr_finding d), df_mismatchCode (dr_finding d),
     df_comparedField (dr_finding d))"

record recon_config =
  rc_enabled :: bool
  rc_daemonIntervalMs :: int
  rc_batchSize :: nat
  rc_maxTradesPerRun :: nat
  rc_notifier :: notifier_config

record recon_env =
  re_now :: "nat \<Rightarrow> int"
  re_iso :: "int \<Rightarrow> string"
  re_db :: "nat \<Rightarrow> js_error option"
  re_indexer :: "nat \<Rightarrow> nat \<Rightarrow> nat \<Rightarrow> js_error + indexed_trade list"
  re_trades :: "nat \<Rightarrow> string \<Rightarrow> js_error + raw_trade"
  re_addresses :: address_functions
  re_http :: "nat \<Rightarrow> http_outcome"

record recon_world =
  rw_tick :: nat
  rw_runs :: "run_row list"
  rw_scope :: "(string \<times> string) list"
  rw_drifts :: "drift_row list"
  rw_notifier :: notifier_state
  rw_classified :: nat
  rw_sleeps :: "int list"

type_synonym 'a recon_eff = "(js_error, recon_world, 'a) eff"

definition runs_ok :: "run_row list \<Rightarrow> bool" where
  "runs_ok rows \<longleftrightarrow> distinct (map rr_run_key rows)"

definition drifts_ok :: "drift_row list \<Rightarrow> bool" where
  "drifts_ok rows \<longleftrightarrow> distinct (map dr_key rows)"

interpretation run_table: sql_table rr_run_key runs_ok
  by unfold_locales (simp_all add: runs_ok_def)

interpretation drift_table: sql_table dr_key drifts_ok
  by unfold_locales (simp_all add: drifts_ok_def)

section \<open>External calls\<close>

definition rtick :: "recon_world \<Rightarrow> recon_world" where
  "rtick w = w\<lparr>rw_tick := Suc (rw_tick w)\<rparr>"

definition rask :: "(nat \<Rightarrow> 'a) \<Rightarrow> 'a recon_eff" where
  "rask f w = (Inr (f (rw_tick w)), rtick w)"

definition rtry :: "(nat \<Rightarrow> js_error + 'a) \<Rightarrow> 'a recon_eff" where
  "rtry f w = (f (rw_tick w), rtick w)"

definition rquery :: "recon_env \<Rightarrow> (int \<Rightarrow> recon_world \<Rightarrow> 'a \<times> recon_world) \<Rightarrow> 'a recon_eff" where
  "rquery env stmt w =
     (case re_db env (rw_tick w) of
        Some e \<Rightarrow> (Inl e, rtick w)
      | None \<Rightarrow> (case stmt (re_now env (rw_tick w)) (rtick w) of (x, w') \<Rightarrow> (Inr x, w')))"

lemma rtick_simps [simp]:
  "rw_tick (rtick w) = Suc (rw_tick w)" "rw_runs (rtick w) = rw_runs w"
  "rw_scope (rtick w) = rw_scope w" "rw_drifts (rtick w) = rw_drifts w"
  "rw_notifier (rtick w) = rw_notifier w" "rw_classified (rtick w) = rw_classified w"
  by (simp_all add: rtick_def)

section \<open>Queries\<close>

definition new_run :: "int \<Rightarrow> string \<Rightarrow> reconcile_mode \<Rightarrow> run_row" where
  "new_run now runKey mode =
     \<lparr>rr_run_key = runKey, rr_mode = mode, rr_status = RUNNING, rr_started_at = now,
      rr_completed_at = None, rr_total_trades = 0, rr_drift_count = 0, rr_counts = no_counts,
      rr_error_message = None\<rparr>"

text \<open>The result is the row and whether it was created; a missing row is a \<open>TypeError\<close> of the caller.\<close>

definition createRun :: "recon_env \<Rightarrow> string \<Rightarrow> reconcile_mode \<Rightarrow> (run_row \<times> bool) recon_eff" where
  "createRun env runKey mode =
     bindE (rquery env (\<lambda>now w.
        case guarded_insert runs_ok (new_run now runKey mode) (rw_runs w) of
          None \<Rightarrow> (None, w)
        | Some rows \<Rightarrow> (Some (new_run now runKey mode), w\<lparr>rw_runs := rows\<rparr>)))
      (\<lambda>inserted. case inserted of
         Some row \<Rightarrow> ret (row, True)
       | None \<Rightarrow> bindE (rquery env (\<lambda>_ w. (row_by rr_run_key runKey (rw_runs w), w)))
           (\<lambda>existing. case existing of
              Some row \<Rightarrow> ret (row, False)
            | None \<Rightarrow> throw (plain_error ''Cannot read properties of undefined (reading status)'')))"

definition upsertDrift :: "recon_env \<Rightarrow> string \<Rightarrow> drift_finding \<Rightarrow> unit recon_eff" where
  "upsertDrift env runKey finding =
     rquery env (\<lambda>now w. ((), w\<lparr>rw_drifts :=
       upsert dr_key
         (\<lambda>d. d\<lparr>dr_finding := finding\<lparr>df_tradeId := df_tradeId (dr_finding d),
                    df_mismatchCode := df_mismatchCode (dr_finding d),
                    df_comparedField := df_comparedField (dr_finding d)\<rparr>,
                 dr_occurrences := dr_occurrences d + 1, dr_updated_at := now\<rparr>)
         \<lparr>dr_run_key = runKey, dr_finding = finding, dr_occurrences = 1,
          dr_created_at = now, dr_updated_at = now\<rparr>
         (rw_drifts w)\<rparr>))"

definition upsertRunTradeScope :: "recon_env \<Rightarrow> string \<Rightarrow> string \<Rightarrow> unit recon_eff" where
  "upsertRunTradeScope env runKey tradeId =
     rquery env (\<lambda>_ w. ((), w\<lparr>rw_scope := upsert id id (runKey, tradeId) (rw_scope w)\<rparr>))"

definition completed_row :: "int \<Rightarrow> run_stats \<Rightarrow> run_row \<Rightarrow> run_row" where
  "completed_row now stats r =
     r\<lparr>rr_status := st_status stats, rr_completed_at := Some now,
       rr_total_trades := st_totalTrades stats, rr_drift_count := st_driftCount stats,
       rr_counts := st_severityCounts stats\<rparr>"

definition completeRun :: "recon_env \<Rightarrow> run_stats \<Rightarrow> unit recon_eff" where
  "completeRun env stats =
     rquery env (\<lambda>now w. ((), w\<lparr>rw_runs :=
       update_where (\<lambda>r. rr_run_key r = st_runKey stats) (completed_row now stats) (rw_runs w)\<rparr>))"

definition failed_row :: "int \<Rightarrow> string \<Rightarrow> run_row \<Rightarrow> run_row" where
  "failed_row now message r =
     r\<lparr>rr_status := RUN_FAILED, rr_completed_at := Some now, rr_error_message := Some message\<rparr>"

definition failRun :: "recon_env \<Rightarrow> string \<Rightarrow> string \<Rightarrow> unit recon_eff" where
  "failRun env runKey message =
     rquery env (\<lambda>now w. ((), w\<lparr>rw_runs :=
       update_where (\<lambda>r. rr_run_key r = runKey) (failed_row now message) (rw_runs w)\<rparr>))"

section \<open>One trade\<close>

definition critical_event :: "string \<Rightarrow> drift_finding \<Rightarrow> notification_event" where
  "critical_event runKey finding =
     \<lparr>ne_source = ''reconciliation'', ne_type = ''RECONCILIATION_CRITICAL_DRIFT'',
      ne_severity = Sev_critical,
      ne_dedupKey = ''reconciliation:critical:'' @ df_tradeId finding @ '':'' @
        drift_code_name (df_mismatchCode finding),
      ne_message = ''Critical reconciliation drift detected between on-chain and indexed trade state.'',
      ne_correlation = no_correlation\<lparr>co_tradeId := Some (df_tradeId finding),
        co_runKey := Some runKey, co_mismatchCode := Some (drift_code_name (df_mismatchCode finding))\<rparr>\<rparr>"

definition notifyCriticalDrift :: "recon_env \<Rightarrow> recon_config \<Rightarrow> string \<Rightarrow> drift_finding \<Rightarrow> unit recon_eff" where
  "notifyCriticalDrift env cfg runKey finding w =
     (if df_severity finding \<noteq> CRITICAL then (Inr (), w)
      else (case notify (rc_notifier cfg) \<lparr>nv_now = re_now env, nv_http = re_http env\<rparr>
              (critical_event runKey finding) ((rw_notifier w)\<lparr>ns_tick := rw_tick w\<rparr>) of
              (_, s) \<Rightarrow> (Inr (), w\<lparr>rw_notifier := s, rw_tick := ns_tick s\<rparr>)))"

definition incrementDriftClassification :: "unit recon_eff" where
  "incrementDriftClassification = change (\<lambda>w. w\<lparr>rw_classified := rw_classified w + 1\<rparr>)"

text \<open>The loop over the findings; its local variables are the drift count and the severities.\<close>

definition record_finding ::
  "recon_env \<Rightarrow> recon_config \<Rightarrow> string \<Rightarrow> nat \<times> severity_counts \<Rightarrow> drift_finding \<Rightarrow>
   (nat \<times> severity_counts) recon_eff" where
  "record_finding env cfg runKey acc finding =
     seqE (upsertDrift env runKey finding)
     (seqE (notifyCriticalDrift env cfg runKey finding)
     (seqE incrementDriftClassification
       (ret (fst acc + 1, count_severity (df_severity finding) (snd acc)))))"

text \<open>The read of the chain goes through the SDK, which wraps the contract's error.\<close>

definition onchain_getTrade :: "recon_env \<Rightarrow> string \<Rightarrow> trade recon_eff" where
  "onchain_getTrade env tradeId =
     catchE (bindE (rtry (\<lambda>n. re_trades env n tradeId)) (\<lambda>r. ret (trade_of_raw r)))
       (\<lambda>error. throw (sdk_contract_error (''Failed to get trade: '' @ js_message error)))"

definition read_onchain :: "recon_env \<Rightarrow> string \<Rightarrow> (trade option \<times> string option) recon_eff" where
  "read_onchain env tradeId =
     catchE (bindE (onchain_getTrade env tradeId) (\<lambda>t. ret (Some t, None)))
       (\<lambda>error. ret (None, Some (if js_message error = [] then ''Unknown on-chain read error''
                                  else js_message error)))"

definition reconcile_trade ::
  "recon_env \<Rightarrow> recon_config \<Rightarrow> string \<Rightarrow> nat \<times> severity_counts \<Rightarrow> indexed_trade \<Rightarrow>
   (nat \<times> severity_counts) recon_eff" where
  "reconcile_trade env cfg runKey acc t =
     seqE (upsertRunTradeScope env runKey (it_tradeId t))
     (bindE (read_onchain env (it_tradeId t)) (\<lambda>(onchain, readError).
       foldE (record_finding env cfg runKey) acc
         (classifyDrifts (re_addresses env)
            \<lparr>ci_indexedTrade = t, ci_onchainTrade = onchain, ci_onchainReadError = readError\<rparr>)))"

section \<open>The run\<close>

text \<open>
  The loop over the pages.  \<open>tot\<close> is \<open>stats.totalTrades\<close>, which each trade of a page increments;
  the result holds it and the drift counts.
\<close>

function run_pages ::
  "recon_env \<Rightarrow> recon_config \<Rightarrow> string \<Rightarrow> nat \<Rightarrow> nat \<Rightarrow> nat \<times> severity_counts \<Rightarrow>
   (nat \<times> nat \<times> severity_counts) recon_eff" where
  "run_pages env cfg runKey tot offset acc =
     (if tot < rc_maxTradesPerRun cfg then
        (let remaining = rc_maxTradesPerRun cfg - tot;
             limit = min (rc_batchSize cfg) remaining
         in bindE (rtry (\<lambda>n. re_indexer env n limit offset)) (\<lambda>indexedTrades.
              if indexedTrades = [] then ret (tot, acc)
              else bindE (foldE (reconcile_trade env cfg runKey) acc indexedTrades) (\<lambda>acc'.
                if length indexedTrades < limit then ret (tot + length indexedTrades, acc')
                else run_pages env cfg runKey (tot + length indexedTrades)
                       (offset + length indexedTrades) acc')))
      else ret (tot, acc))"
  by pat_completeness auto
termination
  by (relation "measure (\<lambda>(_, cfg, _, tot, _, _). rc_maxTradesPerRun cfg - tot)")
     (auto simp: neq_Nil_conv)

declare run_pages.simps [simp del]

definition skipped_stats :: "string \<Rightarrow> reconcile_mode \<Rightarrow> run_row \<Rightarrow> string \<Rightarrow> run_stats" where
  "skipped_stats runKey mode row reason =
     \<lparr>st_runKey = runKey, st_mode = mode, st_totalTrades = rr_total_trades row,
      st_driftCount = rr_drift_count row, st_severityCounts = rr_counts row,
      st_status = SKIPPED, st_skippedReason = Some reason\<rparr>"

definition generateRunKey :: "recon_env \<Rightarrow> recon_config \<Rightarrow> reconcile_mode \<Rightarrow> string recon_eff" where
  "generateRunKey env cfg mode =
     bindE (rask (re_now env)) (\<lambda>now.
       ret (case mode of
              DAEMON \<Rightarrow> ''daemon-'' @ show_int (now div rc_daemonIntervalMs cfg)
            | ONCE \<Rightarrow> ''once-'' @ re_iso env now))"

text \<open>The \<open>try\<close> and \<open>catch\<close> of the run.\<close>

definition run_body :: "recon_env \<Rightarrow> recon_config \<Rightarrow> reconcile_mode \<Rightarrow> string \<Rightarrow> run_stats recon_eff" where
  "run_body env cfg mode runKey =
     catchE
       (bindE (run_pages env cfg runKey 0 0 (0, no_counts)) (\<lambda>(totalTrades, driftCount, counts).
          (let stats = \<lparr>st_runKey = runKey, st_mode = mode, st_totalTrades = totalTrades,
                 st_driftCount = driftCount, st_severityCounts = counts, st_status = COMPLETED,
                 st_skippedReason = None\<rparr>
           in seqE (completeRun env stats) (ret stats))))
       (\<lambda>error. seqE (failRun env runKey (if js_message error = [] then ''Unknown reconciliation failure''
                                             else js_message error))
                  (throw error))"

definition reconcileOnce ::
  "recon_env \<Rightarrow> recon_config \<Rightarrow> reconcile_mode \<Rightarrow> string option \<Rightarrow> run_stats recon_eff" where
  "reconcileOnce env cfg mode runKeyOverride =
     bindE (if truthy_opt runKeyOverride then ret (the runKeyOverride) else generateRunKey env cfg mode)
       (\<lambda>runKey. bindE (createRun env runKey mode) (\<lambda>(row, created).
          if \<not> created \<and> rr_status row = COMPLETED
          then ret (skipped_stats runKey mode row ''run_key already completed'')
          else if \<not> created \<and> rr_status row = RUNNING
          then ret (skipped_stats runKey mode row ''run_key currently running'')
          else run_body env cfg mode runKey))"

text \<open>\<open>n\<close> rounds of the daemon's endless loop.\<close>

fun daemon_rounds :: "nat \<Rightarrow> recon_env \<Rightarrow> recon_config \<Rightarrow> unit recon_eff" where
  "daemon_rounds 0 env cfg = ret ()"
| "daemon_rounds (Suc n) env cfg =
     seqE (catchE (bindE (reconcileOnce env cfg DAEMON None) (\<lambda>_. ret ())) (\<lambda>_. ret ()))
     (seqE (change (\<lambda>w. w\<lparr>rw_sleeps := rw_sleeps w @ [rc_daemonIntervalMs cfg]\<rparr>))
       (daemon_rounds n env cfg))"

definition runDaemon :: "nat \<Rightarrow> recon_env \<Rightarrow> recon_config \<Rightarrow> unit recon_eff" where
  "runDaemon n env cfg = (if \<not> rc_enabled cfg then ret () else daemon_rounds n env cfg)"

end
