(* ===== verification/Recon_Facts.thy ===== *)
theory Recon_Facts imports Main Recon_Run begin

text \<open>What a reconciliation run keeps and counts.\<close>

section \<open>The tables' keys\<close>

definition tables_ok :: "recon_world \<Rightarrow> bool" where
  "tables_ok w \<longleftrightarrow> runs_ok (rw_runs w) \<and> drifts_ok (rw_drifts w) \<and> distinct (rw_scope w)"

text \<open>A view of the tables and the classification counter, which reads leave alone.\<close>

definition on_tables :: "(run_row list \<Rightarrow> (string \<times> string) list \<Rightarrow> drift_row list \<Rightarrow> nat \<Rightarrow> bool) \<Rightarrow> recon_world \<Rightarrow> bool" where
  "on_tables P w = P (rw_runs w) (rw_scope w) (rw_drifts w) (rw_classified w)"

lemma keeps_rquery:
  assumes "\<And>now w. on_tables P w \<Longrightarrow> on_tables P (snd (stmt now w))"
  shows "keeps (on_tables P) (rquery env stmt)"
proof (rule keepsI)
  fix w assume "on_tables P w"
  then have t: "on_tables P (rtick w)" by (simp add: on_tables_def)
  show "on_tables P (state_of (rquery env stmt w))"
  proof (cases "re_db env (rw_tick w)")
    case None
    have "on_tables P (snd (stmt (re_now env (rw_tick w)) (rtick w)))" by (rule assms [OF t])
    with None show ?thesis by (auto simp: rquery_def case_prod_beta)
  next
    case (Some e)
    with t show ?thesis by (simp add: rquery_def)
  qed
qed

lemma keeps_rreads [keeps_rules]: "keeps (on_tables P) (rask f)" "keeps (on_tables P) (rtry g)"
  by (auto intro!: keepsI simp: rask_def rtry_def on_tables_def)

lemma keeps_notifyCritical [keeps_rules]: "keeps (on_tables P) (notifyCriticalDrift env cfg k f)"
  by (rule keepsI) (simp add: notifyCriticalDrift_def on_tables_def split: prod.splits)

lemma keeps_onchain_getTrade [keeps_rules]: "keeps (on_tables P) (onchain_getTrade env t)"
  unfolding onchain_getTrade_def by (intro keeps_rules)

lemma keeps_read_onchain [keeps_rules]: "keeps (on_tables P) (read_onchain env t)"
  unfolding read_onchain_def by (intro keeps_rules)

lemma same_tables:
  assumes "\<And>P. keeps (on_tables P) m"
  shows "rw_runs (state_of (m w)) = rw_runs w" "rw_drifts (state_of (m w)) = rw_drifts w"
    "rw_scope (state_of (m w)) = rw_scope w" "rw_classified (state_of (m w)) = rw_classified w"
  using keepsD [OF assms [of "\<lambda>r s d c. r = rw_runs w \<and> s = rw_scope w \<and> d = rw_drifts w \<and> c = rw_classified w"], of w]
  by (simp_all add: on_tables_def)

abbreviation keys_ok :: "recon_world \<Rightarrow> bool" where
  "keys_ok \<equiv> on_tables (\<lambda>r s d _. runs_ok r \<and> drifts_ok d \<and> distinct s)"

lemma dr_key_refresh:
  "dr_key (d\<lparr>dr_finding := f\<lparr>df_tradeId := df_tradeId (dr_finding d),
     df_mismatchCode := df_mismatchCode (dr_finding d), df_comparedField := df_comparedField (dr_finding d)\<rparr>,
     dr_occurrences := n, dr_updated_at := now\<rparr>) = dr_key d"
  by (simp add: dr_key_def)

lemma keys_upsertDrift [keeps_rules]: "keeps keys_ok (upsertDrift env k f)"
  unfolding upsertDrift_def
  by (rule keeps_rquery) (auto simp: on_tables_def drifts_ok_def intro!: distinct_upsert dr_key_refresh)

lemma keys_upsertScope [keeps_rules]: "keeps keys_ok (upsertRunTradeScope env k t)"
  unfolding upsertRunTradeScope_def
  by (rule keeps_rquery) (use distinct_upsert [where key = id and f = id] in \<open>auto simp: on_tables_def\<close>)

lemma keys_createRun [keeps_rules]: "keeps keys_ok (createRun env k m)"
  unfolding createRun_def
  by (intro keeps_rules keeps_rquery)
     (auto simp: on_tables_def guarded_insert_Some split: option.splits)

lemma keys_completeRun [keeps_rules]: "keeps keys_ok (completeRun env s)"
  unfolding completeRun_def
  by (rule keeps_rquery) (auto simp: on_tables_def runs_ok_def map_update_where completed_row_def)

lemma keys_failRun [keeps_rules]: "keeps keys_ok (failRun env k m)"
  unfolding failRun_def
  by (rule keeps_rquery) (auto simp: on_tables_def runs_ok_def map_update_where failed_row_def)

lemma keys_increment [keeps_rules]: "keeps keys_ok incrementDriftClassification"
  unfolding incrementDriftClassification_def by (rule keeps_change) (simp add: on_tables_def)

lemma keys_reconcile_trade [keeps_rules]: "keeps keys_ok (reconcile_trade env cfg k a t)"
  unfolding reconcile_trade_def record_finding_def
  by (auto intro!: keeps_rules split: prod.splits)

lemma keeps_run_pages:
  assumes "\<And>n f. keeps P (rtry (f :: nat \<Rightarrow> js_error + indexed_trade list))"
    "\<And>k a t. keeps P (reconcile_trade env cfg k a t)"
  shows "keeps P (run_pages env cfg k tot off acc)"
  using assms
proof (induction env cfg k tot off acc rule: run_pages.induct)
  case (1 env cfg k tot off acc)
  show ?case
    unfolding run_pages.simps [of env cfg k tot off acc] Let_def
    by (intro keeps_rules "1.prems" "1.IH" refl) (auto simp: min_def)
qed

lemma keys_run_pages [keeps_rules]: "keeps keys_ok (run_pages env cfg k tot off acc)"
  by (intro keeps_run_pages keeps_rules)

lemma keys_run_body [keeps_rules]: "keeps keys_ok (run_body env cfg mode k)"
  unfolding run_body_def Let_def
  by (intro keeps_rules)

lemma keys_reconcileOnce [keeps_rules]: "keeps keys_ok (reconcileOnce env cfg mode ov)"
  unfolding reconcileOnce_def generateRunKey_def
  by (intro keeps_rules)

lemma keys_daemon_rounds [keeps_rules]: "keeps keys_ok (daemon_rounds n env cfg)"
proof (induction n)
  case (Suc n)
  have "keeps keys_ok (change (\<lambda>w. w\<lparr>rw_sleeps := rw_sleeps w @ [rc_daemonIntervalMs cfg]\<rparr>) :: unit recon_eff)"
    by (rule keeps_change) (simp add: on_tables_def)
  with Suc show ?case unfolding daemon_rounds.simps by (intro keeps_rules)
qed (simp add: keeps_ret)

section \<open>Counting\<close>

definition count1 :: "nat \<times> severity_counts \<Rightarrow> drift_finding \<Rightarrow> nat \<times> severity_counts" where
  "count1 acc f = (fst acc + 1, count_severity (df_severity f) (snd acc))"

lemma total_count_severity [simp]: "total_counts (count_severity s c) = total_counts c + 1"
  by (cases s) (simp_all add: total_counts_def)

text \<open>How often findings have been stored under a run key.\<close>

definition occurrences :: "string \<Rightarrow> drift_row list \<Rightarrow> nat" where
  "occurrences k rows = (\<Sum>d\<leftarrow>rows. if dr_run_key d = k then dr_occurrences d else 0)"

lemma occurrences_update:
  assumes "distinct (map dr_key rows)" "q \<in> set rows"
    "\<And>d. dr_key (f d) = dr_key d" "\<And>d. dr_occurrences (f d) = dr_occurrences d + 1"
  shows "occurrences k (update_where (\<lambda>d. dr_key d = dr_key q) f rows) =
    occurrences k rows + (if dr_run_key q = k then 1 else 0)"
proof -
  have run: "dr_run_key (f d) = dr_run_key d" for d
    using assms(3) [of d] by (simp add: dr_key_def)
  have none: "occurrences k (update_where (\<lambda>d. dr_key d = dr_key q) f rs) = occurrences k rs"
    if "dr_key q \<notin> dr_key ` set rs" for rs
    using that by (induction rs) (auto simp: occurrences_def update_where_def)
  show ?thesis
    using assms(1,2)
  proof (induction rows)
    case (Cons d rows)
    show ?case
    proof (cases "d = q")
      case True
      with Cons.prems have "dr_key q \<notin> dr_key ` set rows" by auto
      from none [OF this] True show ?thesis
        by (simp add: occurrences_def update_where_def run assms(4))
    next
      case False
      with Cons.prems have q: "q \<in> set rows" "distinct (map dr_key rows)" by auto
      with Cons.prems have "dr_key d \<noteq> dr_key q" by (auto simp: image_iff)
      with Cons.IH [OF q(2,1)] show ?thesis
        by (simp add: occurrences_def update_where_def)
    qed
  qed simp
qed

lemma occurrences_upsert:
  assumes "distinct (map dr_key rows)" "dr_occurrences r = 1"
    "\<And>d. dr_key (f d) = dr_key d" "\<And>d. dr_occurrences (f d) = dr_occurrences d + 1"
  shows "occurrences k (upsert dr_key f r rows) = occurrences k rows + (if dr_run_key r = k then 1 else 0)"
proof (cases "dr_key r \<in> dr_key ` set rows")
  case True
  then obtain q where q: "q \<in> set rows" "dr_key q = dr_key r" by auto
  from q(2) have "dr_run_key q = dr_run_key r" by (simp add: dr_key_def)
  with True q occurrences_update [OF assms(1) q(1), of f k] assms(3,4) show ?thesis
    by (simp add: upsert_def)
next
  case False
  with assms(2) show ?thesis by (simp add: upsert_def occurrences_def)
qed

text \<open>The state of a run whose local counters are \<open>acc\<close>.\<close>

definition tally :: "string \<Rightarrow> run_row list \<Rightarrow> nat \<Rightarrow> nat \<Rightarrow> nat \<times> severity_counts \<Rightarrow> recon_world \<Rightarrow> bool" where
  "tally k runs occ0 cls0 acc w \<longleftrightarrow>
     rw_runs w = runs \<and> drifts_ok (rw_drifts w) \<and> occurrences k (rw_drifts w) = occ0 + fst acc \<and>
     rw_classified w = cls0 + fst acc \<and> fst acc = total_counts (snd acc)"

definition on_return :: "('a \<Rightarrow> 'w \<Rightarrow> bool) \<Rightarrow> 'e + 'a \<Rightarrow> 'w \<Rightarrow> bool" where
  "on_return I r w \<longleftrightarrow> (case r of Inl _ \<Rightarrow> True | Inr s \<Rightarrow> I s w)"

lemma on_return_simps [simp]: "on_return I (Inl e) w" "on_return I (Inr s) = I s"
  by (simp_all add: on_return_def fun_eq_iff)

lemma triple_foldE:
  assumes "\<And>s x. x \<in> set xs \<Longrightarrow> triple (I s) (f s x) (on_return I)"
  shows "triple (I s) (foldE f s xs) (on_return I)"
  using assms
proof (induction xs arbitrary: s)
  case Nil
  show ?case by (auto intro: triple_ret)
next
  case (Cons x xs)
  have "triple (I s) (f s x) (on_return I)" by (rule Cons.prems) simp
  moreover have "triple (I s') (foldE f s' xs) (on_return I)" for s'
    by (rule Cons.IH) (simp add: Cons.prems)
  ultimately show ?case
    unfolding foldE.simps by (intro triple_bind [where R = "on_return I"]) simp_all
qed

lemma keeps_tally_read:
  assumes "\<And>P. keeps (on_tables P) m"
  shows "keeps (tally k runs o0 c0 acc) m"
proof -
  have "tally k runs o0 c0 acc = on_tables (\<lambda>r s d c. r = runs \<and> drifts_ok d \<and>
      occurrences k d = o0 + fst acc \<and> c = c0 + fst acc \<and> fst acc = total_counts (snd acc))"
    by (simp add: fun_eq_iff tally_def on_tables_def)
  then show ?thesis using assms by (simp only:)
qed

lemma tally_upsertDrift:
  assumes t: "tally k runs o0 c0 acc w" and u: "upsertDrift env k f w = (Inr (), w')"
  shows "rw_runs w' = runs \<and> drifts_ok (rw_drifts w') \<and>
    occurrences k (rw_drifts w') = o0 + fst acc + 1 \<and> rw_classified w' = c0 + fst acc"
proof -
  let ?d = "\<lparr>dr_run_key = k, dr_finding = f, dr_occurrences = 1,
    dr_created_at = re_now env (rw_tick w), dr_updated_at = re_now env (rw_tick w)\<rparr>"
  let ?g = "\<lambda>d. d\<lparr>dr_finding := f\<lparr>df_tradeId := df_tradeId (dr_finding d),
      df_mismatchCode := df_mismatchCode (dr_finding d), df_comparedField := df_comparedField (dr_finding d)\<rparr>,
    dr_occurrences := dr_occurrences d + 1, dr_updated_at := re_now env (rw_tick w)\<rparr>"
  have w': "w' = (rtick w)\<lparr>rw_drifts := upsert dr_key ?g ?d (rw_drifts w)\<rparr>"
    using u by (simp add: upsertDrift_def rquery_def split: option.splits)
  have d: "distinct (map dr_key (rw_drifts w))" using t by (simp add: tally_def drifts_ok_def)
  have "occurrences k (upsert dr_key ?g ?d (rw_drifts w)) = occurrences k (rw_drifts w) +
      (if dr_run_key ?d = k then 1 else 0)"
    by (rule occurrences_upsert [OF d]) (simp_all add: dr_key_refresh)
  moreover have "distinct (map dr_key (upsert dr_key ?g ?d (rw_drifts w)))"
    by (rule distinct_upsert [OF d]) (simp add: dr_key_refresh)
  ultimately show ?thesis using t by (simp add: w' tally_def drifts_ok_def)
qed

lemma triple_record_finding:
  "triple (tally k runs o0 c0 acc) (record_finding env cfg k acc f) (on_return (tally k runs o0 c0))"
proof (rule tripleI)
  fix w assume t: "tally k runs o0 c0 acc w"
  obtain r w1 where u: "upsertDrift env k f w = (r, w1)" by (cases "upsertDrift env k f w")
  show "on_return (tally k runs o0 c0) (result_of (record_finding env cfg k acc f w))
      (state_of (record_finding env cfg k acc f w))"
  proof (cases r)
    case (Inl e)
    with u show ?thesis by (simp add: record_finding_def eff_simps)
  next
    case (Inr x)
    obtain r2 w2 where n: "notifyCriticalDrift env cfg k f w1 = (r2, w2)"
      by (cases "notifyCriticalDrift env cfg k f w1")
    have ok: "r2 = Inr ()"
      using n by (auto simp: notifyCriticalDrift_def split: if_splits prod.splits)
    have same: "rw_runs w2 = rw_runs w1" "rw_drifts w2 = rw_drifts w1" "rw_classified w2 = rw_classified w1"
      using same_tables [OF keeps_notifyCritical, of env cfg k f w1] n by simp_all
    from tally_upsertDrift [OF t, of env f w1] u Inr t show ?thesis
      by (simp add: record_finding_def eff_simps n ok same incrementDriftClassification_def tally_def)
  qed
qed

lemma triple_reconcile_trade:
  "triple (tally k runs o0 c0 acc) (reconcile_trade env cfg k acc t) (on_return (tally k runs o0 c0))"
  unfolding reconcile_trade_def
proof (rule triple_seq [where R = "\<lambda>_. tally k runs o0 c0 acc"])
  have "keeps (tally k runs o0 c0 acc) (upsertRunTradeScope env k (it_tradeId t))"
    by (rule keepsI) (auto simp: upsertRunTradeScope_def rquery_def tally_def split: option.splits)
  then show "triple (tally k runs o0 c0 acc) (upsertRunTradeScope env k (it_tradeId t))
      (\<lambda>_. tally k runs o0 c0 acc)" by (rule triple_keeps)
next
  show "triple (tally k runs o0 c0 acc)
      (bindE (read_onchain env (it_tradeId t)) (\<lambda>(onchain, readError).
         foldE (record_finding env cfg k) acc (classifyDrifts (re_addresses env)
           \<lparr>ci_indexedTrade = t, ci_onchainTrade = onchain, ci_onchainReadError = readError\<rparr>)))
      (on_return (tally k runs o0 c0))"
    by (rule triple_bind [where R = "\<lambda>_. tally k runs o0 c0 acc"])
       (auto intro!: triple_keeps keeps_tally_read keeps_read_onchain triple_foldE triple_record_finding)
qed simp

definition limited :: "recon_env \<Rightarrow> bool" where
  "limited env \<longleftrightarrow> (\<forall>n limit offset ts. re_indexer env n limit offset = Inr ts \<longrightarrow> length ts \<le> limit)"

lemma triple_run_pages:
  "triple (tally k runs o0 c0 acc) (run_pages env cfg k tot off acc)
     (on_return (\<lambda>(tot', acc'). tally k runs o0 c0 acc'))"
proof (induction env cfg k tot off acc rule: run_pages.induct)
  case (1 env cfg k tot off acc)
  let ?T = "tally k runs o0 c0"
  show ?case
  proof (cases "tot < rc_maxTradesPerRun cfg")
    case False
    then show ?thesis by (subst run_pages.simps) (simp add: triple_def eff_simps)
  next
    case True
    let ?l = "min (rc_batchSize cfg) (rc_maxTradesPerRun cfg - tot)"
    have page: "triple (?T acc') (if length ts < ?l then ret (tot + length ts, acc')
        else run_pages env cfg k (tot + length ts) (off + length ts) acc')
        (on_return (\<lambda>(tot', acc'). ?T acc'))" if "ts \<noteq> []" for ts :: "indexed_trade list" and acc'
      using "1.IH" [OF True refl refl that, of acc'] by (auto simp: triple_def ret_app)
    have body: "triple (?T acc) (if ts = [] then ret (tot, acc)
        else bindE (foldE (reconcile_trade env cfg k) acc ts) (\<lambda>acc'.
          if length ts < ?l then ret (tot + length ts, acc')
          else run_pages env cfg k (tot + length ts) (off + length ts) acc'))
        (on_return (\<lambda>(tot', acc'). ?T acc'))" for ts
    proof (cases "ts = []")
      case True
      then show ?thesis by (simp add: triple_def ret_app)
    next
      case False
      have "triple (?T acc) (bindE (foldE (reconcile_trade env cfg k) acc ts) (\<lambda>acc'.
          if length ts < ?l then ret (tot + length ts, acc')
          else run_pages env cfg k (tot + length ts) (off + length ts) acc'))
        (on_return (\<lambda>(tot', acc'). ?T acc'))"
        by (rule triple_bind [where R = "on_return ?T"])
           (simp_all only: on_return_simps page [OF False] triple_foldE triple_reconcile_trade)
      with False show ?thesis by simp
    qed
    have read: "triple (?T acc) (rtry (\<lambda>n. re_indexer env n ?l off)) (\<lambda>_. ?T acc)"
      by (intro triple_keeps keeps_tally_read keeps_rreads)
    show ?thesis
      unfolding run_pages.simps [of env cfg k tot off acc] if_P [OF True] Let_def
      by (rule triple_bind [where R = "\<lambda>_. ?T acc", OF read]) (simp, rule body)
  qed
qed

lemma run_pages_limit:
  assumes "limited env" "run_pages env cfg k tot off acc w = (Inr (tot', acc'), w')"
    "tot \<le> rc_maxTradesPerRun cfg"
  shows "tot' \<le> rc_maxTradesPerRun cfg"
  using assms
proof (induction env cfg k tot off acc arbitrary: w rule: run_pages.induct)
  case (1 env cfg k tot off acc)
  show ?case
  proof (cases "tot < rc_maxTradesPerRun cfg")
    case False
    with "1.prems" show ?thesis by (simp add: run_pages.simps [of env cfg k tot] eff_simps)
  next
    case True
    let ?l = "min (rc_batchSize cfg) (rc_maxTradesPerRun cfg - tot)"
    show ?thesis
    proof (cases "re_indexer env (rw_tick w) ?l off")
      case (Inl e)
      with True "1.prems"(2) show ?thesis
        by (simp add: run_pages.simps [of env cfg k tot] eff_simps rtry_def Let_def)
    next
      case (Inr ts)
      with "1.prems"(1) have len: "length ts \<le> ?l" unfolding limited_def by blast
      show ?thesis
      proof (cases "ts = []")
        case True
        with Inr \<open>tot < _\<close> "1.prems"(2) show ?thesis
          by (simp add: run_pages.simps [of env cfg k tot] eff_simps rtry_def Let_def)
      next
        case False
        obtain r w1 where f: "foldE (reconcile_trade env cfg k) acc ts (rtick w) = (r, w1)"
          by (cases "foldE (reconcile_trade env cfg k) acc ts (rtick w)")
        from "1.prems"(2) obtain a where r: "r = Inr a"
          and rest: "(if length ts < ?l then ret (tot + length ts, a)
            else run_pages env cfg k (tot + length ts) (off + length ts) a) w1 = (Inr (tot', acc'), w')"
          using True Inr False f
          by (cases r) (auto simp: run_pages.simps [of env cfg k tot] eff_simps rtry_def Let_def)
        show ?thesis
        proof (cases "length ts < ?l")
          case True
          with rest show ?thesis by (auto simp: eff_simps)
        next
          case more: False
          with rest have "run_pages env cfg k (tot + length ts) (off + length ts) a w1 = (Inr (tot', acc'), w')"
            by (simp only: if_False)
          moreover have "tot + length ts \<le> rc_maxTradesPerRun cfg" using len True by auto
          ultimately show ?thesis by (rule "1.IH" [OF True refl refl False more "1.prems"(1)])
        qed
      qed
    qed
  qed
qed

end
