(* ===== verification/Recon_Spec.thy ===== *)
theory Recon_Spec imports Main Recon_Facts begin

text \<open>
  The specification of a reconciliation run against a chain and an index that do not change while
  it runs: the findings of comparing every indexed trade with the chain, in the order of the index.
\<close>

section \<open>The reference\<close>

definition chain_view :: "(string \<Rightarrow> js_error + raw_trade) \<Rightarrow> string \<Rightarrow> trade option \<times> string option" where
  "chain_view chain tradeId =
     (case chain tradeId of
        Inl e \<Rightarrow> (None, Some (''Failed to get trade: '' @ js_message e))
      | Inr r \<Rightarrow> (Some (trade_of_raw r), None))"

definition findings_of :: "address_functions \<Rightarrow> (string \<Rightarrow> js_error + raw_trade) \<Rightarrow> indexed_trade \<Rightarrow> drift_finding list" where
  "findings_of af chain t =
     (case chain_view chain (it_tradeId t) of (onchain, readError) \<Rightarrow>
        classifyDrifts af \<lparr>ci_indexedTrade = t, ci_onchainTrade = onchain, ci_onchainReadError = readError\<rparr>)"

definition all_findings :: "address_functions \<Rightarrow> (string \<Rightarrow> js_error + raw_trade) \<Rightarrow> indexed_trade list \<Rightarrow> drift_finding list" where
  "all_findings af chain ts = concat (map (findings_of af chain) ts)"

definition steady :: "recon_env \<Rightarrow> (string \<Rightarrow> js_error + raw_trade) \<Rightarrow> bool" where
  "steady env chain \<longleftrightarrow> (\<forall>n. re_db env n = None) \<and> (\<forall>n tid. re_trades env n tid = chain tid)"

definition serves_index :: "recon_env \<Rightarrow> indexed_trade list \<Rightarrow> bool" where
  "serves_index env index \<longleftrightarrow>
     (\<forall>n limit offset. re_indexer env n limit offset = Inr (take limit (drop offset index)))"

section \<open>What is stored\<close>

definition drift_keys :: "recon_world \<Rightarrow> (string \<times> string \<times> drift_code \<times> string) set" where
  "drift_keys w = dr_key ` set (rw_drifts w)"

definition finding_row_key :: "string \<Rightarrow> drift_finding \<Rightarrow> string \<times> string \<times> drift_code \<times> string" where
  "finding_row_key k f = (k, df_tradeId f, df_mismatchCode f, df_comparedField f)"

lemma keys_of_upsert:
  assumes "\<And>q. key (f q) = key q"
  shows "key ` set (upsert key f r rows) = insert (key r) (key ` set rows)"
proof -
  have "key ` set (update_where P f rows) = key ` set rows" for P
    using arg_cong [OF map_update_where [of key f P rows, OF assms], of set] by simp
  then show ?thesis by (auto simp: upsert_def)
qed

lemma steady_record_finding:
  assumes "steady env chain"
  obtains w' where "record_finding env cfg k acc f w = (Inr (count1 acc f), w')"
    "rw_runs w' = rw_runs w" "rw_scope w' = rw_scope w"
    "drift_keys w' = insert (finding_row_key k f) (drift_keys w)"
proof -
  obtain w1 where u: "upsertDrift env k f w = (Inr (), w1)" "rw_runs w1 = rw_runs w" "rw_scope w1 = rw_scope w"
    "drift_keys w1 = insert (finding_row_key k f) (drift_keys w)"
    using assms by (auto simp: upsertDrift_def rquery_def steady_def drift_keys_def keys_of_upsert
        dr_key_refresh) (simp add: dr_key_def finding_row_key_def)
  obtain r w2 where n: "notifyCriticalDrift env cfg k f w1 = (r, w2)"
    by (cases "notifyCriticalDrift env cfg k f w1")
  have ok: "r = Inr ()"
    using n by (auto simp: notifyCriticalDrift_def split: if_splits prod.splits)
  have same: "rw_runs w2 = rw_runs w1" "rw_drifts w2 = rw_drifts w1" "rw_scope w2 = rw_scope w1"
    using same_tables [OF keeps_notifyCritical, of env cfg k f w1] n by simp_all
  show ?thesis
    by (rule that [of "w2\<lparr>rw_classified := rw_classified w2 + 1\<rparr>"])
       (use u same in \<open>simp_all add: record_finding_def eff_simps n ok incrementDriftClassification_def
          count1_def drift_keys_def\<close>)
qed

lemma steady_record_findings:
  assumes "steady env chain"
  shows "\<exists>w'. foldE (record_finding env cfg k) acc fs w = (Inr (foldl count1 acc fs), w') \<and>
    rw_runs w' = rw_runs w \<and> rw_scope w' = rw_scope w \<and>
    drift_keys w' = finding_row_key k ` set fs \<union> drift_keys w"
proof (induction fs arbitrary: acc w)
  case (Cons f fs)
  obtain w1 where w1: "record_finding env cfg k acc f w = (Inr (count1 acc f), w1)"
    "rw_runs w1 = rw_runs w" "rw_scope w1 = rw_scope w"
    "drift_keys w1 = insert (finding_row_key k f) (drift_keys w)"
    by (rule steady_record_finding [OF assms])
  from Cons.IH [of "count1 acc f" w1] w1 show ?case by (auto simp: bindE_app)
qed (simp add: eff_simps)

lemma steady_read:
  assumes "steady env chain"
  shows "read_onchain env t w = (Inr (chain_view chain t), rtick w)"
  using assms by (simp add: read_onchain_def onchain_getTrade_def rtry_def eff_simps steady_def
      chain_view_def sdk_contract_error_def split: sum.splits)

lemma steady_reconcile_trade:
  assumes "steady env chain"
  shows "\<exists>w'. reconcile_trade env cfg k acc t w =
      (Inr (foldl count1 acc (findings_of (re_addresses env) chain t)), w') \<and>
    rw_runs w' = rw_runs w \<and> set (rw_scope w') = insert (k, it_tradeId t) (set (rw_scope w)) \<and>
    drift_keys w' = finding_row_key k ` set (findings_of (re_addresses env) chain t) \<union> drift_keys w"
proof -
  let ?w1 = "(rtick w)\<lparr>rw_scope := upsert id id (k, it_tradeId t) (rw_scope w)\<rparr>"
  have s: "upsertRunTradeScope env k (it_tradeId t) w = (Inr (), ?w1)"
    using assms by (simp add: upsertRunTradeScope_def rquery_def steady_def)
  have sc: "set (rw_scope ?w1) = insert (k, it_tradeId t) (set (rw_scope w))"
    using keys_of_upsert [of id id "(k, it_tradeId t)" "rw_scope w"] by simp
  obtain w' where w': "foldE (record_finding env cfg k) acc (findings_of (re_addresses env) chain t) (rtick ?w1) =
      (Inr (foldl count1 acc (findings_of (re_addresses env) chain t)), w')"
    "rw_runs w' = rw_runs w" "rw_scope w' = rw_scope ?w1"
    "drift_keys w' = finding_row_key k ` set (findings_of (re_addresses env) chain t) \<union> drift_keys w"
    using steady_record_findings [OF assms, of cfg k acc "findings_of (re_addresses env) chain t" "rtick ?w1"]
    by (auto simp: drift_keys_def)
  show ?thesis
    using w' sc by (auto simp: reconcile_trade_def seqE_app bindE_app s steady_read [OF assms]
        findings_of_def case_prod_beta)
qed

lemma steady_page:
  assumes "steady env chain"
  shows "\<exists>w'. foldE (reconcile_trade env cfg k) acc ts w =
      (Inr (foldl count1 acc (all_findings (re_addresses env) chain ts)), w') \<and>
    rw_runs w' = rw_runs w \<and>
    set (rw_scope w') = (\<lambda>t. (k, it_tradeId t)) ` set ts \<union> set (rw_scope w) \<and>
    drift_keys w' = finding_row_key k ` set (all_findings (re_addresses env) chain ts) \<union> drift_keys w"
proof (induction ts arbitrary: acc w)
  case (Cons t ts)
  obtain w1 where w1: "reconcile_trade env cfg k acc t w =
      (Inr (foldl count1 acc (findings_of (re_addresses env) chain t)), w1)"
    "rw_runs w1 = rw_runs w" "set (rw_scope w1) = insert (k, it_tradeId t) (set (rw_scope w))"
    "drift_keys w1 = finding_row_key k ` set (findings_of (re_addresses env) chain t) \<union> drift_keys w"
    using steady_reconcile_trade [OF assms] by blast
  obtain w2 where w2: "foldE (reconcile_trade env cfg k)
        (foldl count1 acc (findings_of (re_addresses env) chain t)) ts w1 =
      (Inr (foldl count1 (foldl count1 acc (findings_of (re_addresses env) chain t))
        (all_findings (re_addresses env) chain ts)), w2)"
    "rw_runs w2 = rw_runs w1"
    "set (rw_scope w2) = (\<lambda>t. (k, it_tradeId t)) ` set ts \<union> set (rw_scope w1)"
    "drift_keys w2 = finding_row_key k ` set (all_findings (re_addresses env) chain ts) \<union> drift_keys w1"
    using Cons.IH by blast
  have "foldE (reconcile_trade env cfg k) acc (t # ts) w =
      (Inr (foldl count1 acc (all_findings (re_addresses env) chain (t # ts))), w2)"
    by (simp add: bindE_app w1(1) w2(1) all_findings_def)
  moreover have "drift_keys w2 = finding_row_key k ` set (all_findings (re_addresses env) chain (t # ts)) \<union> drift_keys w"
    unfolding w2(4) w1(4) by (auto simp: all_findings_def)
  ultimately show ?case using w1(2,3) w2(2,3) by auto
qed (simp add: eff_simps all_findings_def)

section \<open>The pages\<close>

text \<open>The trades a run reads: the first \<open>maxTradesPerRun\<close> of the index from where it is.\<close>

lemma take_page:
  assumes "l \<le> m"
  shows "take m xs = take l xs @ take (m - l) (drop l xs)"
  using assms by (metis le_add_diff_inverse take_add)

lemma short_page: "length (take l xs) < l \<Longrightarrow> l \<le> m \<Longrightarrow> take m xs = take l xs"
  by simp

lemma long_page: "\<not> length (take l xs) < l \<Longrightarrow> length (take l xs) = l"
  by simp

lemma all_findings_append: "all_findings af chain (xs @ ys) = all_findings af chain xs @ all_findings af chain ys"
  by (simp add: all_findings_def)

lemma steady_run_pages:
  assumes "steady env chain" "serves_index env index" "0 < rc_batchSize cfg" "off = tot"
    "tot \<le> rc_maxTradesPerRun cfg"
  shows "\<exists>w'. run_pages env cfg k tot off acc w =
      (Inr (tot + length (take (rc_maxTradesPerRun cfg - tot) (drop tot index)),
         foldl count1 acc (all_findings (re_addresses env) chain
           (take (rc_maxTradesPerRun cfg - tot) (drop tot index)))), w') \<and>
    rw_runs w' = rw_runs w \<and>
    set (rw_scope w') = (\<lambda>t. (k, it_tradeId t)) ` set (take (rc_maxTradesPerRun cfg - tot) (drop tot index))
      \<union> set (rw_scope w) \<and>
    drift_keys w' = finding_row_key k ` set (all_findings (re_addresses env) chain
      (take (rc_maxTradesPerRun cfg - tot) (drop tot index))) \<union> drift_keys w"
  using assms
proof (induction env cfg k tot off acc arbitrary: w rule: run_pages.induct)
  case (1 env cfg k tot off acc)
  let ?m = "rc_maxTradesPerRun cfg - tot" and ?rest = "drop tot index"
  let ?l = "min (rc_batchSize cfg) ?m"
  let ?ts = "take ?l ?rest"
  show ?case
  proof (cases "tot < rc_maxTradesPerRun cfg")
    case False
    then show ?thesis by (simp add: run_pages.simps [of env cfg k tot] eff_simps all_findings_def)
  next
    case True
    have l: "0 < ?l" using True "1.prems"(3) by simp
    have read: "rtry (\<lambda>n. re_indexer env n ?l off) w = (Inr ?ts, rtick w)"
      using "1.prems"(2,4) by (simp add: rtry_def serves_index_def)
    have split: "take ?m ?rest = ?ts @ take (?m - ?l) (drop ?l ?rest)" by (rule take_page) simp
    show ?thesis
    proof (cases "?ts = []")
      case True
      then have "?rest = []" using l by (metis less_numeral_extra(3) take_eq_Nil)
      with \<open>tot < _\<close> read show ?thesis
        by (simp add: run_pages.simps [of env cfg k tot] bindE_app ret_app Let_def all_findings_def drift_keys_def)
    next
      case False
      obtain w1 where page: "foldE (reconcile_trade env cfg k) acc ?ts (rtick w) =
          (Inr (foldl count1 acc (all_findings (re_addresses env) chain ?ts)), w1)"
        "rw_runs w1 = rw_runs w"
        "set (rw_scope w1) = (\<lambda>t. (k, it_tradeId t)) ` set ?ts \<union> set (rw_scope w)"
        "drift_keys w1 = finding_row_key k ` set (all_findings (re_addresses env) chain ?ts) \<union> drift_keys w"
        using steady_page [OF "1.prems"(1), of cfg k acc ?ts "rtick w"] by (auto simp: drift_keys_def)
      let ?a = "foldl count1 acc (all_findings (re_addresses env) chain ?ts)"
      have step: "run_pages env cfg k tot off acc w =
          (if length ?ts < ?l then ret (tot + length ?ts, ?a)
           else run_pages env cfg k (tot + length ?ts) (off + length ?ts) ?a) w1"
        unfolding run_pages.simps [of env cfg k tot off acc] if_P [OF True] Let_def
        by (simp only: bindE_app read prod.case sum.case if_not_P [OF False] page(1))
      show ?thesis
      proof (cases "length ?ts < ?l")
        case True
        then have "take ?m ?rest = ?ts" by (rule short_page) simp
        with True step page show ?thesis by (simp add: ret_app)
      next
        case more: False
        then have len: "length ?ts = ?l" by (rule long_page)
        have le: "tot + ?l \<le> rc_maxTradesPerRun cfg" using True by auto
        have eqs: "drop (tot + ?l) index = drop ?l ?rest" "rc_maxTradesPerRun cfg - (tot + ?l) = ?m - ?l"
          by (simp_all add: add.commute)
        have off: "off + ?l = tot + ?l" using "1.prems"(4) by simp
        let ?r = "take (?m - ?l) (drop ?l ?rest)"
        obtain w' where w': "run_pages env cfg k (tot + ?l) (off + ?l) ?a w1 =
            (Inr (tot + ?l + length ?r, foldl count1 ?a (all_findings (re_addresses env) chain ?r)), w')"
          "rw_runs w' = rw_runs w1"
          "set (rw_scope w') = (\<lambda>t. (k, it_tradeId t)) ` set ?r \<union> set (rw_scope w1)"
          "drift_keys w' = finding_row_key k ` set (all_findings (re_addresses env) chain ?r) \<union> drift_keys w1"
          using "1.IH" [OF True refl refl False more "1.prems"(1,2,3), unfolded len, OF off le, of ?a w1]
          unfolding eqs by blast
        have runs: "run_pages env cfg k tot off acc w =
            (Inr (tot + ?l + length ?r, foldl count1 ?a (all_findings (re_addresses env) chain ?r)), w')"
          using w'(1) by (simp only: step len less_irrefl if_False)
        have total: "tot + length (take ?m ?rest) = tot + ?l + length ?r"
          unfolding split length_append len by simp
        have "drift_keys w' = finding_row_key k ` set (all_findings (re_addresses env) chain (take ?m ?rest)) \<union> drift_keys w"
          unfolding split all_findings_append set_append image_Un w'(4) page(4) by blast
        moreover have "set (rw_scope w') = (\<lambda>t. (k, it_tradeId t)) ` set (take ?m ?rest) \<union> set (rw_scope w)"
          unfolding split set_append image_Un w'(3) page(3) by blast
        moreover have "foldl count1 acc (all_findings (re_addresses env) chain (take ?m ?rest)) =
            foldl count1 ?a (all_findings (re_addresses env) chain ?r)"
          unfolding split all_findings_append by simp
        ultimately show ?thesis
          unfolding total using runs w'(2) page(2) by metis
      qed
    qed
  qed
qed

section \<open>The whole run\<close>

definition reference_counts ::
  "address_functions \<Rightarrow> (string \<Rightarrow> js_error + raw_trade) \<Rightarrow> indexed_trade list \<Rightarrow> nat \<times> severity_counts" where
  "reference_counts af chain ts = foldl count1 (0, no_counts) (all_findings af chain ts)"

lemma count1_total: "fst (foldl count1 acc fs) = fst acc + length fs"
  by (induction fs arbitrary: acc) (auto simp: count1_def)

lemma reference_drift_count: "fst (reference_counts af chain ts) = length (all_findings af chain ts)"
  by (simp add: reference_counts_def count1_total)

definition completed_stats :: "string \<Rightarrow> reconcile_mode \<Rightarrow> nat \<Rightarrow> nat \<times> severity_counts \<Rightarrow> run_stats" where
  "completed_stats k mode n acc =
     \<lparr>st_runKey = k, st_mode = mode, st_totalTrades = n, st_driftCount = fst acc,
      st_severityCounts = snd acc, st_status = COMPLETED, st_skippedReason = None\<rparr>"

lemma steady_run_body:
  assumes "steady env chain" "serves_index env index" "0 < rc_batchSize cfg"
  defines "ts \<equiv> take (rc_maxTradesPerRun cfg) index"
  shows "\<exists>w' now. run_body env cfg mode k w =
      (Inr (completed_stats k mode (length ts) (reference_counts (re_addresses env) chain ts)), w') \<and>
    rw_runs w' = update_where (\<lambda>r. rr_run_key r = k)
      (completed_row now (completed_stats k mode (length ts) (reference_counts (re_addresses env) chain ts)))
      (rw_runs w) \<and>
    set (rw_scope w') = (\<lambda>t. (k, it_tradeId t)) ` set ts \<union> set (rw_scope w) \<and>
    drift_keys w' = finding_row_key k ` set (all_findings (re_addresses env) chain ts) \<union> drift_keys w"
proof -
  obtain w1 where w1: "run_pages env cfg k 0 0 (0, no_counts) w =
      (Inr (length ts, reference_counts (re_addresses env) chain ts), w1)"
    "rw_runs w1 = rw_runs w"
    "set (rw_scope w1) = (\<lambda>t. (k, it_tradeId t)) ` set ts \<union> set (rw_scope w)"
    "drift_keys w1 = finding_row_key k ` set (all_findings (re_addresses env) chain ts) \<union> drift_keys w"
    using steady_run_pages [OF assms(1-3), of 0 0 k "(0, no_counts)" w]
    by (auto simp: ts_def reference_counts_def)
  have up: "re_db env n = None" for n using assms(1) by (simp add: steady_def)
  show ?thesis
    using w1 by (auto simp: run_body_def catchE_app bindE_app seqE_app ret_app case_prod_beta Let_def
        completeRun_def rquery_def up completed_stats_def drift_keys_def)
qed

end
