(* ===== verification/Recon_Report.thy ===== *)
theory Recon_Report imports Main Js_Text "HOL-Library.Multiset" begin

text \<open>
  The reconciliation report (\<open>reconciliation/src/core/reconciliationReport.ts\<close>).  The order
  \<open>localeCompare\<close> of the host is a parameter.  \<open>js_sort\<close> is the stable sort that ECMAScript
  promises for a consistent comparator.
\<close>

section \<open>Sorting\<close>

fun insert_by :: "('a \<Rightarrow> 'a \<Rightarrow> int) \<Rightarrow> 'a \<Rightarrow> 'a list \<Rightarrow> 'a list" where
  "insert_by cmp x [] = [x]"
| "insert_by cmp x (y # ys) = (if cmp x y \<le> 0 then x # y # ys else y # insert_by cmp x ys)"

definition js_sort :: "('a \<Rightarrow> 'a \<Rightarrow> int) \<Rightarrow> 'a list \<Rightarrow> 'a list" where
  "js_sort cmp xs = foldr (insert_by cmp) xs []"

text \<open>The values of a \<open>Set\<close> in the order of their first insertion.\<close>

fun js_set :: "'a list \<Rightarrow> 'a list" where
  "js_set [] = []"
| "js_set (x # xs) = x # filter (\<lambda>y. y \<noteq> x) (js_set xs)"

section \<open>Rows\<close>

datatype reconciliation_verdict = MATCH | MISMATCH

record report_input =
  ri_tradeId :: string
  ri_txHash :: "string option"
  ri_extrinsicHash :: "string option"
  ri_payoutState :: "string option"
  ri_mismatchCodes :: "string list"
  ri_ledgerEntryId :: "int option"

record report_row =
  rp_tradeId :: string
  rp_txHash :: "string option"
  rp_extrinsicHash :: "string option"
  rp_payoutState :: "string option"
  rp_verdict :: reconciliation_verdict
  rp_mismatchReason :: "string option"

record reconciliation_report =
  rt_reportVersion :: string
  rt_runKey :: "string option"
  rt_rows :: "report_row list"
  rt_rowCount :: nat
  rt_matchCount :: nat
  rt_mismatchCount :: nat

type_synonym locale_compare = "string \<Rightarrow> string \<Rightarrow> int"

definition RECONCILIATION_REPORT_VERSION :: string where
  "RECONCILIATION_REPORT_VERSION = ''1.0''"

definition MAX_SAFE_INTEGER :: int where
  "MAX_SAFE_INTEGER = 9007199254740991"

definition compareNullableStrings :: "locale_compare \<Rightarrow> string option \<Rightarrow> string option \<Rightarrow> int" where
  "compareNullableStrings loc a b =
     (if a = b then 0 else if a = None then 1 else if b = None then -1 else loc (the a) (the b))"

definition compareTradeIds :: "locale_compare \<Rightarrow> string \<Rightarrow> string \<Rightarrow> int" where
  "compareTradeIds loc a b =
     (if all_digits a \<and> all_digits b then
        (let aInt = nat_of_digits 0 a; bInt = nat_of_digits 0 b
         in if aInt = bInt then 0 else if aInt < bInt then -1 else 1)
      else loc a b)"

definition report_row_of :: "locale_compare \<Rightarrow> report_input \<Rightarrow> report_row \<times> int option" where
  "report_row_of loc row =
     (let uniqueMismatchCodes = js_sort loc (js_set (ri_mismatchCodes row))
      in (\<lparr>rp_tradeId = ri_tradeId row, rp_txHash = ri_txHash row, rp_extrinsicHash = ri_extrinsicHash row,
           rp_payoutState = ri_payoutState row,
           rp_verdict = (if length uniqueMismatchCodes > 0 then MISMATCH else MATCH),
           rp_mismatchReason = (if length uniqueMismatchCodes > 0
             then Some (join_with '','' uniqueMismatchCodes) else None)\<rparr>,
          ri_ledgerEntryId row))"

definition ledger_entry :: "int option \<Rightarrow> int" where
  "ledger_entry l = (case l of None \<Rightarrow> MAX_SAFE_INTEGER | Some n \<Rightarrow> n)"

definition compare_rows :: "locale_compare \<Rightarrow> report_row \<times> int option \<Rightarrow> report_row \<times> int option \<Rightarrow> int" where
  "compare_rows loc x y =
     (let a = fst x; b = fst y;
          byTrade = compareTradeIds loc (rp_tradeId a) (rp_tradeId b);
          byTx = compareNullableStrings loc (rp_txHash a) (rp_txHash b);
          byExtrinsic = compareNullableStrings loc (rp_extrinsicHash a) (rp_extrinsicHash b);
          byState = compareNullableStrings loc (rp_payoutState a) (rp_payoutState b)
      in if byTrade \<noteq> 0 then byTrade else if byTx \<noteq> 0 then byTx
         else if byExtrinsic \<noteq> 0 then byExtrinsic else if byState \<noteq> 0 then byState
         else ledger_entry (snd x) - ledger_entry (snd y))"

definition buildReconciliationReportRows :: "locale_compare \<Rightarrow> report_input list \<Rightarrow> report_row list" where
  "buildReconciliationReportRows loc inputRows =
     map fst (js_sort (compare_rows loc) (map (report_row_of loc) inputRows))"

definition buildReconciliationReport ::
  "locale_compare \<Rightarrow> string option \<Rightarrow> report_input list \<Rightarrow> reconciliation_report" where
  "buildReconciliationReport loc runKey inputRows =
     (let rows = buildReconciliationReportRows loc inputRows;
          matchCount = length (filter (\<lambda>row. rp_verdict row = MATCH) rows);
          mismatchCount = length rows - matchCount
      in \<lparr>rt_reportVersion = RECONCILIATION_REPORT_VERSION, rt_runKey = runKey, rt_rows = rows,
          rt_rowCount = length rows, rt_matchCount = matchCount, rt_mismatchCount = mismatchCount\<rparr>)"

section \<open>The sort\<close>

lemma mset_insert_by: "mset (insert_by cmp x ys) = add_mset x (mset ys)"
  by (induction ys) auto

lemma mset_js_sort: "mset (js_sort cmp xs) = mset xs"
  by (induction xs) (auto simp: js_sort_def mset_insert_by)

lemma set_js_sort: "set (js_sort cmp xs) = set xs"
  by (metis mset_js_sort set_mset_mset)

lemma set_js_set: "set (js_set xs) = set xs"
  by (induction xs) auto

lemma js_sort_empty: "js_sort cmp xs = [] \<longleftrightarrow> xs = []"
  by (metis set_js_sort set_empty)

text \<open>A comparator that is a total preorder on the values to sort.\<close>

definition consistent_on :: "'a set \<Rightarrow> ('a \<Rightarrow> 'a \<Rightarrow> int) \<Rightarrow> bool" where
  "consistent_on A cmp \<longleftrightarrow>
     (\<forall>x \<in> A. \<forall>y \<in> A. cmp x y \<le> 0 \<longleftrightarrow> 0 \<le> cmp y x) \<and>
     (\<forall>x \<in> A. \<forall>y \<in> A. \<forall>z \<in> A. cmp x y \<le> 0 \<longrightarrow> cmp y z \<le> 0 \<longrightarrow> cmp x z \<le> 0)"

lemma consistent_swap: "consistent_on A cmp \<Longrightarrow> x \<in> A \<Longrightarrow> y \<in> A \<Longrightarrow> cmp x y \<le> 0 \<longleftrightarrow> 0 \<le> cmp y x"
  unfolding consistent_on_def by blast

lemma consistent_trans:
  "consistent_on A cmp \<Longrightarrow> x \<in> A \<Longrightarrow> y \<in> A \<Longrightarrow> z \<in> A \<Longrightarrow> cmp x y \<le> 0 \<Longrightarrow> cmp y z \<le> 0 \<Longrightarrow> cmp x z \<le> 0"
  unfolding consistent_on_def by blast

lemma set_insert_by: "set (insert_by cmp x ys) = insert x (set ys)"
  by (induction ys) auto

lemma sorted_insert_by:
  assumes "consistent_on A cmp" "x \<in> A" "set ys \<subseteq> A" "sorted_wrt (\<lambda>a b. cmp a b \<le> 0) ys"
  shows "sorted_wrt (\<lambda>a b. cmp a b \<le> 0) (insert_by cmp x ys)"
  using assms(3,4)
proof (induction ys)
  case (Cons y ys)
  show ?case
  proof (cases "cmp x y \<le> 0")
    case True
    have "cmp x z \<le> 0" if "z \<in> set ys" for z
    proof (rule consistent_trans [OF assms(1,2) _ _ True])
      show "y \<in> A" "z \<in> A" "cmp y z \<le> 0" using that Cons.prems by auto
    qed
    with True Cons.prems show ?thesis by simp
  next
    case False
    have "y \<in> A" using Cons.prems(1) by simp
    from consistent_swap [OF assms(1) this assms(2)] False have "cmp y x \<le> 0" by simp
    moreover have "sorted_wrt (\<lambda>a b. cmp a b \<le> 0) (insert_by cmp x ys)"
      using Cons by simp
    ultimately show ?thesis using False Cons.prems by (simp add: set_insert_by)
  qed
qed simp

lemma sorted_js_sort:
  assumes "consistent_on (set xs) cmp"
  shows "sorted_wrt (\<lambda>a b. cmp a b \<le> 0) (js_sort cmp xs)"
proof -
  have "sorted_wrt (\<lambda>a b. cmp a b \<le> 0) (js_sort cmp ys)" if "set ys \<subseteq> set xs" for ys
    using that
  proof (induction ys)
    case (Cons y ys)
    then have "sorted_wrt (\<lambda>a b. cmp a b \<le> 0) (js_sort cmp ys)" by simp
    then show ?case
      using sorted_insert_by [OF assms, of y "js_sort cmp ys"] Cons.prems
      by (simp add: js_sort_def set_js_sort [unfolded js_sort_def])
  qed (simp add: js_sort_def)
  then show ?thesis by simp
qed

text \<open>A second comparator that decides only the ties of the first.\<close>

definition then_by :: "('a \<Rightarrow> 'a \<Rightarrow> int) \<Rightarrow> ('a \<Rightarrow> 'a \<Rightarrow> int) \<Rightarrow> 'a \<Rightarrow> 'a \<Rightarrow> int" where
  "then_by c d x y = (if c x y \<noteq> 0 then c x y else d x y)"

lemma consistent_then_by:
  assumes "consistent_on A c" "consistent_on A d"
  shows "consistent_on A (then_by c d)"
proof -
  note cs = consistent_swap [OF assms(1)] and ds = consistent_swap [OF assms(2)]
  have zero: "c x y = 0 \<longleftrightarrow> c y x = 0" if "x \<in> A" "y \<in> A" for x y
    using cs [OF that] cs [OF that(2,1)] by linarith
  have "then_by c d x z \<le> 0"
    if A: "x \<in> A" "y \<in> A" "z \<in> A" and le: "then_by c d x y \<le> 0" "then_by c d y z \<le> 0" for x y z
  proof -
    have c: "c x y \<le> 0" "c y z \<le> 0" using le by (auto simp: then_by_def split: if_splits)
    then have xz: "c x z \<le> 0" by (rule consistent_trans [OF assms(1) A])
    show ?thesis
    proof (cases "c x z = 0")
      case True
      then have zx: "c z x \<le> 0" using zero [OF A(1,3)] by simp
      have "c y x \<le> 0" using c(2) zx by (rule consistent_trans [OF assms(1) A(2,3,1)])
      then have xy: "c x y = 0" using c(1) cs [OF A(2,1)] by simp
      have "c z y \<le> 0" using zx c(1) by (rule consistent_trans [OF assms(1) A(3,1,2)])
      then have yz: "c y z = 0" using c(2) cs [OF A(3,2)] by simp
      have "d x y \<le> 0" "d y z \<le> 0" using le xy yz by (simp_all add: then_by_def)
      then have "d x z \<le> 0" by (rule consistent_trans [OF assms(2) A])
      with True show ?thesis by (simp add: then_by_def)
    next
      case False
      with xz show ?thesis by (simp add: then_by_def)
    qed
  qed
  moreover have "then_by c d x y \<le> 0 \<longleftrightarrow> 0 \<le> then_by c d y x" if "x \<in> A" "y \<in> A" for x y
    using cs [OF that] ds [OF that] zero [OF that] by (simp add: then_by_def)
  ultimately show ?thesis unfolding consistent_on_def by blast
qed

lemma consistent_subset: "consistent_on B cmp \<Longrightarrow> A \<subseteq> B \<Longrightarrow> consistent_on A cmp"
  unfolding consistent_on_def by blast

lemma consistent_image: "consistent_on (f ` A) cmp \<Longrightarrow> consistent_on A (\<lambda>x y. cmp (f x) (f y))"
  unfolding consistent_on_def by blast

lemma compare_rows_levels:
  "compare_rows loc = then_by (\<lambda>x y. compareTradeIds loc (rp_tradeId (fst x)) (rp_tradeId (fst y)))
     (then_by (\<lambda>x y. compareNullableStrings loc (rp_txHash (fst x)) (rp_txHash (fst y)))
     (then_by (\<lambda>x y. compareNullableStrings loc (rp_extrinsicHash (fst x)) (rp_extrinsicHash (fst y)))
     (then_by (\<lambda>x y. compareNullableStrings loc (rp_payoutState (fst x)) (rp_payoutState (fst y)))
       (\<lambda>x y. ledger_entry (snd x) - ledger_entry (snd y)))))"
  by (simp add: fun_eq_iff compare_rows_def then_by_def Let_def)

lemma consistent_nullable:
  assumes "consistent_on UNIV loc" "\<And>a. loc a a = 0"
  shows "consistent_on A (compareNullableStrings loc)"
proof -
  note s = consistent_swap [OF assms(1) UNIV_I UNIV_I] and t = consistent_trans [OF assms(1) UNIV_I UNIV_I UNIV_I]
  have "compareNullableStrings loc x y \<le> 0 \<longleftrightarrow> 0 \<le> compareNullableStrings loc y x" for x y
    using s by (auto simp: compareNullableStrings_def)
  moreover have "compareNullableStrings loc x z \<le> 0"
    if "compareNullableStrings loc x y \<le> 0" "compareNullableStrings loc y z \<le> 0" for x y z
    using that t [of "the x" "the y" "the z"] by (auto simp: compareNullableStrings_def split: if_splits)
  ultimately show ?thesis unfolding consistent_on_def by blast
qed

lemma consistent_numeric: "consistent_on {a. all_digits a} (compareTradeIds loc)"
  by (auto simp: consistent_on_def compareTradeIds_def Let_def split: if_splits)

lemma consistent_compare_rows:
  assumes "consistent_on UNIV loc" "\<And>a. loc a a = 0" "\<And>x. x \<in> A \<Longrightarrow> all_digits (rp_tradeId (fst x))"
  shows "consistent_on A (compare_rows loc)"
proof -
  have ids: "consistent_on ((\<lambda>x. rp_tradeId (fst x)) ` A) (compareTradeIds loc)"
    by (rule consistent_subset [OF consistent_numeric]) (auto intro: assms(3))
  have ledger: "consistent_on A (\<lambda>x y. ledger_entry (snd x) - ledger_entry (snd y))"
    unfolding consistent_on_def by auto
  have texts: "consistent_on A (\<lambda>x y. compareNullableStrings loc (f x) (f y))"
    for f :: "report_row \<times> int option \<Rightarrow> string option"
    by (rule consistent_image [where f = f, OF consistent_nullable [OF assms(1,2)]])
  show ?thesis
    unfolding compare_rows_levels
    by (intro consistent_then_by ledger texts
        consistent_image [where f = "\<lambda>x. rp_tradeId (fst x)", OF ids])
qed

end
