(* ===== verification/Recon_Props.thy ===== *)
theory Recon_Props imports Main Recon_Spec Recon_Report begin

text \<open>The properties of the reconciliation service, with their witnesses.\<close>

section \<open>A concrete run\<close>

text \<open>Trade 7 is locked on the chain; the index has it with another amount.\<close>

definition recon_raw :: raw_trade where
  "recon_raw =
     \<lparr>rt_tradeId = 7, rt_buyerAddress = ''0xb'', rt_supplierAddress = ''0xs'', rt_status = 0,
      rt_totalAmountLocked = 100, rt_logisticsAmount = 10, rt_platformFeesAmount = 10,
      rt_supplierFirstTranche = 40, rt_supplierSecondTranche = 40, rt_ricardianHash = [],
      rt_createdAt = 1, rt_arrivalTimestamp = 0\<rparr>"

definition recon_indexed :: "int \<Rightarrow> indexed_trade" where
  "recon_indexed amount =
     \<lparr>it_tradeId = ''7'', it_buyer = ''0xb'', it_supplier = ''0xs'', it_status = ''LOCKED'',
      it_totalAmountLocked = amount, it_logisticsAmount = 10, it_platformFeesAmount = 10,
      it_supplierFirstTranche = 40, it_supplierSecondTranche = 40, it_ricardianHash = [],
      it_createdAt = 1, it_arrivalTimestamp = None\<rparr>"

definition recon_addresses :: address_functions where
  "recon_addresses = \<lparr>af_isAddress = (\<lambda>_. True), af_getAddress = to_lower\<rparr>"

definition recon_chain :: "string \<Rightarrow> js_error + raw_trade" where
  "recon_chain tid = (if tid = ''7'' then Inr recon_raw else Inl (plain_error ''no such trade''))"

definition sample_recon_env :: "indexed_trade list \<Rightarrow> recon_env" where
  "sample_recon_env index =
     \<lparr>re_now = int, re_iso = show_int, re_db = (\<lambda>_. None),
      re_indexer = (\<lambda>_ limit offset. Inr (take limit (drop offset index))),
      re_trades = (\<lambda>_. recon_chain), re_addresses = recon_addresses, re_http = (\<lambda>_. HttpStatus 200)\<rparr>"

definition sample_recon_cfg :: recon_config where
  "sample_recon_cfg =
     \<lparr>rc_enabled = True, rc_daemonIntervalMs = 60000, rc_batchSize = 2, rc_maxTradesPerRun = 5,
      rc_notifier = \<lparr>nc_enabled = False, nc_webhookUrl = None, nc_cooldownMs = 0,
        nc_requestTimeoutMs = None, nc_retryAttempts = None, nc_retryDelayMs = None, nc_maxRetryDelayMs = None\<rparr>\<rparr>"

definition sample_recon_world :: "run_row list \<Rightarrow> recon_world" where
  "sample_recon_world runs =
     \<lparr>rw_tick = 0, rw_runs = runs, rw_scope = [], rw_drifts = [],
      rw_notifier = \<lparr>ns_tick = 0, ns_cache = [], ns_posts = [], ns_sleeps = []\<rparr>,
      rw_classified = 0, rw_sleeps = []\<rparr>"

lemma sample_recon_steady: "steady (sample_recon_env index) recon_chain"
  by (simp add: steady_def sample_recon_env_def)

lemma sample_recon_index: "serves_index (sample_recon_env index) index"
  by (simp add: serves_index_def sample_recon_env_def)

section \<open>The start of a run\<close>

lemma createRun_fresh:
  assumes "re_db env (rw_tick w) = None" "runs_ok (rw_runs w)" "k \<notin> rr_run_key ` set (rw_runs w)"
  shows "createRun env k mode w =
    (Inr (new_run (re_now env (rw_tick w)) k mode, True),
     (rtick w)\<lparr>rw_runs := rw_runs w @ [new_run (re_now env (rw_tick w)) k mode]\<rparr>)"
  using assms
  by (simp add: createRun_def rquery_def bindE_app ret_app guarded_insert_def runs_ok_def new_run_def)

lemma createRun_existing:
  assumes "re_db env (rw_tick w) = None" "re_db env (Suc (rw_tick w)) = None"
    "row_by rr_run_key k (rw_runs w) = Some row"
  shows "createRun env k mode w = (Inr (row, False), rtick (rtick w))"
proof -
  have "row \<in> set (rw_runs w)" "rr_run_key row = k" using row_by_Some [OF assms(3)] by auto
  then have "\<not> runs_ok (rw_runs w @ [new_run now k mode])" for now
    by (auto simp: runs_ok_def new_run_def)
  with assms show ?thesis
    by (simp add: createRun_def rquery_def bindE_app ret_app guarded_insert_def)
qed

lemma createRun_result:
  assumes "createRun env k mode w = (Inr (row, created), w1)"
  shows "row_by rr_run_key k (rw_runs w1) = Some row \<and> rw_drifts w1 = rw_drifts w \<and>
    rw_classified w1 = rw_classified w \<and> rw_scope w1 = rw_scope w \<and>
    (created \<or> rw_runs w1 = rw_runs w) \<and> (runs_ok (rw_runs w) \<longrightarrow> runs_ok (rw_runs w1))"
proof (cases "re_db env (rw_tick w)")
  case (Some e)
  with assms show ?thesis by (simp add: createRun_def rquery_def bindE_app)
next
  case None
  let ?r = "new_run (re_now env (rw_tick w)) k mode"
  show ?thesis
  proof (cases "guarded_insert runs_ok ?r (rw_runs w)")
    case (Some rows)
    with None assms have "row = ?r" "created" "w1 = (rtick w)\<lparr>rw_runs := rows\<rparr>"
      by (simp_all add: createRun_def rquery_def bindE_app ret_app)
    with run_table.row_by_insert [OF Some] run_table.insert_ok [OF Some] show ?thesis
      by (simp add: new_run_def)
  next
    case refused: None
    with None assms show ?thesis
      by (auto simp: createRun_def rquery_def bindE_app ret_app throw_app split: option.splits)
  qed
qed

text \<open>The key of a run is chosen without touching the tables.\<close>

definition chooses_key :: "recon_env \<Rightarrow> recon_config \<Rightarrow> reconcile_mode \<Rightarrow> string option \<Rightarrow> string recon_eff" where
  "chooses_key env cfg mode ov = (if truthy_opt ov then ret (the ov) else generateRunKey env cfg mode)"

lemma chooses_key_app:
  obtains k n where "chooses_key env cfg mode ov w = (Inr k, w\<lparr>rw_tick := n\<rparr>)"
proof (cases "truthy_opt ov")
  case True
  then have "chooses_key env cfg mode ov w = (Inr (the ov), w\<lparr>rw_tick := rw_tick w\<rparr>)"
    by (simp add: chooses_key_def ret_app)
  then show ?thesis by (rule that)
next
  case False
  then show ?thesis
    by (intro that [of _ "Suc (rw_tick w)"])
       (simp add: chooses_key_def generateRunKey_def bindE_app rask_def ret_app rtick_def)
qed

lemma reconcileOnce_cases:
  assumes "reconcileOnce env cfg mode ov w = (Inr stats, w')"
  obtains (skipped) k n row w1 where "createRun env k mode (w\<lparr>rw_tick := n\<rparr>) = (Inr (row, False), w1)"
      "rr_status row = COMPLETED \<or> rr_status row = RUNNING" "w' = w1" "st_status stats = SKIPPED"
  | (ran) k n row created w1 where "createRun env k mode (w\<lparr>rw_tick := n\<rparr>) = (Inr (row, created), w1)"
      "run_body env cfg mode k w1 = (Inr stats, w')"
proof -
  obtain k n where key: "chooses_key env cfg mode ov w = (Inr k, w\<lparr>rw_tick := n\<rparr>)"
    by (rule chooses_key_app)
  obtain r w1 where c: "createRun env k mode (w\<lparr>rw_tick := n\<rparr>) = (r, w1)"
    by (cases "createRun env k mode (w\<lparr>rw_tick := n\<rparr>)")
  have run: "reconcileOnce env cfg mode ov w =
      bindE (createRun env k mode) (\<lambda>(row, created).
          if \<not> created \<and> rr_status row = COMPLETED
          then ret (skipped_stats k mode row ''run_key already completed'')
          else if \<not> created \<and> rr_status row = RUNNING
          then ret (skipped_stats k mode row ''run_key currently running'')
          else run_body env cfg mode k) (w\<lparr>rw_tick := n\<rparr>)"
    using key by (simp add: reconcileOnce_def chooses_key_def bindE_app)
  obtain row created where r: "r = Inr (row, created)"
    using assms c run by (cases r) (auto simp: bindE_app)
  show ?thesis
  proof (cases "\<not> created \<and> (rr_status row = COMPLETED \<or> rr_status row = RUNNING)")
    case True
    with assms c r show ?thesis
      by (intro skipped [of k n row w1]) (auto simp: run bindE_app ret_app skipped_stats_def split: if_splits)
  next
    case False
    then have "run_body env cfg mode k w1 = (Inr stats, w')"
      using assms c r by (auto simp: run bindE_app split: if_splits)
    with c r show ?thesis by (intro ran [of k n row created w1]) simp_all
  qed
qed

text \<open>A run of the sample, for the witnesses.\<close>

lemma sample_run:
  assumes "k \<noteq> []"
  shows "\<exists>stats. result_of (reconcileOnce (sample_recon_env index) sample_recon_cfg mode (Some k)
    (sample_recon_world [])) = Inr stats \<and> st_status stats = COMPLETED"
proof -
  let ?w = "sample_recon_world []" and ?env = "sample_recon_env index"
  have up: "re_db ?env (rw_tick ?w) = None" by (simp add: sample_recon_env_def)
  have created: "createRun ?env k mode ?w = (Inr (new_run (re_now ?env (rw_tick ?w)) k mode, True),
     (rtick ?w)\<lparr>rw_runs := rw_runs ?w @ [new_run (re_now ?env (rw_tick ?w)) k mode]\<rparr>)"
    by (rule createRun_fresh [OF up]) (simp_all add: sample_recon_world_def runs_ok_def)
  have "0 < rc_batchSize sample_recon_cfg" by (simp add: sample_recon_cfg_def)
  moreover have "st_status (completed_stats k mode n acc) = COMPLETED" for n acc
    by (simp add: completed_stats_def)
  ultimately obtain w' stats where "run_body ?env sample_recon_cfg mode k
      ((rtick ?w)\<lparr>rw_runs := rw_runs ?w @ [new_run (re_now ?env (rw_tick ?w)) k mode]\<rparr>) = (Inr stats, w')"
      "st_status stats = COMPLETED"
    using steady_run_body [OF sample_recon_steady sample_recon_index, of sample_recon_cfg index mode k]
    by blast
  with created assms show ?thesis by (simp add: reconcileOnce_def truthy_opt_def bindE_app)
qed

section \<open>Properties\<close>

text \<open>
  C26: a run under a new key, while the database answers and the chain and the index do not
  change, reports what the specification says: it compares the first \<open>maxTradesPerRun\<close> trades of
  the index, page by page, counts exactly the findings of comparing each with the chain, by
  severity, and leaves a completed run row with these numbers, the scope, and a stored row for every
  finding.
\<close>

theorem run_reports_the_differences:
  assumes "steady env chain" "serves_index env index" "0 < rc_batchSize cfg"
    and "runs_ok (rw_runs w)" "k \<noteq> []" "k \<notin> rr_run_key ` set (rw_runs w)"
  shows "\<exists>stats row. result_of (reconcileOnce env cfg mode (Some k) w) = Inr stats \<and>
    st_status stats = COMPLETED \<and>
    st_totalTrades stats = min (rc_maxTradesPerRun cfg) (length index) \<and>
    (st_driftCount stats, st_severityCounts stats) =
      reference_counts (re_addresses env) chain (take (rc_maxTradesPerRun cfg) index) \<and>
    row_by rr_run_key k (rw_runs (state_of (reconcileOnce env cfg mode (Some k) w))) = Some row \<and>
    rr_status row = COMPLETED \<and> rr_total_trades row = st_totalTrades stats \<and>
    rr_drift_count row = st_driftCount stats \<and> rr_counts row = st_severityCounts stats \<and>
    set (rw_scope (state_of (reconcileOnce env cfg mode (Some k) w))) =
      (\<lambda>t. (k, it_tradeId t)) ` set (take (rc_maxTradesPerRun cfg) index) \<union> set (rw_scope w) \<and>
    drift_keys (state_of (reconcileOnce env cfg mode (Some k) w)) =
      finding_row_key k ` set (all_findings (re_addresses env) chain (take (rc_maxTradesPerRun cfg) index))
        \<union> drift_keys w"
proof -
  have up: "re_db env (rw_tick w) = None" using assms(1) by (simp add: steady_def)
  let ?r = "new_run (re_now env (rw_tick w)) k mode"
  let ?w1 = "(rtick w)\<lparr>rw_runs := rw_runs w @ [?r]\<rparr>"
  obtain w' now where b: "run_body env cfg mode k ?w1 =
      (Inr (completed_stats k mode (length (take (rc_maxTradesPerRun cfg) index))
         (reference_counts (re_addresses env) chain (take (rc_maxTradesPerRun cfg) index))), w')"
    "rw_runs w' = update_where (\<lambda>r. rr_run_key r = k)
      (completed_row now (completed_stats k mode (length (take (rc_maxTradesPerRun cfg) index))
         (reference_counts (re_addresses env) chain (take (rc_maxTradesPerRun cfg) index)))) (rw_runs w @ [?r])"
    "set (rw_scope w') = (\<lambda>t. (k, it_tradeId t)) ` set (take (rc_maxTradesPerRun cfg) index) \<union> set (rw_scope w)"
    "drift_keys w' = finding_row_key k ` set (all_findings (re_addresses env) chain
       (take (rc_maxTradesPerRun cfg) index)) \<union> drift_keys w"
    using steady_run_body [OF assms(1-3), of mode k ?w1] by (auto simp: drift_keys_def)
  have run: "reconcileOnce env cfg mode (Some k) w = run_body env cfg mode k ?w1"
    using assms(5) by (simp add: reconcileOnce_def truthy_opt_def bindE_app createRun_fresh [OF up assms(4,6)])
  have fresh: "row_by rr_run_key k (rw_runs w) = None" using assms(6) by (simp add: row_by_None)
  have new: "row_by rr_run_key k (rw_runs w @ [?r]) = Some ?r"
    using fresh by (simp add: row_by_append row_by_Cons new_run_def)
  have row: "row_by rr_run_key k (rw_runs w') = Some (completed_row now
      (completed_stats k mode (length (take (rc_maxTradesPerRun cfg) index))
        (reference_counts (re_addresses env) chain (take (rc_maxTradesPerRun cfg) index))) ?r)"
    unfolding b(2) by (subst run_table.row_by_update_where) (simp_all add: completed_row_def new)
  show ?thesis
    unfolding run b(1) fst_conv snd_conv row b(3,4)
    by (simp add: completed_stats_def completed_row_def min.commute)
qed

lemma sample_address_not_zero: "''0xb'' \<noteq> zero_address"
  by (simp add: zero_address_def numeral_eq_Suc)

lemma sample_findings:
  "findings_of recon_addresses recon_chain (recon_indexed a) = compareAmounts (recon_indexed a) (trade_of_raw recon_raw)"
  using sample_address_not_zero
  by (simp add: findings_of_def chain_view_def recon_chain_def recon_indexed_def recon_raw_def trade_of_raw_def
      classifyDrifts_def Let_def truthy_opt_def recon_addresses_def isZeroAddress_def normalizeAddressOrNull_def
      to_lower_def lower_char_def compare_present_def status_of_number_def differ_def)

lemma sample_amounts:
  "length (compareAmounts (recon_indexed a) (trade_of_raw recon_raw)) = (if a = 100 then 0 else 1)"
  by (simp add: compareAmounts_def amount_fields_def recon_indexed_def recon_raw_def trade_of_raw_def)

lemma run_reports_the_differences_witness:
  "\<exists>stats. result_of (reconcileOnce (sample_recon_env [recon_indexed 99, recon_indexed 100]) sample_recon_cfg
      ONCE (Some ''k'') (sample_recon_world [])) = Inr stats \<and>
     st_status stats = COMPLETED \<and> st_totalTrades stats = 2 \<and> st_driftCount stats = 1"
proof -
  let ?ix = "[recon_indexed 99, recon_indexed 100]"
  have "fst (reference_counts (re_addresses (sample_recon_env ?ix)) recon_chain
      (take (rc_maxTradesPerRun sample_recon_cfg) ?ix)) = 1"
    by (simp add: reference_drift_count sample_recon_cfg_def all_findings_def sample_recon_env_def
        sample_findings sample_amounts)
  then show ?thesis
    using run_reports_the_differences [OF sample_recon_steady sample_recon_index,
        where cfg = sample_recon_cfg and w = "sample_recon_world []" and k = "''k''" and mode = ONCE and index = ?ix]
    by (auto simp: sample_recon_world_def runs_ok_def sample_recon_cfg_def dest: sym)
qed

lemma run_body_adds_up:
  assumes "run_body env cfg mode k w = (Inr stats, w')" "drifts_ok (rw_drifts w)"
  shows "\<exists>now. rw_runs w' = update_where (\<lambda>r. rr_run_key r = k) (completed_row now stats) (rw_runs w) \<and>
    st_status stats = COMPLETED \<and> st_runKey stats = k \<and>
    st_driftCount stats = total_counts (st_severityCounts stats) \<and>
    occurrences k (rw_drifts w') = occurrences k (rw_drifts w) + st_driftCount stats \<and>
    rw_classified w' = rw_classified w + st_driftCount stats"
proof -
  obtain r w1 where p: "run_pages env cfg k 0 0 (0, no_counts) w = (r, w1)"
    by (cases "run_pages env cfg k 0 0 (0, no_counts) w")
  obtain tot d c where r: "r = Inr (tot, d, c)"
    using assms(1) p
    by (cases r) (auto simp: run_body_def catchE_app bindE_app seqE_app throw_app split: sum.splits prod.splits)
  have "tally k (rw_runs w) (occurrences k (rw_drifts w)) (rw_classified w) (0, no_counts) w"
    using assms(2) by (simp add: tally_def total_counts_def no_counts_def)
  from tripleD [OF triple_run_pages this, of env cfg 0 0] p r
  have t: "tally k (rw_runs w) (occurrences k (rw_drifts w)) (rw_classified w) (d, c) w1" by simp
  let ?s = "\<lparr>st_runKey = k, st_mode = mode, st_totalTrades = tot, st_driftCount = d,
    st_severityCounts = c, st_status = COMPLETED, st_skippedReason = None\<rparr>"
  obtain x w2 where cr: "completeRun env ?s w1 = (x, w2)" by (cases "completeRun env ?s w1")
  have "x = Inr () \<and> stats = ?s \<and> w' = w2"
    using assms(1) p r cr
    by (cases x) (auto simp: run_body_def catchE_app bindE_app seqE_app ret_app throw_app Let_def
        split: sum.splits prod.splits)
  with cr t show ?thesis
    by (auto simp: completeRun_def rquery_def tally_def split: option.splits)
qed

text \<open>
  whatever fails on the way, a run that is reported as completed has numbers that add up: its
  drift count is the sum of its severities, the number of findings it stored under its key, and the
  number of classifications it counted; and its run row, if it is there, holds the same numbers.
\<close>

theorem completed_run_adds_up:
  assumes "result_of (reconcileOnce env cfg mode ov w) = Inr stats" "st_status stats = COMPLETED"
    and "keys_ok w"
  defines "w' \<equiv> state_of (reconcileOnce env cfg mode ov w)"
  shows "st_driftCount stats = total_counts (st_severityCounts stats) \<and>
    occurrences (st_runKey stats) (rw_drifts w') =
      occurrences (st_runKey stats) (rw_drifts w) + st_driftCount stats \<and>
    rw_classified w' = rw_classified w + st_driftCount stats \<and>
    (\<exists>row. row_by rr_run_key (st_runKey stats) (rw_runs w') = Some row \<and> rr_status row = COMPLETED \<and>
      rr_total_trades row = st_totalTrades stats \<and> rr_drift_count row = st_driftCount stats \<and>
      rr_counts row = st_severityCounts stats)"
proof -
  have run: "reconcileOnce env cfg mode ov w = (Inr stats, w')"
    using assms(1) by (simp add: w'_def prod_eq_iff)
  from run show ?thesis
  proof (cases rule: reconcileOnce_cases)
    case (skipped k n row w1)
    with assms(2) show ?thesis by simp
  next
    case (ran k n row created w1)
    note c = createRun_result [OF ran(1)]
    have "drifts_ok (rw_drifts w1)" using assms(3) c by (simp add: on_tables_def)
    from run_body_adds_up [OF ran(2) this] obtain now where b:
      "rw_runs w' = update_where (\<lambda>r. rr_run_key r = k) (completed_row now stats) (rw_runs w1)"
      "st_runKey stats = k" "st_driftCount stats = total_counts (st_severityCounts stats)"
      "occurrences k (rw_drifts w') = occurrences k (rw_drifts w1) + st_driftCount stats"
      "rw_classified w' = rw_classified w1 + st_driftCount stats" by blast
    have "row_by rr_run_key k (rw_runs w') = Some (completed_row now stats row)"
      unfolding b(1) using c by (subst run_table.row_by_update_where) (simp_all add: completed_row_def)
    with b c assms(2) show ?thesis by (simp add: completed_row_def)
  qed
qed

lemma completed_run_adds_up_witness:
  "\<exists>stats. result_of (reconcileOnce (sample_recon_env [recon_indexed 99]) sample_recon_cfg
      ONCE (Some ''k'') (sample_recon_world [])) = Inr stats \<and>
     st_driftCount stats = total_counts (st_severityCounts stats)"
  using sample_run [of "''k''" "[recon_indexed 99]" ONCE]
    completed_run_adds_up [where env = "sample_recon_env [recon_indexed 99]" and cfg = sample_recon_cfg
      and mode = ONCE and ov = "Some ''k''" and w = "sample_recon_world []"]
  by (auto simp: sample_recon_world_def on_tables_def runs_ok_def drifts_ok_def)

text \<open>
  a run key that is completed, or marked as running, is not run again: the result is the stored
  row, reported as skipped, and no table changes.  A key whose process died in the middle therefore
  stays skipped.
\<close>

theorem known_key_is_skipped:
  assumes "k \<noteq> []" "row_by rr_run_key k (rw_runs w) = Some row"
    and "rr_status row = COMPLETED \<or> rr_status row = RUNNING"
    and "re_db env (rw_tick w) = None" "re_db env (Suc (rw_tick w)) = None"
  shows "\<exists>reason. reconcileOnce env cfg mode (Some k) w = (Inr (skipped_stats k mode row reason), rtick (rtick w))"
  using assms by (auto simp: reconcileOnce_def truthy_opt_def bindE_app ret_app createRun_existing)

lemma known_key_is_skipped_witness:
  "\<exists>reason. reconcileOnce (sample_recon_env []) sample_recon_cfg ONCE (Some ''k'')
     (sample_recon_world [new_run 0 ''k'' ONCE]) =
     (Inr (skipped_stats ''k'' ONCE (new_run 0 ''k'' ONCE) reason),
      rtick (rtick (sample_recon_world [new_run 0 ''k'' ONCE])))"
  by (rule known_key_is_skipped)
     (simp_all add: sample_recon_world_def row_by_def new_run_def sample_recon_env_def)

lemma run_pages_keeps_runs:
  "run_pages env cfg k tot off acc w = (r, w1) \<Longrightarrow> rw_runs w1 = rw_runs w"
proof -
  assume p: "run_pages env cfg k tot off acc w = (r, w1)"
  let ?P = "on_tables (\<lambda>r _ _ _. r = rw_runs w)"
  have drift: "keeps ?P (upsertDrift env k f)" for k f
    unfolding upsertDrift_def by (rule keeps_rquery) (simp add: on_tables_def)
  have scope: "keeps ?P (upsertRunTradeScope env k t)" for k t
    unfolding upsertRunTradeScope_def by (rule keeps_rquery) (simp add: on_tables_def)
  have inc: "keeps ?P incrementDriftClassification"
    unfolding incrementDriftClassification_def by (rule keeps_change) (simp add: on_tables_def)
  have "keeps ?P (reconcile_trade env cfg k a t)" for k a t
    unfolding reconcile_trade_def record_finding_def
    by (auto intro!: keeps_rules drift scope inc split: prod.splits)
  then have "keeps ?P (run_pages env cfg k tot off acc)"
    by (intro keeps_run_pages keeps_rreads)
  from keepsD [OF this, of w] p show ?thesis by (simp add: on_tables_def)
qed

text \<open>
  a run that throws while it reads the index or stores what it found, while the database
  answers the last statement, is recorded as failed with the error's message, and the error goes to
  the caller; no other run row changes.
\<close>

theorem failed_run_is_recorded:
  assumes "run_pages env cfg k 0 0 (0, no_counts) w = (Inl e, w1)" "re_db env (rw_tick w1) = None"
    and "row_by rr_run_key k (rw_runs w) = Some row" "js_message e \<noteq> []"
  shows "result_of (run_body env cfg mode k w) = Inl e \<and>
    row_by rr_run_key k (rw_runs (state_of (run_body env cfg mode k w))) =
      Some (failed_row (re_now env (rw_tick w1)) (js_message e) row) \<and>
    row_by rr_run_key k' (rw_runs (state_of (run_body env cfg mode k w))) =
      (if k' = k then Some (failed_row (re_now env (rw_tick w1)) (js_message e) row)
       else row_by rr_run_key k' (rw_runs w))"
proof -
  have "rw_runs w1 = rw_runs w" by (rule run_pages_keeps_runs [OF assms(1)])
  then have "run_body env cfg mode k w = (Inl e, (rtick w1)\<lparr>rw_runs :=
      update_where (\<lambda>r. rr_run_key r = k) (failed_row (re_now env (rw_tick w1)) (js_message e)) (rw_runs w)\<rparr>)"
    using assms by (simp add: run_body_def catchE_app bindE_app seqE_app throw_app failRun_def rquery_def)
  then show ?thesis
    using assms(3) by (simp add: run_table.row_by_update_where failed_row_def)
qed

lemma failed_run_is_recorded_witness:
  "result_of (run_body ((sample_recon_env [])\<lparr>re_indexer := \<lambda>_ _ _. Inl (plain_error ''down'')\<rparr>) sample_recon_cfg
     ONCE ''k'' (sample_recon_world [new_run 0 ''k'' ONCE])) = Inl (plain_error ''down'')"
  using failed_run_is_recorded [where env = "(sample_recon_env [])\<lparr>re_indexer := \<lambda>_ _ _. Inl (plain_error ''down'')\<rparr>"
      and cfg = sample_recon_cfg and k = "''k''" and w = "sample_recon_world [new_run 0 ''k'' ONCE]"
      and e = "plain_error ''down''" and row = "new_run 0 ''k'' ONCE"
      and ?w1.0 = "rtick (sample_recon_world [new_run 0 ''k'' ONCE])" and mode = ONCE]
  by (simp add: run_pages.simps sample_recon_cfg_def bindE_app rtry_def sample_recon_env_def
      sample_recon_world_def row_by_def new_run_def plain_error_def)

text \<open>
  the daemon keeps the tables' unique keys over any number of rounds, whatever fails: one run
  row for a run key, one row for a run, trade, mismatch code and field, one scope row for a run and a
  trade.
\<close>

theorem daemon_keeps_keys:
  assumes "keys_ok w"
  shows "keys_ok (state_of (runDaemon n env cfg w))"
  using assms keepsD [OF keys_daemon_rounds] by (simp add: runDaemon_def ret_app)

lemma daemon_keeps_keys_witness:
  "keys_ok (state_of (runDaemon 3 (sample_recon_env [recon_indexed 99]) sample_recon_cfg (sample_recon_world [])))"
  by (rule daemon_keeps_keys) (simp add: sample_recon_world_def on_tables_def runs_ok_def drifts_ok_def)

text \<open>
  C39: the classifier finds nothing exactly when the chain was read, the trade is there with a buyer
  that is not the zero address, and both views agree: the status by its label, both parties as
  checksummed addresses, the five amounts, the hash without regard to case, and the arrival time.
\<close>

theorem no_findings_iff_views_agree:
  "classifyDrifts af input = [] \<longleftrightarrow>
     \<not> truthy_opt (ci_onchainReadError input) \<and>
     (\<exists>t. ci_onchainTrade input = Some t \<and> \<not> isZeroAddress af (td_buyer t) \<and>
        views_agree af (ci_indexedTrade input) t)"
  by (auto simp: classifyDrifts_def Let_def compare_present_empty split: option.splits)

text \<open>
  the findings of one trade carry its id and the severity of their code, and no two of them have
  the same code and field, so that each is stored in a row of its own.
\<close>

theorem findings_are_separate:
  "distinct (map finding_key (classifyDrifts af input)) \<and>
   list_all (\<lambda>f. df_tradeId f = it_tradeId (ci_indexedTrade input) \<and>
     df_severity f = severity_of (df_mismatchCode f)) (classifyDrifts af input)"
  using distinct_finding_keys finding_trade finding_severity by (simp add: list_all_iff)

text \<open>
  the report lists every input row once, ordered by the numeric trade id when the ids are
  numerals, if the host's string comparison is a consistent order.
\<close>

theorem report_is_sorted:
  assumes "consistent_on UNIV loc" "\<And>a. loc a a = 0" "list_all (\<lambda>r. all_digits (ri_tradeId r)) inputs"
  shows "mset (buildReconciliationReportRows loc inputs) = image_mset (\<lambda>r. fst (report_row_of loc r)) (mset inputs) \<and>
    sorted (map (\<lambda>r. nat_of_digits 0 (rp_tradeId r)) (buildReconciliationReportRows loc inputs))"
proof
  let ?rows = "map (report_row_of loc) inputs"
  let ?s = "js_sort (compare_rows loc) ?rows"
  show "mset (buildReconciliationReportRows loc inputs) = image_mset (\<lambda>r. fst (report_row_of loc r)) (mset inputs)"
    by (simp add: buildReconciliationReportRows_def mset_js_sort image_mset.compositionality comp_def)
  have digits: "all_digits (rp_tradeId (fst x))" if "x \<in> set ?rows" for x
    using that assms(3) by (auto simp: report_row_of_def Let_def list_all_iff)
  have "sorted_wrt (\<lambda>a b. compare_rows loc a b \<le> 0) ?s"
    by (rule sorted_js_sort, rule consistent_compare_rows [OF assms(1,2) digits])
  then have "sorted_wrt (\<lambda>a b. nat_of_digits 0 (rp_tradeId (fst a)) \<le> nat_of_digits 0 (rp_tradeId (fst b))) ?s"
  proof (rule sorted_wrt_mono_rel [rotated])
    fix a b assume "a \<in> set ?s" "b \<in> set ?s" and le: "compare_rows loc a b \<le> 0"
    then have "all_digits (rp_tradeId (fst a))" "all_digits (rp_tradeId (fst b))"
      using digits by (simp_all only: set_js_sort)
    with le show "nat_of_digits 0 (rp_tradeId (fst a)) \<le> nat_of_digits 0 (rp_tradeId (fst b))"
      by (auto simp: compare_rows_def compareTradeIds_def Let_def split: if_splits)
  qed
  then show "sorted (map (\<lambda>r. nat_of_digits 0 (rp_tradeId r)) (buildReconciliationReportRows loc inputs))"
    by (simp add: buildReconciliationReportRows_def sorted_map sorted_wrt_map)
qed

definition sample_input :: "string \<Rightarrow> report_input" where
  "sample_input tid = \<lparr>ri_tradeId = tid, ri_txHash = None, ri_extrinsicHash = None, ri_payoutState = None,
     ri_mismatchCodes = [], ri_ledgerEntryId = None\<rparr>"

lemma report_is_sorted_witness:
  "sorted (map (\<lambda>r. nat_of_digits 0 (rp_tradeId r))
     (buildReconciliationReportRows (\<lambda>_ _. 0) [sample_input ''10'', sample_input ''9'']))"
  using report_is_sorted [of "\<lambda>_ _. 0" "[sample_input ''10'', sample_input ''9'']"]
  by (simp add: consistent_on_def sample_input_def all_digits_def is_digit_def)

text \<open>
  the report's summary counts its rows: as many as the inputs, of which the ones without a
  mismatch code match, and the rest do not.
\<close>

theorem report_summary_counts:
  "rt_rowCount (buildReconciliationReport loc k inputs) = length inputs \<and>
   rt_matchCount (buildReconciliationReport loc k inputs) = length (filter (\<lambda>r. ri_mismatchCodes r = []) inputs) \<and>
   rt_mismatchCount (buildReconciliationReport loc k inputs) = length (filter (\<lambda>r. ri_mismatchCodes r \<noteq> []) inputs)"
proof -
  let ?rows = "buildReconciliationReportRows loc inputs"
  have rows: "mset ?rows = image_mset (\<lambda>r. fst (report_row_of loc r)) (mset inputs)"
    by (simp add: buildReconciliationReportRows_def mset_js_sort image_mset.compositionality comp_def)
  have verdict: "rp_verdict (fst (report_row_of loc r)) = MATCH \<longleftrightarrow> ri_mismatchCodes r = []" for r
    by (simp add: report_row_of_def Let_def js_sort_empty) (metis set_empty set_js_set)
  have len: "length ?rows = length inputs"
    using arg_cong [OF rows, of size] by simp
  have "length (filter (\<lambda>r. rp_verdict r = MATCH) ?rows) = size (filter_mset (\<lambda>r. rp_verdict r = MATCH) (mset ?rows))"
    by (metis mset_filter size_mset)
  also have "\<dots> = length (filter (\<lambda>r. ri_mismatchCodes r = []) inputs)"
    unfolding rows by (simp add: filter_mset_image_mset verdict flip: mset_filter)
  finally show ?thesis
    using sum_length_filter_compl [of "\<lambda>r. ri_mismatchCodes r = []" inputs]
    by (simp add: buildReconciliationReport_def Let_def len)
qed

end
