(* ===== verification/Json.thy ===== *)
theory Json imports Main Js_Text begin

text \<open>
  JavaScript values as they come from a request body.  A number is \<open>Finite\<close> of the text that it
  prints as, or not finite (\<open>JSON.parse\<close> makes \<open>Infinity\<close> of a large literal); an object is the list
  of its own enumerable properties, in the order of the host.
\<close>

datatype js_number = Finite string | Not_finite

datatype json =
    J_null
  | J_undefined
  | J_bool bool
  | J_str string
  | J_num js_number
  | J_arr "json list"
  | J_obj "(string \<times> json) list"

text \<open>\<open>value[key]\<close> on something that is neither null nor undefined; the result may be \<open>undefined\<close>.\<close>

definition json_get :: "string \<Rightarrow> json \<Rightarrow> json" where
  "json_get key v =
     (case v of J_obj ps \<Rightarrow> (case map_of ps key of None \<Rightarrow> J_undefined | Some x \<Rightarrow> x) | _ \<Rightarrow> J_undefined)"

text \<open>\<open>!value\<close>\<close>

fun json_falsy :: "json \<Rightarrow> bool" where
  "json_falsy J_null = True"
| "json_falsy J_undefined = True"
| "json_falsy (J_bool b) = (\<not> b)"
| "json_falsy (J_str s) = (s = [])"
| "json_falsy (J_num (Finite t)) = (t = ''0'')"
| "json_falsy (J_num Not_finite) = False"
| "json_falsy (J_arr _) = False"
| "json_falsy (J_obj _) = False"

text \<open>\<open>typeof value === 'object'\<close>, for values that are not null\<close>

fun json_is_object :: "json \<Rightarrow> bool" where
  "json_is_object (J_arr _) = True"
| "json_is_object (J_obj _) = True"
| "json_is_object _ = False"

fun json_text :: "json \<Rightarrow> string option" where
  "json_text (J_str s) = Some s"
| "json_text _ = None"

fun json_items :: "json \<Rightarrow> json list option" where
  "json_items (J_arr vs) = Some vs"
| "json_items _ = None"

end
