(* ===== verification/Gov_Types.thy ===== *)
theory Gov_Types imports Main Json begin

text \<open>
  The data of the gateway's governance queue (\<open>gateway/src/core/governanceStore.ts\<close>,
  \<open>core/auditLogStore.ts\<close>, \<open>errors.ts\<close>).  An ISO timestamp is its number of milliseconds: the
  strings that \<open>toISOString\<close> prints are ordered as the times are.
\<close>

section \<open>Errors\<close>

datatype gw_code =
    AUTH_REQUIRED | FORBIDDEN | VALIDATION_ERROR | UPSTREAM_UNAVAILABLE | CONFLICT | NOT_FOUND
  | INTERNAL_ERROR

text \<open>A \<open>GatewayError\<close> with status, code, message and the texts of its details, or another error.\<close>

datatype gw_error =
    Gateway_error int gw_code string "(string \<times> string) list"
  | Other_error string

fun gw_message :: "gw_error \<Rightarrow> string" where
  "gw_message (Gateway_error _ _ m _) = m"
| "gw_message (Other_error m) = m"

fun isTimeoutError :: "gw_error \<Rightarrow> bool" where
  "isTimeoutError (Gateway_error _ _ _ details) = (map_of details ''cause'' = Some ''timeout'')"
| "isTimeoutError (Other_error _) = False"

section \<open>Actions\<close>

datatype gov_category =
    Cat_pause | Cat_unpause | Cat_claims_pause | Cat_claims_unpause | Cat_treasury_sweep
  | Cat_treasury_payout_receiver_update | Cat_oracle_disable_emergency | Cat_oracle_update

fun category_name :: "gov_category \<Rightarrow> string" where
  "category_name Cat_pause = ''pause''"
| "category_name Cat_unpause = ''unpause''"
| "category_name Cat_claims_pause = ''claims_pause''"
| "category_name Cat_claims_unpause = ''claims_unpause''"
| "category_name Cat_treasury_sweep = ''treasury_sweep''"
| "category_name Cat_treasury_payout_receiver_update = ''treasury_payout_receiver_update''"
| "category_name Cat_oracle_disable_emergency = ''oracle_disable_emergency''"
| "category_name Cat_oracle_update = ''oracle_update''"

datatype gov_status =
    Gov_requested | Gov_submitted | Gov_pending_approvals | Gov_approved | Gov_executed
  | Gov_cancelled | Gov_expired | Gov_stale | Gov_failed

fun gov_status_name :: "gov_status \<Rightarrow> string" where
  "gov_status_name Gov_requested = ''requested''"
| "gov_status_name Gov_submitted = ''submitted''"
| "gov_status_name Gov_pending_approvals = ''pending_approvals''"
| "gov_status_name Gov_approved = ''approved''"
| "gov_status_name Gov_executed = ''executed''"
| "gov_status_name Gov_cancelled = ''cancelled''"
| "gov_status_name Gov_expired = ''expired''"
| "gov_status_name Gov_stale = ''stale''"
| "gov_status_name Gov_failed = ''failed''"

lemma gov_status_name_inject [simp]: "gov_status_name a = gov_status_name b \<longleftrightarrow> a = b"
  by (cases a; cases b) simp_all

definition GOVERNANCE_OPEN_INTENT_STATUSES :: "gov_status list" where
  "GOVERNANCE_OPEN_INTENT_STATUSES = [Gov_requested, Gov_submitted, Gov_pending_approvals, Gov_approved]"

definition ACTIVE_PROPOSAL_STATUSES :: "gov_status list" where
  "ACTIVE_PROPOSAL_STATUSES = filter (\<lambda>s. s \<noteq> Gov_submitted) GOVERNANCE_OPEN_INTENT_STATUSES"

definition GOVERNANCE_APPROVAL_CONTRACT_METHODS :: "string list" where
  "GOVERNANCE_APPROVAL_CONTRACT_METHODS =
     [''approveUnpause'', ''approveTreasuryPayoutAddressUpdate'', ''approveOracleUpdate'']"

record evidence_link =
  ev_kind :: string
  ev_uri :: string
  ev_note :: "string option"

record gov_audit =
  ga_reason :: string
  ga_evidenceLinks :: "evidence_link list"
  ga_ticketRef :: string
  ga_actorSessionId :: string
  ga_actorWallet :: string
  ga_actorRole :: string
  ga_createdAt :: int
  ga_requestedBy :: string
  ga_approvedBy :: "string list option"

record gov_action =
  gc_actionId :: string
  gc_intentKey :: string
  gc_proposalId :: "int option"
  gc_category :: gov_category
  gc_status :: gov_status
  gc_contractMethod :: string
  gc_txHash :: "string option"
  gc_extrinsicHash :: "string option"
  gc_blockNumber :: "int option"
  gc_tradeId :: "string option"
  gc_chainId :: "string option"
  gc_targetAddress :: "string option"
  gc_createdAt :: int
  gc_expiresAt :: "int option"
  gc_executedAt :: "int option"
  gc_requestId :: string
  gc_correlationId :: "string option"
  gc_errorCode :: "string option"
  gc_errorMessage :: "string option"
  gc_audit :: gov_audit

text \<open>An audit entry; its metadata are the texts of the entries that are not null.\<close>

record audit_entry =
  al_eventType :: string
  al_route :: string
  al_method :: string
  al_requestId :: string
  al_correlationId :: "string option"
  al_actorUserId :: "string option"
  al_actorWalletAddress :: "string option"
  al_actorRole :: "string option"
  al_status :: string
  al_metadata :: "(string \<times> string) list"

section \<open>Sessions and answers\<close>

text \<open>A session as the auth service reports it; its times are not used.\<close>

record auth_session =
  as_userId :: string
  as_walletAddress :: string
  as_role :: string
  as_email :: "string option"

record queue_accepted =
  qa_actionId :: string
  qa_intentKey :: string
  qa_proposalId :: "int option"
  qa_category :: gov_category
  qa_status :: gov_status
  qa_acceptedAt :: int
  qa_expiresAt :: "int option"

text \<open>The JSON bodies of the mutation routes: \<open>successResponse\<close> and \<open>errorResponse\<close> with their time.\<close>

datatype mutation_body =
    Accepted_body queue_accepted int
  | Error_body gw_code string string string "(string \<times> string) list" int

text \<open>A row of \<open>idempotency_keys\<close>; status and body are written together, with the completion time.\<close>

record idempotency_row =
  ik_idempotencyKey :: string
  ik_requestMethod :: string
  ik_requestPath :: string
  ik_requestFingerprint :: string
  ik_requestId :: string
  ik_response :: "(int \<times> mutation_body) option"

section \<open>Keys and predicates\<close>

definition normalizeIntentFragment :: "string option \<Rightarrow> string" where
  "normalizeIntentFragment v = (case v of None \<Rightarrow> [] | Some s \<Rightarrow> to_lower (trim s))"

definition isApprovalGovernanceContractMethod :: "string \<Rightarrow> bool" where
  "isApprovalGovernanceContractMethod m \<longleftrightarrow> m \<in> set GOVERNANCE_APPROVAL_CONTRACT_METHODS"

definition buildGovernanceIntentKey ::
  "gov_category \<Rightarrow> string \<Rightarrow> int option \<Rightarrow> string option \<Rightarrow> string option \<Rightarrow> string option \<Rightarrow>
   string option \<Rightarrow> string" where
  "buildGovernanceIntentKey category contractMethod proposalId targetAddress tradeId chainId approverWallet =
     join_with ''|''
       [''v1'', normalizeIntentFragment (Some (category_name category)),
        normalizeIntentFragment (Some contractMethod),
        normalizeIntentFragment (map_option show_int proposalId),
        normalizeIntentFragment targetAddress, normalizeIntentFragment tradeId,
        normalizeIntentFragment chainId,
        normalizeIntentFragment
          (if isApprovalGovernanceContractMethod contractMethod then approverWallet else None)]"

definition isExpiredRequestedGovernanceAction :: "gov_action \<Rightarrow> int \<Rightarrow> bool" where
  "isExpiredRequestedGovernanceAction a now \<longleftrightarrow>
     gc_status a = Gov_requested \<and> (case gc_expiresAt a of None \<Rightarrow> False | Some t \<Rightarrow> t \<le> now)"

text \<open>The condition of the open-intent look-up.\<close>

definition is_open_intent :: "int \<Rightarrow> gov_action \<Rightarrow> bool" where
  "is_open_intent now a \<longleftrightarrow>
     gc_status a \<in> set GOVERNANCE_OPEN_INTENT_STATUSES \<and> \<not> isExpiredRequestedGovernanceAction a now"

lemma open_intent_earlier: "is_open_intent t a \<Longrightarrow> now \<le> t \<Longrightarrow> is_open_intent now a"
  by (auto simp: is_open_intent_def isExpiredRequestedGovernanceAction_def split: option.splits)

end
