(* ===== verification/Gov_World.thy ===== *)
theory Gov_World imports Main Effect Gov_Types begin

text \<open>
  What surrounds the governance queue of the gateway, and its state.  The clock, the identifiers,
  the database connection, the signer, the administration calls of the SDK and the reads of the
  escrow contract are functions of a tick; a promise returns, is rejected, or is still pending when
  the time limit is over.
\<close>

datatype 'a promise = Resolves 'a | Rejects gw_error | Pending

text \<open>The administration calls of \<open>AdminSDK\<close> that the executor makes.\<close>

datatype sdk_call =
    Sdk_pause | Sdk_proposeUnpause | Sdk_approveUnpause | Sdk_cancelUnpauseProposal
  | Sdk_pauseClaims | Sdk_unpauseClaims | Sdk_claimTreasury
  | Sdk_proposeTreasuryPayoutAddressUpdate string
  | Sdk_approveTreasuryPayoutAddressUpdate int
  | Sdk_executeTreasuryPayoutAddressUpdate int
  | Sdk_cancelExpiredTreasuryPayoutAddressUpdateProposal int
  | Sdk_disableOracleEmergency
  | Sdk_proposeOracleUpdate string
  | Sdk_approveOracleUpdate int
  | Sdk_executeOracleUpdate int
  | Sdk_cancelExpiredOracleUpdateProposal int

record execution_result =
  er_txHash :: string
  er_blockNumber :: int
  er_proposalId :: "int option"

text \<open>
  The views of the escrow contract that the status service reads.  Reads that go out in one
  \<open>Promise.all\<close> are one promise of all their values: the state of a proposal, of the unpause
  proposal, and the snapshot of the eleven views of the protocol status.
\<close>

record proposal_raw =
  pr_approvalCount :: int
  pr_executed :: bool
  pr_createdAt :: int
  pr_eta :: int
  pr_target :: string
  pr_expiresAt :: int
  pr_cancelled :: bool

record unpause_raw =
  ur_active :: bool
  ur_approvalCount :: int
  ur_executed :: bool

record status_raw =
  sr_paused :: bool
  sr_claimsPaused :: bool
  sr_oracleActive :: bool
  sr_oracleAddress :: string
  sr_treasuryAddress :: string
  sr_treasuryPayoutAddress :: string
  sr_governanceApprovals :: int
  sr_governanceTimelock :: int
  sr_requiredApprovals :: int
  sr_unpause :: unpause_raw

record escrow_views =
  ew_snapshot :: "nat \<Rightarrow> status_raw promise"
  ew_latestBlock :: "nat \<Rightarrow> int option promise"
  ew_unpause :: "nat \<Rightarrow> unpause_raw promise"
  ew_treasuryAddress :: "nat \<Rightarrow> string promise"
  ew_claimableUsdc :: "nat \<Rightarrow> string \<Rightarrow> int promise"
  ew_unpauseHasApproved :: "nat \<Rightarrow> string \<Rightarrow> bool promise"
  ew_oracleUpdateCounter :: "nat \<Rightarrow> int promise"
  ew_oracleUpdateProposal :: "nat \<Rightarrow> int \<Rightarrow> proposal_raw promise"
  ew_oracleUpdateHasApproved :: "nat \<Rightarrow> int \<Rightarrow> string \<Rightarrow> bool promise"
  ew_treasuryUpdateCounter :: "nat \<Rightarrow> int promise"
  ew_treasuryUpdateProposal :: "nat \<Rightarrow> int \<Rightarrow> proposal_raw promise"
  ew_treasuryUpdateHasApproved :: "nat \<Rightarrow> int \<Rightarrow> string \<Rightarrow> bool promise"

text \<open>
  \<open>gv_commit_kept\<close> says whether a \<open>COMMIT\<close> took effect although its answer was lost; \<open>gv_session\<close> is
  the answer of the auth service for a token; the address check, the zero address and SHA-256 are
  those of the libraries.
\<close>

record gw_env =
  gv_now :: "nat \<Rightarrow> int"
  gv_uuid :: "nat \<Rightarrow> string"
  gv_db :: "nat \<Rightarrow> string option"
  gv_commit_kept :: "nat \<Rightarrow> bool"
  gv_signer :: "nat \<Rightarrow> string promise"
  gv_sdk :: "nat \<Rightarrow> sdk_call \<Rightarrow> execution_result promise"
  gv_views :: escrow_views
  gv_session :: "nat \<Rightarrow> string \<Rightarrow> gw_error + auth_session option"
  gv_isAddress :: "string \<Rightarrow> bool"
  gv_zeroAddress :: string
  gv_sha256 :: "string \<Rightarrow> string"

text \<open>
  The two tables, the log of the administration calls (the action and the call, in order) and the
  table of idempotency keys.
\<close>

record gw_world =
  gw_tick :: nat
  gw_actions :: "gov_action list"
  gw_audit :: "audit_entry list"
  gw_calls :: "(string \<times> sdk_call) list"
  gw_keys :: "idempotency_row list"

type_synonym 'a gw_eff = "(gw_error, gw_world, 'a) eff"

definition empty_world :: gw_world where
  "empty_world = \<lparr>gw_tick = 0, gw_actions = [], gw_audit = [], gw_calls = [], gw_keys = []\<rparr>"

definition gtick :: "gw_world \<Rightarrow> gw_world" where
  "gtick w = w\<lparr>gw_tick := Suc (gw_tick w)\<rparr>"

definition gask :: "(nat \<Rightarrow> 'a) \<Rightarrow> 'a gw_eff" where
  "gask f w = (Inr (f (gw_tick w)), gtick w)"

text \<open>A statement on the connection pool.\<close>

definition gquery :: "gw_env \<Rightarrow> (gw_world \<Rightarrow> 'a \<times> gw_world) \<Rightarrow> 'a gw_eff" where
  "gquery env stmt w =
     (case gv_db env (gw_tick w) of
        Some m \<Rightarrow> (Inl (Other_error m), gtick w)
      | None \<Rightarrow> (case stmt (gtick w) of (x, w') \<Rightarrow> (Inr x, w')))"

text \<open>\<open>await\<close> of a promise; a pending one is cut off by \<open>withTimeout\<close>.\<close>

definition timeout_error :: "string \<Rightarrow> gw_error" where
  "timeout_error message = Gateway_error 503 UPSTREAM_UNAVAILABLE message [(''cause'', ''timeout'')]"

definition withTimeout :: "string \<Rightarrow> (nat \<Rightarrow> 'a promise) \<Rightarrow> 'a gw_eff" where
  "withTimeout message p w =
     (case p (gw_tick w) of
        Resolves x \<Rightarrow> (Inr x, gtick w)
      | Rejects e \<Rightarrow> (Inl e, gtick w)
      | Pending \<Rightarrow> (Inl (timeout_error message), gtick w))"

definition date_iso :: "gw_env \<Rightarrow> int gw_eff" where
  "date_iso env = gask (gv_now env)"

text \<open>\<open>try { return await m() } finally { await f() }\<close>: an error of \<open>f\<close> replaces the result.\<close>

definition finallyE :: "('e, 'w, 'a) eff \<Rightarrow> ('e, 'w, unit) eff \<Rightarrow> ('e, 'w, 'a) eff" where
  "finallyE m f w =
     (case m w of (r, w') \<Rightarrow> (case f w' of (Inl e, w'') \<Rightarrow> (Inl e, w'') | (Inr _, w'') \<Rightarrow> (r, w'')))"

lemma gtick_simps [simp]:
  "gw_tick (gtick w) = Suc (gw_tick w)" "gw_actions (gtick w) = gw_actions w"
  "gw_audit (gtick w) = gw_audit w" "gw_calls (gtick w) = gw_calls w" "gw_keys (gtick w) = gw_keys w"
  by (simp_all add: gtick_def)

lemma gask_app [eff_simps]: "gask f w = (Inr (f (gw_tick w)), gtick w)"
  by (simp add: gask_def)

lemma date_iso_app [eff_simps]: "date_iso env w = (Inr (gv_now env (gw_tick w)), gtick w)"
  by (simp add: date_iso_def gask_def)

lemma finallyE_app:
  "finallyE m f w = (case m w of (r, w') \<Rightarrow> (case f w' of (s, w'') \<Rightarrow> (case s of Inl e \<Rightarrow> (Inl e, w'') | Inr _ \<Rightarrow> (r, w''))))"
  by (simp add: finallyE_def split: prod.splits sum.splits)

lemma keeps_finally [keeps_rules]:
  assumes "keeps P m" "keeps P f"
  shows "keeps P (finallyE m f)"
proof (rule keepsI)
  fix w assume P: "P w"
  obtain r w' where m: "m w = (r, w')" by (cases "m w")
  obtain s w'' where f: "f w' = (s, w'')" by (cases "f w'")
  from keepsD [OF assms(1) P] m have "P w'" by simp
  from keepsD [OF assms(2) this] f have "P w''" by simp
  with m f show "P (state_of (finallyE m f w))" by (cases s) (simp_all add: finallyE_app)
qed

section \<open>Views\<close>

text \<open>A predicate of the two tables and the log of calls, which reads leave alone.\<close>

definition on_gov :: "(gov_action list \<Rightarrow> audit_entry list \<Rightarrow> (string \<times> sdk_call) list \<Rightarrow> bool) \<Rightarrow> gw_world \<Rightarrow> bool" where
  "on_gov P w = P (gw_actions w) (gw_audit w) (gw_calls w)"

lemma on_gov_gtick [simp]: "on_gov P (gtick w) = on_gov P w"
  by (simp add: on_gov_def)

lemma keeps_gask [keeps_rules]: "keeps (on_gov P) (gask f)"
  by (rule keepsI) (simp add: eff_simps)

lemma keeps_date_iso [keeps_rules]: "keeps (on_gov P) (date_iso env)"
  unfolding date_iso_def by (rule keeps_gask)

lemma keeps_withTimeout [keeps_rules]: "keeps (on_gov P) (withTimeout m p)"
  by (rule keepsI) (simp add: withTimeout_def split: promise.splits)

lemma keeps_gquery:
  assumes "\<And>w. on_gov P w \<Longrightarrow> on_gov P (snd (stmt w))"
  shows "keeps (on_gov P) (gquery env stmt)"
proof (rule keepsI)
  fix w assume P: "on_gov P w"
  then have "on_gov P (snd (stmt (gtick w)))" by (intro assms) simp
  with P show "on_gov P (state_of (gquery env stmt w))"
    by (auto simp: gquery_def case_prod_beta split: option.splits)
qed

lemma keeps_gquery_read [keeps_rules]: "keeps (on_gov P) (gquery env (\<lambda>w. (f w, w)))"
  by (rule keeps_gquery) simp

end
