(* ===== verification/Gov_Store.thy ===== *)
theory Gov_Store
  imports Main Sql_Table Gov_World "HOL-Library.List_Lexorder" "HOL-Library.Char_ord" "HOL-Library.Product_Lexorder"
begin

text \<open>
  The stores of the governance queue (\<open>gateway/src/core/governanceStore.ts\<close>,
  \<open>core/governanceWriteStore.ts\<close>, \<open>core/auditLogStore.ts\<close>), as PostgreSQL keeps them: the table of
  actions with its primary key, the audit log, and the transactions that write both.
\<close>

section \<open>The table of actions\<close>

text \<open>A row as \<open>mapRow\<close> reads it back: the audit time is the row's, an empty list of approvers is none.\<close>

definition mapRow :: "gov_action \<Rightarrow> gov_action" where
  "mapRow a =
     a\<lparr>gc_audit := (gc_audit a)\<lparr>ga_createdAt := gc_createdAt a,
        ga_approvedBy := (if ga_approvedBy (gc_audit a) = Some [] then None else ga_approvedBy (gc_audit a))\<rparr>\<rparr>"

definition put_action :: "gov_action \<Rightarrow> gov_action list \<Rightarrow> gov_action list" where
  "put_action a rows = upsert gc_actionId (\<lambda>_. mapRow a) (mapRow a) rows"

definition actions_ok :: "gov_action list \<Rightarrow> bool" where
  "actions_ok rows \<longleftrightarrow> distinct (map gc_actionId rows)"

interpretation action_table: sql_table gc_actionId actions_ok
  by unfold_locales (simp_all add: actions_ok_def)

text \<open>\<open>ORDER BY created_at DESC, action_id DESC\<close>\<close>

definition newest_first :: "gov_action list \<Rightarrow> gov_action list" where
  "newest_first rows = rev (sort_key (\<lambda>a. (gc_createdAt a, gc_actionId a)) rows)"

definition store_get :: "gw_env \<Rightarrow> string \<Rightarrow> gov_action option gw_eff" where
  "store_get env actionId = gquery env (\<lambda>w. (row_by gc_actionId actionId (gw_actions w), w))"

definition open_action :: "string \<Rightarrow> int \<Rightarrow> gov_action list \<Rightarrow> gov_action option" where
  "open_action intentKey now rows =
     find (\<lambda>a. gc_intentKey a = intentKey \<and> is_open_intent now a) (newest_first rows)"

definition findOpenByIntentKey :: "gw_env \<Rightarrow> string \<Rightarrow> int \<Rightarrow> gov_action option gw_eff" where
  "findOpenByIntentKey env intentKey now = gquery env (\<lambda>w. (open_action intentKey now (gw_actions w), w))"

definition expired_requests :: "int \<Rightarrow> nat \<Rightarrow> gov_action list \<Rightarrow> gov_action list" where
  "expired_requests now limit rows =
     take limit (sort_key (\<lambda>a. (the (gc_expiresAt a), gc_actionId a))
       (filter (\<lambda>a. isExpiredRequestedGovernanceAction a now) rows))"

definition listRequestedExpired :: "gw_env \<Rightarrow> int \<Rightarrow> nat \<Rightarrow> gov_action list gw_eff" where
  "listRequestedExpired env now limit = gquery env (\<lambda>w. (expired_requests now limit (gw_actions w), w))"

definition active_proposal_ids :: "gov_category \<Rightarrow> gov_action list \<Rightarrow> int list" where
  "active_proposal_ids category rows =
     sort (remdups (map (\<lambda>a. the (gc_proposalId a))
       (filter (\<lambda>a. gc_category a = category \<and> gc_proposalId a \<noteq> None \<and>
          gc_status a \<in> set ACTIVE_PROPOSAL_STATUSES) rows)))"

definition listActiveProposalIds :: "gw_env \<Rightarrow> gov_category \<Rightarrow> int list gw_eff" where
  "listActiveProposalIds env category = gquery env (\<lambda>w. (active_proposal_ids category (gw_actions w), w))"

text \<open>
  The list route.  A cursor stands for its decoded form, the creation time and the id of the last
  action of a page; the text that carries it is \<open>base64url\<close> of JSON.
\<close>

record list_input =
  li_category :: "gov_category option"
  li_status :: "gov_status option"
  li_tradeId :: "string option"
  li_limit :: nat
  li_cursor :: "(int \<times> string) option"

definition matches_input :: "list_input \<Rightarrow> gov_action \<Rightarrow> bool" where
  "matches_input input a \<longleftrightarrow>
     (li_category input = None \<or> li_category input = Some (gc_category a)) \<and>
     (li_status input = None \<or> li_status input = Some (gc_status a)) \<and>
     (\<not> truthy_opt (li_tradeId input) \<or> gc_tradeId a = li_tradeId input)"

definition after_cursor :: "(int \<times> string) option \<Rightarrow> gov_action \<Rightarrow> bool" where
  "after_cursor cursor a \<longleftrightarrow>
     (case cursor of
        None \<Rightarrow> True
      | Some (createdAt, actionId) \<Rightarrow>
          gc_createdAt a < createdAt \<or> gc_createdAt a = createdAt \<and> gc_actionId a < actionId)"

definition nextCursorFromItems :: "gov_action list \<Rightarrow> nat \<Rightarrow> (int \<times> string) option" where
  "nextCursorFromItems items limit =
     (if length items \<le> limit then None
      else (let boundary = items ! (limit - 1) in Some (gc_createdAt boundary, gc_actionId boundary)))"

definition list_page :: "list_input \<Rightarrow> gov_action list \<Rightarrow> gov_action list \<times> (int \<times> string) option" where
  "list_page input rows =
     (let mapped = take (li_limit input + 1)
            (newest_first (filter (\<lambda>a. matches_input input a \<and> after_cursor (li_cursor input) a) rows))
      in (take (li_limit input) mapped, nextCursorFromItems mapped (li_limit input)))"

definition listActions :: "gw_env \<Rightarrow> list_input \<Rightarrow> (gov_action list \<times> (int \<times> string) option) gw_eff" where
  "listActions env input = gquery env (\<lambda>w. (list_page input (gw_actions w), w))"

section \<open>The write store\<close>

definition upsertGovernanceAction :: "gw_env \<Rightarrow> gov_action \<Rightarrow> unit gw_eff" where
  "upsertGovernanceAction env a = gquery env (\<lambda>w. ((), w\<lparr>gw_actions := put_action a (gw_actions w)\<rparr>))"

definition insertAuditLog :: "gw_env \<Rightarrow> audit_entry \<Rightarrow> unit gw_eff" where
  "insertAuditLog env e = gquery env (\<lambda>w. ((), w\<lparr>gw_audit := gw_audit w @ [e]\<rparr>))"

text \<open>\<open>AuditLogStore.append\<close>, outside of a transaction\<close>

definition appendAudit :: "gw_env \<Rightarrow> audit_entry \<Rightarrow> unit gw_eff" where
  "appendAudit env e = insertAuditLog env e"

definition command :: "gw_env \<Rightarrow> unit gw_eff" where
  "command env = gquery env (\<lambda>w. ((), w))"

text \<open>
  \<open>connect\<close>, \<open>BEGIN\<close>, the body, \<open>COMMIT\<close>; after a failure \<open>ROLLBACK\<close>, whose own failure replaces
  the error.  A failed transaction leaves the tables as they were, except that a \<open>COMMIT\<close> whose
  answer was lost may have taken effect.
\<close>

definition tables_of :: "gw_world \<Rightarrow> gw_world \<Rightarrow> gw_world" where
  "tables_of w w' = w'\<lparr>gw_actions := gw_actions w, gw_audit := gw_audit w\<rparr>"

definition commit :: "gw_env \<Rightarrow> gw_world \<Rightarrow> unit gw_eff" where
  "commit env before w =
     (case gv_db env (gw_tick w) of
        None \<Rightarrow> (Inr (), gtick w)
      | Some m \<Rightarrow> (Inl (Other_error m), if gv_commit_kept env (gw_tick w) then gtick w else tables_of before (gtick w)))"

definition rollback_error :: "gw_error \<Rightarrow> gw_error \<Rightarrow> gw_error" where
  "rollback_error original rollbackError =
     Other_error (''Governance write rollback failed after original error: '' @ gw_message original @
       ''; rollback error: '' @ gw_message rollbackError)"

definition rollback :: "gw_env \<Rightarrow> gw_error \<Rightarrow> 'a gw_eff" where
  "rollback env e = bindE (catchE (command env) (\<lambda>r. throw (rollback_error e r))) (\<lambda>_. throw e)"

definition transaction :: "gw_env \<Rightarrow> 'a gw_eff \<Rightarrow> 'a gw_eff" where
  "transaction env body w0 =
     bindE (command env) (\<lambda>_ w.
       (case bindE (command env) (\<lambda>_. body) w of
          (Inl e, w1) \<Rightarrow> rollback env e (tables_of w w1)
        | (Inr x, w1) \<Rightarrow>
            (case commit env w w1 of
               (Inl e, w2) \<Rightarrow> rollback env e w2
             | (Inr _, w2) \<Rightarrow> (Inr x, w2)))) w0"

definition failed_to_persist :: "string \<Rightarrow> gw_error" where
  "failed_to_persist actionId = Other_error (''Failed to persist governance action '' @ actionId)"

definition saveActionWithAudit :: "gw_env \<Rightarrow> gov_action \<Rightarrow> audit_entry \<Rightarrow> gov_action gw_eff" where
  "saveActionWithAudit env action auditEntry =
     seqE (transaction env
             (seqE (upsertGovernanceAction env action) (insertAuditLog env auditEntry)))
       (bindE (store_get env (gc_actionId action)) (\<lambda>stored.
          case stored of None \<Rightarrow> throw (failed_to_persist (gc_actionId action)) | Some a \<Rightarrow> ret a))"

text \<open>The body of the transaction that queues an action; the result is the id and \<open>created\<close>.\<close>

definition queue_body ::
  "gw_env \<Rightarrow> gov_action \<Rightarrow> audit_entry \<Rightarrow> (gov_action \<Rightarrow> audit_entry) \<Rightarrow> int \<Rightarrow> (string \<times> bool) gw_eff" where
  "queue_body env action auditEntry duplicateAuditEntry now =
     seqE (command env)
     (bindE (findOpenByIntentKey env (gc_intentKey action) now) (\<lambda>existing.
        case existing of
          Some e \<Rightarrow>
            bindE (store_get env (gc_actionId e)) (\<lambda>storedExisting.
              case storedExisting of
                None \<Rightarrow> throw (Other_error (''Failed to load governance action '' @ gc_actionId e @
                          '' for semantic dedupe''))
              | Some s \<Rightarrow> seqE (insertAuditLog env (duplicateAuditEntry s)) (ret (gc_actionId e, False)))
        | None \<Rightarrow>
            seqE (upsertGovernanceAction env action)
            (seqE (insertAuditLog env auditEntry) (ret (gc_actionId action, True)))))"

definition saveQueuedActionWithIntentDedupe ::
  "gw_env \<Rightarrow> gov_action \<Rightarrow> audit_entry \<Rightarrow> (gov_action \<Rightarrow> audit_entry) \<Rightarrow> int \<Rightarrow> (gov_action \<times> bool) gw_eff" where
  "saveQueuedActionWithIntentDedupe env action auditEntry duplicateAuditEntry now =
     bindE (transaction env (queue_body env action auditEntry duplicateAuditEntry now))
       (\<lambda>(existingActionId, created).
          bindE (store_get env existingActionId) (\<lambda>stored.
            case stored of
              None \<Rightarrow> throw (failed_to_persist existingActionId)
            | Some a \<Rightarrow> ret (a, created)))"

end
