(* ===== verification/Gov_Service.thy ===== *)
theory Gov_Service imports Main Gov_Store begin

text \<open>
  Requests to the governance queue (\<open>gateway/src/core/governanceMutationService.ts\<close>) and its
  cleanup (\<open>core/governanceCleanupService.ts\<close>).
\<close>

section \<open>Input checks\<close>

definition bad_request :: "string \<Rightarrow> gw_error" where
  "bad_request m = Gateway_error 400 VALIDATION_ERROR m []"

definition VALID_EVIDENCE_KINDS :: "string list" where
  "VALID_EVIDENCE_KINDS =
     [''runbook'', ''incident'', ''ticket'', ''tx'', ''event'', ''document'', ''log'', ''dashboard'', ''other'']"

definition evidence_field :: "nat \<Rightarrow> string \<Rightarrow> string" where
  "evidence_field index rest = ''audit.evidenceLinks['' @ show_nat index @ '']'' @ rest"

text \<open>A link that is null makes \<open>link.kind\<close> a \<open>TypeError\<close>.\<close>

definition validateEvidenceLink :: "json \<Rightarrow> nat \<Rightarrow> gw_error + unit" where
  "validateEvidenceLink link index =
     (if link = J_null \<or> link = J_undefined then Inl (Other_error ''Cannot read properties of null (reading kind)'')
      else if \<not> (case json_get ''kind'' link of J_str k \<Rightarrow> k \<in> set VALID_EVIDENCE_KINDS | _ \<Rightarrow> False)
      then Inl (bad_request (evidence_field index ''.kind is invalid''))
      else if \<not> (case json_get ''uri'' link of J_str u \<Rightarrow> length (trim u) \<ge> 3 | _ \<Rightarrow> False)
      then Inl (bad_request (evidence_field index ''.uri is required''))
      else if json_get ''note'' link \<noteq> J_undefined \<and>
        \<not> (case json_get ''note'' link of J_str n \<Rightarrow> length (trim n) \<noteq> 0 | _ \<Rightarrow> False)
      then Inl (bad_request (evidence_field index ''.note must be a non-empty string when provided''))
      else Inr ())"

fun validateEvidenceLinks :: "json list \<Rightarrow> nat \<Rightarrow> gw_error + unit" where
  "validateEvidenceLinks [] index = Inr ()"
| "validateEvidenceLinks (l # ls) index =
     (case validateEvidenceLink l index of Inl e \<Rightarrow> Inl e | Inr _ \<Rightarrow> validateEvidenceLinks ls (index + 1))"

definition text_or_empty :: "json \<Rightarrow> string" where
  "text_or_empty v = (case json_text v of None \<Rightarrow> [] | Some s \<Rightarrow> s)"

definition evidence_of :: "json \<Rightarrow> evidence_link" where
  "evidence_of link =
     \<lparr>ev_kind = text_or_empty (json_get ''kind'' link), ev_uri = trim (text_or_empty (json_get ''uri'' link)),
      ev_note = (if json_falsy (json_get ''note'' link) then None
                 else Some (trim (text_or_empty (json_get ''note'' link))))\<rparr>"

record audit_input =
  ai_reason :: string
  ai_evidenceLinks :: "evidence_link list"
  ai_ticketRef :: string

definition validateGovernanceAuditInput :: "json \<Rightarrow> gw_error + audit_input" where
  "validateGovernanceAuditInput raw =
     (if json_falsy raw \<or> \<not> json_is_object raw then Inl (bad_request ''Request body must be a JSON object'')
      else
        (let audit = json_get ''audit'' raw
         in if json_falsy audit \<or> \<not> json_is_object audit
            then Inl (bad_request ''Request body must include audit metadata'')
            else
              (let reason = trim (text_or_empty (json_get ''reason'' audit));
                   ticketRef = trim (text_or_empty (json_get ''ticketRef'' audit));
                   evidenceLinks = (case json_items (json_get ''evidenceLinks'' audit) of None \<Rightarrow> [] | Some ls \<Rightarrow> ls)
               in if length reason < 8 \<or> length reason > 2000
                  then Inl (bad_request ''audit.reason must be between 8 and 2000 characters'')
                  else if length ticketRef < 2 \<or> length ticketRef > 128
                  then Inl (bad_request ''audit.ticketRef must be between 2 and 128 characters'')
                  else if length evidenceLinks < 1
                  then Inl (bad_request ''audit.evidenceLinks must contain at least one item'')
                  else
                    (case validateEvidenceLinks evidenceLinks 0 of
                       Inl e \<Rightarrow> Inl e
                     | Inr _ \<Rightarrow> Inr \<lparr>ai_reason = reason, ai_evidenceLinks = map evidence_of evidenceLinks,
                                 ai_ticketRef = ticketRef\<rparr>))))"

text \<open>
  \<open>Number.parseInt\<close> gives the double nearest to the digits, ties to even: an id above
  \<open>Number.MAX_SAFE_INTEGER\<close> may come out as its neighbour.  (An id of more than 308 digits would
  be \<open>Infinity\<close>, which no read of the contract accepts.)
\<close>

fun bit_count :: "nat \<Rightarrow> nat" where
  "bit_count n = (if n = 0 then 0 else Suc (bit_count (n div 2)))"

declare bit_count.simps [simp del]

definition nearest_double :: "nat \<Rightarrow> nat" where
  "nearest_double n =
     (if n < 9007199254740992 then n
      else let k = bit_count n - 53; q = n div 2 ^ k; r = n mod 2 ^ k; half = 2 ^ (k - 1)
           in (if half < r \<or> half = r \<and> odd q then q + 1 else q) * 2 ^ k)"

definition validateProposalId :: "string option \<Rightarrow> gw_error + nat" where
  "validateProposalId raw =
     (if \<not> truthy_opt raw \<or> \<not> all_digits (the raw)
      then Inl (bad_request ''Path parameter proposalId must be a non-negative integer'')
      else Inr (nearest_double (nat_of_digits 0 (the raw))))"

lemma safe_id_is_exact: "n < 9007199254740992 \<Longrightarrow> nearest_double n = n"
  by (simp add: nearest_double_def)

lemma unsafe_id_is_rounded: "nearest_double 9007199254740993 = 9007199254740992"
  by (simp add: nearest_double_def bit_count.simps Let_def)

definition validateAddressInput :: "(string \<Rightarrow> bool) \<Rightarrow> string \<Rightarrow> json \<Rightarrow> string \<Rightarrow> gw_error + string" where
  "validateAddressInput isaddr zero v field =
     (case json_text v of
        None \<Rightarrow> Inl (bad_request (field @ '' must be a valid address''))
      | Some s \<Rightarrow>
          if \<not> isaddr s then Inl (bad_request (field @ '' must be a valid address''))
          else if s = zero then Inl (bad_request (field @ '' cannot be the zero address''))
          else Inr s)"

section \<open>Queueing\<close>

record gw_principal =
  gp_sessionReference :: string
  gp_userId :: string
  gp_walletAddress :: string
  gp_role :: string

record queue_input =
  qi_category :: gov_category
  qi_contractMethod :: string
  qi_routePath :: string
  qi_proposalId :: "int option"
  qi_targetAddress :: "string option"
  qi_tradeId :: "string option"
  qi_audit :: audit_input
  qi_principal :: gw_principal
  qi_requestId :: string
  qi_correlationId :: string
  qi_idempotencyKey :: string

record queue_config =
  qc_chainId :: int
  qc_governanceQueueTtlSeconds :: int

definition buildAuditRecord :: "audit_input \<Rightarrow> gw_principal \<Rightarrow> int \<Rightarrow> gov_audit" where
  "buildAuditRecord audit caller acceptedAt =
     \<lparr>ga_reason = ai_reason audit, ga_evidenceLinks = ai_evidenceLinks audit,
      ga_ticketRef = ai_ticketRef audit, ga_actorSessionId = gp_sessionReference caller,
      ga_actorWallet = gp_walletAddress caller, ga_actorRole = gp_role caller,
      ga_createdAt = acceptedAt, ga_requestedBy = gp_userId caller, ga_approvedBy = None\<rparr>"

definition requested_action :: "queue_config \<Rightarrow> queue_input \<Rightarrow> string \<Rightarrow> int \<Rightarrow> gov_action" where
  "requested_action cfg input actionId acceptedAt =
     \<lparr>gc_actionId = actionId,
      gc_intentKey = buildGovernanceIntentKey (qi_category input) (qi_contractMethod input)
        (qi_proposalId input) (qi_targetAddress input) (qi_tradeId input)
        (Some (show_int (qc_chainId cfg))) (Some (gp_walletAddress (qi_principal input))),
      gc_proposalId = qi_proposalId input, gc_category = qi_category input, gc_status = Gov_requested,
      gc_contractMethod = qi_contractMethod input, gc_txHash = None, gc_extrinsicHash = None,
      gc_blockNumber = None, gc_tradeId = qi_tradeId input,
      gc_chainId = Some (show_int (qc_chainId cfg)), gc_targetAddress = qi_targetAddress input,
      gc_createdAt = acceptedAt,
      gc_expiresAt = Some (acceptedAt + qc_governanceQueueTtlSeconds cfg * 1000),
      gc_executedAt = None, gc_requestId = qi_requestId input,
      gc_correlationId = Some (qi_correlationId input), gc_errorCode = None, gc_errorMessage = None,
      gc_audit = buildAuditRecord (qi_audit input) (qi_principal input) acceptedAt\<rparr>"

text \<open>A metadata entry that is null is left out.\<close>

definition present :: "string \<Rightarrow> string option \<Rightarrow> (string \<times> string) list" where
  "present key v = (case v of None \<Rightarrow> [] | Some s \<Rightarrow> [(key, s)])"

definition queue_entry :: "queue_input \<Rightarrow> string \<Rightarrow> gov_status \<Rightarrow> (string \<times> string) list \<Rightarrow> audit_entry" where
  "queue_entry input eventType s metadata =
     \<lparr>al_eventType = eventType, al_route = qi_routePath input, al_method = ''POST'',
      al_requestId = qi_requestId input, al_correlationId = Some (qi_correlationId input),
      al_actorUserId = Some (gp_userId (qi_principal input)),
      al_actorWalletAddress = Some (gp_walletAddress (qi_principal input)),
      al_actorRole = Some (gp_role (qi_principal input)), al_status = gov_status_name s,
      al_metadata = metadata\<rparr>"

definition queued_entry :: "queue_input \<Rightarrow> string \<Rightarrow> audit_entry" where
  "queued_entry input actionId =
     queue_entry input ''governance.action.queued'' Gov_requested
       ([(''actionId'', actionId), (''category'', category_name (qi_category input))] @
        present ''proposalId'' (map_option show_int (qi_proposalId input)) @
        present ''targetAddress'' (qi_targetAddress input) @
        [(''idempotencyKey'', qi_idempotencyKey input)])"

definition duplicate_entry :: "queue_input \<Rightarrow> gov_action \<Rightarrow> audit_entry" where
  "duplicate_entry input existing =
     queue_entry input ''governance.action.duplicate_reused'' (gc_status existing)
       ([(''actionId'', gc_actionId existing), (''category'', category_name (gc_category existing))] @
        present ''proposalId'' (map_option show_int (gc_proposalId existing)) @
        present ''targetAddress'' (gc_targetAddress existing) @
        [(''intentKey'', gc_intentKey existing), (''idempotencyKey'', qi_idempotencyKey input)])"

definition accepted_of :: "gov_action \<Rightarrow> queue_accepted" where
  "accepted_of a =
     \<lparr>qa_actionId = gc_actionId a, qa_intentKey = gc_intentKey a, qa_proposalId = gc_proposalId a,
      qa_category = gc_category a, qa_status = gc_status a, qa_acceptedAt = gc_createdAt a,
      qa_expiresAt = gc_expiresAt a\<rparr>"

definition queueAction :: "gw_env \<Rightarrow> queue_config \<Rightarrow> queue_input \<Rightarrow> queue_accepted gw_eff" where
  "queueAction env cfg input =
     bindE (date_iso env) (\<lambda>acceptedAt.
     bindE (gask (gv_uuid env)) (\<lambda>actionId.
       (let queued = requested_action cfg input actionId acceptedAt
        in bindE (saveQueuedActionWithIntentDedupe env queued (queued_entry input actionId)
                    (duplicate_entry input) acceptedAt)
             (\<lambda>(savedAction, created).
                if created then ret (accepted_of queued)
                else bindE (store_get env (gc_actionId savedAction)) (\<lambda>again.
                  ret (accepted_of (case again of None \<Rightarrow> savedAction | Some a \<Rightarrow> a)))))))"

section \<open>Cleanup\<close>

record cleanup_result =
  cr_requestId :: string
  cr_applied :: bool
  cr_staleCount :: nat
  cr_actions :: "gov_action list"
  cr_inspectedAt :: int

definition buildStaleRecord :: "gov_action \<Rightarrow> int \<Rightarrow> gov_action" where
  "buildStaleRecord action inspectedAt =
     action\<lparr>gc_status := Gov_stale, gc_errorCode := Some ''QUEUE_EXPIRED'',
       gc_errorMessage := Some ''Governance action exceeded the requested queue TTL before execution'',
       gc_executedAt := Some inspectedAt\<rparr>"

definition cleanup_entry :: "gov_action \<Rightarrow> string \<Rightarrow> (int \<Rightarrow> string) \<Rightarrow> int \<Rightarrow> audit_entry" where
  "cleanup_entry action requestId fmt inspectedAt =
     \<lparr>al_eventType = ''governance.action.cleanup.stale'',
      al_route = ''/internal/cleanup/governance-actions'', al_method = ''CLEANUP'',
      al_requestId = requestId, al_correlationId = Some requestId, al_actorUserId = None,
      al_actorWalletAddress = None, al_actorRole = Some ''system'', al_status = ''stale'',
      al_metadata = [(''actionId'', gc_actionId action), (''intentKey'', gc_intentKey action),
        (''inspectedAt'', fmt inspectedAt)] @ present ''expiresAt'' (map_option fmt (gc_expiresAt action)) @
        [(''reasonCode'', ''QUEUE_EXPIRED'')]\<rparr>"

definition cleanup_dryRun :: "gw_env \<Rightarrow> int \<Rightarrow> nat \<Rightarrow> cleanup_result gw_eff" where
  "cleanup_dryRun env now limit =
     bindE (listRequestedExpired env now limit) (\<lambda>actions.
     bindE (gask (gv_uuid env)) (\<lambda>uuid.
       ret \<lparr>cr_requestId = ''cleanup-preview-'' @ uuid, cr_applied = False, cr_staleCount = length actions,
            cr_actions = actions, cr_inspectedAt = now\<rparr>))"

definition cleanup_candidate ::
  "gw_env \<Rightarrow> (int \<Rightarrow> string) \<Rightarrow> string \<Rightarrow> int \<Rightarrow> gov_action list \<Rightarrow> gov_action \<Rightarrow> gov_action list gw_eff" where
  "cleanup_candidate env fmt requestId now staleActions candidate =
     bindE (store_get env (gc_actionId candidate)) (\<lambda>current.
       case current of
         None \<Rightarrow> ret staleActions
       | Some c \<Rightarrow>
           if \<not> isExpiredRequestedGovernanceAction c now then ret staleActions
           else bindE (saveActionWithAudit env (buildStaleRecord c now) (cleanup_entry c requestId fmt now))
                  (\<lambda>stale. ret (staleActions @ [stale])))"

definition cleanup_apply :: "gw_env \<Rightarrow> (int \<Rightarrow> string) \<Rightarrow> int \<Rightarrow> nat \<Rightarrow> cleanup_result gw_eff" where
  "cleanup_apply env fmt now limit =
     bindE (gask (gv_uuid env)) (\<lambda>uuid.
     bindE (listRequestedExpired env now limit) (\<lambda>candidates.
     bindE (foldE (cleanup_candidate env fmt (''cleanup-'' @ uuid) now) [] candidates) (\<lambda>staleActions.
       ret \<lparr>cr_requestId = ''cleanup-'' @ uuid, cr_applied = True, cr_staleCount = length staleActions,
            cr_actions = staleActions, cr_inspectedAt = now\<rparr>)))"

end
