(* ===== verification/Gov_Status.thy ===== *)
theory Gov_Status imports Main Gov_World begin

text \<open>
  The reads of the escrow contract (\<open>gateway/src/core/governanceStatusService.ts\<close>): the protocol
  status, the proposals and the approvals, which the routes check before they queue an action and
  from which the executor tells what an executed action has become.
\<close>

record governance_status =
  gs_paused :: bool
  gs_claimsPaused :: bool
  gs_oracleActive :: bool
  gs_oracleAddress :: string
  gs_treasuryAddress :: string
  gs_treasuryPayoutAddress :: string
  gs_governanceApprovalsRequired :: int
  gs_governanceTimelockSeconds :: int
  gs_requiredAdminCount :: int
  gs_hasActiveUnpauseProposal :: bool
  gs_activeUnpauseApprovals :: int
  gs_activeOracleProposalIds :: "int list"
  gs_activeTreasuryPayoutReceiverProposalIds :: "int list"

record unpause_state =
  us_hasActiveProposal :: bool
  us_approvalCount :: int
  us_executed :: bool

record proposal_state =
  ps_proposalId :: int
  ps_approvalCount :: int
  ps_executed :: bool
  ps_cancelled :: bool
  ps_expired :: bool
  ps_etaSeconds :: int
  ps_targetAddress :: string

definition MAX_SAFE :: int where
  "MAX_SAFE = 9007199254740991"

text \<open>\<open>Number(value)\<close> is not a safe integer exactly when the value is out of the range.\<close>

definition toSafeInteger :: "int \<Rightarrow> string \<Rightarrow> gw_error + int" where
  "toSafeInteger v field =
     (if \<bar>v\<bar> > MAX_SAFE
      then Inl (Gateway_error 503 UPSTREAM_UNAVAILABLE
             (''On-chain field '' @ [CHR 0x27] @ field @ [CHR 0x27] @ '' exceeds safe integer range'') [])
      else Inr v)"

definition runChainRead :: "(nat \<Rightarrow> 'a promise) \<Rightarrow> 'a gw_eff" where
  "runChainRead p = withTimeout ''Timed out while reading governance state from chain'' p"

text \<open>
  \<open>collectActiveProposalIds\<close>: a promise that is rejected when one of the reads is, the first of the
  list taken for the first in time, or when an active id is not a safe integer.
\<close>

definition proposal_active :: "int \<Rightarrow> proposal_raw \<Rightarrow> bool" where
  "proposal_active chainTimeSeconds p \<longleftrightarrow>
     pr_createdAt p > 0 \<and> \<not> pr_executed p \<and> \<not> pr_cancelled p \<and> pr_expiresAt p \<ge> chainTimeSeconds"

definition active_id :: "int \<Rightarrow> int \<Rightarrow> proposal_raw promise \<Rightarrow> int option promise" where
  "active_id chainTimeSeconds proposalId p =
     (case p of
        Rejects e \<Rightarrow> Rejects e
      | Pending \<Rightarrow> Pending
      | Resolves v \<Rightarrow>
          if proposal_active chainTimeSeconds v
          then (case toSafeInteger proposalId ''proposalId'' of Inl e \<Rightarrow> Rejects e | Inr n \<Rightarrow> Resolves (Some n))
          else Resolves None)"

fun promise_all :: "'a promise list \<Rightarrow> 'a list promise" where
  "promise_all [] = Resolves []"
| "promise_all (p # ps) =
     (case p of
        Rejects e \<Rightarrow> Rejects e
      | Pending \<Rightarrow> (case promise_all ps of Rejects e \<Rightarrow> Rejects e | _ \<Rightarrow> Pending)
      | Resolves x \<Rightarrow>
          (case promise_all ps of Rejects e \<Rightarrow> Rejects e | Pending \<Rightarrow> Pending | Resolves xs \<Rightarrow> Resolves (x # xs)))"

text \<open>\<open>[...new Set(ids)]\<close>: the first occurrences, in order\<close>

fun first_occurrences :: "int list \<Rightarrow> int list" where
  "first_occurrences [] = []"
| "first_occurrences (x # xs) = x # filter (\<lambda>y. y \<noteq> x) (first_occurrences xs)"

definition collectActiveProposalIds ::
  "int list \<Rightarrow> int \<Rightarrow> (int \<Rightarrow> proposal_raw promise) \<Rightarrow> int list promise" where
  "collectActiveProposalIds candidateProposalIds chainTimeSeconds loadProposal =
     (case promise_all (map (\<lambda>i. active_id chainTimeSeconds i (loadProposal i))
             (first_occurrences candidateProposalIds)) of
        Rejects e \<Rightarrow> Rejects e
      | Pending \<Rightarrow> Pending
      | Resolves snapshots \<Rightarrow> Resolves (map the (filter (\<lambda>v. v \<noteq> None) snapshots)))"

definition promise_pair :: "'a promise \<Rightarrow> 'b promise \<Rightarrow> ('a \<times> 'b) promise" where
  "promise_pair p q =
     (case p of
        Rejects e \<Rightarrow> Rejects e
      | Pending \<Rightarrow> (case q of Rejects e \<Rightarrow> Rejects e | _ \<Rightarrow> Pending)
      | Resolves x \<Rightarrow> (case q of Rejects e \<Rightarrow> Rejects e | Pending \<Rightarrow> Pending | Resolves y \<Rightarrow> Resolves (x, y)))"

definition read_failed :: "string \<Rightarrow> gw_error \<Rightarrow> gw_error" where
  "read_failed message e = Gateway_error 503 UPSTREAM_UNAVAILABLE message [(''cause'', gw_message e)]"

definition is_gateway_error :: "gw_error \<Rightarrow> bool" where
  "is_gateway_error e = (case e of Gateway_error _ _ _ _ \<Rightarrow> True | Other_error _ \<Rightarrow> False)"

definition getGovernanceStatus :: "gw_env \<Rightarrow> int list \<Rightarrow> int list \<Rightarrow> governance_status gw_eff" where
  "getGovernanceStatus env oracleProposalIds treasuryPayoutReceiverProposalIds =
     (let v = gv_views env
      in catchE
        (bindE (runChainRead (ew_snapshot v)) (\<lambda>snapshot.
         bindE (runChainRead (ew_latestBlock v)) (\<lambda>latestBlock.
         (let chainTimeSeconds = (case latestBlock of None \<Rightarrow> 0 | Some t \<Rightarrow> t)
          in bindE (runChainRead (\<lambda>t. promise_pair
                 (collectActiveProposalIds oracleProposalIds chainTimeSeconds (ew_oracleUpdateProposal v t))
                 (collectActiveProposalIds treasuryPayoutReceiverProposalIds chainTimeSeconds
                    (ew_treasuryUpdateProposal v t)))) (\<lambda>(oracleIds, treasuryIds).
         bindE (lift (toSafeInteger (sr_governanceApprovals snapshot) ''governanceApprovals'')) (\<lambda>required.
         bindE (lift (toSafeInteger (sr_governanceTimelock snapshot) ''governanceTimelock'')) (\<lambda>timelock.
         bindE (lift (toSafeInteger (sr_requiredApprovals snapshot) ''requiredApprovals'')) (\<lambda>admins.
         bindE (if ur_active (sr_unpause snapshot)
                then lift (toSafeInteger (ur_approvalCount (sr_unpause snapshot)) ''unpauseProposal.approvalCount'')
                else ret 0) (\<lambda>unpauseApprovals.
           ret \<lparr>gs_paused = sr_paused snapshot, gs_claimsPaused = sr_claimsPaused snapshot,
             gs_oracleActive = sr_oracleActive snapshot, gs_oracleAddress = sr_oracleAddress snapshot,
             gs_treasuryAddress = sr_treasuryAddress snapshot,
             gs_treasuryPayoutAddress = sr_treasuryPayoutAddress snapshot,
             gs_governanceApprovalsRequired = required, gs_governanceTimelockSeconds = timelock,
             gs_requiredAdminCount = admins, gs_hasActiveUnpauseProposal = ur_active (sr_unpause snapshot),
             gs_activeUnpauseApprovals = unpauseApprovals, gs_activeOracleProposalIds = oracleIds,
             gs_activeTreasuryPayoutReceiverProposalIds = treasuryIds\<rparr>)))))))))
        (\<lambda>e. if is_gateway_error e then throw e
             else throw (read_failed ''Failed to read governance status from chain'' e)))"

definition getUnpauseProposalState :: "gw_env \<Rightarrow> unpause_state gw_eff" where
  "getUnpauseProposalState env =
     catchE
       (bindE (runChainRead (ew_unpause (gv_views env))) (\<lambda>p.
        bindE (if ur_active p then lift (toSafeInteger (ur_approvalCount p) ''unpauseProposal.approvalCount'')
               else ret 0) (\<lambda>count.
          ret \<lparr>us_hasActiveProposal = ur_active p, us_approvalCount = count, us_executed = ur_executed p\<rparr>)))
       (\<lambda>e. throw (read_failed ''Failed to read unpause proposal state'' e))"

text \<open>The reads for the oracle's proposals and for the treasury's have the same shape.\<close>

definition read_proposal ::
  "gw_env \<Rightarrow> string \<Rightarrow> string \<Rightarrow> (nat \<Rightarrow> int promise) \<Rightarrow> (nat \<Rightarrow> int \<Rightarrow> proposal_raw promise) \<Rightarrow> int \<Rightarrow>
   proposal_state option gw_eff" where
  "read_proposal env message field counter proposals proposalId =
     catchE
       (bindE (runChainRead counter) (\<lambda>n.
        bindE (lift (toSafeInteger n (field @ ''Counter''))) (\<lambda>total.
          if proposalId < 0 \<or> total \<le> proposalId then ret None
          else
            bindE (runChainRead (\<lambda>t. proposals t proposalId)) (\<lambda>proposal.
              if pr_createdAt proposal \<le> 0 then ret None
              else
                bindE (lift (toSafeInteger (pr_expiresAt proposal) (field @ ''ProposalExpiresAt''))) (\<lambda>expirySeconds.
                bindE (lift (toSafeInteger (pr_approvalCount proposal) (field @ ''Proposal.approvalCount''))) (\<lambda>approvalCount.
                bindE (date_iso env) (\<lambda>now.
                bindE (lift (toSafeInteger (pr_eta proposal) (field @ ''Proposal.eta''))) (\<lambda>eta.
                  ret (Some \<lparr>ps_proposalId = proposalId, ps_approvalCount = approvalCount,
                    ps_executed = pr_executed proposal, ps_cancelled = pr_cancelled proposal,
                    ps_expired = (expirySeconds < now div 1000), ps_etaSeconds = eta,
                    ps_targetAddress = pr_target proposal\<rparr>)))))))))
       (\<lambda>e. throw (read_failed message e))"

definition getOracleProposalState :: "gw_env \<Rightarrow> int \<Rightarrow> proposal_state option gw_eff" where
  "getOracleProposalState env proposalId =
     read_proposal env ''Failed to read oracle proposal state'' ''oracleUpdate'' (ew_oracleUpdateCounter (gv_views env))
       (ew_oracleUpdateProposal (gv_views env)) proposalId"

definition getTreasuryPayoutReceiverProposalState :: "gw_env \<Rightarrow> int \<Rightarrow> proposal_state option gw_eff" where
  "getTreasuryPayoutReceiverProposalState env proposalId =
     read_proposal env ''Failed to read treasury payout receiver proposal state'' ''treasuryPayoutAddressUpdate''
       (ew_treasuryUpdateCounter (gv_views env)) (ew_treasuryUpdateProposal (gv_views env)) proposalId"

definition getTreasuryClaimableBalance :: "gw_env \<Rightarrow> int gw_eff" where
  "getTreasuryClaimableBalance env =
     catchE
       (bindE (runChainRead (ew_treasuryAddress (gv_views env))) (\<lambda>treasuryAddress.
          runChainRead (\<lambda>t. ew_claimableUsdc (gv_views env) t treasuryAddress)))
       (\<lambda>e. throw (read_failed ''Failed to read treasury claimable balance'' e))"

definition hasApprovedUnpause :: "gw_env \<Rightarrow> string \<Rightarrow> bool gw_eff" where
  "hasApprovedUnpause env wallet =
     catchE (runChainRead (\<lambda>t. ew_unpauseHasApproved (gv_views env) t wallet))
       (\<lambda>e. throw (read_failed ''Failed to read unpause approval state'' e))"

definition hasApprovedOracleProposal :: "gw_env \<Rightarrow> int \<Rightarrow> string \<Rightarrow> bool gw_eff" where
  "hasApprovedOracleProposal env proposalId wallet =
     catchE (runChainRead (\<lambda>t. ew_oracleUpdateHasApproved (gv_views env) t proposalId wallet))
       (\<lambda>e. throw (read_failed ''Failed to read oracle approval state'' e))"

definition hasApprovedTreasuryPayoutReceiverProposal :: "gw_env \<Rightarrow> int \<Rightarrow> string \<Rightarrow> bool gw_eff" where
  "hasApprovedTreasuryPayoutReceiverProposal env proposalId wallet =
     catchE (runChainRead (\<lambda>t. ew_treasuryUpdateHasApproved (gv_views env) t proposalId wallet))
       (\<lambda>e. throw (read_failed ''Failed to read treasury payout receiver approval state'' e))"

section \<open>Reads change nothing\<close>

lemmas status_reads =
  getGovernanceStatus_def getUnpauseProposalState_def getOracleProposalState_def
  getTreasuryPayoutReceiverProposalState_def read_proposal_def getTreasuryClaimableBalance_def
  hasApprovedUnpause_def hasApprovedOracleProposal_def hasApprovedTreasuryPayoutReceiverProposal_def
  runChainRead_def Let_def

lemma keeps_status_reads [keeps_rules]:
  "keeps (on_gov P) (getGovernanceStatus env os ts)" "keeps (on_gov P) (getUnpauseProposalState env)"
  "keeps (on_gov P) (getOracleProposalState env i)"
  "keeps (on_gov P) (getTreasuryPayoutReceiverProposalState env i)"
  "keeps (on_gov P) (getTreasuryClaimableBalance env)" "keeps (on_gov P) (hasApprovedUnpause env a)"
  "keeps (on_gov P) (hasApprovedOracleProposal env i a)"
  "keeps (on_gov P) (hasApprovedTreasuryPayoutReceiverProposal env i a)"
  unfolding status_reads by (intro keeps_rules)+

end
