(* ===== verification/Gov_Executor.thy ===== *)
theory Gov_Executor imports Main Gov_Service Gov_Status begin

text \<open>
  The executor of queued actions (\<open>gateway/src/executor/governanceExecutor.ts\<close>) over the
  administration calls of the SDK (\<open>executor/adminSdkGovernanceChainExecutor.ts\<close>).
\<close>

section \<open>The chain executor\<close>

definition internal_error :: "string \<Rightarrow> gw_error" where
  "internal_error m = Gateway_error 500 INTERNAL_ERROR m []"

definition requireProposalId :: "gov_action \<Rightarrow> string \<Rightarrow> gw_error + int" where
  "requireProposalId action message =
     (case gc_proposalId action of None \<Rightarrow> Inl (internal_error message) | Some n \<Rightarrow> Inr n)"

definition requireTargetAddress :: "gov_action \<Rightarrow> string \<Rightarrow> gw_error + string" where
  "requireTargetAddress action message =
     (if \<not> truthy_opt (gc_targetAddress action) then Inl (internal_error message)
      else Inr (the (gc_targetAddress action)))"

text \<open>The call that a method stands for, or the error thrown before any call.\<close>

definition map_right :: "('a \<Rightarrow> 'b) \<Rightarrow> 'e + 'a \<Rightarrow> 'e + 'b" where
  "map_right f r = (case r of Inl e \<Rightarrow> Inl e | Inr x \<Rightarrow> Inr (f x))"

definition sdk_call_of :: "gov_action \<Rightarrow> gw_error + sdk_call" where
  "sdk_call_of action =
     (let m = gc_contractMethod action
      in if m = ''pause'' then Inr Sdk_pause
         else if m = ''proposeUnpause'' then Inr Sdk_proposeUnpause
         else if m = ''approveUnpause'' then Inr Sdk_approveUnpause
         else if m = ''cancelUnpauseProposal'' then Inr Sdk_cancelUnpauseProposal
         else if m = ''pauseClaims'' then Inr Sdk_pauseClaims
         else if m = ''unpauseClaims'' then Inr Sdk_unpauseClaims
         else if m = ''claimTreasury'' then Inr Sdk_claimTreasury
         else if m = ''proposeTreasuryPayoutAddressUpdate'' then
           map_right Sdk_proposeTreasuryPayoutAddressUpdate
             (requireTargetAddress action ''Queued treasury payout receiver action is missing targetAddress'')
         else if m = ''approveTreasuryPayoutAddressUpdate'' then
           map_right Sdk_approveTreasuryPayoutAddressUpdate
             (requireProposalId action ''Queued treasury payout receiver approval is missing proposalId'')
         else if m = ''executeTreasuryPayoutAddressUpdate'' then
           map_right Sdk_executeTreasuryPayoutAddressUpdate
             (requireProposalId action ''Queued treasury payout receiver execution is missing proposalId'')
         else if m = ''cancelExpiredTreasuryPayoutAddressUpdateProposal'' then
           map_right Sdk_cancelExpiredTreasuryPayoutAddressUpdateProposal
             (requireProposalId action ''Queued treasury payout receiver cancellation is missing proposalId'')
         else if m = ''disableOracleEmergency'' then Inr Sdk_disableOracleEmergency
         else if m = ''proposeOracleUpdate'' then
           map_right Sdk_proposeOracleUpdate
             (requireTargetAddress action ''Queued oracle update action is missing targetAddress'')
         else if m = ''approveOracleUpdate'' then
           map_right Sdk_approveOracleUpdate
             (requireProposalId action ''Queued oracle approval is missing proposalId'')
         else if m = ''executeOracleUpdate'' then
           map_right Sdk_executeOracleUpdate
             (requireProposalId action ''Queued oracle execution is missing proposalId'')
         else if m = ''cancelExpiredOracleUpdateProposal'' then
           map_right Sdk_cancelExpiredOracleUpdateProposal
             (requireProposalId action ''Queued oracle cancellation is missing proposalId'')
         else Inl (internal_error ''Unsupported governance contract method for executor''))"

text \<open>The result of a proposal carries its id, which must be a safe integer.\<close>

definition toSafeNumber :: "int option \<Rightarrow> gw_error + int option" where
  "toSafeNumber v =
     (case v of
        None \<Rightarrow> Inr None
      | Some n \<Rightarrow> if \<bar>n\<bar> > MAX_SAFE then Inl (internal_error ''Proposal id exceeds safe integer range'')
                 else Inr (Some n))"

definition toProposalResult :: "execution_result \<Rightarrow> string \<Rightarrow> gw_error + execution_result" where
  "toProposalResult execution missing =
     (case toSafeNumber (er_proposalId execution) of
        Inl e \<Rightarrow> Inl e
      | Inr None \<Rightarrow> Inl (internal_error missing)
      | Inr (Some n) \<Rightarrow> Inr (execution\<lparr>er_proposalId := Some n\<rparr>))"

fun sdk_result :: "sdk_call \<Rightarrow> execution_result \<Rightarrow> gw_error + execution_result" where
  "sdk_result (Sdk_proposeTreasuryPayoutAddressUpdate _) r =
     toProposalResult r ''Treasury payout receiver proposal execution did not return a proposal id''"
| "sdk_result (Sdk_proposeOracleUpdate _) r =
     toProposalResult r ''Oracle proposal execution did not return a proposal id''"
| "sdk_result _ r = Inr r"

definition chain_call :: "gw_env \<Rightarrow> string \<Rightarrow> sdk_call \<Rightarrow> execution_result gw_eff" where
  "chain_call env actionId c =
     seqE (change (\<lambda>w. w\<lparr>gw_calls := gw_calls w @ [(actionId, c)]\<rparr>))
       (withTimeout ''Timed out while executing queued governance action'' (\<lambda>t. gv_sdk env t c))"

definition chain_execute :: "gw_env \<Rightarrow> gov_action \<Rightarrow> execution_result gw_eff" where
  "chain_execute env action =
     bindE (lift (sdk_call_of action)) (\<lambda>c.
     bindE (chain_call env (gc_actionId action) c) (\<lambda>r. lift (sdk_result c r)))"

section \<open>Statuses after the execution\<close>

definition sanitizeError :: "gw_error \<Rightarrow> string" where
  "sanitizeError e =
     (let trimmed = take 1000 (trim (gw_message e))
      in if trimmed = [] then ''Unknown execution error'' else trimmed)"

definition fallbackPostExecutionStatus :: "gov_action \<Rightarrow> gov_status option" where
  "fallbackPostExecutionStatus action =
     (if gc_contractMethod action \<in> {''proposeUnpause'', ''approveUnpause'',
           ''proposeTreasuryPayoutAddressUpdate'', ''approveTreasuryPayoutAddressUpdate'',
           ''proposeOracleUpdate'', ''approveOracleUpdate''}
      then Some Gov_pending_approvals else None)"

definition normalizeWalletAddress :: "string \<Rightarrow> string" where
  "normalizeWalletAddress v = to_lower (trim v)"

definition resolveProposalStatus :: "proposal_state option \<Rightarrow> int \<Rightarrow> gw_error + gov_status" where
  "resolveProposalStatus proposal approvalsRequired =
     (case proposal of
        None \<Rightarrow> Inl (internal_error ''Proposal state disappeared after execution'')
      | Some p \<Rightarrow>
          Inr (if ps_executed p then Gov_executed else if ps_cancelled p then Gov_cancelled
               else if ps_expired p then Gov_expired
               else if ps_approvalCount p \<ge> approvalsRequired then Gov_approved else Gov_pending_approvals))"

definition resolveUnpauseApprovalStatus :: "gw_env \<Rightarrow> gov_status gw_eff" where
  "resolveUnpauseApprovalStatus env =
     bindE (getGovernanceStatus env [] []) (\<lambda>s.
     bindE (getUnpauseProposalState env) (\<lambda>proposal.
       ret (if \<not> gs_paused s \<and> \<not> us_hasActiveProposal proposal then Gov_executed
            else if us_approvalCount proposal \<ge> gs_governanceApprovalsRequired s then Gov_approved
            else Gov_pending_approvals)))"

definition resolvePostExecutionStatus :: "gw_env \<Rightarrow> gov_action \<Rightarrow> int option \<Rightarrow> gov_status gw_eff" where
  "resolvePostExecutionStatus env action resolvedProposalId =
     (let m = gc_contractMethod action;
          proposalId = (case resolvedProposalId of None \<Rightarrow> -1 | Some n \<Rightarrow> n)
      in if m \<in> {''pause'', ''pauseClaims'', ''unpauseClaims'', ''claimTreasury'', ''disableOracleEmergency'',
               ''executeTreasuryPayoutAddressUpdate'', ''executeOracleUpdate''} then ret Gov_executed
         else if m = ''proposeUnpause'' then ret Gov_pending_approvals
         else if m = ''approveUnpause'' then resolveUnpauseApprovalStatus env
         else if m \<in> {''cancelUnpauseProposal'', ''cancelExpiredTreasuryPayoutAddressUpdateProposal'',
               ''cancelExpiredOracleUpdateProposal''} then ret Gov_cancelled
         else if m \<in> {''proposeTreasuryPayoutAddressUpdate'', ''proposeOracleUpdate''} then ret Gov_pending_approvals
         else if m = ''approveTreasuryPayoutAddressUpdate'' then
           bindE (getGovernanceStatus env [] []) (\<lambda>s.
           bindE (getTreasuryPayoutReceiverProposalState env proposalId) (\<lambda>p.
             lift (resolveProposalStatus p (gs_governanceApprovalsRequired s))))
         else if m = ''approveOracleUpdate'' then
           bindE (getGovernanceStatus env [] []) (\<lambda>s.
           bindE (getOracleProposalState env proposalId) (\<lambda>p.
             lift (resolveProposalStatus p (gs_governanceApprovalsRequired s))))
         else throw (internal_error
           ''Unsupported governance contract method for post-execution state resolution''))"

section \<open>Persistence\<close>

definition executor_entry ::
  "string \<Rightarrow> string \<Rightarrow> string option \<Rightarrow> string option \<Rightarrow> string \<Rightarrow> (string \<times> string) list \<Rightarrow> audit_entry" where
  "executor_entry eventType requestId correlationId wallet s metadata =
     \<lparr>al_eventType = eventType, al_route = ''/internal/executor/governance-actions/:actionId'',
      al_method = ''EXECUTE'', al_requestId = requestId, al_correlationId = correlationId,
      al_actorUserId = None, al_actorWalletAddress = wallet, al_actorRole = Some ''executor'',
      al_status = s, al_metadata = metadata\<rparr>"

definition persistFailure ::
  "gw_env \<Rightarrow> gov_action \<Rightarrow> string \<Rightarrow> string option \<Rightarrow> string option \<Rightarrow> gw_error \<Rightarrow> gov_action gw_eff" where
  "persistFailure env existing requestId correlationId wallet e =
     bindE (date_iso env) (\<lambda>now.
       saveActionWithAudit env
         (existing\<lparr>gc_status := Gov_failed, gc_errorCode := Some ''EXECUTION_FAILED'',
            gc_errorMessage := Some (sanitizeError e), gc_executedAt := Some now\<rparr>)
         (executor_entry ''governance.action.execution.failed'' requestId correlationId wallet ''failed''
            [(''actionId'', gc_actionId existing), (''errorCode'', ''EXECUTION_FAILED''),
             (''errorMessage'', sanitizeError e)]))"

definition persistExecutionTimeout ::
  "gw_env \<Rightarrow> gov_action \<Rightarrow> string \<Rightarrow> string option \<Rightarrow> string option \<Rightarrow> gw_error \<Rightarrow> gov_action gw_eff" where
  "persistExecutionTimeout env existing requestId correlationId wallet e =
     bindE (date_iso env) (\<lambda>now.
       saveActionWithAudit env
         (existing\<lparr>gc_status := Gov_submitted, gc_errorCode := Some ''EXECUTION_TIMEOUT'',
            gc_errorMessage := Some (sanitizeError e), gc_executedAt := Some now\<rparr>)
         (executor_entry ''governance.action.execution.timeout'' requestId correlationId wallet ''submitted''
            [(''actionId'', gc_actionId existing), (''errorCode'', ''EXECUTION_TIMEOUT''),
             (''errorMessage'', sanitizeError e), (''outcome'', ''unknown'')]))"

definition persistStale ::
  "gw_env \<Rightarrow> (int \<Rightarrow> string) \<Rightarrow> gov_action \<Rightarrow> string \<Rightarrow> string option \<Rightarrow> gov_action gw_eff" where
  "persistStale env fmt existing requestId correlationId =
     bindE (date_iso env) (\<lambda>now.
       saveActionWithAudit env
         (existing\<lparr>gc_status := Gov_stale, gc_errorCode := Some ''QUEUE_EXPIRED'',
            gc_errorMessage := Some ''Governance action expired in the queue before execution started'',
            gc_executedAt := Some now\<rparr>)
         (executor_entry ''governance.action.execution.stale'' requestId correlationId None ''stale''
            ([(''actionId'', gc_actionId existing), (''intentKey'', gc_intentKey existing)] @
             present ''expiresAt'' (map_option fmt (gc_expiresAt existing)) @
             [(''errorCode'', ''QUEUE_EXPIRED'')])))"

text \<open>The status with the error columns, or the fallback when the reads fail.\<close>

definition final_status ::
  "gw_env \<Rightarrow> gov_action \<Rightarrow> int option \<Rightarrow> (gov_status \<times> (string \<times> string) option) gw_eff" where
  "final_status env action proposalId =
     catchE (bindE (resolvePostExecutionStatus env action proposalId) (\<lambda>s. ret (s, None)))
       (\<lambda>e. case fallbackPostExecutionStatus action of
              None \<Rightarrow> throw e
            | Some s \<Rightarrow> ret (s, Some (''STATUS_RECONCILIATION_REQUIRED'',
                take 1000 (''Executed on-chain but failed to resolve final status: '' @ sanitizeError e))))"

definition persistExecution :: "gw_env \<Rightarrow> gov_action \<Rightarrow> execution_result \<Rightarrow> gov_action gw_eff" where
  "persistExecution env action execution =
     (let proposalId = (case er_proposalId execution of Some n \<Rightarrow> Some n | None \<Rightarrow> gc_proposalId action)
      in bindE (final_status env action proposalId) (\<lambda>(finalStatus, failure).
         bindE (date_iso env) (\<lambda>now.
           ret (action\<lparr>gc_proposalId := proposalId, gc_status := finalStatus,
             gc_txHash := Some (er_txHash execution), gc_blockNumber := Some (er_blockNumber execution),
             gc_executedAt := Some now, gc_errorCode := map_option fst failure,
             gc_errorMessage := map_option snd failure\<rparr>))))"

section \<open>The execution\<close>

text \<open>After the signer is known: the check of an approval, the call, and what is recorded.\<close>

definition signer_mismatch ::
  "gw_env \<Rightarrow> gov_action \<Rightarrow> string \<Rightarrow> string option \<Rightarrow> string \<Rightarrow> gov_action gw_eff" where
  "signer_mismatch env existing requestId correlationId wallet =
     seqE (appendAudit env (executor_entry ''governance.action.execution.rejected'' requestId correlationId
             (Some wallet) (gov_status_name (gc_status existing))
             [(''actionId'', gc_actionId existing), (''contractMethod'', gc_contractMethod existing),
              (''expectedApproverWallet'', normalizeWalletAddress (ga_actorWallet (gc_audit existing))),
              (''executorWallet'', wallet), (''reasonCode'', ''EXECUTOR_SIGNER_MISMATCH'')]))
       (throw (Gateway_error 409 CONFLICT
          ''Executor signer does not match the queued approval approver wallet''
          [(''actionId'', gc_actionId existing), (''contractMethod'', gc_contractMethod existing),
           (''expectedApproverWallet'', normalizeWalletAddress (ga_actorWallet (gc_audit existing))),
           (''executorWallet'', wallet)]))"

definition record_success ::
  "gw_env \<Rightarrow> gov_action \<Rightarrow> string \<Rightarrow> string option \<Rightarrow> string \<Rightarrow> execution_result \<Rightarrow> gov_action gw_eff" where
  "record_success env existing requestId correlationId wallet execution =
     bindE (persistExecution env existing execution) (\<lambda>persisted.
       catchE
         (saveActionWithAudit env persisted
            (executor_entry ''governance.action.execution.succeeded'' requestId correlationId (Some wallet)
               (gov_status_name (gc_status persisted))
               ([(''actionId'', gc_actionId existing)] @ present ''txHash'' (gc_txHash persisted) @
                present ''blockNumber'' (map_option show_int (gc_blockNumber persisted)) @
                present ''proposalId'' (map_option show_int (gc_proposalId persisted)) @
                present ''errorCode'' (gc_errorCode persisted) @
                present ''errorMessage'' (gc_errorMessage persisted))))
         (\<lambda>e. throw (Gateway_error 500 INTERNAL_ERROR
            ''Failed to persist executed governance action; manual reconciliation is required''
            [(''actionId'', gc_actionId existing), (''txHash'', er_txHash execution), (''reason'', gw_message e)])))"

text \<open>The \<open>try\<close> around the call: its error or its result, which the code after it handles.\<close>

definition attempted :: "'a gw_eff \<Rightarrow> (gw_error + 'a) gw_eff" where
  "attempted m w = (case m w of (r, w') \<Rightarrow> (Inr r, w'))"

definition execute_signed ::
  "gw_env \<Rightarrow> gov_action \<Rightarrow> string \<Rightarrow> string option \<Rightarrow> string \<Rightarrow> gov_action gw_eff" where
  "execute_signed env existing requestId correlationId wallet =
     seqE (appendAudit env (executor_entry ''governance.action.execution.started'' requestId correlationId
             (Some wallet) ''started''
             [(''actionId'', gc_actionId existing), (''category'', category_name (gc_category existing)),
              (''contractMethod'', gc_contractMethod existing)]))
     (bindE (attempted (chain_execute env existing)) (\<lambda>outcome.
        case outcome of
          Inl e \<Rightarrow>
            (if isTimeoutError e
             then persistExecutionTimeout env existing requestId correlationId (Some wallet) e
             else persistFailure env existing requestId correlationId (Some wallet) e)
        | Inr execution \<Rightarrow> record_success env existing requestId correlationId wallet execution))"

definition check_signer ::
  "gw_env \<Rightarrow> gov_action \<Rightarrow> string \<Rightarrow> string option \<Rightarrow> string \<Rightarrow> gov_action gw_eff" where
  "check_signer env existing requestId correlationId wallet =
     (if isApprovalGovernanceContractMethod (gc_contractMethod existing) then
        (let expected = normalizeWalletAddress (ga_actorWallet (gc_audit existing))
         in if expected = []
            then throw (internal_error ''Queued approval action is missing the approver wallet'')
            else if expected \<noteq> normalizeWalletAddress wallet
            then signer_mismatch env existing requestId correlationId wallet
            else execute_signed env existing requestId correlationId wallet)
      else execute_signed env existing requestId correlationId wallet)"

definition execute_requested ::
  "gw_env \<Rightarrow> gov_action \<Rightarrow> string \<Rightarrow> string option \<Rightarrow> gov_action gw_eff" where
  "execute_requested env existing requestId correlationId =
     bindE (attempted (withTimeout ''Timed out while resolving governance executor signer'' (gv_signer env)))
       (\<lambda>signer.
          case signer of
            Inl e \<Rightarrow> persistFailure env existing requestId correlationId None e
          | Inr wallet \<Rightarrow> check_signer env existing requestId correlationId wallet)"

definition execute_locked ::
  "gw_env \<Rightarrow> (int \<Rightarrow> string) \<Rightarrow> string \<Rightarrow> string \<Rightarrow> string option \<Rightarrow> gov_action gw_eff" where
  "execute_locked env fmt actionId requestId correlationId =
     bindE (store_get env actionId) (\<lambda>found.
       case found of
         None \<Rightarrow> throw (Gateway_error 404 NOT_FOUND ''Governance action not found'' [(''actionId'', actionId)])
       | Some existing \<Rightarrow>
           if gc_status existing \<noteq> Gov_requested then ret existing
           else bindE (date_iso env) (\<lambda>now.
             if isExpiredRequestedGovernanceAction existing now
             then persistStale env fmt existing requestId correlationId
             else execute_requested env existing requestId correlationId))"

text \<open>\<open>createPostgresGovernanceExecutionLock\<close>: one session lock per action\<close>

definition runExclusive :: "gw_env \<Rightarrow> 'a gw_eff \<Rightarrow> 'a gw_eff" where
  "runExclusive env handler =
     seqE (command env) (finallyE (seqE (command env) handler) (command env))"

definition executeAction ::
  "gw_env \<Rightarrow> (int \<Rightarrow> string) \<Rightarrow> string \<Rightarrow> string \<Rightarrow> string option \<Rightarrow> gov_action gw_eff" where
  "executeAction env fmt actionId requestId correlationId =
     runExclusive env (execute_locked env fmt actionId requestId correlationId)"

definition shouldExitNonZeroForGovernanceAction :: "gov_status \<Rightarrow> bool" where
  "shouldExitNonZeroForGovernanceAction s \<longleftrightarrow> s = Gov_failed \<or> s = Gov_submitted \<or> s = Gov_stale"

end
