(* ===== verification/Gov_Facts.thy ===== *)
theory Gov_Facts imports Main Gov_Executor begin

text \<open>
  What the operations of the governance queue do to the two tables and to the log of
  administration calls: the effect of a transaction, of queueing, of the cleanup, and of an
  execution.
\<close>

section \<open>Events\<close>

text \<open>
  The three ways the tables and the log change: a row saved together with its audit entry, an audit
  entry alone, an administration call.  \<open>emits w evs w'\<close> says that the tables of \<open>w'\<close> are those of
  \<open>w\<close> after the events.
\<close>

datatype gov_event = Saved gov_action audit_entry | Noted audit_entry | Called string sdk_call

type_synonym gov_tabs = "gov_action list \<times> audit_entry list \<times> (string \<times> sdk_call) list"

fun gov_did :: "gov_event \<Rightarrow> gov_tabs \<Rightarrow> gov_tabs" where
  "gov_did (Saved a e) (rows, log, calls) = (put_action a rows, log @ [e], calls)"
| "gov_did (Noted e) (rows, log, calls) = (rows, log @ [e], calls)"
| "gov_did (Called k c) (rows, log, calls) = (rows, log, calls @ [(k, c)])"

definition gov_tabs :: "gw_world \<Rightarrow> gov_tabs" where
  "gov_tabs w = (gw_actions w, gw_audit w, gw_calls w)"

definition emits :: "gw_world \<Rightarrow> gov_event list \<Rightarrow> gw_world \<Rightarrow> bool" where
  "emits w evs w' \<longleftrightarrow> gov_tabs w' = fold gov_did evs (gov_tabs w)"

abbreviation still :: "gw_world \<Rightarrow> gw_world \<Rightarrow> bool" where
  "still w w' \<equiv> emits w [] w'"

lemma still_iff: "still w w' \<longleftrightarrow> gov_tabs w' = gov_tabs w"
  by (simp add: emits_def)

lemma gov_tabs_gtick [simp]: "gov_tabs (gtick w) = gov_tabs w"
  by (simp add: gov_tabs_def)

lemma emits_gtick [simp]: "emits (gtick w) evs w' = emits w evs w'" "emits w evs (gtick w') = emits w evs w'"
  by (simp_all add: emits_def)

lemma still_refl [simp]: "still w w"
  by (simp add: emits_def)

lemma emits_trans: "emits w xs w1 \<Longrightarrow> emits w1 ys w2 \<Longrightarrow> emits w (xs @ ys) w2"
  by (simp add: emits_def)

lemma still_then: "still w w1 \<Longrightarrow> emits w1 ys w2 \<Longrightarrow> emits w ys w2"
  by (simp add: emits_def)

lemma then_still: "emits w xs w1 \<Longrightarrow> still w1 w2 \<Longrightarrow> emits w xs w2"
  by (simp add: emits_def)

lemma still_rows: "still w w' \<Longrightarrow> gw_actions w' = gw_actions w \<and> gw_audit w' = gw_audit w \<and> gw_calls w' = gw_calls w"
  by (simp add: emits_def gov_tabs_def)

lemma still_of_keeps:
  assumes "\<And>P. keeps (on_gov P) m"
  shows "still w (state_of (m w))"
  using keepsD [OF assms [of "\<lambda>r l c. (r, l, c) = gov_tabs w"], of w]
  by (simp add: on_gov_def emits_def gov_tabs_def)

lemma emits_note: "emits w [Noted e] ((gtick w)\<lparr>gw_audit := gw_audit w @ [e]\<rparr>)"
  by (simp add: emits_def gov_tabs_def)

lemma emits_call: "emits w [Called k c] (w\<lparr>gw_calls := gw_calls w @ [(k, c)]\<rparr>)"
  by (simp add: emits_def gov_tabs_def)

lemma command_app:
  "command env w = (case gv_db env (gw_tick w) of Some m \<Rightarrow> Inl (Other_error m) | None \<Rightarrow> Inr (), gtick w)"
  by (simp add: command_def gquery_def split: option.splits)

lemma store_get_app:
  "store_get env k w =
     (case gv_db env (gw_tick w) of
        Some m \<Rightarrow> Inl (Other_error m) | None \<Rightarrow> Inr (row_by gc_actionId k (gw_actions w)), gtick w)"
  by (simp add: store_get_def gquery_def split: option.splits)

lemma insertAuditLog_app:
  "insertAuditLog env e w =
     (case gv_db env (gw_tick w) of
        Some m \<Rightarrow> (Inl (Other_error m), gtick w)
      | None \<Rightarrow> (Inr (), (gtick w)\<lparr>gw_audit := gw_audit w @ [e]\<rparr>))"
  by (simp add: insertAuditLog_def gquery_def split: option.splits)

lemma upsertGovernanceAction_app:
  "upsertGovernanceAction env a w =
     (case gv_db env (gw_tick w) of
        Some m \<Rightarrow> (Inl (Other_error m), gtick w)
      | None \<Rightarrow> (Inr (), (gtick w)\<lparr>gw_actions := put_action a (gw_actions w)\<rparr>))"
  by (simp add: upsertGovernanceAction_def gquery_def split: option.splits)

definition gw_up :: "gw_env \<Rightarrow> bool" where
  "gw_up env \<longleftrightarrow> (\<forall>n. gv_db env n = None)"

section \<open>Transactions\<close>

lemma still_rollback: "still w (state_of (rollback env e w))"
  by (simp add: rollback_def bindE_app catchE_app throw_app command_app split: option.splits sum.splits)

lemma rollback_throws: "\<exists>e'. result_of (rollback env e w) = Inl e'"
  by (simp add: rollback_def bindE_app catchE_app throw_app command_app split: option.splits sum.splits)

text \<open>
  A transaction whose body makes no administration call leaves the tables as they were, or as its
  body made them; when it returns, its body did.
\<close>

lemma transaction_cases:
  assumes calls: "\<And>w. gw_calls (state_of (body w)) = gw_calls w"
  obtains (undone) "still w0 (state_of (transaction env body w0))"
      "\<exists>e. result_of (transaction env body w0) = Inl e"
  | (committed) w x w1 where "still w0 w" "body w = (Inr x, w1)" "still w1 (state_of (transaction env body w0))"
      "result_of (transaction env body w0) = Inr x \<or> (\<exists>e. result_of (transaction env body w0) = Inl e)"
proof (cases "gv_db env (gw_tick w0)")
  case (Some m)
  then show ?thesis
    by (intro undone) (simp_all add: transaction_def bindE_app command_app)
next
  case up: None
  let ?w = "gtick w0"
  have reset: "still w0 (tables_of ?w w1)" if "gw_calls w1 = gw_calls w0" for w1
    using that by (simp add: emits_def gov_tabs_def tables_of_def)
  show ?thesis
  proof (cases "gv_db env (gw_tick ?w)")
    case (Some m)
    have t: "transaction env body w0 = rollback env (Other_error m) (tables_of ?w (gtick ?w))"
      using up Some by (simp add: transaction_def bindE_app command_app)
    show ?thesis
      by (rule undone) (simp_all add: t rollback_throws still_then [OF reset still_rollback])
  next
    case begun: None
    obtain r w1 where b: "body (gtick ?w) = (r, w1)" by (cases "body (gtick ?w)")
    have same: "gw_calls w1 = gw_calls w0" using calls [of "gtick ?w"] b by simp
    show ?thesis
    proof (cases r)
      case (Inl e)
      have t: "transaction env body w0 = rollback env e (tables_of ?w w1)"
        using up begun b Inl by (simp add: transaction_def bindE_app command_app)
      show ?thesis
        by (rule undone) (simp_all add: t rollback_throws still_then [OF reset still_rollback] same)
    next
      case (Inr x)
      show ?thesis
      proof (cases "gv_db env (gw_tick w1)")
        case None
        with Inr up begun b show ?thesis
          by (intro committed [of "gtick ?w" x w1]) (simp_all add: transaction_def bindE_app command_app commit_def)
      next
        case (Some m)
        let ?w2 = "if gv_commit_kept env (gw_tick w1) then gtick w1 else tables_of ?w (gtick w1)"
        have t: "transaction env body w0 = rollback env (Other_error m) ?w2"
          using Inr up begun b Some by (simp add: transaction_def bindE_app command_app commit_def)
        show ?thesis
        proof (cases "gv_commit_kept env (gw_tick w1)")
          case True
          with Inr b show ?thesis
            by (intro committed [of "gtick ?w" x w1]) (simp_all add: t rollback_throws still_then [OF _ still_rollback])
        next
          case False
          with same show ?thesis
            by (intro undone) (simp_all add: t rollback_throws still_then [OF reset still_rollback])
        qed
      qed
    qed
  qed
qed

lemma save_body_calls:
  "gw_calls (state_of (seqE (upsertGovernanceAction env a) (insertAuditLog env e) w)) = gw_calls w"
  by (simp add: seqE_app upsertGovernanceAction_app insertAuditLog_app split: option.splits sum.splits)

text \<open>Saving an action writes the row and the audit entry together, or neither.\<close>

lemma save_emits:
  "still w (state_of (saveActionWithAudit env a e w)) \<or>
   emits w [Saved a e] (state_of (saveActionWithAudit env a e w))"
proof -
  let ?b = "seqE (upsertGovernanceAction env a) (insertAuditLog env e)"
  let ?t = "transaction env ?b"
  have after: "still (state_of (?t w)) (state_of (saveActionWithAudit env a e w))"
    by (simp add: saveActionWithAudit_def seqE_app bindE_app store_get_app ret_app throw_app
        split: prod.splits sum.splits option.splits)
  show ?thesis
  proof (rule transaction_cases [where body = ?b and env = env and ?w0.0 = w])
    show "gw_calls (state_of (?b w)) = gw_calls w" for w by (rule save_body_calls)
  next
    assume "still w (state_of (?t w))"
    from still_then [OF this after] show ?thesis ..
  next
    fix w0 x w1 assume w0: "still w w0" and b: "?b w0 = (Inr x, w1)" and w1: "still w1 (state_of (?t w))"
    from b have "emits w0 [Saved a e] w1"
      by (auto simp: seqE_app upsertGovernanceAction_app insertAuditLog_app emits_def gov_tabs_def
          split: option.splits)
    from then_still [OF then_still [OF still_then [OF w0 this] w1] after] show ?thesis ..
  qed
qed

lemma put_action_row:
  "row_by gc_actionId k (put_action a rows) = (if k = gc_actionId a then Some (mapRow a) else row_by gc_actionId k rows)"
proof -
  have id: "gc_actionId (mapRow a) = gc_actionId a" by (simp add: mapRow_def)
  show ?thesis
  proof (cases "gc_actionId a \<in> gc_actionId ` set rows")
    case False
    then have "row_by gc_actionId (gc_actionId a) rows = None" by (simp add: row_by_None)
    with False show ?thesis
      by (auto simp: put_action_def upsert_def id row_by_append row_by_Cons split: option.splits)
         (simp add: row_by_def)
  next
    case True
    have "row_by gc_actionId k (update_where (\<lambda>q. gc_actionId q = gc_actionId a) (\<lambda>_. mapRow a) rs) =
        (if k = gc_actionId a then map_option (\<lambda>_. mapRow a) (row_by gc_actionId k rs) else row_by gc_actionId k rs)" for rs
      by (induction rs) (auto simp: update_where_def row_by_def id)
    moreover have "row_by gc_actionId (gc_actionId a) rows \<noteq> None" using True by (simp add: row_by_None)
    ultimately show ?thesis using True by (auto simp: put_action_def upsert_def id)
  qed
qed

lemma save_up:
  assumes "gw_up env"
  shows "saveActionWithAudit env a e w = (Inr (mapRow a), state_of (saveActionWithAudit env a e w)) \<and>
    emits w [Saved a e] (state_of (saveActionWithAudit env a e w))"
  using assms
  by (simp add: gw_up_def saveActionWithAudit_def transaction_def commit_def seqE_app bindE_app command_app
      upsertGovernanceAction_app insertAuditLog_app store_get_app ret_app put_action_row emits_def gov_tabs_def)

section \<open>The operations as events\<close>

definition queued_of :: "gw_env \<Rightarrow> queue_config \<Rightarrow> queue_input \<Rightarrow> gw_world \<Rightarrow> gov_action" where
  "queued_of env cfg input w = requested_action cfg input (gv_uuid env (Suc (gw_tick w))) (gv_now env (gw_tick w))"

lemma queue_body_calls: "gw_calls (state_of (queue_body env a e dup now w)) = gw_calls w"
  by (simp add: queue_body_def seqE_app bindE_app command_app findOpenByIntentKey_def gquery_def store_get_app
      insertAuditLog_app upsertGovernanceAction_app ret_app throw_app split: option.splits sum.splits)

lemma queue_body_emits:
  assumes "queue_body env a e dup now w = (Inr x, w')"
  shows "(\<exists>s. emits w [Noted (dup s)] w' \<and> s \<in> set (gw_actions w)) \<or>
    (emits w [Saved a e] w' \<and> open_action (gc_intentKey a) now (gw_actions w) = None)"
  using assms
  by (auto simp: queue_body_def seqE_app bindE_app command_app findOpenByIntentKey_def gquery_def store_get_app
      insertAuditLog_app upsertGovernanceAction_app ret_app throw_app emits_def gov_tabs_def
      split: option.splits dest!: row_by_Some)

lemma queue_emits:
  "(\<exists>s. emits w [Noted (duplicate_entry input s)] (state_of (queueAction env cfg input w)) \<and> s \<in> set (gw_actions w)) \<or>
   still w (state_of (queueAction env cfg input w)) \<or>
   (emits w [Saved (queued_of env cfg input w) (queued_entry input (gv_uuid env (Suc (gw_tick w))))]
      (state_of (queueAction env cfg input w)) \<and>
    open_action (gc_intentKey (queued_of env cfg input w)) (gv_now env (gw_tick w)) (gw_actions w) = None)"
proof -
  let ?a = "queued_of env cfg input w"
  let ?e = "queued_entry input (gv_uuid env (Suc (gw_tick w)))"
  let ?b = "queue_body env ?a ?e (duplicate_entry input) (gv_now env (gw_tick w))"
  let ?w = "gtick (gtick w)"
  let ?t = "transaction env ?b ?w"
  have after: "still (state_of ?t) (state_of (queueAction env cfg input w))"
    by (simp add: queueAction_def saveQueuedActionWithIntentDedupe_def Let_def bindE_app date_iso_app gask_app
        store_get_app ret_app throw_app queued_of_def split: prod.splits sum.splits option.splits)
       (auto simp: emits_def)
  show ?thesis
  proof (rule transaction_cases [where body = ?b and env = env and ?w0.0 = ?w])
    show "gw_calls (state_of (?b w)) = gw_calls w" for w by (rule queue_body_calls)
  next
    assume "still ?w (state_of ?t)"
    then have "still w (state_of ?t)" by simp
    from still_then [OF this after] show ?thesis by simp
  next
    fix w0 x w1 assume "still ?w w0" and b: "?b w0 = (Inr x, w1)" and w1: "still w1 (state_of ?t)"
    then have w0: "still w w0" by simp
    note over = then_still [OF then_still [OF still_then [OF w0] w1] after]
    have rows: "gw_actions w0 = gw_actions w" using still_rows [OF w0] by simp
    from queue_body_emits [OF b] show ?thesis
    proof (elim disjE exE conjE)
      fix s assume "emits w0 [Noted (duplicate_entry input s)] w1" "s \<in> set (gw_actions w0)"
      with over rows show ?thesis by auto
    next
      assume "emits w0 [Saved ?a ?e] w1"
        "open_action (gc_intentKey ?a) (gv_now env (gw_tick w)) (gw_actions w0) = None"
      with over rows show ?thesis by auto
    qed
  qed
qed

text \<open>The cleanup of one candidate.\<close>

lemma cleanup_candidate_emits:
  "still w (state_of (cleanup_candidate env fmt rid now stale c w)) \<or>
   (\<exists>cur. row_by gc_actionId (gc_actionId c) (gw_actions w) = Some cur \<and>
      isExpiredRequestedGovernanceAction cur now \<and>
      emits w [Saved (buildStaleRecord cur now) (cleanup_entry cur rid fmt now)]
        (state_of (cleanup_candidate env fmt rid now stale c w)))"
proof (cases "gv_db env (gw_tick w)")
  case (Some m)
  then show ?thesis by (simp add: cleanup_candidate_def bindE_app store_get_app)
next
  case up: None
  show ?thesis
  proof (cases "row_by gc_actionId (gc_actionId c) (gw_actions w)")
    case None
    with up show ?thesis by (simp add: cleanup_candidate_def bindE_app store_get_app ret_app)
  next
    case (Some cur)
    let ?s = "saveActionWithAudit env (buildStaleRecord cur now) (cleanup_entry cur rid fmt now) (gtick w)"
    show ?thesis
    proof (cases "isExpiredRequestedGovernanceAction cur now")
      case True
      have "state_of (cleanup_candidate env fmt rid now stale c w) = state_of ?s"
        using up Some True
        by (simp add: cleanup_candidate_def bindE_app store_get_app ret_app split: prod.splits sum.splits)
      with Some True save_emits [of "gtick w" env] show ?thesis by auto
    next
      case False
      with up Some show ?thesis by (simp add: cleanup_candidate_def bindE_app store_get_app ret_app)
    qed
  qed
qed

end
