(* ===== verification/Gov_Steps.thy ===== *)
theory Gov_Steps imports Main Gov_Facts begin

text \<open>
  The ticks of the gateway's world only grow, and the operations of the queue leave the idempotency
  keys alone: the rules for \<open>late n ks\<close>, \<open>n\<close> ticks are over and the keys are still \<open>ks\<close>, if given,
  along the operations of the governance queue.
  Then the steps that the operations of the gateway make.
\<close>

definition late :: "nat \<Rightarrow> idempotency_row list option \<Rightarrow> gw_world \<Rightarrow> bool" where
  "late n ks w \<longleftrightarrow> n \<le> gw_tick w \<and> (ks = None \<or> ks = Some (gw_keys w))"

lemma late_gtick: "late n ks w \<Longrightarrow> late n ks (gtick w)"
  by (simp add: late_def)

lemma late_gask [keeps_rules]: "keeps (late n ks) (gask f)"
  by (rule keepsI) (simp add: gask_app late_gtick)

lemma late_date_iso [keeps_rules]: "keeps (late n ks) (date_iso env)"
  by (rule keepsI) (simp add: date_iso_app late_gtick)

lemma late_withTimeout [keeps_rules]: "keeps (late n ks) (withTimeout m p)"
  by (rule keepsI) (simp add: withTimeout_def late_gtick split: promise.splits)

lemma late_gquery:
  assumes "\<And>w. gw_tick (snd (stmt w)) = gw_tick w" "\<And>w. gw_keys (snd (stmt w)) = gw_keys w"
  shows "keeps (late n ks) (gquery env stmt)"
proof (rule keepsI)
  fix w assume "late n ks w"
  with assms(1) [of "gtick w"] assms(2) [of "gtick w"] show "late n ks (state_of (gquery env stmt w))"
    by (auto simp: gquery_def late_def case_prod_beta split: option.splits)
qed

lemma late_statements [keeps_rules]:
  "keeps (late n ks) (command env)" "keeps (late n ks) (store_get env k)" "keeps (late n ks) (insertAuditLog env e)"
  "keeps (late n ks) (upsertGovernanceAction env a)" "keeps (late n ks) (findOpenByIntentKey env key now)"
  "keeps (late n ks) (listRequestedExpired env now limit)"
  unfolding command_def store_get_def insertAuditLog_def upsertGovernanceAction_def findOpenByIntentKey_def
    listRequestedExpired_def
  by (intro late_gquery; simp)+

lemma late_rollback [keeps_rules]: "keeps (late n ks) (rollback env e)"
  unfolding rollback_def by (intro keeps_rules)

lemma late_commit: "keeps (late n ks) (commit env w0)"
  by (rule keepsI) (simp add: commit_def late_def tables_of_def split: option.splits)

lemma late_transaction [keeps_rules]:
  assumes "keeps (late n ks) body"
  shows "keeps (late n ks) (transaction env body)"
  unfolding transaction_def
proof (rule keepsI)
  fix w0 assume w0: "late n ks w0"
  have inner: "late n ks (state_of (case bindE (command env) (\<lambda>_. body) w of
          (Inl e, w1) \<Rightarrow> rollback env e (tables_of w w1)
        | (Inr x, w1) \<Rightarrow>
            (case commit env w w1 of (Inl e, w2) \<Rightarrow> rollback env e w2 | (Inr _, w2) \<Rightarrow> (Inr x, w2))))"
    if w: "late n ks w" for w
  proof -
    obtain r w1 where b: "bindE (command env) (\<lambda>_. body) w = (r, w1)" by fastforce
    have "keeps (late n ks) (bindE (command env) (\<lambda>_. body))" using assms by (intro keeps_rules)
    from keepsD [OF this w] b have w1: "late n ks w1" by simp
    obtain s w2 where c: "commit env w w1 = (s, w2)" by fastforce
    from keepsD [OF late_commit w1, of env w] c have w2: "late n ks w2" by simp
    have "late n ks (tables_of w w1)" using w1 by (simp add: late_def tables_of_def)
    with w1 w2 show ?thesis
      using keepsD [OF late_rollback, of n ks] unfolding b by (auto simp: c split: sum.splits)
  qed
  have "late n ks (gtick w0)" using w0 by (rule late_gtick)
  from inner [OF this] show "late n ks (state_of (bindE (command env) (\<lambda>_ w.
       (case bindE (command env) (\<lambda>_. body) w of
          (Inl e, w1) \<Rightarrow> rollback env e (tables_of w w1)
        | (Inr x, w1) \<Rightarrow>
            (case commit env w w1 of (Inl e, w2) \<Rightarrow> rollback env e w2 | (Inr _, w2) \<Rightarrow> (Inr x, w2)))) w0))"
    using w0 by (simp add: bindE_app [of "command env"] command_app late_gtick split: option.splits)
qed

lemma late_save [keeps_rules]: "keeps (late n ks) (saveActionWithAudit env a e)"
  unfolding saveActionWithAudit_def by (intro keeps_rules)

lemma late_finally_command [keeps_rules]: "keeps (late n ks) m \<Longrightarrow> keeps (late n ks) (finallyE m (command env))"
  by (intro keeps_rules)

lemma keeps_attempted [keeps_rules]: "keeps P m \<Longrightarrow> keeps P (attempted m)"
  by (rule keepsI) (auto simp: attempted_def dest!: keepsD split: prod.splits)

lemma late_chain_call [keeps_rules]: "keeps (late n ks) (chain_call env k c)"
  unfolding chain_call_def by (intro keeps_rules keeps_change) (simp add: late_def)

lemma late_status_reads [keeps_rules]:
  "keeps (late n ks) (getGovernanceStatus env os ts)" "keeps (late n ks) (getUnpauseProposalState env)"
  "keeps (late n ks) (getOracleProposalState env i)" "keeps (late n ks) (getTreasuryPayoutReceiverProposalState env i)"
  "keeps (late n ks) (getTreasuryClaimableBalance env)" "keeps (late n ks) (hasApprovedUnpause env a)"
  "keeps (late n ks) (hasApprovedOracleProposal env i a)"
  "keeps (late n ks) (hasApprovedTreasuryPayoutReceiverProposal env i a)"
  unfolding status_reads by (intro keeps_rules)+

lemma late_executor [keeps_rules]:
  "keeps (late n ks) (persistStale env fmt x rid cid)"
  "keeps (late n ks) (execute_requested env x rid cid)"
  unfolding persistStale_def execute_requested_def check_signer_def execute_signed_def signer_mismatch_def
    persistFailure_def persistExecutionTimeout_def record_success_def persistExecution_def final_status_def
    resolvePostExecutionStatus_def resolveUnpauseApprovalStatus_def chain_execute_def appendAudit_def Let_def
  by (intro keeps_rules)+

lemma late_executeAction: "keeps (late n ks) (executeAction env fmt k rid cid)"
  unfolding executeAction_def runExclusive_def execute_locked_def by (intro keeps_rules)

lemma late_queueAction: "keeps (late n ks) (queueAction env cfg input)"
  unfolding queueAction_def saveQueuedActionWithIntentDedupe_def queue_body_def Let_def by (intro keeps_rules)

lemma late_cleanup_candidate [keeps_rules]: "keeps (late n ks) (cleanup_candidate env fmt rid now stale c)"
  unfolding cleanup_candidate_def by (intro keeps_rules)

lemma late_cleanup_apply: "keeps (late n ks) (cleanup_apply env fmt now limit)"
  unfolding cleanup_apply_def by (intro keeps_rules)

section \<open>Steps\<close>

text \<open>
  An execution as events: remarks, at most one administration call, at most one save that retires
  the request.
\<close>

section \<open>Saves that retire a request\<close>

text \<open>What an operation may change of an action.\<close>

definition follows :: "gov_action \<Rightarrow> gov_action \<Rightarrow> bool" where
  "follows x a \<longleftrightarrow>
     a = x\<lparr>gc_proposalId := gc_proposalId a, gc_status := gc_status a, gc_txHash := gc_txHash a,
       gc_blockNumber := gc_blockNumber a, gc_executedAt := gc_executedAt a, gc_errorCode := gc_errorCode a,
       gc_errorMessage := gc_errorMessage a\<rparr>"

definition logs :: "audit_entry \<Rightarrow> gov_action \<Rightarrow> bool" where
  "logs e a \<longleftrightarrow>
     map_of (al_metadata e) ''actionId'' = Some (gc_actionId a) \<and> al_status e = gov_status_name (gc_status a)"

definition retires :: "gov_action \<Rightarrow> gov_action \<Rightarrow> audit_entry \<Rightarrow> bool" where
  "retires x a e \<longleftrightarrow> follows x a \<and> gc_status a \<noteq> Gov_requested \<and> logs e a"

lemma follows_same:
  assumes "follows x a"
  shows "gc_actionId a = gc_actionId x" "gc_intentKey a = gc_intentKey x" "gc_expiresAt a = gc_expiresAt x"
    "gc_createdAt a = gc_createdAt x" "gc_audit a = gc_audit x" "gc_contractMethod a = gc_contractMethod x"
  using assms unfolding follows_def by (metis gov_action.select_convs gov_action.surjective gov_action.update_convs)+

lemma mapRow_fields [simp]:
  "gc_actionId (mapRow a) = gc_actionId a" "gc_intentKey (mapRow a) = gc_intentKey a"
  "gc_status (mapRow a) = gc_status a" "gc_expiresAt (mapRow a) = gc_expiresAt a"
  by (simp_all add: mapRow_def)

definition retired :: "gw_env \<Rightarrow> gov_action \<Rightarrow> gov_status set \<Rightarrow> gw_world \<Rightarrow> gw_world \<Rightarrow> bool" where
  "retired env x S w w' \<longleftrightarrow> (\<exists>a e. retires x a e \<and> gc_status a \<in> S \<and> emits w [Saved a e] w') \<or> still w w' \<and> \<not> gw_up env"

lemma retired_gtick [simp]: "retired env x S (gtick w) w' = retired env x S w w'"
  by (simp add: retired_def)

lemma save_retired: "retires x a e \<Longrightarrow> gc_status a \<in> S \<Longrightarrow> retired env x S w (state_of (saveActionWithAudit env a e w))"
  using save_emits [of w env a e] save_up [of env a e w] by (auto simp: retired_def)

lemma retired_still: "still w w1 \<Longrightarrow> retired env x S w1 w2 \<Longrightarrow> retired env x S w w2"
  by (auto simp: retired_def intro: still_then)

lemma retired_any: "retired env x S w w' \<Longrightarrow> retired env x UNIV w w'"
  by (auto simp: retired_def)

lemma persistFailure_retired: "retired env x {Gov_failed, Gov_stale} w (state_of (persistFailure env x rid cid wallet e w))"
proof -
  let ?now = "gv_now env (gw_tick w)"
  have "retires x (x\<lparr>gc_status := Gov_failed, gc_errorCode := Some ''EXECUTION_FAILED'',
            gc_errorMessage := Some (sanitizeError e), gc_executedAt := Some ?now\<rparr>)
         (executor_entry ''governance.action.execution.failed'' rid cid wallet ''failed''
            [(''actionId'', gc_actionId x), (''errorCode'', ''EXECUTION_FAILED''),
             (''errorMessage'', sanitizeError e)])"
    by (simp add: retires_def follows_def logs_def executor_entry_def)
  from save_retired [OF this, of _ env "gtick w"] show ?thesis
    by (simp add: persistFailure_def bindE_app date_iso_app)
qed

lemma persistExecutionTimeout_retired:
  "retired env x {Gov_submitted} w (state_of (persistExecutionTimeout env x rid cid wallet e w))"
proof -
  let ?now = "gv_now env (gw_tick w)"
  have "retires x (x\<lparr>gc_status := Gov_submitted, gc_errorCode := Some ''EXECUTION_TIMEOUT'',
            gc_errorMessage := Some (sanitizeError e), gc_executedAt := Some ?now\<rparr>)
         (executor_entry ''governance.action.execution.timeout'' rid cid wallet ''submitted''
            [(''actionId'', gc_actionId x), (''errorCode'', ''EXECUTION_TIMEOUT''),
             (''errorMessage'', sanitizeError e), (''outcome'', ''unknown'')])"
    by (simp add: retires_def follows_def logs_def executor_entry_def)
  from save_retired [OF this, of _ env "gtick w"] show ?thesis
    by (simp add: persistExecutionTimeout_def bindE_app date_iso_app)
qed

lemma persistStale_retired: "retired env x {Gov_failed, Gov_stale} w (state_of (persistStale env fmt x rid cid w))"
proof -
  let ?now = "gv_now env (gw_tick w)"
  have "retires x (x\<lparr>gc_status := Gov_stale, gc_errorCode := Some ''QUEUE_EXPIRED'',
            gc_errorMessage := Some ''Governance action expired in the queue before execution started'',
            gc_executedAt := Some ?now\<rparr>)
         (executor_entry ''governance.action.execution.stale'' rid cid None ''stale''
            ([(''actionId'', gc_actionId x), (''intentKey'', gc_intentKey x)] @
             present ''expiresAt'' (map_option fmt (gc_expiresAt x)) @
             [(''errorCode'', ''QUEUE_EXPIRED'')]))"
    by (simp add: retires_def follows_def logs_def executor_entry_def)
  from save_retired [OF this, of _ env "gtick w"] show ?thesis
    by (simp add: persistStale_def bindE_app date_iso_app)
qed

section \<open>The status after a successful call\<close>

lemma resolveProposalStatus_open: "resolveProposalStatus p n = Inr s \<Longrightarrow> s \<noteq> Gov_requested"
  by (auto simp: resolveProposalStatus_def split: option.splits if_splits)

lemma final_status_still: "still w (state_of (final_status env a n w))"
proof (rule still_of_keeps)
  fix P show "keeps (on_gov P) (final_status env a n)"
    unfolding final_status_def resolvePostExecutionStatus_def resolveUnpauseApprovalStatus_def Let_def
    by (intro keeps_rules)
qed

lemma resolvePost_open:
  "result_of (resolvePostExecutionStatus env a n w) = Inr s \<Longrightarrow> s \<noteq> Gov_requested"
  by (auto simp: resolvePostExecutionStatus_def resolveUnpauseApprovalStatus_def Let_def eff_simps
      resolveProposalStatus_open split: if_splits prod.splits sum.splits)

lemma fallback_open: "fallbackPostExecutionStatus a = Some s \<Longrightarrow> s \<noteq> Gov_requested"
  by (auto simp: fallbackPostExecutionStatus_def split: if_splits)

lemma final_status_open: "result_of (final_status env a n w) = Inr (s, f) \<Longrightarrow> s \<noteq> Gov_requested"
  using resolvePost_open [of env a n w] fallback_open [of a]
  by (auto simp: final_status_def eff_simps split: prod.splits sum.splits option.splits)

text \<open>A method that the chain executor supports has a final status or a fallback.\<close>

lemma final_status_returns:
  assumes "sdk_call_of a = Inr c"
  shows "\<exists>s f. result_of (final_status env a n w) = Inr (s, f)"
proof (cases "fallbackPostExecutionStatus a")
  case None
  with assms have "\<exists>s. resolvePostExecutionStatus env a n = ret s"
    by (auto simp: sdk_call_of_def fallbackPostExecutionStatus_def resolvePostExecutionStatus_def Let_def
        split: if_splits)
  then show ?thesis by (auto simp: final_status_def eff_simps)
next
  case (Some s)
  then show ?thesis
    by (auto simp: final_status_def eff_simps split: prod.splits sum.splits)
qed

lemma persistExecution_retires:
  assumes "persistExecution env x r w = (Inr p, w')"
  shows "still w w' \<and> follows x p \<and> gc_status p \<noteq> Gov_requested"
proof -
  let ?n = "case er_proposalId r of Some n \<Rightarrow> Some n | None \<Rightarrow> gc_proposalId x"
  obtain res w1 where f: "final_status env x ?n w = (res, w1)" by (cases "final_status env x ?n w")
  from assms f obtain s fl where res: "res = Inr (s, fl)"
    by (cases res) (auto simp: persistExecution_def Let_def bindE_app)
  have "still w w1" using final_status_still [of w env x ?n] f by simp
  moreover have "s \<noteq> Gov_requested" using final_status_open [of env x ?n w s fl] f res by simp
  moreover have "p = x\<lparr>gc_proposalId := ?n, gc_status := s, gc_txHash := Some (er_txHash r),
      gc_blockNumber := Some (er_blockNumber r), gc_executedAt := Some (gv_now env (gw_tick w1)),
      gc_errorCode := map_option fst fl, gc_errorMessage := map_option snd fl\<rparr>" "w' = gtick w1"
    using assms f res by (auto simp: persistExecution_def Let_def bindE_app date_iso_app ret_app)
  ultimately show ?thesis by (simp add: follows_def)
qed

lemma persistExecution_returns:
  assumes "sdk_call_of x = Inr c"
  shows "\<exists>p w'. persistExecution env x r w = (Inr p, w')"
proof -
  let ?n = "case er_proposalId r of Some n \<Rightarrow> Some n | None \<Rightarrow> gc_proposalId x"
  obtain s f w1 where "final_status env x ?n w = (Inr (s, f), w1)"
    using final_status_returns [OF assms, of env ?n w] by (metis prod.collapse)
  then show ?thesis by (auto simp: persistExecution_def Let_def bindE_app date_iso_app ret_app)
qed

lemma record_success_retired:
  assumes "sdk_call_of x = Inr c"
  shows "retired env x UNIV w (state_of (record_success env x rid cid wallet r w))"
proof -
  obtain p w1 where p: "persistExecution env x r w = (Inr p, w1)"
    using persistExecution_returns [OF assms] by blast
  from persistExecution_retires [OF p] have f: "follows x p" "gc_status p \<noteq> Gov_requested" and w1: "still w w1"
    by simp_all
  let ?e = "executor_entry ''governance.action.execution.succeeded'' rid cid (Some wallet)
               (gov_status_name (gc_status p))
               ([(''actionId'', gc_actionId x)] @ present ''txHash'' (gc_txHash p) @
                present ''blockNumber'' (map_option show_int (gc_blockNumber p)) @
                present ''proposalId'' (map_option show_int (gc_proposalId p)) @
                present ''errorCode'' (gc_errorCode p) @
                present ''errorMessage'' (gc_errorMessage p))"
  have "retires x p ?e"
    using f follows_same(1) [OF f(1)] by (simp add: retires_def logs_def executor_entry_def)
  from save_retired [OF this, of UNIV env w1] have "retired env x UNIV w (state_of (saveActionWithAudit env p ?e w1))"
    by (intro retired_still [OF w1]) simp
  moreover have "state_of (record_success env x rid cid wallet r w) = state_of (saveActionWithAudit env p ?e w1)"
    using p by (simp add: record_success_def bindE_app catchE_app throw_app split: prod.splits sum.splits)
  ultimately show ?thesis by simp
qed

section \<open>An execution\<close>

text \<open>
  The events of the part of an execution that follows the look-up of a request \<open>x\<close>: audit entries,
  a call, a save.  With the database up a call is followed by a save.
\<close>

definition is_note :: "gov_event \<Rightarrow> bool" where
  "is_note ev = (case ev of Noted _ \<Rightarrow> True | _ \<Rightarrow> False)"

definition execution_events :: "gw_env \<Rightarrow> gov_action \<Rightarrow> bool \<Rightarrow> gov_event list \<Rightarrow> bool" where
  "execution_events env x allowed evs \<longleftrightarrow>
     (\<exists>remarks calls saves. evs = remarks @ calls @ saves \<and> list_all is_note remarks \<and>
        (calls = [] \<or> allowed \<and> (\<exists>c. sdk_call_of x = Inr c \<and> calls = [Called (gc_actionId x) c])) \<and>
        (saves = [] \<or> (\<exists>a e. saves = [Saved a e] \<and> retires x a e)) \<and>
        (calls = [] \<or> saves \<noteq> [] \<or> \<not> gw_up env) \<and>
        (calls \<noteq> [] \<or> (\<forall>a e. Saved a e \<in> set saves \<longrightarrow> gc_status a \<in> {Gov_failed, Gov_stale})))"

definition executes :: "gw_env \<Rightarrow> gov_action \<Rightarrow> bool \<Rightarrow> gw_world \<Rightarrow> gw_world \<Rightarrow> bool" where
  "executes env x allowed w w' \<longleftrightarrow> (\<exists>evs. execution_events env x allowed evs \<and> emits w evs w')"

lemma executes_still: "still w w' \<Longrightarrow> executes env x al w w'"
  unfolding executes_def execution_events_def by (intro exI [of _ "[]"]) simp

lemma still_executes: "still w w1 \<Longrightarrow> executes env x al w1 w2 \<Longrightarrow> executes env x al w w2"
  unfolding executes_def by (blast intro: still_then)

lemma executes_gtick [simp]: "executes env x al (gtick w) w' = executes env x al w w'"
  by (simp add: executes_def)

lemma execution_events_notes:
  assumes "list_all is_note remarks" and "calls = [] \<or> al \<and> (\<exists>c. sdk_call_of x = Inr c \<and> calls = [Called (gc_actionId x) c])"
    and "emits w (remarks @ calls) w1" and "retired env x S w1 w2"
    and "calls \<noteq> [] \<or> S \<subseteq> {Gov_failed, Gov_stale}"
  shows "executes env x al w w2"
proof -
  from assms(4) obtain saves where s: "emits w1 saves w2" "saves = [] \<and> \<not> gw_up env \<or> (\<exists>a e. saves = [Saved a e] \<and> retires x a e \<and> gc_status a \<in> S)"
    unfolding retired_def by blast
  have "execution_events env x al (remarks @ calls @ saves)"
    unfolding execution_events_def using assms(1,2,5) s(2)
    by (intro exI [of _ remarks] exI [of _ calls] exI [of _ saves] conjI) auto
  moreover have "emits w (remarks @ calls @ saves) w2" using emits_trans [OF assms(3) s(1)] by simp
  ultimately show ?thesis unfolding executes_def by blast
qed

lemma sdk_call_of_no_timeout: "sdk_call_of x = Inl e \<Longrightarrow> \<not> isTimeoutError e"
  by (auto simp: sdk_call_of_def Let_def map_right_def requireProposalId_def requireTargetAddress_def
      internal_error_def split: if_splits sum.splits option.splits)

lemma chain_execute_calls:
  assumes "sdk_call_of x = Inr c"
  shows "\<exists>out. chain_execute env x w = (out, gtick (w\<lparr>gw_calls := gw_calls w @ [(gc_actionId x, c)]\<rparr>))"
  using assms
  by (cases "gv_sdk env (gw_tick w) c")
     (simp_all add: chain_execute_def chain_call_def bindE_app lift_app seqE_app change_app withTimeout_def)

lemma execute_signed_executes:
  assumes al
  shows "executes env x al w (state_of (execute_signed env x rid cid wallet w))"
proof (cases "gv_db env (gw_tick w)")
  case (Some m)
  then show ?thesis
    by (intro executes_still) (simp add: execute_signed_def appendAudit_def insertAuditLog_app seqE_app)
next
  case None
  let ?e = "executor_entry ''governance.action.execution.started'' rid cid (Some wallet) ''started''
             [(''actionId'', gc_actionId x), (''category'', category_name (gc_category x)),
              (''contractMethod'', gc_contractMethod x)]"
  let ?w = "(gtick w)\<lparr>gw_audit := gw_audit w @ [?e]\<rparr>"
  let ?fail = "\<lambda>e. if isTimeoutError e then persistExecutionTimeout env x rid cid (Some wallet) e
        else persistFailure env x rid cid (Some wallet) e"
  have fail: "retired env x UNIV v (state_of (?fail e v))" for e v
    using retired_any [OF persistExecutionTimeout_retired] retired_any [OF persistFailure_retired] by simp
  have s: "execute_signed env x rid cid wallet w =
      (case chain_execute env x ?w of (out, w1) \<Rightarrow>
         (case out of Inl e \<Rightarrow> ?fail e w1 | Inr r \<Rightarrow> record_success env x rid cid wallet r w1))"
    using None by (simp add: execute_signed_def appendAudit_def insertAuditLog_app seqE_app bindE_app attempted_def
        split: prod.splits sum.splits)
  show ?thesis
  proof (cases "sdk_call_of x")
    case (Inl e)
    then have "state_of (execute_signed env x rid cid wallet w) =
        state_of (persistFailure env x rid cid (Some wallet) e ?w)"
      unfolding s using sdk_call_of_no_timeout [OF Inl] by (simp add: chain_execute_def bindE_app lift_app)
    with persistFailure_retired [of env x ?w] execution_events_notes [of "[Noted ?e]" "[]" al x w ?w env "{Gov_failed, Gov_stale}"] show ?thesis
      by (simp add: is_note_def emits_note)
  next
    case (Inr c)
    let ?w1 = "gtick (?w\<lparr>gw_calls := gw_calls ?w @ [(gc_actionId x, c)]\<rparr>)"
    obtain out where out: "chain_execute env x ?w = (out, ?w1)"
      using chain_execute_calls [OF Inr, of env ?w] by blast
    have "retired env x UNIV ?w1 (state_of (execute_signed env x rid cid wallet w))"
      unfolding s out using fail [of ?w1] record_success_retired [OF Inr, of env ?w1] by (simp split: sum.splits)
    moreover have "emits w ([Noted ?e] @ [Called (gc_actionId x) c]) ?w1"
      by (simp add: emits_def gov_tabs_def)
    ultimately show ?thesis
      using execution_events_notes [of "[Noted ?e]" "[Called (gc_actionId x) c]" al x w ?w1 env UNIV] assms Inr
      by (simp add: is_note_def)
  qed
qed

text \<open>When the call is allowed: the signer is known, and an approval is the signer's own.\<close>

definition signer_allows :: "gov_action \<Rightarrow> string promise \<Rightarrow> bool" where
  "signer_allows x p =
     (case p of
        Resolves wallet \<Rightarrow>
          isApprovalGovernanceContractMethod (gc_contractMethod x) \<longrightarrow>
            normalizeWalletAddress (ga_actorWallet (gc_audit x)) = normalizeWalletAddress wallet
      | _ \<Rightarrow> False)"

lemma appendAudit_executes: "executes env x al w (state_of (seqE (appendAudit env e) (throw f) w))"
proof (cases "gv_db env (gw_tick w)")
  case (Some m)
  then show ?thesis
    by (intro executes_still) (simp add: appendAudit_def insertAuditLog_app seqE_app)
next
  case None
  have "execution_events env x al [Noted e]"
    unfolding execution_events_def
    by (intro exI [of _ "[Noted e]"] exI [of _ "[]"]) (simp add: is_note_def)
  moreover have "state_of (seqE (appendAudit env e) (throw f) w) = (gtick w)\<lparr>gw_audit := gw_audit w @ [e]\<rparr>"
    using None by (simp add: appendAudit_def insertAuditLog_app seqE_app throw_app)
  ultimately show ?thesis unfolding executes_def using emits_note by metis
qed

lemma retired_executes: "retired env x {Gov_failed, Gov_stale} w w' \<Longrightarrow> executes env x al w w'"
  using execution_events_notes [of "[]" "[]" al x w w env _ w'] by simp

lemma check_signer_executes:
  assumes "al \<longleftrightarrow> signer_allows x (Resolves wallet)"
  shows "executes env x al w (state_of (check_signer env x rid cid wallet w))"
proof (cases al)
  case True
  with assms have "check_signer env x rid cid wallet = execute_signed env x rid cid wallet \<or>
      check_signer env x rid cid wallet = throw (internal_error ''Queued approval action is missing the approver wallet'')"
    by (auto simp: check_signer_def signer_allows_def Let_def)
  with execute_signed_executes [OF True] show ?thesis
    by (elim disjE) (simp_all add: throw_app executes_still)
next
  case False
  with assms have "check_signer env x rid cid wallet = signer_mismatch env x rid cid wallet \<or>
      check_signer env x rid cid wallet = throw (internal_error ''Queued approval action is missing the approver wallet'')"
    by (auto simp: check_signer_def signer_allows_def Let_def)
  then show ?thesis
    by (elim disjE) (simp_all add: throw_app executes_still signer_mismatch_def appendAudit_executes)
qed

lemma execute_requested_executes:
  "executes env x (signer_allows x (gv_signer env (gw_tick w))) w (state_of (execute_requested env x rid cid w))"
proof (cases "gv_signer env (gw_tick w)")
  case (Resolves wallet)
  then have "state_of (execute_requested env x rid cid w) = state_of (check_signer env x rid cid wallet (gtick w))"
    by (simp add: execute_requested_def bindE_app attempted_def withTimeout_def)
  with check_signer_executes [of _ x wallet env "gtick w"] Resolves show ?thesis by simp
next
  case (Rejects e)
  then have "state_of (execute_requested env x rid cid w) = state_of (persistFailure env x rid cid None e (gtick w))"
    by (simp add: execute_requested_def bindE_app attempted_def withTimeout_def)
  with persistFailure_retired [of env x "gtick w"] show ?thesis by (simp add: retired_executes)
next
  case Pending
  then have "\<exists>e. state_of (execute_requested env x rid cid w) = state_of (persistFailure env x rid cid None e (gtick w))"
    by (auto simp: execute_requested_def bindE_app attempted_def withTimeout_def)
  with persistFailure_retired [of env x "gtick w"] show ?thesis by (auto simp: retired_executes)
qed

definition call_allowed :: "gw_env \<Rightarrow> gov_action \<Rightarrow> nat \<Rightarrow> bool" where
  "call_allowed env x t \<longleftrightarrow>
     \<not> isExpiredRequestedGovernanceAction x (gv_now env t) \<and> signer_allows x (gv_signer env (Suc t))"

lemma execute_locked_executes:
  "still w (state_of (execute_locked env fmt k rid cid w)) \<or>
   (\<exists>x. row_by gc_actionId k (gw_actions w) = Some x \<and> gc_status x = Gov_requested \<and>
      gw_tick w + 2 \<le> gw_tick (state_of (execute_locked env fmt k rid cid w)) \<and>
      executes env x (call_allowed env x (Suc (gw_tick w))) w (state_of (execute_locked env fmt k rid cid w)))"
proof (cases "gv_db env (gw_tick w)")
  case (Some m)
  then show ?thesis by (simp add: execute_locked_def bindE_app store_get_app)
next
  case up: None
  show ?thesis
  proof (cases "row_by gc_actionId k (gw_actions w)")
    case None
    with up show ?thesis by (simp add: execute_locked_def bindE_app store_get_app throw_app)
  next
    case (Some x)
    show ?thesis
    proof (cases "gc_status x = Gov_requested")
      case False
      with up Some show ?thesis by (simp add: execute_locked_def bindE_app store_get_app ret_app)
    next
      case True
      let ?w = "gtick (gtick w)"
      have "state_of (execute_locked env fmt k rid cid w) =
          state_of (if isExpiredRequestedGovernanceAction x (gv_now env (Suc (gw_tick w)))
            then persistStale env fmt x rid cid ?w else execute_requested env x rid cid ?w)"
        using up Some True by (simp add: execute_locked_def bindE_app store_get_app date_iso_app)
      moreover have "executes env x (call_allowed env x (Suc (gw_tick w))) w
          (state_of (if isExpiredRequestedGovernanceAction x (gv_now env (Suc (gw_tick w)))
            then persistStale env fmt x rid cid ?w else execute_requested env x rid cid ?w))"
        using execute_requested_executes [of env x ?w] retired_executes [OF persistStale_retired [of env x ?w fmt]]
        by (auto simp: call_allowed_def)
      moreover have "gw_tick w + 2 \<le> gw_tick
          (state_of (if isExpiredRequestedGovernanceAction x (gv_now env (Suc (gw_tick w)))
            then persistStale env fmt x rid cid ?w else execute_requested env x rid cid ?w))"
        using keepsD [OF late_executor(1), of "gw_tick w + 2" None ?w env fmt x rid cid]
          keepsD [OF late_executor(2), of "gw_tick w + 2" None ?w env x rid cid]
        by (simp add: late_def)
      ultimately show ?thesis using Some True by simp
    qed
  qed
qed

lemma finally_command_still: "still (state_of (m w)) (state_of (finallyE m (command env) w))"
  by (simp add: finallyE_app command_app split: prod.splits option.splits)

lemma execute_emits:
  "still w (state_of (executeAction env fmt k rid cid w)) \<or>
   (\<exists>x evs. row_by gc_actionId k (gw_actions w) = Some x \<and> gc_status x = Gov_requested \<and>
      gw_tick w + 4 \<le> gw_tick (state_of (executeAction env fmt k rid cid w)) \<and>
      execution_events env x (call_allowed env x (gw_tick w + 3)) evs \<and>
      emits w evs (state_of (executeAction env fmt k rid cid w)))"
proof (cases "gv_db env (gw_tick w)")
  case (Some m)
  then show ?thesis by (simp add: executeAction_def runExclusive_def seqE_app command_app)
next
  case up: None
  let ?h = "seqE (command env) (execute_locked env fmt k rid cid)"
  have s: "state_of (executeAction env fmt k rid cid w) = state_of (finallyE ?h (command env) (gtick w))"
    using up by (simp add: executeAction_def runExclusive_def seqE_app [of "command env" "finallyE _ _"] command_app)
  note fin = finally_command_still [of ?h "gtick w" env, folded s]
  show ?thesis
  proof (cases "gv_db env (Suc (gw_tick w))")
    case (Some m)
    then have "still w (state_of (?h (gtick w)))" by (simp add: seqE_app command_app)
    from still_then [OF this fin] show ?thesis ..
  next
    case None
    then have h: "state_of (?h (gtick w)) = state_of (execute_locked env fmt k rid cid (gtick (gtick w)))"
      by (simp add: seqE_app command_app)
    from execute_locked_executes [of "gtick (gtick w)" env fmt k rid cid] show ?thesis
      unfolding h [symmetric]
    proof (elim disjE exE conjE)
      assume "still (gtick (gtick w)) (state_of (?h (gtick w)))"
      then have "still w (state_of (?h (gtick w)))" by simp
      from still_then [OF this fin] show ?thesis ..
    next
      fix x assume tk: "gw_tick (gtick (gtick w)) + 2 \<le> gw_tick (state_of (?h (gtick w)))"
        and x: "row_by gc_actionId k (gw_actions (gtick (gtick w))) = Some x" "gc_status x = Gov_requested"
        and "executes env x (call_allowed env x (Suc (gw_tick (gtick (gtick w))))) (gtick (gtick w)) (state_of (?h (gtick w)))"
      then have "executes env x (call_allowed env x (gw_tick w + 3)) w (state_of (?h (gtick w)))"
        by (simp add: numeral_3_eq_3)
      then obtain evs where "execution_events env x (call_allowed env x (gw_tick w + 3)) evs"
        "emits w evs (state_of (?h (gtick w)))"
        unfolding executes_def by blast
      moreover have "gw_tick w + 4 \<le> gw_tick (state_of (executeAction env fmt k rid cid w))"
        using tk unfolding s by (auto simp: finallyE_app command_app split: prod.splits option.splits)
      ultimately show ?thesis using then_still [OF _ fin] x by auto
    qed
  qed
qed

end
