(* ===== verification/Gov_Spec.thy ===== *)
theory Gov_Spec imports Main Gov_Steps begin

text \<open>
  The abstract governance queue: a step relation on the tables with a clock, its invariants by
  rule induction, and the refinement: what an operation of the gateway does is a sequence of
  abstract steps.
\<close>

section \<open>The abstract queue\<close>

text \<open>
  A state is a lower bound of the clock with the tables.  An action is queued when its intent is
  not open, retired with or without a call, and only while it is requested; without a database
  failure (\<open>up\<close>) a call is never left without its save.
\<close>

inductive gov_spec :: "bool \<Rightarrow> int \<times> gov_tabs \<Rightarrow> int \<times> gov_tabs \<Rightarrow> bool" for up where
  pass: "t \<le> t' \<Longrightarrow> gov_spec up (t, tabs) (t', tabs)"
| remark: "t \<le> t' \<Longrightarrow> gov_spec up (t, rows, log, calls) (t', rows, log @ [e], calls)"
| queue: "t \<le> now \<Longrightarrow> now \<le> t' \<Longrightarrow> gc_status a = Gov_requested \<Longrightarrow> logs e a \<Longrightarrow>
    row_by gc_actionId (gc_actionId a) rows = None \<Longrightarrow> open_action (gc_intentKey a) now rows = None \<Longrightarrow>
    gov_spec up (t, rows, log, calls) (t', put_action a rows, log @ [e], calls)"
| retire: "t \<le> t' \<Longrightarrow> row_by gc_actionId (gc_actionId x) rows = Some x \<Longrightarrow> gc_status x = Gov_requested \<Longrightarrow>
    retires x a e \<Longrightarrow> gc_status a \<in> {Gov_failed, Gov_stale} \<Longrightarrow>
    gov_spec up (t, rows, log, calls) (t', put_action a rows, log @ [e], calls)"
| call: "t \<le> now \<Longrightarrow> now \<le> t' \<Longrightarrow> row_by gc_actionId (gc_actionId x) rows = Some x \<Longrightarrow>
    is_open_intent now x \<Longrightarrow> gc_status x = Gov_requested \<Longrightarrow> sdk_call_of x = Inr c \<Longrightarrow> retires x a e \<Longrightarrow>
    gov_spec up (t, rows, log, calls) (t', put_action a rows, log @ [e], calls @ [(gc_actionId x, c)])"
| lost: "\<not> up \<Longrightarrow> t \<le> now \<Longrightarrow> now \<le> t' \<Longrightarrow> row_by gc_actionId (gc_actionId x) rows = Some x \<Longrightarrow>
    is_open_intent now x \<Longrightarrow> gc_status x = Gov_requested \<Longrightarrow> sdk_call_of x = Inr c \<Longrightarrow>
    gov_spec up (t, rows, log, calls) (t', rows, log, calls @ [(gc_actionId x, c)])"

lemma set_put_action: "r \<in> set (put_action a rows) \<longleftrightarrow> r = mapRow a \<or> r \<in> set rows \<and> gc_actionId r \<noteq> gc_actionId a"
  by (auto simp: put_action_def upsert_def set_update_where image_iff)

lemma actions_ok_put: "actions_ok rows \<Longrightarrow> actions_ok (put_action a rows)"
proof -
  assume ok: "actions_ok rows"
  have ids: "map gc_actionId (update_where (\<lambda>q. gc_actionId q = gc_actionId a) (\<lambda>_. mapRow a) rs) = map gc_actionId rs" for rs
    by (induction rs) (simp_all add: update_where_def)
  from ok show ?thesis by (auto simp: actions_ok_def put_action_def upsert_def ids)
qed

lemma open_action_None:
  "open_action k now rows = None \<longleftrightarrow> (\<forall>a \<in> set rows. gc_intentKey a = k \<longrightarrow> \<not> is_open_intent now a)"
  by (auto simp: open_action_def find_None_iff newest_first_def)

lemma mapRow_open [simp]: "is_open_intent t (mapRow a) = is_open_intent t a"
  by (simp add: is_open_intent_def isExpiredRequestedGovernanceAction_def)

lemma mapRow_logs [simp]: "logs e (mapRow a) = logs e a"
  by (simp add: logs_def)

section \<open>Invariants of the abstract queue\<close>

definition single_open :: "int \<Rightarrow> gov_action list \<Rightarrow> bool" where
  "single_open t rows \<longleftrightarrow>
     (\<forall>a \<in> set rows. \<forall>b \<in> set rows. gc_intentKey a = gc_intentKey b \<and> is_open_intent t a \<and> is_open_intent t b \<longrightarrow> a = b)"

definition logged :: "gov_action list \<Rightarrow> audit_entry list \<Rightarrow> bool" where
  "logged rows log \<longleftrightarrow> (\<forall>a \<in> set rows. \<exists>e \<in> set log. logs e a)"

text \<open>Each action was called at most once, and a called one is not requested any more.\<close>

definition called_once :: "gov_action list \<Rightarrow> (string \<times> sdk_call) list \<Rightarrow> bool" where
  "called_once rows calls \<longleftrightarrow>
     distinct (map fst calls) \<and>
     (\<forall>k \<in> fst ` set calls. \<exists>a. row_by gc_actionId k rows = Some a \<and> gc_status a \<noteq> Gov_requested)"

lemma single_open_later: "single_open t rows \<Longrightarrow> t \<le> t' \<Longrightarrow> single_open t' rows"
  unfolding single_open_def by (meson open_intent_earlier)

lemma single_open_put:
  assumes "single_open t rows" "t \<le> t'"
    and "\<And>b. b \<in> set rows \<Longrightarrow> gc_intentKey b = gc_intentKey a \<Longrightarrow> gc_actionId b \<noteq> gc_actionId a \<Longrightarrow>
      is_open_intent t' a \<Longrightarrow> is_open_intent t' b \<Longrightarrow> False"
  shows "single_open t' (put_action a rows)"
  using single_open_later [OF assms(1,2)] assms(3) unfolding single_open_def Ball_def set_put_action
  by (metis mapRow_fields(2) mapRow_open)

lemma logged_put: "logged rows log \<Longrightarrow> logs e a \<Longrightarrow> logged (put_action a rows) (log @ [e])"
  by (auto simp: logged_def set_put_action)

lemma called_once_put:
  "called_once rows calls \<Longrightarrow> gc_actionId a \<notin> fst ` set calls \<Longrightarrow> called_once (put_action a rows) calls"
  by (force simp: called_once_def put_action_row)

fun spec_ok :: "bool \<Rightarrow> int \<times> gov_tabs \<Rightarrow> bool" where
  "spec_ok up (t, rows, log, calls) \<longleftrightarrow>
     actions_ok rows \<and> single_open t rows \<and> logged rows log \<and> (up \<longrightarrow> called_once rows calls)"

lemma requested_not_called:
  "called_once rows calls \<Longrightarrow> row_by gc_actionId k rows = Some x \<Longrightarrow> gc_status x = Gov_requested \<Longrightarrow>
   k \<notin> fst ` set calls"
  by (auto simp: called_once_def)

lemma retires_same:
  assumes "retires x a e"
  shows "gc_actionId a = gc_actionId x" "gc_intentKey a = gc_intentKey x"
  using assms follows_same(1,2) [of x a] unfolding retires_def by blast+

lemma spec_ok_step: "gov_spec up s s' \<Longrightarrow> spec_ok up s \<Longrightarrow> spec_ok up s'"
proof (induction rule: gov_spec.induct)
  case (pass t t' tabs)
  then show ?case by (cases tabs) (auto intro: single_open_later)
next
  case (remark t t' rows log e calls)
  then show ?case by (auto intro: single_open_later simp: logged_def)
next
  case (queue t now t' a e rows log calls)
  have "\<not> is_open_intent t' b" if "b \<in> set rows" "gc_intentKey b = gc_intentKey a" for b
    using that queue open_intent_earlier [of t' b now] by (auto simp: open_action_None)
  moreover have "up \<Longrightarrow> gc_actionId a \<notin> fst ` set calls" using queue by (auto simp: called_once_def)
  moreover have "single_open t' (put_action a rows)"
    using calculation(1) queue by (intro single_open_put [of t]) auto
  ultimately show ?case using queue by (auto intro!: actions_ok_put logged_put called_once_put)
next
  case (retire t t' x rows a e log calls)
  have id: "gc_actionId a = gc_actionId x" using retire(4) by (rule retires_same)
  have closed: "\<not> is_open_intent t' a"
    using retire(5) by (auto simp: is_open_intent_def GOVERNANCE_OPEN_INTENT_STATUSES_def)
  have ok: "actions_ok rows" "single_open t rows" "logged rows log" "up \<Longrightarrow> called_once rows calls"
    using retire by simp_all
  have "single_open t' (put_action a rows)"
    using closed by (intro single_open_put [OF ok(2) retire(1)]) simp
  moreover have "up \<Longrightarrow> called_once (put_action a rows) calls"
    using called_once_put [OF ok(4), of a] requested_not_called [OF ok(4) retire(2,3)] id by simp
  moreover have "logs e a" using retire by (simp add: retires_def)
  ultimately show ?case using ok by (simp add: actions_ok_put logged_put)
next
  case (call t now t' x rows c a e log calls)
  have same: "gc_actionId a = gc_actionId x" "gc_intentKey a = gc_intentKey x" "logs e a" "gc_status a \<noteq> Gov_requested"
    using call(7) retires_same [OF call(7)] by (simp_all add: retires_def)
  have ok: "actions_ok rows" "single_open t rows" "logged rows log" "up \<Longrightarrow> called_once rows calls"
    using call(8) by simp_all
  have x: "x \<in> set rows" using row_by_Some [OF call(3)] ..
  have "is_open_intent t x" using open_intent_earlier [OF call(4,1)] .
  then have only: "b = x" if "b \<in> set rows" "gc_intentKey b = gc_intentKey x" "is_open_intent t' b" for b
  proof -
    have "is_open_intent t b" using that(3) call(1,2) by (meson open_intent_earlier order_trans)
    with that(1,2) x ok(2) \<open>is_open_intent t x\<close> show ?thesis unfolding single_open_def by blast
  qed
  have "single_open t' (put_action a rows)"
  proof (rule single_open_put [OF ok(2)])
    show "t \<le> t'" using call(1,2) by simp
    fix b assume "b \<in> set rows" "gc_intentKey b = gc_intentKey a" "gc_actionId b \<noteq> gc_actionId a" "is_open_intent t' b"
    with only [of b] same(1,2) show False by metis
  qed
  moreover have "called_once (put_action a rows) (calls @ [(gc_actionId x, c)])" if up
    using called_once_put [OF ok(4) [OF that], of a] requested_not_called [OF ok(4) [OF that] call(3,5)] same
    by (simp add: called_once_def put_action_row)
  ultimately show ?case using ok same(3) by (simp add: actions_ok_put logged_put)
next
  case (lost t now t' x rows c log calls)
  then show ?case by (auto intro: single_open_later)
qed

text \<open>An action that is not requested any more never changes.\<close>

lemma settled_step:
  "gov_spec up s s' \<Longrightarrow> row_by gc_actionId k (fst (snd s)) = Some a \<Longrightarrow> gc_status a \<noteq> Gov_requested \<Longrightarrow>
   row_by gc_actionId k (fst (snd s')) = Some a"
proof (induction rule: gov_spec.induct)
  case (retire t t' x rows b e log calls)
  have "gc_actionId b = gc_actionId x" using retire(4) by (rule retires_same)
  with retire show ?case by (auto simp: put_action_row)
next
  case (call t now t' x rows c b e log calls)
  have "gc_actionId b = gc_actionId x" using call(7) by (rule retires_same)
  with call show ?case by (auto simp: put_action_row)
qed (auto simp: put_action_row)

end
