(* ===== verification/Gov_Refine.thy ===== *)
theory Gov_Refine imports Main Gov_Spec begin

text \<open>
  The refinement: what queueing, execution and cleanup do is a sequence of steps of the abstract
  queue, as long as the clock does not run backwards and no identifier is drawn twice.
\<close>

section \<open>The operations refine the abstract queue\<close>

definition spec_of :: "gw_env \<Rightarrow> gw_world \<Rightarrow> int \<times> gov_tabs" where
  "spec_of env w = (gv_now env (gw_tick w), gov_tabs w)"

text \<open>A clock that does not run backwards, and identifiers that are not drawn twice.\<close>

definition sound_env :: "gw_env \<Rightarrow> bool" where
  "sound_env env \<longleftrightarrow> mono (gv_now env) \<and> inj (gv_uuid env)"

definition ids_used :: "gw_env \<Rightarrow> nat \<Rightarrow> gov_action list \<Rightarrow> bool" where
  "ids_used env n rows \<longleftrightarrow> (\<forall>a \<in> set rows. \<exists>t < n. gc_actionId a = gv_uuid env t)"

abbreviation spec_steps :: "gw_env \<Rightarrow> int \<times> gov_tabs \<Rightarrow> int \<times> gov_tabs \<Rightarrow> bool" where
  "spec_steps env \<equiv> (gov_spec (gw_up env))\<^sup>*\<^sup>*"

lemma ids_used_later: "ids_used env n rows \<Longrightarrow> n \<le> m \<Longrightarrow> ids_used env m rows"
  unfolding ids_used_def by (meson order_less_le_trans)

lemma ids_used_put: "ids_used env n rows \<Longrightarrow> gc_actionId a \<in> gc_actionId ` set rows \<Longrightarrow> ids_used env n (put_action a rows)"
  by (auto simp: ids_used_def set_put_action)

text \<open>One operation: abstract steps, with the ticks and the identifiers in step.\<close>

definition refines :: "gw_env \<Rightarrow> gw_world \<Rightarrow> gw_world \<Rightarrow> bool" where
  "refines env w w' \<longleftrightarrow>
     gw_tick w \<le> gw_tick w' \<and> ids_used env (gw_tick w') (gw_actions w') \<and>
     spec_steps env (spec_of env w) (spec_of env w')"

lemma refines_trans: "refines env w w1 \<Longrightarrow> refines env w1 w2 \<Longrightarrow> refines env w w2"
  by (auto simp: refines_def)

lemma now_mono: "sound_env env \<Longrightarrow> m \<le> n \<Longrightarrow> gv_now env m \<le> gv_now env n"
  by (simp add: sound_env_def mono_def)

lemma emits_tables:
  "emits w evs w' \<Longrightarrow> fold gov_did evs (gw_actions w, gw_audit w, gw_calls w) = (gw_actions w', gw_audit w', gw_calls w')"
  by (simp add: emits_def gov_tabs_def)

lemma refines_still:
  assumes "sound_env env" "ids_used env (gw_tick w) (gw_actions w)" "gw_tick w \<le> gw_tick w'" "still w w'"
  shows "refines env w w'"
proof -
  have "gov_spec (gw_up env) (spec_of env w) (spec_of env w')"
    using assms(4) now_mono [OF assms(1,3)] by (auto simp: still_iff spec_of_def intro: gov_spec.pass)
  with assms still_rows [OF assms(4)] show ?thesis by (auto simp: refines_def intro: ids_used_later)
qed

lemma refines_remark:
  assumes "sound_env env" "ids_used env (gw_tick w) (gw_actions w)" "gw_tick w \<le> gw_tick w'" "emits w [Noted e] w'"
  shows "refines env w w'"
proof -
  from emits_tables [OF assms(4)] have t: "gw_actions w' = gw_actions w" "gw_audit w' = gw_audit w @ [e]"
    "gw_calls w' = gw_calls w" by simp_all
  have "gov_spec (gw_up env) (spec_of env w) (spec_of env w')"
    unfolding spec_of_def gov_tabs_def t by (intro gov_spec.remark now_mono assms)
  with assms t show ?thesis by (auto simp: refines_def intro: ids_used_later)
qed

lemma uuid_fresh:
  assumes "sound_env env" "ids_used env n rows" "n \<le> m"
  shows "row_by gc_actionId (gv_uuid env m) rows = None"
  using assms unfolding row_by_None ids_used_def sound_env_def by (force dest: injD)

lemma queue_refines:
  assumes env: "sound_env env" and ids: "ids_used env (gw_tick w) (gw_actions w)"
  shows "refines env w (state_of (queueAction env cfg input w))"
proof -
  let ?w' = "state_of (queueAction env cfg input w)"
  let ?a = "queued_of env cfg input w" and ?u = "gv_uuid env (Suc (gw_tick w))"
  have two: "gw_tick w + 2 \<le> gw_tick ?w'"
  proof -
    let ?m = "bindE (saveQueuedActionWithIntentDedupe env ?a (queued_entry input ?u) (duplicate_entry input)
          (gv_now env (gw_tick w)))
        (\<lambda>(savedAction, created).
           if created then ret (accepted_of ?a)
           else bindE (store_get env (gc_actionId savedAction)) (\<lambda>again.
             ret (accepted_of (case again of None \<Rightarrow> savedAction | Some a \<Rightarrow> a))))"
    have q: "queueAction env cfg input w = ?m (gtick (gtick w))"
      unfolding queueAction_def Let_def queued_of_def bindE_app [of "date_iso env"] bindE_app [of "gask (gv_uuid env)"]
        date_iso_app gask_app prod.case sum.case gtick_simps ..
    have "keeps (late n None) ?m" for n
      unfolding saveQueuedActionWithIntentDedupe_def queue_body_def by (intro keeps_rules)
    from keepsD [OF this, of "gw_tick w + 2" "gtick (gtick w)"] show ?thesis
      unfolding q by (simp add: late_def)
  qed
  from queue_emits [of w input env cfg] show ?thesis
  proof (elim disjE exE conjE)
    fix s assume "emits w [Noted (duplicate_entry input s)] ?w'"
    with two show ?thesis by (intro refines_remark [OF env ids]) simp_all
  next
    assume "still w ?w'"
    with two show ?thesis by (intro refines_still [OF env ids]) simp_all
  next
    assume em: "emits w [Saved ?a (queued_entry input ?u)] ?w'"
      and none: "open_action (gc_intentKey ?a) (gv_now env (gw_tick w)) (gw_actions w) = None"
    from emits_tables [OF em] have t: "gw_actions ?w' = put_action ?a (gw_actions w)"
      "gw_audit ?w' = gw_audit w @ [queued_entry input ?u]" "gw_calls ?w' = gw_calls w" by simp_all
    have a: "gc_actionId ?a = ?u" "gc_status ?a = Gov_requested" "logs (queued_entry input ?u) ?a"
      by (simp_all add: queued_of_def requested_action_def logs_def queued_entry_def queue_entry_def)
    have "gov_spec (gw_up env) (spec_of env w) (spec_of env ?w')"
      unfolding spec_of_def gov_tabs_def t
    proof (rule gov_spec.queue [where now = "gv_now env (gw_tick w)"])
      show "row_by gc_actionId (gc_actionId ?a) (gw_actions w) = None"
        unfolding a by (rule uuid_fresh [OF env ids]) simp
      show "gv_now env (gw_tick w) \<le> gv_now env (gw_tick ?w')" using two by (intro now_mono [OF env]) simp
    qed (simp_all add: a none)
    moreover have "ids_used env (gw_tick ?w') (gw_actions ?w')"
    proof -
      from two have "Suc (gw_tick w) < gw_tick ?w'" "gw_tick w \<le> gw_tick ?w'" by simp_all
      with ids_used_later [OF ids this(2)] show ?thesis unfolding t ids_used_def set_put_action Ball_def
        using a(1) by auto
    qed
    ultimately show ?thesis using two by (simp add: refines_def)
  qed
qed

lemma ids_used_same_ids:
  assumes "ids_used env n rows" "n \<le> m" "row_by gc_actionId k rows = Some x" "gc_actionId a = gc_actionId x"
  shows "ids_used env m (put_action a rows)"
proof -
  from row_by_Some [OF assms(3)] have "x \<in> set rows" ..
  with assms(4) have "gc_actionId a \<in> gc_actionId ` set rows" by simp
  with ids_used_later [OF assms(1,2)] show ?thesis by (rule ids_used_put)
qed

lemma row_by_self: "row_by gc_actionId k rows = Some x \<Longrightarrow> row_by gc_actionId (gc_actionId x) rows = Some x"
  using row_by_Some [of gc_actionId k rows x] by simp

lemma refines_retire:
  assumes "sound_env env" "ids_used env (gw_tick w) (gw_actions w)" "gw_tick w \<le> gw_tick w'"
    and x: "row_by gc_actionId k (gw_actions w) = Some x" "gc_status x = Gov_requested"
    and a: "retires x a e" "gc_status a \<in> {Gov_failed, Gov_stale}" and em: "emits w [Saved a e] w'"
  shows "refines env w w'"
proof -
  from emits_tables [OF em] have t: "gw_actions w' = put_action a (gw_actions w)"
    "gw_audit w' = gw_audit w @ [e]" "gw_calls w' = gw_calls w" by simp_all
  have "gov_spec (gw_up env) (spec_of env w) (spec_of env w')"
    unfolding spec_of_def gov_tabs_def t
    by (rule gov_spec.retire [OF now_mono [OF assms(1,3)] row_by_self [OF x(1)] x(2) a])
  moreover have "ids_used env (gw_tick w') (gw_actions w')"
    unfolding t by (rule ids_used_same_ids [OF assms(2,3) x(1) retires_same(1) [OF a(1)]])
  ultimately show ?thesis using assms(3) by (simp add: refines_def)
qed

lemma remarks_tables:
  "list_all is_note evs \<Longrightarrow> \<exists>log'. fold gov_did evs (rows, log, calls) = (rows, log', calls) \<and>
     (gov_spec up)\<^sup>*\<^sup>* (t, rows, log, calls) (t, rows, log', calls)"
proof (induction evs arbitrary: log)
  case Nil
  then show ?case by simp
next
  case (Cons ev evs)
  from Cons.prems obtain e where ev: "ev = Noted e" by (cases ev) (simp_all add: is_note_def)
  from Cons.IH [of "log @ [e]"] Cons.prems obtain log' where l:
    "fold gov_did evs (rows, log @ [e], calls) = (rows, log', calls)"
    "(gov_spec up)\<^sup>*\<^sup>* (t, rows, log @ [e], calls) (t, rows, log', calls)" by auto
  have "gov_spec up (t, rows, log, calls) (t, rows, log @ [e], calls)" by (rule gov_spec.remark) simp
  from converse_rtranclp_into_rtranclp [OF this l(2)] l(1) show ?case by (auto simp: ev)
qed

lemma call_allowed_open:
  "gc_status x = Gov_requested \<Longrightarrow> call_allowed env x t \<Longrightarrow> is_open_intent (gv_now env t) x"
  by (simp add: call_allowed_def is_open_intent_def GOVERNANCE_OPEN_INTENT_STATUSES_def)

lemma execute_refines:
  assumes env: "sound_env env" and ids: "ids_used env (gw_tick w) (gw_actions w)"
  shows "refines env w (state_of (executeAction env fmt k rid cid w))"
proof -
  let ?w' = "state_of (executeAction env fmt k rid cid w)"
  have later: "gw_tick w \<le> gw_tick ?w'"
    using keepsD [OF late_executeAction, of "gw_tick w" None w] by (simp add: late_def)
  from execute_emits [of w env fmt k rid cid] show ?thesis
  proof (elim disjE exE conjE)
    assume "still w ?w'"
    with later show ?thesis by (intro refines_still [OF env ids])
  next
    fix x evs assume x: "row_by gc_actionId k (gw_actions w) = Some x" "gc_status x = Gov_requested"
      and tk: "gw_tick w + 4 \<le> gw_tick ?w'"
      and ev: "execution_events env x (call_allowed env x (gw_tick w + 3)) evs" and em: "emits w evs ?w'"
    from ev obtain remarks calls saves where evs: "evs = remarks @ calls @ saves" "list_all is_note remarks"
      and calls: "calls = [] \<or> call_allowed env x (gw_tick w + 3) \<and>
          (\<exists>c. sdk_call_of x = Inr c \<and> calls = [Called (gc_actionId x) c])"
      and saves: "saves = [] \<or> (\<exists>a e. saves = [Saved a e] \<and> retires x a e)"
      and both: "calls = [] \<or> saves \<noteq> [] \<or> \<not> gw_up env"
        "calls \<noteq> [] \<or> (\<forall>a e. Saved a e \<in> set saves \<longrightarrow> gc_status a \<in> {Gov_failed, Gov_stale})"
      unfolding execution_events_def by blast
    let ?t = "gv_now env (gw_tick w)" and ?t' = "gv_now env (gw_tick ?w')"
    obtain log where log: "fold gov_did remarks (gov_tabs w) = (gw_actions w, log, gw_calls w)"
      "spec_steps env (spec_of env w) (?t, gw_actions w, log, gw_calls w)"
      using remarks_tables [OF evs(2), of "gw_actions w" "gw_audit w" "gw_calls w" "gw_up env" ?t]
      unfolding spec_of_def gov_tabs_def by blast
    have tabs: "gov_tabs ?w' = fold gov_did saves (fold gov_did calls (gw_actions w, log, gw_calls w))"
      using em log(1) by (simp add: emits_def evs(1))
    note le = now_mono [OF env later]
    have now: "?t \<le> gv_now env (gw_tick w + 3)" "gv_now env (gw_tick w + 3) \<le> ?t'"
      using tk by (auto intro: now_mono [OF env])
    note row = row_by_self [OF x(1)]
    have "gov_spec (gw_up env) (?t, gw_actions w, log, gw_calls w) (spec_of env ?w') \<and>
        ids_used env (gw_tick ?w') (gw_actions ?w')"
    proof (cases "calls = []")
      case True
      from saves show ?thesis
      proof (elim disjE exE conjE)
        assume "saves = []"
        with True tabs have "gov_tabs ?w' = (gw_actions w, log, gw_calls w)" by simp
        with gov_spec.pass [OF le] ids_used_later [OF ids later] show ?thesis
          by (simp add: spec_of_def gov_tabs_def)
      next
        fix a e assume a: "saves = [Saved a e]" "retires x a e"
        with True tabs have g: "gov_tabs ?w' = (put_action a (gw_actions w), log @ [e], gw_calls w)" by simp
        have "gc_status a \<in> {Gov_failed, Gov_stale}" using both(2) True a(1) by simp
        from gov_spec.retire [OF le row x(2) a(2) this]
          ids_used_same_ids [OF ids later x(1) retires_same(1) [OF a(2)]] g show ?thesis
          by (simp add: spec_of_def gov_tabs_def)
      qed
    next
      case False
      with calls obtain c where c: "call_allowed env x (gw_tick w + 3)" "sdk_call_of x = Inr c"
        "calls = [Called (gc_actionId x) c]" by blast
      note open_now = call_allowed_open [OF x(2) c(1)]
      from saves show ?thesis
      proof (elim disjE exE conjE)
        assume s: "saves = []"
        with c(3) tabs have g: "gov_tabs ?w' = (gw_actions w, log, gw_calls w @ [(gc_actionId x, c)])" by simp
        have "\<not> gw_up env" using both(1) False s by simp
        from gov_spec.lost [OF this now row open_now x(2) c(2)] ids_used_later [OF ids later] g show ?thesis
          by (simp add: spec_of_def gov_tabs_def)
      next
        fix a e assume a: "saves = [Saved a e]" "retires x a e"
        with c(3) tabs have g: "gov_tabs ?w' =
            (put_action a (gw_actions w), log @ [e], gw_calls w @ [(gc_actionId x, c)])" by simp
        from gov_spec.call [OF now row open_now x(2) c(2) a(2)]
          ids_used_same_ids [OF ids later x(1) retires_same(1) [OF a(2)]] g show ?thesis
          by (simp add: spec_of_def gov_tabs_def)
      qed
    qed
    with log(2) later show ?thesis unfolding refines_def by (auto intro: rtranclp.rtrancl_into_rtrancl)
  qed
qed

lemma cleanup_retires:
  "isExpiredRequestedGovernanceAction cur now \<Longrightarrow> retires cur (buildStaleRecord cur now) (cleanup_entry cur rid fmt now)"
  by (simp add: retires_def follows_def logs_def buildStaleRecord_def cleanup_entry_def)

lemma candidate_refines:
  assumes env: "sound_env env" and ids: "ids_used env (gw_tick w) (gw_actions w)"
  shows "refines env w (state_of (cleanup_candidate env fmt rid now stale c w))"
proof -
  let ?w' = "state_of (cleanup_candidate env fmt rid now stale c w)"
  have later: "gw_tick w \<le> gw_tick ?w'"
    using keepsD [OF late_cleanup_candidate, of "gw_tick w" None w] by (simp add: late_def)
  from cleanup_candidate_emits [of w env fmt rid now stale c] show ?thesis
  proof (elim disjE exE conjE)
    assume "still w ?w'"
    with later show ?thesis by (intro refines_still [OF env ids])
  next
    fix cur assume cur: "row_by gc_actionId (gc_actionId c) (gw_actions w) = Some cur"
      "isExpiredRequestedGovernanceAction cur now"
      "emits w [Saved (buildStaleRecord cur now) (cleanup_entry cur rid fmt now)] ?w'"
    show ?thesis
      by (rule refines_retire [OF env ids later cur(1) _ cleanup_retires [OF cur(2)] _ cur(3)])
         (use cur(2) in \<open>simp_all add: isExpiredRequestedGovernanceAction_def buildStaleRecord_def\<close>)
  qed
qed

lemma foldE_refines:
  assumes env: "sound_env env" and step: "\<And>s x w. ids_used env (gw_tick w) (gw_actions w) \<Longrightarrow> refines env w (state_of (f s x w))"
  shows "ids_used env (gw_tick w) (gw_actions w) \<Longrightarrow> refines env w (state_of (foldE f s xs w))"
proof (induction xs arbitrary: s w)
  case Nil
  then show ?case using refines_still [OF env, of w w] by (simp add: ret_app)
next
  case (Cons x xs)
  obtain r w1 where r: "f s x w = (r, w1)" by (cases "f s x w")
  from step [OF Cons.prems, of s x] r have one: "refines env w w1" by simp
  then have ids: "ids_used env (gw_tick w1) (gw_actions w1)" by (simp add: refines_def)
  from one refines_trans [OF one Cons.IH [OF ids]] r show ?case by (cases r) (simp_all add: bindE_app)
qed

lemma cleanup_refines:
  assumes env: "sound_env env" and ids: "ids_used env (gw_tick w) (gw_actions w)"
  shows "refines env w (state_of (bindE (date_iso env) (\<lambda>now. cleanup_apply env fmt now limit) w))"
proof -
  let ?now = "gv_now env (gw_tick w)" and ?w = "gtick (gtick (gtick w))"
  let ?rid = "''cleanup-'' @ gv_uuid env (Suc (gw_tick w))"
  have ids3: "ids_used env (gw_tick ?w) (gw_actions ?w)" by (simp add: ids_used_later [OF ids])
  have first: "refines env w ?w" by (rule refines_still [OF env ids]) simp_all
  show ?thesis
  proof (cases "gv_db env (gw_tick w + 2)")
    case None
    let ?cs = "expired_requests ?now limit (gw_actions w)"
    have "state_of (bindE (date_iso env) (\<lambda>now. cleanup_apply env fmt now limit) w) =
        state_of (foldE (cleanup_candidate env fmt ?rid ?now) [] ?cs ?w)"
      using None by (simp add: cleanup_apply_def bindE_app date_iso_app gask_app listRequestedExpired_def gquery_def
          ret_app split: prod.splits sum.splits)
    moreover have "refines env ?w (state_of (foldE (cleanup_candidate env fmt ?rid ?now) [] ?cs ?w))"
      by (rule foldE_refines [OF env candidate_refines [OF env] ids3])
    ultimately show ?thesis using refines_trans [OF first] by simp
  next
    case (Some m)
    then show ?thesis using first
      by (simp add: cleanup_apply_def bindE_app date_iso_app gask_app listRequestedExpired_def gquery_def)
  qed
qed

end
