(* ===== verification/Gov_Idempotency.thy ===== *)
theory Gov_Idempotency imports Main Gov_Store begin

text \<open>
  The idempotency keys of the mutation routes (\<open>gateway/src/core/idempotencyStore.ts\<close>) and the
  middleware around the handlers (\<open>middleware/idempotency.ts\<close>).
\<close>

section \<open>The store\<close>

record pending_entry =
  pe_idempotencyKey :: string
  pe_requestMethod :: string
  pe_requestPath :: string
  pe_requestFingerprint :: string
  pe_requestId :: string

definition upper_char :: "char \<Rightarrow> char" where
  "upper_char c = (let n = (of_char c :: nat) in if 97 \<le> n \<and> n \<le> 122 then char_of (n - 32) else c)"

text \<open>The bytes that are hashed; \<open>rawBody\<close> is empty when there is no body.\<close>

definition buildRequestFingerprint :: "(string \<Rightarrow> string) \<Rightarrow> string \<Rightarrow> string \<Rightarrow> string \<Rightarrow> string" where
  "buildRequestFingerprint sha256 requestMethod path rawBody =
     sha256 (map upper_char requestMethod @ [CHR 0x0A] @ path @ [CHR 0x0A] @ rawBody)"

definition idempotency_get :: "gw_env \<Rightarrow> string \<Rightarrow> idempotency_row option gw_eff" where
  "idempotency_get env key = gquery env (\<lambda>w. (row_by ik_idempotencyKey key (gw_keys w), w))"

definition pending_row :: "pending_entry \<Rightarrow> idempotency_row" where
  "pending_row e = \<lparr>ik_idempotencyKey = pe_idempotencyKey e, ik_requestMethod = pe_requestMethod e,
     ik_requestPath = pe_requestPath e, ik_requestFingerprint = pe_requestFingerprint e,
     ik_requestId = pe_requestId e, ik_response = None\<rparr>"

text \<open>\<open>INSERT ... ON CONFLICT DO NOTHING RETURNING\<close>\<close>

definition insert_pending :: "pending_entry \<Rightarrow> idempotency_row list \<Rightarrow> idempotency_row option \<times> idempotency_row list" where
  "insert_pending e rows =
     (if pe_idempotencyKey e \<in> ik_idempotencyKey ` set rows then (None, rows)
      else (Some (pending_row e), rows @ [pending_row e]))"

definition createPending :: "gw_env \<Rightarrow> pending_entry \<Rightarrow> (idempotency_row \<times> bool) gw_eff" where
  "createPending env e =
     bindE (gquery env (\<lambda>w. case insert_pending e (gw_keys w) of (r, rows) \<Rightarrow> (r, w\<lparr>gw_keys := rows\<rparr>)))
       (\<lambda>createdRow.
          case createdRow of
            Some r \<Rightarrow> ret (r, True)
          | None \<Rightarrow>
              bindE (idempotency_get env (pe_idempotencyKey e)) (\<lambda>stored.
                case stored of
                  None \<Rightarrow> throw (Other_error (''Failed to persist idempotency key '' @ pe_idempotencyKey e))
                | Some r \<Rightarrow> ret (r, False)))"

definition complete_key :: "gw_env \<Rightarrow> string \<Rightarrow> int \<Rightarrow> mutation_body \<Rightarrow> unit gw_eff" where
  "complete_key env key responseStatus responseBody =
     gquery env (\<lambda>w. ((), w\<lparr>gw_keys := update_where (\<lambda>r. ik_idempotencyKey r = key)
       (\<lambda>r. r\<lparr>ik_response := Some (responseStatus, responseBody)\<rparr>) (gw_keys w)\<rparr>))"

definition releasePending :: "gw_env \<Rightarrow> string \<Rightarrow> unit gw_eff" where
  "releasePending env key =
     gquery env (\<lambda>w. ((), w\<lparr>gw_keys :=
       filter (\<lambda>r. \<not> (ik_idempotencyKey r = key \<and> ik_response r = None)) (gw_keys w)\<rparr>))"

text \<open>Only the time of the replay is written, which nothing reads.\<close>

definition markReplay :: "gw_env \<Rightarrow> string \<Rightarrow> unit gw_eff" where
  "markReplay env key = command env"

section \<open>The middleware\<close>

record mutation_request =
  mr_authorization :: "string option"
  mr_idempotencyKey :: "string option"
  mr_method :: string
  mr_path :: string
  mr_body :: json
  mr_rawBody :: string
  mr_requestId :: string
  mr_correlationId :: string
  mr_proposalId :: "string option"

record mutation_response =
  rs_status :: int
  rs_body :: mutation_body
  rs_replayed :: bool

definition conflict :: "string \<Rightarrow> (string \<times> string) list \<Rightarrow> gw_error" where
  "conflict m details = Gateway_error 409 CONFLICT m details"

text \<open>\<open>errorHandler\<close>\<close>

definition error_response :: "gw_env \<Rightarrow> mutation_request \<Rightarrow> gw_error \<Rightarrow> mutation_response gw_eff" where
  "error_response env req e =
     bindE (date_iso env) (\<lambda>now.
       ret (case e of
              Gateway_error s c m details \<Rightarrow>
                \<lparr>rs_status = s, rs_body = Error_body c m (mr_requestId req) (mr_correlationId req) details now,
                 rs_replayed = False\<rparr>
            | Other_error _ \<Rightarrow>
                \<lparr>rs_status = 500, rs_body = Error_body INTERNAL_ERROR ''An unexpected error occurred''
                   (mr_requestId req) (mr_correlationId req) [] now, rs_replayed = False\<rparr>))"

text \<open>
  The answer of a handler, its errors included; \<open>finish\<close> stores the answer under the key, or
  releases the key after a server error.  Nobody awaits \<open>finish\<close>: its own failure is not seen.
\<close>

definition answered :: "gw_env \<Rightarrow> mutation_request \<Rightarrow> queue_accepted gw_eff \<Rightarrow> mutation_response gw_eff" where
  "answered env req m =
     catchE (bindE m (\<lambda>accepted. bindE (date_iso env) (\<lambda>now.
         ret \<lparr>rs_status = 202, rs_body = Accepted_body accepted now, rs_replayed = False\<rparr>)))
       (error_response env req)"

definition finish :: "gw_env \<Rightarrow> string \<Rightarrow> mutation_response \<Rightarrow> unit gw_eff" where
  "finish env key r =
     catchE (if rs_status r \<ge> 500 then releasePending env key
             else complete_key env key (rs_status r) (rs_body r))
       (\<lambda>_. ret ())"

definition request_entry :: "gw_env \<Rightarrow> mutation_request \<Rightarrow> string \<Rightarrow> pending_entry" where
  "request_entry env req key =
     \<lparr>pe_idempotencyKey = key, pe_requestMethod = mr_method req, pe_requestPath = mr_path req,
      pe_requestFingerprint = buildRequestFingerprint (gv_sha256 env) (mr_method req) (mr_path req) (mr_rawBody req),
      pe_requestId = mr_requestId req\<rparr>"

definition same_request :: "pending_entry \<Rightarrow> idempotency_row \<Rightarrow> bool" where
  "same_request e existing \<longleftrightarrow>
     ik_requestFingerprint existing = pe_requestFingerprint e \<and> ik_requestMethod existing = pe_requestMethod e \<and>
     ik_requestPath existing = pe_requestPath e"

definition idempotency ::
  "gw_env \<Rightarrow> mutation_request \<Rightarrow> (string \<Rightarrow> queue_accepted gw_eff) \<Rightarrow> mutation_response gw_eff" where
  "idempotency env req handler =
     (let key = (case mr_idempotencyKey req of None \<Rightarrow> [] | Some k \<Rightarrow> trim k)
      in if key = []
         then throw (Gateway_error 400 VALIDATION_ERROR ''Idempotency-Key header is required for mutation routes'' [])
         else bindE (createPending env (request_entry env req key)) (\<lambda>(existing, created).
           if created
           then bindE (answered env req (handler key)) (\<lambda>r. seqE (finish env key r) (ret r))
           else if \<not> same_request (request_entry env req key) existing
           then throw (conflict ''Idempotency key is already in use for a different request'' [(''idempotencyKey'', key)])
           else (case ik_response existing of
                   Some (s, body) \<Rightarrow>
                     seqE (markReplay env key) (ret \<lparr>rs_status = s, rs_body = body, rs_replayed = True\<rparr>)
                 | None \<Rightarrow>
                     throw (conflict ''A request with this idempotency key is already in progress''
                       [(''idempotencyKey'', key)]))))"

end
