(* ===== verification/Gov_Routes.thy ===== *)
theory Gov_Routes imports Main Gov_Idempotency Gov_Service Gov_Status begin

text \<open>
  The authentication of the gateway (\<open>gateway/src/middleware/auth.ts\<close>) and the sixteen mutation
  routes with their preflight checks (\<open>routes/governanceMutations.ts\<close>).
\<close>

section \<open>Authentication\<close>

record gateway_principal =
  gp_caller :: gw_principal
  gp_gatewayRoles :: "string list"
  gp_writeEnabled :: bool

record gateway_config =
  gx_queue :: queue_config
  gx_enableMutations :: bool
  gx_writeAllowlist :: "string list"

definition getBearerToken :: "string option \<Rightarrow> string option" where
  "getBearerToken header =
     (case header of
        None \<Rightarrow> None
      | Some h \<Rightarrow>
          if \<not> starts_with h ''Bearer '' then None
          else (let token = trim (drop 7 h) in if token = [] then None else Some token))"

definition mapGatewayRoles :: "auth_session \<Rightarrow> string list" where
  "mapGatewayRoles session =
     (if as_role session = ''admin'' then [''operator:read'', ''operator:write''] else [])"

definition matchesAllowlist :: "auth_session \<Rightarrow> string list \<Rightarrow> bool" where
  "matchesAllowlist session allowlist =
     (if allowlist = [] then False
      else
        (let candidates = filter truthy
               ([as_userId session, as_walletAddress session] @
                (case as_email session of None \<Rightarrow> [] | Some e \<Rightarrow> [e]))
         in list_ex (\<lambda>entry. to_lower entry \<in> to_lower ` set allowlist) candidates))"

definition buildSessionReference :: "(string \<Rightarrow> string) \<Rightarrow> string \<Rightarrow> string" where
  "buildSessionReference sha256 token = ''sha256:'' @ sha256 token"

definition principal_of :: "gw_env \<Rightarrow> gateway_config \<Rightarrow> string \<Rightarrow> auth_session \<Rightarrow> gateway_principal" where
  "principal_of env cfg token session =
     \<lparr>gp_caller = \<lparr>gp_sessionReference = buildSessionReference (gv_sha256 env) token,
        gp_userId = as_userId session, gp_walletAddress = as_walletAddress session, gp_role = as_role session\<rparr>,
      gp_gatewayRoles = mapGatewayRoles session,
      gp_writeEnabled = (gx_enableMutations cfg \<and> matchesAllowlist session (gx_writeAllowlist cfg))\<rparr>"

definition authenticate :: "gw_env \<Rightarrow> gateway_config \<Rightarrow> mutation_request \<Rightarrow> gateway_principal gw_eff" where
  "authenticate env cfg req =
     (case getBearerToken (mr_authorization req) of
        None \<Rightarrow> throw (Gateway_error 401 AUTH_REQUIRED ''Missing or malformed Authorization header'' [])
      | Some token \<Rightarrow>
          bindE (gask (\<lambda>t. gv_session env t token)) (\<lambda>answer.
          bindE (lift answer) (\<lambda>session.
            case session of
              None \<Rightarrow> throw (Gateway_error 401 AUTH_REQUIRED ''Session invalid, expired, or revoked'' [])
            | Some s \<Rightarrow> ret (principal_of env cfg token s))))"

definition requireMutationWriteAccess :: "gateway_principal \<Rightarrow> gw_error + unit" where
  "requireMutationWriteAccess p =
     (if ''operator:write'' \<notin> set (gp_gatewayRoles p)
      then Inl (Gateway_error 403 FORBIDDEN ''Admin session is required for gateway mutations'' [])
      else if \<not> gp_writeEnabled p
      then Inl (Gateway_error 403 FORBIDDEN ''Gateway mutations are disabled or caller is not allowlisted''
             [(''reason'', ''disabled_or_not_allowlisted'')])
      else Inr ())"

section \<open>The routes\<close>

text \<open>The routes of the proposals of the treasury payout receiver and of the oracle have one shape.\<close>

datatype proposal_kind = Treasury_receiver | Oracle_address

datatype mutation_route =
    Pause | Unpause_propose | Unpause_approve | Unpause_cancel
  | Claims_pause | Claims_unpause | Treasury_sweep | Oracle_disable
  | Propose proposal_kind | Approve proposal_kind | Execute proposal_kind | Cancel_expired proposal_kind

fun kind_category :: "proposal_kind \<Rightarrow> gov_category" where
  "kind_category Treasury_receiver = Cat_treasury_payout_receiver_update"
| "kind_category Oracle_address = Cat_oracle_update"

fun route_category :: "mutation_route \<Rightarrow> gov_category" where
  "route_category Pause = Cat_pause"
| "route_category Unpause_propose = Cat_unpause"
| "route_category Unpause_approve = Cat_unpause"
| "route_category Unpause_cancel = Cat_unpause"
| "route_category Claims_pause = Cat_claims_pause"
| "route_category Claims_unpause = Cat_claims_unpause"
| "route_category Treasury_sweep = Cat_treasury_sweep"
| "route_category Oracle_disable = Cat_oracle_disable_emergency"
| "route_category (Propose k) = kind_category k"
| "route_category (Approve k) = kind_category k"
| "route_category (Execute k) = kind_category k"
| "route_category (Cancel_expired k) = kind_category k"

fun route_method :: "mutation_route \<Rightarrow> string" where
  "route_method Pause = ''pause''"
| "route_method Unpause_propose = ''proposeUnpause''"
| "route_method Unpause_approve = ''approveUnpause''"
| "route_method Unpause_cancel = ''cancelUnpauseProposal''"
| "route_method Claims_pause = ''pauseClaims''"
| "route_method Claims_unpause = ''unpauseClaims''"
| "route_method Treasury_sweep = ''claimTreasury''"
| "route_method Oracle_disable = ''disableOracleEmergency''"
| "route_method (Propose Treasury_receiver) = ''proposeTreasuryPayoutAddressUpdate''"
| "route_method (Approve Treasury_receiver) = ''approveTreasuryPayoutAddressUpdate''"
| "route_method (Execute Treasury_receiver) = ''executeTreasuryPayoutAddressUpdate''"
| "route_method (Cancel_expired Treasury_receiver) = ''cancelExpiredTreasuryPayoutAddressUpdateProposal''"
| "route_method (Propose Oracle_address) = ''proposeOracleUpdate''"
| "route_method (Approve Oracle_address) = ''approveOracleUpdate''"
| "route_method (Execute Oracle_address) = ''executeOracleUpdate''"
| "route_method (Cancel_expired Oracle_address) = ''cancelExpiredOracleUpdateProposal''"

text \<open>The call of the mutation service at the end of every handler.\<close>

definition queue_route ::
  "gw_env \<Rightarrow> gateway_config \<Rightarrow> mutation_route \<Rightarrow> mutation_request \<Rightarrow> gw_principal \<Rightarrow> string \<Rightarrow>
   int option \<Rightarrow> string option \<Rightarrow> queue_accepted gw_eff" where
  "queue_route env cfg route req caller idempotencyKey proposalId targetAddress =
     bindE (lift (validateGovernanceAuditInput (mr_body req))) (\<lambda>audit.
       queueAction env (gx_queue cfg)
         \<lparr>qi_category = route_category route, qi_contractMethod = route_method route, qi_routePath = mr_path req,
          qi_proposalId = proposalId, qi_targetAddress = targetAddress, qi_tradeId = None, qi_audit = audit,
          qi_principal = caller, qi_requestId = mr_requestId req, qi_correlationId = mr_correlationId req,
          qi_idempotencyKey = idempotencyKey\<rparr>)"

definition refuse_if :: "bool \<Rightarrow> gw_error \<Rightarrow> unit gw_eff" where
  "refuse_if c e = (if c then throw e else ret ())"

definition about :: "int \<Rightarrow> (string \<times> string) list" where
  "about proposalId = [(''proposalId'', show_int proposalId)]"

fun kind_title :: "proposal_kind \<Rightarrow> string" where
  "kind_title Treasury_receiver = ''Treasury payout receiver proposal''"
| "kind_title Oracle_address = ''Oracle update proposal''"

fun approved_already :: "proposal_kind \<Rightarrow> string" where
  "approved_already Treasury_receiver = ''Caller has already approved this treasury payout receiver proposal''"
| "approved_already Oracle_address = ''Caller has already approved this oracle update proposal''"

fun address_field :: "proposal_kind \<Rightarrow> string" where
  "address_field Treasury_receiver = ''newPayoutReceiver''"
| "address_field Oracle_address = ''newOracleAddress''"

fun same_address :: "proposal_kind \<Rightarrow> string" where
  "same_address Treasury_receiver = ''New payout receiver matches the current treasury payout receiver''"
| "same_address Oracle_address = ''New oracle address matches the current oracle address''"

fun current_address :: "proposal_kind \<Rightarrow> governance_status \<Rightarrow> string" where
  "current_address Treasury_receiver s = gs_treasuryPayoutAddress s"
| "current_address Oracle_address s = gs_oracleAddress s"

fun kind_state :: "gw_env \<Rightarrow> proposal_kind \<Rightarrow> int \<Rightarrow> proposal_state option gw_eff" where
  "kind_state env Treasury_receiver i = getTreasuryPayoutReceiverProposalState env i"
| "kind_state env Oracle_address i = getOracleProposalState env i"

fun kind_hasApproved :: "gw_env \<Rightarrow> proposal_kind \<Rightarrow> int \<Rightarrow> string \<Rightarrow> bool gw_eff" where
  "kind_hasApproved env Treasury_receiver i wallet = hasApprovedTreasuryPayoutReceiverProposal env i wallet"
| "kind_hasApproved env Oracle_address i wallet = hasApprovedOracleProposal env i wallet"

definition path_proposal ::
  "gw_env \<Rightarrow> proposal_kind \<Rightarrow> mutation_request \<Rightarrow> (int \<times> proposal_state) gw_eff" where
  "path_proposal env kind req =
     bindE (lift (validateProposalId (mr_proposalId req))) (\<lambda>n.
     bindE (kind_state env kind (int n)) (\<lambda>found.
       case found of
         None \<Rightarrow> throw (Gateway_error 404 NOT_FOUND (kind_title kind @ '' not found'') (about (int n)))
       | Some p \<Rightarrow> ret (int n, p)))"

definition closed_proposal :: "proposal_state \<Rightarrow> bool" where
  "closed_proposal p \<longleftrightarrow> ps_executed p \<or> ps_cancelled p \<or> ps_expired p"

definition route_pause ::
  "gw_env \<Rightarrow> gateway_config \<Rightarrow> mutation_request \<Rightarrow> gw_principal \<Rightarrow> string \<Rightarrow> queue_accepted gw_eff" where
  "route_pause env cfg req caller key =
     bindE (getGovernanceStatus env [] []) (\<lambda>s.
     seqE (refuse_if (gs_paused s) (conflict ''Protocol is already paused'' []))
       (queue_route env cfg Pause req caller key None None))"

definition route_unpause_propose ::
  "gw_env \<Rightarrow> gateway_config \<Rightarrow> mutation_request \<Rightarrow> gw_principal \<Rightarrow> string \<Rightarrow> queue_accepted gw_eff" where
  "route_unpause_propose env cfg req caller key =
     bindE (getGovernanceStatus env [] []) (\<lambda>s.
     seqE (refuse_if (\<not> gs_paused s) (conflict ''Protocol must be paused before creating an unpause proposal'' []))
     (seqE (refuse_if (\<not> gs_oracleActive s) (conflict ''Oracle must be active before creating an unpause proposal'' []))
       (queue_route env cfg Unpause_propose req caller key None None)))"

definition route_unpause_approve ::
  "gw_env \<Rightarrow> gateway_config \<Rightarrow> mutation_request \<Rightarrow> gw_principal \<Rightarrow> string \<Rightarrow> queue_accepted gw_eff" where
  "route_unpause_approve env cfg req caller key =
     bindE (getUnpauseProposalState env) (\<lambda>p.
     seqE (refuse_if (\<not> us_hasActiveProposal p) (conflict ''No active unpause proposal is available to approve'' []))
     (bindE (hasApprovedUnpause env (gp_walletAddress caller)) (\<lambda>approved.
      seqE (refuse_if approved (conflict ''Caller has already approved the active unpause proposal'' []))
       (queue_route env cfg Unpause_approve req caller key None None))))"

definition route_unpause_cancel ::
  "gw_env \<Rightarrow> gateway_config \<Rightarrow> mutation_request \<Rightarrow> gw_principal \<Rightarrow> string \<Rightarrow> queue_accepted gw_eff" where
  "route_unpause_cancel env cfg req caller key =
     bindE (getUnpauseProposalState env) (\<lambda>p.
     seqE (refuse_if (\<not> us_hasActiveProposal p) (conflict ''No active unpause proposal is available to cancel'' []))
       (queue_route env cfg Unpause_cancel req caller key None None))"

definition route_claims_pause ::
  "gw_env \<Rightarrow> gateway_config \<Rightarrow> mutation_request \<Rightarrow> gw_principal \<Rightarrow> string \<Rightarrow> queue_accepted gw_eff" where
  "route_claims_pause env cfg req caller key =
     bindE (getGovernanceStatus env [] []) (\<lambda>s.
     seqE (refuse_if (gs_claimsPaused s) (conflict ''Claims are already paused'' []))
       (queue_route env cfg Claims_pause req caller key None None))"

definition route_claims_unpause ::
  "gw_env \<Rightarrow> gateway_config \<Rightarrow> mutation_request \<Rightarrow> gw_principal \<Rightarrow> string \<Rightarrow> queue_accepted gw_eff" where
  "route_claims_unpause env cfg req caller key =
     bindE (getGovernanceStatus env [] []) (\<lambda>s.
     seqE (refuse_if (\<not> gs_claimsPaused s) (conflict ''Claims are not currently paused'' []))
       (queue_route env cfg Claims_unpause req caller key None None))"

definition route_treasury_sweep ::
  "gw_env \<Rightarrow> gateway_config \<Rightarrow> mutation_request \<Rightarrow> gw_principal \<Rightarrow> string \<Rightarrow> queue_accepted gw_eff" where
  "route_treasury_sweep env cfg req caller key =
     bindE (getGovernanceStatus env [] []) (\<lambda>s.
     seqE (refuse_if (gs_claimsPaused s) (conflict ''Treasury sweep is unavailable while claims are paused'' []))
     (bindE (getTreasuryClaimableBalance env) (\<lambda>claimableBalance.
      seqE (refuse_if (claimableBalance \<le> 0) (conflict ''Treasury claimable balance is zero'' []))
       (queue_route env cfg Treasury_sweep req caller key None None))))"

definition route_oracle_disable ::
  "gw_env \<Rightarrow> gateway_config \<Rightarrow> mutation_request \<Rightarrow> gw_principal \<Rightarrow> string \<Rightarrow> queue_accepted gw_eff" where
  "route_oracle_disable env cfg req caller key =
     bindE (getGovernanceStatus env [] []) (\<lambda>s.
     seqE (refuse_if (\<not> gs_oracleActive s) (conflict ''Oracle is already disabled'' []))
       (queue_route env cfg Oracle_disable req caller key None (Some (gs_oracleAddress s))))"

definition route_propose :: "proposal_kind \<Rightarrow> gw_env \<Rightarrow> gateway_config \<Rightarrow> mutation_request \<Rightarrow> gw_principal \<Rightarrow> string \<Rightarrow> queue_accepted gw_eff" where
  "route_propose kind env cfg req caller key =
     bindE (getGovernanceStatus env [] []) (\<lambda>s.
     bindE (lift (validateAddressInput (gv_isAddress env) (gv_zeroAddress env)
              (json_get (address_field kind) (mr_body req)) (address_field kind))) (\<lambda>newAddress.
     seqE (refuse_if (to_lower newAddress = to_lower (current_address kind s)) (conflict (same_address kind) []))
       (queue_route env cfg (Propose kind) req caller key None (Some newAddress))))"

definition route_approve :: "proposal_kind \<Rightarrow> gw_env \<Rightarrow> gateway_config \<Rightarrow> mutation_request \<Rightarrow> gw_principal \<Rightarrow> string \<Rightarrow> queue_accepted gw_eff" where
  "route_approve kind env cfg req caller key =
     bindE (path_proposal env kind req) (\<lambda>(i, p).
     seqE (refuse_if (closed_proposal p) (conflict (kind_title kind @ '' is no longer approvable'') (about i)))
     (bindE (kind_hasApproved env kind i (gp_walletAddress caller)) (\<lambda>approved.
      seqE (refuse_if approved (conflict (approved_already kind) (about i)))
       (queue_route env cfg (Approve kind) req caller key (Some i) (Some (ps_targetAddress p))))))"

definition route_execute :: "proposal_kind \<Rightarrow> gw_env \<Rightarrow> gateway_config \<Rightarrow> mutation_request \<Rightarrow> gw_principal \<Rightarrow> string \<Rightarrow> queue_accepted gw_eff" where
  "route_execute kind env cfg req caller key =
     bindE (path_proposal env kind req) (\<lambda>(i, p).
     seqE (refuse_if (closed_proposal p) (conflict (kind_title kind @ '' is not executable'') (about i)))
     (bindE (getGovernanceStatus env [] []) (\<lambda>s.
      seqE (refuse_if (ps_approvalCount p < gs_governanceApprovalsRequired s)
             (conflict (kind_title kind @ '' does not have enough approvals'') (about i)))
      (bindE (date_iso env) (\<lambda>now.
       seqE (refuse_if (ps_etaSeconds p > now div 1000)
              (conflict (kind_title kind @ '' timelock has not elapsed'') (about i)))
        (queue_route env cfg (Execute kind) req caller key (Some i) (Some (ps_targetAddress p))))))))"

definition route_cancel_expired :: "proposal_kind \<Rightarrow> gw_env \<Rightarrow> gateway_config \<Rightarrow> mutation_request \<Rightarrow> gw_principal \<Rightarrow> string \<Rightarrow> queue_accepted gw_eff" where
  "route_cancel_expired kind env cfg req caller key =
     bindE (path_proposal env kind req) (\<lambda>(i, p).
     seqE (refuse_if (ps_executed p \<or> ps_cancelled p \<or> \<not> ps_expired p)
            (conflict (kind_title kind @ '' is not cancellable as expired'') (about i)))
       (queue_route env cfg (Cancel_expired kind) req caller key (Some i) (Some (ps_targetAddress p))))"

definition payout_receiver_propose ::
  "gw_env \<Rightarrow> gateway_config \<Rightarrow> mutation_request \<Rightarrow> gw_principal \<Rightarrow> string \<Rightarrow> queue_accepted gw_eff" where
  "payout_receiver_propose = route_propose Treasury_receiver"

definition payout_receiver_approve ::
  "gw_env \<Rightarrow> gateway_config \<Rightarrow> mutation_request \<Rightarrow> gw_principal \<Rightarrow> string \<Rightarrow> queue_accepted gw_eff" where
  "payout_receiver_approve = route_approve Treasury_receiver"

definition payout_receiver_execute ::
  "gw_env \<Rightarrow> gateway_config \<Rightarrow> mutation_request \<Rightarrow> gw_principal \<Rightarrow> string \<Rightarrow> queue_accepted gw_eff" where
  "payout_receiver_execute = route_execute Treasury_receiver"

definition payout_receiver_cancel_expired ::
  "gw_env \<Rightarrow> gateway_config \<Rightarrow> mutation_request \<Rightarrow> gw_principal \<Rightarrow> string \<Rightarrow> queue_accepted gw_eff" where
  "payout_receiver_cancel_expired = route_cancel_expired Treasury_receiver"

definition oracle_update_propose ::
  "gw_env \<Rightarrow> gateway_config \<Rightarrow> mutation_request \<Rightarrow> gw_principal \<Rightarrow> string \<Rightarrow> queue_accepted gw_eff" where
  "oracle_update_propose = route_propose Oracle_address"

definition oracle_update_approve ::
  "gw_env \<Rightarrow> gateway_config \<Rightarrow> mutation_request \<Rightarrow> gw_principal \<Rightarrow> string \<Rightarrow> queue_accepted gw_eff" where
  "oracle_update_approve = route_approve Oracle_address"

definition oracle_update_execute ::
  "gw_env \<Rightarrow> gateway_config \<Rightarrow> mutation_request \<Rightarrow> gw_principal \<Rightarrow> string \<Rightarrow> queue_accepted gw_eff" where
  "oracle_update_execute = route_execute Oracle_address"

definition oracle_update_cancel_expired ::
  "gw_env \<Rightarrow> gateway_config \<Rightarrow> mutation_request \<Rightarrow> gw_principal \<Rightarrow> string \<Rightarrow> queue_accepted gw_eff" where
  "oracle_update_cancel_expired = route_cancel_expired Oracle_address"

fun route_handler ::
  "gw_env \<Rightarrow> gateway_config \<Rightarrow> mutation_route \<Rightarrow> mutation_request \<Rightarrow> gw_principal \<Rightarrow> string \<Rightarrow> queue_accepted gw_eff" where
  "route_handler env cfg Pause = route_pause env cfg"
| "route_handler env cfg Unpause_propose = route_unpause_propose env cfg"
| "route_handler env cfg Unpause_approve = route_unpause_approve env cfg"
| "route_handler env cfg Unpause_cancel = route_unpause_cancel env cfg"
| "route_handler env cfg Claims_pause = route_claims_pause env cfg"
| "route_handler env cfg Claims_unpause = route_claims_unpause env cfg"
| "route_handler env cfg Treasury_sweep = route_treasury_sweep env cfg"
| "route_handler env cfg Oracle_disable = route_oracle_disable env cfg"
| "route_handler env cfg (Propose Treasury_receiver) = payout_receiver_propose env cfg"
| "route_handler env cfg (Approve Treasury_receiver) = payout_receiver_approve env cfg"
| "route_handler env cfg (Execute Treasury_receiver) = payout_receiver_execute env cfg"
| "route_handler env cfg (Cancel_expired Treasury_receiver) = payout_receiver_cancel_expired env cfg"
| "route_handler env cfg (Propose Oracle_address) = oracle_update_propose env cfg"
| "route_handler env cfg (Approve Oracle_address) = oracle_update_approve env cfg"
| "route_handler env cfg (Execute Oracle_address) = oracle_update_execute env cfg"
| "route_handler env cfg (Cancel_expired Oracle_address) = oracle_update_cancel_expired env cfg"

lemmas route_defs =
  route_pause_def route_unpause_propose_def route_unpause_approve_def route_unpause_cancel_def
  route_claims_pause_def route_claims_unpause_def route_treasury_sweep_def route_oracle_disable_def
  route_propose_def route_approve_def route_execute_def route_cancel_expired_def

text \<open>The eight routes of the proposals, by their kind.\<close>

lemma route_handler_kinds:
  "route_handler env cfg (Propose kind) = route_propose kind env cfg"
  "route_handler env cfg (Approve kind) = route_approve kind env cfg"
  "route_handler env cfg (Execute kind) = route_execute kind env cfg"
  "route_handler env cfg (Cancel_expired kind) = route_cancel_expired kind env cfg"
  by (cases kind; simp add: payout_receiver_propose_def payout_receiver_approve_def payout_receiver_execute_def
      payout_receiver_cancel_expired_def oracle_update_propose_def oracle_update_approve_def
      oracle_update_execute_def oracle_update_cancel_expired_def)+

lemmas route_handler_parts = route_handler.simps(1-8) route_handler_kinds route_defs

text \<open>A request through the middlewares; an error on the way is answered by the error handler.\<close>

definition serve_mutation ::
  "gw_env \<Rightarrow> gateway_config \<Rightarrow> mutation_route \<Rightarrow> mutation_request \<Rightarrow> mutation_response gw_eff" where
  "serve_mutation env cfg route req =
     catchE
       (bindE (authenticate env cfg req) (\<lambda>p.
        seqE (lift (requireMutationWriteAccess p))
          (idempotency env req (\<lambda>key. route_handler env cfg route req (gp_caller p) key))))
       (error_response env req)"

end
