(* ===== verification/Gov_System.thy ===== *)
theory Gov_System imports Main Gov_Refine Gov_Routes begin

text \<open>
  Exactly when an execution makes its administration call, and what it leaves behind when the
  database fails after the call.
  Then the system: any sequence of requests.
\<close>

section \<open>Exactly when a call is made\<close>

lemma retired_calls: "retired env x S w w' \<Longrightarrow> gw_calls w' = gw_calls w"
  unfolding retired_def by (auto simp: emits_def gov_tabs_def)

lemma still_calls: "still w w' \<Longrightarrow> gw_calls w' = gw_calls w"
  by (simp add: still_rows)

text \<open>What \<open>execute_signed\<close> does after the call: one of three saves.\<close>

lemma execute_signed_split:
  assumes "gv_db env (gw_tick w) = None" "sdk_call_of x = Inr c"
  obtains w1 where "gw_tick w1 = gw_tick w + 2" "gw_actions w1 = gw_actions w"
    "gw_calls w1 = gw_calls w @ [(gc_actionId x, c)]"
    "(\<exists>e. execute_signed env x rid cid wallet w = persistExecutionTimeout env x rid cid (Some wallet) e w1) \<or>
     (\<exists>e. execute_signed env x rid cid wallet w = persistFailure env x rid cid (Some wallet) e w1) \<or>
     (\<exists>r. execute_signed env x rid cid wallet w = record_success env x rid cid wallet r w1)"
proof -
  let ?e = "executor_entry ''governance.action.execution.started'' rid cid (Some wallet) ''started''
             [(''actionId'', gc_actionId x), (''category'', category_name (gc_category x)),
              (''contractMethod'', gc_contractMethod x)]"
  let ?w = "(gtick w)\<lparr>gw_audit := gw_audit w @ [?e]\<rparr>"
  let ?w1 = "gtick (?w\<lparr>gw_calls := gw_calls ?w @ [(gc_actionId x, c)]\<rparr>)"
  obtain out where out: "chain_execute env x ?w = (out, ?w1)" using chain_execute_calls [OF assms(2), of env ?w] by blast
  have s: "execute_signed env x rid cid wallet w =
      (case out of
         Inl e \<Rightarrow> (if isTimeoutError e then persistExecutionTimeout env x rid cid (Some wallet) e
                 else persistFailure env x rid cid (Some wallet) e) ?w1
       | Inr r \<Rightarrow> record_success env x rid cid wallet r ?w1)"
    using assms(1) out
    by (simp add: execute_signed_def appendAudit_def insertAuditLog_app seqE_app bindE_app attempted_def split: sum.splits)
  show thesis
  proof (rule that [of ?w1])
    show "gw_tick ?w1 = gw_tick w + 2" "gw_actions ?w1 = gw_actions w"
      "gw_calls ?w1 = gw_calls w @ [(gc_actionId x, c)]" by simp_all
    show "(\<exists>e. execute_signed env x rid cid wallet w = persistExecutionTimeout env x rid cid (Some wallet) e ?w1) \<or>
     (\<exists>e. execute_signed env x rid cid wallet w = persistFailure env x rid cid (Some wallet) e ?w1) \<or>
     (\<exists>r. execute_signed env x rid cid wallet w = record_success env x rid cid wallet r ?w1)"
    proof (cases out)
      case (Inl e)
      then show ?thesis unfolding s by (cases "isTimeoutError e") auto
    next
      case (Inr r)
      then show ?thesis unfolding s by auto
    qed
  qed
qed

text \<open>Where the call is not allowed, none is made.\<close>

lemma executes_call_cases:
  assumes "executes env x al w w'"
  shows "gw_calls w' = gw_calls w \<or>
    (al \<and> (\<exists>c. sdk_call_of x = Inr c \<and> gw_calls w' = gw_calls w @ [(gc_actionId x, c)]))"
proof -
  from assms obtain remarks calls saves where e: "list_all is_note remarks" "emits w (remarks @ calls @ saves) w'"
    "saves = [] \<or> (\<exists>a e. saves = [Saved a e])"
    "calls = [] \<or> al \<and> (\<exists>c. sdk_call_of x = Inr c \<and> calls = [Called (gc_actionId x) c])"
    unfolding executes_def execution_events_def by blast
  obtain log where "fold gov_did remarks (gov_tabs w) = (gw_actions w, log, gw_calls w)"
    using remarks_tables [OF e(1), of "gw_actions w" "gw_audit w" "gw_calls w"] by (auto simp: gov_tabs_def)
  with e(2) have t: "gov_tabs w' = fold gov_did saves (fold gov_did calls (gw_actions w, log, gw_calls w))"
    by (simp add: emits_def)
  have s: "snd (snd (fold gov_did saves (r, l, c))) = c" for r l c using e(3) by auto
  have "gw_calls w' = snd (snd (fold gov_did calls (gw_actions w, log, gw_calls w)))"
    using arg_cong [OF t, of "\<lambda>x. snd (snd x)"] s
    by (cases "fold gov_did calls (gw_actions w, log, gw_calls w)") (simp add: gov_tabs_def)
  with e(4) show ?thesis by auto
qed

lemma executes_calls: "executes env x False w w' \<Longrightarrow> gw_calls w' = gw_calls w"
  using executes_call_cases by blast

lemma executes_no_call:
  assumes "sdk_call_of x = Inl e" "executes env x al w w'"
  shows "executes env x False w w'"
  using assms unfolding executes_def execution_events_def by auto

lemma execute_signed_no_call:
  "sdk_call_of x = Inl e \<Longrightarrow> executes env x False w (state_of (execute_signed env x rid cid wallet w))"
  using executes_no_call [OF _ execute_signed_executes [OF TrueI]] .

lemma execute_signed_calls:
  assumes "gv_db env (gw_tick w) = None"
  shows "gw_calls (state_of (execute_signed env x rid cid wallet w)) =
    gw_calls w @ (case sdk_call_of x of Inl _ \<Rightarrow> [] | Inr c \<Rightarrow> [(gc_actionId x, c)])"
proof (cases "sdk_call_of x")
  case (Inl e)
  have "executes env x False w (state_of (execute_signed env x rid cid wallet w))"
    using execute_signed_no_call [OF Inl] .
  then show ?thesis using Inl by (simp add: executes_calls)
next
  case (Inr c)
  from assms Inr show ?thesis
  proof (cases rule: execute_signed_split [of env w x c rid cid wallet])
    case (1 w1)
    from 1(4) show ?thesis
    proof (elim disjE exE)
      fix r assume "execute_signed env x rid cid wallet w = record_success env x rid cid wallet r w1"
      with retired_calls [OF record_success_retired [OF Inr, of env w1 rid cid wallet r]] 1 Inr show ?thesis by simp
    qed (use retired_calls [OF persistExecutionTimeout_retired] retired_calls [OF persistFailure_retired] 1 Inr in simp_all)
  qed
qed

text \<open>The condition of a call: the request is not expired, and an approval has an approver who signs.\<close>

definition call_due :: "gw_env \<Rightarrow> gov_action \<Rightarrow> nat \<Rightarrow> bool" where
  "call_due env x t \<longleftrightarrow>
     gc_status x = Gov_requested \<and> call_allowed env x t \<and>
     \<not> (isApprovalGovernanceContractMethod (gc_contractMethod x) \<and>
        normalizeWalletAddress (ga_actorWallet (gc_audit x)) = [])"

definition calls_of :: "gov_action \<Rightarrow> (string \<times> sdk_call) list" where
  "calls_of x = (case sdk_call_of x of Inl _ \<Rightarrow> [] | Inr c \<Rightarrow> [(gc_actionId x, c)])"

lemma check_signer_signed:
  "check_signer env x rid cid wallet =
     (if signer_allows x (Resolves wallet) \<and> \<not> (isApprovalGovernanceContractMethod (gc_contractMethod x) \<and>
          normalizeWalletAddress (ga_actorWallet (gc_audit x)) = [])
      then execute_signed env x rid cid wallet
      else if normalizeWalletAddress (ga_actorWallet (gc_audit x)) = []
      then throw (internal_error ''Queued approval action is missing the approver wallet'')
      else signer_mismatch env x rid cid wallet)"
  by (simp add: check_signer_def signer_allows_def Let_def)

lemma signer_mismatch_calls: "gw_calls (state_of (signer_mismatch env x rid cid wallet w)) = gw_calls w"
  using executes_calls [of env undefined] by (simp add: signer_mismatch_def appendAudit_executes)

lemma execute_locked_app:
  assumes "gv_db env (gw_tick w) = None" "row_by gc_actionId k (gw_actions w) = Some x" "gc_status x = Gov_requested"
  shows "execute_locked env fmt k rid cid w =
    (if isExpiredRequestedGovernanceAction x (gv_now env (Suc (gw_tick w)))
     then persistStale env fmt x rid cid else execute_requested env x rid cid) (gtick (gtick w))"
  using assms by (simp add: execute_locked_def bindE_app store_get_app date_iso_app)

lemma executeAction_calls_locked:
  assumes "gv_db env (gw_tick w) = None" "gv_db env (Suc (gw_tick w)) = None"
  shows "gw_calls (state_of (executeAction env fmt k rid cid w)) =
      gw_calls (state_of (execute_locked env fmt k rid cid (gtick (gtick w))))"
    and "gw_actions (state_of (executeAction env fmt k rid cid w)) =
      gw_actions (state_of (execute_locked env fmt k rid cid (gtick (gtick w))))"
  using assms still_rows [OF finally_command_still [of "seqE (command env) (execute_locked env fmt k rid cid)" "gtick w" env]]
  by (simp_all add: executeAction_def runExclusive_def seqE_app command_app)

lemma execute_requested_calls:
  assumes "gw_up env" "gc_status x = Gov_requested" "\<not> isExpiredRequestedGovernanceAction x (gv_now env (gw_tick w - 1))"
    and "0 < gw_tick w"
  shows "gw_calls (state_of (execute_requested env x rid cid w)) =
    gw_calls w @ (if call_due env x (gw_tick w - 1) then calls_of x else [])"
proof (cases "gv_signer env (gw_tick w)")
  case (Resolves wallet)
  then have "execute_requested env x rid cid w = check_signer env x rid cid wallet (gtick w)"
    by (simp add: execute_requested_def bindE_app attempted_def withTimeout_def)
  with Resolves assms show ?thesis
    using execute_signed_calls [of env "gtick w" x rid cid wallet] signer_mismatch_calls [of env x rid cid wallet "gtick w"]
    by (simp add: check_signer_signed call_due_def call_allowed_def calls_of_def gw_up_def throw_app)
next
  case (Rejects e)
  then have "state_of (execute_requested env x rid cid w) = state_of (persistFailure env x rid cid None e (gtick w))"
    by (simp add: execute_requested_def bindE_app attempted_def withTimeout_def)
  with retired_calls [OF persistFailure_retired [of env x "gtick w"]] Rejects assms show ?thesis
    by (simp add: call_due_def call_allowed_def signer_allows_def)
next
  case Pending
  then obtain e where "state_of (execute_requested env x rid cid w) = state_of (persistFailure env x rid cid None e (gtick w))"
    by (auto simp: execute_requested_def bindE_app attempted_def withTimeout_def)
  with retired_calls [OF persistFailure_retired [of env x "gtick w"]] Pending assms show ?thesis
    by (simp add: call_due_def call_allowed_def signer_allows_def)
qed

lemma execute_calls:
  assumes up: "gw_up env" and x: "row_by gc_actionId k (gw_actions w) = Some x"
  shows "gw_calls (state_of (executeAction env fmt k rid cid w)) =
    gw_calls w @ (if call_due env x (gw_tick w + 3) then calls_of x else [])"
proof -
  have db: "gv_db env n = None" for n using up by (simp add: gw_up_def)
  let ?w = "gtick (gtick w)"
  have l: "gw_calls (state_of (executeAction env fmt k rid cid w)) = gw_calls (state_of (execute_locked env fmt k rid cid ?w))"
    by (rule executeAction_calls_locked) (rule db)+
  show ?thesis
  proof (cases "gc_status x = Gov_requested")
    case False
    then have "state_of (execute_locked env fmt k rid cid ?w) = gtick ?w"
      using x db by (simp add: execute_locked_def bindE_app store_get_app ret_app)
    with False show ?thesis unfolding l by (simp add: call_due_def)
  next
    case True
    have e: "execute_locked env fmt k rid cid ?w =
      (if isExpiredRequestedGovernanceAction x (gv_now env (gw_tick w + 3))
       then persistStale env fmt x rid cid else execute_requested env x rid cid) (gtick (gtick ?w))"
      using execute_locked_app [of env ?w k x fmt rid cid] x True db by (simp add: numeral_3_eq_3)
    show ?thesis
    proof (cases "isExpiredRequestedGovernanceAction x (gv_now env (gw_tick w + 3))")
      case True
      with retired_calls [OF persistStale_retired [of env x "gtick (gtick ?w)" fmt rid cid]] show ?thesis
        unfolding l e by (simp add: call_due_def call_allowed_def)
    next
      case False
      with execute_requested_calls [of env x "gtick (gtick ?w)" rid cid] up True show ?thesis
        unfolding l e by (simp add: numeral_3_eq_3)
    qed
  qed
qed

section \<open>A lost save\<close>

lemma save_down:
  "gv_db env (gw_tick w) = Some m \<Longrightarrow> saveActionWithAudit env a e w = (Inl (Other_error m), gtick w)"
  by (simp add: saveActionWithAudit_def transaction_def seqE_app bindE_app command_app)

lemma record_success_down:
  assumes "\<And>n. gw_tick w \<le> n \<Longrightarrow> gv_db env n \<noteq> None" "sdk_call_of x = Inr c"
  shows "gw_actions (state_of (record_success env x rid cid wallet r w)) = gw_actions w"
proof -
  obtain p w1 where p: "persistExecution env x r w = (Inr p, w1)"
    using persistExecution_returns [OF assms(2)] by blast
  from persistExecution_retires [OF p] have "still w w1" by simp
  moreover have "gw_tick w \<le> gw_tick w1"
  proof -
    have "keeps (late n None) (persistExecution env x r)" for n
      unfolding persistExecution_def final_status_def resolvePostExecutionStatus_def resolveUnpauseApprovalStatus_def Let_def
      by (intro keeps_rules)
    from keepsD [OF this, of "gw_tick w" w] p show ?thesis by (simp add: late_def)
  qed
  moreover obtain m where "gv_db env (gw_tick w1) = Some m" using assms(1) [OF calculation(2)] by blast
  ultimately show ?thesis
    using p still_rows [of w w1] by (simp add: record_success_def bindE_app catchE_app throw_app save_down)
qed

lemma execute_signed_down:
  assumes db: "gv_db env (gw_tick w) = None" "\<And>n. gw_tick w + 2 \<le> n \<Longrightarrow> gv_db env n \<noteq> None"
    and c: "sdk_call_of x = Inr c"
  shows "gw_actions (state_of (execute_signed env x rid cid wallet w)) = gw_actions w"
  using db(1) c
proof (cases rule: execute_signed_split [of env w x c rid cid wallet])
  case (1 w1)
  have down: "\<And>n. gw_tick w1 \<le> n \<Longrightarrow> gv_db env n \<noteq> None" using db(2) 1(1) by simp
  from down [of "gw_tick (gtick w1)"] obtain m where d: "gv_db env (gw_tick (gtick w1)) = Some m" by auto
  from 1(4) show ?thesis
  proof (elim disjE exE)
    fix r assume "execute_signed env x rid cid wallet w = record_success env x rid cid wallet r w1"
    moreover have "gw_actions (state_of (record_success env x rid cid wallet r w1)) = gw_actions w1"
      using down c by (rule record_success_down)
    ultimately show ?thesis using 1(2) by simp
  qed (use save_down [OF d] 1(2) in \<open>simp_all add: persistExecutionTimeout_def persistFailure_def bindE_app date_iso_app\<close>)
qed


lemma unsaved_execution:
  assumes db: "\<And>n. n < gw_tick w + 6 \<Longrightarrow> gv_db env n = None" "\<And>n. gw_tick w + 7 \<le> n \<Longrightarrow> gv_db env n \<noteq> None"
    and x: "row_by gc_actionId k (gw_actions w) = Some x" "call_due env x (gw_tick w + 3)" "sdk_call_of x = Inr c"
  shows "gw_calls (state_of (executeAction env fmt k rid cid w)) = gw_calls w @ [(gc_actionId x, c)]"
    and "gw_actions (state_of (executeAction env fmt k rid cid w)) = gw_actions w"
proof -
  let ?w = "gtick (gtick w)" and ?v = "gtick (gtick (gtick (gtick w)))"
  from x(2) have req: "gc_status x = Gov_requested" "\<not> isExpiredRequestedGovernanceAction x (gv_now env (gw_tick w + 3))"
    and sg: "signer_allows x (gv_signer env (gw_tick w + 4))"
    and wal: "\<not> (isApprovalGovernanceContractMethod (gc_contractMethod x) \<and>
        normalizeWalletAddress (ga_actorWallet (gc_audit x)) = [])"
    by (auto simp: call_due_def call_allowed_def add.commute [of "gw_tick w" 4])
  from sg obtain wallet where wallet: "gv_signer env (gw_tick w + 4) = Resolves wallet"
    by (auto simp: signer_allows_def split: promise.splits)
  have l: "execute_locked env fmt k rid cid ?w = execute_requested env x rid cid ?v"
    using execute_locked_app [of env ?w k x fmt rid cid] x(1) req db(1) by (simp add: numeral_3_eq_3)
  have r: "execute_requested env x rid cid ?v = execute_signed env x rid cid wallet (gtick ?v)"
    using wallet sg wal
    by (simp add: execute_requested_def bindE_app attempted_def withTimeout_def check_signer_signed eval_nat_numeral)
  have d: "gv_db env (gw_tick (gtick ?v)) = None" by (rule db(1)) simp
  have up: "gv_db env (gw_tick w) = None" "gv_db env (Suc (gw_tick w)) = None" by (intro db(1); simp)+
  show "gw_calls (state_of (executeAction env fmt k rid cid w)) = gw_calls w @ [(gc_actionId x, c)]"
    using execute_signed_calls [OF d, of x rid cid wallet] x(3) unfolding executeAction_calls_locked [OF up] l r by simp
  show "gw_actions (state_of (executeAction env fmt k rid cid w)) = gw_actions w"
  proof -
    have "gw_actions (state_of (execute_signed env x rid cid wallet (gtick ?v))) = gw_actions (gtick ?v)"
      by (rule execute_signed_down [OF d _ x(3)]) (rule db(2), simp)
    then show ?thesis unfolding executeAction_calls_locked [OF up] l r by simp
  qed
qed

section \<open>The system\<close>

text \<open>
  The governance queue as a whole: mutation requests over HTTP, executions and cleanups, one after
  the other, and the refinement of the abstract queue by all of them.
\<close>

datatype gov_request =
    Rq_mutation gateway_config mutation_route mutation_request
  | Rq_execute string string "string option"
  | Rq_cleanup nat

fun gov_op :: "gw_env \<Rightarrow> (int \<Rightarrow> string) \<Rightarrow> gov_request \<Rightarrow> gw_world \<Rightarrow> gw_world" where
  "gov_op env fmt (Rq_mutation cfg route req) w = state_of (serve_mutation env cfg route req w)"
| "gov_op env fmt (Rq_execute k rid cid) w = state_of (executeAction env fmt k rid cid w)"
| "gov_op env fmt (Rq_cleanup limit) w =
     state_of (bindE (date_iso env) (\<lambda>now. cleanup_apply env fmt now limit) w)"

definition gov_ops :: "gw_env \<Rightarrow> (int \<Rightarrow> string) \<Rightarrow> gov_request list \<Rightarrow> gw_world \<Rightarrow> gw_world" where
  "gov_ops env fmt ops w = fold (gov_op env fmt) ops w"

section \<open>Refinement along a method body\<close>

named_theorems refining_rules "rules that split a refinement goal along a method body"

definition refining :: "gw_env \<Rightarrow> 'a gw_eff \<Rightarrow> bool" where
  "refining env m \<longleftrightarrow> (\<forall>w. ids_used env (gw_tick w) (gw_actions w) \<longrightarrow> refines env w (state_of (m w)))"

lemma refiningD: "refining env m \<Longrightarrow> ids_used env (gw_tick w) (gw_actions w) \<Longrightarrow> refines env w (state_of (m w))"
  by (simp add: refining_def)

lemma refines_ids: "refines env w w' \<Longrightarrow> ids_used env (gw_tick w') (gw_actions w')"
  by (simp add: refines_def)

lemma refining_quiet:
  assumes "sound_env env" "\<And>P. keeps (on_gov P) m" "\<And>n. keeps (late n None) m"
  shows "refining env m"
  unfolding refining_def
proof (intro allI impI)
  fix w :: gw_world assume ids: "ids_used env (gw_tick w) (gw_actions w)"
  have "gw_tick w \<le> gw_tick (state_of (m w))"
    using keepsD [OF assms(3) [of "gw_tick w"], of w] by (simp add: late_def)
  then show "refines env w (state_of (m w))"
    by (rule refines_still [OF assms(1) ids _ still_of_keeps]) (rule assms(2))
qed

lemma refining_bind [refining_rules]:
  assumes "refining env m" "\<And>x. refining env (f x)"
  shows "refining env (bindE m f)"
  unfolding refining_def
proof (intro allI impI)
  fix w :: gw_world assume "ids_used env (gw_tick w) (gw_actions w)"
  from refiningD [OF assms(1) this] have one: "refines env w (state_of (m w))" .
  obtain r w1 where m: "m w = (r, w1)" by (cases "m w")
  with one have r1: "refines env w w1" by simp
  show "refines env w (state_of (bindE m f w))"
  proof (cases r)
    case (Inl e)
    with m r1 show ?thesis by (simp add: bindE_app)
  next
    case (Inr x)
    from refines_trans [OF r1 refiningD [OF assms(2) refines_ids [OF r1]]] m Inr show ?thesis
      by (simp add: bindE_app)
  qed
qed

lemma refining_seq [refining_rules]: "refining env m \<Longrightarrow> refining env n \<Longrightarrow> refining env (seqE m n)"
  unfolding seqE_def by (rule refining_bind)

lemma refining_catch [refining_rules]:
  assumes "refining env m" "\<And>e. refining env (h e)"
  shows "refining env (catchE m h)"
  unfolding refining_def
proof (intro allI impI)
  fix w :: gw_world assume "ids_used env (gw_tick w) (gw_actions w)"
  from refiningD [OF assms(1) this] have one: "refines env w (state_of (m w))" .
  obtain r w1 where m: "m w = (r, w1)" by (cases "m w")
  with one have r1: "refines env w w1" by simp
  show "refines env w (state_of (catchE m h w))"
  proof (cases r)
    case (Inl e)
    from refines_trans [OF r1 refiningD [OF assms(2) refines_ids [OF r1]]] m Inl show ?thesis
      by (simp add: catchE_app)
  next
    case (Inr x)
    with m r1 show ?thesis by (simp add: catchE_app)
  qed
qed

lemma refining_cases [refining_rules]:
  "(b \<Longrightarrow> refining env m) \<Longrightarrow> (\<not> b \<Longrightarrow> refining env n) \<Longrightarrow> refining env (if b then m else n)"
  "refining env m' \<Longrightarrow> (\<And>y. refining env (f y)) \<Longrightarrow> refining env (case z of None \<Rightarrow> m' | Some y \<Rightarrow> f y)"
  "(\<And>a b. refining env (g a b)) \<Longrightarrow> refining env (case p of (a, b) \<Rightarrow> g a b)"
  by (simp_all split: option.splits prod.splits)

text \<open>The reads and the statements on the table of keys.\<close>

lemma key_statement:
  assumes "\<And>w. gw_tick (snd (stmt w)) = gw_tick w" "\<And>P w. on_gov P w \<Longrightarrow> on_gov P (snd (stmt w))"
  shows "keeps (late n None) (gquery env stmt)" "keeps (on_gov P) (gquery env stmt)"
proof -
  show "keeps (late n None) (gquery env stmt)"
  proof (rule keepsI)
    fix w assume "late n None w"
    with assms(1) [of "gtick w"] show "late n None (state_of (gquery env stmt w))"
      by (auto simp: gquery_def late_def case_prod_beta split: option.splits)
  qed
  show "keeps (on_gov P) (gquery env stmt)" using assms(2) by (rule keeps_gquery)
qed

lemma key_statements [keeps_rules]:
  "keeps (late n None) (createPending env e)" "keeps (on_gov P) (createPending env e)"
  "keeps (late n None) (complete_key env key s b)" "keeps (on_gov P) (complete_key env key s b)"
  "keeps (late n None) (releasePending env key)" "keeps (on_gov P) (releasePending env key)"
  unfolding createPending_def complete_key_def releasePending_def idempotency_get_def
  by (intro keeps_rules key_statement; simp add: on_gov_def split: prod.splits)+

lemma still_command_keeps [keeps_rules]: "keeps (on_gov P) (command env)"
  unfolding command_def by (rule keeps_gquery_read)

lemma kind_reads [keeps_rules]:
  "keeps (late n None) (kind_state env kind i)" "keeps (on_gov P) (kind_state env kind i)"
  "keeps (late n None) (kind_hasApproved env kind i a)" "keeps (on_gov P) (kind_hasApproved env kind i a)"
  by (cases kind; simp only: kind_state.simps kind_hasApproved.simps; intro keeps_rules)+

lemma quiet_parts [keeps_rules]:
  "keeps (late n None) (authenticate env cfg req)" "keeps (on_gov P) (authenticate env cfg req)"
  "keeps (late n None) (error_response env req e)" "keeps (on_gov P) (error_response env req e)"
  "keeps (late n None) (finish env key r)" "keeps (on_gov P) (finish env key r)"
  "keeps (late n None) (path_proposal env kind req)" "keeps (on_gov P) (path_proposal env kind req)"
  "keeps (late n None) (markReplay env key)" "keeps (on_gov P) (markReplay env key)"
  "keeps (late n None) (refuse_if c e)" "keeps (on_gov P) (refuse_if c e)"
  unfolding authenticate_def error_response_def finish_def path_proposal_def markReplay_def refuse_if_def
  by (intro keeps_rules)+

section \<open>The routes\<close>

lemma refining_queue: "sound_env env \<Longrightarrow> refining env (queueAction env cfg input)"
  by (simp add: refining_def queue_refines)

lemma refining_queue_route: "sound_env env \<Longrightarrow> refining env (queue_route env cfg route req caller key i a)"
  unfolding queue_route_def by (intro refining_rules refining_queue refining_quiet keeps_rules)

lemma refining_handler: "sound_env env \<Longrightarrow> refining env (route_handler env cfg route req caller key)"
  by (cases route; simp only: route_handler_parts)
     (intro refining_rules refining_queue_route refining_quiet keeps_rules; assumption)+

lemma refining_serve: "sound_env env \<Longrightarrow> refining env (serve_mutation env cfg route req)"
  unfolding serve_mutation_def idempotency_def answered_def Let_def
  by (intro refining_rules refining_handler) ((intro refining_quiet keeps_rules)?; assumption)+

lemma gov_op_refines:
  assumes "sound_env env" "ids_used env (gw_tick w) (gw_actions w)"
  shows "refines env w (gov_op env fmt op w)"
  using refiningD [OF refining_serve [OF assms(1)] assms(2)] assms
  by (cases op) (simp_all add: execute_refines cleanup_refines)

lemma gov_ops_refines:
  "sound_env env \<Longrightarrow> ids_used env (gw_tick w) (gw_actions w) \<Longrightarrow> refines env w (gov_ops env fmt ops w)"
proof (induction ops arbitrary: w)
  case Nil
  then show ?case using refines_still [of env w w] by (simp add: gov_ops_def)
next
  case (Cons op ops)
  have one: "refines env w (gov_op env fmt op w)" using Cons.prems by (rule gov_op_refines)
  from refines_trans [OF one Cons.IH [OF Cons.prems(1) refines_ids [OF one]]] show ?case by (simp add: gov_ops_def)
qed

end
