(* ===== verification/Gov_Mutations.thy ===== *)
theory Gov_Mutations imports Main Gov_System begin

text \<open>
  The mutation routes: who may use them, the replay of stored answers, and that whatever they queue
  can be executed.
\<close>

section \<open>Authority\<close>

text \<open>A bearer token of an admin session, mutations switched on, and the caller on the list.\<close>

definition authorised :: "gw_env \<Rightarrow> gateway_config \<Rightarrow> mutation_request \<Rightarrow> nat \<Rightarrow> bool" where
  "authorised env cfg req t \<longleftrightarrow>
     (case getBearerToken (mr_authorization req) of
        None \<Rightarrow> False
      | Some token \<Rightarrow>
          (case gv_session env t token of
             Inr (Some s) \<Rightarrow> as_role s = ''admin'' \<and> gx_enableMutations cfg \<and> matchesAllowlist s (gx_writeAllowlist cfg)
           | _ \<Rightarrow> False))"

lemma authorised_cases:
  "(\<exists>p. authenticate env cfg req w = (Inr p, gtick w) \<and> requireMutationWriteAccess p = Inr () \<and>
       authorised env cfg req (gw_tick w)) \<or>
   (\<exists>e w'. bindE (authenticate env cfg req) (\<lambda>p. seqE (lift (requireMutationWriteAccess p)) (f p)) w = (Inl e, w') \<and>
       (w' = w \<or> w' = gtick w) \<and> \<not> authorised env cfg req (gw_tick w))"
proof (cases "getBearerToken (mr_authorization req)")
  case None
  then show ?thesis by (simp add: authenticate_def authorised_def bindE_app throw_app)
next
  case (Some token)
  show ?thesis
  proof (cases "gv_session env (gw_tick w) token")
    case (Inl e)
    with Some show ?thesis by (simp add: authenticate_def authorised_def bindE_app gask_app lift_app)
  next
    case (Inr session)
    show ?thesis
    proof (cases session)
      case None
      with Some Inr show ?thesis by (simp add: authenticate_def authorised_def bindE_app gask_app lift_app throw_app)
    next
      case (Some s)
      with \<open>getBearerToken _ = Some token\<close> Inr show ?thesis
        by (cases "as_role s = ''admin''"; cases "gx_enableMutations cfg \<and> matchesAllowlist s (gx_writeAllowlist cfg)")
           (auto simp: authenticate_def authorised_def bindE_app gask_app lift_app ret_app seqE_app principal_of_def
             requireMutationWriteAccess_def mapGatewayRoles_def)
    qed
  qed
qed

lemma error_response_app:
  "error_response env req e w =
     (Inr (case e of
              Gateway_error s c m details \<Rightarrow>
                \<lparr>rs_status = s, rs_body = Error_body c m (mr_requestId req) (mr_correlationId req) details
                   (gv_now env (gw_tick w)), rs_replayed = False\<rparr>
            | Other_error _ \<Rightarrow>
                \<lparr>rs_status = 500, rs_body = Error_body INTERNAL_ERROR ''An unexpected error occurred''
                   (mr_requestId req) (mr_correlationId req) [] (gv_now env (gw_tick w)), rs_replayed = False\<rparr>), gtick w)"
  by (simp add: error_response_def bindE_app date_iso_app ret_app)

lemma serve_authorised:
  assumes "authorised env cfg req (gw_tick w)"
  obtains p :: gateway_principal where "serve_mutation env cfg route req w =
    catchE (idempotency env req (\<lambda>key. route_handler env cfg route req (gp_caller p) key))
      (error_response env req) (gtick w)"
proof -
  let ?f = "\<lambda>p. idempotency env req (\<lambda>key. route_handler env cfg route req (gp_caller p) key)"
  from authorised_cases [of env cfg req w ?f] assms obtain p where
    "authenticate env cfg req w = (Inr p, gtick w)" "requireMutationWriteAccess p = Inr ()" by blast
  then have "serve_mutation env cfg route req w = catchE (?f p) (error_response env req) (gtick w)"
    by (simp add: serve_mutation_def catchE_app bindE_app seqE_app lift_app)
  then show thesis by (rule that)
qed

lemma serve_unauthorised:
  assumes "\<not> authorised env cfg req (gw_tick w)"
  shows "gov_tabs (state_of (serve_mutation env cfg route req w)) = gov_tabs w \<and>
    gw_keys (state_of (serve_mutation env cfg route req w)) = gw_keys w"
proof -
  let ?f = "\<lambda>p. idempotency env req (\<lambda>key. route_handler env cfg route req (gp_caller p) key)"
  from authorised_cases [of env cfg req w ?f] assms obtain e w' where
    "bindE (authenticate env cfg req) (\<lambda>p. seqE (lift (requireMutationWriteAccess p)) (?f p)) w = (Inl e, w')"
    "w' = w \<or> w' = gtick w" by blast
  then show ?thesis by (auto simp: serve_mutation_def catchE_app error_response_app)
qed

section \<open>Replay\<close>

lemma handler_keys: "gw_keys (state_of (route_handler env cfg route req caller key w)) = gw_keys w"
proof -
  have "keeps (late n k) (kind_state env kind i)" "keeps (late n k) (kind_hasApproved env kind i a)" for n k kind i a
    by (cases kind; simp only: kind_state.simps kind_hasApproved.simps; intro keeps_rules)+
  note kinds = this
  have q: "keeps (late n k) (queue_route env cfg route' req caller key i a)" for n k route' i a
    unfolding queue_route_def by (intro keeps_rules late_queueAction)
  have "keeps (late n k) (route_handler env cfg route req caller key)" for n k
    by (cases route; simp only: route_handler_parts path_proposal_def refuse_if_def)
       (intro keeps_rules kinds q)+
  from keepsD [OF this, of 0 "Some (gw_keys w)" w] show ?thesis by (simp add: late_def)
qed

lemma answered_app:
  obtains r w1 where "answered env req m w = (Inr r, w1)" "gw_keys w1 = gw_keys (state_of (m w))"
    "gov_tabs w1 = gov_tabs (state_of (m w))" "\<not> rs_replayed r"
  by (cases "m w"; cases "fst (m w)")
     (auto simp: answered_def catchE_app bindE_app date_iso_app ret_app error_response_app intro: that split: gw_error.splits)

definition request_key :: "mutation_request \<Rightarrow> string" where
  "request_key req = (case mr_idempotencyKey req of None \<Rightarrow> [] | Some k \<Rightarrow> trim k)"

text \<open>The row of a request that was answered.\<close>

definition answered_row :: "gw_env \<Rightarrow> mutation_request \<Rightarrow> mutation_response \<Rightarrow> idempotency_row" where
  "answered_row env req r =
     (pending_row (request_entry env req (request_key req)))\<lparr>ik_response := Some (rs_status r, rs_body r)\<rparr>"

lemma row_by_snoc: "row_by key k rows = None \<Longrightarrow> row_by key k (rows @ [r]) = (if key r = k then Some r else None)"
  by (simp add: row_by_append row_by_Cons) (simp add: row_by_def)

lemma complete_row:
  "row_by ik_idempotencyKey k (update_where (\<lambda>r. ik_idempotencyKey r = k) (\<lambda>r. r\<lparr>ik_response := x\<rparr>) rows) =
   map_option (\<lambda>r. r\<lparr>ik_response := x\<rparr>) (row_by ik_idempotencyKey k rows)"
  by (induction rows) (simp_all add: update_where_def row_by_def)

lemma first_answer_is_stored:
  assumes up: "gw_up env" and key: "request_key req \<noteq> []" and fresh: "row_by ik_idempotencyKey (request_key req) (gw_keys w) = None"
    and auth: "authorised env cfg req (gw_tick w)" and served: "serve_mutation env cfg route req w = (Inr r, w1)"
    and ok: "rs_status r < 500"
  shows "row_by ik_idempotencyKey (request_key req) (gw_keys w1) = Some (answered_row env req r) \<and> \<not> rs_replayed r"
proof -
  let ?k = "request_key req" and ?e = "request_entry env req (request_key req)"
  have db: "gv_db env n = None" for n using up by (simp add: gw_up_def)
  from serve_authorised [OF auth, of route] obtain p :: gateway_principal where s: "serve_mutation env cfg route req w =
    catchE (idempotency env req (\<lambda>key. route_handler env cfg route req (gp_caller p) key)) (error_response env req) (gtick w)" .
  have new: "?k \<notin> ik_idempotencyKey ` set (gw_keys w)" using fresh by (simp add: row_by_None)
  have pe: "pe_idempotencyKey ?e = ?k" by (simp add: request_entry_def)
  let ?w = "(gtick (gtick w))\<lparr>gw_keys := gw_keys w @ [pending_row ?e]\<rparr>"
  have c: "createPending env ?e (gtick w) = (Inr (pending_row ?e, True), ?w)"
    using db new pe by (simp add: createPending_def bindE_app gquery_def insert_pending_def ret_app)
  let ?m = "route_handler env cfg route req (gp_caller p) ?k"
  obtain r0 w2 where a: "answered env req ?m ?w = (Inr r0, w2)" "gw_keys w2 = gw_keys (state_of (?m ?w))" "\<not> rs_replayed r0"
    using answered_app [of env req ?m ?w] by metis
  have keys2: "gw_keys w2 = gw_keys w @ [pending_row ?e]" using a(2) by (simp add: handler_keys)
  have i: "idempotency env req (\<lambda>key. route_handler env cfg route req (gp_caller p) key) (gtick w) =
      (case finish env ?k r0 w2 of (f, w3) \<Rightarrow> (case f of Inl e \<Rightarrow> (Inl e, w3) | Inr _ \<Rightarrow> (Inr r0, w3)))"
    using key c a(1) by (simp add: idempotency_def Let_def request_key_def [symmetric] bindE_app seqE_app ret_app
        split: prod.splits sum.splits)
  obtain w3 where f: "finish env ?k r0 w2 = (Inr (), w3)"
    by (cases "rs_status r0 \<ge> 500")
       (auto simp: finish_def catchE_app releasePending_def complete_key_def gquery_def db ret_app)
  have sr: "serve_mutation env cfg route req w = (Inr r0, w3)"
    unfolding s by (simp add: catchE_app i f)
  with served have eq: "r = r0" "w1 = w3" by simp_all
  have row: "row_by ik_idempotencyKey ?k (gw_keys w2) = Some (pending_row ?e)"
    unfolding keys2 using row_by_snoc [OF fresh, of "pending_row ?e"] by (simp add: pending_row_def pe)
  have "row_by ik_idempotencyKey ?k (gw_keys w3) = Some (answered_row env req r0)"
    using f ok unfolding eq
    by (auto simp: finish_def catchE_app complete_key_def gquery_def db ret_app complete_row row answered_row_def)
  with a(3) show ?thesis unfolding eq by simp
qed

lemma stored_answer_is_replayed:
  assumes up: "gw_up env" and key: "request_key req \<noteq> []" and auth: "authorised env cfg req (gw_tick w)"
    and row: "row_by ik_idempotencyKey (request_key req) (gw_keys w) = Some (answered_row env req r)"
  shows "\<exists>w'. serve_mutation env cfg route req w = (Inr (r\<lparr>rs_replayed := True\<rparr>), w') \<and> gov_tabs w' = gov_tabs w"
proof -
  let ?k = "request_key req" and ?e = "request_entry env req (request_key req)"
  have db: "gv_db env n = None" for n using up by (simp add: gw_up_def)
  from serve_authorised [OF auth, of route] obtain p :: gateway_principal where s: "serve_mutation env cfg route req w =
    catchE (idempotency env req (\<lambda>key. route_handler env cfg route req (gp_caller p) key)) (error_response env req) (gtick w)" .
  have pe: "pe_idempotencyKey ?e = ?k" by (simp add: request_entry_def)
  have old: "?k \<in> ik_idempotencyKey ` set (gw_keys w)" using row_by_Some [OF row] by (metis imageI)
  have c: "createPending env ?e (gtick w) = (Inr (answered_row env req r, False), gtick (gtick (gtick w)))"
    using db old pe row by (simp add: createPending_def bindE_app gquery_def insert_pending_def ret_app idempotency_get_def)
  have same: "same_request ?e (answered_row env req r)"
    by (simp add: same_request_def answered_row_def pending_row_def)
  have resp: "ik_response (answered_row env req r) = Some (rs_status r, rs_body r)" by (simp add: answered_row_def)
  have "idempotency env req (\<lambda>key. route_handler env cfg route req (gp_caller p) key) (gtick w) =
      (Inr (r\<lparr>rs_replayed := True\<rparr>), gtick (gtick (gtick (gtick w))))"
    using key c same resp db
    by (simp add: idempotency_def Let_def request_key_def [symmetric] bindE_app seqE_app ret_app markReplay_def command_app)
  then show ?thesis unfolding s by (simp add: catchE_app)
qed

section \<open>Every queued action can be executed\<close>

definition supported :: "gov_action \<Rightarrow> bool" where
  "supported a \<longleftrightarrow> gc_status a = Gov_requested \<longrightarrow> (\<exists>c. sdk_call_of a = Inr c)"

definition all_supported :: "gov_action list \<Rightarrow> audit_entry list \<Rightarrow> (string \<times> sdk_call) list \<Rightarrow> bool" where
  "all_supported rows log calls \<longleftrightarrow> list_all supported rows"

lemma mapRow_supported: "supported (mapRow a) = supported a"
proof -
  have "gc_contractMethod (mapRow a) = gc_contractMethod a" "gc_proposalId (mapRow a) = gc_proposalId a"
    "gc_targetAddress (mapRow a) = gc_targetAddress a" by (simp_all add: mapRow_def)
  note same = this
  have "sdk_call_of (mapRow a) = sdk_call_of a"
    unfolding sdk_call_of_def requireProposalId_def requireTargetAddress_def same ..
  then show ?thesis by (simp add: supported_def)
qed

lemma supported_put: "list_all supported rows \<Longrightarrow> supported a \<Longrightarrow> list_all supported (put_action a rows)"
  by (auto simp: list_all_iff set_put_action mapRow_supported)

lemma emits_supported:
  assumes "emits w evs w'" "list_all supported (gw_actions w)"
    and "\<And>a e. Saved a e \<in> set evs \<Longrightarrow> supported a"
  shows "list_all supported (gw_actions w')"
proof -
  have "list_all supported rows \<Longrightarrow> \<forall>a e. Saved a e \<in> set evs \<longrightarrow> supported a \<Longrightarrow>
      list_all supported (fst (fold gov_did evs (rows, log, calls)))" for rows log calls
  proof (induction evs arbitrary: rows log calls)
    case (Cons ev evs)
    then show ?case by (cases ev) (auto intro!: Cons.IH supported_put)
  qed simp
  from this [of "gw_actions w" "gw_audit w" "gw_calls w"] assms emits_tables [OF assms(1)] show ?thesis
    by auto
qed

lemma retires_supported: "retires x a e \<Longrightarrow> supported a"
  by (simp add: retires_def supported_def)

lemma queue_supported:
  assumes "\<And>i t. supported (requested_action cfg input i t)"
  shows "keeps (on_gov all_supported) (queueAction env cfg input)"
proof (rule keepsI)
  fix w assume "on_gov all_supported w"
  then have ok: "list_all supported (gw_actions w)" by (simp add: on_gov_def all_supported_def)
  have "list_all supported (gw_actions (state_of (queueAction env cfg input w)))"
    using queue_emits [of w input env cfg]
  proof (elim disjE exE conjE)
    assume "emits w [Saved (queued_of env cfg input w) (queued_entry input (gv_uuid env (Suc (gw_tick w))))]
        (state_of (queueAction env cfg input w))"
    from emits_supported [OF this ok] assms show ?thesis by (simp add: queued_of_def)
  qed (use ok in \<open>auto dest: emits_supported still_rows\<close>)
  then show "on_gov all_supported (state_of (queueAction env cfg input w))"
    by (simp add: on_gov_def all_supported_def)
qed

text \<open>What each route queues: the proposal and the address that its method needs.\<close>

fun route_arguments :: "mutation_route \<Rightarrow> int option \<Rightarrow> string option \<Rightarrow> bool" where
  "route_arguments (Propose _) i a = truthy_opt a"
| "route_arguments (Approve _) i a = (i \<noteq> None)"
| "route_arguments (Execute _) i a = (i \<noteq> None)"
| "route_arguments (Cancel_expired _) i a = (i \<noteq> None)"
| "route_arguments _ i a = True"

lemma route_supported:
  assumes "route_arguments route i a"
  shows "supported (requested_action qcfg \<lparr>qi_category = route_category route, qi_contractMethod = route_method route,
      qi_routePath = pth, qi_proposalId = i, qi_targetAddress = a, qi_tradeId = None, qi_audit = audit,
      qi_principal = caller, qi_requestId = rid, qi_correlationId = cid, qi_idempotencyKey = key\<rparr> actionId t)"
  using assms
  by (cases route rule: route_method.cases)
     (auto simp: supported_def requested_action_def sdk_call_of_def map_right_def requireProposalId_def
       requireTargetAddress_def split: option.splits sum.splits)

lemma queue_route_supported:
  "route_arguments route i a \<Longrightarrow> keeps (on_gov all_supported) (queue_route env cfg route req caller key i a)"
  unfolding queue_route_def by (intro keeps_rules queue_supported route_supported)

lemma keeps_bind_results:
  assumes "keeps P m" and "\<And>x w w'. m w = (Inr x, w') \<Longrightarrow> keeps P (f x)"
  shows "keeps P (bindE m f)"
proof (rule keepsI)
  fix w assume P: "P w"
  obtain r w' where m: "m w = (r, w')" by (cases "m w")
  from keepsD [OF assms(1) P] m have w': "P w'" by simp
  show "P (state_of (bindE m f w))"
  proof (cases r)
    case (Inl e)
    with m w' show ?thesis by (simp add: bindE_app)
  next
    case (Inr x)
    with keepsD [OF assms(2) w'] m show ?thesis by (simp add: bindE_app)
  qed
qed

lemma valid_address_truthy:
  "\<not> isaddr [] \<Longrightarrow> validateAddressInput isaddr zero v field = Inr s \<Longrightarrow> truthy_opt (Some s)"
  by (auto simp: validateAddressInput_def truthy_opt_def truthy_def split: option.splits if_splits)

lemma handler_supported:
  assumes "\<not> gv_isAddress env []"
  shows "keeps (on_gov all_supported) (route_handler env cfg route req caller key)"
proof (cases route)
  case (Propose kind)
  show ?thesis unfolding Propose route_handler_parts
    by (intro keeps_bind keeps_bind_results [where m = "lift _"] keeps_seq keeps_rules queue_route_supported)
       (use assms in \<open>auto simp: lift_app dest: valid_address_truthy [of "gv_isAddress env"]\<close>)
qed (simp only: route_handler_parts, (intro keeps_rules queue_route_supported; simp)+)+

lemma serve_supported:
  "\<not> gv_isAddress env [] \<Longrightarrow> keeps (on_gov all_supported) (serve_mutation env cfg route req)"
  unfolding serve_mutation_def idempotency_def answered_def Let_def
  by (intro keeps_rules handler_supported)

lemma execute_supported: "keeps (on_gov all_supported) (executeAction env fmt k rid cid)"
proof (rule keepsI)
  fix w assume "on_gov all_supported w"
  then have ok: "list_all supported (gw_actions w)" by (simp add: on_gov_def all_supported_def)
  have "list_all supported (gw_actions (state_of (executeAction env fmt k rid cid w)))"
    using execute_emits [of w env fmt k rid cid]
  proof (elim disjE exE conjE)
    assume "still w (state_of (executeAction env fmt k rid cid w))"
    from still_rows [OF this] ok show ?thesis by simp
  next
    fix x evs assume ev: "execution_events env x (call_allowed env x (gw_tick w + 3)) evs"
      and em: "emits w evs (state_of (executeAction env fmt k rid cid w))"
    have "supported a" if sv: "Saved a e \<in> set evs" for a e
    proof -
      from ev obtain remarks calls saves where "evs = remarks @ calls @ saves" "list_all is_note remarks"
        "calls = [] \<or> (\<exists>c. calls = [Called (gc_actionId x) c])" "saves = [] \<or> (\<exists>a e. saves = [Saved a e] \<and> retires x a e)"
        unfolding execution_events_def by blast
      with sv have "retires x a e" by (auto simp: list_all_iff is_note_def)
      then show ?thesis by (rule retires_supported)
    qed
    from emits_supported [OF em ok this] show ?thesis .
  qed
  then show "on_gov all_supported (state_of (executeAction env fmt k rid cid w))"
    by (simp add: on_gov_def all_supported_def)
qed

lemma cleanup_supported: "keeps (on_gov all_supported) (cleanup_apply env fmt now limit)"
proof -
  have "keeps (on_gov all_supported) (cleanup_candidate env fmt rid now stale c)" for rid stale c
  proof (rule keepsI)
    fix w assume "on_gov all_supported w"
    then have ok: "list_all supported (gw_actions w)" by (simp add: on_gov_def all_supported_def)
    have "list_all supported (gw_actions (state_of (cleanup_candidate env fmt rid now stale c w)))"
      using cleanup_candidate_emits [of w env fmt rid now stale c]
    proof (elim disjE exE conjE)
      assume "still w (state_of (cleanup_candidate env fmt rid now stale c w))"
      from still_rows [OF this] ok show ?thesis by simp
    next
      fix cur assume "emits w [Saved (buildStaleRecord cur now) (cleanup_entry cur rid fmt now)]
          (state_of (cleanup_candidate env fmt rid now stale c w))"
      from emits_supported [OF this ok] show ?thesis by (simp add: supported_def buildStaleRecord_def)
    qed
    then show "on_gov all_supported (state_of (cleanup_candidate env fmt rid now stale c w))"
      by (simp add: on_gov_def all_supported_def)
  qed
  then show ?thesis unfolding cleanup_apply_def listRequestedExpired_def by (intro keeps_rules)
qed

lemma gov_ops_supported:
  assumes "\<not> gv_isAddress env []"
  shows "on_gov all_supported w \<Longrightarrow> on_gov all_supported (gov_ops env fmt ops w)"
proof (induction ops arbitrary: w)
  case Nil
  then show ?case by (simp add: gov_ops_def)
next
  case (Cons op ops)
  have "on_gov all_supported (gov_op env fmt op w)"
  proof (cases op)
    case (Rq_mutation cfg route req)
    with keepsD [OF serve_supported [OF assms] Cons.prems] show ?thesis by simp
  next
    case (Rq_execute k rid cid)
    with keepsD [OF execute_supported Cons.prems] show ?thesis by simp
  next
    case (Rq_cleanup limit)
    have "keeps (on_gov all_supported) (bindE (date_iso env) (\<lambda>now. cleanup_apply env fmt now limit))"
      by (intro keeps_rules cleanup_supported)
    with keepsD [OF this Cons.prems] Rq_cleanup show ?thesis by simp
  qed
  from Cons.IH [OF this] show ?case by (simp add: gov_ops_def)
qed

end
