(* ===== verification/Gov_Props.thy ===== *)
theory Gov_Props imports Main Gov_Spec Gov_Mutations begin

text \<open>
  The list route: following the cursors of the pages visits every matching action once.
  Then the properties of the governance queue.
\<close>

definition row_key :: "gov_action \<Rightarrow> int \<times> string" where
  "row_key a = (gc_createdAt a, gc_actionId a)"

lemma newest_first_filter: "newest_first (filter P rows) = filter P (newest_first rows)"
  by (simp add: newest_first_def rev_filter [symmetric] filter_sort)

lemma after_cursor_key: "after_cursor (Some c) a \<longleftrightarrow> row_key a < c"
  by (cases c) (auto simp: after_cursor_def row_key_def)

lemma newest_first_sorted:
  assumes "actions_ok rows"
  shows "sorted_wrt (\<lambda>a b. row_key b < row_key a) (newest_first (filter P rows))"
proof -
  let ?xs = "sort_key row_key (filter P rows)"
  have "distinct (map gc_actionId rows)" using assms by (simp add: actions_ok_def)
  then have "distinct (map gc_actionId (filter P rows))" by (rule distinct_map_filter)
  then have "distinct (map row_key (filter P rows))"
    by (auto simp: distinct_map inj_on_def row_key_def)
  then have d: "distinct (map row_key ?xs)" by (simp add: distinct_map)
  have "sorted (map row_key ?xs)" by simp
  with d have "sorted_wrt (<) (map row_key ?xs)" by (simp add: strict_sorted_iff)
  then have "sorted_wrt (\<lambda>a b. row_key a < row_key b) ?xs" by (simp add: sorted_wrt_map)
  then show ?thesis by (simp add: newest_first_def row_key_def [abs_def, symmetric] sorted_wrt_rev)
qed

text \<open>In a descending list, the rows after a boundary are the rest of the list.\<close>

lemma filter_after_boundary:
  assumes "sorted_wrt (\<lambda>a b. row_key b < row_key a) xs" "n < length xs"
  shows "filter (\<lambda>a. row_key a < row_key (xs ! n)) xs = drop (Suc n) xs"
  using assms
proof (induction xs arbitrary: n)
  case Nil
  then show ?case by simp
next
  case (Cons x xs)
  show ?case
  proof (cases n)
    case 0
    with Cons.prems show ?thesis by (auto intro: filter_True)
  next
    case (Suc m)
    with Cons.prems have "row_key (xs ! m) < row_key x" by simp
    then have "\<not> row_key x < row_key (xs ! m)" by (rule less_not_sym)
    with Suc Cons show ?thesis by simp
  qed
qed

text \<open>
  A client that follows the cursors: \<open>None\<close> when it has sent \<open>n\<close> requests and still holds a cursor, the
  pages otherwise.
\<close>

fun pages :: "nat \<Rightarrow> list_input \<Rightarrow> gov_action list \<Rightarrow> gov_action list list option" where
  "pages 0 input rows = None"
| "pages (Suc n) input rows =
     (case list_page input rows of
        (items, None) \<Rightarrow> Some [items]
      | (items, Some c) \<Rightarrow> map_option (Cons items) (pages n (input\<lparr>li_cursor := Some c\<rparr>) rows))"

definition remaining :: "list_input \<Rightarrow> gov_action list \<Rightarrow> gov_action list" where
  "remaining input rows = newest_first (filter (\<lambda>a. matches_input input a \<and> after_cursor (li_cursor input) a) rows)"

lemma remaining_after:
  assumes "after_cursor (li_cursor input) b"
  shows "remaining (input\<lparr>li_cursor := Some (row_key b)\<rparr>) rows =
    filter (\<lambda>a. row_key a < row_key b) (remaining input rows)"
proof -
  have imp: "row_key a < row_key b \<Longrightarrow> after_cursor (li_cursor input) a" for a
    using assms by (cases "li_cursor input") (auto simp: after_cursor_key after_cursor_def [of None])
  have m: "matches_input (input\<lparr>li_cursor := c\<rparr>) a = matches_input input a" for c a
    by (simp add: matches_input_def)
  have "filter (\<lambda>a. matches_input input a \<and> row_key a < row_key b) rows =
      filter (\<lambda>a. (matches_input input a \<and> after_cursor (li_cursor input) a) \<and> row_key a < row_key b) rows"
    by (rule filter_cong) (use imp in blast)+
  then show ?thesis
    by (simp add: remaining_def m after_cursor_key newest_first_filter [symmetric] filter_filter conj_ac)
qed

lemma remaining_next:
  assumes "actions_ok rows" "0 < li_limit input" "li_limit input < length (remaining input rows)"
  shows "remaining (input\<lparr>li_cursor := Some (row_key (remaining input rows ! (li_limit input - 1)))\<rparr>) rows =
    drop (li_limit input) (remaining input rows)"
proof -
  let ?xs = "remaining input rows"
  let ?b = "?xs ! (li_limit input - 1)"
  have srt: "sorted_wrt (\<lambda>a b. row_key b < row_key a) ?xs"
    unfolding remaining_def by (rule newest_first_sorted [OF assms(1)])
  have b: "?b \<in> set ?xs" using assms(2,3) by (intro nth_mem) simp
  then have bc: "after_cursor (li_cursor input) ?b" by (auto simp: remaining_def newest_first_def)
  from remaining_after [OF bc] have "remaining (input\<lparr>li_cursor := Some (row_key ?b)\<rparr>) rows =
      filter (\<lambda>a. row_key a < row_key ?b) ?xs" .
  also have "\<dots> = drop (li_limit input) ?xs"
    using filter_after_boundary [OF srt, of "li_limit input - 1"] assms(2,3) by simp
  finally show ?thesis .
qed

lemma list_page_remaining:
  assumes "0 < li_limit input"
  shows "list_page input rows =
    (take (li_limit input) (remaining input rows),
     if length (remaining input rows) \<le> li_limit input then None
     else Some (row_key (remaining input rows ! (li_limit input - 1))))"
  using assms by (simp add: list_page_def remaining_def [symmetric] nextCursorFromItems_def Let_def row_key_def)

definition page_count :: "nat \<Rightarrow> nat \<Rightarrow> nat" where
  "page_count limit n = max 1 ((n + limit - 1) div limit)"

lemma page_count_one:
  assumes "0 < limit" "n \<le> limit"
  shows "page_count limit n = 1"
proof -
  have "(n + limit - 1) div limit < 2" by (rule less_mult_imp_div_less) (use assms in simp)
  then show ?thesis by (simp add: page_count_def)
qed

lemma page_count_step:
  assumes "0 < limit" "limit < n"
  shows "page_count limit n = Suc (page_count limit (n - limit))"
proof -
  obtain k where n: "n = limit + Suc k" using assms(2) less_iff_Suc_add by (metis add_Suc_right)
  have "(Suc k + limit - 1 + limit) div limit = Suc ((Suc k + limit - 1) div limit)"
    using assms(1) by (subst div_add_self2) simp_all
  moreover have "1 \<le> (Suc k + limit - 1) div limit"
    using assms(1) by (subst less_eq_div_iff_mult_less_eq) simp_all
  ultimately show ?thesis by (simp add: page_count_def n max_def add.commute add.left_commute)
qed

lemma pages_remaining:
  "actions_ok rows \<Longrightarrow> 0 < li_limit input \<Longrightarrow> page_count (li_limit input) (length (remaining input rows)) \<le> n \<Longrightarrow>
   \<exists>ps. pages n input rows = Some ps \<and> concat ps = remaining input rows \<and>
     length ps = page_count (li_limit input) (length (remaining input rows)) \<and> (\<forall>p \<in> set ps. length p \<le> li_limit input)"
proof (induction n arbitrary: input)
  case 0
  then show ?case by (simp add: page_count_def)
next
  case (Suc n)
  let ?r = "remaining input rows"
  show ?case
  proof (cases "length ?r \<le> li_limit input")
    case True
    with Suc.prems show ?thesis by (simp add: list_page_remaining page_count_one)
  next
    case False
    let ?i = "input\<lparr>li_cursor := Some (row_key (?r ! (li_limit input - 1)))\<rparr>"
    have r: "remaining ?i rows = drop (li_limit input) ?r"
      by (rule remaining_next [OF Suc.prems(1,2)]) (use False in simp)
    note count = page_count_step [OF Suc.prems(2), of "length ?r"]
    have "\<exists>ps. pages n ?i rows = Some ps \<and> concat ps = remaining ?i rows \<and>
        length ps = page_count (li_limit ?i) (length (remaining ?i rows)) \<and> (\<forall>p \<in> set ps. length p \<le> li_limit ?i)"
      by (rule Suc.IH [OF Suc.prems(1)]) (use Suc.prems r count False in simp_all)
    then obtain ps where "pages n ?i rows = Some ps" "concat ps = drop (li_limit input) ?r"
      "length ps = page_count (li_limit input) (length ?r - li_limit input)" "\<forall>p \<in> set ps. length p \<le> li_limit input"
      unfolding r by auto
    with False count show ?thesis
      by (intro exI [of _ "take (li_limit input) ?r # ps"]) (simp add: list_page_remaining [OF Suc.prems(2)])
  qed
qed

section \<open>Governance\<close>

text \<open>
  The properties of the gateway's governance queue: the refinement of the abstract queue with the
  invariants that follow from it, the reason of every administration call, and the list route.
\<close>

section \<open>A sample\<close>

definition sample_unpause :: unpause_raw where
  "sample_unpause = \<lparr>ur_active = True, ur_approvalCount = 1, ur_executed = False\<rparr>"

definition sample_status :: status_raw where
  "sample_status = \<lparr>sr_paused = True, sr_claimsPaused = False, sr_oracleActive = True, sr_oracleAddress = ''0xO'',
     sr_treasuryAddress = ''0xT'', sr_treasuryPayoutAddress = ''0xP'', sr_governanceApprovals = 2,
     sr_governanceTimelock = 60, sr_requiredApprovals = 3, sr_unpause = sample_unpause\<rparr>"

definition sample_proposal :: proposal_raw where
  "sample_proposal = \<lparr>pr_approvalCount = 1, pr_executed = False, pr_createdAt = 1, pr_eta = 0,
     pr_target = ''0xN'', pr_expiresAt = 100000, pr_cancelled = False\<rparr>"

definition sample_views :: escrow_views where
  "sample_views = \<lparr>ew_snapshot = (\<lambda>_. Resolves sample_status), ew_latestBlock = (\<lambda>_. Resolves (Some 5)),
     ew_unpause = (\<lambda>_. Resolves sample_unpause), ew_treasuryAddress = (\<lambda>_. Resolves ''0xT''),
     ew_claimableUsdc = (\<lambda>_ _. Resolves 10), ew_unpauseHasApproved = (\<lambda>_ _. Resolves False),
     ew_oracleUpdateCounter = (\<lambda>_. Resolves 1), ew_oracleUpdateProposal = (\<lambda>_ _. Resolves sample_proposal),
     ew_oracleUpdateHasApproved = (\<lambda>_ _ _. Resolves False), ew_treasuryUpdateCounter = (\<lambda>_. Resolves 0),
     ew_treasuryUpdateProposal = (\<lambda>_ _. Pending), ew_treasuryUpdateHasApproved = (\<lambda>_ _ _. Pending)\<rparr>"

text \<open>The database fails at the ticks of \<open>down\<close>.\<close>

definition sample_gw :: "nat list \<Rightarrow> gw_env" where
  "sample_gw down = \<lparr>gv_now = (\<lambda>n. int n * 10), gv_uuid = (\<lambda>n. replicate n (CHR ''u'')),
     gv_db = (\<lambda>n. if n \<in> set down then Some ''down'' else None), gv_commit_kept = (\<lambda>_. False),
     gv_signer = (\<lambda>_. Resolves ''0xAb''),
     gv_sdk = (\<lambda>_ _. Resolves \<lparr>er_txHash = ''0x1'', er_blockNumber = 7, er_proposalId = None\<rparr>),
     gv_views = sample_views,
     gv_session = (\<lambda>_ _. Inr (Some \<lparr>as_userId = ''u'', as_walletAddress = ''0xaB'', as_role = ''admin'', as_email = None\<rparr>)),
     gv_isAddress = (\<lambda>s. length s = 3), gv_zeroAddress = ''0x0'', gv_sha256 = (\<lambda>s. s)\<rparr>"

definition sample_config :: queue_config where
  "sample_config = \<lparr>qc_chainId = 1, qc_governanceQueueTtlSeconds = 3600\<rparr>"

definition sample_input :: queue_input where
  "sample_input = \<lparr>qi_category = Cat_oracle_update, qi_contractMethod = ''approveOracleUpdate'', qi_routePath = ''/r'',
     qi_proposalId = Some 0, qi_targetAddress = None, qi_tradeId = None,
     qi_audit = \<lparr>ai_reason = ''rotation'', ai_evidenceLinks = [], ai_ticketRef = ''T-1''\<rparr>,
     qi_principal = \<lparr>gp_sessionReference = ''s'', gp_userId = ''u'', gp_walletAddress = ''0xaB'', gp_role = ''admin''\<rparr>,
     qi_requestId = ''r1'', qi_correlationId = ''c1'', qi_idempotencyKey = ''i1''\<rparr>"

definition sample_gateway :: gateway_config where
  "sample_gateway = \<lparr>gx_queue = sample_config, gx_enableMutations = True, gx_writeAllowlist = [''0xaB'']\<rparr>"

definition sample_body :: json where
  "sample_body = J_obj [(''audit'', J_obj [(''reason'', J_str ''rotation''), (''ticketRef'', J_str ''T-1''),
     (''evidenceLinks'', J_arr [J_obj [(''kind'', J_str ''ticket''), (''uri'', J_str ''t:1'')]])])]"

definition sample_request :: "string \<Rightarrow> mutation_request" where
  "sample_request key = \<lparr>mr_authorization = Some ''Bearer t'', mr_idempotencyKey = Some key, mr_method = ''POST'',
     mr_path = ''/r'', mr_body = sample_body, mr_rawBody = ''b'', mr_requestId = ''r1'', mr_correlationId = ''c1'',
     mr_proposalId = Some ''0''\<rparr>"

definition sample_ops :: "gov_request list" where
  "sample_ops = [Rq_mutation sample_gateway (Approve Oracle_address) (sample_request ''k1''),
     Rq_mutation sample_gateway (Approve Oracle_address) (sample_request ''k2''),
     Rq_execute (replicate 7 (CHR ''u'')) ''r2'' None, Rq_execute (replicate 7 (CHR ''u'')) ''r3'' None,
     Rq_cleanup 10]"

text \<open>A request that expires at once, and the cleanup.\<close>

definition expiring_ops :: "gov_request list" where
  "expiring_ops =
     [Rq_mutation (sample_gateway\<lparr>gx_queue := sample_config\<lparr>qc_governanceQueueTtlSeconds := 0\<rparr>\<rparr>) Unpause_cancel
        (sample_request ''k1''), Rq_cleanup 5]"

section \<open>The properties\<close>

lemma ids_used_empty: "ids_used env (gw_tick empty_world) (gw_actions empty_world)"
  by (simp add: ids_used_def empty_world_def)

lemma spec_ok_empty: "spec_ok up (spec_of env empty_world)"
  by (simp add: spec_of_def gov_tabs_def empty_world_def actions_ok_def single_open_def logged_def called_once_def)

lemma spec_ok_steps: "(gov_spec up)\<^sup>*\<^sup>* s s' \<Longrightarrow> spec_ok up s \<Longrightarrow> spec_ok up s'"
  by (induction rule: rtranclp_induct) (auto intro: spec_ok_step)

lemma reached_ok: "sound_env env \<Longrightarrow> spec_ok (gw_up env) (spec_of env (gov_ops env fmt ops empty_world))"
  using spec_ok_steps [OF _ spec_ok_empty] gov_ops_refines [OF _ ids_used_empty] unfolding refines_def by blast

lemma settled_steps:
  "(gov_spec up)\<^sup>*\<^sup>* s s' \<Longrightarrow> row_by gc_actionId k (fst (snd s)) = Some a \<Longrightarrow> gc_status a \<noteq> Gov_requested \<Longrightarrow>
   row_by gc_actionId k (fst (snd s')) = Some a"
  by (induction rule: rtranclp_induct) (auto intro: settled_step)

lemma sample_sound: "sound_env (sample_gw down)"
  by (auto simp: sound_env_def sample_gw_def mono_def inj_def)

lemma sample_authorised: "authorised (sample_gw down) sample_gateway (sample_request k) t"
  by (simp add: authorised_def sample_gw_def sample_request_def sample_gateway_def getBearerToken_def trim_def
      is_space_def matchesAllowlist_def truthy_def)

lemma sample_up: "gw_up (sample_gw [])"
  by (simp add: gw_up_def sample_gw_def)

text \<open>
  C5: Every sequence of requests to queue, execute and clean up governance actions, with any
  failures of the database, the signer, the chain calls and the status reads, does to the tables of
  actions and audit entries and to the log of calls what a sequence of steps of the abstract queue
  does.
\<close>

theorem governance_refines_abstract_queue:
  assumes "sound_env env"
  shows "(gov_spec (gw_up env))\<^sup>*\<^sup>* (spec_of env empty_world) (spec_of env (gov_ops env fmt ops empty_world))"
  using gov_ops_refines [OF assms ids_used_empty] by (simp add: refines_def)

theorem governance_refines_abstract_queue_witness:
  "(gov_spec (gw_up (sample_gw [])))\<^sup>*\<^sup>* (spec_of (sample_gw []) empty_world)
     (spec_of (sample_gw []) (gov_ops (sample_gw []) show_int sample_ops empty_world))"
  by (rule governance_refines_abstract_queue [OF sample_sound])

text \<open>
  C6: With the database up, no sequence of requests makes two administration calls for one action,
  however often its execution is requested and whatever the calls answer, time-outs included.
\<close>

theorem no_action_is_executed_twice:
  assumes "sound_env env" and "gw_up env"
  shows "distinct (map fst (gw_calls (gov_ops env fmt ops empty_world)))"
  using reached_ok [OF assms(1), of fmt ops] assms(2) by (simp add: spec_of_def gov_tabs_def called_once_def)

theorem no_action_is_executed_twice_witness:
  "distinct (map fst (gw_calls (gov_ops (sample_gw []) show_int sample_ops empty_world)))"
  by (rule no_action_is_executed_twice [OF sample_sound sample_up])

text \<open>
  C7: At any time there is at most one open action per intent: of two different rows with the same
  intent key at most one is submitted, waiting for approvals, approved, or requested and not expired.
\<close>

theorem one_open_action_per_intent:
  assumes "sound_env env"
  shows "single_open (gv_now env (gw_tick (gov_ops env fmt ops empty_world))) (gw_actions (gov_ops env fmt ops empty_world))"
  using reached_ok [OF assms, of fmt ops] by (simp add: spec_of_def gov_tabs_def)

theorem one_open_action_per_intent_witness:
  "single_open (gv_now (sample_gw [5]) (gw_tick (gov_ops (sample_gw [5]) show_int sample_ops empty_world)))
     (gw_actions (gov_ops (sample_gw [5]) show_int sample_ops empty_world))"
  by (rule one_open_action_per_intent [OF sample_sound])

text \<open>
  C23: The status that a row shows is in the audit log: for every action there is an audit entry that
  names it and its status, after any requests and any failures, since both are written in one
  transaction.
\<close>

theorem every_status_is_audited:
  assumes "sound_env env"
  shows "logged (gw_actions (gov_ops env fmt ops empty_world)) (gw_audit (gov_ops env fmt ops empty_world))"
  using reached_ok [OF assms, of fmt ops] by (simp add: spec_of_def gov_tabs_def)

theorem every_status_is_audited_witness:
  "logged (gw_actions (gov_ops (sample_gw [5]) show_int sample_ops empty_world))
     (gw_audit (gov_ops (sample_gw [5]) show_int sample_ops empty_world))"
  by (rule every_status_is_audited [OF sample_sound])

text \<open>
  An action that has left the status \<open>requested\<close> never changes again: no later request to the
  queue, the executor or the cleanup alters its row.
\<close>

theorem settled_action_is_final:
  assumes "sound_env env"
    and "row_by gc_actionId k (gw_actions (gov_ops env fmt ops empty_world)) = Some a"
    and "gc_status a \<noteq> Gov_requested"
  shows "row_by gc_actionId k (gw_actions (gov_ops env fmt later (gov_ops env fmt ops empty_world))) = Some a"
proof -
  let ?w = "gov_ops env fmt ops empty_world"
  have "ids_used env (gw_tick ?w) (gw_actions ?w)"
    using gov_ops_refines [OF assms(1) ids_used_empty] by (simp add: refines_def)
  from gov_ops_refines [OF assms(1) this, of fmt later] assms(2,3) show ?thesis
    using settled_steps [of "gw_up env" "spec_of env ?w" "spec_of env (gov_ops env fmt later ?w)" k a]
    by (simp add: refines_def spec_of_def gov_tabs_def)
qed

theorem settled_action_is_final_witness:
  "map_option gc_status (row_by gc_actionId ''uuuu''
     (gw_actions (gov_ops (sample_gw []) show_int sample_ops (gov_ops (sample_gw []) show_int expiring_ops empty_world)))) =
   Some Gov_stale"
proof -
  have "map_option gc_status (row_by gc_actionId ''uuuu''
      (gw_actions (gov_ops (sample_gw []) show_int expiring_ops empty_world))) = Some Gov_stale"
    by code_simp
  then obtain a where "row_by gc_actionId ''uuuu'' (gw_actions (gov_ops (sample_gw []) show_int expiring_ops empty_world)) = Some a"
    and "gc_status a = Gov_stale" by auto
  then show ?thesis using settled_action_is_final [OF sample_sound, of "''uuuu''" "[]" show_int expiring_ops a sample_ops]
    by simp
qed

text \<open>
  C27: An execution makes at most one administration call, and only for a reason: the row of the
  action was \<open>requested\<close> and its queue time was not over when the executor read the clock, the call is
  the one that the method and the row's proposal or address stand for, and an approval is sent with
  the wallet of the approver who queued it.
\<close>

theorem execution_is_justified:
  "gw_calls (state_of (executeAction env fmt k rid cid w)) = gw_calls w \<or>
   (\<exists>x c. row_by gc_actionId k (gw_actions w) = Some x \<and> gc_status x = Gov_requested \<and>
      \<not> isExpiredRequestedGovernanceAction x (gv_now env (gw_tick w + 3)) \<and>
      signer_allows x (gv_signer env (gw_tick w + 4)) \<and> sdk_call_of x = Inr c \<and>
      gw_calls (state_of (executeAction env fmt k rid cid w)) = gw_calls w @ [(k, c)])"
proof -
  from execute_emits [of w env fmt k rid cid] show ?thesis
  proof (elim disjE exE conjE)
    assume "still w (state_of (executeAction env fmt k rid cid w))"
    then show ?thesis using still_calls by blast
  next
    fix x evs assume x: "row_by gc_actionId k (gw_actions w) = Some x" "gc_status x = Gov_requested"
      and "execution_events env x (call_allowed env x (gw_tick w + 3)) evs"
        "emits w evs (state_of (executeAction env fmt k rid cid w))"
    then have "executes env x (call_allowed env x (gw_tick w + 3)) w (state_of (executeAction env fmt k rid cid w))"
      unfolding executes_def by blast
    from executes_call_cases [OF this] show ?thesis
      using x row_by_Some [OF x(1)] by (auto simp: call_allowed_def add.commute [of "gw_tick w" 4])
  qed
qed

text \<open>
  With the database up, an execution makes the call exactly when it is due: the action is
  requested and not expired, the signer is known and is, for an approval, the queued approver.
\<close>

theorem call_exactly_when_due:
  assumes "gw_up env" and "row_by gc_actionId k (gw_actions w) = Some x"
  shows "gw_calls (state_of (executeAction env fmt k rid cid w)) =
    gw_calls w @ (if call_due env x (gw_tick w + 3) then calls_of x else [])"
  using assms by (rule execute_calls)

theorem call_exactly_when_due_witness:
  "gw_calls (state_of (executeAction (sample_gw []) show_int ''u'' ''r2'' None
      (empty_world\<lparr>gw_actions := [requested_action sample_config sample_input ''u'' 0]\<rparr>))) =
    [(''u'', Sdk_approveOracleUpdate 0)]"
proof -
  let ?x = "requested_action sample_config sample_input ''u'' 0"
  let ?w = "empty_world\<lparr>gw_actions := [?x]\<rparr>"
  have x: "row_by gc_actionId ''u'' (gw_actions ?w) = Some ?x"
    by (simp add: row_by_def requested_action_def)
  have due: "call_due (sample_gw []) ?x 3" by code_simp
  have calls: "calls_of ?x = [(''u'', Sdk_approveOracleUpdate 0)]" by code_simp
  show ?thesis
    using call_exactly_when_due [OF sample_up x, of show_int "''r2''" None] due calls by (simp add: empty_world_def)
qed

text \<open>
  C28: Every action that waits for its execution stands for a call that the executor can make: the
  routes queue only methods that it supports, with the proposal id or the address that they need.
\<close>

theorem requested_actions_are_supported:
  assumes "\<not> gv_isAddress env []"
  shows "list_all supported (gw_actions (gov_ops env fmt ops empty_world))"
  using gov_ops_supported [OF assms, of empty_world] by (simp add: on_gov_def all_supported_def empty_world_def)

theorem requested_actions_are_supported_witness:
  "list_all supported (gw_actions (gov_ops (sample_gw [3]) show_int sample_ops empty_world))"
  by (rule requested_actions_are_supported) (simp add: sample_gw_def)

text \<open>
  A mutation request changes something only with authority: its bearer token resolves to the
  session of an admin, mutations are enabled, and the allowlist has the caller's user id, wallet or
  email.  Without it no row, no audit entry, no call and no idempotency key changes.
\<close>

theorem mutations_need_an_allowlisted_admin:
  "authorised env cfg req (gw_tick w) \<or>
   (gov_tabs (state_of (serve_mutation env cfg route req w)) = gov_tabs w \<and>
    gw_keys (state_of (serve_mutation env cfg route req w)) = gw_keys w)"
  using serve_unauthorised by blast

text \<open>
  C29: A mutation request that was answered below 500 and comes again with the same idempotency key
  is answered with the stored status and body, marked as a replay, and queues and logs nothing.
\<close>

theorem repeated_mutation_is_replayed:
  assumes "gw_up env" and "request_key req \<noteq> []"
    and "row_by ik_idempotencyKey (request_key req) (gw_keys w) = None"
    and "authorised env cfg req (gw_tick w)"
    and "serve_mutation env cfg route req w = (Inr r, w1)" and "rs_status r < 500"
    and "authorised env cfg' req (gw_tick w1)"
  shows "\<exists>w2. serve_mutation env cfg' route' req w1 = (Inr (r\<lparr>rs_replayed := True\<rparr>), w2) \<and> gov_tabs w2 = gov_tabs w1"
  using stored_answer_is_replayed [OF assms(1,2,7), of r route'] first_answer_is_stored [OF assms(1-6)] by simp

theorem repeated_mutation_is_replayed_witness:
  "\<exists>r w1 w2. serve_mutation (sample_gw []) sample_gateway Unpause_cancel (sample_request ''k1'') empty_world = (Inr r, w1) \<and>
     serve_mutation (sample_gw []) sample_gateway Unpause_cancel (sample_request ''k1'') w1 =
       (Inr (r\<lparr>rs_replayed := True\<rparr>), w2) \<and> gov_tabs w2 = gov_tabs w1"
proof -
  let ?req = "sample_request ''k1''"
  have st: "(case serve_mutation (sample_gw []) sample_gateway Unpause_cancel ?req empty_world of
      (Inr r, _) \<Rightarrow> rs_status r = 202 | _ \<Rightarrow> False)"
    by code_simp
  then obtain r w1 where s: "serve_mutation (sample_gw []) sample_gateway Unpause_cancel ?req empty_world = (Inr r, w1)"
    and "rs_status r = 202" by (auto split: prod.splits sum.splits)
  moreover have "request_key ?req \<noteq> []"
    by (simp add: request_key_def sample_request_def trim_def is_space_def)
  moreover have "row_by ik_idempotencyKey (request_key ?req) (gw_keys empty_world) = None"
    by (simp add: empty_world_def row_by_def)
  ultimately show ?thesis
    using repeated_mutation_is_replayed [OF sample_up _ _ sample_authorised s _ sample_authorised, of Unpause_cancel] by auto
qed

text \<open>
  C37: a client that follows the cursors of the list route from the first page gets to a page without
  a cursor: with \<open>m\<close> actions that match the filter after \<open>max 1 (ceiling (m / limit))\<close> requests.  No page has
  more actions than the limit, and the pages together are the actions that match the filter, newest
  first, each one once.
\<close>

theorem pages_list_every_action_once:
  assumes "actions_ok rows" "0 < li_limit input" "li_cursor input = None"
    and "m = length (filter (matches_input input) rows)"
    and "max 1 ((m + li_limit input - 1) div li_limit input) \<le> n"
  shows "\<exists>ps. pages n input rows = Some ps \<and> length ps = max 1 ((m + li_limit input - 1) div li_limit input) \<and>
    (\<forall>p \<in> set ps. length p \<le> li_limit input) \<and>
    concat ps = newest_first (filter (matches_input input) rows)"
proof -
  have r: "remaining input rows = newest_first (filter (matches_input input) rows)"
    using assms(3) by (simp add: remaining_def after_cursor_def)
  then have m: "length (remaining input rows) = m" by (simp add: newest_first_def assms(4))
  from pages_remaining [OF assms(1,2), of n] assms(5) obtain ps where
    "pages n input rows = Some ps" "concat ps = remaining input rows"
    "length ps = page_count (li_limit input) m" "\<forall>p \<in> set ps. length p \<le> li_limit input"
    unfolding m page_count_def by blast
  then show ?thesis by (intro exI [of _ ps]) (simp add: r page_count_def)
qed

theorem pages_list_every_action_once_witness:
  "\<exists>ps. pages 2 \<lparr>li_category = None, li_status = None, li_tradeId = None, li_limit = 1, li_cursor = None\<rparr>
      [requested_action sample_config sample_input ''a'' 0, requested_action sample_config sample_input ''b'' 1] = Some ps \<and>
   concat ps = [requested_action sample_config sample_input ''b'' 1, requested_action sample_config sample_input ''a'' 0]"
proof -
  let ?rows = "[requested_action sample_config sample_input ''a'' 0, requested_action sample_config sample_input ''b'' 1]"
  let ?i = "\<lparr>li_category = None, li_status = None, li_tradeId = None, li_limit = 1, li_cursor = None\<rparr>"
  have "actions_ok ?rows" by (simp add: actions_ok_def requested_action_def)
  moreover have m: "filter (matches_input ?i) ?rows = ?rows" by (simp add: matches_input_def truthy_opt_def)
  moreover have "newest_first ?rows =
      [requested_action sample_config sample_input ''b'' 1, requested_action sample_config sample_input ''a'' 0]"
    by (simp add: newest_first_def requested_action_def)
  ultimately show ?thesis
    using pages_list_every_action_once [of ?rows ?i 2 2] by (auto simp del: pages.simps)
qed

text \<open>
  When the database fails after the call, the action is still requested and its call is made: the
  next execution makes it again.
\<close>

lemma unsaved_execution_stays_requested:
  assumes "\<And>n. n < gw_tick w + 6 \<Longrightarrow> gv_db env n = None" "\<And>n. gw_tick w + 7 \<le> n \<Longrightarrow> gv_db env n \<noteq> None"
    and "row_by gc_actionId k (gw_actions w) = Some x" "call_due env x (gw_tick w + 3)" "sdk_call_of x = Inr c"
  shows "gw_calls (state_of (executeAction env fmt k rid cid w)) = gw_calls w @ [(gc_actionId x, c)] \<and>
    row_by gc_actionId k (gw_actions (state_of (executeAction env fmt k rid cid w))) = Some x"
  using unsaved_execution [of w env k x c fmt rid cid] assms by simp

text \<open>The save of a cleanup does not look at the row it replaces.\<close>

lemma cleanup_save_is_unconditional:
  assumes "gw_up env"
  shows "row_by gc_actionId (gc_actionId x)
      (gw_actions (state_of (saveActionWithAudit env (buildStaleRecord x now) e w))) = Some (mapRow (buildStaleRecord x now))"
proof -
  have "gw_actions (state_of (saveActionWithAudit env (buildStaleRecord x now) e w)) =
      put_action (buildStaleRecord x now) (gw_actions w)"
    using conjunct2 [OF save_up [OF assms, of "buildStaleRecord x now" e w]] by (simp add: emits_def gov_tabs_def)
  then show ?thesis by (simp add: put_action_row buildStaleRecord_def)
qed

end
