(* ===== verification/Sql_Transaction.thy ===== *)
theory Sql_Transaction imports Effect begin

text \<open>
  A database transaction around a method: \<open>BEGIN\<close>, the body, \<open>COMMIT\<close>, and \<open>ROLLBACK\<close> after a failure.
  The locale \<open>transactional\<close> is the contract of the statements, for the part of the state that the
  transaction covers (\<open>unchanged\<close>) and the part it does not (\<open>outside\<close>); its clients get the cases of a
  transaction, all or nothing.
\<close>

text \<open>\<open>restore w w1\<close> is \<open>w1\<close> with the tables of \<open>w\<close>.\<close>

definition sql_transaction ::
  "('e, 'w, unit) eff \<Rightarrow> ('e, 'w, 's) eff \<Rightarrow> ('w \<Rightarrow> ('e, 'w, unit) eff) \<Rightarrow> ('e \<Rightarrow> ('e, 'w, 'a) eff) \<Rightarrow>
   ('w \<Rightarrow> 'w \<Rightarrow> 'w) \<Rightarrow> ('s \<Rightarrow> ('e, 'w, 'a) eff) \<Rightarrow> ('e, 'w, 'a) eff" where
  "sql_transaction connect start commit rollback restore body w0 =
     bindE connect (\<lambda>_ w.
       (case bindE start body w of
          (Inl e, w1) \<Rightarrow> rollback e (restore w w1)
        | (Inr x, w1) \<Rightarrow>
            (case commit w w1 of (Inl e, w2) \<Rightarrow> rollback e w2 | (Inr _, w2) \<Rightarrow> (Inr x, w2)))) w0"

lemma keeps_transaction:
  assumes "keeps P connect" "keeps P start" "\<And>s. keeps P (body s)" "\<And>e. keeps P (rollback e)"
    and "\<And>w w1. P w \<Longrightarrow> P w1 \<Longrightarrow> P (state_of (commit w w1))" "\<And>w w1. P w \<Longrightarrow> P w1 \<Longrightarrow> P (restore w w1)"
  shows "keeps P (sql_transaction connect start commit rollback restore body)"
proof -
  have "keeps P (bindE start body)" by (rule keeps_bind [OF assms(2,3)])
  then have "keeps P (\<lambda>w. case bindE start body w of
      (Inl e, w1) \<Rightarrow> rollback e (restore w w1)
    | (Inr x, w1) \<Rightarrow> (case commit w w1 of (Inl e, w2) \<Rightarrow> rollback e w2 | (Inr _, w2) \<Rightarrow> (Inr x, w2)))"
    using assms(4-6) unfolding keeps_def by (auto split: prod.split sum.split) (metis snd_conv)+
  then show ?thesis unfolding sql_transaction_def [abs_def] by (rule keeps_bind [OF assms(1)])
qed

locale transactional =
  fixes connect :: "('e, 'w, unit) eff"
    and start :: "('e, 'w, 's) eff"
    and commit :: "'w \<Rightarrow> ('e, 'w, unit) eff"
    and rollback :: "'e \<Rightarrow> ('e, 'w, 'a) eff"
    and restore :: "'w \<Rightarrow> 'w \<Rightarrow> 'w"
    and unchanged outside :: "'w \<Rightarrow> 'w \<Rightarrow> bool"
  assumes unchanged_refl: "unchanged w w"
    and unchanged_trans: "unchanged w w1 \<Longrightarrow> unchanged w1 w2 \<Longrightarrow> unchanged w w2"
    and outside_trans: "outside w w1 \<Longrightarrow> outside w1 w2 \<Longrightarrow> outside w w2"
    and commands: "unchanged w (state_of (connect w))" "unchanged w (state_of (start w))" "outside w (state_of (start w))"
    and rollback_throws: "\<exists>e'. result_of (rollback e w) = Inl e'"
    and rollback_unchanged: "unchanged w (state_of (rollback e w))"
    and restored: "outside w w1 \<Longrightarrow> unchanged w (restore w w1)"
    and committed_or_not: "commit w w1 = (Inr (), w2) \<Longrightarrow> unchanged w1 w2"
      "commit w w1 = (Inl e, w2) \<Longrightarrow> unchanged w1 w2 \<or> (outside w w1 \<longrightarrow> unchanged w w2)"
begin

abbreviation run :: "('s \<Rightarrow> ('e, 'w, 'a) eff) \<Rightarrow> ('e, 'w, 'a) eff" where
  "run \<equiv> sql_transaction connect start commit rollback restore"

lemma all_or_nothing:
  assumes body: "\<And>s w. outside w (state_of (body s w))"
  obtains (undone) "unchanged w0 (state_of (run body w0))" "\<exists>e. result_of (run body w0) = Inl e"
  | (committed) w1 s w2 x w3 where "unchanged w0 w1" "start w1 = (Inr s, w2)" "body s w2 = (Inr x, w3)" "unchanged w3 (state_of (run body w0))"
      "result_of (run body w0) = Inr x \<or> (\<exists>e. result_of (run body w0) = Inl e)"
proof -
  obtain c w where c: "connect w0 = (c, w)" by (cases "connect w0")
  have w: "unchanged w0 w" using commands(1) [of w0] c by simp
  obtain b wb where b: "start w = (b, wb)" by (cases "start w")
  have wb: "unchanged w wb" "outside w wb" using commands(2,3) [of w] b by simp_all
  have thrown: thesis if "run body w0 = rollback e w2" "unchanged w w2" for e w2
    using undone unchanged_trans [OF unchanged_trans [OF w that(2)] rollback_unchanged] rollback_throws
    unfolding that(1) by blast
  show thesis
  proof (cases c)
    case (Inl e)
    then show ?thesis using undone w c by (simp add: sql_transaction_def bindE_app)
  next
    case connected: (Inr u)
    show ?thesis
    proof (cases b)
      case (Inl e)
      have "run body w0 = rollback e (restore w wb)"
        using c connected b Inl by (simp add: sql_transaction_def bindE_app bindE_app)
      then show ?thesis using restored [OF wb(2)] by (rule thrown)
    next
      case begun: (Inr s)
      obtain r w1 where r: "body s wb = (r, w1)" by (cases "body s wb")
      have out: "outside w w1" using outside_trans [OF wb(2) body [of wb s]] r by simp
      show ?thesis
      proof (cases r)
        case (Inl e)
        have "run body w0 = rollback e (restore w w1)"
          using c connected b begun r Inl by (simp add: sql_transaction_def bindE_app bindE_app)
        then show ?thesis using restored [OF out] by (rule thrown)
      next
        case (Inr x)
        obtain d w2 where d: "commit w w1 = (d, w2)" by (cases "commit w w1")
        show ?thesis
        proof (cases d)
          case (Inr u'')
          with d committed_or_not(1) [of w w1 w2] have "unchanged w1 w2" by simp
          moreover have "run body w0 = (Inr x, w2)"
            using c connected b begun r \<open>r = Inr x\<close> d Inr by (simp add: sql_transaction_def bindE_app bindE_app)
          ultimately show ?thesis
            using committed [OF w, of s wb x w1] b begun r \<open>r = Inr x\<close> by simp
        next
          case (Inl e)
          have t: "run body w0 = rollback e w2"
            using c connected b begun r \<open>r = Inr x\<close> d Inl by (simp add: sql_transaction_def bindE_app bindE_app)
          from committed_or_not(2) [of w w1 e w2] d Inl out have "unchanged w1 w2 \<or> unchanged w w2" by simp
          then show ?thesis
          proof
            assume "unchanged w w2" with t show ?thesis by (rule thrown)
          next
            assume "unchanged w1 w2"
            then show ?thesis
              using committed [OF w, of s wb x w1] b begun r \<open>r = Inr x\<close>
                unchanged_trans [OF _ rollback_unchanged] rollback_throws unfolding t by blast
          qed
        qed
      qed
    qed
  qed
qed

end

end
