(* ===== verification/Treasury_Store.thy ===== *)
theory Treasury_Store
  imports Main Sql_Transaction Sql_Table Js_Text "HOL-Library.Product_Lexorder"
begin

text \<open>
  The treasury service's types, its world and its queries (\<open>treasury/src/types.ts\<close>,
  \<open>database/schema.sql\<close>, \<open>database/queries.ts\<close>).  Times are milliseconds.  A statement may fail at
  every tick; \<open>te_kept\<close> says whether a statement outside of a transaction, or a \<open>COMMIT\<close>, took
  effect although its answer was lost.
\<close>

section \<open>Types\<close>

datatype treasury_component = LOGISTICS | PLATFORM_FEE

datatype payout_state = PENDING_REVIEW | READY_FOR_PAYOUT | PROCESSING | PAID | CANCELLED

record treasury_entry =
  le_id :: int
  le_entry_key :: string
  le_trade_id :: string
  le_tx_hash :: string
  le_block_number :: int
  le_event_name :: string
  le_component_type :: treasury_component
  le_amount_raw :: string
  le_source_timestamp :: int
  le_sourceEventId :: string
  le_created_at :: int

record payout_event =
  po_id :: int
  po_ledger_entry_id :: int
  po_state :: payout_state
  po_note :: "string option"
  po_actor :: "string option"
  po_created_at :: int

record trade_event =
  ev_id :: string
  ev_tradeId :: string
  ev_eventName :: string
  ev_txHash :: "string option"
  ev_extrinsicHash :: "string option"
  ev_blockNumber :: int
  ev_timestamp :: "int option"
  ev_releasedLogisticsAmount :: "string option"
  ev_paidPlatformFees :: "string option"

text \<open>The answer of the GraphQL endpoint, as JSON; \<open>ri_timestamp\<close> is a text still.\<close>

record raw_event =
  rv_id :: string
  rv_tradeId :: string
  rv_eventName :: string
  rv_txHash :: "string option"
  rv_extrinsicHash :: "string option"
  rv_blockNumber :: int
  rv_timestamp :: string
  rv_releasedLogisticsAmount :: "string option"
  rv_paidPlatformFees :: "string option"

record graphql_body =
  gb_tradeEvents :: "raw_event list option"
  gb_errors :: "string list"

datatype fetch_outcome =
    Aborted | Fetch_error string | Fetch_threw string
  | Response bool int string "string + graphql_body"

section \<open>World\<close>

record treasury_env =
  te_now :: "nat \<Rightarrow> int"
  te_db :: "nat \<Rightarrow> string option"
  te_kept :: "nat \<Rightarrow> bool"
  te_violation :: string
  te_indexer :: "nat \<Rightarrow> nat \<Rightarrow> nat \<Rightarrow> fetch_outcome"
  te_url :: string
  te_timeoutMs :: int
  te_date :: "string \<Rightarrow> int option"
  te_iso :: "int \<Rightarrow> string"
  te_batchSize :: nat
  te_maxEvents :: nat

text \<open>
  The two counters are the sequences of the \<open>SERIAL\<close> columns; no transaction takes them back.
  \<open>tw_queries\<close> is a log of what the service did: the offsets of the pages that it asked the indexer for.
\<close>

record treasury_world =
  tw_tick :: nat
  tw_entries :: "treasury_entry list"
  tw_events :: "payout_event list"
  tw_offsets :: "string \<rightharpoonup> nat"
  tw_entry_seq :: int
  tw_event_seq :: int
  tw_queries :: "nat list"

type_synonym 'a treasury_eff = "(string, treasury_world, 'a) eff"

definition INGESTION_CURSOR_NAME :: string where
  "INGESTION_CURSOR_NAME = ''trade_events''"

text \<open>The tables after the migration.\<close>

definition empty_treasury :: treasury_world where
  "empty_treasury = \<lparr>tw_tick = 0, tw_entries = [], tw_events = [],
     tw_offsets = [INGESTION_CURSOR_NAME \<mapsto> 0], tw_entry_seq = 1, tw_event_seq = 1,
     tw_queries = []\<rparr>"

definition ttick :: "treasury_world \<Rightarrow> treasury_world" where
  "ttick w = w\<lparr>tw_tick := Suc (tw_tick w)\<rparr>"

text \<open>A statement, which a constraint may refuse.\<close>

definition tquery :: "treasury_env \<Rightarrow> 'a treasury_eff \<Rightarrow> 'a treasury_eff" where
  "tquery env stmt w =
     (case te_db env (tw_tick w) of
        None \<Rightarrow> stmt (ttick w)
      | Some m \<Rightarrow> (Inl m, if te_kept env (tw_tick w) then state_of (stmt (ttick w)) else ttick w))"

definition int32 :: "int \<Rightarrow> bool" where
  "int32 i \<longleftrightarrow> - 2147483648 \<le> i \<and> i \<le> 2147483647"

section \<open>The ingestion cursor\<close>

definition getIngestionOffset :: "treasury_env \<Rightarrow> nat treasury_eff" where
  "getIngestionOffset env =
     bindE (tquery env (asks (\<lambda>w. tw_offsets w INGESTION_CURSOR_NAME))) (\<lambda>row.
       case row of
         Some next_offset \<Rightarrow> ret next_offset
       | None \<Rightarrow>
           seqE (tquery env (change (\<lambda>w.
                   case tw_offsets w INGESTION_CURSOR_NAME of
                     None \<Rightarrow> w\<lparr>tw_offsets := (tw_offsets w)(INGESTION_CURSOR_NAME \<mapsto> 0)\<rparr>
                   | Some _ \<Rightarrow> w)))
             (ret 0))"

definition setIngestionOffset :: "treasury_env \<Rightarrow> nat \<Rightarrow> unit treasury_eff" where
  "setIngestionOffset env nextOffset =
     tquery env (\<lambda>w.
       if int32 (int nextOffset)
       then (Inr (), w\<lparr>tw_offsets := (tw_offsets w)(INGESTION_CURSOR_NAME \<mapsto> nextOffset)\<rparr>)
       else (Inl (te_violation env), w))"

section \<open>Ledger entries\<close>

record entry_data =
  ud_entryKey :: string
  ud_tradeId :: string
  ud_txHash :: string
  ud_blockNumber :: int
  ud_eventName :: string
  ud_componentType :: treasury_component
  ud_amountRaw :: string
  ud_sourceTimestamp :: "int option"
  ud_sourceEventId :: string
  ud_initialStateNote :: "string option"
  ud_initialStateActor :: "string option"

definition ledger_row_ok :: "treasury_entry \<Rightarrow> bool" where
  "ledger_row_ok e \<longleftrightarrow> int32 (le_id e) \<and> length (le_entry_key e) \<le> 255 \<and> length (le_trade_id e) \<le> 255 \<and>
     length (le_tx_hash e) \<le> 66 \<and> int32 (le_block_number e) \<and> length (le_event_name e) \<le> 100"

definition payout_row_ok :: "payout_event \<Rightarrow> bool" where
  "payout_row_ok p \<longleftrightarrow> int32 (po_id p) \<and>
     (case po_actor p of None \<Rightarrow> True | Some actor \<Rightarrow> length actor \<le> 255)"

definition new_entry :: "int \<Rightarrow> int \<Rightarrow> entry_data \<Rightarrow> int \<Rightarrow> treasury_entry" where
  "new_entry entryId now d timestamp =
     \<lparr>le_id = entryId, le_entry_key = ud_entryKey d, le_trade_id = ud_tradeId d, le_tx_hash = ud_txHash d,
      le_block_number = ud_blockNumber d, le_event_name = ud_eventName d,
      le_component_type = ud_componentType d, le_amount_raw = ud_amountRaw d,
      le_source_timestamp = timestamp, le_sourceEventId = ud_sourceEventId d, le_created_at = now\<rparr>"

text \<open>\<open>DO UPDATE SET\<close> every column but the id and the creation time.\<close>

definition excluded :: "treasury_entry \<Rightarrow> treasury_entry \<Rightarrow> treasury_entry" where
  "excluded r q = r\<lparr>le_id := le_id q, le_created_at := le_created_at q\<rparr>"

definition upsert_entry :: "treasury_env \<Rightarrow> int \<Rightarrow> entry_data \<Rightarrow> treasury_entry treasury_eff" where
  "upsert_entry env now d w =
     (let w' = w\<lparr>tw_entry_seq := tw_entry_seq w + 1\<rparr>
      in case ud_sourceTimestamp d of
           None \<Rightarrow> (Inl (te_violation env), w)
         | Some timestamp \<Rightarrow>
             (let r = new_entry (tw_entry_seq w) now d timestamp;
                  rows = upsert le_entry_key (excluded r) r (tw_entries w)
              in if ledger_row_ok r
                 then (case row_by le_entry_key (ud_entryKey d) rows of
                         Some e \<Rightarrow> (Inr e, w'\<lparr>tw_entries := rows\<rparr>)
                       | None \<Rightarrow> (Inl (te_violation env), w'))
                 else (Inl (te_violation env), w')))"

text \<open>\<open>INSERT INTO payout_lifecycle_events\<close>, with the foreign key.\<close>

definition insert_payout ::
  "treasury_env \<Rightarrow> int \<Rightarrow> int \<Rightarrow> payout_state \<Rightarrow> string option \<Rightarrow> string option \<Rightarrow> payout_event treasury_eff" where
  "insert_payout env now entryId state note actor w =
     (let p = \<lparr>po_id = tw_event_seq w, po_ledger_entry_id = entryId, po_state = state, po_note = note,
               po_actor = actor, po_created_at = now\<rparr>;
          w' = w\<lparr>tw_event_seq := tw_event_seq w + 1\<rparr>
      in if payout_row_ok p \<and> entryId \<in> le_id ` set (tw_entries w)
         then (Inr p, w'\<lparr>tw_events := tw_events w @ [p]\<rparr>)
         else (Inl (te_violation env), w'))"

definition payouts_of :: "int \<Rightarrow> treasury_world \<Rightarrow> payout_event list" where
  "payouts_of entryId w = filter (\<lambda>p. po_ledger_entry_id p = entryId) (tw_events w)"

definition insert_initial_state :: "treasury_env \<Rightarrow> int \<Rightarrow> entry_data \<Rightarrow> treasury_entry \<Rightarrow> bool treasury_eff" where
  "insert_initial_state env now d entry w =
     (if payouts_of (le_id entry) w = []
      then bindE (insert_payout env now (le_id entry) PENDING_REVIEW
             (Some (or_else (ud_initialStateNote d) ''Auto-created from indexer ingestion''))
             (Some (or_else (ud_initialStateActor d) ''system:indexer-ingest''))) (\<lambda>_. ret True) w
      else (Inr False, w))"

section \<open>The transaction\<close>

definition treasury_tables :: "treasury_world \<Rightarrow> treasury_world \<Rightarrow> treasury_world" where
  "treasury_tables w w' =
     w'\<lparr>tw_entries := tw_entries w, tw_events := tw_events w, tw_offsets := tw_offsets w\<rparr>"

definition tconnect :: "treasury_env \<Rightarrow> unit treasury_eff" where
  "tconnect env = tquery env (ret ())"

text \<open>\<open>BEGIN\<close>; \<open>NOW()\<close> is the time of the start of the transaction.\<close>

definition tbegin :: "treasury_env \<Rightarrow> int treasury_eff" where
  "tbegin env = tquery env (asks (\<lambda>w. te_now env (tw_tick w)))"

definition tcommit :: "treasury_env \<Rightarrow> treasury_world \<Rightarrow> unit treasury_eff" where
  "tcommit env before w =
     (case te_db env (tw_tick w) of
        None \<Rightarrow> (Inr (), ttick w)
      | Some m \<Rightarrow> (Inl m, if te_kept env (tw_tick w) then ttick w else treasury_tables before (ttick w)))"

definition trollback :: "treasury_env \<Rightarrow> string \<Rightarrow> 'a treasury_eff" where
  "trollback env e = seqE (tquery env (ret ())) (throw e)"

definition upsert_body :: "treasury_env \<Rightarrow> entry_data \<Rightarrow> int \<Rightarrow> (treasury_entry \<times> bool) treasury_eff" where
  "upsert_body env d now =
     bindE (tquery env (upsert_entry env now d)) (\<lambda>entry.
     bindE (tquery env (insert_initial_state env now d entry)) (\<lambda>created.
       ret (entry, created)))"

definition upsertLedgerEntryWithInitialState ::
  "treasury_env \<Rightarrow> entry_data \<Rightarrow> (treasury_entry \<times> bool) treasury_eff" where
  "upsertLedgerEntryWithInitialState env d =
     sql_transaction (tconnect env) (tbegin env) (tcommit env) (trollback env) treasury_tables (upsert_body env d)"

section \<open>Payout states and reads\<close>

definition or_null :: "string option \<Rightarrow> string option" where
  "or_null x = (if truthy_opt x then x else None)"

definition appendPayoutState ::
  "treasury_env \<Rightarrow> int \<Rightarrow> payout_state \<Rightarrow> string option \<Rightarrow> string option \<Rightarrow> payout_event treasury_eff" where
  "appendPayoutState env entryId state note actor =
     tquery env (\<lambda>w. insert_payout env (te_now env (tw_tick w)) entryId state (or_null note) (or_null actor) w)"

text \<open>\<open>ORDER BY created_at DESC, id DESC LIMIT 1\<close>; the rows are in the order of their ids.\<close>

definition latest_payout :: "int \<Rightarrow> treasury_world \<Rightarrow> payout_event option" where
  "latest_payout entryId w = latest_by po_created_at (payouts_of entryId w)"

definition getLatestPayoutState :: "treasury_env \<Rightarrow> int \<Rightarrow> payout_event option treasury_eff" where
  "getLatestPayoutState env entryId = tquery env (asks (latest_payout entryId))"

definition getLedgerEntryById :: "treasury_env \<Rightarrow> int \<Rightarrow> treasury_entry option treasury_eff" where
  "getLedgerEntryById env entryId =
     tquery env (if int32 entryId then asks (\<lambda>w. row_by le_id entryId (tw_entries w)) else throw (te_violation env))"

record entry_params =
  ep_tradeId :: "string option"
  ep_state :: "payout_state option"
  ep_limit :: int
  ep_offset :: int

text \<open>An entry with its latest state and that state's time; \<open>JOIN LATERAL\<close> drops an entry without one.\<close>

type_synonym stated_entry = "treasury_entry \<times> payout_state \<times> int"

definition stated_entries :: "treasury_world \<Rightarrow> stated_entry list" where
  "stated_entries w =
     List.map_filter (\<lambda>e. map_option (\<lambda>s. (e, po_state s, po_created_at s)) (latest_payout (le_id e) w)) (tw_entries w)"

definition entry_matches :: "entry_params \<Rightarrow> stated_entry \<Rightarrow> bool" where
  "entry_matches p x =
     (case x of (e, state, _) \<Rightarrow>
        (truthy_opt (ep_tradeId p) \<longrightarrow> Some (le_trade_id e) = ep_tradeId p) \<and>
        (ep_state p \<noteq> None \<longrightarrow> Some state = ep_state p))"

definition entries_page :: "entry_params \<Rightarrow> treasury_world \<Rightarrow> stated_entry list" where
  "entries_page p w =
     take (nat (ep_limit p)) (drop (nat (ep_offset p))
       (rev (sort_key (\<lambda>(e, _). (le_created_at e, le_id e)) (filter (entry_matches p) (stated_entries w)))))"

definition getLedgerEntries :: "treasury_env \<Rightarrow> entry_params \<Rightarrow> stated_entry list treasury_eff" where
  "getLedgerEntries env p =
     tquery env (if ep_limit p < 0 \<or> ep_offset p < 0 then throw (te_violation env) else asks (entries_page p))"

end
