(* ===== verification/Treasury_Service.thy ===== *)
theory Treasury_Service imports Main Treasury_Store begin

text \<open>
  The treasury service: the indexer client (\<open>treasury/src/indexer/client.ts\<close>,
  \<open>utils/fetchWithTimeout.ts\<close>), the ingestion run (\<open>core/ingestion.ts\<close>), the payout states
  (\<open>core/payout.ts\<close>), the handlers (\<open>api/controller.ts\<close>) and the routes (\<open>api/routes.ts\<close>).
\<close>

section \<open>The indexer client\<close>

definition fetchWithTimeout :: "treasury_env \<Rightarrow> fetch_outcome \<Rightarrow> string + fetch_outcome" where
  "fetchWithTimeout env r =
     (let network = (\<lambda>m. ''Network request to '' @ te_url env @ '' failed: '' @ m)
      in case r of
           Aborted \<Rightarrow> Inl (''Request to '' @ te_url env @ '' timed out after '' @ show_int (te_timeoutMs env) @ ''ms'')
         | Fetch_error m \<Rightarrow> Inl (network m)
         | Fetch_threw s \<Rightarrow> Inl (network s)
         | Response _ _ _ _ \<Rightarrow> Inr r)"

definition event_of_raw :: "treasury_env \<Rightarrow> raw_event \<Rightarrow> trade_event" where
  "event_of_raw env r =
     \<lparr>ev_id = rv_id r, ev_tradeId = rv_tradeId r, ev_eventName = rv_eventName r, ev_txHash = rv_txHash r,
      ev_extrinsicHash = rv_extrinsicHash r, ev_blockNumber = rv_blockNumber r,
      ev_timestamp = te_date env (rv_timestamp r),
      ev_releasedLogisticsAmount = or_null (rv_releasedLogisticsAmount r),
      ev_paidPlatformFees = or_null (rv_paidPlatformFees r)\<rparr>"

definition treasury_events :: "treasury_env \<Rightarrow> fetch_outcome \<Rightarrow> string + trade_event list" where
  "treasury_events env r =
     (case fetchWithTimeout env r of
        Inr (Response ok status statusText json) \<Rightarrow>
          (if \<not> ok then Inl (''Indexer GraphQL request failed: '' @ show_int status @ '' '' @ statusText)
           else (case json of
                   Inl m \<Rightarrow> Inl m
                 | Inr body \<Rightarrow>
                     (if gb_errors body \<noteq> [] then Inl (''Indexer GraphQL errors: '' @ join_with ''; '' (gb_errors body))
                      else Inr (map (event_of_raw env) (case gb_tradeEvents body of None \<Rightarrow> [] | Some es \<Rightarrow> es)))))
      | Inr _ \<Rightarrow> Inr []
      | Inl m \<Rightarrow> Inl m)"

text \<open>The request is sent, and its offset logged.\<close>

definition asked :: "nat \<Rightarrow> treasury_world \<Rightarrow> treasury_world" where
  "asked offset w = (ttick w)\<lparr>tw_queries := tw_queries w @ [offset]\<rparr>"

definition fetchTreasuryEvents :: "treasury_env \<Rightarrow> nat \<Rightarrow> nat \<Rightarrow> trade_event list treasury_eff" where
  "fetchTreasuryEvents env limit offset w =
     (treasury_events env (te_indexer env (tw_tick w) limit offset), asked offset w)"

section \<open>Ingestion\<close>

definition component_lower :: "treasury_component \<Rightarrow> string" where
  "component_lower c = (case c of LOGISTICS \<Rightarrow> ''logistics'' | PLATFORM_FEE \<Rightarrow> ''platform_fee'')"

definition buildEntryKey :: "string \<Rightarrow> treasury_component \<Rightarrow> string" where
  "buildEntryKey eventId c = eventId @ '':'' @ component_lower c"

definition entry_data_of :: "trade_event \<Rightarrow> treasury_component \<Rightarrow> string \<Rightarrow> string \<Rightarrow> entry_data" where
  "entry_data_of event c txHash amount =
     \<lparr>ud_entryKey = buildEntryKey (ev_id event) c, ud_tradeId = ev_tradeId event, ud_txHash = txHash,
      ud_blockNumber = ev_blockNumber event, ud_eventName = ev_eventName event, ud_componentType = c,
      ud_amountRaw = amount, ud_sourceTimestamp = ev_timestamp event, ud_sourceEventId = ev_id event,
      ud_initialStateNote = None, ud_initialStateActor = None\<rparr>"

text \<open>
  One of the two \<open>if\<close> statements of the loop body.  The result is the new value of \<open>inserted\<close>;
  \<open>None\<close> is \<open>continue\<close>.
\<close>

definition ingest_component ::
  "treasury_env \<Rightarrow> trade_event \<Rightarrow> string \<Rightarrow> treasury_component \<Rightarrow> string option \<Rightarrow> nat \<Rightarrow> nat option treasury_eff" where
  "ingest_component env event name c amount inserted =
     (if ev_eventName event = name \<and> truthy_opt amount
      then (case ev_txHash event of
              Some txHash \<Rightarrow>
                (if truthy txHash
                 then bindE (upsertLedgerEntryWithInitialState env (entry_data_of event c txHash (the amount)))
                        (\<lambda>(_, initialStateCreated). ret (Some (if initialStateCreated then inserted + 1 else inserted)))
                 else ret None)
            | None \<Rightarrow> ret None)
      else ret (Some inserted))"

definition ingest_event :: "treasury_env \<Rightarrow> nat \<times> nat \<Rightarrow> trade_event \<Rightarrow> (nat \<times> nat) treasury_eff" where
  "ingest_event env = (\<lambda>(fetched, inserted) event.
     bindE (ingest_component env event ''FundsReleasedStage1'' LOGISTICS
              (ev_releasedLogisticsAmount event) inserted) (\<lambda>r.
       case r of
         None \<Rightarrow> ret (fetched + 1, inserted)
       | Some inserted' \<Rightarrow>
           bindE (ingest_component env event ''PlatformFeesPaidStage1'' PLATFORM_FEE
                    (ev_paidPlatformFees event) inserted') (\<lambda>r'.
             ret (fetched + 1, case r' of None \<Rightarrow> inserted' | Some inserted'' \<Rightarrow> inserted''))))"

lemma ingest_events_fetched:
  "foldE (ingest_event env) (fetched, inserted) events w = (Inr (fetched', inserted'), w') \<Longrightarrow>
   fetched' = fetched + length events"
proof (induction events arbitrary: fetched inserted w)
  case Nil
  then show ?case by (simp add: ret_app)
next
  case (Cons e es)
  then show ?case
    by (fastforce simp: bindE_app ingest_event_def ret_app split: prod.splits sum.splits option.splits)
qed

text \<open>The \<open>while\<close> loop; the result is the offset and the two counters.\<close>

function ingest_loop :: "treasury_env \<Rightarrow> nat \<Rightarrow> nat \<Rightarrow> nat \<Rightarrow> (nat \<times> nat \<times> nat) treasury_eff" where
  "ingest_loop env offset fetched inserted w =
     (if fetched < te_maxEvents env
      then (let limit = min (te_batchSize env) (te_maxEvents env - fetched)
            in case fetchTreasuryEvents env limit offset w of
                 (Inl e, w1) \<Rightarrow> (Inl e, w1)
               | (Inr events, w1) \<Rightarrow>
                   (if events = [] then (Inr (offset, fetched, inserted), w1)
                    else (case foldE (ingest_event env) (fetched, inserted) events w1 of
                            (Inl e, w2) \<Rightarrow> (Inl e, w2)
                          | (Inr (fetched', inserted'), w2) \<Rightarrow>
                              (if length events < limit
                               then (Inr (offset + length events, fetched', inserted'), w2)
                               else ingest_loop env (offset + length events) fetched' inserted' w2))))
      else (Inr (offset, fetched, inserted), w))"
  by pat_completeness auto
termination
  by (relation "measure (\<lambda>(env, _, fetched, _, _). te_maxEvents env - fetched)")
     (auto dest!: ingest_events_fetched [OF sym] intro!: diff_less_mono2)

declare ingest_loop.simps [simp del]

definition ingestOnce :: "treasury_env \<Rightarrow> (nat \<times> nat) treasury_eff" where
  "ingestOnce env =
     bindE (getIngestionOffset env) (\<lambda>start.
     bindE (ingest_loop env start 0 0) (\<lambda>(offset, fetched, inserted).
     seqE (setIngestionOffset env offset) (ret (fetched, inserted))))"

section \<open>Payout states\<close>

definition ALLOWED_TRANSITIONS :: "payout_state \<Rightarrow> payout_state list" where
  "ALLOWED_TRANSITIONS s =
     (case s of
        PENDING_REVIEW \<Rightarrow> [READY_FOR_PAYOUT, CANCELLED]
      | READY_FOR_PAYOUT \<Rightarrow> [PROCESSING, CANCELLED]
      | PROCESSING \<Rightarrow> [PAID, CANCELLED]
      | PAID \<Rightarrow> []
      | CANCELLED \<Rightarrow> [])"

definition payout_name :: "payout_state \<Rightarrow> string" where
  "payout_name s =
     (case s of PENDING_REVIEW \<Rightarrow> ''PENDING_REVIEW'' | READY_FOR_PAYOUT \<Rightarrow> ''READY_FOR_PAYOUT''
      | PROCESSING \<Rightarrow> ''PROCESSING'' | PAID \<Rightarrow> ''PAID'' | CANCELLED \<Rightarrow> ''CANCELLED'')"

definition assertValidTransition :: "payout_state \<Rightarrow> payout_state \<Rightarrow> string + unit" where
  "assertValidTransition current next_state =
     (if next_state \<in> set (ALLOWED_TRANSITIONS current) then Inr ()
      else Inl (''Invalid payout state transition: '' @ payout_name current @ '' -> '' @ payout_name next_state))"

definition PAYOUT_STATES :: "payout_state list" where
  "PAYOUT_STATES = [PENDING_REVIEW, READY_FOR_PAYOUT, PROCESSING, PAID, CANCELLED]"

definition assertPayoutState :: "string option \<Rightarrow> string + payout_state" where
  "assertPayoutState value =
     (case find (\<lambda>s. Some (payout_name s) = value) PAYOUT_STATES of
        None \<Rightarrow> Inl ''Invalid payout state''
      | Some s \<Rightarrow> Inr s)"

section \<open>Handlers\<close>

datatype treasury_reply =
    Ingested "nat \<times> nat"
  | Entries "stated_entry list"
  | Payout_appended payout_event
  | Csv_file string
  | Healthy
  | Service_ready
  | Failure int string

text \<open>\<open>try { ... } catch (error) { res.status(status).json({ error: error?.message || fallback }) }\<close>\<close>

definition respond ::
  "treasury_reply treasury_eff \<Rightarrow> int \<Rightarrow> string \<Rightarrow> treasury_world \<Rightarrow> treasury_reply \<times> treasury_world" where
  "respond m status fallback w =
     (case m w of
        (Inr r, w') \<Rightarrow> (r, w')
      | (Inl message, w') \<Rightarrow> (Failure status (or_else (Some message) fallback), w'))"

definition ingest_route :: "treasury_env \<Rightarrow> treasury_world \<Rightarrow> treasury_reply \<times> treasury_world" where
  "ingest_route env = respond (bindE (ingestOnce env) (\<lambda>x. ret (Ingested x))) 500 ''Ingestion failed''"

record list_query =
  lq_tradeId :: "string option"
  lq_state :: "string option"
  lq_limit :: "string option"
  lq_offset :: "string option"

definition parse_or :: "string option \<Rightarrow> int \<Rightarrow> int" where
  "parse_or x d = (case x of None \<Rightarrow> d | Some s \<Rightarrow> (case parse_int10 s of None \<Rightarrow> d | Some i \<Rightarrow> i))"

definition listEntries :: "treasury_env \<Rightarrow> list_query \<Rightarrow> treasury_world \<Rightarrow> treasury_reply \<times> treasury_world" where
  "listEntries env q =
     respond
       (bindE (if truthy_opt (lq_state q) then lift (map_sum id Some (assertPayoutState (lq_state q))) else ret None) (\<lambda>state.
        bindE (getLedgerEntries env
                 \<lparr>ep_tradeId = lq_tradeId q, ep_state = state, ep_limit = parse_or (lq_limit q) 50,
                  ep_offset = parse_or (lq_offset q) 0\<rparr>) (\<lambda>entries. ret (Entries entries))))
       400 ''Failed to list entries''"

record append_body =
  ab_state :: "string option"
  ab_note :: "string option"
  ab_actor :: "string option"

text \<open>
  The handler up to its \<open>INSERT\<close> is \<open>appendState_check\<close>: it answers, or it goes on with an entry id
  and a state.  A request without a JSON body has \<open>body = None\<close>.
\<close>

definition appendState_check ::
  "treasury_env \<Rightarrow> string \<Rightarrow> append_body option \<Rightarrow> (treasury_reply + int \<times> payout_state) treasury_eff" where
  "appendState_check env rawEntryId body =
     (case parse_int10 rawEntryId of
        None \<Rightarrow> ret (Inl (Failure 400 ''Invalid entryId''))
      | Some entryId \<Rightarrow>
          bindE (getLedgerEntryById env entryId) (\<lambda>entry.
            case entry of
              None \<Rightarrow> ret (Inl (Failure 404 ''Ledger entry not found''))
            | Some _ \<Rightarrow>
                (case body of
                   None \<Rightarrow> throw ''Cannot read properties of undefined (reading 'state')''
                 | Some b \<Rightarrow>
                     bindE (lift (assertPayoutState (ab_state b))) (\<lambda>requestedState.
                     bindE (getLatestPayoutState env entryId) (\<lambda>latest.
                     seqE (lift (assertValidTransition
                             (case latest of None \<Rightarrow> PENDING_REVIEW | Some p \<Rightarrow> po_state p) requestedState))
                       (ret (Inr (entryId, requestedState))))))))"

definition appendState_insert ::
  "treasury_env \<Rightarrow> append_body option \<Rightarrow> treasury_reply + int \<times> payout_state \<Rightarrow> treasury_reply treasury_eff" where
  "appendState_insert env body checked =
     (case checked of
        Inl r \<Rightarrow> ret r
      | Inr (entryId, requestedState) \<Rightarrow>
          bindE (appendPayoutState env entryId requestedState
                   (Option.bind body ab_note) (Option.bind body ab_actor)) (\<lambda>p. ret (Payout_appended p)))"

definition appendState ::
  "treasury_env \<Rightarrow> string \<Rightarrow> append_body option \<Rightarrow> treasury_world \<Rightarrow> treasury_reply \<times> treasury_world" where
  "appendState env rawEntryId body =
     respond (bindE (appendState_check env rawEntryId body) (appendState_insert env body))
       400 ''Failed to append payout state''"

section \<open>Export\<close>

definition csv_headers :: "string list" where
  "csv_headers = [''id'', ''trade_id'', ''tx_hash'', ''block_number'', ''event_name'', ''component_type'',
     ''amount_raw'', ''latest_state'', ''latest_state_at'', ''created_at'']"

definition component_name :: "treasury_component \<Rightarrow> string" where
  "component_name c = (case c of LOGISTICS \<Rightarrow> ''LOGISTICS'' | PLATFORM_FEE \<Rightarrow> ''PLATFORM_FEE'')"

definition csv_row :: "treasury_env \<Rightarrow> stated_entry \<Rightarrow> string list" where
  "csv_row env x =
     (case x of (e, state, at) \<Rightarrow>
        [show_int (le_id e), le_trade_id e, le_tx_hash e, show_int (le_block_number e), le_event_name e,
         component_name (le_component_type e), le_amount_raw e, payout_name state, te_iso env at,
         te_iso env (le_created_at e)])"

definition newline :: char where
  "newline = CHR 0x0A"

definition toCsv :: "treasury_env \<Rightarrow> stated_entry list \<Rightarrow> string" where
  "toCsv env entries =
     join_with [newline] (join_with '','' csv_headers # map (\<lambda>x. join_with '','' (csv_row env x)) entries)"

definition exportEntries :: "treasury_env \<Rightarrow> string option \<Rightarrow> treasury_world \<Rightarrow> treasury_reply \<times> treasury_world" where
  "exportEntries env format =
     respond
       (bindE (getLedgerEntries env \<lparr>ep_tradeId = None, ep_state = None, ep_limit = 5000, ep_offset = 0\<rparr>) (\<lambda>entries.
          ret (if format = Some ''csv'' then Csv_file (toCsv env entries) else Entries entries)))
       500 ''Failed to export entries''"

section \<open>Routes\<close>

text \<open>\<open>testConnection\<close>: \<open>connect\<close> and \<open>SELECT 1\<close>.\<close>

definition testConnection :: "treasury_env \<Rightarrow> unit treasury_eff" where
  "testConnection env = seqE (tconnect env) (tquery env (ret ()))"

definition ready_route :: "treasury_env \<Rightarrow> treasury_world \<Rightarrow> treasury_reply \<times> treasury_world" where
  "ready_route env w =
     (case testConnection env w of
        (Inr _, w') \<Rightarrow> (Service_ready, w')
      | (Inl _, w') \<Rightarrow> (Failure 503 ''Dependencies not ready'', w'))"

datatype treasury_request =
    Health | Ready | Ingest
  | List_entries list_query
  | Append_state string "append_body option"
  | Export_entries "string option"

definition treasury_route ::
  "treasury_env \<Rightarrow> treasury_request \<Rightarrow> treasury_world \<Rightarrow> treasury_reply \<times> treasury_world" where
  "treasury_route env request w =
     (case request of
        Health \<Rightarrow> (Healthy, w)
      | Ready \<Rightarrow> ready_route env w
      | Ingest \<Rightarrow> ingest_route env w
      | List_entries q \<Rightarrow> listEntries env q w
      | Append_state rawEntryId body \<Rightarrow> appendState env rawEntryId body w
      | Export_entries format \<Rightarrow> exportEntries env format w)"

definition treasury_run :: "treasury_env \<Rightarrow> treasury_request list \<Rightarrow> treasury_world \<Rightarrow> treasury_world" where
  "treasury_run env requests w = fold (\<lambda>r w. snd (treasury_route env r w)) requests w"

end
