(* ===== verification/Treasury_Steps.thy ===== *)
theory Treasury_Steps imports Main Treasury_Service begin

text \<open>
  What a request of the treasury service may do to the tables, as a step relation: nothing, record
  an entry of an indexed event, move an entry to an allowed payout state, or set the cursor.  Every
  request, whatever fails in it, is a sequence of such steps.
\<close>

section \<open>Steps\<close>

definition later :: "treasury_world \<Rightarrow> treasury_world \<Rightarrow> bool" where
  "later w w' \<longleftrightarrow> tw_tick w \<le> tw_tick w' \<and> tw_entry_seq w \<le> tw_entry_seq w' \<and> tw_event_seq w \<le> tw_event_seq w' \<and>
     set (tw_queries w) \<subseteq> set (tw_queries w')"

definition same_treasury :: "treasury_world \<Rightarrow> treasury_world \<Rightarrow> bool" where
  "same_treasury w w' \<longleftrightarrow> later w w' \<and> tw_entries w' = tw_entries w \<and> tw_events w' = tw_events w \<and> tw_offsets w' = tw_offsets w"

lemma later_refl [simp]: "later w w"
  by (simp add: later_def)

lemma later_trans [trans]: "later w w1 \<Longrightarrow> later w1 w2 \<Longrightarrow> later w w2"
  by (auto simp: later_def)

lemma same_tables_refl [simp]: "same_treasury w w"
  by (simp add: same_treasury_def)

lemma same_tables_trans [trans]: "same_treasury w w1 \<Longrightarrow> same_treasury w1 w2 \<Longrightarrow> same_treasury w w2"
  by (auto simp: same_treasury_def intro: later_trans)

lemma same_later: "same_treasury w w' \<Longrightarrow> later w w'"
  by (simp add: same_treasury_def)

lemma ttick_simps [simp]:
  "tw_tick (ttick w) = Suc (tw_tick w)" "tw_entries (ttick w) = tw_entries w" "tw_events (ttick w) = tw_events w"
  "tw_offsets (ttick w) = tw_offsets w" "tw_entry_seq (ttick w) = tw_entry_seq w" "tw_event_seq (ttick w) = tw_event_seq w"
  "tw_queries (ttick w) = tw_queries w"
  by (simp_all add: ttick_def)

lemma asked_simps [simp]:
  "tw_tick (asked n w) = Suc (tw_tick w)" "tw_entries (asked n w) = tw_entries w" "tw_events (asked n w) = tw_events w"
  "tw_offsets (asked n w) = tw_offsets w" "tw_entry_seq (asked n w) = tw_entry_seq w"
  "tw_event_seq (asked n w) = tw_event_seq w" "tw_queries (asked n w) = tw_queries w @ [n]"
  by (simp_all add: asked_def)

lemma same_ttick [simp]: "same_treasury w (ttick w)"
  by (simp add: same_treasury_def later_def)

lemma same_asked [simp]: "same_treasury w (asked n w)"
  by (auto simp: same_treasury_def later_def)

lemma payouts_of_same: "tw_events w' = tw_events w \<Longrightarrow> payouts_of i w' = payouts_of i w"
  by (simp add: payouts_of_def)

definition current_state :: "int \<Rightarrow> treasury_world \<Rightarrow> payout_state" where
  "current_state entryId w = (case latest_payout entryId w of None \<Rightarrow> PENDING_REVIEW | Some p \<Rightarrow> po_state p)"

text \<open>\<open>appends\<close>: a new payout event of an entry, at a time between the two worlds.\<close>

definition appends :: "treasury_env \<Rightarrow> int \<Rightarrow> payout_state \<Rightarrow> treasury_world \<Rightarrow> treasury_world \<Rightarrow> bool" where
  "appends env entryId state w w' \<longleftrightarrow>
     (\<exists>p k. tw_events w' = tw_events w @ [p] \<and> po_ledger_entry_id p = entryId \<and> po_state p = state \<and>
        po_created_at p = te_now env k \<and> tw_tick w \<le> k \<and> k \<le> tw_tick w' \<and>
        tw_event_seq w \<le> po_id p \<and> po_id p < tw_event_seq w')"

definition records :: "treasury_env \<Rightarrow> entry_data \<Rightarrow> treasury_entry \<Rightarrow> treasury_world \<Rightarrow> treasury_world \<Rightarrow> bool" where
  "records env d entry w w' \<longleftrightarrow>
     later w w' \<and> tw_offsets w' = tw_offsets w \<and>
     (\<exists>now t i. ud_sourceTimestamp d = Some t \<and> tw_entry_seq w \<le> i \<and> i < tw_entry_seq w' \<and>
        tw_entries w' = upsert le_entry_key (excluded (new_entry i now d t)) (new_entry i now d t) (tw_entries w)) \<and>
     row_by le_entry_key (ud_entryKey d) (tw_entries w') = Some entry \<and>
     (if payouts_of (le_id entry) w = [] then appends env (le_id entry) PENDING_REVIEW w w' else tw_events w' = tw_events w)"

definition payout_moves :: "treasury_env \<Rightarrow> int \<Rightarrow> payout_state \<Rightarrow> treasury_world \<Rightarrow> treasury_world \<Rightarrow> bool" where
  "payout_moves env entryId state w w' \<longleftrightarrow>
     later w w' \<and> tw_offsets w' = tw_offsets w \<and> tw_entries w' = tw_entries w \<and>
     entryId \<in> le_id ` set (tw_entries w) \<and> state \<in> set (ALLOWED_TRANSITIONS (current_state entryId w)) \<and>
     appends env entryId state w w'"

text \<open>The entries that an event calls for.\<close>

definition due_entries :: "trade_event \<Rightarrow> entry_data list" where
  "due_entries event =
     (if truthy_opt (ev_txHash event)
      then (if ev_eventName event = ''FundsReleasedStage1'' \<and> truthy_opt (ev_releasedLogisticsAmount event)
            then [entry_data_of event LOGISTICS (the (ev_txHash event)) (the (ev_releasedLogisticsAmount event))] else []) @
           (if ev_eventName event = ''PlatformFeesPaidStage1'' \<and> truthy_opt (ev_paidPlatformFees event)
            then [entry_data_of event PLATFORM_FEE (the (ev_txHash event)) (the (ev_paidPlatformFees event))] else [])
      else [])"

definition indexed :: "treasury_env \<Rightarrow> trade_event \<Rightarrow> bool" where
  "indexed env event \<longleftrightarrow>
     (\<exists>t limit offset events. treasury_events env (te_indexer env t limit offset) = Inr events \<and> event \<in> set events)"

inductive treasury_step :: "treasury_env \<Rightarrow> treasury_world \<Rightarrow> treasury_world \<Rightarrow> bool" for env where
  quiet: "same_treasury w w' \<Longrightarrow> treasury_step env w w'"
| record_entry: "indexed env event \<Longrightarrow> d \<in> set (due_entries event) \<Longrightarrow> records env d entry w w' \<Longrightarrow> treasury_step env w w'"
| move: "payout_moves env entryId state w w' \<Longrightarrow> treasury_step env w w'"
| cursor: "same_treasury w w' \<Longrightarrow> treasury_step env w (w'\<lparr>tw_offsets := (tw_offsets w)(INGESTION_CURSOR_NAME \<mapsto> n)\<rparr>)"

abbreviation treasury_steps :: "treasury_env \<Rightarrow> treasury_world \<Rightarrow> treasury_world \<Rightarrow> bool" where
  "treasury_steps env \<equiv> (treasury_step env)\<^sup>*\<^sup>*"

lemma step_later: "treasury_step env w w' \<Longrightarrow> later w w'"
  by (induction rule: treasury_step.induct) (auto simp: same_treasury_def records_def payout_moves_def later_def)

lemma steps_later: "treasury_steps env w w' \<Longrightarrow> later w w'"
  by (induction rule: rtranclp_induct) (auto dest: step_later intro: later_trans)

section \<open>Statements\<close>

lemma state_of_asks [simp]: "state_of (tquery env (asks f) w) = ttick w"
  by (simp add: tquery_def asks_app split: option.splits)

lemma state_of_nothing [simp]: "state_of (tquery env (ret x) w) = ttick w"
  by (simp add: tquery_def ret_app split: option.splits)

lemma tquery_Inr:
  assumes "tquery env stmt w = (Inr x, w')"
  shows "stmt (ttick w) = (Inr x, w')"
  using assms by (simp add: tquery_def split: option.splits)

lemma tquery_state:
  "state_of (tquery env stmt w) = ttick w \<or> state_of (tquery env stmt w) = state_of (stmt (ttick w))"
  by (simp add: tquery_def split: option.splits)

lemma upsert_entry_later: "later w (state_of (upsert_entry env now d w))"
  by (auto simp: upsert_entry_def Let_def later_def split: option.splits)

lemma insert_payout_later: "insert_payout env now i s note actor w = (r, w') \<Longrightarrow> later w w'"
  by (auto simp: insert_payout_def Let_def later_def split: if_splits)

lemma insert_initial_later: "later w (state_of (insert_initial_state env now d entry w))"
  by (auto simp: insert_initial_state_def bindE_app ret_app dest: insert_payout_later split: prod.splits sum.splits)

lemma tquery_later: "(\<And>w. later w (state_of (stmt w))) \<Longrightarrow> later w (state_of (tquery env stmt w))"
  using tquery_state [of env stmt w] same_later [OF same_ttick] by (metis later_trans)

section \<open>The transaction\<close>

interpretation upsert_tx: transactional "tconnect env" "tbegin env" "tcommit env" "trollback env"
  treasury_tables same_treasury later for env
proof unfold_locales
  show "same_treasury w w" for w by simp
  show "same_treasury w w1 \<Longrightarrow> same_treasury w1 w2 \<Longrightarrow> same_treasury w w2" for w w1 w2 by (rule same_tables_trans)
  show "later w w1 \<Longrightarrow> later w1 w2 \<Longrightarrow> later w w2" for w w1 w2 by (rule later_trans)
  show "same_treasury w (state_of (tconnect env w))" for w by (simp add: tconnect_def)
  show "same_treasury w (state_of (tbegin env w))" for w by (simp add: tbegin_def)
  show "later w (state_of (tbegin env w))" for w by (simp add: tbegin_def same_later)
  show "\<exists>e'. result_of (trollback env e w) = Inl e'" for e w
    by (auto simp: trollback_def seqE_app throw_app split: prod.splits sum.splits)
  show "same_treasury w (state_of (trollback env e w))" for e w
    by (cases "tquery env (ret () :: unit treasury_eff) w")
       (auto simp: trollback_def seqE_app throw_app dest: arg_cong [of _ _ snd] split: sum.splits)
  show "later w w1 \<Longrightarrow> same_treasury w (treasury_tables w w1)" for w w1
    by (simp add: same_treasury_def later_def treasury_tables_def)
  show "tcommit env w w1 = (Inr (), w2) \<Longrightarrow> same_treasury w1 w2" for w w1 w2
    by (auto simp: tcommit_def split: option.splits)
  show "tcommit env w w1 = (Inl e, w2) \<Longrightarrow> same_treasury w1 w2 \<or> (later w w1 \<longrightarrow> same_treasury w w2)" for w w1 e w2
    by (auto simp: tcommit_def same_treasury_def later_def treasury_tables_def split: option.splits if_splits)
qed

text \<open>What a statement of the transaction did when it succeeded.\<close>

lemma upsert_entry_Inr:
  assumes "upsert_entry env now d w = (Inr entry, w')"
  obtains t where "ud_sourceTimestamp d = Some t" "tw_entry_seq w' = tw_entry_seq w + 1"
    "tw_entries w' = upsert le_entry_key (excluded (new_entry (tw_entry_seq w) now d t))
       (new_entry (tw_entry_seq w) now d t) (tw_entries w)"
    "row_by le_entry_key (ud_entryKey d) (tw_entries w') = Some entry"
    "tw_events w' = tw_events w" "tw_offsets w' = tw_offsets w" "tw_tick w' = tw_tick w" "tw_event_seq w' = tw_event_seq w"
  using assms by (auto simp: upsert_entry_def Let_def split: option.splits if_splits)

lemma insert_payout_Inr:
  assumes "insert_payout env now i s note actor w = (Inr p, w')"
  shows "tw_events w' = tw_events w @ [p]" "po_ledger_entry_id p = i" "po_state p = s" "po_created_at p = now"
    "po_id p = tw_event_seq w" "tw_event_seq w' = tw_event_seq w + 1" "tw_entries w' = tw_entries w"
    "tw_offsets w' = tw_offsets w" "tw_tick w' = tw_tick w" "tw_entry_seq w' = tw_entry_seq w"
    "i \<in> le_id ` set (tw_entries w)"
  using assms by (auto simp: insert_payout_def Let_def split: if_splits)

lemma insert_initial_Inr:
  assumes "insert_initial_state env now d entry w = (Inr created, w')"
  shows "tw_entries w' = tw_entries w" "tw_offsets w' = tw_offsets w" "tw_tick w' = tw_tick w" "tw_entry_seq w' = tw_entry_seq w"
    "created \<longleftrightarrow> payouts_of (le_id entry) w = []"
    "tw_event_seq w' = tw_event_seq w + (if created then 1 else 0)"
    "if created then \<exists>p. tw_events w' = tw_events w @ [p] \<and> po_ledger_entry_id p = le_id entry \<and>
       po_state p = PENDING_REVIEW \<and> po_created_at p = now \<and> po_id p = tw_event_seq w
     else tw_events w' = tw_events w"
proof -
  from assms have "tw_entries w' = tw_entries w \<and> tw_offsets w' = tw_offsets w \<and> tw_tick w' = tw_tick w \<and>
     tw_entry_seq w' = tw_entry_seq w \<and> (created \<longleftrightarrow> payouts_of (le_id entry) w = []) \<and>
     tw_event_seq w' = tw_event_seq w + (if created then 1 else 0) \<and>
     (if created then \<exists>p. tw_events w' = tw_events w @ [p] \<and> po_ledger_entry_id p = le_id entry \<and>
       po_state p = PENDING_REVIEW \<and> po_created_at p = now \<and> po_id p = tw_event_seq w
      else tw_events w' = tw_events w)"
    by (auto simp: insert_initial_state_def bindE_app ret_app dest: insert_payout_Inr split: if_splits prod.splits sum.splits)
  then show "tw_entries w' = tw_entries w" "tw_offsets w' = tw_offsets w" "tw_tick w' = tw_tick w" "tw_entry_seq w' = tw_entry_seq w"
    "created \<longleftrightarrow> payouts_of (le_id entry) w = []"
    "tw_event_seq w' = tw_event_seq w + (if created then 1 else 0)"
    "if created then \<exists>p. tw_events w' = tw_events w @ [p] \<and> po_ledger_entry_id p = le_id entry \<and>
       po_state p = PENDING_REVIEW \<and> po_created_at p = now \<and> po_id p = tw_event_seq w
     else tw_events w' = tw_events w" by blast+
qed

lemma upsert_body_later: "later w (state_of (upsert_body env d now w))"
proof -
  have 1: "later w (state_of (tquery env (upsert_entry env now d) w))" for w
    by (rule tquery_later) (rule upsert_entry_later)
  have 2: "later w (state_of (tquery env (insert_initial_state env now d entry) w))" for entry w
    by (rule tquery_later) (rule insert_initial_later)
  show ?thesis
    using 1 [of w] 2 by (auto simp: upsert_body_def bindE_app ret_app split: prod.splits sum.splits) (metis later_trans snd_conv)+
qed

lemma upsert_body_records:
  assumes "upsert_body env d now w = (Inr x, w')" and now: "now = te_now env (tw_tick w)"
  shows "records env d (fst x) w w'" "snd x \<longleftrightarrow> payouts_of (le_id (fst x)) w = []"
proof -
  from assms(1) obtain entry w1 created where a: "tquery env (upsert_entry env now d) w = (Inr entry, w1)"
    and c: "tquery env (insert_initial_state env now d entry) w1 = (Inr created, w')" and x: "x = (entry, created)"
    by (auto simp: upsert_body_def bindE_app ret_app split: prod.splits sum.splits)
  note ic = insert_initial_Inr [OF tquery_Inr [OF c]]
  obtain t where t: "ud_sourceTimestamp d = Some t" "tw_entry_seq w1 = tw_entry_seq w + 1"
    "tw_entries w1 = upsert le_entry_key (excluded (new_entry (tw_entry_seq w) now d t))
       (new_entry (tw_entry_seq w) now d t) (tw_entries w)"
    "row_by le_entry_key (ud_entryKey d) (tw_entries w1) = Some entry"
    "tw_events w1 = tw_events w" "tw_offsets w1 = tw_offsets w" "tw_tick w1 = Suc (tw_tick w)" "tw_event_seq w1 = tw_event_seq w"
    by (rule upsert_entry_Inr [OF tquery_Inr [OF a]]) simp
  have p: "payouts_of i (ttick w1) = payouts_of i w" for i using t(5) by (simp add: payouts_of_def)
  show "snd x \<longleftrightarrow> payouts_of (le_id (fst x)) w = []" using ic(5) p x by simp
  have "\<exists>now t i. ud_sourceTimestamp d = Some t \<and> tw_entry_seq w \<le> i \<and> i < tw_entry_seq w' \<and>
      tw_entries w' = upsert le_entry_key (excluded (new_entry i now d t)) (new_entry i now d t) (tw_entries w)"
    using ic(1,4) t by (intro exI [of _ now] exI [of _ t] exI [of _ "tw_entry_seq w"]) simp
  moreover have "if payouts_of (le_id entry) w = [] then appends env (le_id entry) PENDING_REVIEW w w' else tw_events w' = tw_events w"
    using ic(3,5,6,7) p t(5,7,8) now by (auto simp: appends_def intro!: exI [of _ "tw_tick w"])
  moreover have "later w w'" using upsert_body_later [of w env d now] assms(1) by simp
  ultimately show "records env d (fst x) w w'"
    using ic t x by (auto simp: records_def)
qed

lemma records_same:
  assumes "records env d entry w1 w2" "same_treasury w w1" "same_treasury w2 w3"
  shows "records env d entry w w3"
proof -
  from assms obtain now t i where i: "ud_sourceTimestamp d = Some t" "tw_entry_seq w1 \<le> i" "i < tw_entry_seq w2"
    "tw_entries w2 = upsert le_entry_key (excluded (new_entry i now d t)) (new_entry i now d t) (tw_entries w1)"
    by (auto simp: records_def)
  have p: "payouts_of j w1 = payouts_of j w" for j using assms(2) by (simp add: same_treasury_def payouts_of_def)
  have "\<exists>now t i. ud_sourceTimestamp d = Some t \<and> tw_entry_seq w \<le> i \<and> i < tw_entry_seq w3 \<and>
      tw_entries w3 = upsert le_entry_key (excluded (new_entry i now d t)) (new_entry i now d t) (tw_entries w)"
    using i assms(2,3) by (intro exI [of _ now] exI [of _ t] exI [of _ i]) (simp add: same_treasury_def later_def)
  moreover have "appends env j s w1 w2 \<Longrightarrow> appends env j s w w3" for j s
    using assms(2,3) unfolding appends_def same_treasury_def later_def by (elim exE conjE, intro exI conjI) auto
  ultimately show ?thesis
    using assms p by (auto simp: records_def same_treasury_def later_def)
qed

text \<open>The transaction records the entry or leaves the tables as they were.\<close>

lemma upsert_cases:
  assumes "upsertLedgerEntryWithInitialState env d w = (r, w')"
  obtains (undone) "same_treasury w w'" "\<exists>e. r = Inl e"
  | (recorded) entry where "records env d entry w w'"
      "\<And>x. r = Inr x \<Longrightarrow> x = (entry, payouts_of (le_id entry) w = [])"
proof -
  note eq = assms [unfolded upsertLedgerEntryWithInitialState_def]
  note outcome = upsert_tx.all_or_nothing [where env = env and ?w0.0 = w and body = "upsert_body env d",
      OF upsert_body_later, unfolded eq fst_conv snd_conv]
  show thesis
  proof (rule outcome)
    assume "same_treasury w w'" "\<exists>e. r = Inl e"
    then show thesis by (rule undone)
  next
    fix w1 now w2 x w3
    assume w1: "same_treasury w w1" and now: "tbegin env w1 = (Inr now, w2)" and b: "upsert_body env d now w2 = (Inr x, w3)"
      and w3: "same_treasury w3 w'" and r: "r = Inr x \<or> (\<exists>e. r = Inl e)"
    from tquery_Inr [OF now [unfolded tbegin_def]] have now': "now = te_now env (tw_tick w2)" "w2 = ttick w1"
      by (auto simp: asks_app)
    have w2: "same_treasury w w2" using w1 unfolding now'(2) by (rule same_tables_trans) simp
    note body = upsert_body_records [OF b now'(1)]
    have "payouts_of j w2 = payouts_of j w" for j using w2 by (simp add: same_treasury_def payouts_of_def)
    with body(2) r have "y = (fst x, payouts_of (le_id (fst x)) w = [])" if "r = Inr y" for y
      using that by (cases x) auto
    with records_same [OF body(1) w2 w3] show thesis by (rule recorded)
  qed
qed

section \<open>Requests are steps\<close>

lemma keeps_quiet: "(\<And>w. same_treasury w (state_of (m w))) \<Longrightarrow> keeps (treasury_steps env w0) m"
  by (rule keepsI) (metis rtranclp.rtrancl_into_rtrancl treasury_step.quiet)

lemma keeps_upsert:
  assumes "indexed env event" "d \<in> set (due_entries event)"
  shows "keeps (treasury_steps env w0) (upsertLedgerEntryWithInitialState env d)"
proof (rule keepsI)
  fix w assume w: "treasury_steps env w0 w"
  obtain r w' where r: "upsertLedgerEntryWithInitialState env d w = (r, w')" by fastforce
  then have "treasury_step env w w'"
    by (rule upsert_cases) (auto intro: treasury_step.quiet treasury_step.record_entry [OF assms])
  with w r show "treasury_steps env w0 (state_of (upsertLedgerEntryWithInitialState env d w))" by simp
qed

text \<open>An event is skipped, or its one entry is upserted.\<close>

lemma ingest_event_eq:
  "ingest_event env (fetched, inserted) event =
     (case due_entries event of
        [] \<Rightarrow> ret (fetched + 1, inserted)
      | d # _ \<Rightarrow> bindE (upsertLedgerEntryWithInitialState env d)
          (\<lambda>(_, created). ret (fetched + 1, if created then inserted + 1 else inserted)))"
proof (cases "ev_txHash event")
  case None
  then show ?thesis
    by (auto simp: ingest_event_def ingest_component_def due_entries_def truthy_opt_def)
next
  case (Some txHash)
  show ?thesis
  proof (cases "truthy txHash")
    case True
    with Some show ?thesis
      by (auto simp: ingest_event_def ingest_component_def due_entries_def truthy_opt_def truthy_def bindE_assoc
          intro!: arg_cong [of _ _ "bindE _"])
  next
    case False
    with Some show ?thesis
      by (auto simp: ingest_event_def ingest_component_def due_entries_def truthy_opt_def truthy_def)
  qed
qed

lemma keeps_ingest_event:
  assumes "indexed env event"
  shows "keeps (treasury_steps env w0) (ingest_event env acc event)"
proof (cases acc)
  case (Pair fetched inserted)
  show ?thesis
  proof (cases "due_entries event")
    case Nil
    then show ?thesis unfolding Pair ingest_event_eq by (simp add: keeps_ret)
  next
    case (Cons d ds)
    have "keeps (treasury_steps env w0) (upsertLedgerEntryWithInitialState env d)"
      by (rule keeps_upsert [OF assms]) (simp add: Cons)
    with Cons show ?thesis unfolding Pair ingest_event_eq by (auto intro!: keeps_rules)
  qed
qed

lemma fetched_indexed:
  "fetchTreasuryEvents env limit offset w = (Inr events, w') \<Longrightarrow> event \<in> set events \<Longrightarrow> indexed env event"
  unfolding fetchTreasuryEvents_def indexed_def by blast

lemma fetch_state: "fetchTreasuryEvents env limit offset w = (r, w') \<Longrightarrow> w' = asked offset w"
  by (simp add: fetchTreasuryEvents_def)

lemma ingest_loop_keeps:
  "P w \<Longrightarrow> (\<And>n w. P w \<Longrightarrow> P (asked n w)) \<Longrightarrow>
   (\<And>event acc. indexed env event \<Longrightarrow> keeps P (ingest_event env acc event)) \<Longrightarrow>
   P (state_of (ingest_loop env offset fetched inserted w))"
proof (induction env offset fetched inserted w rule: ingest_loop.induct)
  case (1 env offset fetched inserted w)
  show ?case
  proof (cases "fetched < te_maxEvents env")
    case False
    with 1(2) show ?thesis by (simp add: ingest_loop.simps)
  next
    case more: True
    obtain r w1 where f: "fetchTreasuryEvents env (min (te_batchSize env) (te_maxEvents env - fetched)) offset w = (r, w1)"
      by fastforce
    have w1: "P w1" using 1(2,3) unfolding fetch_state [OF f] by blast
    show ?thesis
    proof (cases r)
      case (Inl e)
      with more f w1 show ?thesis by (simp add: ingest_loop.simps)
    next
      case events: (Inr events)
      obtain r2 w2 where g: "foldE (ingest_event env) (fetched, inserted) events w1 = (r2, w2)" by fastforce
      have "keeps P (foldE (ingest_event env) (fetched, inserted) events)"
        using fetched_indexed [OF f [unfolded events]] by (intro keeps_foldE 1(4))
      from keepsD [OF this w1] g have w2: "P w2" by simp
      show ?thesis
        using more f events g w1 w2 1(1) [OF more refl f [symmetric] events _ g [symmetric]] 1(3,4)
        by (subst ingest_loop.simps) (auto simp: Let_def split: sum.splits)
    qed
  qed
qed

lemma steps_ttick: "treasury_steps env w0 w \<Longrightarrow> treasury_steps env w0 (ttick w)"
  by (rule rtranclp.rtrancl_into_rtrancl) (auto intro: treasury_step.quiet)

lemma steps_asked: "treasury_steps env w0 w \<Longrightarrow> treasury_steps env w0 (asked n w)"
  by (rule rtranclp.rtrancl_into_rtrancl) (auto intro: treasury_step.quiet)

lemma ingest_loop_steps:
  "treasury_steps env w0 w \<Longrightarrow> treasury_steps env w0 (state_of (ingest_loop env offset fetched inserted w))"
  by (rule ingest_loop_keeps [where P = "treasury_steps env w0"]) (auto intro: steps_asked keeps_ingest_event)

lemma keeps_tquery:
  assumes "keeps P stmt" "\<And>w. P w \<Longrightarrow> P (ttick w)"
  shows "keeps P (tquery env stmt)"
  using assms by (auto simp: keeps_def tquery_def split: option.splits)

lemma keeps_read [keeps_rules]: "keeps (treasury_steps env w0) (tquery env (asks f))"
  by (intro keeps_tquery keeps_asks steps_ttick)

lemma steps_cursor:
  "treasury_steps env w0 w \<Longrightarrow> treasury_steps env w0 (w\<lparr>tw_offsets := (tw_offsets w)(INGESTION_CURSOR_NAME \<mapsto> n)\<rparr>)"
  by (rule rtranclp.rtrancl_into_rtrancl) (auto intro: treasury_step.cursor)

lemma keeps_getIngestionOffset: "keeps (treasury_steps env w0) (getIngestionOffset env)"
  unfolding getIngestionOffset_def
  by (intro keeps_rules keeps_tquery keeps_change) (auto intro: steps_ttick steps_cursor split: option.splits)

lemma keeps_setIngestionOffset: "keeps (treasury_steps env w0) (setIngestionOffset env n)"
  unfolding setIngestionOffset_def
  by (intro keeps_tquery keepsI) (auto intro: steps_ttick steps_cursor)

lemma keeps_ingestOnce: "keeps (treasury_steps env w0) (ingestOnce env)"
  unfolding ingestOnce_def
  by (intro keeps_rules keeps_getIngestionOffset keeps_setIngestionOffset)
    (rule keepsI, rule ingest_loop_steps)

lemma respond_state: "snd (respond m status fallback w) = state_of (m w)"
  by (auto simp: respond_def split: prod.splits sum.splits)

lemma reads_quiet:
  "same_treasury w (state_of (getLedgerEntries env p w))"
  "same_treasury w (state_of (getLatestPayoutState env i w))"
  "same_treasury w (state_of (getLedgerEntryById env i w))"
  "same_treasury w (state_of (testConnection env w))"
  by (auto simp: getLedgerEntries_def getLatestPayoutState_def getLedgerEntryById_def testConnection_def tconnect_def
      tquery_def throw_app asks_app seqE_app ret_app split: option.splits prod.splits sum.splits intro: same_tables_trans [OF same_ttick same_ttick])

text \<open>The check of a payout request reads; when it goes on, the transition is allowed.\<close>

lemma appendState_check_quiet: "same_treasury w (state_of (appendState_check env raw body w))"
proof -
  have keeps: "keeps (same_treasury w) (appendState_check env raw body)"
    unfolding appendState_check_def
    by (intro keeps_rules) (auto intro!: keepsI intro: same_tables_trans [OF _ reads_quiet(2)] same_tables_trans [OF _ reads_quiet(3)])
  show ?thesis by (rule keepsD [OF keeps]) simp
qed

lemma appendState_check_Inr:
  assumes "appendState_check env raw body w = (Inr (Inr (i, s)), w')"
  shows "i \<in> le_id ` set (tw_entries w)" "s \<in> set (ALLOWED_TRANSITIONS (current_state i w))"
proof -
  obtain e b w1 w2 latest where w1: "getLedgerEntryById env i w = (Inr (Some e), w1)"
    and latest: "getLatestPayoutState env i w1 = (Inr latest, w2)"
    and s: "assertValidTransition (case latest of None \<Rightarrow> PENDING_REVIEW | Some p \<Rightarrow> po_state p) s = Inr ()"
    using assms unfolding appendState_check_def
    by (auto simp: bindE_app seqE_app lift_app ret_app throw_app split: option.splits prod.splits sum.splits)
  have "row_by le_id i (tw_entries w) = Some e"
    using tquery_Inr [OF w1 [unfolded getLedgerEntryById_def]] by (auto simp: asks_app throw_app split: if_splits)
  from row_by_Some [OF this] show "i \<in> le_id ` set (tw_entries w)" by force
  have e: "tw_events w1 = tw_events w"
    using reads_quiet(3) [of w env i] w1 by (simp add: same_treasury_def)
  have "latest = latest_payout i w"
    using tquery_Inr [OF latest [unfolded getLatestPayoutState_def]] e by (simp add: asks_app latest_payout_def payouts_of_def)
  with s show "s \<in> set (ALLOWED_TRANSITIONS (current_state i w))"
    by (simp add: assertValidTransition_def current_state_def split: if_splits)
qed

lemma insert_payout_state:
  "state_of (insert_payout env now i s note actor w) =
     w\<lparr>tw_event_seq := tw_event_seq w + 1,
       tw_events := tw_events w @ (if fst (insert_payout env now i s note actor w) = Inl (te_violation env) then []
         else [\<lparr>po_id = tw_event_seq w, po_ledger_entry_id = i, po_state = s, po_note = note, po_actor = actor, po_created_at = now\<rparr>])\<rparr>"
  by (simp add: insert_payout_def Let_def)

lemma appendPayoutState_cases:
  fixes env i s comment actor w
  defines "w' \<equiv> state_of (appendPayoutState env i s comment actor w)"
  shows "same_treasury w w' \<or>
    later w w' \<and> tw_offsets w' = tw_offsets w \<and> tw_entries w' = tw_entries w \<and> appends env i s w w'"
proof -
  let ?x = "state_of (insert_payout env (te_now env (tw_tick (ttick w))) i s (or_null comment) (or_null actor) (ttick w))"
  have "w' = ttick w \<or> w' = ?x"
    using tquery_state [of env "\<lambda>w. insert_payout env (te_now env (tw_tick w)) i s (or_null comment) (or_null actor) w" w]
    unfolding w'_def appendPayoutState_def by simp
  moreover have "same_treasury w ?x \<or> later w ?x \<and> tw_offsets ?x = tw_offsets w \<and> tw_entries ?x = tw_entries w \<and> appends env i s w ?x"
    by (auto simp: insert_payout_state same_treasury_def later_def appends_def)
  ultimately show ?thesis by auto
qed

lemma appendState_cases:
  fixes env raw body w
  defines "w' \<equiv> snd (appendState env raw body w)"
  obtains (quiet) "same_treasury w w'" | (move) i s where "payout_moves env i s w w'"
proof -
  obtain r w1 where c: "appendState_check env raw body w = (r, w1)" by fastforce
  have w1: "same_treasury w w1" using appendState_check_quiet [of w env raw body] c by simp
  have w': "w' = state_of (bindE (appendState_check env raw body) (appendState_insert env body) w)"
    by (simp add: w'_def appendState_def respond_state)
  show thesis
  proof (cases "\<exists>i s. r = Inr (Inr (i, s))")
    case True
    then obtain i s where r: "r = Inr (Inr (i, s))" by blast
    note ok = appendState_check_Inr [OF c [unfolded r]]
    have "w' = state_of (appendPayoutState env i s (Option.bind body ab_note) (Option.bind body ab_actor) w1)"
      using c r by (auto simp: w' bindE_app appendState_insert_def ret_app split: prod.splits sum.splits)
    with appendPayoutState_cases [of w1 env i s "Option.bind body ab_note" "Option.bind body ab_actor"]
    consider "same_treasury w1 w'"
      | "later w1 w'" "tw_offsets w' = tw_offsets w1" "tw_entries w' = tw_entries w1" "appends env i s w1 w'" by auto
    then show thesis
    proof cases
      case 1
      with w1 show thesis by (blast intro: quiet same_tables_trans)
    next
      case 2
      have "appends env i s w w'"
        using 2(4) w1 unfolding appends_def same_treasury_def later_def by (elim exE conjE, intro exI conjI) auto
      with 2 w1 ok show thesis
        by (intro move [of i s]) (auto simp: payout_moves_def same_treasury_def later_def)
    qed
  next
    case False
    then have "w' = w1" using c by (auto simp: w' bindE_app appendState_insert_def ret_app split: sum.splits)
    with w1 show thesis by (intro quiet) simp
  qed
qed

text \<open>Every request but \<open>Ingest\<close> payout_moves one entry at most.\<close>

lemma other_request:
  assumes "request \<noteq> Ingest"
  obtains (quiet) "same_treasury w (snd (treasury_route env request w))"
  | (move) i s where "payout_moves env i s w (snd (treasury_route env request w))"
proof (cases request)
  case Health
  then show thesis by (intro quiet) (simp add: treasury_route_def)
next
  case Ready
  then show thesis using reads_quiet(4) [of w env]
    by (intro quiet) (auto simp: treasury_route_def ready_route_def split: prod.splits sum.splits)
next
  case (List_entries q)
  then show thesis using reads_quiet(1) [of w env]
    by (intro quiet)
      (auto simp: treasury_route_def listEntries_def respond_state bindE_app lift_app ret_app split: prod.splits sum.splits;
       metis snd_conv)
next
  case (Export_entries f)
  then show thesis using reads_quiet(1) [of w env]
    by (intro quiet)
      (auto simp: treasury_route_def exportEntries_def respond_state bindE_app ret_app split: prod.splits sum.splits;
       metis snd_conv)
next
  case (Append_state raw body)
  then have eq: "treasury_route env request w = appendState env raw body w" by (simp add: treasury_route_def)
  show thesis
    by (rule appendState_cases [of w env raw body]) (use quiet move eq in \<open>simp_all\<close>)
qed (use assms in simp)

lemma request_steps: "treasury_steps env w (snd (treasury_route env request w))"
proof (cases "request = Ingest")
  case True
  then have "snd (treasury_route env request w) = state_of (ingestOnce env w)"
    by (auto simp: treasury_route_def ingest_route_def respond_state bindE_app ret_app split: prod.splits sum.splits)
  moreover have "treasury_steps env w (state_of (ingestOnce env w))" by (rule keepsD [OF keeps_ingestOnce]) simp
  ultimately show ?thesis by simp
next
  case False
  then show ?thesis
    by (rule other_request [where w = w and env = env]) (auto intro: treasury_step.quiet treasury_step.move)
qed

lemma run_steps: "treasury_steps env w (treasury_run env requests w)"
  unfolding treasury_run_def
  by (induction requests arbitrary: w) (auto intro: rtranclp_trans request_steps)

end
