(* ===== verification/Treasury_Invariant.thy ===== *)
theory Treasury_Invariant imports Main Treasury_Steps begin

text \<open>
  The invariant of the treasury tables and its proof over the steps: keys and ids are unique, payout
  events refer to entries and are in the order of their times, and the payout states of an entry are
  a path of the state machine from \<open>PENDING_REVIEW\<close>.
\<close>

definition payout_path :: "payout_state list \<Rightarrow> bool" where
  "payout_path states \<longleftrightarrow>
     states \<noteq> [] \<and> hd states = PENDING_REVIEW \<and> successively (\<lambda>s s'. s' \<in> set (ALLOWED_TRANSITIONS s)) states"

definition treasury_inv :: "treasury_env \<Rightarrow> treasury_world \<Rightarrow> bool" where
  "treasury_inv env w \<longleftrightarrow>
     distinct (map le_entry_key (tw_entries w)) \<and> distinct (map le_id (tw_entries w)) \<and>
     (\<forall>e \<in> set (tw_entries w). le_id e < tw_entry_seq w) \<and>
     sorted (map po_created_at (tw_events w)) \<and>
     (\<forall>p \<in> set (tw_events w). po_created_at p \<le> te_now env (tw_tick w) \<and> po_id p < tw_event_seq w \<and>
        po_ledger_entry_id p \<in> le_id ` set (tw_entries w)) \<and>
     sorted_wrt (<) (map po_id (tw_events w)) \<and>
     (\<forall>e \<in> set (tw_entries w). payout_path (map po_state (payouts_of (le_id e) w)))"

lemma payout_path_first [simp]: "payout_path [PENDING_REVIEW]"
  by (simp add: payout_path_def)

lemma payout_path_append:
  "payout_path states \<Longrightarrow> s \<in> set (ALLOWED_TRANSITIONS (last states)) \<Longrightarrow> payout_path (states @ [s])"
  by (auto simp: payout_path_def successively_append_iff)

lemma latest_is_last:
  assumes "sorted (map po_created_at (tw_events w))" "payouts_of i w \<noteq> []"
  shows "latest_payout i w = Some (last (payouts_of i w))"
proof -
  obtain ps p where ps: "payouts_of i w = ps @ [p]" using assms(2) by (metis rev_exhaust)
  have "sorted (map po_created_at (ps @ [p]))"
    using assms(1) unfolding ps [symmetric] payouts_of_def by (rule sorted_filter)
  then show ?thesis unfolding latest_payout_def ps by (simp add: latest_by_append sorted_append)
qed

lemma payouts_of_append:
  assumes "tw_events w' = tw_events w @ [p]"
  shows "payouts_of i w' = payouts_of i w @ (if po_ledger_entry_id p = i then [p] else [])"
  using assms by (simp add: payouts_of_def)

lemma upsert_rows:
  obtains (new) "key r \<notin> key ` set rows" "upsert key f r rows = rows @ [r]"
  | (old) q where "q \<in> set rows" "key q = key r" "upsert key f r rows = update_where (\<lambda>q. key q = key r) f rows"
proof (cases "key r \<in> key ` set rows")
  case True
  then obtain q where "q \<in> set rows" "key q = key r" by force
  moreover have "upsert key f r rows = update_where (\<lambda>q. key q = key r) f rows"
    unfolding upsert_def if_P [OF True] ..
  ultimately show ?thesis by (rule old)
next
  case False
  then show ?thesis by (intro new) (simp_all add: upsert_def)
qed

text \<open>A in_ledger entry is a new one without payout events, or the row of its key with new columns.\<close>

lemma records_cases:
  assumes inv: "treasury_inv env w" and rec: "records env d entry w w'"
  obtains (new) "tw_entries w' = tw_entries w @ [entry]" "le_id entry \<notin> le_id ` set (tw_entries w)"
      "le_id entry < tw_entry_seq w'" "payouts_of (le_id entry) w = []" "appends env (le_id entry) PENDING_REVIEW w w'"
      "ud_entryKey d \<notin> le_entry_key ` set (tw_entries w)"
  | (old) r where "tw_entries w' = update_where (\<lambda>e. le_entry_key e = le_entry_key r) (excluded r) (tw_entries w)"
      "tw_events w' = tw_events w" "le_entry_key r = ud_entryKey d" "le_id entry \<in> le_id ` set (tw_entries w)"
      "payouts_of (le_id entry) w \<noteq> []"
proof -
  obtain now t i where r: "ud_sourceTimestamp d = Some t" "tw_entry_seq w \<le> i" "i < tw_entry_seq w'"
    "tw_entries w' = upsert le_entry_key (excluded (new_entry i now d t)) (new_entry i now d t) (tw_entries w)"
    using rec by (auto simp: records_def)
  let ?r = "new_entry i now d t"
  have row: "row_by le_entry_key (ud_entryKey d) (tw_entries w') = Some entry" using rec by (simp add: records_def)
  have k: "le_entry_key ?r = ud_entryKey d" by (simp add: new_entry_def)
  show thesis
  proof (cases rule: upsert_rows [where key = le_entry_key and r = ?r and f = "excluded ?r" and rows = "tw_entries w"])
    case new
    have "entry = ?r" using row new k unfolding r(4) by (auto simp: row_by_append row_by_Cons row_by_None [THEN iffD2])
    then have i: "le_id entry = i" by (simp add: new_entry_def)
    have fresh: "i \<notin> le_id ` set (tw_entries w)" using inv r(2) by (force simp: treasury_inv_def)
    then have p: "payouts_of i w = []" using inv by (auto simp: treasury_inv_def payouts_of_def filter_empty_conv)
    show thesis
      by (rule that(1)) (use new r i fresh p rec k \<open>entry = ?r\<close> in \<open>simp_all add: records_def\<close>)
  next
    case (old q)
    have "entry \<in> set (tw_entries w')" using row by (blast dest: row_by_Some)
    then obtain e where e: "e \<in> set (tw_entries w)" "le_id entry = le_id e"
      unfolding r(4) old(3) by (auto simp: set_update_where excluded_def)
    with inv have "payouts_of (le_id entry) w \<noteq> []" by (auto simp: treasury_inv_def payout_path_def)
    then show thesis
      by (intro that(2) [of ?r]) (use old r k e rec in \<open>auto simp: records_def\<close>)
  qed
qed

lemma inv_appended:
  assumes inv: "treasury_inv env w" and mono: "mono (te_now env)" and app: "appends env i s w w'"
    and later: "later w w'" and ids: "i \<in> le_id ` set (tw_entries w')" "le_id ` set (tw_entries w) \<subseteq> le_id ` set (tw_entries w')"
  shows "sorted (map po_created_at (tw_events w'))" "sorted_wrt (<) (map po_id (tw_events w'))"
    "\<forall>p \<in> set (tw_events w'). po_created_at p \<le> te_now env (tw_tick w') \<and> po_id p < tw_event_seq w' \<and>
        po_ledger_entry_id p \<in> le_id ` set (tw_entries w')"
proof -
  obtain p k where p: "tw_events w' = tw_events w @ [p]" "po_ledger_entry_id p = i" "po_created_at p = te_now env k"
    "tw_tick w \<le> k" "k \<le> tw_tick w'" "tw_event_seq w \<le> po_id p" "po_id p < tw_event_seq w'"
    using app by (auto simp: appends_def)
  have t: "te_now env (tw_tick w) \<le> te_now env k" "te_now env k \<le> te_now env (tw_tick w')"
    using mono p(4,5) by (auto dest: monoD)
  show "sorted (map po_created_at (tw_events w'))"
    using inv t(1) p(1,3) by (fastforce simp: treasury_inv_def sorted_append)
  show "sorted_wrt (<) (map po_id (tw_events w'))"
    using inv p(1,6) by (fastforce simp: treasury_inv_def sorted_wrt_append)
  show "\<forall>p \<in> set (tw_events w'). po_created_at p \<le> te_now env (tw_tick w') \<and> po_id p < tw_event_seq w' \<and>
        po_ledger_entry_id p \<in> le_id ` set (tw_entries w')"
    using inv t p(1,2,3,7) ids later by (fastforce simp: treasury_inv_def later_def)
qed

lemma inv_bounds_later:
  assumes inv: "treasury_inv env w" and mono: "mono (te_now env)" and later: "later w w'"
  shows "p \<in> set (tw_events w) \<Longrightarrow> po_created_at p \<le> te_now env (tw_tick w')"
    "p \<in> set (tw_events w) \<Longrightarrow> po_id p < tw_event_seq w'"
    "e \<in> set (tw_entries w) \<Longrightarrow> le_id e < tw_entry_seq w'"
proof -
  have t: "te_now env (tw_tick w) \<le> te_now env (tw_tick w')" using mono later by (auto simp: later_def dest: monoD)
  show "p \<in> set (tw_events w) \<Longrightarrow> po_created_at p \<le> te_now env (tw_tick w')"
    using inv order_trans [OF _ t, of "po_created_at p"] by (auto simp: treasury_inv_def)
  show "p \<in> set (tw_events w) \<Longrightarrow> po_id p < tw_event_seq w'"
    using inv later by (auto simp: treasury_inv_def later_def)
  show "e \<in> set (tw_entries w) \<Longrightarrow> le_id e < tw_entry_seq w'"
    using inv later by (auto simp: treasury_inv_def later_def)
qed

lemma inv_records:
  assumes inv: "treasury_inv env w" and mono: "mono (te_now env)" and rec: "records env d entry w w'"
  shows "treasury_inv env w'"
proof -
  have later: "later w w'" using rec by (simp add: records_def)
  show ?thesis using inv rec
  proof (cases rule: records_cases)
    case new
    note app = inv_appended [OF inv mono new(5) later]
    have key: "le_entry_key entry = ud_entryKey d" using rec by (auto simp: records_def dest: row_by_Some)
    obtain p where p: "tw_events w' = tw_events w @ [p]" "po_ledger_entry_id p = le_id entry" "po_state p = PENDING_REVIEW"
      using new(5) by (auto simp: appends_def)
    have "payout_path (map po_state (payouts_of (le_id e) w'))" if "e \<in> set (tw_entries w')" for e
    proof (cases "e = entry")
      case True
      then show ?thesis using new(4) p by (simp add: payouts_of_append [OF p(1)])
    next
      case False
      with that new(1) have e: "e \<in> set (tw_entries w)" by simp
      with new(2) have "le_id e \<noteq> le_id entry" by (metis imageI)
      with e inv p(2) show ?thesis by (auto simp: payouts_of_append [OF p(1)] treasury_inv_def)
    qed
    then show ?thesis
      using inv new(1,2,3,6) key later app unfolding treasury_inv_def by (auto simp: later_def)
  next
    case (old r)
    have keys: "map le_entry_key (tw_entries w') = map le_entry_key (tw_entries w)"
      unfolding old(1) update_where_def by (simp add: excluded_def)
    have ids: "map le_id (tw_entries w') = map le_id (tw_entries w)"
      unfolding old(1) by (rule map_update_where) (simp add: excluded_def)
    then have id_set: "le_id ` set (tw_entries w') = le_id ` set (tw_entries w)" by (metis set_map)
    have p: "payouts_of i w' = payouts_of i w" for i using old(2) by (rule payouts_of_same)
    have paths: "payout_path (map po_state (payouts_of j w'))" if "j \<in> le_id ` set (tw_entries w)" for j
      using inv that p by (auto simp: treasury_inv_def)
    have fresh: "j < tw_entry_seq w'" if "j \<in> le_id ` set (tw_entries w)" for j
      using inv_bounds_later(3) [OF inv mono later] that by auto
    have "payout_path (map po_state (payouts_of (le_id e) w')) \<and> le_id e < tw_entry_seq w'" if "e \<in> set (tw_entries w')" for e
      using paths fresh imageI [OF that, of le_id] unfolding id_set by blast
    then show ?thesis
      using inv inv_bounds_later(1,2) [OF inv mono later] unfolding treasury_inv_def keys ids old(2) id_set by simp
  qed
qed

lemma inv_moves:
  assumes inv: "treasury_inv env w" and mono: "mono (te_now env)" and mv: "payout_moves env i s w w'"
  shows "treasury_inv env w'"
proof -
  have later: "later w w'" and e: "tw_entries w' = tw_entries w" and i: "i \<in> le_id ` set (tw_entries w)"
    and s: "s \<in> set (ALLOWED_TRANSITIONS (current_state i w))" and app: "appends env i s w w'"
    using mv by (auto simp: payout_moves_def)
  obtain p where p: "tw_events w' = tw_events w @ [p]" "po_ledger_entry_id p = i" "po_state p = s"
    using app by (auto simp: appends_def)
  have path: "payout_path (map po_state (payouts_of j w))" if "j \<in> le_id ` set (tw_entries w)" for j
    using inv that by (auto simp: treasury_inv_def)
  then have ne: "payouts_of i w \<noteq> []" using i by (fastforce simp: payout_path_def)
  have "current_state i w = last (map po_state (payouts_of i w))"
    using latest_is_last [OF _ ne] inv ne by (simp add: current_state_def treasury_inv_def last_map)
  with s path [OF i] have "payout_path (map po_state (payouts_of i w) @ [s])" by (auto intro: payout_path_append)
  then have "payout_path (map po_state (payouts_of j w'))" if "j \<in> le_id ` set (tw_entries w)" for j
    using path [OF that] p(2,3) by (auto simp: payouts_of_append [OF p(1)])
  with inv later e inv_appended [OF inv mono app later] i show ?thesis
    unfolding treasury_inv_def by (auto simp: later_def)
qed

lemma inv_same:
  assumes inv: "treasury_inv env w" and mono: "mono (te_now env)" and later: "later w w'"
    and same: "tw_entries w' = tw_entries w" "tw_events w' = tw_events w"
  shows "treasury_inv env w'"
proof -
  have "payouts_of i w' = payouts_of i w" for i using same(2) by (rule payouts_of_same)
  then show ?thesis
    using inv inv_bounds_later [OF inv mono later] unfolding treasury_inv_def same by simp
qed

lemma inv_step: "treasury_step env w w' \<Longrightarrow> treasury_inv env w \<Longrightarrow> mono (te_now env) \<Longrightarrow> treasury_inv env w'"
proof (induction rule: treasury_step.induct)
  case (cursor w w' n)
  then show ?case by - (rule inv_same [of env w], auto simp: same_treasury_def later_def)
next
  case (quiet w w')
  then show ?case by - (rule inv_same [of env w], simp_all add: same_treasury_def)
next
  case (record_entry event d entry w w')
  then show ?case by - (rule inv_records [of env w])
next
  case (move entryId state w w')
  then show ?case by - (rule inv_moves [of env w])
qed

lemma inv_steps: "treasury_steps env w w' \<Longrightarrow> treasury_inv env w \<Longrightarrow> mono (te_now env) \<Longrightarrow> treasury_inv env w'"
  by (induction rule: rtranclp_induct) (auto intro: inv_step)

lemma inv_empty: "treasury_inv env empty_treasury"
  by (simp add: treasury_inv_def empty_treasury_def)

lemma inv_run: "mono (te_now env) \<Longrightarrow> treasury_inv env (treasury_run env requests empty_treasury)"
  by (rule inv_steps [OF run_steps inv_empty])

section \<open>Paths of the state machine\<close>

lemma paid_path:
  assumes "payout_path states" "PAID \<in> set states"
  shows "states = [PENDING_REVIEW, READY_FOR_PAYOUT, PROCESSING, PAID]"
proof -
  have tails: "successively (\<lambda>s s'. s' \<in> set (ALLOWED_TRANSITIONS s)) (a # xs) \<Longrightarrow> a \<in> {PAID, CANCELLED} \<Longrightarrow> xs = []" for a xs
    by (cases xs) (auto simp: ALLOWED_TRANSITIONS_def)
  obtain xs where xs: "states = PENDING_REVIEW # xs" using assms(1) by (cases states) (auto simp: payout_path_def)
  obtain y ys where ys: "xs = y # ys" using assms(2) xs by (cases xs) auto
  then have y: "y = READY_FOR_PAYOUT \<or> y = CANCELLED" using assms(1) xs by (auto simp: payout_path_def ALLOWED_TRANSITIONS_def)
  then have y': "y = READY_FOR_PAYOUT" using assms xs ys tails [of y ys] by (auto simp: payout_path_def)
  then obtain z zs where zs: "ys = z # zs" using assms(2) xs ys by (cases ys) auto
  then have z: "z = PROCESSING \<or> z = CANCELLED" using assms(1) xs ys y' by (auto simp: payout_path_def ALLOWED_TRANSITIONS_def)
  then have z': "z = PROCESSING" using assms xs ys y' zs tails [of z zs] by (auto simp: payout_path_def)
  then obtain v vs where vs: "zs = v # vs" using assms(2) xs ys y' zs by (cases zs) auto
  then have "v \<in> {PAID, CANCELLED}" "vs = []"
    using assms(1) xs ys y' zs z' tails [of v vs] by (auto simp: payout_path_def ALLOWED_TRANSITIONS_def)
  with assms(2) xs ys y' zs z' vs show ?thesis by auto
qed

end
