(* ===== verification/Treasury_Coverage.thy ===== *)
theory Treasury_Coverage
  imports Main Treasury_Invariant "HOL-Library.Sublist" "HOL-Library.Multiset"
begin

text \<open>
  The ledger against the indexer: every ledger entry carries the data of an indexed event.  The query
  of the treasury orders the events by their block only, so the events of one block come in any order,
  which may differ from page to page; then every event below the cursor has its entries when no page
  began inside its block.
\<close>

section \<open>Entries come from events\<close>

definition entry_of :: "entry_data \<Rightarrow> treasury_entry \<Rightarrow> bool" where
  "entry_of d e \<longleftrightarrow>
     le_entry_key e = ud_entryKey d \<and> le_trade_id e = ud_tradeId d \<and> le_tx_hash e = ud_txHash d \<and>
     le_block_number e = ud_blockNumber d \<and> le_event_name e = ud_eventName d \<and>
     le_component_type e = ud_componentType d \<and> le_amount_raw e = ud_amountRaw d \<and>
     Some (le_source_timestamp e) = ud_sourceTimestamp d \<and> le_sourceEventId e = ud_sourceEventId d"

definition in_ledger :: "entry_data \<Rightarrow> treasury_world \<Rightarrow> bool" where
  "in_ledger d w \<longleftrightarrow> (\<exists>e \<in> set (tw_entries w). entry_of d e)"

lemma records_entries:
  assumes "records env d entry w w'"
  shows "e \<in> set (tw_entries w') \<Longrightarrow> entry_of d e \<or> e \<in> set (tw_entries w)"
    and "e \<in> set (tw_entries w) \<Longrightarrow> le_entry_key e \<noteq> ud_entryKey d \<Longrightarrow> e \<in> set (tw_entries w')"
    and "in_ledger d w'"
proof -
  obtain now t i where t: "ud_sourceTimestamp d = Some t"
    and w': "tw_entries w' = upsert le_entry_key (excluded (new_entry i now d t)) (new_entry i now d t) (tw_entries w)"
    using assms by (auto simp: records_def)
  let ?r = "new_entry i now d t"
  have r: "entry_of d ?r" "entry_of d (excluded ?r q)" "le_entry_key ?r = ud_entryKey d" for q
    using t by (simp_all add: entry_of_def new_entry_def excluded_def)
  show from_d: "entry_of d e \<or> e \<in> set (tw_entries w)" if "e \<in> set (tw_entries w')" for e
    using that r unfolding w' by (auto simp: upsert_def set_update_where split: if_splits)
  show "e \<in> set (tw_entries w) \<Longrightarrow> le_entry_key e \<noteq> ud_entryKey d \<Longrightarrow> e \<in> set (tw_entries w')"
    using r(3) unfolding w' by (auto simp: upsert_def set_update_where)
  show "in_ledger d w'"
  proof (cases rule: upsert_rows [where key = le_entry_key and r = ?r and f = "excluded ?r" and rows = "tw_entries w"])
    case new
    then show ?thesis using r(1) by (auto simp: in_ledger_def w')
  next
    case (old q)
    then have "excluded ?r q \<in> set (tw_entries w')" unfolding w' by (auto simp: set_update_where intro: bexI [of _ q])
    with r(2) show ?thesis by (auto simp: in_ledger_def)
  qed
qed

definition sourced :: "treasury_env \<Rightarrow> treasury_world \<Rightarrow> bool" where
  "sourced env w \<longleftrightarrow>
     (\<forall>e \<in> set (tw_entries w). \<exists>event d. indexed env event \<and> d \<in> set (due_entries event) \<and> entry_of d e)"

lemma sourced_step: "treasury_step env w w' \<Longrightarrow> sourced env w \<Longrightarrow> sourced env w'"
proof (induction rule: treasury_step.induct)
  case (record_entry event d entry w w')
  then show ?case using records_entries(1) [OF record_entry(3)] unfolding sourced_def by blast
qed (auto simp: sourced_def same_treasury_def payout_moves_def)

lemma sourced_run: "sourced env w \<Longrightarrow> sourced env (treasury_run env requests w)"
proof -
  assume "sourced env w"
  with run_steps [of env w requests] show ?thesis
    by (induction rule: rtranclp_induct) (auto intro: sourced_step)
qed

section \<open>Pages of events that are ordered by their block\<close>

text \<open>The positions that the rows of a block take in every list that is sorted by the block.\<close>

definition rows_below :: "int list \<Rightarrow> int \<Rightarrow> nat" where
  "rows_below blocks b = length (filter (\<lambda>x. x < b) blocks)"

definition rows_upto :: "int list \<Rightarrow> int \<Rightarrow> nat" where
  "rows_upto blocks b = length (filter (\<lambda>x. x \<le> b) blocks)"

text \<open>None of the pages that begin at \<open>offsets\<close> begins inside the block \<open>b\<close>.\<close>

definition uncut :: "nat list \<Rightarrow> int list \<Rightarrow> int \<Rightarrow> bool" where
  "uncut offsets blocks b \<longleftrightarrow> list_all (\<lambda>n. n \<le> rows_below blocks b \<or> rows_upto blocks b \<le> n) offsets"

lemma uncut_mono: "set offsets \<subseteq> set offsets' \<Longrightarrow> uncut offsets' blocks b \<Longrightarrow> uncut offsets blocks b"
  by (auto simp: uncut_def list_all_iff)

lemma rows_mset:
  assumes "mset xs = mset ys"
  shows "rows_below xs b = rows_below ys b" "rows_upto xs b = rows_upto ys b"
  using assms unfolding rows_below_def rows_upto_def by (metis mset_filter size_mset)+

lemma rows_upto_pos: "b \<in> set blocks \<Longrightarrow> 0 < rows_upto blocks b"
  by (auto simp: rows_upto_def filter_empty_conv)

text \<open>A page that holds all positions of a block holds every row of the block.\<close>

lemma in_page:
  assumes srt: "sorted (map f xs)" and x: "x \<in> set xs"
    and lo: "offset \<le> rows_below (map f xs) (f x)" and hi: "rows_upto (map f xs) (f x) \<le> offset + limit"
  shows "x \<in> set (take limit (drop offset xs))"
proof -
  obtain i where i: "i < length xs" "x = xs ! i" using x by (auto simp: in_set_conv_nth)
  have "filter (\<lambda>y. y < f x) (drop i (map f xs)) = []"
    using srt i by (auto simp: filter_empty_conv in_set_conv_nth sorted_iff_nth_mono not_less)
  then have "rows_below (map f xs) (f x) = length (filter (\<lambda>y. y < f x) (take i (map f xs)))"
    unfolding rows_below_def by (subst append_take_drop_id [symmetric, of _ i]) (simp only: filter_append append_Nil2)
  then have "rows_below (map f xs) (f x) \<le> i" using length_filter_le [of _ "take i (map f xs)"] by (metis length_take min.bounded_iff)
  moreover have "filter (\<lambda>y. y \<le> f x) (take (Suc i) (map f xs)) = take (Suc i) (map f xs)"
    using srt i by (intro filter_True) (auto simp: in_set_conv_nth sorted_iff_nth_mono less_Suc_eq_le)
  then have "Suc i \<le> rows_upto (map f xs) (f x)"
    unfolding rows_upto_def using i
    by (subst append_take_drop_id [symmetric, of _ "Suc i"]) (simp only: filter_append length_append, simp)
  ultimately have "offset \<le> i" "i < offset + limit" using lo hi by simp_all
  then have "x = take limit (drop offset xs) ! (i - offset)" "i - offset < length (take limit (drop offset xs))"
    using i by (simp, simp, arith)
  then show ?thesis by (metis nth_mem)
qed

section \<open>A growing set of events\<close>

text \<open>Blocks are added as wholes: later events come from higher blocks.\<close>

definition grown :: "trade_event list \<Rightarrow> trade_event list \<Rightarrow> bool" where
  "grown h h' \<longleftrightarrow> (\<exists>new. h' = h @ new \<and> (\<forall>x \<in> set h. \<forall>y \<in> set new. ev_blockNumber x < ev_blockNumber y))"

text \<open>
  The indexer at tick \<open>t\<close> has the events \<open>history t\<close>, with unique ids.  It answers the query \<open>orderBy:
  blockNumber_ASC limit offset\<close> with the page of some order of these events by block (every answer with
  an order of its own among the events of a block), or with a failure.
\<close>

definition growing_indexer :: "treasury_env \<Rightarrow> (nat \<Rightarrow> trade_event list) \<Rightarrow> bool" where
  "growing_indexer env history \<longleftrightarrow>
     (\<forall>t limit offset events. treasury_events env (te_indexer env t limit offset) = Inr events \<longrightarrow>
        (\<exists>xs. mset xs = mset (history t) \<and> sorted (map ev_blockNumber xs) \<and> events = take limit (drop offset xs))) \<and>
     (\<forall>t. grown (history t) (history (Suc t))) \<and>
     (\<forall>t. distinct (map ev_id (history t)))"

definition covered :: "(nat \<Rightarrow> trade_event list) \<Rightarrow> nat \<Rightarrow> treasury_world \<Rightarrow> bool" where
  "covered history n w \<longleftrightarrow>
     (let h = history (tw_tick w); blocks = map ev_blockNumber h
      in n \<le> length h \<and>
         (\<forall>event \<in> set h. rows_upto blocks (ev_blockNumber event) \<le> n \<longrightarrow>
            uncut (tw_queries w) blocks (ev_blockNumber event) \<longrightarrow> (\<forall>d \<in> set (due_entries event). in_ledger d w)))"

lemma covered_start: "covered history 0 w"
proof -
  have "0 < rows_upto (map ev_blockNumber h) (ev_blockNumber event)" if "event \<in> set h" for event h
    using that by (intro rows_upto_pos) simp
  then show ?thesis by (fastforce simp: covered_def Let_def)
qed

lemma grown_refl [simp]: "grown h h"
  by (simp add: grown_def)

lemma grown_trans: "grown h h1 \<Longrightarrow> grown h1 h2 \<Longrightarrow> grown h h2"
  unfolding grown_def by (elim exE conjE) auto

lemma grown_prefix: "grown h h' \<Longrightarrow> prefix h h'"
  by (auto simp: grown_def)

lemma history_grown:
  assumes "growing_indexer env history" "t \<le> t'"
  shows "grown (history t) (history t')"
  using assms(2)
proof (induction rule: dec_induct)
  case (step n)
  then show ?case using assms(1) by (auto simp: growing_indexer_def intro: grown_trans)
qed simp

lemmas history_prefix = grown_prefix [OF history_grown]

text \<open>The positions of a block do not change, and those of a new block are behind the old list.\<close>

lemma grown_rows:
  assumes "grown h h'" "event \<in> set h"
  shows "rows_below (map ev_blockNumber h') (ev_blockNumber event) = rows_below (map ev_blockNumber h) (ev_blockNumber event)"
    "rows_upto (map ev_blockNumber h') (ev_blockNumber event) = rows_upto (map ev_blockNumber h) (ev_blockNumber event)"
proof -
  obtain new where "h' = h @ new" "\<And>y. y \<in> set new \<Longrightarrow> ev_blockNumber event < ev_blockNumber y"
    using assms by (auto simp: grown_def)
  then show "rows_below (map ev_blockNumber h') (ev_blockNumber event) = rows_below (map ev_blockNumber h) (ev_blockNumber event)"
    "rows_upto (map ev_blockNumber h') (ev_blockNumber event) = rows_upto (map ev_blockNumber h) (ev_blockNumber event)"
    by (force simp: rows_below_def rows_upto_def filter_empty_conv)+
qed

lemma grown_new:
  assumes "grown h h'" "event \<in> set h'" "event \<notin> set h"
  shows "length h < rows_upto (map ev_blockNumber h') (ev_blockNumber event)"
proof -
  obtain new where new: "h' = h @ new" "event \<in> set new" "\<And>x. x \<in> set h \<Longrightarrow> ev_blockNumber x < ev_blockNumber event"
    using assms by (auto simp: grown_def)
  have "filter (\<lambda>x. x \<le> ev_blockNumber event) (map ev_blockNumber h) = map ev_blockNumber h"
    using new(3) by (intro filter_True) force
  then have "rows_upto (map ev_blockNumber h') (ev_blockNumber event) =
      length h + rows_upto (map ev_blockNumber new) (ev_blockNumber event)"
    by (simp add: new(1) rows_upto_def)
  with rows_upto_pos [of "ev_blockNumber event" "map ev_blockNumber new"] new(2) show ?thesis by simp
qed

lemma indexed_history:
  assumes "growing_indexer env history" "indexed env event"
  shows "\<exists>t. event \<in> set (history t)"
proof -
  obtain t limit offset events where e: "treasury_events env (te_indexer env t limit offset) = Inr events" "event \<in> set events"
    using assms(2) by (auto simp: indexed_def)
  then obtain xs where "mset xs = mset (history t)" "event \<in> set xs"
    using assms(1) unfolding growing_indexer_def by (metis in_set_dropD in_set_takeD)
  then show ?thesis by (metis set_mset_mset)
qed

lemma history_id:
  assumes g: "growing_indexer env history" and e: "event \<in> set (history t)" "event' \<in> set (history t')"
    and "ev_id event = ev_id event'"
  shows "event = event'"
proof -
  let ?m = "max t t'"
  have "event \<in> set (history ?m)" "event' \<in> set (history ?m)"
    using history_prefix [OF g, of t ?m] history_prefix [OF g, of t' ?m] e set_mono_prefix by fastforce+
  moreover have "distinct (map ev_id (history ?m))" using g by (simp add: growing_indexer_def)
  ultimately show ?thesis using assms(4) by (auto simp: distinct_map dest: inj_onD)
qed

lemma buildEntryKey_inj: "buildEntryKey i c = buildEntryKey i' c' \<longleftrightarrow> i = i' \<and> c = c'"
proof
  assume eq: "buildEntryKey i c = buildEntryKey i' c'"
  then have "last (buildEntryKey i c) = last (buildEntryKey i' c')" by simp
  then have "c = c'" by (cases c; cases c') (simp_all add: buildEntryKey_def component_lower_def)
  with eq show "i = i' \<and> c = c'" by (simp add: buildEntryKey_def)
qed simp

lemma due_entry:
  "d \<in> set (due_entries event) \<Longrightarrow> ud_entryKey d = buildEntryKey (ev_id event) (ud_componentType d)"
  by (auto simp: due_entries_def entry_data_of_def split: if_splits)

lemma due_entry_unique: "d \<in> set (due_entries event) \<Longrightarrow> d' \<in> set (due_entries event) \<Longrightarrow> d = d'"
  by (auto simp: due_entries_def split: if_splits)

lemma same_key_same_data:
  assumes g: "growing_indexer env history" and e: "event \<in> set (history t)" "event' \<in> set (history t')"
    and d: "d \<in> set (due_entries event)" "d' \<in> set (due_entries event')" and k: "ud_entryKey d = ud_entryKey d'"
  shows "d = d'"
proof -
  from k have "ev_id event = ev_id event'" unfolding due_entry [OF d(1)] due_entry [OF d(2)] buildEntryKey_inj by simp
  with g e have "event = event'" by (intro history_id)
  with d show ?thesis by (auto intro: due_entry_unique)
qed

lemma recorded_step:
  assumes "treasury_step env w w'" and g: "growing_indexer env history"
    and e: "event \<in> set (history t)" "d \<in> set (due_entries event)" and "in_ledger d w"
  shows "in_ledger d w'"
  using assms(1,5)
proof (induction rule: treasury_step.induct)
  case (record_entry event' d' entry w w')
  obtain t' where t': "event' \<in> set (history t')" using indexed_history [OF g record_entry(1)] by blast
  show ?case
  proof (cases "ud_entryKey d' = ud_entryKey d")
    case True
    then have "d' = d" using same_key_same_data [OF g t' e(1) record_entry(2) e(2)] by blast
    then show ?thesis using records_entries(3) [OF record_entry(3)] by simp
  next
    case False
    obtain x where "x \<in> set (tw_entries w)" "entry_of d x" using record_entry(4) by (auto simp: in_ledger_def)
    moreover from this(2) have "le_entry_key x = ud_entryKey d" by (simp add: entry_of_def)
    ultimately show ?thesis using records_entries(2) [OF record_entry(3), of x] False by (auto simp: in_ledger_def)
  qed
qed (auto simp: in_ledger_def same_treasury_def payout_moves_def)

lemma recorded_steps:
  assumes "treasury_steps env w w'" "growing_indexer env history"
    "event \<in> set (history t)" "d \<in> set (due_entries event)" "in_ledger d w"
  shows "in_ledger d w'"
  using assms(1,5) by (induction rule: rtranclp_induct) (auto intro: recorded_step [OF _ assms(2-4)])

lemma covered_steps:
  assumes g: "growing_indexer env history" and steps: "treasury_steps env w w'" and c: "covered history n w"
  shows "covered history n w'"
proof -
  let ?h = "history (tw_tick w)" and ?h' = "history (tw_tick w')"
  have grow: "grown ?h ?h'" and queries: "set (tw_queries w) \<subseteq> set (tw_queries w')"
    using steps_later [OF steps] by (auto simp: later_def intro: history_grown [OF g])
  have n: "n \<le> length ?h" "n \<le> length ?h'"
    using c prefix_length_le [OF grown_prefix [OF grow]] by (simp_all add: covered_def Let_def)
  have "in_ledger d w'"
    if e: "event \<in> set ?h'" "rows_upto (map ev_blockNumber ?h') (ev_blockNumber event) \<le> n"
      "uncut (tw_queries w') (map ev_blockNumber ?h') (ev_blockNumber event)" "d \<in> set (due_entries event)" for event d
  proof -
    have old: "event \<in> set ?h" using grown_new [OF grow e(1)] n(1) e(2) by fastforce
    have "uncut (tw_queries w) (map ev_blockNumber ?h) (ev_blockNumber event)"
      using uncut_mono [OF queries e(3)] by (simp add: uncut_def grown_rows [OF grow old])
    with c old e(2,4) have "in_ledger d w" by (auto simp: covered_def Let_def grown_rows [OF grow old])
    then show ?thesis by (rule recorded_steps [OF steps g old e(4)])
  qed
  with n(2) show ?thesis by (simp add: covered_def Let_def)
qed

section \<open>The ingestion run\<close>

lemma ingest_event_recorded:
  assumes "ingest_event env acc event w = (Inr acc', w')" and d: "d \<in> set (due_entries event)"
  shows "in_ledger d w'"
proof -
  obtain fetched inserted where acc: "acc = (fetched, inserted)" by fastforce
  obtain ds where ds: "due_entries event = d # ds"
    using d due_entry_unique [OF d] by (cases "due_entries event") auto
  obtain u where u: "upsertLedgerEntryWithInitialState env d w = (Inr u, w')"
    using assms(1) unfolding acc ingest_event_eq ds by (auto simp: bindE_app ret_app split: prod.splits sum.splits)
  then show ?thesis by (rule upsert_cases) (auto dest: records_entries(3))
qed

lemma ingest_events_recorded:
  assumes g: "growing_indexer env history"
  shows "foldE (ingest_event env) acc events w = (Inr acc', w') \<Longrightarrow> \<forall>event \<in> set events. indexed env event \<Longrightarrow>
    treasury_steps env w w' \<and> (\<forall>event \<in> set events. \<forall>d \<in> set (due_entries event). in_ledger d w')"
proof (induction events arbitrary: acc w)
  case Nil
  then show ?case by (simp add: ret_app)
next
  case (Cons x xs)
  obtain acc1 w1 where x: "ingest_event env acc x w = (Inr acc1, w1)"
    and xs: "foldE (ingest_event env) acc1 xs w1 = (Inr acc', w')"
    using Cons.prems(1) by (auto simp: bindE_app split: prod.splits sum.splits)
  have x_idx: "indexed env x" using Cons.prems(2) by simp
  then obtain t where t: "x \<in> set (history t)" using indexed_history [OF g] by blast
  have 1: "treasury_steps env w w1"
    using keepsD [OF keeps_ingest_event [OF x_idx, of w acc], of w] x by simp
  have 2: "treasury_steps env w1 w'" "\<forall>event \<in> set xs. \<forall>d \<in> set (due_entries event). in_ledger d w'"
    using Cons.IH [OF xs] Cons.prems(2) by simp_all
  have "in_ledger d w'" if "d \<in> set (due_entries x)" for d
    using recorded_steps [OF 2(1) g t that] ingest_event_recorded [OF x that] by blast
  with 1 2 show ?case by (auto intro: rtranclp_trans)
qed

text \<open>The events of one page, fetched at the current tick, extend what is covered.\<close>

lemma page_covered:
  assumes g: "growing_indexer env history" and c: "covered history offset w"
    and f: "fetchTreasuryEvents env limit offset w = (Inr events, w1)"
    and r: "foldE (ingest_event env) acc events w1 = (Inr acc', w2)"
  shows "covered history (offset + length events) w2"
proof -
  note w1 = fetch_state [OF f]
  have idx: "\<forall>event \<in> set events. indexed env event" using fetched_indexed [OF f] by blast
  note rec = ingest_events_recorded [OF g r idx]
  have steps: "treasury_steps env w1 w2" using rec by blast
  have asked: "offset \<in> set (tw_queries w2)" using steps_later [OF steps] by (auto simp: w1 later_def)
  have old: "covered history offset w2"
    by (rule covered_steps [OF g _ c]) (use steps_asked [of env w w offset] steps in \<open>auto simp: w1\<close>)
  let ?h = "history (tw_tick w)" and ?h' = "history (tw_tick w2)"
  have grow: "grown ?h ?h'" using steps_later [OF steps] by (intro history_grown [OF g]) (simp add: later_def w1)
  have "treasury_events env (te_indexer env (tw_tick w) limit offset) = Inr events"
    using f by (simp add: fetchTreasuryEvents_def)
  then obtain xs where xs: "mset xs = mset ?h" "sorted (map ev_blockNumber xs)" "events = take limit (drop offset xs)"
    using g unfolding growing_indexer_def by blast
  have "length xs = length ?h" using xs(1) by (rule mset_eq_length)
  moreover have "offset \<le> length ?h" using c by (simp add: covered_def Let_def)
  ultimately have n: "offset + length events \<le> length ?h" by (simp add: xs(3))
  have "in_ledger d w2"
    if e: "event \<in> set ?h'" "rows_upto (map ev_blockNumber ?h') (ev_blockNumber event) \<le> offset + length events"
      "uncut (tw_queries w2) (map ev_blockNumber ?h') (ev_blockNumber event)" "d \<in> set (due_entries event)" for event d
  proof (cases "rows_upto (map ev_blockNumber ?h') (ev_blockNumber event) \<le> offset")
    case True
    with old e show ?thesis by (auto simp: covered_def Let_def)
  next
    case False
    have here: "event \<in> set ?h" using grown_new [OF grow e(1)] n e(2) by fastforce
    have "offset \<le> rows_below (map ev_blockNumber ?h') (ev_blockNumber event)"
      using e(3) asked False by (auto simp: uncut_def list_all_iff)
    moreover have "mset (map ev_blockNumber xs) = mset (map ev_blockNumber ?h)" using xs(1) by simp
    note rows = rows_mset [OF this] grown_rows [OF grow here]
    have "event \<in> set xs" using here xs(1) by (metis set_mset_mset)
    ultimately have "event \<in> set (take (length events) (drop offset xs))"
      using in_page [OF xs(2), of event offset "length events"] e(2) by (simp add: rows)
    moreover have "take (length events) (drop offset xs) = events" by (simp add: xs(3) min_def)
    ultimately show ?thesis using rec e(4) by auto
  qed
  with n prefix_length_le [OF grown_prefix [OF grow]] show ?thesis by (simp add: covered_def Let_def)
qed

lemma ingest_loop_covered:
  "growing_indexer env history \<Longrightarrow> covered history offset w \<Longrightarrow>
   ingest_loop env offset fetched inserted w = (Inr (offset', counts), w') \<Longrightarrow> covered history offset' w'"
proof (induction env offset fetched inserted w rule: ingest_loop.induct)
  case (1 env offset fetched inserted w)
  note g = 1(2) and c = 1(3)
  show ?case
  proof (cases "fetched < te_maxEvents env")
    case False
    with 1(3,4) show ?thesis by (simp add: ingest_loop.simps)
  next
    case more: True
    let ?limit = "min (te_batchSize env) (te_maxEvents env - fetched)"
    obtain events w1 where f: "fetchTreasuryEvents env ?limit offset w = (Inr events, w1)"
      using 1(4) more by (subst (asm) ingest_loop.simps) (auto simp: Let_def split: prod.splits sum.splits)
    have w1: "covered history offset w1"
      unfolding fetch_state [OF f] by (rule covered_steps [OF g steps_asked c]) simp
    show ?thesis
    proof (cases "events = []")
      case True
      with 1(4) more f w1 show ?thesis by (subst (asm) ingest_loop.simps) (simp add: Let_def)
    next
      case some: False
      obtain fetched' inserted' w2 where r: "foldE (ingest_event env) (fetched, inserted) events w1 = (Inr (fetched', inserted'), w2)"
        using 1(4) more f some by (subst (asm) ingest_loop.simps) (auto simp: Let_def split: prod.splits sum.splits)
      have c2: "covered history (offset + length events) w2" by (rule page_covered [OF g c f r])
      show ?thesis
      proof (cases "length events < ?limit")
        case True
        with 1(4) more f some r c2 show ?thesis by (subst (asm) ingest_loop.simps) (simp add: Let_def)
      next
        case False
        with 1(4) more f some r have "ingest_loop env (offset + length events) fetched' inserted' w2 = (Inr (offset', counts), w')"
          by (subst (asm) ingest_loop.simps) (auto simp: Let_def split: if_splits)
        then show ?thesis
          by (rule 1(1) [OF more refl f [symmetric] refl some r [symmetric] refl refl False g c2])
      qed
    qed
  qed
qed

definition cursor :: "treasury_world \<Rightarrow> nat" where
  "cursor w = (case tw_offsets w INGESTION_CURSOR_NAME of None \<Rightarrow> 0 | Some n \<Rightarrow> n)"

lemma ingest_event_offsets: "keeps (\<lambda>x :: treasury_world. tw_offsets x = m) (ingest_event env acc event)"
proof (rule keepsI)
  fix w :: treasury_world
  assume w: "tw_offsets w = m"
  obtain f n where acc: "acc = (f, n)" by fastforce
  have upsert: "tw_offsets w' = m" if "upsertLedgerEntryWithInitialState env d w = (r, w')" for d r w'
    using that by (rule upsert_cases) (use w in \<open>auto simp: same_treasury_def records_def\<close>)
  show "tw_offsets (state_of (ingest_event env acc event w)) = m"
    unfolding acc ingest_event_eq using w
    by (auto simp: bindE_app ret_app dest!: upsert split: list.splits prod.splits sum.splits)
qed

lemma getIngestionOffset_cursor:
  assumes "getIngestionOffset env w = (r, w')"
  shows "cursor w' = cursor w" "r = Inr n \<Longrightarrow> n = cursor w"
proof -
  have q: "tquery env m x = (Inr y, x') \<Longrightarrow> m (ttick x) = (Inr y, x')" for m :: "'a treasury_eff" and x y x'
    by (rule tquery_Inr)
  obtain r1 w1 where 1: "tquery env (asks (\<lambda>w. tw_offsets w INGESTION_CURSOR_NAME)) w = (r1, w1)" by fastforce
  have w1: "tw_offsets w1 = tw_offsets w"
    using state_of_asks [of env "\<lambda>w. tw_offsets w INGESTION_CURSOR_NAME" w] 1 by simp
  have r1: "row = tw_offsets w INGESTION_CURSOR_NAME" if "r1 = Inr row" for row
    using tquery_Inr [OF 1 [unfolded that]] by (simp add: asks_app)
  show "cursor w' = cursor w" "r = Inr n \<Longrightarrow> n = cursor w"
    using assms 1 w1 r1 unfolding getIngestionOffset_def
    by (auto simp: bindE_app seqE_app ret_app change_app cursor_def tquery_def split: sum.splits option.splits prod.splits if_splits)
qed

lemma setIngestionOffset_cursor:
  "cursor (state_of (setIngestionOffset env n w)) = cursor w \<or> cursor (state_of (setIngestionOffset env n w)) = n"
  by (auto simp: setIngestionOffset_def cursor_def tquery_def split: option.splits)

lemma ingestOnce_covered:
  assumes g: "growing_indexer env history" and c: "covered history (cursor w) w"
  shows "covered history (cursor (state_of (ingestOnce env w))) (state_of (ingestOnce env w))"
proof -
  obtain r w1 where 1: "getIngestionOffset env w = (r, w1)" by fastforce
  have s1: "treasury_steps env w w1" using keepsD [OF keeps_getIngestionOffset, of env w w] 1 by simp
  have c1: "covered history (cursor w) w1" by (rule covered_steps [OF g s1 c])
  note o1 = getIngestionOffset_cursor [OF 1]
  show ?thesis
  proof (cases r)
    case (Inl e)
    with 1 c1 o1(1) show ?thesis by (simp add: ingestOnce_def bindE_app)
  next
    case (Inr n)
    with o1 have n: "n = cursor w" by blast
    obtain r2 w2 where 2: "ingest_loop env n 0 0 w1 = (r2, w2)" by fastforce
    have s2: "treasury_steps env w1 w2" using ingest_loop_steps [of env w1 w1 n 0 0] 2 by simp
    have o2: "tw_offsets w2 = tw_offsets w1"
      using ingest_loop_keeps [of "\<lambda>x. tw_offsets x = tw_offsets w1" w1 env n 0 0] ingest_event_offsets 2 by simp
    have c2: "covered history (cursor w) w2" by (rule covered_steps [OF g s2 c1])
    show ?thesis
    proof (cases r2)
      case (Inl e)
      with 1 2 Inr c2 o1(1) o2 show ?thesis by (simp add: ingestOnce_def bindE_app cursor_def)
    next
      case counts: (Inr x)
      obtain offset counts where x: "x = (offset, counts)" by (cases x)
      have new: "covered history offset w2" by (rule ingest_loop_covered [OF g c1 2 [unfolded n counts x]])
      let ?w3 = "state_of (setIngestionOffset env offset w2)"
      have s3: "treasury_steps env w2 ?w3" by (rule keepsD [OF keeps_setIngestionOffset]) simp
      have eq: "state_of (ingestOnce env w) = ?w3"
        using 1 2 Inr counts x by (auto simp: ingestOnce_def bindE_app seqE_app ret_app split: prod.splits sum.splits)
      have "cursor ?w3 = cursor w \<or> cursor ?w3 = offset"
        using setIngestionOffset_cursor [of env offset w2] o1(1) o2 by (simp add: cursor_def)
      then show ?thesis
        unfolding eq using covered_steps [OF g s3 c2] covered_steps [OF g s3 new] by auto
    qed
  qed
qed

lemma run_covered:
  assumes g: "growing_indexer env history"
  shows "covered history (cursor w) w \<Longrightarrow>
    covered history (cursor (treasury_run env requests w)) (treasury_run env requests w)"
proof (induction requests arbitrary: w)
  case Nil
  then show ?case by (simp add: treasury_run_def)
next
  case (Cons request requests)
  let ?w = "snd (treasury_route env request w)"
  have "covered history (cursor ?w) ?w"
  proof (cases "request = Ingest")
    case True
    then have "?w = state_of (ingestOnce env w)"
      by (auto simp: treasury_route_def ingest_route_def respond_state bindE_app ret_app split: prod.splits sum.splits)
    then show ?thesis using ingestOnce_covered [OF g Cons.prems] by simp
  next
    case False
    then have "cursor ?w = cursor w"
      by (rule other_request [where w = w and env = env]) (auto simp: cursor_def same_treasury_def payout_moves_def)
    then show ?thesis using covered_steps [OF g request_steps Cons.prems] by simp
  qed
  from Cons.IH [OF this] show ?case by (simp add: treasury_run_def)
qed

end
