(* ===== verification/Treasury_Progress.thy ===== *)
theory Treasury_Progress imports Main Treasury_Coverage begin

text \<open>
  Progress: with a database and an indexer that answer, and rows that the schema accepts, an
  ingestion run returns and takes as many events as its limit allows, so enough runs record all.  And
  what a run reports as inserted is the number of ledger entries it created.
\<close>

definition acceptable :: "entry_data \<Rightarrow> bool" where
  "acceptable d \<longleftrightarrow> ud_sourceTimestamp d \<noteq> None \<and> length (ud_entryKey d) \<le> 255 \<and> length (ud_tradeId d) \<le> 255 \<and>
     length (ud_txHash d) \<le> 66 \<and> int32 (ud_blockNumber d) \<and> length (ud_eventName d) \<le> 100 \<and>
     ud_initialStateNote d = None \<and> ud_initialStateActor d = None"

definition reliable :: "treasury_env \<Rightarrow> trade_event list \<Rightarrow> bool" where
  "reliable env events \<longleftrightarrow>
     0 < te_batchSize env \<and> 0 < te_maxEvents env \<and> (\<forall>t. te_db env t = None) \<and>
     (\<forall>t limit offset. \<exists>xs. mset xs = mset events \<and> sorted (map ev_blockNumber xs) \<and>
        treasury_events env (te_indexer env t limit offset) = Inr (take limit (drop offset xs))) \<and>
     distinct (map ev_id events) \<and> length events < 2147483647 \<and>
     (\<forall>event \<in> set events. \<forall>d \<in> set (due_entries event). acceptable d)"

text \<open>The sequences have room for \<open>n\<close> more rows.\<close>

definition room :: "nat \<Rightarrow> treasury_world \<Rightarrow> bool" where
  "room n w \<longleftrightarrow> 0 < tw_entry_seq w \<and> tw_entry_seq w + int n \<le> 2147483647 \<and>
     0 < tw_event_seq w \<and> tw_event_seq w + int n \<le> 2147483647"

lemma reliable_growing: "reliable env events \<Longrightarrow> growing_indexer env (\<lambda>_. events)"
  unfolding reliable_def growing_indexer_def by (metis grown_refl sum.inject(2))

lemma reliable_page:
  assumes "reliable env events"
  obtains page where "fetchTreasuryEvents env limit offset w = (Inr page, asked offset w)"
    "length page = min limit (length events - offset)" "set page \<subseteq> set events"
proof -
  obtain xs where xs: "mset xs = mset events"
    "treasury_events env (te_indexer env (tw_tick w) limit offset) = Inr (take limit (drop offset xs))"
    using assms unfolding reliable_def by metis
  have "set (take limit (drop offset xs)) \<subseteq> set xs" by (meson order_trans set_drop_subset set_take_subset)
  moreover have "set xs = set events" "length xs = length events" using xs(1) by (metis set_mset_mset, metis size_mset)
  ultimately show thesis
    by (intro that [of "take limit (drop offset xs)"]) (simp_all add: fetchTreasuryEvents_def xs(2) min_def)
qed

lemma tquery_up: "te_db env (tw_tick w) = None \<Longrightarrow> tquery env stmt w = stmt (ttick w)"
  by (simp add: tquery_def)

lemma room_ttick [simp]: "room n (ttick w) = room n w" "room n (asked k w) = room n w"
  by (simp_all add: room_def)

lemma row_by_upserted:
  assumes "\<And>q. key (f q) = key r"
  shows "\<exists>e. row_by key (key r) (upsert key f r rows) = Some e"
proof -
  have "\<exists>x \<in> set (upsert key f r rows). key x = key r"
  proof (cases rule: upsert_rows [where key = key and f = f and r = r and rows = rows])
    case new
    then show ?thesis by simp
  next
    case (old q)
    then have "f q \<in> set (upsert key f r rows)" by (auto simp: set_update_where)
    with assms show ?thesis by blast
  qed
  then show ?thesis by (metis imageI not_None_eq row_by_None)
qed

lemma upsert_entry_up:
  assumes d: "acceptable d" and w: "room (Suc n) w"
  obtains e w' where "upsert_entry env now d w = (Inr e, w')" "room n w'" "tw_entry_seq w' = tw_entry_seq w + 1"
    "tw_event_seq w' = tw_event_seq w" "e \<in> set (tw_entries w')"
proof -
  obtain t where t: "ud_sourceTimestamp d = Some t" using d by (auto simp: acceptable_def)
  let ?r = "new_entry (tw_entry_seq w) now d t"
  let ?rows = "upsert le_entry_key (excluded ?r) ?r (tw_entries w)"
  have ok: "ledger_row_ok ?r" using d w by (simp add: ledger_row_ok_def new_entry_def acceptable_def room_def int32_def)
  have k: "le_entry_key ?r = ud_entryKey d" by (simp add: new_entry_def)
  obtain e where e: "row_by le_entry_key (ud_entryKey d) ?rows = Some e"
    using row_by_upserted [of le_entry_key "excluded ?r" ?r "tw_entries w"] k by (auto simp: excluded_def)
  show thesis
    by (rule that [of e "w\<lparr>tw_entry_seq := tw_entry_seq w + 1, tw_entries := ?rows\<rparr>"])
      (use t ok e w row_by_Some [OF e] in \<open>simp_all add: upsert_entry_def Let_def room_def\<close>)
qed

lemma insert_initial_up:
  assumes d: "acceptable d" and w: "0 < tw_event_seq w" "tw_event_seq w \<le> 2147483647" and e: "e \<in> set (tw_entries w)"
  obtains created w' where "insert_initial_state env now d e w = (Inr created, w')" "tw_entry_seq w' = tw_entry_seq w"
    "tw_event_seq w \<le> tw_event_seq w'" "tw_event_seq w' \<le> tw_event_seq w + 1"
proof -
  have "\<exists>created w'. insert_initial_state env now d e w = (Inr created, w')"
    using d w e by (auto simp: insert_initial_state_def insert_payout_def Let_def bindE_app ret_app payout_row_ok_def
        acceptable_def int32_def or_else_def split: prod.splits sum.splits)
  then obtain created w' where c: "insert_initial_state env now d e w = (Inr created, w')" by blast
  show thesis by (rule that [OF c]) (use insert_initial_Inr [OF c] in \<open>auto split: if_splits\<close>)
qed

lemma upsert_up:
  assumes db: "\<And>t. te_db env t = None" and d: "acceptable d" and w: "room (Suc n) w"
  obtains x w' where "upsertLedgerEntryWithInitialState env d w = (Inr x, w')" "room n w'"
proof -
  let ?w = "ttick (ttick w)"
  obtain e w1 where 1: "upsert_entry env (te_now env (tw_tick ?w)) d (ttick ?w) = (Inr e, w1)" "room n w1"
      "tw_entry_seq w1 = tw_entry_seq w + 1" "tw_event_seq w1 = tw_event_seq w" "e \<in> set (tw_entries w1)"
    by (rule upsert_entry_up [OF d, of n "ttick ?w" env "te_now env (tw_tick ?w)"]) (use w in simp_all)
  obtain created w2 where 2: "insert_initial_state env (te_now env (tw_tick ?w)) d e (ttick w1) = (Inr created, w2)"
      "tw_entry_seq w2 = tw_entry_seq w1" "tw_event_seq w1 \<le> tw_event_seq w2" "tw_event_seq w2 \<le> tw_event_seq w1 + 1"
    by (rule insert_initial_up [OF d, of "ttick w1" e env "te_now env (tw_tick ?w)"]) (use w 1 in \<open>simp_all add: room_def\<close>)
  have "upsertLedgerEntryWithInitialState env d w = (Inr (e, created), ttick w2)"
    using 1(1) 2(1) db
    by (simp add: upsertLedgerEntryWithInitialState_def sql_transaction_def tconnect_def tbegin_def tcommit_def
        upsert_body_def bindE_app tquery_up ret_app asks_app)
  moreover have "room n (ttick w2)" using w 1 2 by (simp add: room_def)
  ultimately show thesis by (rule that)
qed

lemma ingest_events_up:
  assumes db: "\<And>t. te_db env t = None"
  shows "\<forall>event \<in> set events. \<forall>d \<in> set (due_entries event). acceptable d \<Longrightarrow> room (length events + n) w \<Longrightarrow>
    \<exists>inserted' w'. foldE (ingest_event env) (fetched, inserted) events w = (Inr (fetched + length events, inserted'), w') \<and> room n w'"
proof (induction events arbitrary: fetched inserted w)
  case Nil
  then show ?case by (simp add: ret_app)
next
  case (Cons x xs)
  have "\<exists>m w1. ingest_event env (fetched, inserted) x w = (Inr (fetched + 1, m), w1) \<and> room (length xs + n) w1"
  proof (cases "due_entries x")
    case Nil
    with Cons.prems(2) show ?thesis by (auto simp: ingest_event_eq ret_app room_def)
  next
    case (Cons d ds)
    with Cons.prems obtain y w1 where "upsertLedgerEntryWithInitialState env d w = (Inr y, w1)" "room (length xs + n) w1"
      using upsert_up [OF db, of d "length xs + n" w] by auto
    with Cons show ?thesis by (cases y) (simp add: ingest_event_eq bindE_app ret_app)
  qed
  then obtain m w1 where x: "ingest_event env (fetched, inserted) x w = (Inr (fetched + 1, m), w1)" "room (length xs + n) w1"
    by blast
  with Cons.IH [of w1 "fetched + 1" m] Cons.prems(1) show ?case by (auto simp: bindE_app)
qed

lemma ingest_loop_round:
  assumes "fetched < te_maxEvents env" and "limit = min (te_batchSize env) (te_maxEvents env - fetched)"
    and "fetchTreasuryEvents env limit offset w = (Inr events, w1)" "events \<noteq> []"
    and "foldE (ingest_event env) (fetched, inserted) events w1 = (Inr (fetched', inserted'), w2)"
  shows "ingest_loop env offset fetched inserted w =
     (if length events < limit then (Inr (offset + length events, fetched', inserted'), w2)
      else ingest_loop env (offset + length events) fetched' inserted' w2)"
  using assms by (subst ingest_loop.simps) (simp add: Let_def)

lemma ingest_loop_up:
  "reliable env events \<Longrightarrow> offset \<le> length events \<Longrightarrow> fetched \<le> te_maxEvents env \<Longrightarrow> room (length events - offset) w \<Longrightarrow>
   \<exists>k inserted' w'. k = min (te_maxEvents env - fetched) (length events - offset) \<and>
     ingest_loop env offset fetched inserted w = (Inr (offset + k, fetched + k, inserted'), w') \<and>
     room (length events - (offset + k)) w'"
proof (induction "te_maxEvents env - fetched" arbitrary: offset fetched inserted w rule: less_induct)
  case less
  note rel = less(2) and bounds = less(3,4) and room = less(5)
  show ?case
  proof (cases "fetched < te_maxEvents env \<and> offset < length events")
    case False
    with bounds have k: "min (te_maxEvents env - fetched) (length events - offset) = 0" by auto
    have "ingest_loop env offset fetched inserted w = (Inr (offset, fetched, inserted), w) \<or>
        ingest_loop env offset fetched inserted w = (Inr (offset, fetched, inserted), asked offset w)"
    proof (cases "fetched < te_maxEvents env")
      case more: True
      obtain page where "fetchTreasuryEvents env (min (te_batchSize env) (te_maxEvents env - fetched)) offset w = (Inr page, asked offset w)"
        "length page = min (min (te_batchSize env) (te_maxEvents env - fetched)) (length events - offset)"
        by (rule reliable_page [OF rel])
      with more False show ?thesis by (subst (1 2) ingest_loop.simps) (simp add: Let_def)
    qed (simp add: ingest_loop.simps)
    with room show ?thesis unfolding k by auto
  next
    case True
    let ?n = "length events - offset"
    obtain limit where limit: "limit = min (te_batchSize env) (te_maxEvents env - fetched)" "0 < limit"
      using True rel by (simp add: reliable_def)
    obtain page where f: "fetchTreasuryEvents env limit offset w = (Inr page, asked offset w)"
      and page: "set page \<subseteq> set events" "length page = min limit ?n"
      by (rule reliable_page [OF rel])
    have some: "page \<noteq> []" using page(2) True limit(2) by auto
    from page(1) have acc: "\<forall>event \<in> set page. \<forall>d \<in> set (due_entries event). acceptable d"
      using rel by (auto simp: reliable_def)
    have db: "te_db env t = None" for t using rel by (simp add: reliable_def)
    have "length page + (length events - (offset + length page)) = ?n" using page(2) by linarith
    with room have "room (length page + (length events - (offset + length page))) (asked offset w)" by simp
    from ingest_events_up [OF db acc this, of fetched inserted]
    obtain m w2 where r: "foldE (ingest_event env) (fetched, inserted) page (asked offset w) = (Inr (fetched + length page, m), w2)"
      and room2: "room (length events - (offset + length page)) w2" by blast
    have unroll: "ingest_loop env offset fetched inserted w =
       (if length page < limit then (Inr (offset + length page, fetched + length page, m), w2)
        else ingest_loop env (offset + length page) (fetched + length page) m w2)"
      by (rule ingest_loop_round [OF _ limit(1) f some r]) (simp add: True)
    show ?thesis
    proof (cases "length page < limit")
      case short: True
      then have k: "length page = min (te_maxEvents env - fetched) ?n" using page(2) limit(1) by linarith
      with short room2 show ?thesis unfolding unroll by auto
    next
      case full: False
      have len: "0 < length page" "length page \<le> te_maxEvents env - fetched" "length page \<le> ?n"
        using some limit(1) by (simp, unfold page(2), simp_all)
      have k: "length page + min (te_maxEvents env - (fetched + length page)) (length events - (offset + length page)) =
          min (te_maxEvents env - fetched) ?n" using len by linarith
      have next_page: "te_maxEvents env - (fetched + length page) < te_maxEvents env - fetched"
        "offset + length page \<le> length events" "fetched + length page \<le> te_maxEvents env"
        using len True by linarith+
      from less(1) [OF next_page(1) rel next_page(2,3) room2, of m]
      obtain k' m' w' where k': "k' = min (te_maxEvents env - (fetched + length page)) (length events - (offset + length page))"
        and rec: "ingest_loop env (offset + length page) (fetched + length page) m w2 =
          (Inr (offset + length page + k', fetched + length page + k', m'), w')"
          "room (length events - (offset + length page + k')) w'" by auto
      have "length page + k' = min (te_maxEvents env - fetched) ?n" using k unfolding k' .
      then show ?thesis using rec full unfolding unroll by (metis add.assoc)
    qed
  qed
qed

text \<open>A run from a cursor within the list takes as many events as its limit allows.\<close>

lemma ingestOnce_up:
  assumes rel: "reliable env events" and c: "cursor w \<le> length events" and room: "room (length events - cursor w) w"
    and k: "k = min (te_maxEvents env) (length events - cursor w)"
  obtains inserted w' where "ingestOnce env w = (Inr (k, inserted), w')" "cursor w' = cursor w + k"
    "room (length events - cursor w') w'"
proof -
  have db: "te_db env t = None" for t using rel by (simp add: reliable_def)
  obtain n w1 where get: "getIngestionOffset env w = (Inr n, w1)" "room (length events - cursor w) w1"
    using room db by (cases "tw_offsets w INGESTION_CURSOR_NAME")
      (auto simp: getIngestionOffset_def bindE_app seqE_app ret_app asks_app change_app tquery_up room_def)
  have n: "n = cursor w" using getIngestionOffset_cursor(2) [OF get(1)] by simp
  from ingest_loop_up [OF rel c _ get(2), of 0 0] obtain m w2
    where loop: "ingest_loop env n 0 0 w1 = (Inr (cursor w + k, k, m), w2)" "room (length events - (cursor w + k)) w2"
    unfolding n k by auto
  have "int32 (int (cursor w + k))" using rel c k by (auto simp: int32_def reliable_def)
  then have set_offset: "setIngestionOffset env (cursor w + k) w2 =
      (Inr (), (ttick w2)\<lparr>tw_offsets := (tw_offsets w2)(INGESTION_CURSOR_NAME \<mapsto> cursor w + k)\<rparr>)"
    using db by (simp add: setIngestionOffset_def tquery_up)
  show thesis
    by (rule that [of m "(ttick w2)\<lparr>tw_offsets := (tw_offsets w2)(INGESTION_CURSOR_NAME \<mapsto> cursor w + k)\<rparr>"])
      (use get(1) loop set_offset in \<open>simp_all add: ingestOnce_def bindE_app seqE_app ret_app cursor_def room_def\<close>)
qed

lemma runs_up:
  assumes rel: "reliable env events"
  shows "cursor w \<le> length events \<Longrightarrow> room (length events - cursor w) w \<Longrightarrow>
    cursor (treasury_run env (replicate n Ingest) w) = min (length events) (cursor w + n * te_maxEvents env)"
proof (induction n arbitrary: w)
  case 0
  then show ?case by (simp add: treasury_run_def)
next
  case (Suc n)
  obtain k where k: "k = min (te_maxEvents env) (length events - cursor w)" by simp
  obtain inserted w' where run: "ingestOnce env w = (Inr (k, inserted), w')" "cursor w' = cursor w + k"
    "room (length events - cursor w') w'" by (rule ingestOnce_up [OF rel Suc.prems k])
  have le: "cursor w' \<le> length events" using run(2) k Suc.prems(1) by simp
  have "snd (treasury_route env Ingest w) = w'"
    using run(1) by (simp add: treasury_route_def ingest_route_def respond_state bindE_app ret_app)
  then have "treasury_run env (replicate (Suc n) Ingest) w = treasury_run env (replicate n Ingest) w'"
    by (simp add: treasury_run_def)
  with Suc.IH [OF le run(3)] run(2) k Suc.prems(1) show ?case by (auto simp: min_def)
qed

section \<open>Where the pages begin\<close>

text \<open>The log of the requests is left alone by all that is not a request to the indexer.\<close>

abbreviation asked_only :: "nat list \<Rightarrow> treasury_world \<Rightarrow> bool" where
  "asked_only q \<equiv> \<lambda>w. tw_queries w = q"

lemma asked_only_tquery: "keeps (asked_only q) stmt \<Longrightarrow> keeps (asked_only q) (tquery env stmt)"
  by (rule keeps_tquery) simp_all

lemma asked_only_upsert: "keeps (asked_only q) (upsertLedgerEntryWithInitialState env d)"
proof -
  have payout: "keeps (asked_only q) (insert_payout env now i s memo actor)" for now i s memo actor
    by (rule keepsI) (simp add: insert_payout_def Let_def)
  have entry: "keeps (asked_only q) (upsert_entry env now d)" for now
    by (rule keepsI) (simp add: upsert_entry_def Let_def split: option.split)
  have initial: "keeps (asked_only q) (insert_initial_state env now d e)" for now e
    by (rule keepsI) (simp add: insert_initial_state_def bindE_app ret_app insert_payout_def Let_def)
  have body: "keeps (asked_only q) (upsert_body env d now)" for now
    unfolding upsert_body_def by (intro keeps_rules asked_only_tquery entry initial)
  show ?thesis
    unfolding upsertLedgerEntryWithInitialState_def
  proof (rule keeps_transaction [OF _ _ body])
    show "keeps (asked_only q) (tconnect env)" "keeps (asked_only q) (tbegin env)" "keeps (asked_only q) (trollback env e)" for e
      unfolding tconnect_def tbegin_def trollback_def by (intro keeps_rules asked_only_tquery)+
  qed (auto simp: tcommit_def treasury_tables_def split: option.splits)
qed

lemma asked_only_ingest_event: "keeps (asked_only q) (ingest_event env acc event)"
proof (cases acc)
  case (Pair f n)
  show ?thesis
    unfolding Pair ingest_event_eq
    by (cases "due_entries event") (auto intro!: keeps_rules asked_only_upsert)
qed

text \<open>The pages of a run begin at multiples of the batch size from its first offset, within its limit.\<close>

definition page_starts :: "treasury_env \<Rightarrow> nat \<Rightarrow> nat set" where
  "page_starts env start = {start + i * te_batchSize env | i. i * te_batchSize env < te_maxEvents env}"

lemma page_length:
  "growing_indexer env history \<Longrightarrow> fetchTreasuryEvents env limit offset w = (Inr events, w') \<Longrightarrow> length events \<le> limit"
  unfolding growing_indexer_def fetchTreasuryEvents_def by (metis length_take min.cobounded2 prod.inject)

lemma ingest_loop_asks:
  "growing_indexer env history \<Longrightarrow> te_batchSize env dvd fetched \<or> te_maxEvents env \<le> fetched \<Longrightarrow> offset = start + fetched \<Longrightarrow>
   set (tw_queries (state_of (ingest_loop env offset fetched inserted w))) \<subseteq> set (tw_queries w) \<union> page_starts env start"
proof (induction env offset fetched inserted w rule: ingest_loop.induct)
  case (1 env offset fetched inserted w)
  note g = 1(2)
  show ?case
  proof (cases "fetched < te_maxEvents env")
    case False
    then show ?thesis by (simp add: ingest_loop.simps)
  next
    case more: True
    let ?limit = "min (te_batchSize env) (te_maxEvents env - fetched)"
    obtain r w1 where f: "fetchTreasuryEvents env ?limit offset w = (r, w1)" by fastforce
    have "offset \<in> page_starts env start" using 1(3,4) more by (auto simp: page_starts_def dvd_def mult.commute)
    then have w1: "set (tw_queries w1) \<subseteq> set (tw_queries w) \<union> page_starts env start"
      unfolding fetch_state [OF f] by auto
    show ?thesis
    proof (cases r)
      case (Inl e)
      with more f w1 show ?thesis by (simp add: ingest_loop.simps)
    next
      case events: (Inr events)
      obtain r2 w2 where i: "foldE (ingest_event env) (fetched, inserted) events w1 = (r2, w2)" by fastforce
      have "keeps (asked_only (tw_queries w1)) (foldE (ingest_event env) (fetched, inserted) events)"
        by (intro keeps_foldE asked_only_ingest_event)
      from keepsD [OF this refl] i have "tw_queries w2 = tw_queries w1" by simp
      with w1 have w2: "set (tw_queries w2) \<subseteq> set (tw_queries w) \<union> page_starts env start" by simp
      show ?thesis
      proof (cases "events = [] \<or> (\<exists>e. r2 = Inl e) \<or> length events < ?limit")
        case True
        with more f events i w1 w2 show ?thesis
          by (subst ingest_loop.simps) (auto simp: Let_def split: sum.splits)
      next
        case False
        then obtain fetched' inserted' where r2: "r2 = Inr (fetched', inserted')" by (cases r2) auto
        have "length events = ?limit" using False page_length [OF g f [unfolded events]] by linarith
        moreover have "fetched' = fetched + length events" by (rule ingest_events_fetched [OF i [unfolded r2]])
        ultimately have fetched': "te_batchSize env dvd fetched' \<or> te_maxEvents env \<le> fetched'"
            "offset + length events = start + fetched'"
          using 1(3,4) more by (auto simp: min_def)
        have "ingest_loop env offset fetched inserted w = ingest_loop env (offset + length events) fetched' inserted' w2"
          using more f events i r2 False by (subst ingest_loop.simps) (auto simp: Let_def)
        moreover have "set (tw_queries (state_of (ingest_loop env (offset + length events) fetched' inserted' w2)))
            \<subseteq> set (tw_queries w2) \<union> page_starts env start"
          using False by (intro 1(1) [OF more refl f [symmetric] events _ i [symmetric] r2 refl _ g fetched']) auto
        ultimately show ?thesis using w2 by auto
      qed
    qed
  qed
qed

lemma ingestOnce_asks:
  assumes "growing_indexer env history"
  shows "set (tw_queries (state_of (ingestOnce env w))) \<subseteq> set (tw_queries w) \<union> page_starts env (cursor w)"
proof -
  have reads: "keeps (asked_only q) (getIngestionOffset env)" for q
    unfolding getIngestionOffset_def
    by (intro keeps_rules asked_only_tquery keeps_change) (simp split: option.split)
  have writes: "keeps (asked_only q) (setIngestionOffset env n)" for q n
    unfolding setIngestionOffset_def by (rule asked_only_tquery, rule keepsI) simp
  obtain r w1 where get: "getIngestionOffset env w = (r, w1)" by fastforce
  have w1: "tw_queries w1 = tw_queries w" using keepsD [OF reads [of "tw_queries w"] refl] get by simp
  show ?thesis
  proof (cases r)
    case (Inl e)
    with get w1 show ?thesis by (simp add: ingestOnce_def bindE_app)
  next
    case (Inr n)
    have n: "n = cursor w" by (rule getIngestionOffset_cursor(2) [OF get Inr])
    obtain r2 w2 where loop: "ingest_loop env n 0 0 w1 = (r2, w2)" by fastforce
    have w2: "set (tw_queries w2) \<subseteq> set (tw_queries w) \<union> page_starts env (cursor w)"
      using ingest_loop_asks [OF assms, of 0 n n 0 w1] loop w1 n by simp
    show ?thesis
    proof (cases r2)
      case (Inl e)
      with get loop Inr w2 show ?thesis by (simp add: ingestOnce_def bindE_app)
    next
      case counts: (Inr x)
      obtain offset f i where x: "x = (offset, f, i)" by (cases x)
      have "state_of (ingestOnce env w) = state_of (setIngestionOffset env offset w2)"
        using get loop Inr counts x by (auto simp: ingestOnce_def bindE_app seqE_app ret_app split: prod.splits sum.splits)
      with w2 keepsD [OF writes [of "tw_queries w2" offset] refl] show ?thesis by simp
    qed
  qed
qed

lemma runs_ask:
  assumes rel: "reliable env events"
  shows "cursor w \<le> length events \<Longrightarrow> room (length events - cursor w) w \<Longrightarrow>
    set (tw_queries (treasury_run env (replicate n Ingest) w)) \<subseteq> set (tw_queries w) \<union>
      (\<Union>j. page_starts env (min (length events) (cursor w + j * te_maxEvents env)))"
proof (induction n arbitrary: w)
  case 0
  then show ?case by (simp add: treasury_run_def)
next
  case (Suc n)
  let ?m = "te_maxEvents env"
  obtain k where k: "k = min ?m (length events - cursor w)" by simp
  obtain inserted w' where run: "ingestOnce env w = (Inr (k, inserted), w')" "cursor w' = cursor w + k"
    "room (length events - cursor w') w'" by (rule ingestOnce_up [OF rel Suc.prems k])
  have le: "cursor w' \<le> length events" using run(2) k Suc.prems(1) by simp
  have "snd (treasury_route env Ingest w) = w'"
    using run(1) by (simp add: treasury_route_def ingest_route_def respond_state bindE_app ret_app)
  then have eq: "treasury_run env (replicate (Suc n) Ingest) w = treasury_run env (replicate n Ingest) w'"
    by (simp add: treasury_run_def)
  have asks: "set (tw_queries w') \<subseteq> set (tw_queries w) \<union> page_starts env (cursor w)"
    using ingestOnce_asks [OF reliable_growing [OF rel], of w] run(1) by simp
  have upper: "page_starts env (min (length events) (cursor w + j * ?m)) \<subseteq>
      (\<Union>j. page_starts env (min (length events) (cursor w + j * ?m)))" for j
    by (rule UN_upper) simp
  have start: "page_starts env (cursor w) \<subseteq> (\<Union>j. page_starts env (min (length events) (cursor w + j * ?m)))"
    using upper [of 0] Suc.prems(1) by simp
  have "page_starts env (min (length events) (cursor w' + j * ?m)) \<subseteq>
      (\<Union>j. page_starts env (min (length events) (cursor w + j * ?m)))" for j
  proof -
    have "min (length events) (cursor w' + j * ?m) = min (length events) (cursor w + Suc j * ?m)"
      using run(2) k Suc.prems(1) by (auto simp: min_def)
    then show ?thesis using upper [of "Suc j"] by simp
  qed
  then have rest: "(\<Union>j. page_starts env (min (length events) (cursor w' + j * ?m))) \<subseteq>
      (\<Union>j. page_starts env (min (length events) (cursor w + j * ?m)))" by (rule UN_least)
  have join: "A \<subseteq> B \<union> V \<Longrightarrow> B \<subseteq> C \<union> P \<Longrightarrow> P \<subseteq> U \<Longrightarrow> V \<subseteq> U \<Longrightarrow> A \<subseteq> C \<union> U" for A B C P U V :: "nat set"
    by blast
  show ?case unfolding eq by (rule join [OF Suc.IH [OF le run(3)] asks start rest])
qed

section \<open>What an ingestion reports\<close>

lemma ingest_events_report:
  "R inserted w \<Longrightarrow>
   (\<And>event acc i w f' i' w'. indexed env event \<Longrightarrow> R i w \<Longrightarrow>
      ingest_event env (acc, i) event w = (Inr (f', i'), w') \<Longrightarrow> R i' w') \<Longrightarrow>
   \<forall>event \<in> set events. indexed env event \<Longrightarrow>
   foldE (ingest_event env) (fetched, inserted) events w = (Inr (fetched', inserted'), w') \<Longrightarrow> R inserted' w'"
proof (induction events arbitrary: fetched inserted w)
  case Nil
  then show ?case by (simp add: ret_app)
next
  case (Cons x xs)
  obtain f1 i1 w1 where x: "ingest_event env (fetched, inserted) x w = (Inr (f1, i1), w1)"
    and xs: "foldE (ingest_event env) (f1, i1) xs w1 = (Inr (fetched', inserted'), w')"
    using Cons.prems(4) by (auto simp: bindE_app split: prod.splits sum.splits)
  have "R i1 w1" by (rule Cons.prems(2) [OF _ Cons.prems(1) x]) (simp add: Cons.prems(3))
  then show ?case by (rule Cons.IH [OF _ Cons.prems(2) _ xs]) (simp_all add: Cons.prems(3))
qed

lemma ingest_loop_report:
  "R inserted w \<Longrightarrow> (\<And>n i w. R i w \<Longrightarrow> R i (asked n w)) \<Longrightarrow>
   (\<And>event acc i w f' i' w'. indexed env event \<Longrightarrow> R i w \<Longrightarrow>
      ingest_event env (acc, i) event w = (Inr (f', i'), w') \<Longrightarrow> R i' w') \<Longrightarrow>
   ingest_loop env offset fetched inserted w = (Inr (offset', fetched', inserted'), w') \<Longrightarrow> R inserted' w'"
proof (induction env offset fetched inserted w rule: ingest_loop.induct)
  case (1 env offset fetched inserted w)
  note R = 1(2) and tick = 1(3) and event = 1(4) and run = 1(5)
  show ?case
  proof (cases "fetched < te_maxEvents env")
    case False
    with R run show ?thesis by (simp add: ingest_loop.simps)
  next
    case more: True
    let ?limit = "min (te_batchSize env) (te_maxEvents env - fetched)"
    obtain events w1 where f: "fetchTreasuryEvents env ?limit offset w = (Inr events, w1)"
      using run more by (subst (asm) ingest_loop.simps) (auto simp: Let_def split: prod.splits sum.splits)
    have R1: "R inserted w1" unfolding fetch_state [OF f] using R by (rule tick)
    show ?thesis
    proof (cases "events = []")
      case True
      with run more f R1 show ?thesis by (subst (asm) ingest_loop.simps) (simp add: Let_def)
    next
      case some: False
      obtain f2 i2 w2 where r: "foldE (ingest_event env) (fetched, inserted) events w1 = (Inr (f2, i2), w2)"
        using run more f some by (subst (asm) ingest_loop.simps) (auto simp: Let_def split: prod.splits sum.splits)
      have R2: "R i2 w2"
        by (rule ingest_events_report [where R = R, OF R1 event _ r]) (use fetched_indexed [OF f] in blast)+
      note round = ingest_loop_round [OF more refl f some r]
      show ?thesis
      proof (cases "length events < ?limit")
        case True
        with run R2 show ?thesis unfolding round by simp
      next
        case False
        have rec: "ingest_loop env (offset + length events) f2 i2 w2 = (Inr (offset', fetched', inserted'), w')"
          using run unfolding round if_not_P [OF False] .
        show ?thesis
          by (rule 1(1) [OF more refl f [symmetric] refl some r [symmetric] refl refl False R2 tick event rec])
      qed
    qed
  qed
qed

lemma ingest_event_count:
  assumes mono: "mono (te_now env)" and inv: "treasury_inv env w" and n: "length (tw_entries w) = n + inserted"
    and run: "ingest_event env (fetched, inserted) event w = (Inr (fetched', inserted'), w')"
  shows "treasury_inv env w' \<and> length (tw_entries w') = n + inserted'"
proof (cases "due_entries event")
  case Nil
  with assms show ?thesis by (simp add: ingest_event_eq ret_app)
next
  case (Cons d ds)
  obtain entry created where up: "upsertLedgerEntryWithInitialState env d w = (Inr (entry, created), w')"
    and i: "inserted' = (if created then inserted + 1 else inserted)"
    using run Cons by (auto simp: ingest_event_eq bindE_app ret_app split: prod.splits sum.splits)
  show ?thesis
    using up
  proof (cases rule: upsert_cases)
    case (recorded entry')
    then have created: "created \<longleftrightarrow> payouts_of (le_id entry') w = []" by blast
    have "length (tw_entries w') = n + inserted'"
      using inv recorded(1) by (cases rule: records_cases) (simp_all add: created i n)
    with inv_records [OF inv mono recorded(1)] show ?thesis by simp
  qed simp
qed

lemma ingestOnce_count:
  assumes mono: "mono (te_now env)" and inv: "treasury_inv env w"
    and run: "ingestOnce env w = (Inr (fetched, inserted), w')"
  shows "length (tw_entries w') = length (tw_entries w) + inserted"
proof -
  obtain n w1 offset w2 where get: "getIngestionOffset env w = (Inr n, w1)"
    and loop: "ingest_loop env n 0 0 w1 = (Inr (offset, fetched, inserted), w2)"
    and set_offset: "setIngestionOffset env offset w2 = (Inr (), w')"
    using run by (auto simp: ingestOnce_def bindE_app seqE_app ret_app split: prod.splits sum.splits)
  have s: "treasury_steps env w w1" using keepsD [OF keeps_getIngestionOffset, of env w w] get by simp
  have inv1: "treasury_inv env w1" by (rule inv_steps [OF s inv mono])
  have e1: "tw_entries w1 = tw_entries w"
  proof -
    have "keeps (\<lambda>x. tw_entries x = tw_entries w) (getIngestionOffset env)"
      unfolding getIngestionOffset_def
      by (intro keeps_rules keeps_tquery keeps_change) (auto split: option.splits)
    from keepsD [OF this, of w] get show ?thesis by simp
  qed
  let ?R = "\<lambda>i x. treasury_inv env x \<and> length (tw_entries x) = length (tw_entries w) + i"
  have "?R inserted w2"
  proof (rule ingest_loop_report [where R = ?R, OF _ _ _ loop])
    show "?R 0 w1" using inv1 e1 by simp
    show "?R i (asked n x)" if "?R i x" for n i x
      using that inv_same [of env x "asked n x"] mono same_later [OF same_asked] by simp
    show "?R i' x'" if "?R i x" "ingest_event env (acc, i) event x = (Inr (f', i'), x')" for event acc i x f' i' x'
      using ingest_event_count [OF mono _ _ that(2)] that(1) by blast
  qed
  moreover have "tw_entries w' = tw_entries w2"
    using tquery_Inr [OF set_offset [unfolded setIngestionOffset_def]] by (auto split: if_splits)
  ultimately show ?thesis by simp
qed

end
