(* ===== verification/Treasury_Props.thy ===== *)
theory Treasury_Props imports Main Treasury_Progress begin

text \<open>
  The properties of the treasury service over runs of requests from the empty tables, with a small
  environment for the witnesses.
\<close>

section \<open>A sample environment\<close>

definition sample_raw_event :: "string \<Rightarrow> string \<Rightarrow> string option \<Rightarrow> string option \<Rightarrow> string option \<Rightarrow> raw_event" where
  "sample_raw_event eventId name txHash logistics fees =
     \<lparr>rv_id = eventId, rv_tradeId = ''7'', rv_eventName = name, rv_txHash = txHash, rv_extrinsicHash = None,
      rv_blockNumber = 12, rv_timestamp = ''t'', rv_releasedLogisticsAmount = logistics, rv_paidPlatformFees = fees\<rparr>"

definition sample_raws :: "raw_event list" where
  "sample_raws =
     [sample_raw_event ''a'' ''FundsReleasedStage1'' (Some ''0x1'') (Some ''500'') None,
      sample_raw_event ''b'' ''PlatformFeesPaidStage1'' None None (Some ''40''),
      (sample_raw_event ''c'' ''PlatformFeesPaidStage1'' (Some ''0x2'') None (Some ''50''))\<lparr>rv_blockNumber := 13\<rparr>]"

definition sample_treasury :: treasury_env where
  "sample_treasury =
     \<lparr>te_now = int, te_db = (\<lambda>t. None), te_kept = (\<lambda>t. False), te_violation = ''refused'',
      te_indexer = (\<lambda>t limit offset. Response True 200 ''OK''
        (Inr \<lparr>gb_tradeEvents = Some (take limit (drop offset sample_raws)), gb_errors = []\<rparr>)),
      te_url = ''http://indexer'', te_timeoutMs = 10000, te_date = (\<lambda>s. Some 0), te_iso = show_int,
      te_batchSize = 2, te_maxEvents = 2\<rparr>"

definition sample_events :: "trade_event list" where
  "sample_events = map (event_of_raw sample_treasury) sample_raws"

definition sample_requests :: "treasury_request list" where
  "sample_requests =
     [Ingest,
      Append_state ''1'' (Some \<lparr>ab_state = Some ''READY_FOR_PAYOUT'', ab_note = None, ab_actor = Some ''ops''\<rparr>),
      Append_state ''1'' (Some \<lparr>ab_state = Some ''PAID'', ab_note = None, ab_actor = Some ''ops''\<rparr>),
      Append_state ''1'' (Some \<lparr>ab_state = Some ''PROCESSING'', ab_note = None, ab_actor = None\<rparr>),
      Ingest]"

lemma sample_pages:
  "treasury_events sample_treasury (te_indexer sample_treasury t limit offset) = Inr (take limit (drop offset sample_events))"
  by (simp add: treasury_events_def fetchWithTimeout_def sample_treasury_def sample_events_def take_map drop_map)

lemma sample_ids: "map ev_id sample_events = [''a'', ''b'', ''c'']"
  by (simp add: sample_events_def sample_raws_def sample_raw_event_def event_of_raw_def)

lemma sample_length [simp]: "length sample_events = 3"
  using arg_cong [OF sample_ids, of length] by simp

lemma sample_due:
  "event \<in> set sample_events \<Longrightarrow> d \<in> set (due_entries event) \<Longrightarrow> acceptable d"
  by (auto simp: sample_events_def sample_raws_def sample_raw_event_def event_of_raw_def due_entries_def entry_data_of_def
      acceptable_def sample_treasury_def truthy_opt_def or_null_def buildEntryKey_def component_lower_def int32_def)

lemma sample_blocks: "map ev_blockNumber sample_events = [12, 12, 13]"
  by (simp add: sample_events_def sample_raws_def sample_raw_event_def event_of_raw_def)

lemma sample_reliable: "reliable sample_treasury sample_events"
  using sample_pages sample_due
  by (auto simp: reliable_def sample_ids sample_blocks intro!: exI [of _ sample_events]) (simp_all add: sample_treasury_def)

lemma sample_mono: "mono (te_now sample_treasury)"
  by (simp add: sample_treasury_def monoI)

lemma sample_payouts:
  "map po_state (payouts_of 1 (treasury_run sample_treasury sample_requests empty_treasury)) =
     [PENDING_REVIEW, READY_FOR_PAYOUT, PROCESSING]"
  "map le_entry_key (tw_entries (treasury_run sample_treasury sample_requests empty_treasury)) =
     [''a:logistics'', ''c:platform_fee'']"
  by code_simp+

section \<open>Properties\<close>

text \<open>
  C8: after any sequence of requests, served one at a time, with any failures of the database
  and of the indexer and a clock that does not run backwards: no two ledger entries have the same
  key; every payout event belongs to an entry; the payout states of an entry start at
  \<open>PENDING_REVIEW\<close> and every next one is allowed by \<open>ALLOWED_TRANSITIONS\<close>; an entry that was paid went
  through review, release and processing, and nothing came after.
\<close>

theorem payouts_follow_the_state_machine:
  assumes "mono (te_now env)" and "w = treasury_run env requests empty_treasury"
  shows "distinct (map le_entry_key (tw_entries w)) \<and>
    (\<forall>p \<in> set (tw_events w). \<exists>e \<in> set (tw_entries w). le_id e = po_ledger_entry_id p) \<and>
    (\<forall>e \<in> set (tw_entries w). payout_path (map po_state (payouts_of (le_id e) w)) \<and>
       (PAID \<in> set (map po_state (payouts_of (le_id e) w)) \<longrightarrow>
          map po_state (payouts_of (le_id e) w) = [PENDING_REVIEW, READY_FOR_PAYOUT, PROCESSING, PAID]))"
proof -
  have inv: "treasury_inv env w" unfolding assms(2) by (rule inv_run [OF assms(1)])
  then have "\<exists>e \<in> set (tw_entries w). le_id e = po_ledger_entry_id p" if "p \<in> set (tw_events w)" for p
    using that by (force simp: treasury_inv_def)
  with inv paid_path show ?thesis unfolding treasury_inv_def by blast
qed

theorem payouts_follow_the_state_machine_witness:
  "distinct (map le_entry_key (tw_entries (treasury_run sample_treasury sample_requests empty_treasury))) \<and>
   map po_state (payouts_of 1 (treasury_run sample_treasury sample_requests empty_treasury)) =
     [PENDING_REVIEW, READY_FOR_PAYOUT, PROCESSING]"
  using payouts_follow_the_state_machine [OF sample_mono refl, of sample_requests] sample_payouts(1) by blast


text \<open>A block with one event is never cut.\<close>

lemma sample_uncut: "uncut offsets [12, 12, 13] 13"
  by (auto simp: uncut_def list_all_iff rows_below_def rows_upto_def)


text \<open>
  Without the condition an event is lost: two events of one block, a page size of one, and an indexer
  that orders them differently in the second query.  The cursor is behind both events.
\<close>

definition tied_treasury :: treasury_env where
  "tied_treasury = sample_treasury
     \<lparr>te_indexer := (\<lambda>t limit offset.
        (let a = sample_raw_event ''a'' ''FundsReleasedStage1'' (Some ''0x1'') (Some ''500'') None;
             b = sample_raw_event ''b'' ''PlatformFeesPaidStage1'' (Some ''0x1'') None (Some ''40'')
         in Response True 200 ''OK''
              (Inr \<lparr>gb_tradeEvents = Some (take limit (drop offset (if offset = 0 then [a, b] else [b, a]))), gb_errors = []\<rparr>))),
      te_batchSize := 1\<rparr>"

lemma event_of_a_cut_block_is_lost:
  "(\<lambda>w. (cursor w, map le_entry_key (tw_entries w), tw_queries w)) (treasury_run tied_treasury [Ingest, Ingest] empty_treasury) =
     (2, [''a:logistics''], [0, 1, 2])"
  by code_simp

text \<open>
  C30: ingestion does not get stuck: with a database and an indexer that answer, rows that the schema
  accepts, and a list of events that does not grow, \<open>n\<close> ingestion requests bring the cursor to the end of a
  list of at most \<open>n * ingestMaxEvents\<close> events, and every entry that an event calls for is in the ledger
  unless a page begins inside the event's block.  The pages begin at the multiples of the batch size
  within each run of \<open>ingestMaxEvents\<close> events.
\<close>

theorem enough_ingestions_record_every_event:
  assumes "reliable env events" and "length events \<le> n * te_maxEvents env"
    and "w = treasury_run env (replicate n Ingest) empty_treasury"
  shows "cursor w = length events \<and>
    (\<forall>event \<in> set events.
       (\<forall>i j. i * te_batchSize env < te_maxEvents env \<longrightarrow>
          uncut [j * te_maxEvents env + i * te_batchSize env] (map ev_blockNumber events) (ev_blockNumber event)) \<longrightarrow>
       (\<forall>d \<in> set (due_entries event). \<exists>e \<in> set (tw_entries w). entry_of d e))"
proof (intro conjI ballI impI)
  have start: "cursor empty_treasury = 0" "tw_queries empty_treasury = []"
    by (simp_all add: cursor_def empty_treasury_def)
  have room: "room (length events - cursor empty_treasury) empty_treasury"
    using assms(1) unfolding start(1) by (simp add: room_def reliable_def empty_treasury_def)
  show finished: "cursor w = length events"
    using runs_up [OF assms(1) _ room, of n] assms(2) by (simp add: start assms(3))
  have asks: "set (tw_queries w) \<subseteq> (\<Union>j. page_starts env (min (length events) (j * te_maxEvents env)))"
    using runs_ask [OF assms(1) _ room, of n] by (simp add: start assms(3))
  have covered: "covered (\<lambda>_. events) (cursor w) w"
    unfolding assms(3) by (rule run_covered [OF reliable_growing [OF assms(1)]]) (simp add: start covered_start)
  fix event :: trade_event and d
  let ?blocks = "map ev_blockNumber events" and ?b = "ev_blockNumber event"
  assume event: "event \<in> set events" "d \<in> set (due_entries event)"
    and ok: "\<forall>i j. i * te_batchSize env < te_maxEvents env \<longrightarrow> uncut [j * te_maxEvents env + i * te_batchSize env] ?blocks ?b"
  have upto: "rows_upto ?blocks ?b \<le> length events"
    unfolding rows_upto_def using length_filter_le [of _ ?blocks] by simp
  have "q \<le> rows_below ?blocks ?b \<or> rows_upto ?blocks ?b \<le> q" if asked: "q \<in> set (tw_queries w)" for q
  proof -
    obtain i j where q: "q = min (length events) (j * te_maxEvents env) + i * te_batchSize env" "i * te_batchSize env < te_maxEvents env"
      using subsetD [OF asks asked] by (auto simp: page_starts_def)
    show ?thesis
    proof (cases "length events \<le> j * te_maxEvents env")
      case True
      with q(1) upto show ?thesis by simp
    next
      case False
      with q(1) have "q = j * te_maxEvents env + i * te_batchSize env" by simp
      with ok q(2) show ?thesis by (auto simp: uncut_def)
    qed
  qed
  then have "uncut (tw_queries w) ?blocks ?b" by (simp add: uncut_def list_all_iff)
  with covered event upto show "\<exists>e \<in> set (tw_entries w). entry_of d e"
    unfolding finished by (auto simp: covered_def Let_def in_ledger_def)
qed

theorem enough_ingestions_record_every_event_witness:
  "\<exists>e \<in> set (tw_entries (treasury_run sample_treasury (replicate 2 Ingest) empty_treasury)).
     entry_of (entry_data_of (sample_events ! 2) PLATFORM_FEE ''0x2'' ''50'') e"
proof -
  have "length sample_events \<le> 2 * te_maxEvents sample_treasury" by (simp add: sample_treasury_def)
  note all = conjunct2 [OF enough_ingestions_record_every_event [OF sample_reliable this refl]]
  have e: "sample_events ! 2 \<in> set sample_events" by (intro nth_mem) simp
  have "ev_blockNumber (sample_events ! 2) = 13"
    "entry_data_of (sample_events ! 2) PLATFORM_FEE ''0x2'' ''50'' \<in> set (due_entries (sample_events ! 2))"
    by code_simp+
  with all e show ?thesis unfolding sample_blocks using sample_uncut by metis
qed

text \<open>
  an ingestion run that returns reports as \<open>inserted\<close> the number of ledger entries it
  created: an event that is ingested again, or whose entry was committed before a failure, is not
  counted.
\<close>

theorem inserted_counts_new_entries:
  assumes "mono (te_now env)" and "w = treasury_run env requests empty_treasury"
    and "ingestOnce env w = (Inr (fetched, inserted), w')"
  shows "length (tw_entries w') = length (tw_entries w) + inserted"
  using ingestOnce_count [OF assms(1) inv_run [OF assms(1)], of requests fetched inserted w'] assms(2,3) by simp

theorem inserted_counts_new_entries_witness:
  "length (tw_entries (state_of (ingestOnce sample_treasury empty_treasury))) = 1"
proof -
  obtain w' where "ingestOnce sample_treasury empty_treasury = (Inr (2, 1), w')"
  proof -
    have "fst (ingestOnce sample_treasury empty_treasury) = Inr (2, 1)" by code_simp
    then show thesis using that by (metis prod.collapse)
  qed
  with inserted_counts_new_entries [OF sample_mono, of empty_treasury "[]" 2 1 w'] show ?thesis
    by (simp add: treasury_run_def) (simp add: empty_treasury_def)
qed

definition plain :: "string \<Rightarrow> bool" where
  "plain s \<longleftrightarrow> CHR '','' \<notin> set s \<and> newline \<notin> set s"

lemma plain_show_int [simp]: "plain (show_int i)"
proof -
  have digits: "plain (show_nat n)" for n
  proof -
    have "list_all is_digit (show_nat n)" using all_digits_show_nat [of n] by (simp add: all_digits_def)
    then show ?thesis by (auto simp: plain_def list_all_iff newline_def is_digit_def Let_def)
  qed
  then show ?thesis by (auto simp: show_int_def plain_def newline_def)
qed

lemma plain_names [simp]: "plain (payout_name s)" "plain (component_name c)"
  by (cases s; simp add: payout_name_def plain_def newline_def)
    (cases c; simp add: component_name_def plain_def newline_def)

text \<open>A reader of the file: the first line names the columns, every other line is a row.\<close>

definition read_csv :: "string \<Rightarrow> (string \<times> string) list list" where
  "read_csv csv =
     (case split_at newline csv of
        [] \<Rightarrow> []
      | header # lines \<Rightarrow> map (\<lambda>line. zip (split_at CHR '','' header) (split_at CHR '','' line)) lines)"

lemma read_csv_plain:
  assumes "cell \<in> set row" "row \<in> set (read_csv csv)"
  shows "plain (snd cell)"
proof -
  obtain header lines where pieces: "split_at newline csv = header # lines"
    using assms(2) by (cases "split_at newline csv") (simp_all add: read_csv_def)
  then obtain line where "line \<in> set lines" "row = zip (split_at CHR '','' header) (split_at CHR '','' line)"
    using assms(2) by (auto simp: read_csv_def)
  with pieces have "line \<in> set (split_at newline csv)" "snd cell \<in> set (split_at CHR '','' line)"
    using assms(1) by (cases cell; auto dest: set_zip_rightD)+
  then show ?thesis
    using split_at_pieces [of line newline csv] split_at_pieces [of "snd cell" "CHR '',''" line] by (auto simp: plain_def)
qed

lemma read_csv_rows:
  assumes "\<And>row f. row \<in> set rows \<Longrightarrow> f \<in> set row \<Longrightarrow> plain f" "\<And>row. row \<in> set rows \<Longrightarrow> row \<noteq> []"
    and "\<And>f. f \<in> set heads \<Longrightarrow> plain f" "heads \<noteq> []"
  shows "read_csv (join_with [newline] (join_with '','' heads # map (join_with '','') rows)) = map (zip heads) rows"
proof -
  have line: "newline \<notin> set (join_with '','' row)" if "\<And>f. f \<in> set row \<Longrightarrow> plain f" for row
    using that set_join_with [of newline "'',''" row] by (auto simp: plain_def newline_def)
  have cells: "split_at CHR '','' (join_with '','' row) = row" if "row \<noteq> []" "\<And>f. f \<in> set row \<Longrightarrow> plain f" for row
    using that by (intro split_join) (auto simp: plain_def)
  have "split_at newline (join_with [newline] (join_with '','' heads # map (join_with '','') rows)) =
      join_with '','' heads # map (join_with '','') rows"
    by (rule split_join) (use assms line in auto)
  then show ?thesis using assms cells by (auto simp: read_csv_def)
qed

text \<open>
  C31: the CSV export can be read back by the names of its columns exactly when no trade id, hash, event
  name, amount or printed time contains a comma or a line break: then every entry of the export is a row, in order,
  with its id, trade, hash, block, event, component, amount, latest state, the time of that state and its creation
  time under the names of the header.  The code writes the fields without quotes, so the condition cannot be left out.
\<close>

theorem csv_export_reads_back:
  "read_csv (toCsv env entries) =
     map (\<lambda>(e, state, at).
       [(''id'', show_int (le_id e)), (''trade_id'', le_trade_id e), (''tx_hash'', le_tx_hash e),
        (''block_number'', show_int (le_block_number e)), (''event_name'', le_event_name e),
        (''component_type'', component_name (le_component_type e)), (''amount_raw'', le_amount_raw e),
        (''latest_state'', payout_name state), (''latest_state_at'', te_iso env at),
        (''created_at'', te_iso env (le_created_at e))]) entries \<longleftrightarrow>
   (\<forall>(e, state, at) \<in> set entries. list_all plain
      [le_trade_id e, le_tx_hash e, le_event_name e, le_amount_raw e, te_iso env at, te_iso env (le_created_at e)])"
  (is "?read = map ?row entries \<longleftrightarrow> ?plain")
proof
  assume read: "?read = map ?row entries"
  have "plain (snd cell)" if "x \<in> set entries" "cell \<in> set (?row x)" for x cell
    by (rule read_csv_plain [OF that(2), of "toCsv env entries"]) (use that(1) in \<open>simp add: read\<close>)
  then show ?plain by fastforce
next
  assume plain: ?plain
  have "toCsv env entries = join_with [newline] (join_with '','' csv_headers # map (join_with '','') (map (csv_row env) entries))"
    by (simp add: toCsv_def comp_def)
  moreover have "read_csv \<dots> = map (zip csv_headers) (map (csv_row env) entries)"
  proof (rule read_csv_rows)
    show "plain f" if "row \<in> set (map (csv_row env) entries)" "f \<in> set row" for row f
      using that plain by (fastforce simp: csv_row_def)
    show "row \<noteq> []" if "row \<in> set (map (csv_row env) entries)" for row using that by (auto simp: csv_row_def)
    show "plain f" if "f \<in> set csv_headers" for f using that by (auto simp: csv_headers_def plain_def newline_def)
  qed (simp add: csv_headers_def)
  ultimately show "?read = map ?row entries" by (auto simp: csv_row_def csv_headers_def)
qed

theorem csv_export_reads_back_witness:
  "map (\<lambda>row. map_of row ''amount_raw'') (read_csv (toCsv sample_treasury
     [(new_entry 1 5 (entry_data_of (sample_events ! 0) LOGISTICS ''0x1'' ''500'') 0, PAID, 9)])) = [Some ''500'']"
proof -
  let ?e = "new_entry 1 5 (entry_data_of (sample_events ! 0) LOGISTICS ''0x1'' ''500'') 0"
  have "plain (le_trade_id ?e)" "plain (le_tx_hash ?e)" "plain (le_event_name ?e)" "plain (le_amount_raw ?e)" by code_simp+
  moreover have "le_amount_raw ?e = ''500''" by (simp add: new_entry_def entry_data_of_def)
  ultimately show ?thesis
    using csv_export_reads_back [of sample_treasury "[(?e, PAID, 9)]"] by (simp add: sample_treasury_def)
qed

section \<open>What the service does not prevent\<close>

text \<open>
  Two requests for the same entry whose reads come before both inserts: the entry is paid and then
  cancelled.
\<close>

lemma interleaved_requests_leave_processing_twice:
  "let env = sample_treasury;
       body = (\<lambda>s. Some \<lparr>ab_state = Some s, ab_note = None, ab_actor = None\<rparr>);
       w = treasury_run env (sample_requests) empty_treasury;
       (a, w1) = appendState_check env ''1'' (body ''PAID'') w;
       (b, w2) = appendState_check env ''1'' (body ''CANCELLED'') w1
   in (case (a, b) of
         (Inr a', Inr b') \<Rightarrow>
           map po_state (payouts_of 1 (state_of (appendState_insert env (body ''CANCELLED'') b'
             (state_of (appendState_insert env (body ''PAID'') a' w2)))))
       | _ \<Rightarrow> []) = [PENDING_REVIEW, READY_FOR_PAYOUT, PROCESSING, PAID, CANCELLED]"
  by code_simp

text \<open>An event that comes back with another amount rewrites the entry, whatever its payout state.\<close>

lemma ingested_entry_is_rewritten:
  "let w = treasury_run sample_treasury sample_requests empty_treasury;
       w' = state_of (upsertLedgerEntryWithInitialState sample_treasury
              (entry_data_of (sample_events ! 0) LOGISTICS ''0x1'' ''900'') w)
   in (map le_amount_raw (tw_entries w), map le_amount_raw (tw_entries w'), tw_events w' = tw_events w) =
      ([''500'', ''50''], [''900'', ''50''], True)"
  by code_simp

end
