(* ===== verification/Index_Types.thy ===== *)
theory Index_Types imports Main Effect Js_Text Trade_Types begin

text \<open>
  The data of the indexer: the entities it stores (\<open>indexer/src/model/generated\<close>), the events of the
  contract as \<open>parseLog\<close> of ethers gives them for the ABI of the contract, and the blocks of a batch.
  An entity refers to another by its id.  A time is in milliseconds.
\<close>

section \<open>Entities\<close>

text \<open>
  \<open>TradeStatus\<close> of the model has the names of the contract's enumeration (\<open>trade_status\<close>).
\<close>

datatype dispute_status = REFUND | RESOLVE

datatype claim_type =
    STAGE1_SUPPLIER | STAGE1_LOGISTICS_FEE | STAGE1_PLATFORM_FEE | STAGE2_SUPPLIER
  | LOCK_TIMEOUT_BUYER_REFUND | IN_TRANSIT_TIMEOUT_BUYER_REFUND | DISPUTE_REFUND_BUYER | DISPUTE_RESOLVE_SUPPLIER

record index_trade =
  xt_id :: string
  xt_tradeId :: string
  xt_buyer :: string
  xt_supplier :: string
  xt_status :: trade_status
  xt_totalAmountLocked :: int
  xt_logisticsAmount :: int
  xt_platformFeesAmount :: int
  xt_supplierFirstTranche :: int
  xt_supplierSecondTranche :: int
  xt_ricardianHash :: string
  xt_createdAt :: int
  xt_arrivalTimestamp :: "int option"

text \<open>What all event rows have: the id of the log, its block, time and hashes.\<close>

record event_meta =
  em_id :: string
  em_blockNumber :: int
  em_timestamp :: int
  em_txHash :: "string option"
  em_extrinsicHash :: "string option"
  em_extrinsicIndex :: int

record index_trade_event =
  xe_meta :: event_meta
  xe_trade :: string
  xe_eventName :: string
  xe_totalAmount :: "int option"
  xe_logisticsAmount :: "int option"
  xe_platformFeesAmount :: "int option"
  xe_supplierFirstTranche :: "int option"
  xe_supplierSecondTranche :: "int option"
  xe_releasedFirstTranche :: "int option"
  xe_releasedLogisticsAmount :: "int option"
  xe_treasuryAddress :: "string option"
  xe_paidPlatformFees :: "int option"
  xe_arrivalTimestamp :: "int option"
  xe_finalTranche :: "int option"
  xe_finalRecipient :: "string option"
  xe_refundedAmount :: "int option"
  xe_refundedTo :: "string option"
  xe_refundedBuyerPrincipal :: "int option"
  xe_payoutRecipient :: "string option"
  xe_payoutAmount :: "int option"
  xe_payoutType :: "dispute_status option"
  xe_relatedProposalId :: "string option"
  xe_claimType :: "claim_type option"
  xe_claimRecipient :: "string option"
  xe_claimAmount :: "int option"

definition new_trade_event :: "event_meta \<Rightarrow> string \<Rightarrow> string \<Rightarrow> index_trade_event" where
  "new_trade_event m trade name =
     \<lparr>xe_meta = m, xe_trade = trade, xe_eventName = name, xe_totalAmount = None, xe_logisticsAmount = None,
      xe_platformFeesAmount = None, xe_supplierFirstTranche = None, xe_supplierSecondTranche = None,
      xe_releasedFirstTranche = None, xe_releasedLogisticsAmount = None, xe_treasuryAddress = None,
      xe_paidPlatformFees = None, xe_arrivalTimestamp = None, xe_finalTranche = None, xe_finalRecipient = None,
      xe_refundedAmount = None, xe_refundedTo = None, xe_refundedBuyerPrincipal = None, xe_payoutRecipient = None,
      xe_payoutAmount = None, xe_payoutType = None, xe_relatedProposalId = None, xe_claimType = None,
      xe_claimRecipient = None, xe_claimAmount = None\<rparr>"

record dispute_proposal =
  xd_id :: string
  xd_proposalId :: string
  xd_trade :: string
  xd_disputeStatus :: dispute_status
  xd_approvalCount :: int
  xd_executed :: bool
  xd_createdAt :: int
  xd_proposer :: string
  xd_expiresAt :: int
  xd_cancelled :: bool

record dispute_event =
  xf_meta :: event_meta
  xf_dispute :: string
  xf_eventName :: string
  xf_proposedDisputeStatus :: "dispute_status option"
  xf_proposer :: "string option"
  xf_approver :: "string option"
  xf_approvalCount :: "int option"
  xf_requiredApprovals :: "int option"
  xf_finalDisputeStatus :: "dispute_status option"
  xf_cancelledBy :: "string option"

definition new_dispute_event :: "event_meta \<Rightarrow> string \<Rightarrow> string \<Rightarrow> dispute_event" where
  "new_dispute_event m dispute name =
     \<lparr>xf_meta = m, xf_dispute = dispute, xf_eventName = name, xf_proposedDisputeStatus = None, xf_proposer = None,
      xf_approver = None, xf_approvalCount = None, xf_requiredApprovals = None, xf_finalDisputeStatus = None,
      xf_cancelledBy = None\<rparr>"

record oracle_update_proposal =
  xo_id :: string
  xo_proposalId :: string
  xo_newOracle :: string
  xo_approvalCount :: int
  xo_executed :: bool
  xo_createdAt :: int
  xo_eta :: int
  xo_proposer :: string
  xo_emergencyFastTrack :: bool
  xo_expiresAt :: int
  xo_cancelled :: bool

record oracle_event =
  xp_meta :: event_meta
  xp_oracleUpdate :: "string option"
  xp_eventName :: string
  xp_proposedOracle :: "string option"
  xp_eta :: "int option"
  xp_proposer :: "string option"
  xp_approver :: "string option"
  xp_approvalCount :: "int option"
  xp_requiredApprovals :: "int option"
  xp_oldOracle :: "string option"
  xp_newOracle :: "string option"
  xp_cancelledBy :: "string option"
  xp_disabledBy :: "string option"
  xp_previousOracle :: "string option"

definition new_oracle_event :: "event_meta \<Rightarrow> string option \<Rightarrow> string \<Rightarrow> oracle_event" where
  "new_oracle_event m proposal name =
     \<lparr>xp_meta = m, xp_oracleUpdate = proposal, xp_eventName = name, xp_proposedOracle = None, xp_eta = None,
      xp_proposer = None, xp_approver = None, xp_approvalCount = None, xp_requiredApprovals = None,
      xp_oldOracle = None, xp_newOracle = None, xp_cancelledBy = None, xp_disabledBy = None, xp_previousOracle = None\<rparr>"

record admin_add_proposal =
  xa_id :: string
  xa_proposalId :: string
  xa_newAdmin :: string
  xa_approvalCount :: int
  xa_executed :: bool
  xa_createdAt :: int
  xa_eta :: int
  xa_proposer :: string
  xa_expiresAt :: int
  xa_cancelled :: bool

record admin_event =
  xb_meta :: event_meta
  xb_adminAddProposal :: "string option"
  xb_eventName :: string
  xb_proposedAdmin :: "string option"
  xb_eta :: "int option"
  xb_proposer :: "string option"
  xb_approver :: "string option"
  xb_approvalCount :: "int option"
  xb_requiredApprovals :: "int option"
  xb_addedAdmin :: "string option"
  xb_cancelledBy :: "string option"

definition new_admin_event :: "event_meta \<Rightarrow> string option \<Rightarrow> string \<Rightarrow> admin_event" where
  "new_admin_event m proposal name =
     \<lparr>xb_meta = m, xb_adminAddProposal = proposal, xb_eventName = name, xb_proposedAdmin = None, xb_eta = None,
      xb_proposer = None, xb_approver = None, xb_approvalCount = None, xb_requiredApprovals = None,
      xb_addedAdmin = None, xb_cancelledBy = None\<rparr>"

record system_event =
  xs_meta :: event_meta
  xs_eventName :: string
  xs_triggeredBy :: "string option"
  xs_claimAmount :: "int option"
  xs_proposalId :: "string option"
  xs_treasuryIdentity :: "string option"
  xs_payoutReceiver :: "string option"
  xs_oldPayoutReceiver :: "string option"
  xs_newPayoutReceiver :: "string option"
  xs_approvalCount :: "int option"
  xs_requiredApprovals :: "int option"
  xs_eta :: "int option"

definition new_system_event :: "event_meta \<Rightarrow> string \<Rightarrow> system_event" where
  "new_system_event m name =
     \<lparr>xs_meta = m, xs_eventName = name, xs_triggeredBy = None, xs_claimAmount = None, xs_proposalId = None,
      xs_treasuryIdentity = None, xs_payoutReceiver = None, xs_oldPayoutReceiver = None, xs_newPayoutReceiver = None,
      xs_approvalCount = None, xs_requiredApprovals = None, xs_eta = None\<rparr>"

section \<open>Contract events\<close>

text \<open>
  Arguments in the order of the ABI.  ethers decodes \<open>uint\<close> to \<open>bigint\<close>; the handlers compare the
  arguments of an enumeration type (\<open>uint8\<close>) with the number \<open>0\<close>, so these keep their JavaScript
  type.
\<close>

datatype js_number = Number int | Bigint int

text \<open>\<open>x === 0\<close>: a bigint is never strictly equal to a number.\<close>

definition strict_zero :: "js_number \<Rightarrow> bool" where
  "strict_zero x = (case x of Number n \<Rightarrow> n = 0 | Bigint _ \<Rightarrow> False)"

definition js_to_int :: "js_number \<Rightarrow> int" where
  "js_to_int x = (case x of Number n \<Rightarrow> n | Bigint n \<Rightarrow> n)"

datatype escrow_event =
    TradeLocked int string string int int int int int string
  | FundsReleasedStage1 int string int string int
  | PlatformFeesPaidStage1 int string int
  | ArrivalConfirmed int int
  | FinalTrancheReleased int string int
  | DisputeOpenedByBuyer int
  | TradeCancelledAfterLockTimeout int string int
  | InTransitTimeoutRefunded int string int
  | DisputeSolutionProposed int int js_number string
  | DisputeApproved int string int int
  | DisputeFinalized int int js_number
  | DisputeProposalExpiredCancelled int int string
  | DisputePayout int int string int js_number
  | OracleUpdateProposed int string string int bool
  | OracleUpdateApproved int string int int
  | OracleUpdated string string
  | OracleUpdateProposalExpiredCancelled int string
  | OracleDisabledEmergency string string
  | AdminAddProposed int string string int
  | AdminAddApproved int string int int
  | AdminAdded string
  | AdminAddProposalExpiredCancelled int string
  | Paused string
  | UnpauseProposed string
  | UnpauseApproved string int int
  | UnpauseProposalCancelled string
  | Unpaused string
  | ClaimsPaused string
  | ClaimsUnpaused string
  | Claimed string int
  | TreasuryClaimed string string int string
  | TreasuryPayoutAddressUpdateProposed int string string int
  | TreasuryPayoutAddressUpdateApproved int string int int
  | TreasuryPayoutAddressUpdated string string
  | TreasuryPayoutAddressUpdateProposalExpiredCancelled int string
  | ClaimableAccrued int string int js_number
  | Other_event string

section \<open>Blocks\<close>

text \<open>
  An extrinsic with its hash and, for a call, the call's name and payload; an event with the
  arguments of \<open>Revive.ContractEmitted\<close>.
\<close>

record chain_extrinsic =
  cx_index :: int
  cx_hash :: "string option"
  cx_call :: "(string \<times> string option) option"

record chain_event =
  ce_id :: string
  ce_name :: string
  ce_contract :: string
  ce_data :: string
  ce_topics :: "string list"
  ce_extrinsicIndex :: "int option"

record chain_block =
  cb_height :: int
  cb_timestamp :: "int option"
  cb_extrinsics :: "chain_extrinsic list"
  cb_events :: "chain_event list"

end
