(* ===== verification/Index_Handlers.thy ===== *)
theory Index_Handlers imports Main Index_Types begin

text \<open>
  The handlers of the indexer (\<open>indexer/src/main.ts\<close>), one definition for each.  \<open>index_tables\<close> is the
  shape of the database and of the local variables of a batch: the maps of entities that the batch
  has touched and the lists of event rows it will insert.  A handler reads an entity from the map or,
  if it is not there, from the store, whose read may be rejected.
\<close>

record index_tables =
  it_trades :: "string \<rightharpoonup> index_trade"
  it_tradeEvents :: "index_trade_event list"
  it_disputes :: "string \<rightharpoonup> dispute_proposal"
  it_disputeEvents :: "dispute_event list"
  it_oracleProposals :: "string \<rightharpoonup> oracle_update_proposal"
  it_oracleEvents :: "oracle_event list"
  it_adminProposals :: "string \<rightharpoonup> admin_add_proposal"
  it_adminEvents :: "admin_event list"
  it_systemEvents :: "system_event list"

definition empty_tables :: index_tables where
  "empty_tables = \<lparr>it_trades = Map.empty, it_tradeEvents = [], it_disputes = Map.empty, it_disputeEvents = [],
     it_oracleProposals = Map.empty, it_oracleEvents = [], it_adminProposals = Map.empty, it_adminEvents = [],
     it_systemEvents = []\<rparr>"

text \<open>The store, and the error of a read of the store during the event, if it is rejected.\<close>

record index_ctx =
  ic_store :: index_tables
  ic_reject :: "string option"

type_synonym 'a index_eff = "(string, index_tables, 'a) eff"

definition store_read :: "index_ctx \<Rightarrow> (index_tables \<Rightarrow> 'a) \<Rightarrow> 'a index_eff" where
  "store_read ctx f = (case ic_reject ctx of None \<Rightarrow> ret (f (ic_store ctx)) | Some e \<Rightarrow> throw e)"

section \<open>The maps of a batch\<close>

definition put_trade :: "string \<Rightarrow> index_trade \<Rightarrow> unit index_eff" where
  "put_trade k t = change (\<lambda>b. b\<lparr>it_trades := (it_trades b)(k \<mapsto> t)\<rparr>)"

definition push_trade_event :: "index_trade_event \<Rightarrow> unit index_eff" where
  "push_trade_event e = change (\<lambda>b. b\<lparr>it_tradeEvents := it_tradeEvents b @ [e]\<rparr>)"

definition put_dispute :: "string \<Rightarrow> dispute_proposal \<Rightarrow> unit index_eff" where
  "put_dispute k p = change (\<lambda>b. b\<lparr>it_disputes := (it_disputes b)(k \<mapsto> p)\<rparr>)"

definition push_dispute_event :: "dispute_event \<Rightarrow> unit index_eff" where
  "push_dispute_event e = change (\<lambda>b. b\<lparr>it_disputeEvents := it_disputeEvents b @ [e]\<rparr>)"

definition put_oracle :: "string \<Rightarrow> oracle_update_proposal \<Rightarrow> unit index_eff" where
  "put_oracle k p = change (\<lambda>b. b\<lparr>it_oracleProposals := (it_oracleProposals b)(k \<mapsto> p)\<rparr>)"

definition push_oracle_event :: "oracle_event \<Rightarrow> unit index_eff" where
  "push_oracle_event e = change (\<lambda>b. b\<lparr>it_oracleEvents := it_oracleEvents b @ [e]\<rparr>)"

definition put_admin :: "string \<Rightarrow> admin_add_proposal \<Rightarrow> unit index_eff" where
  "put_admin k p = change (\<lambda>b. b\<lparr>it_adminProposals := (it_adminProposals b)(k \<mapsto> p)\<rparr>)"

definition push_admin_event :: "admin_event \<Rightarrow> unit index_eff" where
  "push_admin_event e = change (\<lambda>b. b\<lparr>it_adminEvents := it_adminEvents b @ [e]\<rparr>)"

definition push_system_event :: "system_event \<Rightarrow> unit index_eff" where
  "push_system_event e = change (\<lambda>b. b\<lparr>it_systemEvents := it_systemEvents b @ [e]\<rparr>)"

definition getOrLoadTrade :: "index_ctx \<Rightarrow> string \<Rightarrow> index_trade option index_eff" where
  "getOrLoadTrade ctx tradeId =
     bindE (asks (\<lambda>b. it_trades b tradeId)) (\<lambda>trade.
       case trade of
         Some t \<Rightarrow> ret (Some t)
       | None \<Rightarrow>
           bindE (store_read ctx (\<lambda>db. it_trades db tradeId)) (\<lambda>trade.
             case trade of
               Some t \<Rightarrow> seqE (put_trade tradeId t) (ret (Some t))
             | None \<Rightarrow> ret None))"

text \<open>The same for the three maps of proposals, written out in each of their handlers.\<close>

definition load_dispute :: "index_ctx \<Rightarrow> string \<Rightarrow> dispute_proposal option index_eff" where
  "load_dispute ctx proposalId =
     bindE (asks (\<lambda>b. it_disputes b proposalId)) (\<lambda>proposal.
       case proposal of
         Some p \<Rightarrow> ret (Some p)
       | None \<Rightarrow>
           bindE (store_read ctx (\<lambda>db. it_disputes db proposalId)) (\<lambda>proposal.
             case proposal of
               Some p \<Rightarrow> seqE (put_dispute proposalId p) (ret (Some p))
             | None \<Rightarrow> ret None))"

definition load_oracle :: "index_ctx \<Rightarrow> string \<Rightarrow> oracle_update_proposal option index_eff" where
  "load_oracle ctx proposalId =
     bindE (asks (\<lambda>b. it_oracleProposals b proposalId)) (\<lambda>proposal.
       case proposal of
         Some p \<Rightarrow> ret (Some p)
       | None \<Rightarrow>
           bindE (store_read ctx (\<lambda>db. it_oracleProposals db proposalId)) (\<lambda>proposal.
             case proposal of
               Some p \<Rightarrow> seqE (put_oracle proposalId p) (ret (Some p))
             | None \<Rightarrow> ret None))"

definition load_admin :: "index_ctx \<Rightarrow> string \<Rightarrow> admin_add_proposal option index_eff" where
  "load_admin ctx proposalId =
     bindE (asks (\<lambda>b. it_adminProposals b proposalId)) (\<lambda>proposal.
       case proposal of
         Some p \<Rightarrow> ret (Some p)
       | None \<Rightarrow>
           bindE (store_read ctx (\<lambda>db. it_adminProposals db proposalId)) (\<lambda>proposal.
             case proposal of
               Some p \<Rightarrow> seqE (put_admin proposalId p) (ret (Some p))
             | None \<Rightarrow> ret None))"

section \<open>Trade events\<close>

definition handleTradeLocked ::
  "event_meta \<Rightarrow> int \<Rightarrow> string \<Rightarrow> string \<Rightarrow> int \<Rightarrow> int \<Rightarrow> int \<Rightarrow> int \<Rightarrow> int \<Rightarrow> string \<Rightarrow> unit index_eff" where
  "handleTradeLocked m tradeId buyer supplier totalAmount logisticsAmount platformFeesAmount
      supplierFirstTranche supplierSecondTranche ricardianHash =
     seqE (put_trade (show_int tradeId)
             \<lparr>xt_id = show_int tradeId, xt_tradeId = show_int tradeId, xt_buyer = to_lower buyer,
              xt_supplier = to_lower supplier, xt_status = LOCKED, xt_totalAmountLocked = totalAmount,
              xt_logisticsAmount = logisticsAmount, xt_platformFeesAmount = platformFeesAmount,
              xt_supplierFirstTranche = supplierFirstTranche, xt_supplierSecondTranche = supplierSecondTranche,
              xt_ricardianHash = ricardianHash, xt_createdAt = em_timestamp m, xt_arrivalTimestamp = None\<rparr>)
       (push_trade_event ((new_trade_event m (show_int tradeId) ''TradeLocked'')
          \<lparr>xe_totalAmount := Some totalAmount, xe_logisticsAmount := Some logisticsAmount,
           xe_platformFeesAmount := Some platformFeesAmount, xe_supplierFirstTranche := Some supplierFirstTranche,
           xe_supplierSecondTranche := Some supplierSecondTranche\<rparr>))"

text \<open>
  The frame of the other handlers of trades: an event of a trade that is not known is logged and
  skipped, otherwise \<open>body\<close> goes on with the trade.
\<close>

definition known_trade :: "index_ctx \<Rightarrow> int \<Rightarrow> (index_trade \<Rightarrow> unit index_eff) \<Rightarrow> unit index_eff" where
  "known_trade ctx tradeId body =
     bindE (getOrLoadTrade ctx (show_int tradeId)) (\<lambda>trade.
       case trade of None \<Rightarrow> ret () | Some t \<Rightarrow> body t)"

definition handleFundsReleasedStage1 :: "index_ctx \<Rightarrow> event_meta \<Rightarrow> int \<Rightarrow> int \<Rightarrow> string \<Rightarrow> int \<Rightarrow> unit index_eff" where
  "handleFundsReleasedStage1 ctx m tradeId supplierFirstTranche treasury logisticsAmount =
     known_trade ctx tradeId (\<lambda>trade.
       seqE (put_trade (show_int tradeId) (trade\<lparr>xt_status := IN_TRANSIT\<rparr>))
         (push_trade_event ((new_trade_event m (xt_id trade) ''FundsReleasedStage1'')
            \<lparr>xe_releasedFirstTranche := Some supplierFirstTranche, xe_releasedLogisticsAmount := Some logisticsAmount,
             xe_treasuryAddress := Some (to_lower treasury)\<rparr>)))"

definition handlePlatformFeesPaidStage1 :: "index_ctx \<Rightarrow> event_meta \<Rightarrow> int \<Rightarrow> string \<Rightarrow> int \<Rightarrow> unit index_eff" where
  "handlePlatformFeesPaidStage1 ctx m tradeId treasury platformFeesAmount =
     known_trade ctx tradeId (\<lambda>trade.
       push_trade_event ((new_trade_event m (xt_id trade) ''PlatformFeesPaidStage1'')
            \<lparr>xe_paidPlatformFees := Some platformFeesAmount, xe_treasuryAddress := Some (to_lower treasury)\<rparr>))"

definition handleArrivalConfirmed :: "index_ctx \<Rightarrow> event_meta \<Rightarrow> int \<Rightarrow> int \<Rightarrow> unit index_eff" where
  "handleArrivalConfirmed ctx m tradeId arrivalTimestamp =
     known_trade ctx tradeId (\<lambda>trade.
       seqE (put_trade (show_int tradeId) (trade\<lparr>xt_status := ARRIVAL_CONFIRMED, xt_arrivalTimestamp := Some (arrivalTimestamp * 1000)\<rparr>))
         (push_trade_event ((new_trade_event m (xt_id trade) ''ArrivalConfirmed'')
            \<lparr>xe_arrivalTimestamp := Some arrivalTimestamp\<rparr>)))"

definition handleFinalTrancheReleased :: "index_ctx \<Rightarrow> event_meta \<Rightarrow> int \<Rightarrow> string \<Rightarrow> int \<Rightarrow> unit index_eff" where
  "handleFinalTrancheReleased ctx m tradeId supplier supplierSecondTranche =
     known_trade ctx tradeId (\<lambda>trade.
       seqE (put_trade (show_int tradeId) (trade\<lparr>xt_status := CLOSED\<rparr>))
         (push_trade_event ((new_trade_event m (xt_id trade) ''FinalTrancheReleased'')
            \<lparr>xe_finalTranche := Some supplierSecondTranche, xe_finalRecipient := Some (to_lower supplier)\<rparr>)))"

definition handleDisputeOpenedByBuyer :: "index_ctx \<Rightarrow> event_meta \<Rightarrow> int \<Rightarrow> unit index_eff" where
  "handleDisputeOpenedByBuyer ctx m tradeId =
     known_trade ctx tradeId (\<lambda>trade.
       seqE (put_trade (show_int tradeId) (trade\<lparr>xt_status := FROZEN\<rparr>))
         (push_trade_event (new_trade_event m (xt_id trade) ''DisputeOpenedByBuyer'')))"

definition handleTradeCancelledAfterLockTimeout :: "index_ctx \<Rightarrow> event_meta \<Rightarrow> int \<Rightarrow> string \<Rightarrow> int \<Rightarrow> unit index_eff" where
  "handleTradeCancelledAfterLockTimeout ctx m tradeId buyer refundedAmount =
     known_trade ctx tradeId (\<lambda>trade.
       seqE (put_trade (show_int tradeId) (trade\<lparr>xt_status := CLOSED\<rparr>))
         (push_trade_event ((new_trade_event m (xt_id trade) ''TradeCancelledAfterLockTimeout'')
            \<lparr>xe_refundedAmount := Some refundedAmount, xe_refundedTo := Some (to_lower buyer)\<rparr>)))"

definition handleInTransitTimeoutRefunded :: "index_ctx \<Rightarrow> event_meta \<Rightarrow> int \<Rightarrow> string \<Rightarrow> int \<Rightarrow> unit index_eff" where
  "handleInTransitTimeoutRefunded ctx m tradeId buyer refundedAmount =
     known_trade ctx tradeId (\<lambda>trade.
       seqE (put_trade (show_int tradeId) (trade\<lparr>xt_status := CLOSED\<rparr>))
         (push_trade_event ((new_trade_event m (xt_id trade) ''InTransitTimeoutRefunded'')
            \<lparr>xe_refundedBuyerPrincipal := Some refundedAmount, xe_refundedTo := Some (to_lower buyer)\<rparr>)))"

section \<open>Dispute events\<close>

definition dispute_status_of :: "js_number \<Rightarrow> dispute_status" where
  "dispute_status_of disputeStatus = (if strict_zero disputeStatus then REFUND else RESOLVE)"

definition DISPUTE_PROPOSAL_TTL :: int where
  "DISPUTE_PROPOSAL_TTL = 7 * 24 * 60 * 60 * 1000"

definition handleDisputeSolutionProposed ::
  "index_ctx \<Rightarrow> event_meta \<Rightarrow> int \<Rightarrow> int \<Rightarrow> js_number \<Rightarrow> string \<Rightarrow> unit index_eff" where
  "handleDisputeSolutionProposed ctx m proposalId tradeId disputeStatus proposer =
     known_trade ctx tradeId (\<lambda>trade.
       seqE (put_dispute (show_int proposalId)
               \<lparr>xd_id = show_int proposalId, xd_proposalId = show_int proposalId, xd_trade = xt_id trade,
                xd_disputeStatus = dispute_status_of disputeStatus, xd_approvalCount = 1, xd_executed = False,
                xd_createdAt = em_timestamp m, xd_proposer = to_lower proposer,
                xd_expiresAt = em_timestamp m + DISPUTE_PROPOSAL_TTL, xd_cancelled = False\<rparr>)
         (push_dispute_event ((new_dispute_event m (show_int proposalId) ''DisputeSolutionProposed'')
            \<lparr>xf_proposedDisputeStatus := Some (dispute_status_of disputeStatus),
             xf_proposer := Some (to_lower proposer)\<rparr>)))"

definition known_dispute :: "index_ctx \<Rightarrow> int \<Rightarrow> (dispute_proposal \<Rightarrow> unit index_eff) \<Rightarrow> unit index_eff" where
  "known_dispute ctx proposalId body =
     bindE (load_dispute ctx (show_int proposalId)) (\<lambda>proposal.
       case proposal of None \<Rightarrow> ret () | Some p \<Rightarrow> body p)"

definition handleDisputeApproved :: "index_ctx \<Rightarrow> event_meta \<Rightarrow> int \<Rightarrow> string \<Rightarrow> int \<Rightarrow> int \<Rightarrow> unit index_eff" where
  "handleDisputeApproved ctx m proposalId approver approvalCount requiredApprovals =
     known_dispute ctx proposalId (\<lambda>proposal.
       seqE (put_dispute (show_int proposalId) (proposal\<lparr>xd_approvalCount := approvalCount\<rparr>))
         (push_dispute_event ((new_dispute_event m (xd_id proposal) ''DisputeApproved'')
            \<lparr>xf_approver := Some (to_lower approver), xf_approvalCount := Some approvalCount,
             xf_requiredApprovals := Some requiredApprovals\<rparr>)))"

definition handleDisputeFinalized :: "index_ctx \<Rightarrow> event_meta \<Rightarrow> int \<Rightarrow> int \<Rightarrow> js_number \<Rightarrow> unit index_eff" where
  "handleDisputeFinalized ctx m proposalId tradeId disputeStatus =
     known_dispute ctx proposalId (\<lambda>proposal.
       seqE (put_dispute (show_int proposalId) (proposal\<lparr>xd_executed := True\<rparr>))
         (push_dispute_event ((new_dispute_event m (xd_id proposal) ''DisputeFinalized'')
            \<lparr>xf_finalDisputeStatus := Some (dispute_status_of disputeStatus)\<rparr>)))"

definition handleDisputeProposalExpiredCancelled :: "index_ctx \<Rightarrow> event_meta \<Rightarrow> int \<Rightarrow> int \<Rightarrow> string \<Rightarrow> unit index_eff" where
  "handleDisputeProposalExpiredCancelled ctx m proposalId tradeId cancelledBy =
     known_dispute ctx proposalId (\<lambda>proposal.
       seqE (put_dispute (show_int proposalId) (proposal\<lparr>xd_cancelled := True\<rparr>))
         (push_dispute_event ((new_dispute_event m (xd_id proposal) ''DisputeProposalExpiredCancelled'')
            \<lparr>xf_cancelledBy := Some (to_lower cancelledBy)\<rparr>)))"

definition handleDisputePayout :: "index_ctx \<Rightarrow> event_meta \<Rightarrow> int \<Rightarrow> int \<Rightarrow> string \<Rightarrow> int \<Rightarrow> js_number \<Rightarrow> unit index_eff" where
  "handleDisputePayout ctx m tradeId proposalId recipient amount payoutType =
     known_trade ctx tradeId (\<lambda>trade.
       push_trade_event ((new_trade_event m (xt_id trade) ''DisputePayout'')
            \<lparr>xe_payoutRecipient := Some (to_lower recipient), xe_payoutAmount := Some amount,
             xe_payoutType := Some (dispute_status_of payoutType), xe_relatedProposalId := Some (show_int proposalId)\<rparr>))"

section \<open>Oracle events\<close>

definition GOVERNANCE_PROPOSAL_TTL :: int where
  "GOVERNANCE_PROPOSAL_TTL = 7 * 24 * 60 * 60 * 1000"

definition handleOracleUpdateProposed ::
  "event_meta \<Rightarrow> int \<Rightarrow> string \<Rightarrow> string \<Rightarrow> int \<Rightarrow> bool \<Rightarrow> unit index_eff" where
  "handleOracleUpdateProposed m proposalId proposer newOracle eta emergencyFastTrack =
     seqE (put_oracle (show_int proposalId)
             \<lparr>xo_id = show_int proposalId, xo_proposalId = show_int proposalId, xo_newOracle = to_lower newOracle,
              xo_approvalCount = 1, xo_executed = False, xo_createdAt = em_timestamp m, xo_eta = eta,
              xo_proposer = to_lower proposer, xo_emergencyFastTrack = emergencyFastTrack,
              xo_expiresAt = em_timestamp m + GOVERNANCE_PROPOSAL_TTL, xo_cancelled = False\<rparr>)
       (push_oracle_event ((new_oracle_event m (Some (show_int proposalId)) ''OracleUpdateProposed'')
          \<lparr>xp_proposedOracle := Some (to_lower newOracle), xp_eta := Some eta, xp_proposer := Some (to_lower proposer)\<rparr>))"

definition known_oracle :: "index_ctx \<Rightarrow> int \<Rightarrow> (oracle_update_proposal \<Rightarrow> unit index_eff) \<Rightarrow> unit index_eff" where
  "known_oracle ctx proposalId body =
     bindE (load_oracle ctx (show_int proposalId)) (\<lambda>proposal.
       case proposal of None \<Rightarrow> ret () | Some p \<Rightarrow> body p)"

definition handleOracleUpdateApproved :: "index_ctx \<Rightarrow> event_meta \<Rightarrow> int \<Rightarrow> string \<Rightarrow> int \<Rightarrow> int \<Rightarrow> unit index_eff" where
  "handleOracleUpdateApproved ctx m proposalId approver approvalCount requiredApprovals =
     known_oracle ctx proposalId (\<lambda>proposal.
       seqE (put_oracle (show_int proposalId) (proposal\<lparr>xo_approvalCount := approvalCount\<rparr>))
         (push_oracle_event ((new_oracle_event m (Some (xo_id proposal)) ''OracleUpdateApproved'')
            \<lparr>xp_approver := Some (to_lower approver), xp_approvalCount := Some approvalCount,
             xp_requiredApprovals := Some requiredApprovals\<rparr>)))"

definition handleOracleUpdated :: "event_meta \<Rightarrow> string \<Rightarrow> string \<Rightarrow> unit index_eff" where
  "handleOracleUpdated m oldOracle newOracle =
     push_oracle_event ((new_oracle_event m None ''OracleUpdated'')
       \<lparr>xp_oldOracle := Some (to_lower oldOracle), xp_newOracle := Some (to_lower newOracle)\<rparr>)"

definition handleOracleUpdateProposalExpiredCancelled :: "index_ctx \<Rightarrow> event_meta \<Rightarrow> int \<Rightarrow> string \<Rightarrow> unit index_eff" where
  "handleOracleUpdateProposalExpiredCancelled ctx m proposalId cancelledBy =
     known_oracle ctx proposalId (\<lambda>proposal.
       seqE (put_oracle (show_int proposalId) (proposal\<lparr>xo_cancelled := True\<rparr>))
         (push_oracle_event ((new_oracle_event m (Some (xo_id proposal)) ''OracleUpdateProposalExpiredCancelled'')
            \<lparr>xp_cancelledBy := Some (to_lower cancelledBy)\<rparr>)))"

definition handleOracleDisabledEmergency :: "event_meta \<Rightarrow> string \<Rightarrow> string \<Rightarrow> unit index_eff" where
  "handleOracleDisabledEmergency m disabledBy previousOracle =
     push_oracle_event ((new_oracle_event m None ''OracleDisabledEmergency'')
       \<lparr>xp_disabledBy := Some (to_lower disabledBy), xp_previousOracle := Some (to_lower previousOracle)\<rparr>)"

section \<open>Admin events\<close>

definition handleAdminAddProposed :: "event_meta \<Rightarrow> int \<Rightarrow> string \<Rightarrow> string \<Rightarrow> int \<Rightarrow> unit index_eff" where
  "handleAdminAddProposed m proposalId proposer newAdmin eta =
     seqE (put_admin (show_int proposalId)
             \<lparr>xa_id = show_int proposalId, xa_proposalId = show_int proposalId, xa_newAdmin = to_lower newAdmin,
              xa_approvalCount = 1, xa_executed = False, xa_createdAt = em_timestamp m, xa_eta = eta,
              xa_proposer = to_lower proposer, xa_expiresAt = em_timestamp m + GOVERNANCE_PROPOSAL_TTL,
              xa_cancelled = False\<rparr>)
       (push_admin_event ((new_admin_event m (Some (show_int proposalId)) ''AdminAddProposed'')
          \<lparr>xb_proposedAdmin := Some (to_lower newAdmin), xb_eta := Some eta, xb_proposer := Some (to_lower proposer)\<rparr>))"

definition known_admin :: "index_ctx \<Rightarrow> int \<Rightarrow> (admin_add_proposal \<Rightarrow> unit index_eff) \<Rightarrow> unit index_eff" where
  "known_admin ctx proposalId body =
     bindE (load_admin ctx (show_int proposalId)) (\<lambda>proposal.
       case proposal of None \<Rightarrow> ret () | Some p \<Rightarrow> body p)"

definition handleAdminAddApproved :: "index_ctx \<Rightarrow> event_meta \<Rightarrow> int \<Rightarrow> string \<Rightarrow> int \<Rightarrow> int \<Rightarrow> unit index_eff" where
  "handleAdminAddApproved ctx m proposalId approver approvalCount requiredApprovals =
     known_admin ctx proposalId (\<lambda>proposal.
       seqE (put_admin (show_int proposalId) (proposal\<lparr>xa_approvalCount := approvalCount\<rparr>))
         (push_admin_event ((new_admin_event m (Some (xa_id proposal)) ''AdminAddApproved'')
            \<lparr>xb_approver := Some (to_lower approver), xb_approvalCount := Some approvalCount,
             xb_requiredApprovals := Some requiredApprovals\<rparr>)))"

definition handleAdminAdded :: "event_meta \<Rightarrow> string \<Rightarrow> unit index_eff" where
  "handleAdminAdded m newAdmin =
     push_admin_event ((new_admin_event m None ''AdminAdded'')\<lparr>xb_addedAdmin := Some (to_lower newAdmin)\<rparr>)"

definition handleAdminAddProposalExpiredCancelled :: "index_ctx \<Rightarrow> event_meta \<Rightarrow> int \<Rightarrow> string \<Rightarrow> unit index_eff" where
  "handleAdminAddProposalExpiredCancelled ctx m proposalId cancelledBy =
     known_admin ctx proposalId (\<lambda>proposal.
       seqE (put_admin (show_int proposalId) (proposal\<lparr>xa_cancelled := True\<rparr>))
         (push_admin_event ((new_admin_event m (Some (xa_id proposal)) ''AdminAddProposalExpiredCancelled'')
            \<lparr>xb_cancelledBy := Some (to_lower cancelledBy)\<rparr>)))"

section \<open>System events\<close>

definition handlePaused :: "event_meta \<Rightarrow> string \<Rightarrow> unit index_eff" where
  "handlePaused m triggeredBy =
     push_system_event ((new_system_event m ''Paused'')
       \<lparr>xs_triggeredBy := Some (to_lower triggeredBy)\<rparr>)"

definition handleUnpauseProposed :: "event_meta \<Rightarrow> string \<Rightarrow> unit index_eff" where
  "handleUnpauseProposed m triggeredBy =
     push_system_event ((new_system_event m ''UnpauseProposed'')
       \<lparr>xs_triggeredBy := Some (to_lower triggeredBy)\<rparr>)"

definition handleUnpauseApproved :: "event_meta \<Rightarrow> string \<Rightarrow> int \<Rightarrow> int \<Rightarrow> unit index_eff" where
  "handleUnpauseApproved m triggeredBy approvalCount requiredApprovals =
     push_system_event ((new_system_event m ''UnpauseApproved'')
       \<lparr>xs_triggeredBy := Some (to_lower triggeredBy)\<rparr>)"

definition handleUnpauseProposalCancelled :: "event_meta \<Rightarrow> string \<Rightarrow> unit index_eff" where
  "handleUnpauseProposalCancelled m triggeredBy =
     push_system_event ((new_system_event m ''UnpauseProposalCancelled'')
       \<lparr>xs_triggeredBy := Some (to_lower triggeredBy)\<rparr>)"

definition handleUnpaused :: "event_meta \<Rightarrow> string \<Rightarrow> unit index_eff" where
  "handleUnpaused m triggeredBy =
     push_system_event ((new_system_event m ''Unpaused'')
       \<lparr>xs_triggeredBy := Some (to_lower triggeredBy)\<rparr>)"

section \<open>Claim events\<close>

text \<open>\<open>Object.values(ClaimType)\<close>\<close>

definition CLAIM_TYPE_VALUES :: "claim_type list" where
  "CLAIM_TYPE_VALUES =
     [STAGE1_SUPPLIER, STAGE1_LOGISTICS_FEE, STAGE1_PLATFORM_FEE, STAGE2_SUPPLIER, LOCK_TIMEOUT_BUYER_REFUND,
      IN_TRANSIT_TIMEOUT_BUYER_REFUND, DISPUTE_REFUND_BUYER, DISPUTE_RESOLVE_SUPPLIER]"

definition claim_type_of :: "js_number \<Rightarrow> claim_type option" where
  "claim_type_of claimType =
     (let i = js_to_int claimType
      in if 0 \<le> i \<and> i < int (length CLAIM_TYPE_VALUES) then Some (CLAIM_TYPE_VALUES ! nat i) else None)"

definition handleClaimableAccrued :: "index_ctx \<Rightarrow> event_meta \<Rightarrow> int \<Rightarrow> string \<Rightarrow> int \<Rightarrow> js_number \<Rightarrow> unit index_eff" where
  "handleClaimableAccrued ctx m tradeId recipient amount claimType =
     known_trade ctx tradeId (\<lambda>trade.
       push_trade_event ((new_trade_event m (xt_id trade) ''ClaimableAccrued'')
            \<lparr>xe_claimType := claim_type_of claimType, xe_claimRecipient := Some (to_lower recipient),
             xe_claimAmount := Some amount\<rparr>))"

definition handleClaimed :: "event_meta \<Rightarrow> string \<Rightarrow> int \<Rightarrow> unit index_eff" where
  "handleClaimed m claimant amount =
     push_system_event ((new_system_event m ''Claimed'')
       \<lparr>xs_triggeredBy := Some (to_lower claimant), xs_claimAmount := Some amount\<rparr>)"

definition handleTreasuryClaimed :: "event_meta \<Rightarrow> string \<Rightarrow> string \<Rightarrow> int \<Rightarrow> string \<Rightarrow> unit index_eff" where
  "handleTreasuryClaimed m treasuryIdentity payoutReceiver amount triggeredBy =
     push_system_event ((new_system_event m ''TreasuryClaimed'')
       \<lparr>xs_triggeredBy := Some (to_lower triggeredBy), xs_claimAmount := Some amount,
        xs_treasuryIdentity := Some (to_lower treasuryIdentity), xs_payoutReceiver := Some (to_lower payoutReceiver)\<rparr>)"

definition handleTreasuryPayoutAddressUpdateProposed :: "event_meta \<Rightarrow> int \<Rightarrow> string \<Rightarrow> string \<Rightarrow> int \<Rightarrow> unit index_eff" where
  "handleTreasuryPayoutAddressUpdateProposed m proposalId proposer newPayoutReceiver eta =
     push_system_event ((new_system_event m ''TreasuryPayoutAddressUpdateProposed'')
       \<lparr>xs_proposalId := Some (show_int proposalId), xs_triggeredBy := Some (to_lower proposer),
        xs_newPayoutReceiver := Some (to_lower newPayoutReceiver),
        xs_payoutReceiver := Some (to_lower newPayoutReceiver), xs_eta := Some eta\<rparr>)"

definition handleTreasuryPayoutAddressUpdateApproved :: "event_meta \<Rightarrow> int \<Rightarrow> string \<Rightarrow> int \<Rightarrow> int \<Rightarrow> unit index_eff" where
  "handleTreasuryPayoutAddressUpdateApproved m proposalId approver approvalCount requiredApprovals =
     push_system_event ((new_system_event m ''TreasuryPayoutAddressUpdateApproved'')
       \<lparr>xs_proposalId := Some (show_int proposalId), xs_triggeredBy := Some (to_lower approver),
        xs_approvalCount := Some approvalCount, xs_requiredApprovals := Some requiredApprovals\<rparr>)"

definition handleTreasuryPayoutAddressUpdated :: "event_meta \<Rightarrow> string \<Rightarrow> string \<Rightarrow> unit index_eff" where
  "handleTreasuryPayoutAddressUpdated m oldPayoutReceiver newPayoutReceiver =
     push_system_event ((new_system_event m ''TreasuryPayoutAddressUpdated'')
       \<lparr>xs_oldPayoutReceiver := Some (to_lower oldPayoutReceiver),
        xs_newPayoutReceiver := Some (to_lower newPayoutReceiver),
        xs_payoutReceiver := Some (to_lower newPayoutReceiver)\<rparr>)"

definition handleTreasuryPayoutAddressUpdateProposalExpiredCancelled :: "event_meta \<Rightarrow> int \<Rightarrow> string \<Rightarrow> unit index_eff" where
  "handleTreasuryPayoutAddressUpdateProposalExpiredCancelled m proposalId cancelledBy =
     push_system_event ((new_system_event m ''TreasuryPayoutAddressUpdateProposalExpiredCancelled'')
       \<lparr>xs_proposalId := Some (show_int proposalId), xs_triggeredBy := Some (to_lower cancelledBy)\<rparr>)"

definition handleClaimsPaused :: "event_meta \<Rightarrow> string \<Rightarrow> unit index_eff" where
  "handleClaimsPaused m triggeredBy =
     push_system_event ((new_system_event m ''ClaimsPaused'')
       \<lparr>xs_triggeredBy := Some (to_lower triggeredBy)\<rparr>)"

definition handleClaimsUnpaused :: "event_meta \<Rightarrow> string \<Rightarrow> unit index_eff" where
  "handleClaimsUnpaused m triggeredBy =
     push_system_event ((new_system_event m ''ClaimsUnpaused'')
       \<lparr>xs_triggeredBy := Some (to_lower triggeredBy)\<rparr>)"

end
