(* ===== verification/Index_Batch.thy ===== *)
theory Index_Batch imports Main Index_Handlers begin

text \<open>
  A batch of the indexer (\<open>processor.run\<close> in \<open>indexer/src/main.ts\<close>, \<open>utils/eventHashes.ts\<close>): every
  event of every block is decoded and handled, an error is logged and the next event follows, and at
  the end the entities are upserted and the event rows inserted in one transaction, which fails when a
  row with the same id is there.
\<close>

section \<open>Hashes\<close>

text \<open>
  \<open>ie_parseLog\<close> is \<open>Interface.parseLog\<close> and \<open>ie_keccak\<close> is \<open>keccak256\<close> of ethers (\<open>None\<close> for a throw).
\<close>

record index_env =
  ie_escrow :: string
  ie_parseLog :: "string list \<Rightarrow> string \<Rightarrow> string + escrow_event option"
  ie_keccak :: "string \<Rightarrow> string option"

definition extractEvmTxHash :: "index_env \<Rightarrow> chain_extrinsic option \<Rightarrow> string option" where
  "extractEvmTxHash env extrinsic =
     (case Option.bind extrinsic cx_call of
        Some (name, payload) \<Rightarrow>
          (if name = ''Revive.eth_transact'' \<and> truthy_opt payload then ie_keccak env (the payload) else None)
      | None \<Rightarrow> None)"

definition resolveEventHashes :: "index_env \<Rightarrow> chain_extrinsic option \<Rightarrow> string option \<times> string option" where
  "resolveEventHashes env extrinsic =
     (let candidate = Option.bind extrinsic cx_hash
      in (extractEvmTxHash env extrinsic,
          if truthy_opt candidate \<and> candidate \<noteq> Some ''unknown'' then candidate else None))"

definition assertNoExtrinsicFallbackAsTxHash :: "string option \<times> string option \<Rightarrow> string + unit" where
  "assertNoExtrinsicFallbackAsTxHash eventHashes =
     (case eventHashes of (txHash, extrinsicHash) \<Rightarrow>
        if truthy_opt txHash \<and> truthy_opt extrinsicHash \<and> txHash = extrinsicHash
        then Inl ''Invariant violation: extrinsic hash must not be stored as txHash'' else Inr ())"

section \<open>One event\<close>

definition handle_event :: "index_ctx \<Rightarrow> event_meta \<Rightarrow> escrow_event \<Rightarrow> unit index_eff" where
  "handle_event ctx m decoded =
     (case decoded of
        TradeLocked tradeId buyer supplier totalAmount logisticsAmount platformFeesAmount first second ricardianHash \<Rightarrow> handleTradeLocked m tradeId buyer supplier totalAmount logisticsAmount platformFeesAmount first second ricardianHash
      | FundsReleasedStage1 tradeId supplier first treasury logisticsAmount \<Rightarrow> handleFundsReleasedStage1 ctx m tradeId first treasury logisticsAmount
      | PlatformFeesPaidStage1 tradeId treasury platformFeesAmount \<Rightarrow> handlePlatformFeesPaidStage1 ctx m tradeId treasury platformFeesAmount
      | ArrivalConfirmed tradeId arrivalTimestamp \<Rightarrow> handleArrivalConfirmed ctx m tradeId arrivalTimestamp
      | FinalTrancheReleased tradeId supplier second \<Rightarrow> handleFinalTrancheReleased ctx m tradeId supplier second
      | DisputeOpenedByBuyer tradeId \<Rightarrow> handleDisputeOpenedByBuyer ctx m tradeId
      | TradeCancelledAfterLockTimeout tradeId buyer refundedAmount \<Rightarrow> handleTradeCancelledAfterLockTimeout ctx m tradeId buyer refundedAmount
      | InTransitTimeoutRefunded tradeId buyer refundedAmount \<Rightarrow> handleInTransitTimeoutRefunded ctx m tradeId buyer refundedAmount
      | DisputeSolutionProposed proposalId tradeId disputeStatus proposer \<Rightarrow> handleDisputeSolutionProposed ctx m proposalId tradeId disputeStatus proposer
      | DisputeApproved proposalId approver approvalCount requiredApprovals \<Rightarrow> handleDisputeApproved ctx m proposalId approver approvalCount requiredApprovals
      | DisputeFinalized proposalId tradeId disputeStatus \<Rightarrow> handleDisputeFinalized ctx m proposalId tradeId disputeStatus
      | DisputeProposalExpiredCancelled proposalId tradeId cancelledBy \<Rightarrow> handleDisputeProposalExpiredCancelled ctx m proposalId tradeId cancelledBy
      | DisputePayout tradeId proposalId recipient amount payoutType \<Rightarrow> handleDisputePayout ctx m tradeId proposalId recipient amount payoutType
      | OracleUpdateProposed proposalId proposer newOracle eta emergencyFastTrack \<Rightarrow> handleOracleUpdateProposed m proposalId proposer newOracle eta emergencyFastTrack
      | OracleUpdateApproved proposalId approver approvalCount requiredApprovals \<Rightarrow> handleOracleUpdateApproved ctx m proposalId approver approvalCount requiredApprovals
      | OracleUpdated oldOracle newOracle \<Rightarrow> handleOracleUpdated m oldOracle newOracle
      | OracleUpdateProposalExpiredCancelled proposalId cancelledBy \<Rightarrow> handleOracleUpdateProposalExpiredCancelled ctx m proposalId cancelledBy
      | OracleDisabledEmergency disabledBy previousOracle \<Rightarrow> handleOracleDisabledEmergency m disabledBy previousOracle
      | AdminAddProposed proposalId proposer newAdmin eta \<Rightarrow> handleAdminAddProposed m proposalId proposer newAdmin eta
      | AdminAddApproved proposalId approver approvalCount requiredApprovals \<Rightarrow> handleAdminAddApproved ctx m proposalId approver approvalCount requiredApprovals
      | AdminAdded newAdmin \<Rightarrow> handleAdminAdded m newAdmin
      | AdminAddProposalExpiredCancelled proposalId cancelledBy \<Rightarrow> handleAdminAddProposalExpiredCancelled ctx m proposalId cancelledBy
      | Paused triggeredBy \<Rightarrow> handlePaused m triggeredBy
      | UnpauseProposed triggeredBy \<Rightarrow> handleUnpauseProposed m triggeredBy
      | UnpauseApproved triggeredBy approvalCount requiredApprovals \<Rightarrow> handleUnpauseApproved m triggeredBy approvalCount requiredApprovals
      | UnpauseProposalCancelled triggeredBy \<Rightarrow> handleUnpauseProposalCancelled m triggeredBy
      | Unpaused triggeredBy \<Rightarrow> handleUnpaused m triggeredBy
      | ClaimsPaused triggeredBy \<Rightarrow> handleClaimsPaused m triggeredBy
      | ClaimsUnpaused triggeredBy \<Rightarrow> handleClaimsUnpaused m triggeredBy
      | Claimed claimant amount \<Rightarrow> handleClaimed m claimant amount
      | TreasuryClaimed treasuryIdentity payoutReceiver amount triggeredBy \<Rightarrow> handleTreasuryClaimed m treasuryIdentity payoutReceiver amount triggeredBy
      | TreasuryPayoutAddressUpdateProposed proposalId proposer newPayoutReceiver eta \<Rightarrow> handleTreasuryPayoutAddressUpdateProposed m proposalId proposer newPayoutReceiver eta
      | TreasuryPayoutAddressUpdateApproved proposalId approver approvalCount requiredApprovals \<Rightarrow> handleTreasuryPayoutAddressUpdateApproved m proposalId approver approvalCount requiredApprovals
      | TreasuryPayoutAddressUpdated oldPayoutReceiver newPayoutReceiver \<Rightarrow> handleTreasuryPayoutAddressUpdated m oldPayoutReceiver newPayoutReceiver
      | TreasuryPayoutAddressUpdateProposalExpiredCancelled proposalId cancelledBy \<Rightarrow> handleTreasuryPayoutAddressUpdateProposalExpiredCancelled m proposalId cancelledBy
      | ClaimableAccrued tradeId recipient amount claimType \<Rightarrow> handleClaimableAccrued ctx m tradeId recipient amount claimType
      | Other_event name \<Rightarrow> ret ())"

definition meta_of :: "index_env \<Rightarrow> chain_block \<Rightarrow> chain_event \<Rightarrow> string option \<times> string option \<Rightarrow> event_meta" where
  "meta_of env block event eventHashes =
     \<lparr>em_id = ce_id event, em_blockNumber = cb_height block,
      em_timestamp = (case cb_timestamp block of None \<Rightarrow> 0 | Some t \<Rightarrow> t),
      em_txHash = fst eventHashes, em_extrinsicHash = snd eventHashes,
      em_extrinsicIndex = (case ce_extrinsicIndex event of None \<Rightarrow> 0 | Some i \<Rightarrow> i)\<rparr>"

definition extrinsic_of :: "chain_block \<Rightarrow> chain_event \<Rightarrow> chain_extrinsic option" where
  "extrinsic_of block event = find (\<lambda>e. Some (cx_index e) = ce_extrinsicIndex event) (cb_extrinsics block)"

text \<open>The body of the \<open>try\<close>; \<open>continue\<close> is a return.\<close>

definition event_body :: "index_env \<Rightarrow> index_ctx \<Rightarrow> chain_block \<Rightarrow> chain_event \<Rightarrow> unit index_eff" where
  "event_body env ctx block event =
     (if to_lower (ce_contract event) \<noteq> ie_escrow env then ret ()
      else bindE (lift (ie_parseLog env (ce_topics event) (ce_data event))) (\<lambda>decoded.
        case decoded of
          None \<Rightarrow> ret ()
        | Some d \<Rightarrow>
            (let eventHashes = resolveEventHashes env (extrinsic_of block event)
             in seqE (lift (assertNoExtrinsicFallbackAsTxHash eventHashes))
                  (handle_event ctx (meta_of env block event eventHashes) d))))"

definition process_event :: "index_env \<Rightarrow> index_ctx \<Rightarrow> chain_block \<Rightarrow> chain_event \<Rightarrow> unit index_eff" where
  "process_event env ctx block event =
     (if ce_name event \<noteq> ''Revive.ContractEmitted'' then ret ()
      else catchE (event_body env ctx block event) (\<lambda>_. ret ()))"

section \<open>A batch\<close>

text \<open>\<open>reject\<close> says which event's read of the store is rejected.\<close>

definition process_block ::
  "index_env \<Rightarrow> index_tables \<Rightarrow> (string \<Rightarrow> string option) \<Rightarrow> chain_block \<Rightarrow> unit index_eff" where
  "process_block env db reject block =
     forE (cb_events block) (\<lambda>event.
       process_event env \<lparr>ic_store = db, ic_reject = reject (ce_id event)\<rparr> block event)"

text \<open>
  The rows that the batch leaves: the entities it touched replace those of the store, its event rows
  come after those that are there.  \<open>ids_ok\<close> is the primary key of the five event tables.
\<close>

definition flush :: "index_tables \<Rightarrow> index_tables \<Rightarrow> index_tables" where
  "flush db b =
     \<lparr>it_trades = it_trades db ++ it_trades b, it_tradeEvents = it_tradeEvents db @ it_tradeEvents b,
      it_disputes = it_disputes db ++ it_disputes b, it_disputeEvents = it_disputeEvents db @ it_disputeEvents b,
      it_oracleProposals = it_oracleProposals db ++ it_oracleProposals b,
      it_oracleEvents = it_oracleEvents db @ it_oracleEvents b,
      it_adminProposals = it_adminProposals db ++ it_adminProposals b,
      it_adminEvents = it_adminEvents db @ it_adminEvents b,
      it_systemEvents = it_systemEvents db @ it_systemEvents b\<rparr>"

definition ids_ok :: "index_tables \<Rightarrow> bool" where
  "ids_ok db \<longleftrightarrow>
     distinct (map (\<lambda>e. em_id (xe_meta e)) (it_tradeEvents db)) \<and>
     distinct (map (\<lambda>e. em_id (xf_meta e)) (it_disputeEvents db)) \<and>
     distinct (map (\<lambda>e. em_id (xp_meta e)) (it_oracleEvents db)) \<and>
     distinct (map (\<lambda>e. em_id (xb_meta e)) (it_adminEvents db)) \<and>
     distinct (map (\<lambda>e. em_id (xs_meta e)) (it_systemEvents db))"

definition save :: "index_tables \<Rightarrow> index_tables \<Rightarrow> index_tables option" where
  "save db b = (if ids_ok (flush db b) then Some (flush db b) else None)"

definition process_batch ::
  "index_env \<Rightarrow> (string \<Rightarrow> string option) \<Rightarrow> index_tables \<Rightarrow> chain_block list \<Rightarrow> index_tables option" where
  "process_batch env reject db blocks =
     save db (state_of (forE blocks (process_block env db reject) empty_tables))"

fun index_run ::
  "index_env \<Rightarrow> ((string \<Rightarrow> string option) \<times> chain_block list) list \<Rightarrow> index_tables \<Rightarrow> index_tables option" where
  "index_run env [] db = Some db"
| "index_run env ((reject, blocks) # batches) db =
     Option.bind (process_batch env reject db blocks) (index_run env batches)"

end
