(* ===== verification/Index_Replay.thy ===== *)
theory Index_Replay imports Main Index_Batch begin

text \<open>
  A handler sees the database and the variables of the batch only through \<open>flush\<close>: a part of a batch
  may as well have been saved before.  So the split of the events into batches does not matter, and a
  run is the fold of a step of one event on the database.
  With it a run is a fold over the decoded events.
\<close>

section \<open>Handlers see the merged tables\<close>

definition ctx_of :: "index_tables \<Rightarrow> index_ctx" where
  "ctx_of db = \<lparr>ic_store = db, ic_reject = None\<rparr>"

lemma ctx_of_simps [simp]: "ic_store (ctx_of db) = db" "ic_reject (ctx_of db) = None"
  by (simp_all add: ctx_of_def)

definition view_only :: "(index_tables \<Rightarrow> 'a index_eff) \<Rightarrow> bool" where
  "view_only h \<longleftrightarrow>
     (\<forall>db b db' b'. flush db b = flush db' b' \<longrightarrow>
        result_of (h db b) = result_of (h db' b') \<and> flush db (state_of (h db b)) = flush db' (state_of (h db' b')))"

named_theorems view_rules "rules that split a goal about view_only along a handler"

lemma view_onlyI:
  "(\<And>db b db' b'. flush db b = flush db' b' \<Longrightarrow>
      result_of (h db b) = result_of (h db' b') \<and> flush db (state_of (h db b)) = flush db' (state_of (h db' b'))) \<Longrightarrow>
   view_only h"
  unfolding view_only_def by blast

lemma view_onlyD:
  assumes "view_only h" "flush db b = flush db' b'" "h db b = (r, c)" "h db' b' = (r', c')"
  shows "r' = r" "flush db' c' = flush db c"
proof -
  have "result_of (h db b) = result_of (h db' b') \<and> flush db (state_of (h db b)) = flush db' (state_of (h db' b'))"
    by (rule assms(1) [unfolded view_only_def, rule_format, OF assms(2)])
  with assms(3,4) show "r' = r" "flush db' c' = flush db c" by simp_all
qed

lemma view_onlyE:
  assumes "view_only h" "flush db b = flush db' b'"
  shows "result_of (h db b) = result_of (h db' b')" "flush db (state_of (h db b)) = flush db' (state_of (h db' b'))"
  using assms(1) [unfolded view_only_def, rule_format, OF assms(2)] by (rule conjunct1, rule conjunct2)

lemma view_ret [view_rules]: "view_only (\<lambda>db. ret x)"
  by (rule view_onlyI) (simp add: ret_app)

lemma view_lift [view_rules]: "view_only (\<lambda>db. lift r)"
  by (rule view_onlyI) (simp add: lift_app)

lemma view_bind [view_rules]:
  assumes m: "view_only m" and f: "\<And>x. view_only (\<lambda>db. f db x)"
  shows "view_only (\<lambda>db. bindE (m db) (f db))"
proof (rule view_onlyI)
  fix db b db' b' assume eq: "flush db b = flush db' b'"
  obtain r b1 r' b1' where 1: "m db b = (r, b1)" "m db' b' = (r', b1')" by fastforce
  note same = view_onlyD [OF m eq 1]
  note cont = view_onlyE [OF f same(2) [symmetric]]
  from 1 same(1) cont show "result_of (bindE (m db) (f db) b) = result_of (bindE (m db') (f db') b') \<and>
      flush db (state_of (bindE (m db) (f db) b)) = flush db' (state_of (bindE (m db') (f db') b'))"
    by (cases r) (simp_all add: bindE_app same(2))
qed

lemma view_seq [view_rules]: "view_only m \<Longrightarrow> view_only n \<Longrightarrow> view_only (\<lambda>db. seqE (m db) (n db))"
  unfolding seqE_def by (rule view_bind)

lemma view_catch [view_rules]:
  assumes m: "view_only m" and h: "\<And>e. view_only (\<lambda>db. h db e)"
  shows "view_only (\<lambda>db. catchE (m db) (h db))"
proof (rule view_onlyI)
  fix db b db' b' assume eq: "flush db b = flush db' b'"
  obtain r b1 r' b1' where 1: "m db b = (r, b1)" "m db' b' = (r', b1')" by fastforce
  note same = view_onlyD [OF m eq 1]
  note cont = view_onlyE [OF h same(2) [symmetric]]
  from 1 same(1) cont show "result_of (catchE (m db) (h db) b) = result_of (catchE (m db') (h db') b') \<and>
      flush db (state_of (catchE (m db) (h db) b)) = flush db' (state_of (catchE (m db') (h db') b'))"
    by (cases r) (simp_all add: catchE_app same(2))
qed

lemma view_if [view_rules]:
  "view_only m \<Longrightarrow> view_only n \<Longrightarrow> view_only (\<lambda>db. if c then m db else n db)"
  by (cases c) simp_all

lemma view_case_option [view_rules]:
  "view_only m \<Longrightarrow> (\<And>y. view_only (\<lambda>db. f db y)) \<Longrightarrow>
   view_only (\<lambda>db. case x of None \<Rightarrow> m db | Some y \<Rightarrow> f db y)"
  by (cases x) simp_all

lemma view_for [view_rules]:
  "(\<And>x. view_only (\<lambda>db. f db x)) \<Longrightarrow> view_only (\<lambda>db. forE xs (f db))"
  by (induction xs) (auto intro!: view_rules)

lemma flush_put:
  "flush db (b\<lparr>it_trades := (it_trades b)(k \<mapsto> t)\<rparr>) = (flush db b)\<lparr>it_trades := (it_trades (flush db b))(k \<mapsto> t)\<rparr>"
  "flush db (b\<lparr>it_disputes := (it_disputes b)(k \<mapsto> d)\<rparr>) = (flush db b)\<lparr>it_disputes := (it_disputes (flush db b))(k \<mapsto> d)\<rparr>"
  "flush db (b\<lparr>it_oracleProposals := (it_oracleProposals b)(k \<mapsto> u)\<rparr>) =
     (flush db b)\<lparr>it_oracleProposals := (it_oracleProposals (flush db b))(k \<mapsto> u)\<rparr>"
  "flush db (b\<lparr>it_adminProposals := (it_adminProposals b)(k \<mapsto> a)\<rparr>) =
     (flush db b)\<lparr>it_adminProposals := (it_adminProposals (flush db b))(k \<mapsto> a)\<rparr>"
  by (simp_all add: flush_def)

lemma flush_push:
  "flush db (b\<lparr>it_tradeEvents := it_tradeEvents b @ [e]\<rparr>) = (flush db b)\<lparr>it_tradeEvents := it_tradeEvents (flush db b) @ [e]\<rparr>"
  "flush db (b\<lparr>it_disputeEvents := it_disputeEvents b @ [e1]\<rparr>) = (flush db b)\<lparr>it_disputeEvents := it_disputeEvents (flush db b) @ [e1]\<rparr>"
  "flush db (b\<lparr>it_oracleEvents := it_oracleEvents b @ [e2]\<rparr>) = (flush db b)\<lparr>it_oracleEvents := it_oracleEvents (flush db b) @ [e2]\<rparr>"
  "flush db (b\<lparr>it_adminEvents := it_adminEvents b @ [e3]\<rparr>) = (flush db b)\<lparr>it_adminEvents := it_adminEvents (flush db b) @ [e3]\<rparr>"
  "flush db (b\<lparr>it_systemEvents := it_systemEvents b @ [e4]\<rparr>) = (flush db b)\<lparr>it_systemEvents := it_systemEvents (flush db b) @ [e4]\<rparr>"
  by (simp_all add: flush_def)

lemmas put_push_defs = put_trade_def put_dispute_def put_oracle_def put_admin_def push_trade_event_def
  push_dispute_event_def push_oracle_event_def push_admin_event_def push_system_event_def

lemma view_put_push [view_rules]:
  "view_only (\<lambda>db. put_trade k t)" "view_only (\<lambda>db. put_dispute k d)" "view_only (\<lambda>db. put_oracle k u)"
  "view_only (\<lambda>db. put_admin k a)" "view_only (\<lambda>db. push_trade_event e)" "view_only (\<lambda>db. push_dispute_event e1)"
  "view_only (\<lambda>db. push_oracle_event e2)" "view_only (\<lambda>db. push_admin_event e3)" "view_only (\<lambda>db. push_system_event e4)"
  by (rule view_onlyI, simp add: put_push_defs change_app flush_put flush_push)+

text \<open>A look-up in the map of the batch and then in the store is a look-up in the merged tables.\<close>

lemma map_add_known: "m b = None \<Longrightarrow> m' b = Some x \<Longrightarrow> m' ++ m(b \<mapsto> x) = m' ++ m"
  by (rule ext) (auto simp: map_add_def split: option.splits)

lemma loaded_trade:
  "getOrLoadTrade (ctx_of db) k b = (r, b') \<Longrightarrow>
   r = Inr (it_trades (flush db b) k) \<and> flush db b' = flush db b"
  by (auto simp: getOrLoadTrade_def store_read_def put_trade_def eff_simps flush_def map_add_def fun_eq_iff
      split: option.splits prod.splits sum.splits if_splits)

lemma loaded_dispute:
  "load_dispute (ctx_of db) k b = (r, b') \<Longrightarrow>
   r = Inr (it_disputes (flush db b) k) \<and> flush db b' = flush db b"
  by (auto simp: load_dispute_def store_read_def put_dispute_def eff_simps flush_def map_add_def fun_eq_iff
      split: option.splits prod.splits sum.splits if_splits)

lemma loaded_oracle:
  "load_oracle (ctx_of db) k b = (r, b') \<Longrightarrow>
   r = Inr (it_oracleProposals (flush db b) k) \<and> flush db b' = flush db b"
  by (auto simp: load_oracle_def store_read_def put_oracle_def eff_simps flush_def map_add_def fun_eq_iff
      split: option.splits prod.splits sum.splits if_splits)

lemma loaded_admin:
  "load_admin (ctx_of db) k b = (r, b') \<Longrightarrow>
   r = Inr (it_adminProposals (flush db b) k) \<and> flush db b' = flush db b"
  by (auto simp: load_admin_def store_read_def put_admin_def eff_simps flush_def map_add_def fun_eq_iff
      split: option.splits prod.splits sum.splits if_splits)

lemma view_load:
  assumes "\<And>db b r b'. load db b = (r, b') \<Longrightarrow> r = Inr (f (flush db b)) \<and> flush db b' = flush db b"
  shows "view_only load"
proof (rule view_onlyI)
  fix db b db' b' assume eq: "flush db b = flush db' b'"
  obtain r1 b1 r2 b2 where 1: "load db b = (r1, b1)" "load db' b' = (r2, b2)" by fastforce
  with assms [OF 1(1)] assms [OF 1(2)] eq
  show "result_of (load db b) = result_of (load db' b') \<and> flush db (state_of (load db b)) = flush db' (state_of (load db' b'))"
    by simp
qed

lemma view_loads [view_rules]:
  "view_only (\<lambda>db. getOrLoadTrade (ctx_of db) k)" "view_only (\<lambda>db. load_dispute (ctx_of db) k)"
  "view_only (\<lambda>db. load_oracle (ctx_of db) k)" "view_only (\<lambda>db. load_admin (ctx_of db) k)"
  by (rule view_load, erule loaded_trade, rule view_load, erule loaded_dispute,
      rule view_load, erule loaded_oracle, rule view_load, erule loaded_admin)

lemma view_known_trade [view_rules]:
  "(\<And>x. view_only (\<lambda>db. f db x)) \<Longrightarrow> view_only (\<lambda>db. known_trade (ctx_of db) i (f db))"
  unfolding known_trade_def by (intro view_rules) assumption

lemma view_known_dispute [view_rules]:
  "(\<And>x. view_only (\<lambda>db. f db x)) \<Longrightarrow> view_only (\<lambda>db. known_dispute (ctx_of db) i (f db))"
  unfolding known_dispute_def by (intro view_rules) assumption

lemma view_known_oracle [view_rules]:
  "(\<And>x. view_only (\<lambda>db. f db x)) \<Longrightarrow> view_only (\<lambda>db. known_oracle (ctx_of db) i (f db))"
  unfolding known_oracle_def by (intro view_rules) assumption

lemma view_known_admin [view_rules]:
  "(\<And>x. view_only (\<lambda>db. f db x)) \<Longrightarrow> view_only (\<lambda>db. known_admin (ctx_of db) i (f db))"
  unfolding known_admin_def by (intro view_rules) assumption

lemmas handler_defs =
  handleTradeLocked_def handleFundsReleasedStage1_def handlePlatformFeesPaidStage1_def handleArrivalConfirmed_def
  handleFinalTrancheReleased_def handleDisputeOpenedByBuyer_def handleTradeCancelledAfterLockTimeout_def
  handleInTransitTimeoutRefunded_def handleDisputeSolutionProposed_def handleDisputeApproved_def
  handleDisputeFinalized_def handleDisputeProposalExpiredCancelled_def handleDisputePayout_def
  handleOracleUpdateProposed_def handleOracleUpdateApproved_def handleOracleUpdated_def
  handleOracleUpdateProposalExpiredCancelled_def handleOracleDisabledEmergency_def handleAdminAddProposed_def
  handleAdminAddApproved_def handleAdminAdded_def handleAdminAddProposalExpiredCancelled_def handlePaused_def
  handleUnpauseProposed_def handleUnpauseApproved_def handleUnpauseProposalCancelled_def handleUnpaused_def
  handleClaimableAccrued_def handleClaimed_def handleTreasuryClaimed_def
  handleTreasuryPayoutAddressUpdateProposed_def handleTreasuryPayoutAddressUpdateApproved_def
  handleTreasuryPayoutAddressUpdated_def handleTreasuryPayoutAddressUpdateProposalExpiredCancelled_def
  handleClaimsPaused_def handleClaimsUnpaused_def

lemma view_handle_event [view_rules]: "view_only (\<lambda>db. handle_event (ctx_of db) m d)"
  by (cases d; simp only: handle_event_def escrow_event.case; (unfold handler_defs)?; intro view_rules)

lemma view_event_body [view_rules]: "view_only (\<lambda>db. event_body env (ctx_of db) block event)"
  unfolding event_body_def Let_def by (intro view_rules)

lemma view_process_event [view_rules]: "view_only (\<lambda>db. process_event env (ctx_of db) block event)"
  unfolding process_event_def by (intro view_rules)

section \<open>Replay\<close>

text \<open>
  A run of the indexer as a replay: a step of one chain event on the database, the fold of the steps
  over the events of all blocks, and what the step of a decoded contract event does to the trades and
  their event rows.
\<close>

section \<open>Replay\<close>

lemma flush_empty [simp]: "flush db empty_tables = db"
  by (simp add: flush_def empty_tables_def)

definition index_step :: "index_env \<Rightarrow> chain_block \<times> chain_event \<Rightarrow> index_tables \<Rightarrow> index_tables" where
  "index_step env x db = flush db (state_of (process_event env (ctx_of db) (fst x) (snd x) empty_tables))"

definition chain_log :: "chain_block list \<Rightarrow> (chain_block \<times> chain_event) list" where
  "chain_log blocks = concat (map (\<lambda>block. map (Pair block) (cb_events block)) blocks)"

definition replay :: "index_env \<Rightarrow> (chain_block \<times> chain_event) list \<Rightarrow> index_tables \<Rightarrow> index_tables" where
  "replay env xs db = fold (index_step env) xs db"

definition no_reject :: "string \<Rightarrow> string option" where
  "no_reject = (\<lambda>_. None)"

lemma replay_simps [simp]:
  "replay env [] db = db" "replay env (x # xs) db = replay env xs (index_step env x db)"
  "replay env (xs @ ys) db = replay env ys (replay env xs db)"
  by (simp_all add: replay_def)

lemma chain_log_append [simp]: "chain_log (xs @ ys) = chain_log xs @ chain_log ys"
  by (simp add: chain_log_def)

lemma process_event_returns: "result_of (process_event env ctx block event b) = Inr ()"
  by (auto simp: process_event_def catchE_app ret_app split: prod.splits sum.splits)

lemma process_event_step:
  "flush db (state_of (process_event env (ctx_of db) block event b)) = index_step env (block, event) (flush db b)"
  using view_onlyE(2) [OF view_process_event, of db b "flush db b" empty_tables env block event]
  by (simp add: index_step_def)

lemma process_events_replay:
  "flush db (state_of (forE events (process_event env (ctx_of db) block) b)) =
     replay env (map (Pair block) events) (flush db b) \<and>
   result_of (forE events (process_event env (ctx_of db) block) b) = Inr ()"
proof (induction events arbitrary: b)
  case Nil
  then show ?case by (simp add: ret_app)
next
  case (Cons e es)
  obtain b1 where b1: "process_event env (ctx_of db) block e b = (Inr (), b1)"
    using process_event_returns [of env "ctx_of db" block e b] by (metis prod.collapse)
  with process_event_step [of db env block e b] have "flush db b1 = index_step env (block, e) (flush db b)" by simp
  with b1 Cons.IH [of b1] show ?case by (simp add: seqE_app)
qed

lemma process_blocks_replay:
  "flush db (state_of (forE blocks (process_block env db no_reject) b)) = replay env (chain_log blocks) (flush db b)"
proof (induction blocks arbitrary: b)
  case Nil
  then show ?case by (simp add: ret_app chain_log_def)
next
  case (Cons block blocks)
  have eq: "process_block env db no_reject block = forE (cb_events block) (process_event env (ctx_of db) block)"
    by (simp add: process_block_def ctx_of_def no_reject_def)
  obtain b1 where b1: "process_block env db no_reject block b = (Inr (), b1)"
    "flush db b1 = replay env (map (Pair block) (cb_events block)) (flush db b)"
    using process_events_replay [where db = db and env = env and block = block and events = "cb_events block" and b = b]
    unfolding eq by (metis prod.collapse)
  with Cons.IH [of b1] show ?case by (simp add: seqE_app chain_log_def)
qed

lemma process_batch_replay:
  "process_batch env no_reject db blocks =
     (let db' = replay env (chain_log blocks) db in if ids_ok db' then Some db' else None)"
  using process_blocks_replay [where db = db and blocks = blocks and env = env and b = empty_tables]
  by (simp add: process_batch_def save_def Let_def)

text \<open>Rows are only added.\<close>

definition extends :: "index_tables \<Rightarrow> index_tables \<Rightarrow> bool" where
  "extends db db' \<longleftrightarrow>
     prefix (it_tradeEvents db) (it_tradeEvents db') \<and> prefix (it_disputeEvents db) (it_disputeEvents db') \<and>
     prefix (it_oracleEvents db) (it_oracleEvents db') \<and> prefix (it_adminEvents db) (it_adminEvents db') \<and>
     prefix (it_systemEvents db) (it_systemEvents db') \<and> dom (it_trades db) \<subseteq> dom (it_trades db')"

lemma extends_refl [simp]: "extends db db"
  by (simp add: extends_def)

lemma extends_trans: "extends a b \<Longrightarrow> extends b c \<Longrightarrow> extends a c"
  unfolding extends_def by (meson order_trans prefix_order.trans)

lemma extends_step: "extends db (index_step env x db)"
  by (auto simp: extends_def index_step_def flush_def)

lemma extends_replay: "extends db (replay env xs db)"
  by (induction xs arbitrary: db) (auto intro: extends_trans extends_step)

lemma distinct_prefix: "prefix xs ys \<Longrightarrow> distinct (map f ys) \<Longrightarrow> distinct (map f xs)"
  by (auto simp: prefix_def)

lemma extends_ids: "extends db db' \<Longrightarrow> ids_ok db' \<Longrightarrow> ids_ok db"
  by (auto simp: extends_def ids_ok_def elim: distinct_prefix)

lemma index_run_replay:
  "ids_ok db \<Longrightarrow> index_run env (map (Pair no_reject) batches) db = process_batch env no_reject db (concat batches)"
proof (induction batches arbitrary: db)
  case Nil
  then show ?case by (simp add: process_batch_replay chain_log_def)
next
  case (Cons blocks batches)
  let ?db = "replay env (chain_log blocks) db"
  show ?case
  proof (cases "ids_ok ?db")
    case True
    with Cons.IH [OF this] show ?thesis by (simp add: process_batch_replay Let_def)
  next
    case False
    then have "\<not> ids_ok (replay env (chain_log (concat batches)) ?db)" by (blast dest: extends_ids [OF extends_replay])
    with False show ?thesis by (simp add: process_batch_replay Let_def)
  qed
qed

section \<open>Decoded events\<close>

definition decode_event :: "index_env \<Rightarrow> chain_block \<times> chain_event \<Rightarrow> (event_meta \<times> escrow_event) option" where
  "decode_event env x =
     (case x of (block, event) \<Rightarrow>
        let eventHashes = resolveEventHashes env (extrinsic_of block event)
        in if ce_name event = ''Revive.ContractEmitted'' \<and> to_lower (ce_contract event) = ie_escrow env
           then (case ie_parseLog env (ce_topics event) (ce_data event) of
                   Inr (Some d) \<Rightarrow>
                     (case assertNoExtrinsicFallbackAsTxHash eventHashes of
                        Inr _ \<Rightarrow> Some (meta_of env block event eventHashes, d)
                      | Inl _ \<Rightarrow> None)
                 | _ \<Rightarrow> None)
           else None)"

definition event_step :: "event_meta \<times> escrow_event \<Rightarrow> index_tables \<Rightarrow> index_tables" where
  "event_step x db = flush db (state_of (handle_event (ctx_of db) (fst x) (snd x) empty_tables))"

lemma index_step_decoded:
  "index_step env x db = (case decode_event env x of None \<Rightarrow> db | Some y \<Rightarrow> event_step y db)"
  by (cases x)
    (auto simp: index_step_def decode_event_def event_step_def process_event_def event_body_def catchE_app bindE_app
      seqE_app lift_app ret_app Let_def split: prod.splits sum.splits option.splits if_splits)

definition decoded_log :: "index_env \<Rightarrow> (chain_block \<times> chain_event) list \<Rightarrow> (event_meta \<times> escrow_event) list" where
  "decoded_log env xs = List.map_filter (decode_event env) xs"

lemma replay_decoded: "replay env xs db = fold event_step (decoded_log env xs) db"
  by (induction xs arbitrary: db) (simp_all add: decoded_log_def map_filter_simps index_step_decoded split: option.splits)

end
