(* ===== verification/Index_Trades.thy ===== *)
theory Index_Trades imports Main Index_Replay begin

text \<open>
  What the step of a contract event does to the trades and to their event rows, against the contract:
  the status of a trade as the contract's functions leave it (\<open>contracts/src/AgroasysEscrow.sol\<close>).
\<close>

lemma show_int_inj [simp]: "show_int i = show_int j \<longleftrightarrow> i = j"
proof
  assume eq: "show_int i = show_int j"
  have digit: "hd (show_nat n) \<noteq> CHR ''-''" for n
  proof -
    have "show_nat n \<noteq> []" "list_all is_digit (show_nat n)" using all_digits_show_nat [of n] by (simp_all add: all_digits_def)
    then have "is_digit (hd (show_nat n))" by (cases "show_nat n") auto
    then show ?thesis by (auto simp: is_digit_def Let_def)
  qed
  show "i = j"
    using eq digit [of "nat i"] digit [of "nat j"]
    by (auto simp: show_int_def show_nat_inj split: if_splits) (metis list.sel(1))+
qed simp

section \<open>The events of a trade\<close>

definition event_trade :: "escrow_event \<Rightarrow> int option" where
  "event_trade d =
     (case d of
        TradeLocked i _ _ _ _ _ _ _ _ \<Rightarrow> Some i
      | FundsReleasedStage1 i _ _ _ _ \<Rightarrow> Some i
      | PlatformFeesPaidStage1 i _ _ \<Rightarrow> Some i
      | ArrivalConfirmed i _ \<Rightarrow> Some i
      | FinalTrancheReleased i _ _ \<Rightarrow> Some i
      | DisputeOpenedByBuyer i \<Rightarrow> Some i
      | TradeCancelledAfterLockTimeout i _ _ \<Rightarrow> Some i
      | InTransitTimeoutRefunded i _ _ \<Rightarrow> Some i
      | DisputePayout i _ _ _ _ \<Rightarrow> Some i
      | ClaimableAccrued i _ _ _ \<Rightarrow> Some i
      | _ \<Rightarrow> None)"

definition locks :: "int \<Rightarrow> escrow_event \<Rightarrow> bool" where
  "locks i d = (case d of TradeLocked j _ _ _ _ _ _ _ _ \<Rightarrow> i = j | _ \<Rightarrow> False)"

definition finalizes_dispute :: "int \<Rightarrow> escrow_event \<Rightarrow> bool" where
  "finalizes_dispute i d = (case d of DisputeFinalized _ j _ \<Rightarrow> i = j | _ \<Rightarrow> False)"

text \<open>The status after an event, for a trade that is locked.\<close>

definition status_of_event :: "escrow_event \<Rightarrow> trade_status option" where
  "status_of_event d =
     (case d of
        TradeLocked _ _ _ _ _ _ _ _ _ \<Rightarrow> Some LOCKED
      | FundsReleasedStage1 _ _ _ _ _ \<Rightarrow> Some IN_TRANSIT
      | ArrivalConfirmed _ _ \<Rightarrow> Some ARRIVAL_CONFIRMED
      | DisputeOpenedByBuyer _ \<Rightarrow> Some FROZEN
      | FinalTrancheReleased _ _ _ \<Rightarrow> Some CLOSED
      | TradeCancelledAfterLockTimeout _ _ _ \<Rightarrow> Some CLOSED
      | InTransitTimeoutRefunded _ _ _ \<Rightarrow> Some CLOSED
      | _ \<Rightarrow> None)"

text \<open>
  The contract: the events above set the status, and so does the execution of a dispute solution,
  which closes the trade.
\<close>

definition contract_status :: "int \<Rightarrow> escrow_event \<Rightarrow> trade_status option \<Rightarrow> trade_status option" where
  "contract_status i d s =
     (if locks i d then Some LOCKED
      else if event_trade d = Some i
      then (case status_of_event d of None \<Rightarrow> s | Some s' \<Rightarrow> map_option (\<lambda>_. s') s)
      else if finalizes_dispute i d then map_option (\<lambda>_. CLOSED) s
      else s)"

section \<open>The step of an event\<close>

lemma flush_put_push:
  "flush db (b\<lparr>it_trades := (it_trades b)(k \<mapsto> t), it_tradeEvents := it_tradeEvents b @ [e]\<rparr>) =
     (flush db b)\<lparr>it_trades := (it_trades (flush db b))(k \<mapsto> t), it_tradeEvents := it_tradeEvents (flush db b) @ [e]\<rparr>"
  by (simp add: flush_def)

lemma known_trade_put_push:
  "flush db (state_of (known_trade (ctx_of db) i (\<lambda>t. seqE (put_trade k (f t)) (push_trade_event (g t))) empty_tables)) =
     (case it_trades db (show_int i) of
        None \<Rightarrow> db
      | Some t \<Rightarrow> db\<lparr>it_trades := (it_trades db)(k \<mapsto> f t), it_tradeEvents := it_tradeEvents db @ [g t]\<rparr>)"
proof -
  obtain r b where b: "getOrLoadTrade (ctx_of db) (show_int i) empty_tables = (r, b)" by fastforce
  with loaded_trade [OF b] show ?thesis
    by (auto simp: known_trade_def bindE_app seqE_app ret_app put_trade_def push_trade_event_def change_app flush_put_push
        split: option.splits)
qed

lemma known_trade_push:
  "flush db (state_of (known_trade (ctx_of db) i (\<lambda>t. push_trade_event (g t)) empty_tables)) =
     (case it_trades db (show_int i) of
        None \<Rightarrow> db
      | Some t \<Rightarrow> db\<lparr>it_tradeEvents := it_tradeEvents db @ [g t]\<rparr>)"
proof -
  obtain r b where b: "getOrLoadTrade (ctx_of db) (show_int i) empty_tables = (r, b)" by fastforce
  with loaded_trade [OF b] show ?thesis
    by (auto simp: known_trade_def bindE_app ret_app push_trade_event_def change_app flush_push split: option.splits)
qed

lemma lock_step:
  "flush db (state_of (seqE (put_trade k t) (push_trade_event e) empty_tables)) =
     db\<lparr>it_trades := (it_trades db)(k \<mapsto> t), it_tradeEvents := it_tradeEvents db @ [e]\<rparr>"
  by (simp add: seqE_app put_trade_def push_trade_event_def change_app flush_put_push)

text \<open>The other events leave the trades and their rows alone.\<close>

definition trades_part :: "index_tables \<Rightarrow> index_tables \<Rightarrow> index_tables \<Rightarrow> bool" where
  "trades_part db0 db b \<longleftrightarrow>
     it_trades (flush db b) = it_trades db0 \<and> it_tradeEvents (flush db b) = it_tradeEvents db0"

lemma keeps_other:
  "keeps (trades_part db0 db) (put_dispute k d)" "keeps (trades_part db0 db) (put_oracle k u)"
  "keeps (trades_part db0 db) (put_admin k a)" "keeps (trades_part db0 db) (push_dispute_event e1)"
  "keeps (trades_part db0 db) (push_oracle_event e2)" "keeps (trades_part db0 db) (push_admin_event e3)"
  "keeps (trades_part db0 db) (push_system_event e4)"
  by (rule keepsI, simp add: trades_part_def put_push_defs change_app flush_put flush_push)+

lemma keeps_load:
  assumes "\<And>b r b'. load b = (r, b') \<Longrightarrow> flush db b' = flush db b"
  shows "keeps (trades_part db0 db) load"
  by (rule keepsI) (metis assms prod.collapse trades_part_def)

lemma keeps_loads:
  "keeps (trades_part db0 db) (getOrLoadTrade (ctx_of db) k)" "keeps (trades_part db0 db) (load_dispute (ctx_of db) k)"
  "keeps (trades_part db0 db) (load_oracle (ctx_of db) k)" "keeps (trades_part db0 db) (load_admin (ctx_of db) k)"
  by (rule keeps_load, blast dest: loaded_trade loaded_dispute loaded_oracle loaded_admin)+

lemma keeps_other_event:
  "event_trade d = None \<Longrightarrow> keeps (trades_part db0 db) (handle_event (ctx_of db) m d)"
  by (cases d; simp only: handle_event_def escrow_event.case event_trade_def option.distinct;
      (unfold handler_defs known_trade_def known_dispute_def known_oracle_def known_admin_def)?;
      intro keeps_rules keeps_other keeps_loads)

lemma other_event_step:
  assumes "event_trade d = None"
  shows "it_trades (event_step (m, d) db) = it_trades db" "it_tradeEvents (event_step (m, d) db) = it_tradeEvents db"
  using keepsD [OF keeps_other_event [OF assms], of db db empty_tables m] by (simp_all add: trades_part_def event_step_def)

text \<open>The trades carry their keys, and an event's row names its trade.\<close>

definition trades_ok :: "index_tables \<Rightarrow> bool" where
  "trades_ok db \<longleftrightarrow> (\<forall>k t. it_trades db k = Some t \<longrightarrow> xt_id t = k \<and> xt_tradeId t = k)"

definition event_name :: "escrow_event \<Rightarrow> string" where
  "event_name d =
     (case d of
        TradeLocked _ _ _ _ _ _ _ _ _ \<Rightarrow> ''TradeLocked''
      | FundsReleasedStage1 _ _ _ _ _ \<Rightarrow> ''FundsReleasedStage1''
      | PlatformFeesPaidStage1 _ _ _ \<Rightarrow> ''PlatformFeesPaidStage1''
      | ArrivalConfirmed _ _ \<Rightarrow> ''ArrivalConfirmed''
      | FinalTrancheReleased _ _ _ \<Rightarrow> ''FinalTrancheReleased''
      | DisputeOpenedByBuyer _ \<Rightarrow> ''DisputeOpenedByBuyer''
      | TradeCancelledAfterLockTimeout _ _ _ \<Rightarrow> ''TradeCancelledAfterLockTimeout''
      | InTransitTimeoutRefunded _ _ _ \<Rightarrow> ''InTransitTimeoutRefunded''
      | DisputePayout _ _ _ _ _ \<Rightarrow> ''DisputePayout''
      | ClaimableAccrued _ _ _ _ \<Rightarrow> ''ClaimableAccrued''
      | _ \<Rightarrow> [])"

lemmas trade_steps = event_step_def handle_event_def handler_defs known_trade_put_push known_trade_push lock_step

lemma event_step_status:
  "map_option xt_status (it_trades (event_step (m, d) db) (show_int i)) =
     (if finalizes_dispute i d then map_option xt_status (it_trades db (show_int i))
      else contract_status i d (map_option xt_status (it_trades db (show_int i))))"
proof (cases "event_trade d")
  case None
  then have "\<not> locks i d" by (cases d) (simp_all add: event_trade_def locks_def)
  then show ?thesis by (simp add: other_event_step [OF None] contract_status_def None)
next
  case (Some j)
  then show ?thesis
    by (cases d) (auto simp: trade_steps event_trade_def contract_status_def status_of_event_def locks_def
        finalizes_dispute_def split: option.splits)
qed

lemma trades_ok_step: "trades_ok db \<Longrightarrow> trades_ok (event_step (m, d) db)"
proof (cases "event_trade d")
  case None
  then show "trades_ok db \<Longrightarrow> ?thesis" by (simp add: trades_ok_def other_event_step)
next
  case (Some j)
  then show "trades_ok db \<Longrightarrow> ?thesis"
    by (cases d) (auto simp: trade_steps event_trade_def trades_ok_def split: option.splits if_splits)
qed

text \<open>An event of a known trade, or one that locks it, adds one row, with the data of the event.\<close>

definition row_of_event :: "event_meta \<Rightarrow> escrow_event \<Rightarrow> index_trade_event \<Rightarrow> bool" where
  "row_of_event m d row \<longleftrightarrow>
     xe_meta row = m \<and> xe_eventName row = event_name d \<and> Some (xe_trade row) = map_option show_int (event_trade d) \<and>
     xe_releasedLogisticsAmount row = (case d of FundsReleasedStage1 _ _ _ _ amount \<Rightarrow> Some amount | _ \<Rightarrow> None) \<and>
     xe_paidPlatformFees row = (case d of PlatformFeesPaidStage1 _ _ amount \<Rightarrow> Some amount | _ \<Rightarrow> None)"

lemma event_step_rows:
  assumes ok: "trades_ok db" and i: "event_trade d = Some i" and known: "locks i d \<or> it_trades db (show_int i) \<noteq> None"
  obtains row where "it_tradeEvents (event_step (m, d) db) = it_tradeEvents db @ [row]" "row_of_event m d row"
proof -
  have "\<exists>row. it_tradeEvents (event_step (m, d) db) = it_tradeEvents db @ [row] \<and> row_of_event m d row"
    using assms
    by (cases d) (auto simp: trade_steps event_trade_def locks_def trades_ok_def row_of_event_def event_name_def
        new_trade_event_def split: option.splits)
  then show thesis using that by blast
qed

lemma unknown_step:
  assumes "event_trade d = Some i" "\<not> (locks i d \<or> it_trades db (show_int i) \<noteq> None)"
  shows "event_step (m, d) db = db"
  using assms by (cases d) (auto simp: trade_steps event_trade_def locks_def split: option.splits)

lemma event_step_rows_source:
  assumes ok: "trades_ok db" and row: "row \<in> set (it_tradeEvents (event_step (m, d) db))"
  shows "row \<in> set (it_tradeEvents db) \<or> row_of_event m d row \<and> (\<exists>i. event_trade d = Some i)"
proof (cases "event_trade d")
  case None
  with row show ?thesis by (simp add: other_event_step)
next
  case (Some i)
  show ?thesis
  proof (cases "locks i d \<or> it_trades db (show_int i) \<noteq> None")
    case True
    obtain r where "it_tradeEvents (event_step (m, d) db) = it_tradeEvents db @ [r]" "row_of_event m d r"
      by (rule event_step_rows [OF ok Some True])
    with row Some show ?thesis by auto
  next
    case False
    with row unknown_step [OF Some] show ?thesis by simp
  qed
qed

text \<open>A trade that is known stays known.\<close>

lemma known_step: "it_trades db k \<noteq> None \<Longrightarrow> it_trades (event_step x db) k \<noteq> None"
  by (auto simp: event_step_def flush_def map_add_def split: option.splits)

lemma known_fold: "it_trades db k \<noteq> None \<Longrightarrow> it_trades (fold event_step xs db) k \<noteq> None"
proof (induction xs arbitrary: db)
  case (Cons x xs)
  show ?case using Cons.IH [OF known_step [OF Cons.prems]] by simp
qed simp

lemma locked_step: "locks i d \<Longrightarrow> it_trades (event_step (m, d) db) (show_int i) \<noteq> None"
  by (cases d) (simp_all add: trade_steps locks_def)

lemma trades_ok_fold: "trades_ok db \<Longrightarrow> trades_ok (fold event_step xs db)"
  by (induction xs arbitrary: db) (auto intro: trades_ok_step)

lemma rows_fold: "row \<in> set (it_tradeEvents db) \<Longrightarrow> row \<in> set (it_tradeEvents (fold event_step xs db))"
proof (induction xs arbitrary: db)
  case (Cons x xs)
  have "row \<in> set (it_tradeEvents (event_step x db))" using Cons.prems by (simp add: event_step_def flush_def)
  then show ?case by (simp add: Cons.IH)
qed simp

end
