(* ===== verification/Index_Props.thy ===== *)
theory Index_Props imports Main Index_Trades Treasury_Props begin

text \<open>
  The properties of the indexer over runs from the empty database, with a small chain for the
  witnesses, and what the handlers do not do.
\<close>

section \<open>The contract's view of a trade\<close>

text \<open>
  A trade as its contract keeps it: the status, and the terms set when it is locked (buyer, supplier,
  total, logistics and platform fees, the two tranches, the hash of the Ricardian contract).
\<close>

type_synonym trade_terms = "string \<times> string \<times> int \<times> int \<times> int \<times> int \<times> int \<times> string"

definition terms_of :: "index_trade \<Rightarrow> trade_terms" where
  "terms_of t =
     (xt_buyer t, xt_supplier t, xt_totalAmountLocked t, xt_logisticsAmount t, xt_platformFeesAmount t,
      xt_supplierFirstTranche t, xt_supplierSecondTranche t, xt_ricardianHash t)"

definition contract_trade :: "int \<Rightarrow> escrow_event \<Rightarrow> (trade_status \<times> trade_terms) option \<Rightarrow> (trade_status \<times> trade_terms) option" where
  "contract_trade i d s =
     (case d of
        TradeLocked j buyer supplier totalAmount logistics fees first second hash \<Rightarrow>
          (if i = j then Some (LOCKED, to_lower buyer, to_lower supplier, totalAmount, logistics, fees, first, second, hash) else s)
      | _ \<Rightarrow> (case s of
                None \<Rightarrow> None
              | Some (q, terms) \<Rightarrow> map_option (\<lambda>q'. (q', terms)) (contract_status i d (Some q))))"

definition trade_view :: "index_tables \<Rightarrow> int \<Rightarrow> (trade_status \<times> trade_terms) option" where
  "trade_view db i = map_option (\<lambda>t. (xt_status t, terms_of t)) (it_trades db (show_int i))"

definition terms_after :: "int \<Rightarrow> escrow_event \<Rightarrow> trade_terms option \<Rightarrow> trade_terms option" where
  "terms_after i d s =
     (case d of
        TradeLocked j buyer supplier totalAmount logistics fees first second hash \<Rightarrow>
          (if i = j then Some (to_lower buyer, to_lower supplier, totalAmount, logistics, fees, first, second, hash)
           else s)
      | _ \<Rightarrow> s)"

lemma event_step_terms:
  "map_option terms_of (it_trades (event_step (m, d) db) (show_int i)) =
     terms_after i d (map_option terms_of (it_trades db (show_int i)))"
proof (cases "event_trade d")
  case None
  show ?thesis unfolding other_event_step [OF None] using None by (cases d) (simp_all add: event_trade_def terms_after_def)
next
  case (Some j)
  then show ?thesis
    by (cases d) (auto simp: trade_steps event_trade_def terms_of_def terms_after_def split: option.splits)
qed

lemma contract_trade_parts:
  "map_option fst (contract_trade i d s) = contract_status i d (map_option fst s)"
  "map_option snd (contract_trade i d s) =
     terms_after i d (map_option snd s)"
  by (cases s; cases d;
      auto simp: contract_trade_def terms_after_def contract_status_def locks_def event_trade_def status_of_event_def finalizes_dispute_def)+

lemma option_pair_eqI: "map_option fst x = map_option fst y \<Longrightarrow> map_option snd x = map_option snd y \<Longrightarrow> x = y"
  by (cases x; cases y) (auto simp: prod_eq_iff)

lemma trade_view_parts:
  "map_option fst (trade_view db i) = map_option xt_status (it_trades db (show_int i))"
  "map_option snd (trade_view db i) = map_option terms_of (it_trades db (show_int i))"
  by (simp_all add: trade_view_def option.map_comp comp_def)

lemma event_step_view:
  assumes "\<not> finalizes_dispute i d"
  shows "trade_view (event_step (m, d) db) i = contract_trade i d (trade_view db i)"
  using event_step_status [of m d db i] event_step_terms [of m d db i] assms
  by - (rule option_pair_eqI; simp add: trade_view_parts contract_trade_parts)

lemma fold_view:
  "\<forall>x \<in> set xs. \<not> finalizes_dispute i (snd x) \<Longrightarrow>
   trade_view (fold event_step xs db) i = fold (contract_trade i) (map snd xs) (trade_view db i)"
proof (induction xs arbitrary: db)
  case (Cons x xs)
  from Cons.prems have "trade_view (event_step x db) i = contract_trade i (snd x) (trade_view db i)"
    using event_step_view [of i "snd x" "fst x" db] by simp
  with Cons.IH [of "event_step x db"] Cons.prems show ?case by simp
qed simp

section \<open>Runs\<close>

definition run_log :: "index_env \<Rightarrow> chain_block list list \<Rightarrow> (event_meta \<times> escrow_event) list" where
  "run_log env batches = decoded_log env (chain_log (concat batches))"

definition indexer_run :: "index_env \<Rightarrow> chain_block list list \<Rightarrow> index_tables option" where
  "indexer_run env batches = index_run env (map (Pair no_reject) batches) empty_tables"

lemma ids_ok_empty [simp]: "ids_ok empty_tables"
  by (simp add: ids_ok_def empty_tables_def)

lemma indexer_runE:
  assumes "indexer_run env batches = Some db"
  shows "db = fold event_step (run_log env batches) empty_tables" "ids_ok db"
  using assms
  by (auto simp: indexer_run_def index_run_replay process_batch_replay Let_def replay_decoded run_log_def split: if_splits)

lemma trades_ok_empty [simp]: "trades_ok empty_tables"
  by (simp add: trades_ok_def empty_tables_def)

lemma run_rows_source:
  "trades_ok db \<Longrightarrow> row \<in> set (it_tradeEvents (fold event_step xs db)) \<Longrightarrow>
   row \<in> set (it_tradeEvents db) \<or> (\<exists>(m, d) \<in> set xs. row_of_event m d row)"
proof (induction xs arbitrary: db)
  case (Cons x xs)
  obtain m d where x: "x = (m, d)" by fastforce
  from Cons.IH [OF trades_ok_step [OF Cons.prems(1)], of m d] Cons.prems(2) x
  have "row \<in> set (it_tradeEvents (event_step (m, d) db)) \<or> (\<exists>(m, d) \<in> set xs. row_of_event m d row)" by simp
  with event_step_rows_source [OF Cons.prems(1), of row m d] x show ?case by auto
qed simp

text \<open>The events of a trade that come with or after its lock.\<close>

definition of_locked_trade :: "(event_meta \<times> escrow_event) list \<Rightarrow> event_meta \<Rightarrow> escrow_event \<Rightarrow> bool" where
  "of_locked_trade log m d \<longleftrightarrow>
     (\<exists>xs ys i. log = xs @ (m, d) # ys \<and> event_trade d = Some i \<and> (locks i d \<or> (\<exists>(m', d') \<in> set xs. locks i d')))"

lemma locked_fold: "(m, d) \<in> set xs \<Longrightarrow> locks i d \<Longrightarrow> it_trades (fold event_step xs db) (show_int i) \<noteq> None"
proof (induction xs arbitrary: db)
  case (Cons x xs)
  show ?case
  proof (cases "x = (m, d)")
    case True
    with locked_step [OF Cons.prems(2), of m db] show ?thesis by (simp add: known_fold)
  next
    case False
    with Cons show ?thesis by simp
  qed
qed simp

lemma run_row:
  assumes "of_locked_trade log m d"
  shows "\<exists>row \<in> set (it_tradeEvents (fold event_step log empty_tables)). row_of_event m d row"
proof -
  from assms obtain xs ys i where log: "log = xs @ (m, d) # ys" and i: "event_trade d = Some i"
    and lock: "locks i d \<or> (\<exists>(m', d') \<in> set xs. locks i d')" unfolding of_locked_trade_def by blast
  let ?db = "fold event_step xs empty_tables"
  have "locks i d \<or> it_trades ?db (show_int i) \<noteq> None" using lock locked_fold by blast
  then obtain row where "it_tradeEvents (event_step (m, d) ?db) = it_tradeEvents ?db @ [row]" "row_of_event m d row"
    using event_step_rows [OF trades_ok_fold [OF trades_ok_empty] i, of xs m] by blast
  then show ?thesis using rows_fold [of row "event_step (m, d) ?db" ys] log by auto
qed

lemma distinct_filter: "distinct (map f xs) \<Longrightarrow> x \<in> set xs \<Longrightarrow> filter (\<lambda>y. f y = f x) xs = [x]"
  by (induction xs) (auto simp: filter_empty_conv image_iff)

section \<open>A sample chain\<close>

definition sample_decoder :: "string \<Rightarrow> escrow_event option" where
  "sample_decoder data =
     map_of
       [(''lock'', TradeLocked 7 ''0xB'' ''0xS'' 1000 100 50 400 450 ''0xh''),
        (''stage1'', FundsReleasedStage1 7 ''0xS'' 400 ''0xT'' 100), (''fees'', PlatformFeesPaidStage1 7 ''0xT'' 50),
        (''arrival'', ArrivalConfirmed 7 60), (''dispute'', DisputeOpenedByBuyer 7),
        (''refund'', DisputeSolutionProposed 3 7 (Bigint 0) ''0xA''), (''final'', DisputeFinalized 3 7 (Bigint 0)),
        (''oracle'', OracleUpdateProposed 5 ''0xA'' ''0xN'' 90 False), (''updated'', OracleUpdated ''0xO'' ''0xN'')] data"

definition sample_index_env :: index_env where
  "sample_index_env =
     \<lparr>ie_escrow = ''0xe'', ie_parseLog = (\<lambda>topics data. Inr (sample_decoder data)), ie_keccak = Some\<rparr>"

definition sample_log :: "string \<Rightarrow> string \<Rightarrow> chain_event" where
  "sample_log i data =
     \<lparr>ce_id = i, ce_name = ''Revive.ContractEmitted'', ce_contract = ''0xE'', ce_data = data, ce_topics = [],
      ce_extrinsicIndex = Some 1\<rparr>"

definition sample_block :: "int \<Rightarrow> chain_event list \<Rightarrow> chain_block" where
  "sample_block height events =
     \<lparr>cb_height = height, cb_timestamp = Some (height * 1000),
      cb_extrinsics = [\<lparr>cx_index = 1, cx_hash = Some ''0xx'', cx_call = Some (''Revive.eth_transact'', Some ''0xp'')\<rparr>],
      cb_events = events\<rparr>"

definition sample_chain :: "chain_block list" where
  "sample_chain =
     [sample_block 1 [sample_log ''a'' ''lock''],
      sample_block 2 [sample_log ''b'' ''stage1'', sample_log ''c'' ''fees''],
      sample_block 3 [sample_log ''d'' ''arrival'']]"

section \<open>Properties\<close>

text \<open>
  C13: the way the processor groups the blocks into batches does not matter: two runs over the same
  blocks, in batches of any sizes and with no rejected read, end with the same database, or both
  fail on an id that is already there.  So an entity that is cached in a batch and one that is read
  back from the store in the next batch are treated alike.
\<close>

theorem batches_do_not_matter:
  assumes "ids_ok db" and "concat batches = concat batches'"
  shows "index_run env (map (Pair no_reject) batches) db = index_run env (map (Pair no_reject) batches') db"
  using assms by (simp add: index_run_replay)

theorem batches_do_not_matter_witness:
  "index_run sample_index_env (map (Pair no_reject) [take 1 sample_chain, drop 1 sample_chain]) empty_tables =
   index_run sample_index_env (map (Pair no_reject) [sample_chain]) empty_tables \<and>
   map_option (\<lambda>db. length (it_tradeEvents db))
     (index_run sample_index_env (map (Pair no_reject) [sample_chain]) empty_tables) = Some 4"
proof
  show "index_run sample_index_env (map (Pair no_reject) [take 1 sample_chain, drop 1 sample_chain]) empty_tables =
      index_run sample_index_env (map (Pair no_reject) [sample_chain]) empty_tables"
    by (rule batches_do_not_matter) simp_all
  show "map_option (\<lambda>db. length (it_tradeEvents db))
      (index_run sample_index_env (map (Pair no_reject) [sample_chain]) empty_tables) = Some 4" by code_simp
qed

text \<open>
  C11: the indexed trade is the contract's: after a run over any batches of blocks, with no rejected
  read, the status and the terms of a trade in the database are what the contract has after its
  decoded events, a trade is there exactly when it was locked, for every trade for which no dispute
  was finalized.
\<close>

theorem indexed_trade_is_the_contract_trade:
  assumes "indexer_run env batches = Some db"
    and "\<forall>(m, d) \<in> set (run_log env batches). \<not> finalizes_dispute i d"
  shows "trade_view db i = fold (contract_trade i) (map snd (run_log env batches)) None"
proof -
  have "trade_view empty_tables i = None" by (simp add: trade_view_def empty_tables_def)
  then show ?thesis
    using fold_view [of "run_log env batches" i empty_tables] indexer_runE(1) [OF assms(1)] assms(2) by fastforce
qed

lemma sample_batches:
  "map_option (\<lambda>db. (trade_view db 7, map xe_eventName (it_tradeEvents db))) (indexer_run sample_index_env [sample_chain]) =
     Some (Some (ARRIVAL_CONFIRMED, ''0xb'', ''0xs'', 1000, 100, 50, 400, 450, ''0xh''),
       [''TradeLocked'', ''FundsReleasedStage1'', ''PlatformFeesPaidStage1'', ''ArrivalConfirmed''])"
  "map snd (run_log sample_index_env [sample_chain]) =
     [TradeLocked 7 ''0xB'' ''0xS'' 1000 100 50 400 450 ''0xh'', FundsReleasedStage1 7 ''0xS'' 400 ''0xT'' 100,
      PlatformFeesPaidStage1 7 ''0xT'' 50, ArrivalConfirmed 7 60]"
  by code_simp+

theorem indexed_trade_is_the_contract_trade_witness:
  "fold (contract_trade 7) (map snd (run_log sample_index_env [sample_chain])) None =
     Some (ARRIVAL_CONFIRMED, ''0xb'', ''0xs'', 1000, 100, 50, 400, 450, ''0xh'')"
proof -
  obtain db where db: "indexer_run sample_index_env [sample_chain] = Some db"
    and view: "trade_view db 7 = Some (ARRIVAL_CONFIRMED, ''0xb'', ''0xs'', 1000, 100, 50, 400, 450, ''0xh'')"
    using sample_batches(1) by auto
  have "\<forall>d \<in> set (map snd (run_log sample_index_env [sample_chain])). \<not> finalizes_dispute 7 d"
    unfolding sample_batches(2) by (simp add: finalizes_dispute_def)
  then have "\<forall>(m, d) \<in> set (run_log sample_index_env [sample_chain]). \<not> finalizes_dispute 7 d" by auto
  from indexed_trade_is_the_contract_trade [OF db this] view show ?thesis by simp
qed

text \<open>
  C12: no event of a trade is lost and none is made up: after a run over any batches with no rejected
  read, every decoded event of a trade that was locked before it (or that locks it) has exactly one
  row with its id, which carries the event's name, trade, block, time and hashes and the amounts of a
  stage 1 payment; and every row is the row of a decoded event.
\<close>

theorem trade_events_have_exactly_one_row:
  assumes "indexer_run env batches = Some db"
  shows "(\<forall>m d. of_locked_trade (run_log env batches) m d \<longrightarrow>
      (\<exists>row. filter (\<lambda>r. em_id (xe_meta r) = em_id m) (it_tradeEvents db) = [row] \<and> row_of_event m d row)) \<and>
    (\<forall>row \<in> set (it_tradeEvents db). \<exists>(m, d) \<in> set (run_log env batches). row_of_event m d row)"
proof -
  note run = indexer_runE [OF assms]
  have "\<exists>row. filter (\<lambda>r. em_id (xe_meta r) = em_id m) (it_tradeEvents db) = [row] \<and> row_of_event m d row"
    if locked: "of_locked_trade (run_log env batches) m d" for m d
  proof -
    obtain row where row: "row \<in> set (it_tradeEvents db)" "row_of_event m d row"
      using run_row [OF locked] run(1) by blast
    have "distinct (map (\<lambda>e. em_id (xe_meta e)) (it_tradeEvents db))" using run(2) by (simp add: ids_ok_def)
    from distinct_filter [OF this row(1)] row(2) show ?thesis by (auto simp: row_of_event_def)
  qed
  moreover have "\<exists>(m, d) \<in> set (run_log env batches). row_of_event m d row" if "row \<in> set (it_tradeEvents db)" for row
    using run_rows_source [OF trades_ok_empty, of row "run_log env batches"] that run(1) by (simp add: empty_tables_def)
  ultimately show ?thesis by blast
qed

theorem trade_events_have_exactly_one_row_witness:
  "\<exists>db. indexer_run sample_index_env [sample_chain] = Some db \<and> length (it_tradeEvents db) = 4 \<and>
     (\<forall>row \<in> set (it_tradeEvents db). \<exists>(m, d) \<in> set (run_log sample_index_env [sample_chain]). row_of_event m d row)"
proof -
  obtain db where db: "indexer_run sample_index_env [sample_chain] = Some db"
    and names: "map xe_eventName (it_tradeEvents db) =
      [''TradeLocked'', ''FundsReleasedStage1'', ''PlatformFeesPaidStage1'', ''ArrivalConfirmed'']"
    using sample_batches(1) by auto
  from arg_cong [OF names, of length] have "length (it_tradeEvents db) = 4" by simp
  with db trade_events_have_exactly_one_row [OF db] show ?thesis by blast
qed

section \<open>What the handlers do not do\<close>

text \<open>
  The contract closes a trade when its dispute is finalized; the index keeps it frozen.  ethers gives
  the solution of the dispute as a bigint, which is never strictly equal to \<open>0\<close>, so a refund is
  indexed as a resolution.
\<close>

lemma finalized_dispute_stays_frozen:
  "let batch = [sample_block 1 [sample_log ''a'' ''lock'', sample_log ''b'' ''dispute'', sample_log ''c'' ''refund'',
                   sample_log ''d'' ''final'']];
       view = (\<lambda>db. (map_option xt_status (it_trades db ''7''),
                 map_option (\<lambda>p. (xd_disputeStatus p, xd_executed p)) (it_disputes db ''3'')))
   in (map_option view (indexer_run sample_index_env [batch]),
       map_option fst (fold (contract_trade 7) (map snd (run_log sample_index_env [batch])) None)) =
      (Some (Some FROZEN, Some (RESOLVE, True)), Some CLOSED)"
  by code_simp

text \<open>A read of the store that is rejected loses the event for ever: the batch is saved without it.\<close>

lemma rejected_read_loses_the_event:
  "let first = [sample_block 1 [sample_log ''a'' ''lock'']];
       second = [sample_block 2 [sample_log ''b'' ''stage1'']];
       view = (\<lambda>db. (map_option xt_status (it_trades db ''7''), map xe_eventName (it_tradeEvents db)))
   in (map_option view (index_run sample_index_env [(no_reject, first), (\<lambda>_. Some ''timeout'', second)] empty_tables),
       map_option view (index_run sample_index_env [(no_reject, first), (no_reject, second)] empty_tables)) =
      (Some (Some LOCKED, [''TradeLocked'']), Some (Some IN_TRANSIT, [''TradeLocked'', ''FundsReleasedStage1'']))"
  by code_simp

text \<open>An oracle update that was carried out still shows as not executed.\<close>

lemma updated_oracle_stays_unexecuted:
  "map_option (\<lambda>db. (map_option xo_executed (it_oracleProposals db ''5''), map xp_eventName (it_oracleEvents db)))
     (indexer_run sample_index_env [[sample_block 1 [sample_log ''a'' ''oracle'', sample_log ''b'' ''updated'']]]) =
   Some (Some False, [''OracleUpdateProposed'', ''OracleUpdated''])"
  by code_simp

end
