(* ===== verification/Index_Treasury.thy ===== *)
theory Index_Treasury imports Main Index_Props Treasury_Props begin

text \<open>
  The indexer and the treasury together: the treasury asks the indexer for the events of stage 1
  payments (\<open>treasury/src/indexer/client.ts\<close>), and its ledger is compared with the events of the
  contract.
\<close>

section \<open>The query\<close>



abbreviation row_block :: "index_trade_event \<Rightarrow> int" where
  "row_block e \<equiv> em_blockNumber (xe_meta e)"





section \<open>The rows of the index\<close>








lemma decoded_log_append [simp]: "decoded_log env (xs @ ys) = decoded_log env xs @ decoded_log env ys"
  by (simp add: decoded_log_def map_filter_def)


section \<open>The list of the treasury's events\<close>

lemma no_rows [simp]: "it_tradeEvents empty_tables = []"
  by (simp add: empty_tables_def)




text \<open>The treasury's view of a row.\<close>

definition row_event :: "treasury_env \<Rightarrow> (int \<Rightarrow> string) \<Rightarrow> index_trade_event \<Rightarrow> trade_event" where
  "row_event tenv print_time e =
     event_of_raw tenv
     \<lparr>rv_id = em_id (xe_meta e), rv_tradeId = xe_trade e, rv_eventName = xe_eventName e,
      rv_txHash = em_txHash (xe_meta e), rv_extrinsicHash = em_extrinsicHash (xe_meta e),
      rv_blockNumber = em_blockNumber (xe_meta e), rv_timestamp = print_time (em_timestamp (xe_meta e)),
      rv_releasedLogisticsAmount = map_option show_int (xe_releasedLogisticsAmount e),
      rv_paidPlatformFees = map_option show_int (xe_paidPlatformFees e)\<rparr>"

lemma row_event_block [simp]: "ev_blockNumber (row_event tenv pt row) = row_block row"
  by (simp add: row_event_def event_of_raw_def)



section \<open>Payments\<close>



lemma show_int_nonempty [simp]: "show_int i \<noteq> []"
  using all_digits_show_nat [of "nat i"] by (auto simp: show_int_def all_digits_def)




section \<open>The ledger and the contract\<close>










end
