(* ===== verification/Compliance_Store.thy ===== *)
theory Compliance_Store imports Main Sql_Transaction Gov_Store begin

text \<open>
  The compliance ledger of the gateway (\<open>gateway/src/core/complianceStore.ts\<close>,
  \<open>core/complianceWriteStore.ts\<close>, \<open>database/schema.sql\<close>): the decisions, the blocks of the oracle's
  progression, and the transactions that write a row with its audit entry.
\<close>

section \<open>Records\<close>

datatype compliance_decision_type = KYB | KYT | SANCTIONS

datatype compliance_result = ALLOW | DENY

datatype compliance_block_state = Not_blocked | Blocked | Resume_pending

datatype compliance_risk_level = Risk_low | Risk_medium | Risk_high | Risk_critical

definition COMPLIANCE_DECISION_TYPES :: "(string \<times> compliance_decision_type) list" where
  "COMPLIANCE_DECISION_TYPES = [(''KYB'', KYB), (''KYT'', KYT), (''SANCTIONS'', SANCTIONS)]"

definition COMPLIANCE_DECISION_RESULTS :: "(string \<times> compliance_result) list" where
  "COMPLIANCE_DECISION_RESULTS = [(''ALLOW'', ALLOW), (''DENY'', DENY)]"

definition COMPLIANCE_RISK_LEVELS :: "(string \<times> compliance_risk_level) list" where
  "COMPLIANCE_RISK_LEVELS =
     [(''low'', Risk_low), (''medium'', Risk_medium), (''high'', Risk_high), (''critical'', Risk_critical)]"

definition block_state_name :: "compliance_block_state \<Rightarrow> string" where
  "block_state_name s =
     (case s of Not_blocked \<Rightarrow> ''not_blocked'' | Blocked \<Rightarrow> ''blocked'' | Resume_pending \<Rightarrow> ''resume_pending'')"

text \<open>
  The audit record has the fields of that of a governance action.  \<open>cd_overrideWindowEndsAt\<close> is a text,
  of the request or as the column is read back.
\<close>

record compliance_decision =
  cd_decisionId :: string
  cd_tradeId :: string
  cd_decisionType :: compliance_decision_type
  cd_result :: compliance_result
  cd_reasonCode :: string
  cd_provider :: string
  cd_providerRef :: string
  cd_subjectId :: string
  cd_subjectType :: string
  cd_riskLevel :: "compliance_risk_level option"
  cd_correlationId :: string
  cd_decidedAt :: int
  cd_overrideWindowEndsAt :: "string option"
  cd_blockState :: compliance_block_state
  cd_audit :: gov_audit

record progression_block =
  pb_tradeId :: string
  pb_latestDecisionId :: string
  pb_blockState :: compliance_block_state
  pb_reasonCode :: string
  pb_requestId :: string
  pb_correlationId :: "string option"
  pb_audit :: gov_audit
  pb_blockedAt :: "int option"
  pb_resumedAt :: "int option"
  pb_updatedAt :: int

record compliance_status =
  tc_tradeId :: string
  tc_currentResult :: compliance_result
  tc_oracleProgressionBlocked :: bool
  tc_blockState :: compliance_block_state
  tc_latestDecisionId :: string
  tc_latestReasonCode :: string
  tc_latestProvider :: string
  tc_latestCorrelationId :: string
  tc_updatedAt :: int

section \<open>World\<close>

text \<open>
  The clock, the identifiers and the database as in \<open>Gov_World\<close>; \<open>Date.parse\<close> (\<open>None\<close> for \<open>NaN\<close>), the text that a text written
  to a \<open>TIMESTAMP\<close> column is read back as (\<open>None\<close> when PostgreSQL refuses it), and the message of a
  broken constraint.
\<close>

record compliance_env =
  ce_now :: "nat \<Rightarrow> int"
  ce_uuid :: "nat \<Rightarrow> string"
  ce_db :: "nat \<Rightarrow> string option"
  ce_commit_kept :: "nat \<Rightarrow> bool"
  ce_parse :: "string \<Rightarrow> int option"
  ce_column :: "string \<Rightarrow> string option"
  ce_violation :: string

record compliance_world =
  cw_tick :: nat
  cw_decisions :: "compliance_decision list"
  cw_blocks :: "progression_block list"
  cw_audit :: "audit_entry list"

type_synonym 'a compliance_eff = "(gw_error, compliance_world, 'a) eff"

definition empty_compliance :: compliance_world where
  "empty_compliance = \<lparr>cw_tick = 0, cw_decisions = [], cw_blocks = [], cw_audit = []\<rparr>"

definition ctick :: "compliance_world \<Rightarrow> compliance_world" where
  "ctick w = w\<lparr>cw_tick := Suc (cw_tick w)\<rparr>"

definition cask :: "(nat \<Rightarrow> 'a) \<Rightarrow> 'a compliance_eff" where
  "cask f w = (Inr (f (cw_tick w)), ctick w)"

text \<open>A read, or a statement of a transaction: when it fails it has no effect that stays.\<close>

definition cquery :: "compliance_env \<Rightarrow> 'a compliance_eff \<Rightarrow> 'a compliance_eff" where
  "cquery env stmt w =
     (case ce_db env (cw_tick w) of None \<Rightarrow> stmt (ctick w) | Some m \<Rightarrow> (Inl (Other_error m), ctick w))"

section \<open>Reads\<close>

text \<open>A row as it is read back: an empty list of approvers is none.\<close>

definition read_audit :: "int \<Rightarrow> gov_audit \<Rightarrow> gov_audit" where
  "read_audit createdAt a =
     a\<lparr>ga_createdAt := createdAt, ga_approvedBy := (if ga_approvedBy a = Some [] then None else ga_approvedBy a)\<rparr>"

definition mapDecisionRow :: "compliance_decision \<Rightarrow> compliance_block_state \<Rightarrow> compliance_decision" where
  "mapDecisionRow row blockState =
     row\<lparr>cd_blockState := blockState, cd_audit := read_audit (cd_decidedAt row) (cd_audit row)\<rparr>"

definition mapBlockRow :: "progression_block \<Rightarrow> progression_block" where
  "mapBlockRow row = row\<lparr>pb_audit := read_audit (pb_updatedAt row) (pb_audit row)\<rparr>"

definition loadBlockState :: "compliance_env \<Rightarrow> string \<Rightarrow> progression_block option compliance_eff" where
  "loadBlockState env tradeId =
     cquery env (asks (\<lambda>w. map_option mapBlockRow (row_by pb_tradeId tradeId (cw_blocks w))))"

definition block_or_none :: "progression_block option \<Rightarrow> compliance_block_state" where
  "block_or_none block = (case block of None \<Rightarrow> Not_blocked | Some b \<Rightarrow> pb_blockState b)"

text \<open>The row of a look-up, with the block of its trade.\<close>

definition with_block :: "compliance_env \<Rightarrow> compliance_decision option \<Rightarrow> compliance_decision option compliance_eff" where
  "with_block env row =
     (case row of
        None \<Rightarrow> ret None
      | Some r \<Rightarrow>
          bindE (loadBlockState env (cd_tradeId r)) (\<lambda>block.
            ret (Some (mapDecisionRow r (block_or_none block)))))"

definition getDecision :: "compliance_env \<Rightarrow> string \<Rightarrow> compliance_decision option compliance_eff" where
  "getDecision env decisionId =
     bindE (cquery env (asks (\<lambda>w. row_by cd_decisionId decisionId (cw_decisions w)))) (with_block env)"

text \<open>\<open>ORDER BY decided_at DESC, decision_id DESC\<close>\<close>

definition latest_first :: "compliance_decision list \<Rightarrow> compliance_decision list" where
  "latest_first rows = rev (sort_key (\<lambda>d. (cd_decidedAt d, cd_decisionId d)) rows)"

definition trade_decisions :: "string \<Rightarrow> compliance_world \<Rightarrow> compliance_decision list" where
  "trade_decisions tradeId w = filter (\<lambda>d. cd_tradeId d = tradeId) (cw_decisions w)"

definition latest_decision :: "string \<Rightarrow> compliance_world \<Rightarrow> compliance_decision option" where
  "latest_decision tradeId w = (case latest_first (trade_decisions tradeId w) of [] \<Rightarrow> None | d # _ \<Rightarrow> Some d)"

definition getLatestDecision :: "compliance_env \<Rightarrow> string \<Rightarrow> compliance_decision option compliance_eff" where
  "getLatestDecision env tradeId = bindE (cquery env (asks (latest_decision tradeId))) (with_block env)"

definition before_cursor :: "(int \<times> string) option \<Rightarrow> compliance_decision \<Rightarrow> bool" where
  "before_cursor position d \<longleftrightarrow>
     (case position of
        None \<Rightarrow> True
      | Some (decidedAt, decisionId) \<Rightarrow>
          cd_decidedAt d < decidedAt \<or> cd_decidedAt d = decidedAt \<and> cd_decisionId d < decisionId)"

definition decision_cursor :: "compliance_decision list \<Rightarrow> nat \<Rightarrow> (int \<times> string) option" where
  "decision_cursor items limit =
     (if length items \<le> limit then None
      else (let boundary = items ! (limit - 1) in Some (cd_decidedAt boundary, cd_decisionId boundary)))"

definition listTradeDecisions ::
  "compliance_env \<Rightarrow> string \<Rightarrow> nat \<Rightarrow> (int \<times> string) option \<Rightarrow>
   (compliance_decision list \<times> (int \<times> string) option) compliance_eff" where
  "listTradeDecisions env tradeId limit position =
     bindE (cquery env (asks (\<lambda>w. take (limit + 1)
         (latest_first (filter (before_cursor position) (trade_decisions tradeId w)))))) (\<lambda>rows.
     bindE (loadBlockState env tradeId) (\<lambda>block.
       (let mapped = map (\<lambda>row. mapDecisionRow row (block_or_none block)) rows
        in ret (take limit mapped, decision_cursor mapped limit))))"

definition blockedFlag :: "compliance_block_state \<Rightarrow> bool" where
  "blockedFlag s \<longleftrightarrow> s = Blocked \<or> s = Resume_pending"

definition status_of_decision :: "string \<Rightarrow> compliance_decision \<Rightarrow> progression_block option \<Rightarrow> compliance_status" where
  "status_of_decision tradeId latestDecision block =
     \<lparr>tc_tradeId = tradeId, tc_currentResult = cd_result latestDecision,
      tc_oracleProgressionBlocked = blockedFlag (block_or_none block), tc_blockState = block_or_none block,
      tc_latestDecisionId = cd_decisionId latestDecision, tc_latestReasonCode = cd_reasonCode latestDecision,
      tc_latestProvider = cd_provider latestDecision, tc_latestCorrelationId = cd_correlationId latestDecision,
      tc_updatedAt =
        (case block of
           None \<Rightarrow> cd_decidedAt latestDecision
         | Some b \<Rightarrow> if pb_updatedAt b > cd_decidedAt latestDecision then pb_updatedAt b
                     else cd_decidedAt latestDecision)\<rparr>"

definition getTradeStatus :: "compliance_env \<Rightarrow> string \<Rightarrow> compliance_status option compliance_eff" where
  "getTradeStatus env tradeId =
     bindE (getLatestDecision env tradeId) (\<lambda>latestDecision.
       case latestDecision of
         None \<Rightarrow> ret None
       | Some d \<Rightarrow> bindE (loadBlockState env tradeId) (\<lambda>block. ret (Some (status_of_decision tradeId d block))))"

section \<open>Writes\<close>

definition insertComplianceAudit :: "compliance_env \<Rightarrow> audit_entry \<Rightarrow> unit compliance_eff" where
  "insertComplianceAudit env entry = cquery env (change (\<lambda>w. w\<lparr>cw_audit := cw_audit w @ [entry]\<rparr>))"

text \<open>The row that is written: the override window goes through its column.\<close>

definition insertComplianceDecision :: "compliance_env \<Rightarrow> compliance_decision \<Rightarrow> unit compliance_eff" where
  "insertComplianceDecision env d =
     cquery env (\<lambda>w.
       let window = map_option (ce_column env) (cd_overrideWindowEndsAt d)
       in if cd_decisionId d \<in> cd_decisionId ` set (cw_decisions w) \<or> window = Some None
          then (Inl (Other_error (ce_violation env)), w)
          else (Inr (), w\<lparr>cw_decisions := cw_decisions w @ [d\<lparr>cd_overrideWindowEndsAt := Option.bind window id\<rparr>]\<rparr>))"

definition upsertOracleProgressionBlock :: "compliance_env \<Rightarrow> progression_block \<Rightarrow> unit compliance_eff" where
  "upsertOracleProgressionBlock env b =
     cquery env (\<lambda>w.
       if pb_latestDecisionId b \<notin> cd_decisionId ` set (cw_decisions w)
       then (Inl (Other_error (ce_violation env)), w)
       else (Inr (), w\<lparr>cw_blocks := upsert pb_tradeId (\<lambda>_. b) b (cw_blocks w)\<rparr>))"

definition compliance_tables :: "compliance_world \<Rightarrow> compliance_world \<Rightarrow> compliance_world" where
  "compliance_tables w w' =
     w'\<lparr>cw_decisions := cw_decisions w, cw_blocks := cw_blocks w, cw_audit := cw_audit w\<rparr>"

definition ccommand :: "compliance_env \<Rightarrow> unit compliance_eff" where
  "ccommand env = cquery env (ret ())"

definition ccommit :: "compliance_env \<Rightarrow> compliance_world \<Rightarrow> unit compliance_eff" where
  "ccommit env before w =
     (case ce_db env (cw_tick w) of
        None \<Rightarrow> (Inr (), ctick w)
      | Some m \<Rightarrow>
          (Inl (Other_error m), if ce_commit_kept env (cw_tick w) then ctick w else compliance_tables before (ctick w)))"

definition crollback :: "compliance_env \<Rightarrow> gw_error \<Rightarrow> unit compliance_eff" where
  "crollback env e =
     bindE (catchE (ccommand env) (\<lambda>r.
         throw (Other_error (''Compliance write rollback failed after original error: '' @ gw_message e @
           ''; rollback error: '' @ gw_message r))))
       (\<lambda>_. throw e)"

definition runTransactionalWrite :: "compliance_env \<Rightarrow> unit compliance_eff \<Rightarrow> unit compliance_eff" where
  "runTransactionalWrite env operation =
     sql_transaction (ccommand env) (ccommand env) (ccommit env) (crollback env) compliance_tables (\<lambda>_. operation)"

definition saveDecisionWithAudit ::
  "compliance_env \<Rightarrow> compliance_decision \<Rightarrow> audit_entry \<Rightarrow> compliance_decision compliance_eff" where
  "saveDecisionWithAudit env decision auditEntry =
     seqE (runTransactionalWrite env
             (seqE (insertComplianceDecision env decision) (insertComplianceAudit env auditEntry)))
       (bindE (getDecision env (cd_decisionId decision)) (\<lambda>stored.
          case stored of
            None \<Rightarrow> throw (Other_error (''Failed to persist compliance decision '' @ cd_decisionId decision))
          | Some d \<Rightarrow> ret d))"

definition saveBlockStateWithAudit ::
  "compliance_env \<Rightarrow> progression_block \<Rightarrow> audit_entry \<Rightarrow> progression_block compliance_eff" where
  "saveBlockStateWithAudit env block auditEntry =
     seqE (runTransactionalWrite env
             (seqE (upsertOracleProgressionBlock env block) (insertComplianceAudit env auditEntry)))
       (bindE (loadBlockState env (pb_tradeId block)) (\<lambda>stored.
          case stored of
            None \<Rightarrow> throw (Other_error (''Failed to persist oracle progression block state for trade '' @ pb_tradeId block))
          | Some b \<Rightarrow> ret b))"

end
