(* ===== verification/Compliance_Service.thy ===== *)
theory Compliance_Service imports Main Compliance_Store Gov_Routes begin

text \<open>
  The compliance service of the gateway (\<open>gateway/src/core/complianceService.ts\<close>) and its routes
  (\<open>routes/compliance.ts\<close>), behind the authentication and the idempotency of the mutation routes.
\<close>

section \<open>Input checks\<close>

definition andThen :: "'e + 'a \<Rightarrow> ('a \<Rightarrow> 'e + 'b) \<Rightarrow> 'e + 'b" where
  "andThen r f = (case r of Inl e \<Rightarrow> Inl e | Inr x \<Rightarrow> f x)"

definition DENY_ONLY_REASON_CODES :: "string list" where
  "DENY_ONLY_REASON_CODES =
     [''CMP_KYB_FAILED'', ''CMP_KYT_FAILED'', ''CMP_SANCTIONS_MATCH'', ''CMP_PROVIDER_UNAVAILABLE'',
      ''CMP_PROVIDER_TIMEOUT'', ''CMP_AUDIT_WRITE_FAILED'']"

definition CMP_OVERRIDE_ACTIVE :: string where
  "CMP_OVERRIDE_ACTIVE = ''CMP_OVERRIDE_ACTIVE''"

record decision_input =
  di_tradeId :: string
  di_decisionType :: compliance_decision_type
  di_result :: compliance_result
  di_reasonCode :: string
  di_provider :: string
  di_providerRef :: string
  di_subjectId :: string
  di_subjectType :: string
  di_riskLevel :: "compliance_risk_level option"
  di_overrideWindowEndsAt :: "string option"
  di_correlationId :: string
  di_audit :: audit_input

record control_input =
  ci_reasonCode :: string
  ci_decisionId :: "string option"
  ci_audit :: audit_input

definition validateStringField :: "json \<Rightarrow> string \<Rightarrow> nat \<Rightarrow> nat \<Rightarrow> gw_error + string" where
  "validateStringField v field minLength maxLength =
     (let normalized = trim (text_or_empty v)
      in if length normalized < minLength \<or> maxLength < length normalized
         then Inl (bad_request (field @ '' must be between '' @ show_nat minLength @ '' and '' @ show_nat maxLength @
                '' characters''))
         else Inr normalized)"

definition validateAuditInput :: "json \<Rightarrow> gw_error + audit_input" where
  "validateAuditInput raw =
     (if json_falsy raw \<or> \<not> json_is_object raw then Inl (bad_request ''Request body must be a JSON object'')
      else
        (let audit = json_get ''audit'' raw
         in if json_falsy audit \<or> \<not> json_is_object audit
            then Inl (bad_request ''Request body must include audit metadata'')
            else
              andThen (validateStringField (json_get ''reason'' audit) ''audit.reason'' 8 2000) (\<lambda>reason.
              andThen (validateStringField (json_get ''ticketRef'' audit) ''audit.ticketRef'' 2 128) (\<lambda>ticketRef.
                (let evidenceLinks = (case json_items (json_get ''evidenceLinks'' audit) of None \<Rightarrow> [] | Some ls \<Rightarrow> ls)
                 in if length evidenceLinks < 1
                    then Inl (bad_request ''audit.evidenceLinks must contain at least one item'')
                    else
                      andThen (validateEvidenceLinks evidenceLinks 0) (\<lambda>_.
                        Inr \<lparr>ai_reason = reason, ai_evidenceLinks = map evidence_of evidenceLinks,
                             ai_ticketRef = ticketRef\<rparr>))))))"

definition validateEnum :: "(string \<times> 'a) list \<Rightarrow> json \<Rightarrow> string \<Rightarrow> gw_error + 'a" where
  "validateEnum allowed v field =
     (case Option.bind (json_text v) (map_of allowed) of
        Some x \<Rightarrow> Inr x
      | None \<Rightarrow> Inl (Gateway_error 400 VALIDATION_ERROR (field @ '' is invalid'')
                  [(''field'', field), (''allowed'', join_with '','' (map fst allowed))]))"

definition json_nullish :: "json \<Rightarrow> bool" where
  "json_nullish v \<longleftrightarrow> v = J_undefined \<or> v = J_null"

definition validateOptionalRiskLevel :: "json \<Rightarrow> gw_error + compliance_risk_level option" where
  "validateOptionalRiskLevel v =
     (if json_nullish v then Inr None
      else andThen (validateEnum COMPLIANCE_RISK_LEVELS v ''riskLevel'') (\<lambda>x. Inr (Some x)))"

definition validateOptionalDecisionId :: "json \<Rightarrow> gw_error + string option" where
  "validateOptionalDecisionId v =
     (if json_nullish v then Inr None
      else andThen (validateStringField v ''decisionId'' 1 128) (\<lambda>x. Inr (Some x)))"

definition validateOptionalTimestamp :: "(string \<Rightarrow> int option) \<Rightarrow> json \<Rightarrow> string \<Rightarrow> gw_error + string option" where
  "validateOptionalTimestamp parse v field =
     (if json_nullish v then Inr None
      else andThen (validateStringField v field 10 64) (\<lambda>normalized.
        if parse normalized = None then Inl (bad_request (field @ '' must be a valid ISO timestamp''))
        else Inr (Some normalized)))"

text \<open>The rules for the reason code, the result and the override window, at the time \<open>now\<close>.\<close>

definition check_override ::
  "(string \<Rightarrow> int option) \<Rightarrow> int \<Rightarrow> compliance_result \<Rightarrow> string \<Rightarrow> string option \<Rightarrow> gw_error + unit" where
  "check_override parse now result reasonCode window =
     (if reasonCode \<in> set DENY_ONLY_REASON_CODES \<and> result \<noteq> DENY
      then Inl (bad_request (reasonCode @ '' requires result=DENY''))
      else if reasonCode = CMP_OVERRIDE_ACTIVE
      then (if result \<noteq> ALLOW then Inl (bad_request ''CMP_OVERRIDE_ACTIVE requires result=ALLOW'')
            else (case window of
                    None \<Rightarrow> Inl (bad_request ''overrideWindowEndsAt is required when reasonCode=CMP_OVERRIDE_ACTIVE'')
                  | Some text \<Rightarrow>
                      (case parse text of
                         Some ends \<Rightarrow>
                           (if ends \<le> now then Inl (bad_request ''overrideWindowEndsAt must be in the future'') else Inr ())
                       | None \<Rightarrow> Inr ())))
      else if window \<noteq> None
      then Inl (bad_request ''overrideWindowEndsAt is allowed only when reasonCode=CMP_OVERRIDE_ACTIVE'')
      else Inr ())"

definition validateComplianceDecisionCreateRequest ::
  "(string \<Rightarrow> int option) \<Rightarrow> int \<Rightarrow> json \<Rightarrow> gw_error + decision_input" where
  "validateComplianceDecisionCreateRequest parse now body =
     (if json_falsy body \<or> \<not> json_is_object body then Inl (bad_request ''Request body must be a JSON object'')
      else
        andThen (validateEnum COMPLIANCE_DECISION_RESULTS (json_get ''result'' body) ''result'') (\<lambda>result.
        andThen (validateStringField (json_get ''reasonCode'' body) ''reasonCode'' 3 128) (\<lambda>reasonCode.
        andThen (validateOptionalTimestamp parse (json_get ''overrideWindowEndsAt'' body) ''overrideWindowEndsAt'') (\<lambda>window.
        andThen (check_override parse now result reasonCode window) (\<lambda>_.
        andThen (validateStringField (json_get ''tradeId'' body) ''tradeId'' 1 128) (\<lambda>tradeId.
        andThen (validateEnum COMPLIANCE_DECISION_TYPES (json_get ''decisionType'' body) ''decisionType'') (\<lambda>decisionType.
        andThen (validateStringField (json_get ''provider'' body) ''provider'' 2 128) (\<lambda>provider.
        andThen (validateStringField (json_get ''providerRef'' body) ''providerRef'' 2 256) (\<lambda>providerRef.
        andThen (validateStringField (json_get ''subjectId'' body) ''subjectId'' 1 256) (\<lambda>subjectId.
        andThen (validateStringField (json_get ''subjectType'' body) ''subjectType'' 1 128) (\<lambda>subjectType.
        andThen (validateOptionalRiskLevel (json_get ''riskLevel'' body)) (\<lambda>riskLevel.
        andThen (validateStringField (json_get ''correlationId'' body) ''correlationId'' 3 128) (\<lambda>correlationId.
        andThen (validateAuditInput body) (\<lambda>audit.
          Inr \<lparr>di_tradeId = tradeId, di_decisionType = decisionType, di_result = result, di_reasonCode = reasonCode,
               di_provider = provider, di_providerRef = providerRef, di_subjectId = subjectId,
               di_subjectType = subjectType, di_riskLevel = riskLevel, di_overrideWindowEndsAt = window,
               di_correlationId = correlationId, di_audit = audit\<rparr>))))))))))))))"

definition validateComplianceOperationalControlRequest :: "json \<Rightarrow> gw_error + control_input" where
  "validateComplianceOperationalControlRequest body =
     (if json_falsy body \<or> \<not> json_is_object body then Inl (bad_request ''Request body must be a JSON object'')
      else
        andThen (validateStringField (json_get ''reasonCode'' body) ''reasonCode'' 3 128) (\<lambda>reasonCode.
        andThen (validateOptionalDecisionId (json_get ''decisionId'' body)) (\<lambda>decisionId.
        andThen (validateAuditInput body) (\<lambda>audit.
          Inr \<lparr>ci_reasonCode = reasonCode, ci_decisionId = decisionId, ci_audit = audit\<rparr>))))"

section \<open>The service\<close>

text \<open>What the middlewares hand on with a request: the caller, the request ids, the path and the key.\<close>

record mutation_context =
  mc_principal :: gw_principal
  mc_requestId :: string
  mc_correlationId :: string
  mc_routePath :: string
  mc_idempotencyKey :: string

definition compliance_entry ::
  "mutation_context \<Rightarrow> string \<Rightarrow> string \<Rightarrow> (string \<times> string) list \<Rightarrow> audit_entry" where
  "compliance_entry c eventType s metadata =
     \<lparr>al_eventType = eventType, al_route = mc_routePath c, al_method = ''POST'', al_requestId = mc_requestId c,
      al_correlationId = Some (mc_correlationId c), al_actorUserId = Some (gp_userId (mc_principal c)),
      al_actorWalletAddress = Some (gp_walletAddress (mc_principal c)),
      al_actorRole = Some (gp_role (mc_principal c)), al_status = s, al_metadata = metadata\<rparr>"

definition name_in :: "(string \<times> 'a) list \<Rightarrow> 'a \<Rightarrow> string" where
  "name_in names x = fst (the (find (\<lambda>p. snd p = x) names))"

definition decisionAuditMetadata :: "compliance_decision \<Rightarrow> string \<Rightarrow> (string \<times> string) list" where
  "decisionAuditMetadata d idempotencyKey =
     [(''decisionId'', cd_decisionId d), (''tradeId'', cd_tradeId d),
      (''decisionType'', name_in COMPLIANCE_DECISION_TYPES (cd_decisionType d)),
      (''result'', name_in COMPLIANCE_DECISION_RESULTS (cd_result d)), (''reasonCode'', cd_reasonCode d),
      (''provider'', cd_provider d), (''idempotencyKey'', idempotencyKey)]"

definition blockAuditMetadata :: "progression_block \<Rightarrow> string \<Rightarrow> (string \<times> string) list" where
  "blockAuditMetadata b idempotencyKey =
     [(''tradeId'', pb_tradeId b), (''latestDecisionId'', pb_latestDecisionId b),
      (''blockState'', block_state_name (pb_blockState b)), (''reasonCode'', pb_reasonCode b),
      (''idempotencyKey'', idempotencyKey)]"

definition nextDecisionTimestamp :: "compliance_env \<Rightarrow> string \<Rightarrow> int compliance_eff" where
  "nextDecisionTimestamp env tradeId =
     bindE (getLatestDecision env tradeId) (\<lambda>latestDecision.
     bindE (cask (ce_now env)) (\<lambda>now.
       ret (case latestDecision of None \<Rightarrow> now | Some d \<Rightarrow> max now (cd_decidedAt d + 1))))"

definition new_decision ::
  "decision_input \<Rightarrow> mutation_context \<Rightarrow> string \<Rightarrow> int \<Rightarrow> progression_block option \<Rightarrow> compliance_decision" where
  "new_decision input c decisionId decidedAt existingBlock =
     \<lparr>cd_decisionId = decisionId, cd_tradeId = di_tradeId input, cd_decisionType = di_decisionType input,
      cd_result = di_result input, cd_reasonCode = di_reasonCode input, cd_provider = di_provider input,
      cd_providerRef = di_providerRef input, cd_subjectId = di_subjectId input, cd_subjectType = di_subjectType input,
      cd_riskLevel = di_riskLevel input, cd_correlationId = di_correlationId input, cd_decidedAt = decidedAt,
      cd_overrideWindowEndsAt = di_overrideWindowEndsAt input, cd_blockState = block_or_none existingBlock,
      cd_audit = buildAuditRecord (di_audit input) (mc_principal c) decidedAt\<rparr>"

definition createDecision :: "compliance_env \<Rightarrow> decision_input \<Rightarrow> mutation_context \<Rightarrow> compliance_decision compliance_eff" where
  "createDecision env input c =
     bindE (nextDecisionTimestamp env (di_tradeId input)) (\<lambda>decidedAt.
     bindE (loadBlockState env (di_tradeId input)) (\<lambda>existingBlock.
     bindE (cask (ce_uuid env)) (\<lambda>decisionId.
       (let decision = new_decision input c decisionId decidedAt existingBlock
        in saveDecisionWithAudit env decision
             (compliance_entry c ''compliance.decision.recorded'' ''recorded''
                (decisionAuditMetadata decision (mc_idempotencyKey c)))))))"

definition about_trade :: "string \<Rightarrow> (string \<times> string) list" where
  "about_trade tradeId = [(''tradeId'', tradeId)]"

definition resolveDecisionForTrade ::
  "compliance_env \<Rightarrow> string \<Rightarrow> string option \<Rightarrow> compliance_decision option compliance_eff" where
  "resolveDecisionForTrade env tradeId decisionId =
     (if truthy_opt decisionId
      then bindE (getDecision env (the decisionId)) (\<lambda>decision.
             case decision of
               None \<Rightarrow> throw (Gateway_error 404 NOT_FOUND ''Compliance decision not found'' [(''decisionId'', the decisionId)])
             | Some d \<Rightarrow>
                 if cd_tradeId d \<noteq> tradeId
                 then throw (conflict ''Compliance decision does not belong to the requested trade''
                        (about_trade tradeId @ [(''decisionId'', the decisionId)]))
                 else ret (Some d))
      else getLatestDecision env tradeId)"

definition requireTradeStatus :: "compliance_env \<Rightarrow> string \<Rightarrow> compliance_status compliance_eff" where
  "requireTradeStatus env tradeId =
     bindE (getTradeStatus env tradeId) (\<lambda>status.
       case status of
         None \<Rightarrow> throw (Gateway_error 500 INTERNAL_ERROR ''Failed to assemble compliance trade status after mutation''
                   (about_trade tradeId))
       | Some s \<Rightarrow> ret s)"

definition blockOracleProgression ::
  "compliance_env \<Rightarrow> string \<Rightarrow> control_input \<Rightarrow> mutation_context \<Rightarrow> compliance_status compliance_eff" where
  "blockOracleProgression env tradeId input c =
     bindE (loadBlockState env tradeId) (\<lambda>existingBlock.
       if map_option pb_blockState existingBlock = Some Blocked
       then throw (conflict ''Oracle progression is already blocked for this trade'' (about_trade tradeId))
       else
         bindE (resolveDecisionForTrade env tradeId (ci_decisionId input)) (\<lambda>decision.
           case decision of
             None \<Rightarrow> throw (conflict ''A compliance decision must exist before blocking oracle progression''
                       (about_trade tradeId))
           | Some d \<Rightarrow>
               bindE (cask (ce_now env)) (\<lambda>updatedAt.
                 (let block = \<lparr>pb_tradeId = tradeId, pb_latestDecisionId = cd_decisionId d, pb_blockState = Blocked,
                        pb_reasonCode = ci_reasonCode input, pb_requestId = mc_requestId c,
                        pb_correlationId = Some (mc_correlationId c),
                        pb_audit = buildAuditRecord (ci_audit input) (mc_principal c) updatedAt,
                        pb_blockedAt = Some updatedAt, pb_resumedAt = None, pb_updatedAt = updatedAt\<rparr>
                  in seqE (saveBlockStateWithAudit env block
                             (compliance_entry c ''compliance.oracle_progression.blocked'' ''blocked''
                                (blockAuditMetadata block (mc_idempotencyKey c))))
                       (requireTradeStatus env tradeId)))))"

text \<open>\<open>Date.now()\<close> is read only for an override with a window.\<close>

definition check_window :: "compliance_env \<Rightarrow> string \<Rightarrow> compliance_decision \<Rightarrow> unit compliance_eff" where
  "check_window env tradeId d =
     (if cd_reasonCode d \<noteq> CMP_OVERRIDE_ACTIVE then ret ()
      else
        (let expired = conflict ''The active override window has expired; oracle progression cannot be resumed''
               (about_trade tradeId @ [(''decisionId'', cd_decisionId d)])
         in if \<not> truthy_opt (cd_overrideWindowEndsAt d) then throw expired
            else bindE (cask (ce_now env)) (\<lambda>now.
              case ce_parse env (the (cd_overrideWindowEndsAt d)) of
                Some ends \<Rightarrow> (if ends \<le> now then throw expired else ret ())
              | None \<Rightarrow> ret ())))"

definition resumed_block ::
  "progression_block \<Rightarrow> compliance_decision \<Rightarrow> control_input \<Rightarrow> mutation_context \<Rightarrow> int \<Rightarrow> progression_block" where
  "resumed_block existingBlock latestDecision input c updatedAt =
     existingBlock\<lparr>pb_latestDecisionId := cd_decisionId latestDecision, pb_blockState := Not_blocked,
       pb_reasonCode := ci_reasonCode input, pb_requestId := mc_requestId c,
       pb_correlationId := Some (mc_correlationId c),
       pb_audit := buildAuditRecord (ci_audit input) (mc_principal c) updatedAt,
       pb_resumedAt := Some updatedAt, pb_updatedAt := updatedAt\<rparr>"

definition resume_allowed :: "string \<Rightarrow> compliance_decision option \<Rightarrow> compliance_decision option \<Rightarrow> gw_error + compliance_decision" where
  "resume_allowed tradeId requestedDecision latestDecision =
     (case latestDecision of
        None \<Rightarrow> Inl (conflict ''An ALLOW compliance decision is required before resuming oracle progression''
                  (about_trade tradeId))
      | Some d \<Rightarrow>
          if (case requestedDecision of None \<Rightarrow> False | Some q \<Rightarrow> cd_decisionId q \<noteq> cd_decisionId d)
          then Inl (conflict ''The latest effective compliance decision must be used when resuming oracle progression''
                 (about_trade tradeId @ [(''decisionId'', cd_decisionId (the requestedDecision)),
                    (''latestDecisionId'', cd_decisionId d)]))
          else if cd_result d \<noteq> ALLOW
          then Inl (conflict ''The latest effective compliance decision must be ALLOW before resuming oracle progression''
                 (about_trade tradeId @ [(''decisionId'', cd_decisionId d),
                    (''result'', name_in COMPLIANCE_DECISION_RESULTS (cd_result d))]))
          else Inr d)"

definition resumeOracleProgression ::
  "compliance_env \<Rightarrow> string \<Rightarrow> control_input \<Rightarrow> mutation_context \<Rightarrow> compliance_status compliance_eff" where
  "resumeOracleProgression env tradeId input c =
     bindE (loadBlockState env tradeId) (\<lambda>existing.
       case existing of
         None \<Rightarrow> throw (conflict ''Oracle progression is not currently blocked for this trade'' (about_trade tradeId))
       | Some existingBlock \<Rightarrow>
           if pb_blockState existingBlock = Not_blocked
           then throw (conflict ''Oracle progression is not currently blocked for this trade'' (about_trade tradeId))
           else
             bindE (resolveDecisionForTrade env tradeId (ci_decisionId input)) (\<lambda>requestedDecision.
             bindE (getLatestDecision env tradeId) (\<lambda>latestDecision.
             bindE (lift (resume_allowed tradeId requestedDecision latestDecision)) (\<lambda>d.
             seqE (check_window env tradeId d)
             (bindE (cask (ce_now env)) (\<lambda>updatedAt.
               (let block = resumed_block existingBlock d input c updatedAt
                in seqE (saveBlockStateWithAudit env block
                           (compliance_entry c ''compliance.oracle_progression.resumed'' ''not_blocked''
                              (blockAuditMetadata block (mc_idempotencyKey c))))
                     (requireTradeStatus env tradeId))))))))"

section \<open>The routes\<close>

definition parsePathParam :: "string \<Rightarrow> string \<Rightarrow> gw_error + string" where
  "parsePathParam name raw =
     (if trim raw = [] then Inl (bad_request (''Path parameter '' @ name @ '' is required'')) else Inr (trim raw))"

definition parseLimit :: "string option \<Rightarrow> gw_error + nat" where
  "parseLimit raw =
     (case raw of
        None \<Rightarrow> Inr 50
      | Some text \<Rightarrow>
          if text = [] \<or> \<not> all_digits text then Inl (bad_request ''Query parameter 'limit' must be an integer'')
          else (let limit = nat_of_digits 0 text
                in if limit < 1 \<or> limit > 200
                   then Inl (bad_request ''Query parameter 'limit' must be between 1 and 200'')
                   else Inr limit))"

text \<open>
  The routes; a mutation comes with the context of the middlewares.  The text of a cursor is decoded:
  \<open>Inl\<close> is why it does not decode.
\<close>

datatype compliance_request =
    Get_decision string
  | Get_trade string
  | Get_trade_decisions string "string option" "(string + (int \<times> string)) option"
  | Post_decision json mutation_context
  | Post_block string json mutation_context
  | Post_resume string json mutation_context

datatype compliance_answer =
    Decision_answer compliance_decision
  | Status_answer compliance_status
  | Decisions_answer "compliance_decision list" "(int \<times> string) option"

definition parseCursor :: "(string + (int \<times> string)) option \<Rightarrow> gw_error + (int \<times> string) option" where
  "parseCursor raw =
     (case raw of
        None \<Rightarrow> Inr None
      | Some (Inr position) \<Rightarrow> Inr (Some position)
      | Some (Inl reason) \<Rightarrow>
          Inl (Gateway_error 400 VALIDATION_ERROR ''Query parameter 'cursor' is invalid'' [(''reason'', reason)]))"

definition found_or :: "gw_error \<Rightarrow> 'a option \<Rightarrow> 'a compliance_eff" where
  "found_or e x = (case x of None \<Rightarrow> throw e | Some y \<Rightarrow> ret y)"

definition compliance_route :: "compliance_env \<Rightarrow> compliance_request \<Rightarrow> compliance_answer compliance_eff" where
  "compliance_route env request =
     (case request of
        Get_decision raw \<Rightarrow>
          bindE (lift (parsePathParam ''decisionId'' raw)) (\<lambda>decisionId.
          bindE (getDecision env decisionId) (\<lambda>decision.
          bindE (found_or (Gateway_error 404 NOT_FOUND ''Compliance decision not found'' [(''decisionId'', decisionId)]) decision)
            (\<lambda>d. ret (Decision_answer d))))
      | Get_trade raw \<Rightarrow>
          bindE (lift (parsePathParam ''tradeId'' raw)) (\<lambda>tradeId.
          bindE (getTradeStatus env tradeId) (\<lambda>status.
          bindE (found_or (Gateway_error 404 NOT_FOUND ''Compliance status not found for trade'' (about_trade tradeId)) status)
            (\<lambda>s. ret (Status_answer s))))
      | Get_trade_decisions raw limit position \<Rightarrow>
          bindE (lift (parsePathParam ''tradeId'' raw)) (\<lambda>tradeId.
          bindE (getTradeStatus env tradeId) (\<lambda>status.
          bindE (found_or (Gateway_error 404 NOT_FOUND ''Compliance decision history not found for trade''
                    (about_trade tradeId)) status) (\<lambda>_.
          bindE (lift (parseLimit limit)) (\<lambda>n.
          bindE (lift (parseCursor position)) (\<lambda>from_position.
          bindE (listTradeDecisions env tradeId n from_position) (\<lambda>(items, next).
            ret (Decisions_answer items next)))))))
      | Post_decision body c \<Rightarrow>
          bindE (cask (ce_now env)) (\<lambda>now.
          bindE (lift (validateComplianceDecisionCreateRequest (ce_parse env) now body)) (\<lambda>input.
          bindE (createDecision env input c) (\<lambda>d. ret (Decision_answer d))))
      | Post_block raw body c \<Rightarrow>
          bindE (lift (validateComplianceOperationalControlRequest body)) (\<lambda>input.
          bindE (lift (parsePathParam ''tradeId'' raw)) (\<lambda>tradeId.
          bindE (blockOracleProgression env tradeId input c) (\<lambda>s. ret (Status_answer s))))
      | Post_resume raw body c \<Rightarrow>
          bindE (lift (validateComplianceOperationalControlRequest body)) (\<lambda>input.
          bindE (lift (parsePathParam ''tradeId'' raw)) (\<lambda>tradeId.
          bindE (resumeOracleProgression env tradeId input c) (\<lambda>s. ret (Status_answer s)))))"

text \<open>Requests that are served one after the other.\<close>

definition compliance_run :: "compliance_env \<Rightarrow> compliance_request list \<Rightarrow> compliance_world \<Rightarrow> compliance_world" where
  "compliance_run env requests w = fold (\<lambda>r v. state_of (compliance_route env r v)) requests w"

end
