(* ===== verification/Compliance_Steps.thy ===== *)
theory Compliance_Steps imports Main Compliance_Service begin

text \<open>
  What a request to the compliance routes may do to the tables, as a step relation: nothing, record a
  decision, or change the block of a trade, each with its audit entry.  Every request, whatever fails
  in it, is a sequence of such steps.
\<close>

section \<open>Steps\<close>

definition same_compliance :: "compliance_world \<Rightarrow> compliance_world \<Rightarrow> bool" where
  "same_compliance w w' \<longleftrightarrow> cw_tick w \<le> cw_tick w' \<and> cw_decisions w' = cw_decisions w \<and>
     cw_blocks w' = cw_blocks w \<and> cw_audit w' = cw_audit w"

definition tick_later :: "compliance_world \<Rightarrow> compliance_world \<Rightarrow> bool" where
  "tick_later w w' \<longleftrightarrow> cw_tick w \<le> cw_tick w'"

definition block_of :: "string \<Rightarrow> compliance_world \<Rightarrow> progression_block option" where
  "block_of tradeId w = row_by pb_tradeId tradeId (cw_blocks w)"

definition block_state_of :: "string \<Rightarrow> compliance_world \<Rightarrow> compliance_block_state" where
  "block_state_of tradeId w = block_or_none (block_of tradeId w)"

definition decision_event :: "compliance_decision \<Rightarrow> audit_entry \<Rightarrow> bool" where
  "decision_event d e \<longleftrightarrow> al_eventType e = ''compliance.decision.recorded'' \<and>
     (\<exists>key. al_metadata e = decisionAuditMetadata d key)"

definition block_event :: "progression_block \<Rightarrow> audit_entry \<Rightarrow> bool" where
  "block_event b e \<longleftrightarrow>
     al_eventType e = (if pb_blockState b = Blocked then ''compliance.oracle_progression.blocked''
       else ''compliance.oracle_progression.resumed'') \<and>
     (\<exists>key. al_metadata e = blockAuditMetadata b key)"

text \<open>When progression may be resumed, at a time between the two worlds.\<close>

definition window_open :: "compliance_env \<Rightarrow> compliance_decision \<Rightarrow> compliance_world \<Rightarrow> compliance_world \<Rightarrow> bool" where
  "window_open env d w w' \<longleftrightarrow>
     (cd_reasonCode d = CMP_OVERRIDE_ACTIVE \<longrightarrow>
        (\<exists>text k. cd_overrideWindowEndsAt d = Some text \<and> cw_tick w \<le> k \<and> k \<le> cw_tick w' \<and>
           (\<forall>ends. ce_parse env text = Some ends \<longrightarrow> ce_now env k < ends)))"

definition may_resume :: "compliance_env \<Rightarrow> string \<Rightarrow> string \<Rightarrow> compliance_world \<Rightarrow> compliance_world \<Rightarrow> bool" where
  "may_resume env tradeId decisionId w w' \<longleftrightarrow>
     (\<exists>d. latest_decision tradeId w = Some d \<and> cd_decisionId d = decisionId \<and> cd_result d = ALLOW \<and>
        window_open env d w w')"

definition records_decision :: "compliance_env \<Rightarrow> compliance_world \<Rightarrow> compliance_world \<Rightarrow> bool" where
  "records_decision env w w' \<longleftrightarrow> cw_tick w \<le> cw_tick w' \<and> cw_blocks w' = cw_blocks w \<and>
     (\<exists>d e. cw_decisions w' = cw_decisions w @ [d] \<and> cw_audit w' = cw_audit w @ [e] \<and> decision_event d e \<and>
        cd_decisionId d \<notin> cd_decisionId ` set (cw_decisions w) \<and>
        (\<forall>q \<in> set (trade_decisions (cd_tradeId d) w). cd_decidedAt q < cd_decidedAt d))"

definition changes_block :: "compliance_env \<Rightarrow> compliance_world \<Rightarrow> compliance_world \<Rightarrow> bool" where
  "changes_block env w w' \<longleftrightarrow> cw_tick w \<le> cw_tick w' \<and> cw_decisions w' = cw_decisions w \<and>
     (\<exists>b e. cw_blocks w' = upsert pb_tradeId (\<lambda>_. b) b (cw_blocks w) \<and> cw_audit w' = cw_audit w @ [e] \<and> block_event b e \<and>
        (\<exists>d \<in> set (cw_decisions w). cd_decisionId d = pb_latestDecisionId b \<and> cd_tradeId d = pb_tradeId b) \<and>
        (pb_blockState b = Blocked \<and> block_state_of (pb_tradeId b) w \<noteq> Blocked \<or>
         pb_blockState b = Not_blocked \<and> block_state_of (pb_tradeId b) w \<noteq> Not_blocked \<and>
           may_resume env (pb_tradeId b) (pb_latestDecisionId b) w w'))"

inductive compliance_step :: "compliance_env \<Rightarrow> compliance_world \<Rightarrow> compliance_world \<Rightarrow> bool" for env where
  idle: "same_compliance w w' \<Longrightarrow> compliance_step env w w'"
| decide: "records_decision env w w' \<Longrightarrow> compliance_step env w w'"
| rebind: "changes_block env w w' \<Longrightarrow> compliance_step env w w'"

lemma same_compliance_refl [simp]: "same_compliance w w"
  by (simp add: same_compliance_def)

lemma same_compliance_trans [trans]: "same_compliance w w1 \<Longrightarrow> same_compliance w1 w2 \<Longrightarrow> same_compliance w w2"
  by (simp add: same_compliance_def)

lemma ctick_simps [simp]:
  "cw_tick (ctick w) = Suc (cw_tick w)" "cw_decisions (ctick w) = cw_decisions w" "cw_blocks (ctick w) = cw_blocks w"
  "cw_audit (ctick w) = cw_audit w"
  by (simp_all add: ctick_def)

lemma same_ctick [simp]: "same_compliance w (ctick w)"
  by (simp add: same_compliance_def)

lemma same_views:
  assumes "same_compliance w w'"
  shows "trade_decisions t w' = trade_decisions t w" "latest_decision t w' = latest_decision t w"
    "block_of t w' = block_of t w" "block_state_of t w' = block_state_of t w"
  using assms by (simp_all add: same_compliance_def trade_decisions_def latest_decision_def block_of_def block_state_of_def)

lemma window_open_mono:
  assumes "window_open env d w1 w2" "cw_tick w \<le> cw_tick w1" "cw_tick w2 \<le> cw_tick w3"
  shows "window_open env d w w3"
  using assms unfolding window_open_def by (meson order_trans)

lemma may_resume_mono:
  assumes "may_resume env t i w1 w2" "same_compliance w w1" "cw_tick w2 \<le> cw_tick w3"
  shows "may_resume env t i w w3"
  using assms window_open_mono [of env _ w1 w2 w w3]
  unfolding may_resume_def same_views [OF assms(2)] by (auto simp: same_compliance_def)

lemma step_after_same:
  assumes "same_compliance w w1" "compliance_step env w1 w2"
  shows "compliance_step env w w2"
  using assms(2)
proof cases
  case idle
  with assms(1) show ?thesis by (blast intro: compliance_step.idle same_compliance_trans)
next
  case decide
  have "records_decision env w w2"
    using decide assms(1) by (simp add: records_decision_def same_views [OF assms(1)] same_compliance_def)
  then show ?thesis by (rule compliance_step.decide)
next
  case rebind
  have resume: "may_resume env t i w w2" if "may_resume env t i w1 w2" for t i
    by (rule may_resume_mono [OF that assms(1) order_refl])
  from rebind obtain b e where b: "cw_blocks w2 = upsert pb_tradeId (\<lambda>_. b) b (cw_blocks w1)"
    "cw_audit w2 = cw_audit w1 @ [e]" "block_event b e" "cw_tick w1 \<le> cw_tick w2" "cw_decisions w2 = cw_decisions w1"
    "\<exists>d \<in> set (cw_decisions w1). cd_decisionId d = pb_latestDecisionId b \<and> cd_tradeId d = pb_tradeId b"
    "pb_blockState b = Blocked \<and> block_state_of (pb_tradeId b) w1 \<noteq> Blocked \<or>
     pb_blockState b = Not_blocked \<and> block_state_of (pb_tradeId b) w1 \<noteq> Not_blocked \<and>
       may_resume env (pb_tradeId b) (pb_latestDecisionId b) w1 w2"
    unfolding changes_block_def by blast
  then have "changes_block env w w2"
    unfolding changes_block_def using assms(1) resume same_views(4) [OF assms(1)]
    by (intro conjI exI [of _ b] exI [of _ e]) (auto simp: same_compliance_def)
  then show ?thesis by (rule compliance_step.rebind)
qed

section \<open>Reads\<close>

lemma keeps_cask [keeps_rules]: "keeps (same_compliance w) (cask f)"
  by (rule keepsI) (simp add: cask_def same_compliance_def)

lemma keeps_cread [keeps_rules]: "keeps (same_compliance w) (cquery env (asks f))"
  by (rule keepsI) (simp add: cquery_def asks_app same_compliance_def split: option.splits)

lemma keeps_loadBlockState [keeps_rules]: "keeps (same_compliance w) (loadBlockState env t)"
  unfolding loadBlockState_def by (intro keeps_rules)

lemma keeps_with_block [keeps_rules]: "keeps (same_compliance w) (with_block env row)"
  by (cases row; simp only: with_block_def option.case; intro keeps_rules)

lemma keeps_getDecision [keeps_rules]: "keeps (same_compliance w) (getDecision env i)"
  unfolding getDecision_def by (intro keeps_rules)

lemma keeps_getLatestDecision [keeps_rules]: "keeps (same_compliance w) (getLatestDecision env t)"
  unfolding getLatestDecision_def by (intro keeps_rules)

lemma keeps_option:
  assumes "keeps P a" "\<And>x. keeps P (b x)"
  shows "keeps P (case x of None \<Rightarrow> a | Some y \<Rightarrow> b y)"
  using assms by (cases x) simp_all

lemma keeps_found_or [keeps_rules]: "keeps P (found_or e x)"
  unfolding found_or_def by (rule keeps_option) (rule keeps_rules)+

lemma keeps_getTradeStatus [keeps_rules]: "keeps (same_compliance w) (getTradeStatus env t)"
  unfolding getTradeStatus_def by (intro keeps_rules keeps_option)

lemma keeps_requireTradeStatus [keeps_rules]: "keeps (same_compliance w) (requireTradeStatus env t)"
  unfolding requireTradeStatus_def by (intro keeps_rules keeps_option)

lemma keeps_listTradeDecisions [keeps_rules]: "keeps (same_compliance w) (listTradeDecisions env t n p)"
  unfolding listTradeDecisions_def Let_def by (intro keeps_rules)

lemma keeps_resolveDecision [keeps_rules]: "keeps (same_compliance w) (resolveDecisionForTrade env t i)"
  unfolding resolveDecisionForTrade_def
  by (cases "truthy_opt i"; simp only: if_True if_False; intro keeps_rules keeps_option; (rename_tac d; case_tac "cd_tradeId d = t"; simp; intro keeps_rules)?)

lemma keeps_check_window [keeps_rules]: "keeps (same_compliance w) (check_window env t d)"
  unfolding check_window_def Let_def by (auto intro!: keeps_rules split: option.splits)

lemma same_after: "keeps (same_compliance w) m \<Longrightarrow> m w = (r, w') \<Longrightarrow> same_compliance w w'"
  using keepsD [of "same_compliance w" m w] by simp

lemma cquery_Inr: "cquery env stmt w = (Inr x, w') \<Longrightarrow> stmt (ctick w) = (Inr x, w')"
  by (simp add: cquery_def split: option.splits)

lemma read_Inr: "cquery env (asks f) w = (Inr x, w') \<Longrightarrow> x = f (ctick w) \<and> w' = ctick w"
  by (auto dest!: cquery_Inr simp: asks_app)

lemma bindE_Inr:
  assumes "bindE m f w = (Inr x, w')"
  obtains y w1 where "m w = (Inr y, w1)" "f y w1 = (Inr x, w')"
  using assms by (auto simp: bindE_app split: prod.splits sum.splits)

lemma loadBlockState_Inr: "loadBlockState env t w = (Inr b, w') \<Longrightarrow> b = map_option mapBlockRow (block_of t w)"
  by (auto simp: loadBlockState_def block_of_def dest!: read_Inr)

lemma loaded_state: "loadBlockState env t w = (Inr b, w') \<Longrightarrow> map_option pb_blockState b = map_option pb_blockState (block_of t w)"
  by (cases "block_of t w") (auto dest!: loadBlockState_Inr simp: mapBlockRow_def)

lemma with_block_Inr:
  assumes "with_block env row w = (Inr x, w')"
  shows "\<exists>s. x = map_option (\<lambda>d. mapDecisionRow d s) row"
  using assms by (cases row) (auto simp: with_block_def ret_app elim!: bindE_Inr)

lemma getLatestDecision_Inr:
  assumes "getLatestDecision env t w = (Inr x, w')"
  shows "\<exists>s. x = map_option (\<lambda>d. mapDecisionRow d s) (latest_decision t w)"
proof -
  have "latest_decision t (ctick w) = latest_decision t w" by (simp add: latest_decision_def trade_decisions_def)
  with assms show ?thesis
    by (auto simp: getLatestDecision_def elim!: bindE_Inr dest!: read_Inr with_block_Inr)
qed

lemma getDecision_Inr:
  assumes "getDecision env i w = (Inr x, w')"
  shows "\<exists>s. x = map_option (\<lambda>d. mapDecisionRow d s) (row_by cd_decisionId i (cw_decisions w))"
  using assms by (auto simp: getDecision_def elim!: bindE_Inr dest!: read_Inr with_block_Inr)

lemma mapDecisionRow_simps [simp]:
  "cd_decisionId (mapDecisionRow d s) = cd_decisionId d" "cd_tradeId (mapDecisionRow d s) = cd_tradeId d"
  "cd_result (mapDecisionRow d s) = cd_result d" "cd_reasonCode (mapDecisionRow d s) = cd_reasonCode d"
  "cd_decidedAt (mapDecisionRow d s) = cd_decidedAt d" "cd_overrideWindowEndsAt (mapDecisionRow d s) = cd_overrideWindowEndsAt d"
  "cd_provider (mapDecisionRow d s) = cd_provider d" "cd_correlationId (mapDecisionRow d s) = cd_correlationId d"
  by (simp_all add: mapDecisionRow_def)

lemma latest_decision_Some:
  assumes "latest_decision t w = Some d"
  shows "d \<in> set (trade_decisions t w)" "q \<in> set (trade_decisions t w) \<Longrightarrow> cd_decidedAt q \<le> cd_decidedAt d"
proof -
  let ?k = "\<lambda>d. (cd_decidedAt d, cd_decisionId d)"
  let ?s = "sort_key ?k (trade_decisions t w)"
  obtain ds where ds: "rev ?s = d # ds" using assms by (auto simp: latest_decision_def latest_first_def split: list.splits)
  then have s: "?s = rev ds @ [d]" by (metis rev.simps(2) rev_rev_ident)
  have set: "set ?s = set (trade_decisions t w)" by simp
  show "d \<in> set (trade_decisions t w)" using s set by auto
  assume "q \<in> set (trade_decisions t w)"
  moreover have "sorted (map ?k (rev ds @ [d]))" using sorted_sort_key [of ?k "trade_decisions t w"] s by simp
  moreover have "q = d \<or> q \<in> set ds" using calculation(1) s set by auto
  ultimately show "cd_decidedAt q \<le> cd_decidedAt d" by (auto simp: sorted_append less_eq_prod_def)
qed

lemma latest_decision_None: "latest_decision t w = None \<Longrightarrow> trade_decisions t w = []"
  by (auto simp: latest_decision_def latest_first_def split: list.splits) (metis list.set(1) set_empty set_sort)

lemma nextDecisionTimestamp_Inr:
  assumes "nextDecisionTimestamp env t w = (Inr at, w')" and "q \<in> set (trade_decisions t w)"
  shows "cd_decidedAt q < at"
proof -
  from assms(1) obtain x w1 now where x: "getLatestDecision env t w = (Inr x, w1)"
    and at: "at = (case x of None \<Rightarrow> now | Some d \<Rightarrow> max now (cd_decidedAt d + 1))"
    by (auto simp: nextDecisionTimestamp_def ret_app cask_def elim!: bindE_Inr)
  with getLatestDecision_Inr [OF x] assms(2) show ?thesis
    by (cases "latest_decision t w") (auto dest: latest_decision_None latest_decision_Some(2))
qed

lemma resolved_decision:
  assumes "resolveDecisionForTrade env t i w = (Inr (Some d), w')"
  shows "\<exists>q \<in> set (cw_decisions w). cd_decisionId q = cd_decisionId d \<and> cd_tradeId q = t"
proof (cases "truthy_opt i")
  case True
  with assms obtain x w1 where x: "getDecision env (the i) w = (Inr x, w1)" and d: "x = Some d" "cd_tradeId d = t"
    by (auto simp: resolveDecisionForTrade_def ret_app throw_app elim!: bindE_Inr split: option.splits if_splits)
  with getDecision_Inr [OF x] show ?thesis
    by (cases "row_by cd_decisionId (the i) (cw_decisions w)") (auto dest!: row_by_Some)
next
  case False
  with assms have x: "getLatestDecision env t w = (Inr (Some d), w')" by (simp add: resolveDecisionForTrade_def)
  with getLatestDecision_Inr [OF x] show ?thesis
    by (cases "latest_decision t w") (auto dest!: latest_decision_Some(1) simp: trade_decisions_def)
qed

section \<open>The transaction\<close>

interpretation compliance_tx: transactional "ccommand env" "ccommand env" "ccommit env" "crollback env"
  compliance_tables same_compliance tick_later for env
proof unfold_locales
  show "same_compliance w w" for w by simp
  show "same_compliance w w1 \<Longrightarrow> same_compliance w1 w2 \<Longrightarrow> same_compliance w w2" for w w1 w2
    by (rule same_compliance_trans)
  show "tick_later w w1 \<Longrightarrow> tick_later w1 w2 \<Longrightarrow> tick_later w w2" for w w1 w2 by (simp add: tick_later_def)
  show "same_compliance w (state_of (ccommand env w))" for w
    by (simp add: ccommand_def cquery_def ret_app split: option.splits)
  show "tick_later w (state_of (ccommand env w))" for w
    by (simp add: ccommand_def cquery_def ret_app tick_later_def split: option.splits)
  show "\<exists>e'. result_of (crollback env e w) = Inl e'" for e w
    by (auto simp: crollback_def bindE_app catchE_app throw_app split: prod.splits sum.splits)
  show "same_compliance w (state_of (crollback env e w))" for e w
    by (auto simp: crollback_def bindE_app catchE_app throw_app ccommand_def cquery_def ret_app split: option.splits prod.splits sum.splits)
  show "tick_later w w1 \<Longrightarrow> same_compliance w (compliance_tables w w1)" for w w1
    by (simp add: same_compliance_def tick_later_def compliance_tables_def)
  show "ccommit env w w1 = (Inr (), w2) \<Longrightarrow> same_compliance w1 w2" for w w1 w2
    by (auto simp: ccommit_def split: option.splits)
  show "ccommit env w w1 = (Inl e, w2) \<Longrightarrow> same_compliance w1 w2 \<or> (tick_later w w1 \<longrightarrow> same_compliance w w2)" for w w1 e w2
    by (auto simp: ccommit_def same_compliance_def tick_later_def compliance_tables_def split: option.splits if_splits)
qed

lemma runTransactionalWrite_cases:
  assumes "runTransactionalWrite env operation w = (r, w')" and "\<And>w. tick_later w (state_of (operation w))"
  obtains (undone) "same_compliance w w'" "\<exists>e. r = Inl e"
  | (done_all) w2 w3 where "same_compliance w w2" "operation w2 = (Inr (), w3)" "same_compliance w3 w'"
proof -
  have run: "compliance_tx.run env (\<lambda>_. operation) w = (r, w')" using assms(1) by (simp add: runTransactionalWrite_def)
  show thesis
  proof (rule compliance_tx.all_or_nothing [where env = env and ?w0.0 = w and body = "\<lambda>_. operation", OF assms(2)])
    assume "same_compliance w (state_of (compliance_tx.run env (\<lambda>_. operation) w))"
      "\<exists>e. result_of (compliance_tx.run env (\<lambda>_. operation) w) = Inl e"
    then show thesis using undone run by simp
  next
    fix w1 u w2 x w3
    assume w1: "same_compliance w w1" and c: "ccommand env w1 = (Inr u, w2)" and op: "operation w2 = (Inr x, w3)"
      and w3: "same_compliance w3 (state_of (compliance_tx.run env (\<lambda>_. operation) w))"
    have "same_compliance w1 w2" using c by (auto simp: ccommand_def cquery_def ret_app split: option.splits)
    then show thesis using done_all [of w2 w3] same_compliance_trans [OF w1] op w3 run by simp
  qed
qed

lemma insertComplianceDecision_Inr:
  assumes "insertComplianceDecision env d w = (Inr (), w')"
  obtains window where "cd_decisionId d \<notin> cd_decisionId ` set (cw_decisions w)" "cw_tick w' = Suc (cw_tick w)"
    "cw_decisions w' = cw_decisions w @ [d\<lparr>cd_overrideWindowEndsAt := window\<rparr>]" "cw_blocks w' = cw_blocks w" "cw_audit w' = cw_audit w"
proof -
  let ?window = "map_option (ce_column env) (cd_overrideWindowEndsAt d)"
  have "(if cd_decisionId d \<in> cd_decisionId ` set (cw_decisions w) \<or> ?window = Some None
      then (Inl (Other_error (ce_violation env)), ctick w)
      else (Inr (), ctick w\<lparr>cw_decisions := cw_decisions w @ [d\<lparr>cd_overrideWindowEndsAt := Option.bind ?window id\<rparr>]\<rparr>)) =
      (Inr (), w')"
    using cquery_Inr [OF assms [unfolded insertComplianceDecision_def]] by (simp only: Let_def ctick_simps)
  then have "cd_decisionId d \<notin> cd_decisionId ` set (cw_decisions w)"
    and "w' = ctick w\<lparr>cw_decisions := cw_decisions w @ [d\<lparr>cd_overrideWindowEndsAt := Option.bind ?window id\<rparr>]\<rparr>"
    by (simp_all split: if_splits)
  then show thesis by (intro that [of "Option.bind ?window id"]) simp_all
qed

lemma upsertOracleProgressionBlock_Inr:
  assumes "upsertOracleProgressionBlock env b w = (Inr (), w')"
  shows "cw_tick w' = Suc (cw_tick w) \<and> cw_blocks w' = upsert pb_tradeId (\<lambda>_. b) b (cw_blocks w) \<and>
    cw_decisions w' = cw_decisions w \<and> cw_audit w' = cw_audit w"
  using assms by (auto simp: upsertOracleProgressionBlock_def dest!: cquery_Inr split: if_splits)

lemma insertComplianceAudit_Inr:
  assumes "insertComplianceAudit env e w = (Inr (), w')"
  shows "cw_tick w' = Suc (cw_tick w) \<and> cw_blocks w' = cw_blocks w \<and> cw_decisions w' = cw_decisions w \<and>
    cw_audit w' = cw_audit w @ [e]"
  using assms by (auto simp: insertComplianceAudit_def change_app dest!: cquery_Inr)

lemma writes_later:
  "tick_later w (state_of (seqE (insertComplianceDecision env d) (insertComplianceAudit env e) w))"
  "tick_later w (state_of (seqE (upsertOracleProgressionBlock env b) (insertComplianceAudit env e) w))"
  by (auto simp: tick_later_def seqE_app insertComplianceDecision_def upsertOracleProgressionBlock_def
      insertComplianceAudit_def cquery_def change_app Let_def split: prod.splits sum.splits option.splits if_splits)

lemma step_before_same:
  assumes "compliance_step env w w1" "same_compliance w1 w2"
  shows "compliance_step env w w2"
  using assms(1)
proof cases
  case idle
  with assms(2) show ?thesis by (blast intro: compliance_step.idle same_compliance_trans)
next
  case decide
  then have "records_decision env w w2" using assms(2) by (simp add: records_decision_def same_compliance_def)
  then show ?thesis by (rule compliance_step.decide)
next
  case rebind
  have "may_resume env t i w w2" if "may_resume env t i w w1" for t i
    by (rule may_resume_mono [OF that]) (use assms(2) in \<open>simp_all add: same_compliance_def\<close>)
  with rebind have "changes_block env w w2"
    unfolding changes_block_def using assms(2) by (fastforce simp: same_compliance_def)
  then show ?thesis by (rule compliance_step.rebind)
qed

section \<open>Requests are steps\<close>

lemma same_next:
  assumes "keeps (same_compliance w) m" "bindE m f w = (r, w')"
  obtains (failed) e where "r = Inl e" "same_compliance w w'"
  | (moved) x w1 where "m w = (Inr x, w1)" "same_compliance w w1" "f x w1 = (r, w')"
proof -
  obtain s w1 where m: "m w = (s, w1)" by fastforce
  have same: "same_compliance w w1" by (rule same_after [OF assms(1) m])
  show thesis
  proof (cases s)
    case (Inl e)
    with assms(2) m same show ?thesis by (intro failed [of e]) (simp_all add: bindE_app)
  next
    case (Inr x)
    with assms(2) m same show ?thesis by (intro moved [of x w1]) (simp_all add: bindE_app)
  qed
qed

lemma written_then_read:
  assumes "seqE (runTransactionalWrite env operation) (bindE m (\<lambda>stored. case stored of None \<Rightarrow> throw e | Some x \<Rightarrow> ret x)) w = (r, w')"
    and "\<And>w. keeps (same_compliance w) m"
  obtains s w1 where "runTransactionalWrite env operation w = (s, w1)" "same_compliance w1 w'"
proof -
  let ?rest = "bindE m (\<lambda>stored. case stored of None \<Rightarrow> throw e | Some x \<Rightarrow> ret x)"
  obtain s w1 where s: "runTransactionalWrite env operation w = (s, w1)" by fastforce
  have k: "keeps (same_compliance w1) ?rest" by (intro keeps_rules keeps_option assms(2))
  show thesis
  proof (cases s)
    case (Inl x)
    with assms(1) s that show ?thesis by (simp add: seqE_app)
  next
    case (Inr x)
    with assms(1) s have "?rest w1 = (r, w')" by (simp only: seqE_app prod.case sum.case)
    with s that same_after [OF k] show ?thesis by blast
  qed
qed

lemma saveDecision_step:
  assumes "saveDecisionWithAudit env d e w = (r, w')" and "decision_event d e"
    and "\<forall>q \<in> set (trade_decisions (cd_tradeId d) w). cd_decidedAt q < cd_decidedAt d"
  shows "compliance_step env w w'"
proof -
  let ?op = "seqE (insertComplianceDecision env d) (insertComplianceAudit env e)"
  obtain s w1 where s: "runTransactionalWrite env ?op w = (s, w1)" and rest: "same_compliance w1 w'"
    by (rule written_then_read [OF assms(1) [unfolded saveDecisionWithAudit_def]]) (rule keeps_getDecision)
  show ?thesis
    using s writes_later(1)
  proof (cases rule: runTransactionalWrite_cases)
    case undone
    then show ?thesis using rest by (blast intro: compliance_step.idle same_compliance_trans)
  next
    case (done_all w2 w3)
    then obtain w4 where w4: "insertComplianceDecision env d w2 = (Inr (), w4)" "insertComplianceAudit env e w4 = (Inr (), w3)"
      by (auto simp: seqE_app split: prod.splits sum.splits)
    obtain window where window: "cd_decisionId d \<notin> cd_decisionId ` set (cw_decisions w2)" "cw_tick w4 = Suc (cw_tick w2)"
      "cw_decisions w4 = cw_decisions w2 @ [d\<lparr>cd_overrideWindowEndsAt := window\<rparr>]" "cw_blocks w4 = cw_blocks w2" "cw_audit w4 = cw_audit w2"
      by (rule insertComplianceDecision_Inr [OF w4(1)])
    have "decision_event (d\<lparr>cd_overrideWindowEndsAt := window\<rparr>) e"
      using assms(2) by (simp add: decision_event_def decisionAuditMetadata_def)
    then have "records_decision env w w3"
      using insertComplianceAudit_Inr [OF w4(2)] window done_all(1) assms(3)
      unfolding records_decision_def same_compliance_def
      by (intro conjI exI [of _ "d\<lparr>cd_overrideWindowEndsAt := window\<rparr>"] exI [of _ e]) simp_all
    then show ?thesis
      using step_before_same [OF compliance_step.decide] done_all(3) rest by (blast intro: same_compliance_trans)
  qed
qed

lemma saveBlock_step:
  assumes "saveBlockStateWithAudit env b e w = (r, w')" and "block_event b e"
    and "\<exists>d \<in> set (cw_decisions w). cd_decisionId d = pb_latestDecisionId b \<and> cd_tradeId d = pb_tradeId b"
    and "pb_blockState b = Blocked \<and> block_state_of (pb_tradeId b) w \<noteq> Blocked \<or>
      pb_blockState b = Not_blocked \<and> block_state_of (pb_tradeId b) w \<noteq> Not_blocked \<and>
        may_resume env (pb_tradeId b) (pb_latestDecisionId b) w0 w"
    and "same_compliance w0 w"
  shows "compliance_step env w0 w'"
proof -
  let ?op = "seqE (upsertOracleProgressionBlock env b) (insertComplianceAudit env e)"
  obtain s w1 where s: "runTransactionalWrite env ?op w = (s, w1)" and rest: "same_compliance w1 w'"
    by (rule written_then_read [OF assms(1) [unfolded saveBlockStateWithAudit_def]]) (rule keeps_loadBlockState)
  show ?thesis
    using s writes_later(2)
  proof (cases rule: runTransactionalWrite_cases)
    case undone
    then show ?thesis using rest assms(5) by (blast intro: compliance_step.idle same_compliance_trans)
  next
    case (done_all w2 w3)
    then obtain w4 where w4: "upsertOracleProgressionBlock env b w2 = (Inr (), w4)" "insertComplianceAudit env e w4 = (Inr (), w3)"
      by (auto simp: seqE_app split: prod.splits sum.splits)
    note w3 = insertComplianceAudit_Inr [OF w4(2)] upsertOracleProgressionBlock_Inr [OF w4(1)] done_all(1) [unfolded same_compliance_def]
    have "may_resume env t i w0 w3" if "may_resume env t i w0 w" for t i
      by (rule may_resume_mono [OF that]) (use w3 in simp_all)
    then have "changes_block env w0 w3"
      using w3 assms(2-4) same_views(4) [OF assms(5)] assms(5) [unfolded same_compliance_def] unfolding changes_block_def
      by (intro conjI exI [of _ b] exI [of _ e]) auto
    then show ?thesis
      using step_before_same [OF compliance_step.rebind] done_all(3) rest by (blast intro: same_compliance_trans)
  qed
qed

lemma keeps_nextDecisionTimestamp [keeps_rules]: "keeps (same_compliance w) (nextDecisionTimestamp env t)"
  unfolding nextDecisionTimestamp_def by (intro keeps_rules)

lemma entry_events:
  "decision_event d (compliance_entry c ''compliance.decision.recorded'' s (decisionAuditMetadata d key))"
  "pb_blockState b = Blocked \<Longrightarrow>
   block_event b (compliance_entry c ''compliance.oracle_progression.blocked'' s (blockAuditMetadata b key))"
  "pb_blockState b \<noteq> Blocked \<Longrightarrow>
   block_event b (compliance_entry c ''compliance.oracle_progression.resumed'' s (blockAuditMetadata b key))"
  by (auto simp: decision_event_def block_event_def compliance_entry_def)

lemma createDecision_step: "compliance_step env w (state_of (createDecision env input c w))"
proof -
  obtain r w' where r: "createDecision env input c w = (r, w')" by fastforce
  have "compliance_step env w w'"
    using r unfolding createDecision_def
  proof (cases rule: same_next [OF keeps_nextDecisionTimestamp, consumes 1, case_names failed moved])
    case (failed e)
    then show ?thesis by (intro compliance_step.idle)
  next
    case (moved decidedAt w1)
    have late: "\<forall>q \<in> set (trade_decisions (di_tradeId input) w). cd_decidedAt q < decidedAt"
      using nextDecisionTimestamp_Inr [OF moved(1)] by blast
    from moved(3) show ?thesis
    proof (cases rule: same_next [OF keeps_loadBlockState, consumes 1, case_names failed moved])
      case (failed e)
      then show ?thesis using moved(2) by (blast intro: compliance_step.idle same_compliance_trans)
    next
      case inner: (moved existingBlock w2)
      let ?d = "new_decision input c (ce_uuid env (cw_tick w2)) decidedAt existingBlock"
      have save: "saveDecisionWithAudit env ?d (compliance_entry c ''compliance.decision.recorded'' ''recorded''
          (decisionAuditMetadata ?d (mc_idempotencyKey c))) (ctick w2) = (r, w')"
        using inner(3) by (simp add: bindE_app cask_def Let_def)
      have same: "same_compliance w (ctick w2)"
        using moved(2) inner(2) same_ctick by (blast intro: same_compliance_trans)
      have "cd_tradeId ?d = di_tradeId input" "cd_decidedAt ?d = decidedAt" by (simp_all add: new_decision_def)
      then have "compliance_step env (ctick w2) w'"
        using late same_views(1) [OF same]
        by (intro saveDecision_step [OF save]) (simp_all add: entry_events)
      with same show ?thesis by (rule step_after_same)
    qed
  qed
  then show ?thesis using r by simp
qed

lemma save_and_report:
  assumes "seqE (saveBlockStateWithAudit env b e) (requireTradeStatus env t) w = (r, w')"
  obtains r1 w1 where "saveBlockStateWithAudit env b e w = (r1, w1)" "same_compliance w1 w'"
proof -
  obtain s w1 where s: "saveBlockStateWithAudit env b e w = (s, w1)" by fastforce
  show thesis
  proof (cases s)
    case (Inl x)
    with assms s that show ?thesis by (simp add: seqE_app)
  next
    case (Inr x)
    with assms s have "requireTradeStatus env t w1 = (r, w')" by (simp add: seqE_app)
    with s that same_after [OF keeps_requireTradeStatus] show ?thesis by blast
  qed
qed

lemma blockOracleProgression_step: "compliance_step env w (state_of (blockOracleProgression env t input c w))"
proof -
  obtain r w' where r: "blockOracleProgression env t input c w = (r, w')" by fastforce
  have "compliance_step env w w'"
    using r unfolding blockOracleProgression_def
  proof (cases rule: same_next [OF keeps_loadBlockState, consumes 1, case_names failed moved])
    case (failed e)
    then show ?thesis by (intro compliance_step.idle)
  next
    case (moved existing w1)
    show ?thesis
    proof (cases "map_option pb_blockState existing = Some Blocked")
      case True
      with moved show ?thesis by (simp add: throw_app compliance_step.idle)
    next
      case False
      with loaded_state [OF moved(1)] have open_w: "block_state_of t w \<noteq> Blocked"
        by (cases "block_of t w") (auto simp: block_state_of_def block_or_none_def)
      from moved(3) False have "bindE (resolveDecisionForTrade env t (ci_decisionId input)) (\<lambda>decision.
           case decision of
             None \<Rightarrow> throw (conflict ''A compliance decision must exist before blocking oracle progression'' (about_trade t))
           | Some d \<Rightarrow>
               bindE (cask (ce_now env)) (\<lambda>updatedAt.
                 (let block = \<lparr>pb_tradeId = t, pb_latestDecisionId = cd_decisionId d, pb_blockState = Blocked,
                        pb_reasonCode = ci_reasonCode input, pb_requestId = mc_requestId c,
                        pb_correlationId = Some (mc_correlationId c),
                        pb_audit = buildAuditRecord (ci_audit input) (mc_principal c) updatedAt,
                        pb_blockedAt = Some updatedAt, pb_resumedAt = None, pb_updatedAt = updatedAt\<rparr>
                  in seqE (saveBlockStateWithAudit env block
                             (compliance_entry c ''compliance.oracle_progression.blocked'' ''blocked''
                                (blockAuditMetadata block (mc_idempotencyKey c))))
                       (requireTradeStatus env t)))) w1 = (r, w')" by (simp only: if_False)
      then show ?thesis
      proof (cases rule: same_next [OF keeps_resolveDecision, consumes 1, case_names failed moved])
        case (failed e)
        then show ?thesis using moved(2) by (blast intro: compliance_step.idle same_compliance_trans)
      next
        case inner: (moved decision w2)
        have same: "same_compliance w w2" using moved(2) inner(2) by (rule same_compliance_trans)
        show ?thesis
        proof (cases decision)
          case None
          with inner(3) same show ?thesis by (auto simp: throw_app intro: compliance_step.idle)
        next
          case (Some d)
          have tick: "same_compliance w (ctick w2)" using same same_ctick by (rule same_compliance_trans)
          define b where "b = \<lparr>pb_tradeId = t, pb_latestDecisionId = cd_decisionId d, pb_blockState = Blocked,
                        pb_reasonCode = ci_reasonCode input, pb_requestId = mc_requestId c,
                        pb_correlationId = Some (mc_correlationId c),
                        pb_audit = buildAuditRecord (ci_audit input) (mc_principal c) (ce_now env (cw_tick w2)),
                        pb_blockedAt = Some (ce_now env (cw_tick w2)), pb_resumedAt = None,
                        pb_updatedAt = ce_now env (cw_tick w2)\<rparr>"
          define e where "e = compliance_entry c ''compliance.oracle_progression.blocked'' ''blocked''
                                (blockAuditMetadata b (mc_idempotencyKey c))"
          have both: "seqE (saveBlockStateWithAudit env b e) (requireTradeStatus env t) (ctick w2) = (r, w')"
            using inner(3) Some by (simp add: bindE_app cask_def Let_def b_def e_def)
          have b: "pb_tradeId b = t" "pb_latestDecisionId b = cd_decisionId d" "pb_blockState b = Blocked" "block_event b e"
            by (simp_all add: b_def e_def entry_events)
          have d: "\<exists>q \<in> set (cw_decisions (ctick w2)). cd_decisionId q = pb_latestDecisionId b \<and> cd_tradeId q = pb_tradeId b"
            using resolved_decision [OF inner(1) [unfolded Some]] inner(2) b by (simp add: same_compliance_def)
          obtain r1 w3 where save: "saveBlockStateWithAudit env b e (ctick w2) = (r1, w3)" and rest: "same_compliance w3 w'"
            by (rule save_and_report [OF both])
          have "compliance_step env w w3"
            using b open_w same_views(4) [OF tick] by (intro saveBlock_step [OF save b(4) d _ tick]) simp
          then show ?thesis using rest by (rule step_before_same)
        qed
      qed
    qed
  qed
  then show ?thesis using r by simp
qed

lemma check_window_Inr:
  assumes "check_window env t d w = (Inr u, w')"
  shows "window_open env d w w'"
proof (cases "cd_reasonCode d = CMP_OVERRIDE_ACTIVE")
  case True
  with assms obtain window where window: "cd_overrideWindowEndsAt d = Some window"
    by (cases "cd_overrideWindowEndsAt d") (auto simp: check_window_def Let_def throw_app truthy_opt_def)
  with assms True have "w' = ctick w \<and> (\<forall>ends. ce_parse env window = Some ends \<longrightarrow> ce_now env (cw_tick w) < ends)"
    by (auto simp: check_window_def Let_def throw_app ret_app bindE_app cask_def split: if_splits option.splits)
  with window show ?thesis unfolding window_open_def by (intro impI exI [of _ window] exI [of _ "cw_tick w"]) simp
qed (simp add: window_open_def)

lemma resume_allowed_Inr:
  "resume_allowed t requested latest = Inr d \<Longrightarrow> latest = Some d \<and> cd_result d = ALLOW"
  by (cases latest) (simp_all add: resume_allowed_def split: if_splits)

lemma window_open_row [simp]: "window_open env (mapDecisionRow d s) = window_open env d"
  by (intro ext) (simp add: window_open_def)

lemma keeps_lift_same: "keeps (same_compliance w) (lift x)"
  by (rule keeps_lift)

lemma resume_save_step:
  assumes "bindE (check_window env t d) (\<lambda>_. bindE (cask (ce_now env)) (\<lambda>updatedAt.
      (let block = resumed_block eb d input c updatedAt
       in seqE (saveBlockStateWithAudit env block
                  (compliance_entry c ''compliance.oracle_progression.resumed'' ''not_blocked''
                     (blockAuditMetadata block (mc_idempotencyKey c))))
            (requireTradeStatus env t)))) w1 = (r, w')"
    and same: "same_compliance w w1" and "pb_tradeId eb = t" and blocked: "block_state_of t w \<noteq> Not_blocked"
    and d0: "latest_decision t w = Some d0" "d = mapDecisionRow d0 st" and "cd_result d = ALLOW"
  shows "compliance_step env w w'"
  using assms(1)
proof (cases rule: same_next [OF keeps_check_window, consumes 1, case_names failed moved])
  case (failed e)
  then show ?thesis using same by (blast intro: compliance_step.idle same_compliance_trans)
next
  case (moved u w2)
  have tick: "same_compliance w (ctick w2)"
    using same moved(2) same_ctick by (blast intro: same_compliance_trans)
  define b where "b = resumed_block eb d input c (ce_now env (cw_tick w2))"
  define e where "e = compliance_entry c ''compliance.oracle_progression.resumed'' ''not_blocked''
                        (blockAuditMetadata b (mc_idempotencyKey c))"
  have both: "seqE (saveBlockStateWithAudit env b e) (requireTradeStatus env t) (ctick w2) = (r, w')"
    using moved(3) by (simp add: bindE_app cask_def Let_def b_def e_def)
  have b: "pb_tradeId b = t" "pb_latestDecisionId b = cd_decisionId d0" "pb_blockState b = Not_blocked" "block_event b e"
    using \<open>pb_tradeId eb = t\<close> d0(2) by (simp_all add: b_def resumed_block_def e_def entry_events)
  have "window_open env d0 w1 w2" using check_window_Inr [OF moved(1)] d0(2) by simp
  then have "window_open env d0 w (ctick w2)"
    by (rule window_open_mono) (use same in \<open>simp_all add: same_compliance_def\<close>)
  then have may: "may_resume env t (cd_decisionId d0) w (ctick w2)"
    using d0 assms(7) by (simp add: may_resume_def)
  have known: "\<exists>q \<in> set (cw_decisions (ctick w2)). cd_decisionId q = pb_latestDecisionId b \<and> cd_tradeId q = pb_tradeId b"
    using latest_decision_Some(1) [OF d0(1)] b tick by (auto simp: trade_decisions_def same_compliance_def)
  obtain r1 w3 where save: "saveBlockStateWithAudit env b e (ctick w2) = (r1, w3)" and rest: "same_compliance w3 w'"
    by (rule save_and_report [OF both])
  have "compliance_step env w w3"
    using b may blocked same_views(4) [OF tick] by (intro saveBlock_step [OF save b(4) known _ tick]) simp
  then show ?thesis using rest by (rule step_before_same)
qed

text \<open>The two reads of a resumption.\<close>

lemma resume_reads_step:
  assumes "bindE (resolveDecisionForTrade env t i) (\<lambda>requested. bindE (getLatestDecision env t) (\<lambda>latest.
      bindE (lift (resume_allowed t requested latest)) rest)) w1 = (r, w')"
    and same: "same_compliance w w1"
    and step: "\<And>d d0 st w2. rest d w2 = (r, w') \<Longrightarrow> same_compliance w w2 \<Longrightarrow> latest_decision t w = Some d0 \<Longrightarrow>
      d = mapDecisionRow d0 st \<Longrightarrow> cd_result d = ALLOW \<Longrightarrow> compliance_step env w w'"
  shows "compliance_step env w w'"
  using assms(1)
proof (cases rule: same_next [OF keeps_resolveDecision, consumes 1, case_names failed moved])
  case (failed e)
  then show ?thesis using same by (blast intro: compliance_step.idle same_compliance_trans)
next
  case requested: (moved q w2)
  note same2 = same_compliance_trans [OF same requested(2)]
  from requested(3) show ?thesis
  proof (cases rule: same_next [OF keeps_getLatestDecision, consumes 1, case_names failed moved])
    case (failed e)
    then show ?thesis using same2 by (blast intro: compliance_step.idle same_compliance_trans)
  next
    case latest: (moved l w3)
    note same3 = same_compliance_trans [OF same2 latest(2)]
    show ?thesis
    proof (cases "resume_allowed t q l")
      case (Inl e)
      with latest(3) same3 show ?thesis by (simp add: bindE_app lift_app compliance_step.idle)
    next
      case (Inr d)
      note d = resume_allowed_Inr [OF Inr]
      obtain d0 st where "latest_decision t w = Some d0" "d = mapDecisionRow d0 st"
        using getLatestDecision_Inr [OF latest(1)] same_views(2) [OF same2] d
        by (cases "latest_decision t w") auto
      moreover have "rest d w3 = (r, w')" using latest(3) Inr by (simp add: bindE_app lift_app)
      ultimately show ?thesis using step same3 d by blast
    qed
  qed
qed

lemma resumeOracleProgression_step: "compliance_step env w (state_of (resumeOracleProgression env t input c w))"
proof -
  obtain r w' where r: "resumeOracleProgression env t input c w = (r, w')" by fastforce
  have "compliance_step env w w'"
    using r unfolding resumeOracleProgression_def
  proof (cases rule: same_next [OF keeps_loadBlockState, consumes 1, case_names failed moved])
    case (failed e)
    then show ?thesis by (intro compliance_step.idle)
  next
    case (moved existing w1)
    show ?thesis
    proof (cases "existing = None \<or> map_option pb_blockState existing = Some Not_blocked")
      case True
      with moved show ?thesis by (cases existing) (simp_all add: throw_app compliance_step.idle)
    next
      case False
      then obtain eb where eb: "existing = Some eb" "pb_blockState eb \<noteq> Not_blocked" by auto
      then obtain row where row: "block_of t w = Some row" "eb = mapBlockRow row"
        using loadBlockState_Inr [OF moved(1)] by auto
      then have facts: "block_state_of t w \<noteq> Not_blocked" "pb_tradeId eb = t"
        using eb(2) by (auto simp: block_state_of_def block_or_none_def mapBlockRow_def block_of_def dest: row_by_Some)
      show ?thesis
        by (rule resume_reads_step [OF moved(3) [unfolded eb(1) option.case if_not_P [OF eb(2)]] moved(2)])
          (rule resume_save_step [unfolded seqE_def], (simp only: seqE_def | simp add: facts)+)
    qed
  qed
  then show ?thesis using r by simp
qed

lemma route_tail:
  assumes "bindE m (\<lambda>x. ret (g x)) w = (r, w')"
  shows "w' = state_of (m w)"
  using assms by (auto simp: bindE_app ret_app split: prod.splits sum.splits)

lemma lifted_step:
  assumes "\<And>x w. compliance_step env w (state_of (f x w))"
  shows "compliance_step env w (state_of (bindE (lift r) f w))"
  using assms by (cases r) (simp_all add: bindE_app lift_app compliance_step.idle)

lemma answered_step:
  assumes "\<And>w. compliance_step env w (state_of (m w))"
  shows "compliance_step env w (state_of (bindE m (\<lambda>x. ret (g x)) w))"
  using assms [of w] route_tail [of m g w] by (metis prod.collapse)

lemma compliance_route_step: "compliance_step env w (state_of (compliance_route env request w))"
proof (cases request)
  case (Post_decision body c)
  have "compliance_step env (ctick w) (state_of (compliance_route env request w))"
    unfolding Post_decision compliance_route_def compliance_request.case
    by (subst bindE_app, simp only: cask_def prod.case sum.case)
      (intro lifted_step answered_step createDecision_step)
  then show ?thesis by (rule step_after_same [rotated]) simp
next
  case (Post_block raw body c)
  then show ?thesis
    unfolding compliance_route_def by simp (intro lifted_step answered_step blockOracleProgression_step)
next
  case (Post_resume raw body c)
  then show ?thesis
    unfolding compliance_route_def by simp (intro lifted_step answered_step resumeOracleProgression_step)
next
  case (Get_decision raw)
  have "keeps (same_compliance w) (compliance_route env request)"
    unfolding Get_decision compliance_route_def compliance_request.case by (intro keeps_rules)
  then show ?thesis by (intro compliance_step.idle) (simp add: keepsD)
next
  case (Get_trade raw)
  have "keeps (same_compliance w) (compliance_route env request)"
    unfolding Get_trade compliance_route_def compliance_request.case by (intro keeps_rules)
  then show ?thesis by (intro compliance_step.idle) (simp add: keepsD)
next
  case (Get_trade_decisions raw limit p)
  have pair: "keeps (same_compliance w) (case x of (items, nxt) \<Rightarrow> ret (Decisions_answer items nxt))" for x
    by (cases x) (simp add: keeps_ret)
  have "keeps (same_compliance w) (compliance_route env request)"
    unfolding Get_trade_decisions compliance_route_def compliance_request.case by (intro keeps_rules pair)
  then show ?thesis by (intro compliance_step.idle) (simp add: keepsD)
qed

lemma compliance_run_steps: "(compliance_step env)\<^sup>*\<^sup>* w (compliance_run env requests w)"
proof (induction requests arbitrary: w)
  case (Cons request requests)
  have "compliance_run env (request # requests) w = compliance_run env requests (state_of (compliance_route env request w))"
    by (simp add: compliance_run_def)
  with Cons.IH [of "state_of (compliance_route env request w)"] compliance_route_step [of env w request]
  show ?case by (simp add: converse_rtranclp_into_rtranclp)
qed (simp add: compliance_run_def)

end
