(* ===== verification/Compliance_Props.thy ===== *)
theory Compliance_Props imports Main Compliance_Steps begin

text \<open>
  The properties of the compliance ledger over runs of requests from the empty tables, with a small
  environment for the witnesses, and what the service leaves open.
\<close>

section \<open>The audit log, replayed\<close>

definition audit_text :: "string \<Rightarrow> audit_entry \<Rightarrow> string option" where
  "audit_text key e = map_of (al_metadata e) key"

definition recorded_ids :: "audit_entry list \<Rightarrow> string option list" where
  "recorded_ids log =
     map (audit_text ''decisionId'') (filter (\<lambda>e. al_eventType e = ''compliance.decision.recorded'') log)"

definition replay_block :: "string \<Rightarrow> audit_entry \<Rightarrow> compliance_block_state \<Rightarrow> compliance_block_state" where
  "replay_block tradeId e s =
     (if audit_text ''tradeId'' e \<noteq> Some tradeId then s
      else if al_eventType e = ''compliance.oracle_progression.blocked'' then Blocked
      else if al_eventType e = ''compliance.oracle_progression.resumed'' then Not_blocked
      else s)"

definition replayed_state :: "string \<Rightarrow> audit_entry list \<Rightarrow> compliance_block_state" where
  "replayed_state tradeId log = fold (replay_block tradeId) log Not_blocked"

definition compliance_inv :: "compliance_world \<Rightarrow> bool" where
  "compliance_inv w \<longleftrightarrow>
     distinct (map cd_decisionId (cw_decisions w)) \<and>
     (\<forall>t. sorted_wrt (<) (map cd_decidedAt (trade_decisions t w))) \<and>
     recorded_ids (cw_audit w) = map (\<lambda>d. Some (cd_decisionId d)) (cw_decisions w) \<and>
     (\<forall>t. block_state_of t w = replayed_state t (cw_audit w))"

lemma decision_entry:
  assumes "decision_event d e"
  shows "recorded_ids (log @ [e]) = recorded_ids log @ [Some (cd_decisionId d)]" "replay_block t e s = s"
  using assms by (auto simp: decision_event_def recorded_ids_def audit_text_def decisionAuditMetadata_def replay_block_def)

lemma block_entry:
  assumes "block_event b e" "pb_blockState b \<noteq> Resume_pending"
  shows "recorded_ids (log @ [e]) = recorded_ids log"
    "replay_block t e s = (if pb_tradeId b = t then pb_blockState b else s)"
  using assms
  by (cases "pb_blockState b"; auto simp: block_event_def recorded_ids_def audit_text_def blockAuditMetadata_def replay_block_def)+

lemma block_state_upsert:
  assumes "cw_blocks w' = upsert pb_tradeId (\<lambda>_. b) b (cw_blocks w)"
  shows "block_state_of t w' = (if pb_tradeId b = t then pb_blockState b else block_state_of t w)"
proof -
  have "row_by pb_tradeId t (upsert pb_tradeId (\<lambda>_. b) b rows) =
      (if pb_tradeId b = t then Some b else row_by pb_tradeId t rows)" for rows
  proof -
    have "row_by pb_tradeId t (update_where (\<lambda>q. pb_tradeId q = pb_tradeId b) (\<lambda>_. b) rs) =
        (if pb_tradeId b = t then (if t \<in> pb_tradeId ` set rs then Some b else None) else row_by pb_tradeId t rs)" for rs
      by (induction rs) (auto simp: update_where_def row_by_def)
    moreover have "row_by pb_tradeId t (rows @ [b]) = (if pb_tradeId b = t then Some b else row_by pb_tradeId t rows)"
      if "pb_tradeId b \<notin> pb_tradeId ` set rows"
      using that row_by_None [of pb_tradeId t rows]
      by (cases "row_by pb_tradeId t rows") (auto simp: row_by_append row_by_Cons row_by_def [of _ _ "[]"])
    ultimately show ?thesis by (auto simp: upsert_def)
  qed
  then show ?thesis using assms(1) by (simp add: block_state_of_def block_of_def block_or_none_def)
qed

lemma compliance_inv_step:
  assumes "compliance_step env w w'" "compliance_inv w" 
  shows "compliance_inv w'"
  using assms(1)
proof cases
  case idle
  have "trade_decisions t w' = trade_decisions t w" "block_state_of t w' = block_state_of t w" for t
    by (rule same_views [OF idle])+
  with idle assms(2) show ?thesis by (simp add: compliance_inv_def same_compliance_def)
next
  case decide
  then obtain d e where d: "cw_decisions w' = cw_decisions w @ [d]" "cw_audit w' = cw_audit w @ [e]" "decision_event d e"
    "cd_decisionId d \<notin> cd_decisionId ` set (cw_decisions w)" "\<forall>q \<in> set (trade_decisions (cd_tradeId d) w). cd_decidedAt q < cd_decidedAt d"
    and blocks: "cw_blocks w' = cw_blocks w" by (auto simp: records_decision_def)
  have "trade_decisions t w' = trade_decisions t w @ (if cd_tradeId d = t then [d] else [])" for t
    using d(1) by (simp add: trade_decisions_def)
  moreover have "block_state_of t w' = block_state_of t w" for t
    using blocks by (simp add: block_state_of_def block_of_def)
  ultimately show ?thesis
    using assms(2) d by (auto simp: compliance_inv_def decision_entry replayed_state_def sorted_wrt_append)
next
  case rebind
  then obtain b e where b: "cw_blocks w' = upsert pb_tradeId (\<lambda>_. b) b (cw_blocks w)" "cw_audit w' = cw_audit w @ [e]"
    "block_event b e" "cw_decisions w' = cw_decisions w" and s: "pb_blockState b \<noteq> Resume_pending"
    by (auto simp: changes_block_def)
  have "trade_decisions t w' = trade_decisions t w" for t using b(4) by (simp add: trade_decisions_def)
  then show ?thesis
    using assms(2) b s block_entry [OF b(3) s] block_state_upsert [OF b(1)]
    by (simp add: compliance_inv_def replayed_state_def)
qed

lemma compliance_inv_run:
  assumes "compliance_inv w"
  shows "compliance_inv (compliance_run env requests w)"
  using compliance_run_steps [of env w requests] assms
  by (induction rule: rtranclp_induct) (auto intro: compliance_inv_step)

lemma compliance_inv_empty: "compliance_inv empty_compliance"
  by (simp add: compliance_inv_def empty_compliance_def trade_decisions_def recorded_ids_def block_state_of_def
      block_of_def row_by_def block_or_none_def replayed_state_def)

lemma replayed_not_pending: "replayed_state t log \<noteq> Resume_pending"
proof -
  have "fold (replay_block t) log s \<noteq> Resume_pending" if "s \<noteq> Resume_pending" for s
    using that by (induction log arbitrary: s) (simp_all add: replay_block_def)
  then show ?thesis by (simp add: replayed_state_def)
qed

text \<open>The decision that is latest by time is the one recorded last.\<close>

lemma last_decision_is_latest:
  assumes "sorted_wrt (<) (map cd_decidedAt (trade_decisions t w))"
  shows "latest_decision t w = (case trade_decisions t w of [] \<Rightarrow> None | _ \<Rightarrow> Some (last (trade_decisions t w)))"
proof -
  have pairs: "sorted (map (\<lambda>d. (cd_decidedAt d, cd_decisionId d)) ds)" if "sorted_wrt (<) (map cd_decidedAt ds)" for ds
    using that by (induction ds) (auto simp: less_eq_prod_def)
  have "latest_first (trade_decisions t w) = rev (trade_decisions t w)"
    using sort_key_id_if_sorted [OF pairs [OF assms]] by (simp add: latest_first_def)
  moreover have "rev ds = last ds # rev (butlast ds)" if "ds \<noteq> []" for ds :: "compliance_decision list"
    using arg_cong [OF append_butlast_last_id [OF that], of rev] by simp
  ultimately have "trade_decisions t w \<noteq> [] \<Longrightarrow> latest_decision t w = Some (last (trade_decisions t w))"
    by (simp add: latest_decision_def)
  then show ?thesis by (cases "trade_decisions t w") (simp_all add: latest_decision_def latest_first_def)
qed

section \<open>A sample environment\<close>

definition sample_compliance :: compliance_env where
  "sample_compliance =
     \<lparr>ce_now = int, ce_uuid = show_nat, ce_db = (\<lambda>_. None), ce_commit_kept = (\<lambda>_. False),
      ce_parse = (\<lambda>s. if s = ''2036-01-01'' then Some 315360000000 else None), ce_column = Some,
      ce_violation = ''refused''\<rparr>"

definition sample_context :: mutation_context where
  "sample_context =
     \<lparr>mc_principal = \<lparr>gp_sessionReference = ''s'', gp_userId = ''u'', gp_walletAddress = ''0xa'', gp_role = ''admin''\<rparr>,
      mc_requestId = ''r'', mc_correlationId = ''c'', mc_routePath = ''/compliance'', mc_idempotencyKey = ''k''\<rparr>"

definition sample_audit_json :: "string \<times> json" where
  "sample_audit_json =
     (''audit'', J_obj [(''reason'', J_str ''reviewed by compliance''), (''ticketRef'', J_str ''T-1''),
        (''evidenceLinks'', J_arr [J_obj [(''kind'', J_str ''ticket''), (''uri'', J_str ''https://t/1'')]])])"

definition sample_decision :: "string \<Rightarrow> string \<Rightarrow> json \<Rightarrow> compliance_request" where
  "sample_decision result reason window =
     Post_decision (J_obj [(''tradeId'', J_str ''7''), (''decisionType'', J_str ''KYT''), (''result'', J_str result),
       (''reasonCode'', J_str reason), (''provider'', J_str ''kyc''), (''providerRef'', J_str ''p-1''),
       (''subjectId'', J_str ''s''), (''subjectType'', J_str ''org''), (''correlationId'', J_str ''cor''),
       (''overrideWindowEndsAt'', window), sample_audit_json]) sample_context"

definition sample_control :: json where
  "sample_control = J_obj [(''reasonCode'', J_str ''CMP_REVIEW''), sample_audit_json]"

definition sample_compliance_requests :: "compliance_request list" where
  "sample_compliance_requests =
     [sample_decision ''DENY'' ''CMP_KYT_FAILED'' J_undefined, Post_block ''7'' sample_control sample_context,
      Post_resume ''7'' sample_control sample_context, sample_decision ''ALLOW'' ''CMP_CLEARED'' J_undefined]"

abbreviation sample_ledger :: compliance_world where
  "sample_ledger \<equiv> compliance_run sample_compliance sample_compliance_requests empty_compliance"

lemma sample_ledger_facts:
  "block_state_of ''7'' sample_ledger = Blocked"
  "map cd_result (cw_decisions sample_ledger) = [DENY, ALLOW]"
  "map cd_tradeId (cw_decisions sample_ledger) = [''7'', ''7'']"
  "map al_status (cw_audit sample_ledger) = [''recorded'', ''blocked'', ''recorded'']"
  "block_state_of ''7'' (state_of (compliance_route sample_compliance (Post_resume ''7'' sample_control sample_context) sample_ledger)) =
     Not_blocked"
  by code_simp+

section \<open>Properties\<close>

text \<open>
  C22: the audit log explains the compliance tables: after any sequence of requests with any failures
  of the database, the decisions are those that the log records, in order, and the block of every
  trade is the one that the log's entries for it lead to; decisions are never changed and within a
  trade each is later than those before it.
\<close>

theorem audit_log_explains_compliance:
  assumes "w = compliance_run env requests empty_compliance"
  shows "recorded_ids (cw_audit w) = map (\<lambda>d. Some (cd_decisionId d)) (cw_decisions w) \<and>
    distinct (map cd_decisionId (cw_decisions w)) \<and>
    (\<forall>t. block_state_of t w = replayed_state t (cw_audit w)) \<and>
    (\<forall>t. sorted_wrt (<) (map cd_decidedAt (trade_decisions t w))) \<and>
    (\<forall>later_requests. prefix (cw_decisions w) (cw_decisions (compliance_run env later_requests w)))"
proof -
  have "prefix (cw_decisions w) (cw_decisions (compliance_run env rs w))" for rs
    using compliance_run_steps [of env w rs]
  proof (induction rule: rtranclp_induct)
    case (step w1 w2)
    have "prefix (cw_decisions w1) (cw_decisions w2)"
      using step(2) by cases (auto simp: same_compliance_def records_decision_def changes_block_def)
    with step(3) show ?case by (rule prefix_order.trans)
  qed simp
  with compliance_inv_run [OF compliance_inv_empty, of env requests] show ?thesis
    unfolding assms compliance_inv_def by blast
qed

theorem audit_log_explains_compliance_witness:
  "replayed_state ''7'' (cw_audit sample_ledger) = Blocked \<and> length (recorded_ids (cw_audit sample_ledger)) = 2"
proof -
  note log = audit_log_explains_compliance [OF refl, of sample_compliance sample_compliance_requests]
  have "length (cw_decisions sample_ledger) = 2" using arg_cong [OF sample_ledger_facts(2), of length] by simp
  then show ?thesis using log sample_ledger_facts(1) by (metis length_map)
qed

text \<open>
  C21: oracle progression is resumed only on the latest \<open>ALLOW\<close>: whatever the request, if it ends the
  block of a trade then the decision recorded last for the trade is \<open>ALLOW\<close>, and an emergency override
  among them has a window that was open when it was checked.
\<close>

theorem progression_resumes_only_on_allow:
  assumes "w = compliance_run env requests empty_compliance"
    and "w' = state_of (compliance_route env request w)"
    and "block_state_of t w \<noteq> Not_blocked" and "block_state_of t w' = Not_blocked"
  shows "trade_decisions t w \<noteq> [] \<and> cd_result (last (trade_decisions t w)) = ALLOW \<and>
    window_open env (last (trade_decisions t w)) w w'"
proof -
  have inv: "compliance_inv w" unfolding assms(1) by (rule compliance_inv_run [OF compliance_inv_empty])
  have "compliance_step env w w'" unfolding assms(2) by (rule compliance_route_step)
  then obtain d where "latest_decision t w = Some d" "cd_result d = ALLOW" "window_open env d w w'"
  proof cases
    case idle
    with assms(3,4) show thesis by (simp add: same_views)
  next
    case decide
    then have "block_state_of t w' = block_state_of t w"
      by (auto simp: records_decision_def block_state_of_def block_of_def)
    with assms(3,4) show thesis by simp
  next
    case rebind
    then obtain b where b: "cw_blocks w' = upsert pb_tradeId (\<lambda>_. b) b (cw_blocks w)"
      and c: "pb_blockState b = Blocked \<or> may_resume env (pb_tradeId b) (pb_latestDecisionId b) w w'"
      by (auto simp: changes_block_def)
    from block_state_upsert [OF b, of t] c assms(3,4) have "may_resume env t (pb_latestDecisionId b) w w'"
      by (auto split: if_splits)
    then show thesis using that by (auto simp: may_resume_def)
  qed
  moreover have "latest_decision t w = (case trade_decisions t w of [] \<Rightarrow> None | _ \<Rightarrow> Some (last (trade_decisions t w)))"
    using inv by (intro last_decision_is_latest) (simp add: compliance_inv_def)
  ultimately show ?thesis by (auto split: list.splits)
qed

theorem progression_resumes_only_on_allow_witness:
  "cd_result (last (trade_decisions ''7'' sample_ledger)) = ALLOW"
proof -
  have "block_state_of ''7'' sample_ledger \<noteq> Not_blocked" using sample_ledger_facts(1) by simp
  from progression_resumes_only_on_allow [OF refl refl this sample_ledger_facts(5)] show ?thesis by blast
qed

text \<open>
  C32: the status of a trade tells the truth: when the reads succeed, the status of a trade shows the
  result and the id of the decision that was recorded last for it, and says blocked exactly when the
  last block entry of the trade in the audit log is a block; a trade without decisions has no status.
\<close>

theorem status_shows_the_last_decision:
  assumes "w = compliance_run env requests empty_compliance"
    and "getTradeStatus env t w = (Inr status, w')"
  shows "(case trade_decisions t w of
      [] \<Rightarrow> status = None
    | _ \<Rightarrow> \<exists>s. status = Some s \<and> tc_latestDecisionId s = cd_decisionId (last (trade_decisions t w)) \<and>
        tc_currentResult s = cd_result (last (trade_decisions t w)) \<and>
        (tc_oracleProgressionBlocked s \<longleftrightarrow> replayed_state t (cw_audit w) = Blocked))"
proof -
  have inv: "compliance_inv w" unfolding assms(1) by (rule compliance_inv_run [OF compliance_inv_empty])
  have last: "latest_decision t w = (case trade_decisions t w of [] \<Rightarrow> None | _ \<Rightarrow> Some (last (trade_decisions t w)))"
    using inv by (intro last_decision_is_latest) (simp add: compliance_inv_def)
  obtain d w1 where d: "getLatestDecision env t w = (Inr d, w1)"
    and rest: "(case d of None \<Rightarrow> ret None
      | Some d \<Rightarrow> bindE (loadBlockState env t) (\<lambda>block. ret (Some (status_of_decision t d block)))) w1 = (Inr status, w')"
    using assms(2) unfolding getTradeStatus_def by (elim bindE_Inr)
  obtain st where st: "d = map_option (\<lambda>d. mapDecisionRow d st) (latest_decision t w)"
    using getLatestDecision_Inr [OF d] by blast
  show ?thesis
  proof (cases "trade_decisions t w")
    case Nil
    with st last rest show ?thesis by (simp add: ret_app)
  next
    case (Cons q qs)
    let ?last = "last (trade_decisions t w)"
    from Cons last have "latest_decision t w = Some ?last" by simp
    with rest st obtain block w2 where block: "loadBlockState env t w1 = (Inr block, w2)"
      and status: "status = Some (status_of_decision t (mapDecisionRow ?last st) block)"
      by (auto simp: ret_app elim!: bindE_Inr)
    have "block_or_none block = block_state_of t w"
      using loaded_state [OF block] same_views(3) [OF same_after [OF keeps_getLatestDecision d]]
      by (cases block; cases "block_of t w") (auto simp: block_state_of_def block_or_none_def)
    also have "\<dots> = replayed_state t (cw_audit w)" using inv by (simp add: compliance_inv_def)
    finally show ?thesis
      using status Cons replayed_not_pending [of t "cw_audit w"] by (simp add: status_of_decision_def blockedFlag_def)
  qed
qed

theorem status_shows_the_last_decision_witness:
  "\<exists>s w'. getTradeStatus sample_compliance ''7'' sample_ledger = (Inr (Some s), w') \<and> tc_currentResult s = ALLOW \<and>
     tc_oracleProgressionBlocked s"
proof -
  have "map_sum id (map_option tc_tradeId) (result_of (getTradeStatus sample_compliance ''7'' sample_ledger)) = Inr (Some ''7'')"
    by code_simp
  then obtain s w' where s: "getTradeStatus sample_compliance ''7'' sample_ledger = (Inr (Some s), w')"
    by (cases "getTradeStatus sample_compliance ''7'' sample_ledger"; cases "fst (getTradeStatus sample_compliance ''7'' sample_ledger)")
      auto
  have ds: "trade_decisions ''7'' sample_ledger = cw_decisions sample_ledger"
    using sample_ledger_facts(3) by (auto simp: trade_decisions_def filter_id_conv map_eq_Cons_conv)
  obtain d0 d1 where two: "cw_decisions sample_ledger = [d0, d1]" "cd_result d1 = ALLOW"
    using sample_ledger_facts(2) by (auto simp: map_eq_Cons_conv)
  have "replayed_state ''7'' (cw_audit sample_ledger) = Blocked"
    using compliance_inv_run [OF compliance_inv_empty] sample_ledger_facts(1) by (metis compliance_inv_def)
  with status_shows_the_last_decision [OF refl s] ds two s show ?thesis by auto
qed

section \<open>What the service leaves open\<close>

text \<open>Recording a \<open>DENY\<close> does not block the trade; a second request must.\<close>

lemma deny_does_not_block:
  "let w = compliance_run sample_compliance [sample_decision ''DENY'' ''CMP_SANCTIONS_MATCH'' J_undefined] empty_compliance
   in (map cd_result (cw_decisions w), block_state_of ''7'' w) = ([DENY], Not_blocked)"
  by code_simp

text \<open>The window of an emergency override may end in ten years.\<close>

lemma override_window_is_unbounded:
  "map (\<lambda>d. (cd_result d, cd_overrideWindowEndsAt d)) (cw_decisions (compliance_run sample_compliance
      [sample_decision ''ALLOW'' CMP_OVERRIDE_ACTIVE (J_str ''2036-01-01'')] empty_compliance)) =
     [(ALLOW, Some ''2036-01-01'')]"
  by code_simp

text \<open>Two decisions whose requests read the latest time before either is stored get the same time.\<close>

lemma concurrent_decisions_share_a_time:
  "let env = sample_compliance\<lparr>ce_now := (\<lambda>_. 5)\<rparr>
   in map_prod id (\<lambda>w. result_of (nextDecisionTimestamp env ''7'' w)) (nextDecisionTimestamp env ''7'' empty_compliance) =
      (Inr 5, Inr 5)"
  by code_simp

end
