(* ===== verification/Auth_Store.thy ===== *)
theory Auth_Store imports Main Effect Js_Text Sql_Table begin

text \<open>
  The data of the authentication service and its stores (\<open>auth/src/types.ts\<close>,
  \<open>core/challengeStore.ts\<close>, \<open>core/profileStore.ts\<close>, \<open>core/sessionStore.ts\<close>, \<open>database/queries.ts\<close>,
  \<open>metrics/counters.ts\<close>).  A clock reading is in milliseconds, the times of sessions are in seconds.
\<close>

section \<open>Data\<close>

datatype user_role = Role_buyer | Role_supplier | Role_admin | Role_oracle

record user_profile =
  up_id :: string
  up_walletAddress :: string
  up_role :: user_role
  up_orgId :: "string option"
  up_createdAt :: int
  up_updatedAt :: int
  up_active :: bool

record user_session =
  us_sessionId :: string
  us_userId :: string
  us_walletAddress :: string
  us_role :: user_role
  us_issuedAt :: int
  us_expiresAt :: int
  us_revokedAt :: "int option"

record session_issue =
  si_sessionId :: string
  si_expiresAt :: int

record auth_counters =
  ac_sessions_issued :: nat
  ac_sessions_refreshed :: nat
  ac_sessions_revoked :: nat
  ac_login_errors :: nat

section \<open>World\<close>

text \<open>
  \<open>ae_uuid\<close>, \<open>ae_nonce\<close> and \<open>ae_token\<close> are \<open>gen_random_uuid\<close> and the two uses of \<open>randomBytes\<close>; \<open>ae_verify\<close> is
  \<open>verifyMessage\<close> of ethers, the address recovered from a message and a signature (\<open>None\<close> for a throw);
  \<open>ae_kept\<close> says whether a statement whose answer was lost took effect.
\<close>

record auth_env =
  ae_now :: "nat \<Rightarrow> int"
  ae_db :: "nat \<Rightarrow> string option"
  ae_kept :: "nat \<Rightarrow> bool"
  ae_violation :: string
  ae_uuid :: "nat \<Rightarrow> string"
  ae_nonce :: "nat \<Rightarrow> string"
  ae_token :: "nat \<Rightarrow> string"
  ae_verify :: "string \<Rightarrow> string \<Rightarrow> string option"
  ae_maxSessionTtlSeconds :: int

record auth_world =
  aw_tick :: nat
  aw_challenges :: "string \<rightharpoonup> string \<times> int"
  aw_profiles :: "user_profile list"
  aw_sessions :: "user_session list"
  aw_counters :: auth_counters

type_synonym 'a auth_eff = "(string, auth_world, 'a) eff"

definition empty_auth :: auth_world where
  "empty_auth = \<lparr>aw_tick = 0, aw_challenges = Map.empty, aw_profiles = [], aw_sessions = [],
     aw_counters = \<lparr>ac_sessions_issued = 0, ac_sessions_refreshed = 0, ac_sessions_revoked = 0, ac_login_errors = 0\<rparr>\<rparr>"

definition atick :: "auth_world \<Rightarrow> auth_world" where
  "atick w = w\<lparr>aw_tick := Suc (aw_tick w)\<rparr>"

definition aask :: "(nat \<Rightarrow> 'a) \<Rightarrow> 'a auth_eff" where
  "aask f w = (Inr (f (aw_tick w)), atick w)"

definition aquery :: "auth_env \<Rightarrow> 'a auth_eff \<Rightarrow> 'a auth_eff" where
  "aquery env stmt w =
     (case ae_db env (aw_tick w) of
        None \<Rightarrow> stmt (atick w)
      | Some m \<Rightarrow> (Inl m, if ae_kept env (aw_tick w) then state_of (stmt (atick w)) else atick w))"

definition bump :: "(auth_counters \<Rightarrow> auth_counters) \<Rightarrow> unit auth_eff" where
  "bump f = change (\<lambda>w. w\<lparr>aw_counters := f (aw_counters w)\<rparr>)"

definition incrementSessionIssued :: "unit auth_eff" where
  "incrementSessionIssued = bump (\<lambda>c. c\<lparr>ac_sessions_issued := ac_sessions_issued c + 1\<rparr>)"

definition incrementSessionRefreshed :: "unit auth_eff" where
  "incrementSessionRefreshed = bump (\<lambda>c. c\<lparr>ac_sessions_refreshed := ac_sessions_refreshed c + 1\<rparr>)"

definition incrementSessionRevoked :: "unit auth_eff" where
  "incrementSessionRevoked = bump (\<lambda>c. c\<lparr>ac_sessions_revoked := ac_sessions_revoked c + 1\<rparr>)"

definition incrementLoginError :: "unit auth_eff" where
  "incrementLoginError = bump (\<lambda>c. c\<lparr>ac_login_errors := ac_login_errors c + 1\<rparr>)"

section \<open>Challenges\<close>

definition challenge_set :: "auth_env \<Rightarrow> string \<Rightarrow> string \<Rightarrow> int \<Rightarrow> unit auth_eff" where
  "challenge_set env wallet nonce ttlSeconds =
     bindE (aask (ae_now env)) (\<lambda>now.
       change (\<lambda>w. w\<lparr>aw_challenges := (aw_challenges w)(to_lower wallet \<mapsto> (nonce, now + ttlSeconds * 1000))\<rparr>))"

definition challenge_delete :: "string \<Rightarrow> unit auth_eff" where
  "challenge_delete wallet = change (\<lambda>w. w\<lparr>aw_challenges := (aw_challenges w)(to_lower wallet := None)\<rparr>)"

definition challenge_get :: "auth_env \<Rightarrow> string \<Rightarrow> string option auth_eff" where
  "challenge_get env wallet =
     bindE (asks (\<lambda>w. aw_challenges w (to_lower wallet))) (\<lambda>entry.
       case entry of
         None \<Rightarrow> ret None
       | Some (nonce, expiresAt) \<Rightarrow>
           bindE (aask (ae_now env)) (\<lambda>now.
             if expiresAt \<le> now then seqE (challenge_delete wallet) (ret None) else ret (Some nonce)))"

text \<open>The timer that purges the map.\<close>

definition purge_challenges :: "auth_env \<Rightarrow> unit auth_eff" where
  "purge_challenges env =
     bindE (aask (ae_now env)) (\<lambda>now.
       change (\<lambda>w. w\<lparr>aw_challenges := (\<lambda>k. case aw_challenges w k of
           None \<Rightarrow> None
         | Some (nonce, expiresAt) \<Rightarrow> if expiresAt \<le> now then None else Some (nonce, expiresAt))\<rparr>))"

section \<open>Profiles\<close>

definition new_profile :: "string \<Rightarrow> string \<Rightarrow> user_role \<Rightarrow> string option \<Rightarrow> int \<Rightarrow> user_profile" where
  "new_profile profileId walletAddress role orgId now =
     \<lparr>up_id = profileId, up_walletAddress = walletAddress, up_role = role, up_orgId = orgId, up_createdAt = now,
      up_updatedAt = now, up_active = True\<rparr>"

text \<open>The statement \<open>INSERT ... ON CONFLICT (wallet_address) DO UPDATE ... RETURNING\<close>.\<close>

definition upsert_profile_row :: "auth_env \<Rightarrow> string \<Rightarrow> user_role \<Rightarrow> string option \<Rightarrow> user_profile auth_eff" where
  "upsert_profile_row env walletAddress role orgId w =
     (let now = ae_now env (aw_tick w); fresh = new_profile (ae_uuid env (aw_tick w)) walletAddress role orgId now
      in case row_by up_walletAddress walletAddress (aw_profiles w) of
           Some q \<Rightarrow>
             (let p = q\<lparr>up_role := role, up_orgId := (case orgId of None \<Rightarrow> up_orgId q | Some s \<Rightarrow> Some s), up_updatedAt := now\<rparr>
              in (Inr p, w\<lparr>aw_profiles := update_where (\<lambda>r. up_walletAddress r = walletAddress) (\<lambda>_. p) (aw_profiles w)\<rparr>))
         | None \<Rightarrow>
             if up_id fresh \<in> up_id ` set (aw_profiles w) then (Inl (ae_violation env), w)
             else (Inr fresh, w\<lparr>aw_profiles := aw_profiles w @ [fresh]\<rparr>))"

definition upsertProfile :: "auth_env \<Rightarrow> string \<Rightarrow> user_role \<Rightarrow> string option \<Rightarrow> user_profile auth_eff" where
  "upsertProfile env walletAddress role orgId = aquery env (upsert_profile_row env walletAddress role orgId)"

definition findProfileByWallet :: "auth_env \<Rightarrow> string \<Rightarrow> user_profile option auth_eff" where
  "findProfileByWallet env walletAddress = aquery env (asks (\<lambda>w. row_by up_walletAddress walletAddress (aw_profiles w)))"

definition findProfileById :: "auth_env \<Rightarrow> string \<Rightarrow> user_profile option auth_eff" where
  "findProfileById env profileId = aquery env (asks (\<lambda>w. row_by up_id profileId (aw_profiles w)))"

definition deactivateProfile :: "auth_env \<Rightarrow> string \<Rightarrow> unit auth_eff" where
  "deactivateProfile env profileId =
     aquery env (change (\<lambda>w. w\<lparr>aw_profiles := update_where (\<lambda>p. up_id p = profileId)
       (\<lambda>p. p\<lparr>up_active := False, up_updatedAt := ae_now env (aw_tick w)\<rparr>) (aw_profiles w)\<rparr>))"

section \<open>Sessions\<close>

definition int64 :: "int \<Rightarrow> bool" where
  "int64 i \<longleftrightarrow> - 9223372036854775808 \<le> i \<and> i \<le> 9223372036854775807"

definition nowSeconds :: "auth_env \<Rightarrow> int auth_eff" where
  "nowSeconds env = bindE (aask (ae_now env)) (\<lambda>now. ret (now div 1000))"

text \<open>A \<open>BIGINT\<close> column comes back as a text of digits.\<close>

definition parseSessionEpoch :: "int \<Rightarrow> string \<Rightarrow> string + int" where
  "parseSessionEpoch v field =
     (if 0 \<le> v \<and> v \<le> 9007199254740991 then Inr v
      else Inl (''Invalid '' @ field @ '' session timestamp returned from database''))"

definition normalizeSessionRow :: "user_session \<Rightarrow> string + user_session" where
  "normalizeSessionRow row =
     (case parseSessionEpoch (us_issuedAt row) ''issuedAt'' of
        Inl e \<Rightarrow> Inl e
      | Inr i \<Rightarrow>
          (case parseSessionEpoch (us_expiresAt row) ''expiresAt'' of
             Inl e \<Rightarrow> Inl e
           | Inr x \<Rightarrow>
               (case us_revokedAt row of
                  None \<Rightarrow> Inr row
                | Some v \<Rightarrow> (case parseSessionEpoch v ''revokedAt'' of Inl e \<Rightarrow> Inl e | Inr r \<Rightarrow> Inr row))))"

text \<open>\<open>expiresAt\<close> is \<open>None\<close> when it is not an integer, which the column refuses.\<close>

definition new_session :: "string \<Rightarrow> user_profile \<Rightarrow> int \<Rightarrow> int \<Rightarrow> user_session" where
  "new_session sessionId profile now expiresAt =
     \<lparr>us_sessionId = sessionId, us_userId = up_id profile, us_walletAddress = up_walletAddress profile,
      us_role = up_role profile, us_issuedAt = now, us_expiresAt = expiresAt, us_revokedAt = None\<rparr>"

definition insert_session_row :: "auth_env \<Rightarrow> string \<Rightarrow> user_profile \<Rightarrow> int \<Rightarrow> int option \<Rightarrow> unit auth_eff" where
  "insert_session_row env sessionId profile now expiresAt w =
     (case expiresAt of
        None \<Rightarrow> (Inl (ae_violation env), w)
      | Some t \<Rightarrow>
          if sessionId \<in> us_sessionId ` set (aw_sessions w) \<or> up_id profile \<notin> up_id ` set (aw_profiles w) \<or>
            \<not> int64 now \<or> \<not> int64 t
          then (Inl (ae_violation env), w)
          else (Inr (), w\<lparr>aw_sessions := aw_sessions w @ [new_session sessionId profile now t]\<rparr>))"

definition insertSession :: "auth_env \<Rightarrow> string \<Rightarrow> user_profile \<Rightarrow> int option \<Rightarrow> unit auth_eff" where
  "insertSession env sessionId profile expiresAt =
     bindE (nowSeconds env) (\<lambda>now. aquery env (insert_session_row env sessionId profile now expiresAt))"

definition findSessionById :: "auth_env \<Rightarrow> string \<Rightarrow> user_session option auth_eff" where
  "findSessionById env sessionId =
     bindE (aquery env (asks (\<lambda>w. row_by us_sessionId sessionId (aw_sessions w)))) (\<lambda>row.
       case row of
         None \<Rightarrow> ret None
       | Some r \<Rightarrow> bindE (lift (normalizeSessionRow r)) (\<lambda>s. ret (Some s)))"

definition revokeSession :: "auth_env \<Rightarrow> string \<Rightarrow> unit auth_eff" where
  "revokeSession env sessionId =
     bindE (nowSeconds env) (\<lambda>now.
       aquery env (change (\<lambda>w. w\<lparr>aw_sessions := update_where (\<lambda>s. us_sessionId s = sessionId)
         (\<lambda>s. s\<lparr>us_revokedAt := Some now\<rparr>) (aw_sessions w)\<rparr>)))"

definition pruneExpiredSessions :: "auth_env \<Rightarrow> unit auth_eff" where
  "pruneExpiredSessions env =
     bindE (nowSeconds env) (\<lambda>now.
       aquery env (change (\<lambda>w. w\<lparr>aw_sessions := filter (\<lambda>s. \<not> us_expiresAt s \<le> now) (aw_sessions w)\<rparr>)))"

text \<open>\<open>ttlSeconds\<close> is \<open>None\<close> for a number that is not an integer.\<close>

definition session_issue_for :: "auth_env \<Rightarrow> user_profile \<Rightarrow> int option \<Rightarrow> session_issue auth_eff" where
  "session_issue_for env profile ttlSeconds =
     bindE (aask (ae_token env)) (\<lambda>sessionId.
     bindE (nowSeconds env) (\<lambda>now.
       (let expiresAt = map_option (\<lambda>t. now + t) ttlSeconds
        in seqE (insertSession env sessionId profile expiresAt)
             (ret \<lparr>si_sessionId = sessionId, si_expiresAt = the expiresAt\<rparr>))))"

end
