(* ===== verification/Auth_Service.thy ===== *)
theory Auth_Service imports Main Auth_Store begin

text \<open>
  The session service, the session middleware, the controller and the routes of the authentication
  service (\<open>auth/src/core/sessionService.ts\<close>, \<open>middleware/middleware.ts\<close>, \<open>api/controller.ts\<close>,
  \<open>api/routes.ts\<close>).  An answer is its status and its body without the timestamp; the fields of a
  body are texts or absent.
\<close>

section \<open>Sessions\<close>

definition resolveActive :: "auth_env \<Rightarrow> string \<Rightarrow> user_session option auth_eff" where
  "resolveActive env sessionId =
     bindE (findSessionById env sessionId) (\<lambda>found.
       case found of
         None \<Rightarrow> ret None
       | Some session \<Rightarrow>
           if us_revokedAt session \<noteq> None then ret None
           else bindE (nowSeconds env) (\<lambda>now.
             if us_expiresAt session \<le> now then ret None else ret (Some session)))"

text \<open>
  The time to live after the controller's cap: absent, an integer, or \<open>None\<close> in \<open>Some None\<close> for a number
  that is not one.
\<close>

definition login_session ::
  "auth_env \<Rightarrow> string \<Rightarrow> user_role \<Rightarrow> string option \<Rightarrow> int option option \<Rightarrow> session_issue auth_eff" where
  "login_session env walletAddress role orgId ttl =
     (let ttlSeconds = (case ttl of None \<Rightarrow> Some 3600 | Some t \<Rightarrow> t); normalized = to_lower walletAddress
      in bindE (upsertProfile env (to_lower normalized) role orgId) (\<lambda>profile.
           if \<not> up_active profile then throw ''User profile is deactivated''
           else bindE (session_issue_for env profile ttlSeconds) (\<lambda>result.
             seqE incrementSessionIssued (ret result))))"

definition refresh_profile ::
  "auth_env \<Rightarrow> string \<Rightarrow> int option option \<Rightarrow> user_profile option \<Rightarrow> session_issue auth_eff" where
  "refresh_profile env sessionId ttl found =
     (case found of
        None \<Rightarrow> throw ''User profile is inactive or not found''
      | Some profile \<Rightarrow>
          if \<not> up_active profile then throw ''User profile is inactive or not found''
          else
            bindE (session_issue_for env profile (case ttl of None \<Rightarrow> Some 3600 | Some t \<Rightarrow> t)) (\<lambda>result.
            seqE (revokeSession env sessionId)
            (seqE incrementSessionRefreshed (ret result))))"

definition refresh_session :: "auth_env \<Rightarrow> string \<Rightarrow> int option option \<Rightarrow> session_issue auth_eff" where
  "refresh_session env sessionId ttl =
     bindE (resolveActive env sessionId) (\<lambda>existing.
       case existing of
         None \<Rightarrow> throw ''Session is invalid, expired, or revoked''
       | Some session \<Rightarrow> bindE (findProfileById env (us_userId session)) (refresh_profile env sessionId ttl))"

definition revoke_session :: "auth_env \<Rightarrow> string \<Rightarrow> unit auth_eff" where
  "revoke_session env sessionId = seqE (revokeSession env sessionId) incrementSessionRevoked"

section \<open>Answers\<close>

datatype auth_body =
    Auth_error string string
  | Auth_challenge string int
  | Auth_issued session_issue
  | Auth_revoked
  | Auth_session string string user_role int int
  | Auth_health
  | Auth_ready

record auth_answer =
  aa_status :: int
  aa_body :: auth_body

definition refuse :: "int \<Rightarrow> string \<Rightarrow> string \<Rightarrow> auth_answer" where
  "refuse status err message = \<lparr>aa_status = status, aa_body = Auth_error err message\<rparr>"

definition accept :: "int \<Rightarrow> auth_body \<Rightarrow> auth_answer" where
  "accept status data = \<lparr>aa_status = status, aa_body = data\<rparr>"

section \<open>Middleware\<close>

definition session_middleware ::
  "auth_env \<Rightarrow> string option \<Rightarrow> (user_session \<Rightarrow> auth_answer auth_eff) \<Rightarrow> auth_answer auth_eff" where
  "session_middleware env authHeader handler =
     (case authHeader of
        None \<Rightarrow> ret (refuse 401 ''Unauthorized'' ''Missing or malformed Authorization header'')
      | Some h \<Rightarrow>
          if \<not> starts_with h ''Bearer '' then ret (refuse 401 ''Unauthorized'' ''Missing or malformed Authorization header'')
          else (let sessionId = trim (drop 7 h)
                in if sessionId = [] then ret (refuse 401 ''Unauthorized'' ''Empty session token'')
                   else bindE (catchE (resolveActive env sessionId) (\<lambda>_. ret None)) (\<lambda>session.
                     case session of
                       None \<Rightarrow> ret (refuse 401 ''Unauthorized'' ''Session invalid, expired, or revoked'')
                     | Some s \<Rightarrow> handler s)))"

fun role_text :: "user_role \<Rightarrow> string" where
  "role_text Role_buyer = ''buyer''"
| "role_text Role_supplier = ''supplier''"
| "role_text Role_admin = ''admin''"
| "role_text Role_oracle = ''oracle''"

definition requireRole :: "string list \<Rightarrow> user_session option \<Rightarrow> auth_answer + unit" where
  "requireRole roles session =
     (case session of
        None \<Rightarrow> Inl (refuse 403 ''Forbidden'' (''Role '' @ [CHR 0x27] @ ''unknown'' @ [CHR 0x27] @ '' is not permitted''))
      | Some s \<Rightarrow>
          if role_text (us_role s) \<notin> set roles
          then Inl (refuse 403 ''Forbidden'' (''Role '' @ [CHR 0x27] @ role_text (us_role s) @ [CHR 0x27] @ '' is not permitted''))
          else Inr ())"

definition errorHandler :: "string \<Rightarrow> auth_answer" where
  "errorHandler err = refuse 500 ''InternalServerError'' ''An unexpected error occurred''"

section \<open>Controller\<close>

abbreviation challenge_ttl_seconds :: int where
  "challenge_ttl_seconds \<equiv> 300"

text \<open>\<open>/^0x[0-9a-f]{40}$/i\<close>\<close>

definition wallet_regex :: "string \<Rightarrow> bool" where
  "wallet_regex s \<longleftrightarrow>
     length s = 42 \<and> s ! 0 = CHR ''0'' \<and> (s ! 1 = CHR ''x'' \<or> s ! 1 = CHR ''X'') \<and> list_all is_hex (drop 2 s)"

definition valid_role :: "string \<Rightarrow> user_role option" where
  "valid_role s =
     (if s = ''buyer'' then Some Role_buyer
      else if s = ''supplier'' then Some Role_supplier
      else if s = ''admin'' then Some Role_admin
      else None)"

definition buildChallengeMessage :: "string \<Rightarrow> string \<Rightarrow> string" where
  "buildChallengeMessage wallet nonce =
     ''Sign in to Agroasys'' @ [CHR 0x0A] @ ''Wallet: '' @ wallet @ [CHR 0x0A] @ ''Nonce: '' @ nonce"

text \<open>
  The number that \<open>ttlSeconds\<close> converts to: an integer; a fraction between \<open>n\<close> and \<open>n + 1\<close>, with the
  end that its sum with the clock rounds to when that sum is an integer; or \<open>NaN\<close>.
\<close>

datatype ttl_number = Ttl_integer int | Ttl_fraction int "bool option" | Ttl_nan

definition cap_ttl :: "int \<Rightarrow> ttl_number \<Rightarrow> int option" where
  "cap_ttl maxSessionTtlSeconds t =
     (case t of
        Ttl_integer n \<Rightarrow> Some (max 1 (min n maxSessionTtlSeconds))
      | Ttl_fraction n rounded \<Rightarrow>
          if maxSessionTtlSeconds \<le> n then Some (max 1 maxSessionTtlSeconds)
          else if n < 1 then Some 1
          else map_option (\<lambda>up. if up then n + 1 else n) rounded
      | Ttl_nan \<Rightarrow> None)"

record login_body =
  lb_walletAddress :: "string option"
  lb_signature :: "string option"
  lb_role :: "string option"
  lb_orgId :: "string option"
  lb_ttlSeconds :: "ttl_number option"

definition getChallenge :: "auth_env \<Rightarrow> string option \<Rightarrow> auth_answer auth_eff" where
  "getChallenge env walletQuery =
     (let wallet = to_lower (or_else walletQuery [])
      in if wallet = [] \<or> \<not> wallet_regex wallet
         then ret (refuse 400 ''BadRequest'' ''Valid wallet address required (?wallet=0x...)'')
         else bindE (aask (ae_nonce env)) (\<lambda>nonce.
              seqE (challenge_set env wallet nonce challenge_ttl_seconds)
                (ret (accept 200 (Auth_challenge (buildChallengeMessage wallet nonce) challenge_ttl_seconds)))))"

text \<open>The part of \<open>login\<close> after the signature has been verified.\<close>

definition issue_login ::
  "auth_env \<Rightarrow> string \<Rightarrow> user_role \<Rightarrow> string option \<Rightarrow> ttl_number option \<Rightarrow> auth_answer auth_eff" where
  "issue_login env wallet role orgId ttl =
     seqE (challenge_delete wallet)
       (let safeTtl = map_option (cap_ttl (ae_maxSessionTtlSeconds env)) ttl
        in catchE
             (bindE (login_session env wallet role orgId safeTtl) (\<lambda>result. ret (accept 201 (Auth_issued result))))
             (\<lambda>err. seqE incrementLoginError (ret (refuse 403 ''Forbidden'' err))))"

definition verify_login ::
  "auth_env \<Rightarrow> string \<Rightarrow> string \<Rightarrow> string \<Rightarrow> auth_answer auth_eff \<Rightarrow> auth_answer auth_eff" where
  "verify_login env wallet nonce signature issue =
     (case ae_verify env (buildChallengeMessage wallet nonce) signature of
        None \<Rightarrow> seqE incrementLoginError (ret (refuse 401 ''Unauthorized'' ''Invalid signature format''))
      | Some recovered \<Rightarrow>
          if to_lower recovered \<noteq> wallet
          then seqE incrementLoginError (ret (refuse 401 ''Unauthorized'' ''Signature verification failed''))
          else issue)"

definition login :: "auth_env \<Rightarrow> login_body \<Rightarrow> auth_answer auth_eff" where
  "login env b =
     (case lb_walletAddress b of
        None \<Rightarrow> ret (refuse 400 ''BadRequest'' ''Valid walletAddress is required'')
      | Some walletAddress \<Rightarrow>
          if walletAddress = [] \<or> \<not> wallet_regex walletAddress
          then ret (refuse 400 ''BadRequest'' ''Valid walletAddress is required'')
          else if or_else (lb_signature b) [] = []
          then ret (refuse 400 ''BadRequest'' ''signature is required - call GET /challenge first'')
          else (case valid_role (or_else (lb_role b) []) of
             None \<Rightarrow> ret (refuse 400 ''BadRequest'' ''role must be one of: buyer, supplier, admin'')
           | Some role \<Rightarrow>
               (let wallet = to_lower walletAddress
                in bindE (challenge_get env wallet) (\<lambda>nonce.
                     if or_else nonce [] = []
                     then ret (refuse 401 ''Unauthorized'' ''No active challenge for this wallet. Call GET /challenge first.'')
                     else verify_login env wallet (or_else nonce []) (or_else (lb_signature b) [])
                            (issue_login env wallet role (lb_orgId b) (lb_ttlSeconds b))))))"

definition refresh_handler :: "auth_env \<Rightarrow> user_session \<Rightarrow> auth_answer auth_eff" where
  "refresh_handler env session =
     catchE
       (bindE (refresh_session env (us_sessionId session) None) (\<lambda>result. ret (accept 200 (Auth_issued result))))
       (\<lambda>err. ret (refuse 401 ''Unauthorized'' err))"

definition revoke_handler :: "auth_env \<Rightarrow> user_session \<Rightarrow> auth_answer auth_eff" where
  "revoke_handler env session = seqE (revoke_session env (us_sessionId session)) (ret (accept 200 Auth_revoked))"

definition getSession :: "user_session \<Rightarrow> auth_answer auth_eff" where
  "getSession session =
     ret (accept 200 (Auth_session (us_userId session) (us_walletAddress session) (us_role session)
       (us_issuedAt session) (us_expiresAt session)))"

section \<open>Routes\<close>

datatype auth_request =
    Get_health
  | Get_ready
  | Get_challenge "string option"
  | Post_login login_body
  | Get_session "string option"
  | Post_refresh "string option"
  | Post_revoke "string option"

definition auth_route :: "auth_env \<Rightarrow> auth_request \<Rightarrow> auth_answer auth_eff" where
  "auth_route env req =
     (case req of
        Get_health \<Rightarrow> ret (accept 200 Auth_health)
      | Get_ready \<Rightarrow> ret (accept 200 Auth_ready)
      | Get_challenge wallet \<Rightarrow> getChallenge env wallet
      | Post_login b \<Rightarrow> login env b
      | Get_session h \<Rightarrow> session_middleware env h getSession
      | Post_refresh h \<Rightarrow> session_middleware env h (refresh_handler env)
      | Post_revoke h \<Rightarrow> session_middleware env h (revoke_handler env))"

text \<open>A throw goes to the error handler; the answer comes with the world after the request.\<close>

definition serve_auth :: "auth_env \<Rightarrow> auth_request \<Rightarrow> auth_world \<Rightarrow> auth_answer \<times> auth_world" where
  "serve_auth env req w =
     (case auth_route env req w of (Inl e, w') \<Rightarrow> (errorHandler e, w') | (Inr a, w') \<Rightarrow> (a, w'))"

text \<open>
  What happens to a running service: a request, the timer of the challenge store, a restart, which
  empties the challenges and the counters, and the deactivation of a profile.
\<close>

datatype auth_event =
    Auth_serve auth_request
  | Auth_purge
  | Auth_restart
  | Auth_deactivate string

definition auth_event :: "auth_env \<Rightarrow> auth_event \<Rightarrow> auth_world \<Rightarrow> auth_answer option \<times> auth_world" where
  "auth_event env ev w =
     (case ev of
        Auth_serve req \<Rightarrow> (case serve_auth env req w of (a, w') \<Rightarrow> (Some a, w'))
      | Auth_purge \<Rightarrow> (None, state_of (purge_challenges env w))
      | Auth_restart \<Rightarrow> (None, w\<lparr>aw_challenges := Map.empty, aw_counters := aw_counters empty_auth\<rparr>)
      | Auth_deactivate profileId \<Rightarrow> (None, state_of (deactivateProfile env profileId w)))"

text \<open>A run: the events in order, each with its answer.\<close>

fun auth_run :: "auth_env \<Rightarrow> auth_event list \<Rightarrow> auth_world \<Rightarrow> (auth_event \<times> auth_answer option) list \<times> auth_world" where
  "auth_run env [] w = ([], w)"
| "auth_run env (ev # evs) w =
     (case auth_event env ev w of (a, w') \<Rightarrow>
        (case auth_run env evs w' of (tr, w'') \<Rightarrow> ((ev, a) # tr, w'')))"

end
