(* ===== verification/Auth_Facts.thy ===== *)
theory Auth_Facts imports Main Auth_Service begin

text \<open>
  What the statements and the handlers of the authentication service do to its state: the tables and
  the challenges each leaves alone, and the invariants that every request keeps.
\<close>

section \<open>Statements and clock readings\<close>

lemma aask_app: "aask f w = (Inr (f (aw_tick w)), atick w)"
  by (simp add: aask_def)

lemma atick_sel [simp]:
  "aw_challenges (atick w) = aw_challenges w" "aw_profiles (atick w) = aw_profiles w"
  "aw_sessions (atick w) = aw_sessions w" "aw_tick (atick w) = Suc (aw_tick w)"
  by (simp_all add: atick_def)

lemma keeps_aask: "(\<And>w. P w \<Longrightarrow> P (atick w)) \<Longrightarrow> keeps P (aask f)"
  by (simp add: keeps_def aask_app)

lemma keeps_nowSeconds: "(\<And>w. P w \<Longrightarrow> P (atick w)) \<Longrightarrow> keeps P (nowSeconds env)"
  unfolding nowSeconds_def by (intro keeps_rules keeps_aask) simp_all

lemma keeps_aquery: "(\<And>w. P w \<Longrightarrow> P (atick w)) \<Longrightarrow> keeps P stmt \<Longrightarrow> keeps P (aquery env stmt)"
  by (auto simp: keeps_def aquery_def split: option.splits)

text \<open>A predicate of the tables and the challenges only.\<close>

definition on_tables :: "((string \<rightharpoonup> string \<times> int) \<Rightarrow> user_profile list \<Rightarrow> user_session list \<Rightarrow> bool) \<Rightarrow> auth_world \<Rightarrow> bool" where
  "on_tables Q w = Q (aw_challenges w) (aw_profiles w) (aw_sessions w)"

lemma on_tables_atick [simp]: "on_tables Q (atick w) = on_tables Q w"
  by (simp add: on_tables_def)

lemma keeps_auth_counters:
  "keeps (on_tables Q) incrementSessionIssued" "keeps (on_tables Q) incrementSessionRefreshed"
  "keeps (on_tables Q) incrementSessionRevoked" "keeps (on_tables Q) incrementLoginError"
  by (simp_all add: incrementSessionIssued_def incrementSessionRefreshed_def incrementSessionRevoked_def
      incrementLoginError_def bump_def keeps_def change_app on_tables_def)

lemma keeps_reads:
  "keeps (on_tables Q) (findSessionById env sid)" "keeps (on_tables Q) (findProfileById env pid)"
  "keeps (on_tables Q) (resolveActive env sid)"
proof -
  show f: "keeps (on_tables Q) (findSessionById env sid)"
    unfolding findSessionById_def by (intro keeps_rules keeps_aquery) simp_all
  show "keeps (on_tables Q) (findProfileById env pid)"
    unfolding findProfileById_def by (intro keeps_rules keeps_aquery) simp_all
  show "keeps (on_tables Q) (resolveActive env sid)"
    unfolding resolveActive_def by (intro keeps_rules f keeps_nowSeconds) simp_all
qed

section \<open>The contract of the tables\<close>

text \<open>The times of a new session, from two readings of the clock.\<close>

definition session_limit :: "auth_env \<Rightarrow> int" where
  "session_limit env = max 3600 (max 1 (ae_maxSessionTtlSeconds env))"

definition dated :: "auth_env \<Rightarrow> user_session \<Rightarrow> bool" where
  "dated env s \<longleftrightarrow> (\<exists>t t' ttl. t \<le> t' \<and> ttl \<le> session_limit env \<and>
     us_expiresAt s = ae_now env t div 1000 + ttl \<and> us_issuedAt s = ae_now env t' div 1000)"

text \<open>
  What an invariant of the service has to allow: the writes of the profile and session tables.  \<open>may\<close> says
  for which wallets and roles a login is under way.
\<close>

locale auth_tables =
  fixes env :: auth_env
    and Q :: "(string \<rightharpoonup> string \<times> int) \<Rightarrow> user_profile list \<Rightarrow> user_session list \<Rightarrow> bool"
    and may :: "string \<Rightarrow> user_role \<Rightarrow> bool"
  assumes create: "Q ch ps ss \<Longrightarrow> may (up_walletAddress p) (up_role p) \<Longrightarrow> up_id p \<notin> up_id ` set ps \<Longrightarrow>
      up_walletAddress p \<notin> up_walletAddress ` set ps \<Longrightarrow> Q ch (ps @ [p]) ss"
    and change_role: "Q ch ps ss \<Longrightarrow> may (up_walletAddress p) (up_role p) \<Longrightarrow> q \<in> set ps \<Longrightarrow> up_id p = up_id q \<Longrightarrow>
      up_walletAddress p = up_walletAddress q \<Longrightarrow>
      Q ch (update_where (\<lambda>x. up_walletAddress x = up_walletAddress p) (\<lambda>_. p) ps) ss"
    and open_session: "Q ch ps ss \<Longrightarrow> p \<in> set ps \<Longrightarrow> us_userId s = up_id p \<Longrightarrow> us_walletAddress s = up_walletAddress p \<Longrightarrow>
      us_role s = up_role p \<Longrightarrow> us_sessionId s \<notin> us_sessionId ` set ss \<Longrightarrow> dated env s \<Longrightarrow> Q ch ps (ss @ [s])"
    and close_session: "Q ch ps ss \<Longrightarrow>
      Q ch ps (update_where (\<lambda>s. us_sessionId s = sid) (\<lambda>s. s\<lparr>us_revokedAt := Some t\<rparr>) ss)"
begin

abbreviation inv :: "auth_world \<Rightarrow> bool" where
  "inv \<equiv> on_tables Q"

lemma triple_aquery:
  assumes "triple inv stmt R" and "\<And>r w. R r w \<Longrightarrow> inv w" and "\<And>m w. inv w \<Longrightarrow> R (Inl m) w"
  shows "triple inv (aquery env stmt) R"
proof (rule tripleI)
  fix w assume "inv w"
  then have "inv (atick w)" by simp
  with assms(1) have R: "R (result_of (stmt (atick w))) (state_of (stmt (atick w)))" by (rule tripleD)
  show "R (result_of (aquery env stmt w)) (state_of (aquery env stmt w))"
    using R assms(2) [OF R] assms(3) [OF \<open>inv (atick w)\<close>] assms(3)
    by (auto simp: aquery_def split: option.splits)
qed

lemma upsert_triple:
  assumes "may wal r"
  shows "triple inv (upsertProfile env wal r org) (\<lambda>res w. inv w \<and> (\<forall>p. res = Inr p \<longrightarrow> p \<in> set (aw_profiles w)))"
  unfolding upsertProfile_def
proof (rule triple_aquery)
  show "triple inv (upsert_profile_row env wal r org) (\<lambda>res w. inv w \<and> (\<forall>p. res = Inr p \<longrightarrow> p \<in> set (aw_profiles w)))"
  proof (rule tripleI)
    fix w assume w: "inv w"
    let ?m = "upsert_profile_row env wal r org w"
    show "inv (state_of ?m) \<and> (\<forall>p. result_of ?m = Inr p \<longrightarrow> p \<in> set (aw_profiles (state_of ?m)))"
    proof (cases "row_by up_walletAddress wal (aw_profiles w)")
      case None
      then have "wal \<notin> up_walletAddress ` set (aw_profiles w)" by (simp add: row_by_None)
      with None w assms show ?thesis
        by (auto simp: upsert_profile_row_def Let_def on_tables_def new_profile_def intro!: create)
    next
      case (Some q)
      then have q: "q \<in> set (aw_profiles w)" "up_walletAddress q = wal" by (auto dest: row_by_Some)
      define p where "p = q\<lparr>up_role := r, up_orgId := (case org of None \<Rightarrow> up_orgId q | Some s \<Rightarrow> Some s),
        up_updatedAt := ae_now env (aw_tick w)\<rparr>"
      have m: "?m = (Inr p, w\<lparr>aw_profiles := update_where (\<lambda>x. up_walletAddress x = wal) (\<lambda>_. p) (aw_profiles w)\<rparr>)"
        using Some by (simp add: upsert_profile_row_def Let_def p_def)
      have "Q (aw_challenges w) (update_where (\<lambda>x. up_walletAddress x = up_walletAddress p) (\<lambda>_. p) (aw_profiles w)) (aw_sessions w)"
        using w q assms by (intro change_role [of _ _ _ _ q]) (simp_all add: on_tables_def p_def)
      with q show ?thesis by (auto simp: m on_tables_def p_def set_update_where)
    qed
  qed
qed auto

lemma issue_triple:
  assumes "\<And>t. ttl = Some t \<Longrightarrow> t \<le> session_limit env"
  shows "triple (\<lambda>w. inv w \<and> p \<in> set (aw_profiles w)) (session_issue_for env p ttl) (\<lambda>_. inv)"
proof (rule tripleI)
  fix w assume w: "inv w \<and> p \<in> set (aw_profiles w)"
  let ?t = "aw_tick w"
  have "inv (state_of (insert_session_row env sid p (ae_now env t' div 1000) (map_option (\<lambda>s. ae_now env (Suc ?t) div 1000 + s) ttl) v))"
    if "inv v" "p \<in> set (aw_profiles v)" "Suc ?t \<le> t'" for v sid t'
  proof (cases ttl)
    case None
    with that show ?thesis by (simp add: insert_session_row_def)
  next
    case (Some s)
    let ?s = "new_session sid p (ae_now env t' div 1000) (ae_now env (Suc ?t) div 1000 + s)"
    have "dated env ?s"
      using that(3) assms [OF Some] by (auto simp: dated_def new_session_def)
    then have "Q (aw_challenges v) (aw_profiles v) (aw_sessions v @ [?s])" if "sid \<notin> us_sessionId ` set (aw_sessions v)"
      using that \<open>inv v\<close> \<open>p \<in> set (aw_profiles v)\<close>
      by (intro open_session [of _ _ _ p]) (simp_all add: on_tables_def new_session_def)
    with that Some show ?thesis by (auto simp: insert_session_row_def on_tables_def)
  qed
  note row = this
  let ?v = "atick (atick (atick w))"
  let ?stmt = "insert_session_row env (ae_token env ?t) p (ae_now env (Suc (Suc ?t)) div 1000)
    (map_option (\<lambda>s. ae_now env (Suc ?t) div 1000 + s) ttl)"
  obtain r v' where q: "aquery env ?stmt ?v = (r, v')" by (cases "aquery env ?stmt ?v")
  have "inv (state_of (?stmt (atick ?v)))" using w by (intro row) (simp_all add: on_tables_def)
  with q w have "inv v'" by (auto simp: aquery_def on_tables_def split: option.splits if_splits)
  with q show "inv (state_of (session_issue_for env p ttl w))"
    by (cases r) (simp_all add: session_issue_for_def insertSession_def nowSeconds_def bindE_app seqE_app ret_app aask_app Let_def)
qed

lemma find_profile_triple:
  "triple inv (findProfileById env pid) (\<lambda>res w. inv w \<and> (\<forall>p. res = Inr (Some p) \<longrightarrow> p \<in> set (aw_profiles w)))"
  unfolding findProfileById_def
  by (rule triple_aquery) (auto simp: triple_def asks_app dest: row_by_Some)

lemma revoke_keeps: "keeps inv (revokeSession env sid)"
  unfolding revokeSession_def
  by (intro keeps_rules keeps_nowSeconds keeps_aquery keeps_change)
     (auto simp: on_tables_def intro: close_session)

lemma login_keeps:
  assumes "may (to_lower wal) r" and "\<And>t. ttl = Some (Some t) \<Longrightarrow> t \<le> session_limit env"
  shows "keeps inv (login_session env wal r org ttl)"
proof -
  have "triple (\<lambda>w. inv w \<and> p \<in> set (aw_profiles w))
      (bindE (session_issue_for env p (case ttl of None \<Rightarrow> Some 3600 | Some t \<Rightarrow> t))
         (\<lambda>result. seqE incrementSessionIssued (ret result))) (\<lambda>_. inv)" for p
    using assms(2)
    by (intro triple_bind [OF issue_triple] triple_keeps keeps_rules keeps_auth_counters)
       (auto simp: session_limit_def split: option.splits)
  then have "triple inv (login_session env wal r org ttl) (\<lambda>_. inv)"
    unfolding login_session_def Let_def to_lower_idem
    by (intro triple_bind [OF upsert_triple [OF assms(1)]]) (auto simp: triple_def throw_app)
  then show ?thesis by (simp add: triple_def keeps_def)
qed

lemma refresh_keeps: "keeps inv (refresh_session env sid None)"
proof -
  have "triple (\<lambda>w. inv w \<and> p \<in> set (aw_profiles w))
      (bindE (session_issue_for env p (Some 3600)) (\<lambda>result.
         seqE (revokeSession env sid) (seqE incrementSessionRefreshed (ret result)))) (\<lambda>_. inv)" for p
    by (intro triple_bind [OF issue_triple] triple_keeps keeps_rules keeps_auth_counters revoke_keeps)
       (auto simp: session_limit_def)
  then have "triple inv (bindE (findProfileById env uid) (refresh_profile env sid None)) (\<lambda>_. inv)" for uid
    by (intro triple_bind [OF find_profile_triple])
       (auto simp: triple_def throw_app refresh_profile_def split: option.splits)
  then have "keeps inv (bindE (findProfileById env uid) (refresh_profile env sid None))" for uid
    by (simp add: triple_def keeps_def)
  then show ?thesis
    unfolding refresh_session_def
    by (auto intro!: keeps_bind [OF keeps_reads(3)] keeps_throw split: option.splits)
qed

lemma middleware_keeps:
  assumes "\<And>s. keeps inv (handler s)"
  shows "keeps inv (session_middleware env h handler)"
  unfolding session_middleware_def Let_def by (intro keeps_rules keeps_reads assms)

lemma handler_keeps:
  "keeps inv (refresh_handler env s)" "keeps inv (revoke_handler env s)" "keeps inv (getSession s)"
  unfolding refresh_handler_def revoke_handler_def revoke_session_def getSession_def
  by (intro keeps_rules keeps_auth_counters refresh_keeps revoke_keeps)+

lemma issued_keeps:
  assumes "may (to_lower wal) r"
  shows "keeps inv (catchE
    (bindE (login_session env wal r org (map_option (cap_ttl (ae_maxSessionTtlSeconds env)) ttl))
       (\<lambda>result. ret (accept 201 (Auth_issued result))))
    (\<lambda>err. seqE incrementLoginError (ret (refuse 403 ''Forbidden'' err))))"
proof -
  have "t \<le> session_limit env" if "cap_ttl (ae_maxSessionTtlSeconds env) n = Some t" for n t
    using that by (auto simp: cap_ttl_def session_limit_def split: ttl_number.splits if_splits)
  then show ?thesis
    by (intro keeps_rules keeps_auth_counters login_keeps assms) auto
qed

end

section \<open>A login, from the request to the verified signature\<close>

text \<open>
  A request that may log a wallet in: it carries a signature that verifies, for the wallet, the message
  with the nonce of the wallet's challenge.
\<close>

definition grants :: "auth_env \<Rightarrow> auth_world \<Rightarrow> auth_request \<Rightarrow> string \<Rightarrow> user_role \<Rightarrow> bool" where
  "grants env w req wal role \<longleftrightarrow>
     (\<exists>b address nonce expiresAt signature recovered.
        req = Post_login b \<and> lb_walletAddress b = Some address \<and> wallet_regex address \<and> to_lower address = wal \<and>
        valid_role (or_else (lb_role b) []) = Some role \<and>
        aw_challenges w wal = Some (nonce, expiresAt) \<and> ae_now env (aw_tick w) < expiresAt \<and>
        lb_signature b = Some signature \<and>
        ae_verify env (buildChallengeMessage wal nonce) signature = Some recovered \<and> to_lower recovered = wal)"

lemma challenge_get_app:
  "challenge_get env wal w =
     (case aw_challenges w (to_lower wal) of
        None \<Rightarrow> (Inr None, w)
      | Some (nonce, expiresAt) \<Rightarrow>
          if expiresAt \<le> ae_now env (aw_tick w)
          then (Inr None, (atick w)\<lparr>aw_challenges := (aw_challenges w)(to_lower wal := None)\<rparr>)
          else (Inr (Some nonce), atick w))"
  by (simp add: challenge_get_def challenge_delete_def bindE_app asks_app ret_app aask_app seqE_app change_app
      split: option.splits)

lemma or_else_Some: "or_else x [] \<noteq> [] \<Longrightarrow> x = Some (or_else x [])"
  by (auto simp: or_else_def split: option.splits if_splits)

lemma wallet_regex_Nil [simp]: "\<not> wallet_regex []"
  by (simp add: wallet_regex_def)

lemma to_lower_Nil [simp]: "to_lower [] = []"
  by (simp add: to_lower_def)

lemma getChallenge_app:
  "getChallenge env a w =
     (let wal = to_lower (or_else a []); nonce = ae_nonce env (aw_tick w)
      in if wallet_regex wal
         then (Inr (accept 200 (Auth_challenge (buildChallengeMessage wal nonce) challenge_ttl_seconds)),
           (atick (atick w))\<lparr>aw_challenges := (aw_challenges w)(wal \<mapsto> (nonce, ae_now env (Suc (aw_tick w)) + 300000))\<rparr>)
         else (Inr (refuse 400 ''BadRequest'' ''Valid wallet address required (?wallet=0x...)''), w))"
  by (auto simp: getChallenge_def Let_def ret_app bindE_app aask_app seqE_app challenge_set_def change_app)

definition login_failed :: "auth_world \<Rightarrow> auth_world" where
  "login_failed w = w\<lparr>aw_counters := (aw_counters w)\<lparr>ac_login_errors := ac_login_errors (aw_counters w) + 1\<rparr>\<rparr>"

lemma login_failed_sel [simp]:
  "aw_challenges (login_failed w) = aw_challenges w" "aw_profiles (login_failed w) = aw_profiles w"
  "aw_sessions (login_failed w) = aw_sessions w"
  by (simp_all add: login_failed_def)

lemma login_error_app: "seqE incrementLoginError (ret a) w = (Inr a, login_failed w)"
  by (simp add: seqE_app ret_app incrementLoginError_def bump_def change_app login_failed_def)

lemma login_split:
  obtains (refused) a w' where "login env b w = (Inr a, w')" "aw_profiles w' = aw_profiles w"
      "aw_sessions w' = aw_sessions w" "aw_challenges w' \<subseteq>\<^sub>m aw_challenges w" "aa_status a \<in> {400, 401}"
  | (granted) wal role where "grants env w (Post_login b) wal role"
      "login env b w = issue_login env wal role (lb_orgId b) (lb_ttlSeconds b) (atick w)"
proof (cases "lb_walletAddress b")
  case None
  then show ?thesis by (intro refused) (auto simp: login_def ret_app refuse_def)
next
  case (Some address)
  note address = Some
  show ?thesis
  proof (cases "wallet_regex address \<and> address \<noteq> [] \<and> or_else (lb_signature b) [] \<noteq> [] \<and> valid_role (or_else (lb_role b) []) \<noteq> None")
    case False
    with address have "\<exists>e m. login env b w = (Inr (refuse 400 e m), w)"
      by (cases "valid_role (or_else (lb_role b) [])") (auto simp: login_def ret_app)
    then obtain e m where "login env b w = (Inr (refuse 400 e m), w)" by blast
    then show ?thesis by (rule refused) (simp_all add: refuse_def)
  next
    case True
    then obtain role where role: "valid_role (or_else (lb_role b) []) = Some role" by blast
    let ?wal = "to_lower address"
    let ?sig = "or_else (lb_signature b) []"
    have sig: "lb_signature b = Some ?sig" using True by (intro or_else_Some) simp
    have l: "login env b w = bindE (challenge_get env ?wal) (\<lambda>nonce.
        if or_else nonce [] = []
        then ret (refuse 401 ''Unauthorized'' ''No active challenge for this wallet. Call GET /challenge first.'')
        else verify_login env ?wal (or_else nonce []) ?sig (issue_login env ?wal role (lb_orgId b) (lb_ttlSeconds b))) w"
      using True role address by (simp add: login_def Let_def)
    show ?thesis
    proof (cases "aw_challenges w ?wal")
      case None
      then show ?thesis
        by (intro refused) (auto simp: l bindE_app challenge_get_app or_else_def ret_app refuse_def)
    next
      case (Some c)
      obtain nonce x where c: "c = (nonce, x)" by (cases c)
      show ?thesis
      proof (cases "x \<le> ae_now env (aw_tick w) \<or> nonce = []")
        case True
        with Some c have "login env b w = (Inr (refuse 401 ''Unauthorized''
              ''No active challenge for this wallet. Call GET /challenge first.''),
            if x \<le> ae_now env (aw_tick w) then (atick w)\<lparr>aw_challenges := (aw_challenges w)(?wal := None)\<rparr> else atick w)"
          by (auto simp: l bindE_app challenge_get_app or_else_def ret_app)
        then show ?thesis by (rule refused) (auto simp: refuse_def map_le_def)
      next
        case False
        with Some c have l': "login env b w =
            verify_login env ?wal nonce ?sig (issue_login env ?wal role (lb_orgId b) (lb_ttlSeconds b)) (atick w)"
          by (simp add: l bindE_app challenge_get_app or_else_def)
        show ?thesis
        proof (cases "ae_verify env (buildChallengeMessage ?wal nonce) ?sig")
          case None
          then have "login env b w = (Inr (refuse 401 ''Unauthorized'' ''Invalid signature format''), login_failed (atick w))"
            by (simp add: l' verify_login_def login_error_app)
          then show ?thesis by (rule refused) (simp_all add: refuse_def)
        next
          case (Some recovered)
          note r = Some
          show ?thesis
          proof (cases "to_lower recovered = ?wal")
            case True
            have "grants env w (Post_login b) ?wal role"
              using \<open>wallet_regex address \<and> _\<close> address role sig r True False \<open>aw_challenges w ?wal = Some c\<close> c
              unfolding grants_def by (intro exI [of _ b] exI [of _ address] exI [of _ nonce] exI [of _ x] exI [of _ ?sig] exI [of _ recovered]) simp
            moreover have "login env b w = issue_login env ?wal role (lb_orgId b) (lb_ttlSeconds b) (atick w)"
              using r True by (simp add: l' verify_login_def)
            ultimately show ?thesis by (rule granted)
          next
            case False
            with r have "login env b w = (Inr (refuse 401 ''Unauthorized'' ''Signature verification failed''), login_failed (atick w))"
              by (simp add: l' verify_login_def login_error_app)
            then show ?thesis by (rule refused) (simp_all add: refuse_def)
          qed
        qed
      qed
    qed
  qed
qed

text \<open>What an invariant of the whole service must allow besides: challenges that come and go, and deactivations.\<close>

locale auth_service = auth_tables +
  fixes offer :: "string \<Rightarrow> string \<Rightarrow> bool"
  assumes drop: "Q ch ps ss \<Longrightarrow> ch' \<subseteq>\<^sub>m ch \<Longrightarrow> Q ch' ps ss"
    and offered: "Q ch ps ss \<Longrightarrow> offer wal nonce \<Longrightarrow> Q (ch(wal \<mapsto> (nonce, x))) ps ss"
    and deactivated: "Q ch ps ss \<Longrightarrow>
      Q ch (update_where (\<lambda>p. up_id p = i) (\<lambda>p. p\<lparr>up_active := False, up_updatedAt := t\<rparr>) ps) ss"
begin

lemma keeps_drop: "keeps inv (challenge_delete wal)"
  unfolding challenge_delete_def
  by (rule keeps_change) (auto simp: on_tables_def map_le_def intro: drop)

lemma login_request:
  assumes "inv w" and "\<And>wal role. grants env w (Post_login b) wal role \<Longrightarrow> may wal role"
  shows "inv (state_of (login env b w))"
proof (cases rule: login_split [of env b w])
  case (refused a w')
  with assms(1) show ?thesis by (auto simp: on_tables_def intro: drop)
next
  case (granted wal role)
  from granted(1) have "to_lower wal = wal" by (auto simp: grants_def)
  with assms(2) granted(1) have "may (to_lower wal) role" by simp
  then have "keeps inv (issue_login env wal role (lb_orgId b) (lb_ttlSeconds b))"
    unfolding issue_login_def Let_def by (intro keeps_seq keeps_drop issued_keeps)
  from keepsD [OF this, of "atick w"] granted(2) assms(1) show ?thesis by simp
qed

lemma challenge_request:
  assumes "inv w" and "\<And>q. a = Some q \<Longrightarrow> wallet_regex (to_lower q) \<Longrightarrow> offer (to_lower q) (ae_nonce env (aw_tick w))"
  shows "inv (state_of (getChallenge env a w))"
proof (cases a)
  case None
  with assms(1) show ?thesis by (simp add: getChallenge_app or_else_def Let_def)
next
  case (Some q)
  with assms show ?thesis
    by (cases "q = []") (auto simp: getChallenge_app or_else_def on_tables_def Let_def intro: offered)
qed

lemma serve_keeps:
  assumes "inv w" and "\<And>wal role. grants env w req wal role \<Longrightarrow> may wal role"
    and "\<And>q. req = Get_challenge (Some q) \<Longrightarrow> wallet_regex (to_lower q) \<Longrightarrow> offer (to_lower q) (ae_nonce env (aw_tick w))"
  shows "inv (snd (serve_auth env req w))"
proof -
  have "inv (state_of (auth_route env req w))"
    using assms login_request [of w] challenge_request [of w]
      keepsD [OF middleware_keeps [OF handler_keeps(1)], of w] keepsD [OF middleware_keeps [OF handler_keeps(2)], of w]
      keepsD [OF middleware_keeps [OF handler_keeps(3)], of w]
    by (cases req) (auto simp: auth_route_def ret_app)
  then show ?thesis by (auto simp: serve_auth_def split: prod.splits sum.splits)
qed

lemma event_keeps:
  assumes "inv w" and "\<And>req wal role. ev = Auth_serve req \<Longrightarrow> grants env w req wal role \<Longrightarrow> may wal role"
    and "\<And>q. ev = Auth_serve (Get_challenge (Some q)) \<Longrightarrow> wallet_regex (to_lower q) \<Longrightarrow>
      offer (to_lower q) (ae_nonce env (aw_tick w))"
  shows "inv (snd (auth_event env ev w))"
proof (cases ev)
  case (Auth_serve req)
  with assms serve_keeps [of w req] show ?thesis by (auto simp: auth_event_def split: prod.splits)
next
  case Auth_purge
  define ch where "ch = (\<lambda>k. case aw_challenges w k of None \<Rightarrow> None
    | Some (nonce, expiresAt) \<Rightarrow> if expiresAt \<le> ae_now env (aw_tick w) then None else Some (nonce, expiresAt))"
  have "ch \<subseteq>\<^sub>m aw_challenges w" by (auto simp: ch_def map_le_def split: option.splits if_splits)
  with assms(1) have "Q ch (aw_profiles w) (aw_sessions w)" by (auto simp: on_tables_def intro: drop)
  with Auth_purge show ?thesis
    by (simp add: auth_event_def purge_challenges_def bindE_app aask_app change_app on_tables_def ch_def)
next
  case Auth_restart
  with assms(1) show ?thesis by (auto simp: auth_event_def on_tables_def map_le_def intro: drop)
next
  case (Auth_deactivate i)
  have "keeps inv (deactivateProfile env i)"
    unfolding deactivateProfile_def
    by (intro keeps_aquery keeps_change) (auto simp: on_tables_def intro: deactivated)
  with Auth_deactivate assms(1) show ?thesis by (simp add: auth_event_def keepsD)
qed

end

section \<open>Runs\<close>

lemma auth_run_append:
  "auth_run env (xs @ ys) w =
     (case auth_run env xs w of (tr, w') \<Rightarrow> (case auth_run env ys w' of (tr', w'') \<Rightarrow> (tr @ tr', w'')))"
  by (induction xs arbitrary: w) (auto split: prod.splits)

lemma auth_run_snoc:
  "auth_run env (xs @ [ev]) w =
     (case auth_run env xs w of (tr, w') \<Rightarrow> (case auth_event env ev w' of (a, w'') \<Rightarrow> (tr @ [(ev, a)], w'')))"
  by (simp add: auth_run_append split: prod.splits)

end
