(* ===== verification/Auth_Runs.thy ===== *)
theory Auth_Runs imports Main Auth_Facts begin

text \<open>
  The invariants of runs of the authentication service: the tables are well formed, every profile and
  session has a signed login behind it, revoked sessions stay revoked, and a challenge admits one login.
\<close>

section \<open>The tables\<close>

definition session_ok :: "auth_env \<Rightarrow> user_profile list \<Rightarrow> user_session \<Rightarrow> bool" where
  "session_ok env ps s \<longleftrightarrow> dated env s \<and>
     (\<exists>p \<in> set ps. up_id p = us_userId s \<and> up_walletAddress p = us_walletAddress s)"

definition tables_ok :: "auth_env \<Rightarrow> user_profile list \<Rightarrow> user_session list \<Rightarrow> bool" where
  "tables_ok env ps ss \<longleftrightarrow>
     distinct (map up_id ps) \<and> distinct (map up_walletAddress ps) \<and> distinct (map us_sessionId ss) \<and>
     (\<forall>s \<in> set ss. session_ok env ps s)"

lemma session_ok_mono:
  "session_ok env ps s \<Longrightarrow>
   (\<And>p. p \<in> set ps \<Longrightarrow> \<exists>q \<in> set ps'. up_id q = up_id p \<and> up_walletAddress q = up_walletAddress p) \<Longrightarrow> session_ok env ps' s"
  by (fastforce simp: session_ok_def)

lemma dated_revoked [simp]: "dated env (s\<lparr>us_revokedAt := r\<rparr>) = dated env s"
  by (simp add: dated_def)

lemma same_keys:
  assumes "distinct (map f ps)" "\<And>q. q \<in> set ps \<Longrightarrow> P q \<Longrightarrow> f (g q) = f q"
  shows "distinct (map f (update_where P g ps))"
proof -
  have "map f (update_where P g ps) = map f ps" using assms(2) by (auto simp: update_where_def)
  with assms(1) show ?thesis by simp
qed

lemma update_where_at: "x \<in> set rows \<Longrightarrow> (if P x then f x else x) \<in> set (update_where P f rows)"
  by (auto simp: set_update_where)

lemma update_where_same:
  assumes "distinct (map key ps)" "q \<in> set ps" "key q = k" "x \<in> set ps" "key x = k"
  shows "x = q"
  using assms by (auto simp: distinct_map dest: inj_onD)

lemma session_ok_revoked [simp]: "session_ok env ps (s\<lparr>us_revokedAt := r\<rparr>) = session_ok env ps s"
  by (simp add: session_ok_def)

interpretation wf: auth_service env "\<lambda>_. tables_ok env" "\<lambda>_ _. True" "\<lambda>_ _. True" for env
proof (unfold_locales, goal_cases)
  case (1 ch ps ss p)
  have "session_ok env (ps @ [p]) s" if "s \<in> set ss" for s
  proof (rule session_ok_mono)
    show "session_ok env ps s" using 1 that by (simp add: tables_ok_def)
  qed auto
  with 1 show ?case by (auto simp: tables_ok_def)
next
  case (2 ch ps ss p q)
  let ?ps = "update_where (\<lambda>x. up_walletAddress x = up_walletAddress p) (\<lambda>_. p) ps"
  have same: "x = q" if "x \<in> set ps" "up_walletAddress x = up_walletAddress p" for x
    using update_where_same [of up_walletAddress ps q "up_walletAddress p" x] 2 that by (auto simp: tables_ok_def)
  have "\<exists>y \<in> set ?ps. up_id y = up_id x \<and> up_walletAddress y = up_walletAddress x" if "x \<in> set ps" for x
  proof (rule bexI [OF _ update_where_at [OF that]])
    show "up_id (if up_walletAddress x = up_walletAddress p then p else x) = up_id x \<and>
        up_walletAddress (if up_walletAddress x = up_walletAddress p then p else x) = up_walletAddress x"
      using same [OF that] 2(4,5) by (cases "up_walletAddress x = up_walletAddress p") simp_all
  qed
  moreover have "up_id p = up_id x" if "x \<in> set ps" "up_walletAddress x = up_walletAddress p" for x
    using same [OF that] 2(4) by simp
  then have "distinct (map up_id ?ps)" "distinct (map up_walletAddress ?ps)"
    using 2(1) by (auto simp: tables_ok_def intro!: same_keys)
  ultimately show ?case
    using 2 session_ok_mono [of env ps _ ?ps] by (simp add: tables_ok_def)
next
  case (3 ch ps ss p s)
  then show ?case by (auto simp: tables_ok_def session_ok_def)
next
  case (4 ch ps ss sid t)
  then show ?case by (auto simp: tables_ok_def set_update_where intro!: same_keys)
next
  case (7 ch ps ss i t)
  let ?ps = "update_where (\<lambda>p. up_id p = i) (\<lambda>p. p\<lparr>up_active := False, up_updatedAt := t\<rparr>) ps"
  have "\<exists>y \<in> set ?ps. up_id y = up_id x \<and> up_walletAddress y = up_walletAddress x" if "x \<in> set ps" for x
    by (rule bexI [OF _ update_where_at [OF that]]) simp
  moreover have "distinct (map up_id ?ps)" "distinct (map up_walletAddress ?ps)"
    using 7 by (auto simp: tables_ok_def intro!: same_keys)
  ultimately show ?case
    using 7 session_ok_mono [of env ps _ ?ps] by (simp add: tables_ok_def)
qed auto

lemma run_keeps:
  assumes "P w" and "\<And>ev w. P w \<Longrightarrow> P (snd (auth_event env ev w))"
  shows "P (snd (auth_run env evs w))"
  using assms(1)
proof (induction evs arbitrary: w)
  case (Cons ev evs)
  obtain a w' where "auth_event env ev w = (a, w')" by (cases "auth_event env ev w")
  with Cons assms(2) [of w ev] show ?case by (auto split: prod.splits) (metis snd_conv)
qed simp

lemma run_tables_ok: "on_tables (\<lambda>_. tables_ok env) (snd (auth_run env evs empty_auth))"
proof (rule run_keeps)
  show "on_tables (\<lambda>_. tables_ok env) empty_auth" by (simp add: on_tables_def tables_ok_def empty_auth_def)
qed (rule wf.event_keeps, simp_all)

section \<open>Revoked sessions\<close>

definition revoked :: "string \<Rightarrow> user_session list \<Rightarrow> bool" where
  "revoked sid ss \<longleftrightarrow> distinct (map us_sessionId ss) \<and> (\<exists>s \<in> set ss. us_sessionId s = sid \<and> us_revokedAt s \<noteq> None)"

interpretation rv: auth_service env "\<lambda>_ _. revoked sid" "\<lambda>_ _. True" "\<lambda>_ _. True" for env sid
proof (unfold_locales, goal_cases)
  case (3 ch ps ss p s)
  then show ?case by (auto simp: revoked_def)
next
  case (4 ch ps ss i t)
  from 4 obtain s where s: "s \<in> set ss" "us_sessionId s = sid" "us_revokedAt s \<noteq> None" by (auto simp: revoked_def)
  let ?f = "\<lambda>s. s\<lparr>us_revokedAt := Some t\<rparr>"
  have "(if us_sessionId s = i then ?f s else s) \<in> set (update_where (\<lambda>s. us_sessionId s = i) ?f ss)"
    using s(1) by (auto simp: set_update_where)
  moreover have "distinct (map us_sessionId (update_where (\<lambda>s. us_sessionId s = i) ?f ss))"
    using 4 by (auto simp: revoked_def intro!: same_keys)
  ultimately show ?case using s by (auto simp: revoked_def intro!: bexI [of _ "if us_sessionId s = i then ?f s else s"])
qed auto

lemma normalize_same: "normalizeSessionRow r = Inr s \<Longrightarrow> s = r"
  by (auto simp: normalizeSessionRow_def split: sum.splits option.splits)

lemma findSessionById_app:
  "findSessionById env sid w =
     (case ae_db env (aw_tick w) of
        Some m \<Rightarrow> (Inl m, atick w)
      | None \<Rightarrow>
          (case row_by us_sessionId sid (aw_sessions w) of
             None \<Rightarrow> (Inr None, atick w)
           | Some r \<Rightarrow> (case normalizeSessionRow r of Inl e \<Rightarrow> (Inl e, atick w) | Inr s \<Rightarrow> (Inr (Some s), atick w))))"
  by (auto simp: findSessionById_def bindE_app aquery_def asks_app lift_app ret_app split: option.splits sum.splits)

text \<open>What a lookup of a session finds, and that it leaves the tables alone.\<close>

lemma resolve_cases:
  obtains x w' where "catchE (resolveActive env sid) (\<lambda>_. ret None) w = (Inr x, w')"
    "aw_sessions w' = aw_sessions w" "aw_profiles w' = aw_profiles w" "aw_challenges w' = aw_challenges w"
    "\<And>s. x = Some s \<Longrightarrow> row_by us_sessionId sid (aw_sessions w) = Some s \<and> us_revokedAt s = None \<and>
       ae_now env (Suc (aw_tick w)) div 1000 < us_expiresAt s"
proof (cases "ae_db env (aw_tick w)")
  case (Some m)
  then show ?thesis
    by (intro that [of None "atick w"]) (simp_all add: resolveActive_def bindE_app findSessionById_app catchE_app ret_app)
next
  case None
  show ?thesis
  proof (cases "row_by us_sessionId sid (aw_sessions w)")
    case None
    with \<open>ae_db env _ = None\<close> show ?thesis
      by (intro that [of None "atick w"]) (simp_all add: resolveActive_def bindE_app findSessionById_app catchE_app ret_app)
  next
    case (Some r)
    show ?thesis
    proof (cases "normalizeSessionRow r")
      case (Inl e)
      with \<open>ae_db env _ = None\<close> Some show ?thesis
        by (intro that [of None "atick w"]) (simp_all add: resolveActive_def bindE_app findSessionById_app catchE_app ret_app)
    next
      case (Inr s)
      then have s: "s = r" by (rule normalize_same)
      have "catchE (resolveActive env sid) (\<lambda>_. ret None) w =
          (if us_revokedAt r \<noteq> None then (Inr None, atick w)
           else (Inr (if us_expiresAt r \<le> ae_now env (Suc (aw_tick w)) div 1000 then None else Some r), atick (atick w)))"
        using \<open>ae_db env _ = None\<close> Some Inr s
        by (simp add: resolveActive_def bindE_app findSessionById_app catchE_app ret_app nowSeconds_def aask_app)
      with Some show ?thesis
        by (intro that [of "if us_revokedAt r = None \<and> ae_now env (Suc (aw_tick w)) div 1000 < us_expiresAt r then Some r else None"
            "if us_revokedAt r = None then atick (atick w) else atick w"])
           (auto split: if_splits)
    qed
  qed
qed

lemma row_by_unique:
  assumes "distinct (map key rows)" "r \<in> set rows" "key r = k" "row_by key k rows = Some q"
  shows "q = r"
  using row_by_Some [OF assms(4)] assms(1-3) by (auto simp: distinct_map dest: inj_onD)

lemma revoked_refused:
  assumes "revoked sid (aw_sessions w)"
  shows "\<exists>w'. catchE (resolveActive env sid) (\<lambda>_. ret None) w = (Inr None, w')"
proof -
  obtain x w' where c: "catchE (resolveActive env sid) (\<lambda>_. ret None) w = (Inr x, w')"
    and f: "\<And>s. x = Some s \<Longrightarrow> row_by us_sessionId sid (aw_sessions w) = Some s \<and> us_revokedAt s = None"
    by (rule resolve_cases [of env sid w]) blast
  from assms f have "x = None"
    by (cases x) (auto simp: revoked_def dest!: row_by_unique)
  with c show ?thesis by blast
qed

section \<open>Signed logins\<close>

type_synonym auth_trace = "(auth_event \<times> auth_answer option) list"

text \<open>The service has answered a request for a challenge of the wallet with the nonce.\<close>

definition challenged :: "auth_trace \<Rightarrow> string \<Rightarrow> string \<Rightarrow> bool" where
  "challenged tr wal nonce \<longleftrightarrow>
     (\<exists>q. to_lower q = wal \<and>
        (Auth_serve (Get_challenge (Some q)), Some (accept 200 (Auth_challenge (buildChallengeMessage wal nonce) challenge_ttl_seconds))) \<in> set tr)"

text \<open>
  The trace has a login for the wallet that names the role and whose signature verifies, for the wallet,
  the message of a challenge that the service issued to it before.
\<close>

definition signed_login :: "auth_env \<Rightarrow> auth_trace \<Rightarrow> string \<Rightarrow> user_role \<Rightarrow> bool" where
  "signed_login env tr wal role \<longleftrightarrow>
     (\<exists>pre b a post address nonce signature recovered.
        tr = pre @ (Auth_serve (Post_login b), a) # post \<and>
        lb_walletAddress b = Some address \<and> wallet_regex address \<and> to_lower address = wal \<and>
        valid_role (or_else (lb_role b) []) = Some role \<and> challenged pre wal nonce \<and>
        lb_signature b = Some signature \<and>
        ae_verify env (buildChallengeMessage wal nonce) signature = Some recovered \<and> to_lower recovered = wal)"

lemma challenged_mono: "challenged tr wal nonce \<Longrightarrow> challenged (tr @ tr') wal nonce"
  by (auto simp: challenged_def)

lemma signed_login_mono: "signed_login env tr wal role \<Longrightarrow> signed_login env (tr @ tr') wal role"
  by (auto simp: signed_login_def) (metis append.assoc append_Cons)

definition vouched ::
  "(string \<Rightarrow> string \<Rightarrow> bool) \<Rightarrow> (string \<Rightarrow> user_role \<Rightarrow> bool) \<Rightarrow>
   (string \<rightharpoonup> string \<times> int) \<Rightarrow> user_profile list \<Rightarrow> user_session list \<Rightarrow> bool" where
  "vouched C V ch ps ss \<longleftrightarrow>
     (\<forall>k n x. ch k = Some (n, x) \<longrightarrow> C k n) \<and> (\<forall>p \<in> set ps. V (up_walletAddress p) (up_role p)) \<and>
     (\<forall>s \<in> set ss. V (us_walletAddress s) (us_role s))"

interpretation vo: auth_service env "vouched C V" V C for env C V
proof (unfold_locales, goal_cases)
  case (5 ch ps ss ch')
  then show ?case by (force simp: vouched_def map_le_def)
qed (auto simp: vouched_def set_update_where)

lemma vouched_mono:
  "vouched C V ch ps ss \<Longrightarrow> (\<And>k n. C k n \<Longrightarrow> C' k n) \<Longrightarrow> (\<And>k r. V k r \<Longrightarrow> V' k r) \<Longrightarrow> vouched C' V' ch ps ss"
  by (auto simp: vouched_def)

lemma run_vouched:
  assumes "auth_run env evs empty_auth = (tr, w)"
  shows "on_tables (vouched (challenged tr) (signed_login env tr)) w"
  using assms
proof (induction evs arbitrary: tr w rule: rev_induct)
  case Nil
  then show ?case by (auto simp: on_tables_def vouched_def empty_auth_def)
next
  case (snoc ev evs)
  obtain tr0 w0 where run: "auth_run env evs empty_auth = (tr0, w0)" by (cases "auth_run env evs empty_auth")
  obtain a where ev: "auth_event env ev w0 = (a, w)" and tr: "tr = tr0 @ [(ev, a)]"
    using snoc.prems run by (auto simp: auth_run_snoc split: prod.splits)
  have old: "on_tables (vouched (challenged tr0) (signed_login env tr0)) w0" by (rule snoc.IH [OF run])
  then have "on_tables (vouched (challenged tr) (signed_login env tr)) w0"
    unfolding on_tables_def tr by (rule vouched_mono) (auto intro: challenged_mono signed_login_mono)
  then have "on_tables (vouched (challenged tr) (signed_login env tr)) (snd (auth_event env ev w0))"
  proof (rule vo.event_keeps)
    fix req wal role assume req: "ev = Auth_serve req" "grants env w0 req wal role"
    then obtain b address nonce x signature recovered where
      g: "req = Post_login b" "lb_walletAddress b = Some address" "wallet_regex address" "to_lower address = wal"
        "valid_role (or_else (lb_role b) []) = Some role" "aw_challenges w0 wal = Some (nonce, x)"
        "lb_signature b = Some signature"
        "ae_verify env (buildChallengeMessage wal nonce) signature = Some recovered" "to_lower recovered = wal"
      by (auto simp: grants_def)
    from old g(6) have "challenged tr0 wal nonce" by (auto simp: on_tables_def vouched_def)
    with g req(1) tr show "signed_login env tr wal role" unfolding signed_login_def by blast
  next
    fix q assume q: "ev = Auth_serve (Get_challenge (Some q))" "wallet_regex (to_lower q)"
    then have "q \<noteq> []" by auto
    with q ev show "challenged tr (to_lower q) (ae_nonce env (aw_tick w0))"
      by (auto simp: tr challenged_def auth_event_def serve_auth_def auth_route_def getChallenge_app or_else_def Let_def)
  qed
  with ev show ?case by simp
qed

section \<open>Challenges and logins\<close>

text \<open>The wallet's challenge is untouched by the tables.\<close>

interpretation fr: auth_tables env "\<lambda>ch _ _. ch = c" "\<lambda>_ _. True" for env c
  by unfold_locales auto

text \<open>Without a request for a challenge of the wallet there is none afterwards when there was none.\<close>

interpretation nc: auth_service env "\<lambda>ch _ _. ch k = None" "\<lambda>_ _. True" "\<lambda>wal _. wal \<noteq> k" for env k
proof (unfold_locales, goal_cases)
  case (5 ch ps ss ch')
  then show ?case by (cases "ch' k") (auto simp: map_le_def dest: bspec [of _ _ k])
qed auto

definition logins_of :: "string \<Rightarrow> auth_trace \<Rightarrow> nat" where
  "logins_of wal tr = length (filter (\<lambda>(ev, a). case ev of
     Auth_serve (Post_login b) \<Rightarrow> map_option to_lower (lb_walletAddress b) = Some wal \<and> map_option aa_status a = Some 201
   | _ \<Rightarrow> False) tr)"

definition challenges_of :: "string \<Rightarrow> auth_trace \<Rightarrow> nat" where
  "challenges_of wal tr = length (filter (\<lambda>(ev, a). case ev of
     Auth_serve (Get_challenge q) \<Rightarrow> map_option to_lower q = Some wal \<and> map_option aa_status a = Some 200
   | _ \<Rightarrow> False) tr)"

definition open_challenge :: "string \<Rightarrow> auth_world \<Rightarrow> nat" where
  "open_challenge wal w = (if aw_challenges w wal = None then 0 else 1)"

lemma login_consumes:
  assumes "serve_auth env (Post_login b) w = (a, w')" "aa_status a = 201" "lb_walletAddress b = Some address"
  shows "open_challenge (to_lower address) w = 1 \<and> open_challenge (to_lower address) w' = 0"
proof -
  obtain r where r: "login env b w = (r, w')"
    using assms(1) by (auto simp: serve_auth_def auth_route_def split: prod.splits sum.splits)
  show ?thesis
  proof (cases rule: login_split [of env b w])
    case (refused a' w'')
    with assms r show ?thesis by (auto simp: serve_auth_def auth_route_def)
  next
    case (granted wal role)
    from granted(1) assms(3) have wal: "wal = to_lower address" and o: "aw_challenges w wal \<noteq> None"
      by (auto simp: grants_def)
    let ?c = "(aw_challenges w)(wal := None)"
    let ?rest = "catchE (bindE (login_session env wal role (lb_orgId b)
        (map_option (cap_ttl (ae_maxSessionTtlSeconds env)) (lb_ttlSeconds b))) (\<lambda>result. ret (accept 201 (Auth_issued result))))
      (\<lambda>err. seqE incrementLoginError (ret (refuse 403 ''Forbidden'' err)))"
    let ?v = "(atick w)\<lparr>aw_challenges := ?c\<rparr>"
    have "login env b w = ?rest ?v"
      using wal by (simp add: granted(2) issue_login_def seqE_app challenge_delete_def change_app Let_def)
    moreover have "on_tables (\<lambda>ch _ _. ch = ?c) (state_of (?rest ?v))"
      by (rule keepsD [OF fr.issued_keeps]) (simp_all add: on_tables_def)
    ultimately have "on_tables (\<lambda>ch _ _. ch = ?c) w'" unfolding r [symmetric] by (metis r snd_conv)
    then have "aw_challenges w' = ?c" by (simp add: on_tables_def)
    with o wal show ?thesis by (simp add: open_challenge_def)
  qed
qed

lemma event_challenges:
  assumes "auth_event env ev w = (a, w')"
  shows "logins_of wal [(ev, a)] + open_challenge wal w' \<le> challenges_of wal [(ev, a)] + open_challenge wal w"
proof (cases "logins_of wal [(ev, a)] = 0")
  case False
  then obtain b address x where "ev = Auth_serve (Post_login b)" "a = Some x" "aa_status x = 201"
      "lb_walletAddress b = Some address" "wal = to_lower address"
    by (auto simp: logins_of_def split: auth_event.splits auth_request.splits if_splits)
  with assms login_consumes [of env b w x w' address] show ?thesis
    by (auto simp: logins_of_def auth_event_def split: prod.splits)
next
  case True
  show ?thesis
  proof (cases "challenges_of wal [(ev, a)] = 0 \<and> aw_challenges w wal = None")
    case True
    have "on_tables (\<lambda>ch _ _. ch wal = None) (snd (auth_event env ev w))"
    proof (rule nc.event_keeps)
      fix q assume "ev = Auth_serve (Get_challenge (Some q))" "wallet_regex (to_lower q)"
      with True assms show "to_lower q \<noteq> wal"
        by (auto simp: challenges_of_def auth_event_def serve_auth_def auth_route_def getChallenge_app or_else_def Let_def
            accept_def split: if_splits)
    qed (use True in \<open>simp_all add: on_tables_def\<close>)
    with True \<open>logins_of wal _ = 0\<close> assms show ?thesis by (simp add: on_tables_def open_challenge_def)
  next
    case False
    with True show ?thesis by (auto simp: open_challenge_def)
  qed
qed

lemma run_challenges:
  "auth_run env evs w = (tr, w') \<Longrightarrow> logins_of wal tr + open_challenge wal w' \<le> challenges_of wal tr + open_challenge wal w"
proof (induction evs arbitrary: w tr)
  case (Cons ev evs)
  obtain a v where ev: "auth_event env ev w = (a, v)" by (cases "auth_event env ev w")
  obtain tr' where run: "auth_run env evs v = (tr', w')" and tr: "tr = (ev, a) # tr'"
    using Cons.prems ev by (auto split: prod.splits)
  have "logins_of wal tr = logins_of wal [(ev, a)] + logins_of wal tr'"
    "challenges_of wal tr = challenges_of wal [(ev, a)] + challenges_of wal tr'"
    by (simp_all add: tr logins_of_def challenges_of_def)
  with Cons.IH [OF run] event_challenges [OF ev, of wal] show ?case by linarith
qed (simp add: logins_of_def challenges_of_def)

end
