(* ===== verification/Auth_Props.thy ===== *)
theory Auth_Props imports Main Auth_Runs begin

text \<open>
  The properties of the authentication service over runs of events from the empty tables, with a small
  environment for the witnesses, and what the service leaves open.
\<close>

section \<open>A sample service\<close>

text \<open>
  A clock of one second a tick, fresh ids, and a wallet whose signature of a message is the message; the
  database fails at the ticks of \<open>down\<close>.
\<close>

definition sample_wallet :: string where
  "sample_wallet = ''0x00000000000000000000000000000000000000Ab''"

definition sample_auth :: "nat list \<Rightarrow> int \<Rightarrow> auth_env" where
  "sample_auth down maxTtl =
     \<lparr>ae_now = (\<lambda>t. int t * 1000), ae_db = (\<lambda>t. if t \<in> set down then Some ''down'' else None), ae_kept = (\<lambda>_. False),
      ae_violation = ''violation'', ae_uuid = (\<lambda>t. replicate t (CHR ''u'')), ae_nonce = (\<lambda>t. replicate (Suc t) (CHR ''n'')),
      ae_token = (\<lambda>t. replicate (Suc t) (CHR ''t'')),
      ae_verify = (\<lambda>m sig. if sig = m then Some sample_wallet else None), ae_maxSessionTtlSeconds = maxTtl\<rparr>"

definition sample_login :: "nat \<Rightarrow> string \<Rightarrow> ttl_number option \<Rightarrow> login_body" where
  "sample_login t role ttl =
     \<lparr>lb_walletAddress = Some sample_wallet,
      lb_signature = Some (buildChallengeMessage (to_lower sample_wallet) (replicate (Suc t) (CHR ''n''))),
      lb_role = Some role, lb_orgId = None, lb_ttlSeconds = ttl\<rparr>"

definition sample_start :: "string \<Rightarrow> ttl_number option \<Rightarrow> auth_event list" where
  "sample_start role ttl =
     [Auth_serve (Get_challenge (Some sample_wallet)), Auth_serve (Post_login (sample_login 0 role ttl))]"

definition bearer :: "nat \<Rightarrow> string option" where
  "bearer t = Some (''Bearer '' @ replicate (Suc t) (CHR ''t''))"

definition status_list :: "auth_env \<Rightarrow> auth_event list \<Rightarrow> int option list" where
  "status_list env evs = map (\<lambda>(_, a). map_option aa_status a) (fst (auth_run env evs empty_auth))"

section \<open>The properties\<close>

text \<open>
  C15: After any sequence of requests, restarts, timers and deactivations with any database failures, every
  session has a login request behind it, whose signature verifies, for the wallet of the session, the
  message of a challenge that the service had issued to that wallet, and which named the session's role.
\<close>

theorem sessions_come_from_signed_logins:
  assumes "s \<in> set (aw_sessions (snd (auth_run env evs empty_auth)))"
  shows "signed_login env (fst (auth_run env evs empty_auth)) (us_walletAddress s) (us_role s)"
  using assms run_vouched [of env evs "fst (auth_run env evs empty_auth)" "snd (auth_run env evs empty_auth)"]
  by (simp add: on_tables_def vouched_def)

theorem sessions_come_from_signed_logins_witness:
  "signed_login (sample_auth [] 60) (fst (auth_run (sample_auth [] 60) (sample_start ''buyer'' None) empty_auth))
     (to_lower sample_wallet) Role_buyer"
proof -
  let ?s = "\<lparr>us_sessionId = ''ttttt'', us_userId = ''uuuu'', us_walletAddress = to_lower sample_wallet,
    us_role = Role_buyer, us_issuedAt = 6, us_expiresAt = 3605, us_revokedAt = None\<rparr>"
  have "?s \<in> set (aw_sessions (snd (auth_run (sample_auth [] 60) (sample_start ''buyer'' None) empty_auth)))"
    by code_simp
  from sessions_come_from_signed_logins [OF this] show ?thesis by simp
qed

text \<open>
  C16: A challenge admits one login: in any run the logins of a wallet that were answered with a session are
  no more than the challenges that were issued to it, so that no signature can be replayed.
\<close>

theorem challenge_admits_one_login:
  "logins_of wal (fst (auth_run env evs empty_auth)) \<le> challenges_of wal (fst (auth_run env evs empty_auth))"
  using run_challenges [of env evs empty_auth "fst (auth_run env evs empty_auth)" "snd (auth_run env evs empty_auth)" wal]
  by (simp add: open_challenge_def empty_auth_def)

section \<open>Revocation\<close>

definition session_request :: "auth_request \<Rightarrow> string option" where
  "session_request req =
     (case req of Get_session h \<Rightarrow> h | Post_refresh h \<Rightarrow> h | Post_revoke h \<Rightarrow> h | _ \<Rightarrow> None)"

definition kept :: "string \<Rightarrow> user_session list \<Rightarrow> bool" where
  "kept sid ss \<longleftrightarrow> distinct (map us_sessionId ss) \<and> sid \<in> us_sessionId ` set ss"

interpretation kp: auth_service env "\<lambda>_ _. kept sid" "\<lambda>_ _. True" "\<lambda>_ _. True" for env sid
proof (unfold_locales, goal_cases)
  case (4 ch ps ss i t)
  have "map us_sessionId (update_where (\<lambda>s. us_sessionId s = i) (\<lambda>s. s\<lparr>us_revokedAt := Some t\<rparr>) ss) = map us_sessionId ss"
    by (rule map_update_where) simp
  then have "us_sessionId ` set (update_where (\<lambda>s. us_sessionId s = i) (\<lambda>s. s\<lparr>us_revokedAt := Some t\<rparr>) ss) = us_sessionId ` set ss"
    by (metis set_map)
  with 4 show ?case by (auto simp: kept_def intro!: same_keys)
qed (auto simp: kept_def)

lemma revoked_after:
  assumes "kept sid ss"
  shows "revoked sid (update_where (\<lambda>s. us_sessionId s = sid) (\<lambda>s. s\<lparr>us_revokedAt := Some t\<rparr>) ss)"
proof -
  let ?f = "\<lambda>s. s\<lparr>us_revokedAt := Some t\<rparr>"
  obtain s where s: "s \<in> set ss" "us_sessionId s = sid" using assms by (auto simp: kept_def)
  then have "?f s \<in> set (update_where (\<lambda>s. us_sessionId s = sid) ?f ss)"
    by (auto simp: set_update_where)
  moreover have "distinct (map us_sessionId (update_where (\<lambda>s. us_sessionId s = sid) ?f ss))"
    using assms by (auto simp: kept_def intro!: same_keys)
  ultimately show ?thesis using s(2) by (auto simp: revoked_def intro!: bexI [of _ "?f s"])
qed

lemma revoke_triple:
  "triple (on_tables (\<lambda>_ _. kept sid)) (revokeSession env sid) (\<lambda>r w. \<forall>x. r = Inr x \<longrightarrow> revoked sid (aw_sessions w))"
  by (auto simp: triple_def on_tables_def revokeSession_def nowSeconds_def bindE_app aask_app ret_app aquery_def change_app
      revoked_after split: option.splits)

text \<open>Anything done after the revocation that leaves the tables alone.\<close>

lemma revoke_then:
  assumes "keeps (on_tables (\<lambda>_ _. revoked sid)) m"
  shows "triple (on_tables (\<lambda>_ _. kept sid)) (seqE (revokeSession env sid) m) (\<lambda>r w. \<forall>x. r = Inr x \<longrightarrow> revoked sid (aw_sessions w))"
  using assms by (intro triple_seq [OF revoke_triple]) (auto simp: triple_def keeps_def on_tables_def)

lemma refresh_triple:
  "triple (on_tables (\<lambda>_ _. kept sid)) (refresh_session env sid None) (\<lambda>r w. \<forall>x. r = Inr x \<longrightarrow> revoked sid (aw_sessions w))"
proof -
  let ?R = "\<lambda>r w. \<forall>x :: session_issue. r = (Inr x :: string + session_issue) \<longrightarrow> revoked sid (aw_sessions w)"
  let ?I = "on_tables (\<lambda>_ _. kept sid)"
  have "triple ?I (seqE (revokeSession env sid) (seqE incrementSessionRefreshed (ret result))) ?R" for result
    by (intro revoke_then keeps_rules keeps_auth_counters)
  then have "triple (\<lambda>w. ?I w \<and> p \<in> set (aw_profiles w))
      (bindE (session_issue_for env p (Some 3600)) (\<lambda>result.
         seqE (revokeSession env sid) (seqE incrementSessionRefreshed (ret result)))) ?R" for p
    by (intro triple_bind [OF kp.issue_triple]) (simp_all add: session_limit_def)
  then have "triple ?I (bindE (findProfileById env uid) (refresh_profile env sid None)) ?R" for uid
    by (intro triple_bind [OF kp.find_profile_triple])
       (auto simp: triple_def throw_app refresh_profile_def split: option.splits)
  then show ?thesis
    unfolding refresh_session_def
    by (intro triple_bind [OF triple_keeps [OF keeps_reads(3)]])
       (auto simp: triple_def throw_app split: option.splits)
qed

definition ends_session :: "auth_request \<Rightarrow> bool" where
  "ends_session req = (case req of Post_refresh h \<Rightarrow> True | Post_revoke h \<Rightarrow> True | _ \<Rightarrow> False)"

lemma middleware_app:
  "session_middleware env h handler w =
     (case h of
        None \<Rightarrow> (Inr (refuse 401 ''Unauthorized'' ''Missing or malformed Authorization header''), w)
      | Some a \<Rightarrow>
          if \<not> starts_with a ''Bearer '' then (Inr (refuse 401 ''Unauthorized'' ''Missing or malformed Authorization header''), w)
          else if trim (drop 7 a) = [] then (Inr (refuse 401 ''Unauthorized'' ''Empty session token''), w)
          else (case catchE (resolveActive env (trim (drop 7 a))) (\<lambda>_. ret None) w of
              (Inl e, w') \<Rightarrow> (Inl e, w')
            | (Inr None, w') \<Rightarrow> (Inr (refuse 401 ''Unauthorized'' ''Session invalid, expired, or revoked''), w')
            | (Inr (Some s), w') \<Rightarrow> handler s w'))"
  by (auto simp: session_middleware_def Let_def ret_app bindE_app split: option.splits prod.splits sum.splits)

lemma middleware_401:
  assumes "revoked (trim (drop 7 (or_else h []))) (aw_sessions w)"
  shows "\<exists>a w'. session_middleware env h handler w = (Inr a, w') \<and> aa_status a = 401"
proof (cases h)
  case None
  then show ?thesis by (simp add: middleware_app refuse_def)
next
  case (Some x)
  then have "revoked (trim (drop 7 x)) (aw_sessions w)"
    using assms by (cases "x = []") (simp_all add: or_else_def)
  from revoked_refused [OF this, of env] Some show ?thesis
    by (auto simp: middleware_app refuse_def)
qed

lemma ended_session:
  assumes "serve_auth env req w = (a, w')" "aa_status a = 200" "ends_session req" "session_request req = Some h"
    and "distinct (map us_sessionId (aw_sessions w))"
  shows "revoked (trim (drop 7 h)) (aw_sessions w')"
proof -
  let ?sid = "trim (drop 7 h)"
  obtain handler where m: "auth_route env req = session_middleware env (Some h) handler"
    and handler: "handler = refresh_handler env \<or> handler = revoke_handler env"
    using assms(3,4) by (cases req) (auto simp: ends_session_def session_request_def auth_route_def)
  obtain x v where r: "catchE (resolveActive env ?sid) (\<lambda>_. ret None) w = (Inr x, v)" "aw_sessions v = aw_sessions w"
    and x: "\<And>s. x = Some s \<Longrightarrow> row_by us_sessionId ?sid (aw_sessions w) = Some s"
    by (rule resolve_cases [of env ?sid w]) blast
  have served: "serve_auth env req w = (case session_middleware env (Some h) handler w of
      (Inl e, w') \<Rightarrow> (errorHandler e, w') | (Inr a, w') \<Rightarrow> (a, w'))"
    by (simp add: serve_auth_def m)
  then obtain s where s: "x = Some s" "session_middleware env (Some h) handler w = handler s v"
    using assms(1,2) r by (cases x) (auto simp: middleware_app refuse_def split: if_splits)
  then have id: "us_sessionId s = ?sid" and k: "kept ?sid (aw_sessions v)"
    using row_by_Some [OF x [OF s(1)]] assms(5) r(2) by (simp, force simp: kept_def intro: rev_image_eqI)
  from handler show ?thesis
  proof
    assume h: "handler = refresh_handler env"
    obtain q u where q: "refresh_session env ?sid None v = (q, u)" by (cases "refresh_session env ?sid None v")
    have "\<forall>y. q = Inr y \<longrightarrow> revoked ?sid (aw_sessions u)"
      using tripleD [OF refresh_triple [of ?sid env], of v] k q by (simp add: on_tables_def)
    with assms(1,2) s(2) q id show ?thesis
      by (cases q) (auto simp: served h refresh_handler_def catchE_app bindE_app ret_app refuse_def accept_def)
  next
    assume h: "handler = revoke_handler env"
    have "triple (on_tables (\<lambda>_ _. kept ?sid)) (revoke_session env ?sid) (\<lambda>r w. \<forall>x. r = Inr x \<longrightarrow> revoked ?sid (aw_sessions w))"
      unfolding revoke_session_def by (intro revoke_then keeps_auth_counters)
    moreover obtain q u where q: "revoke_session env ?sid v = (q, u)" by (cases "revoke_session env ?sid v")
    ultimately have "\<forall>y. q = Inr y \<longrightarrow> revoked ?sid (aw_sessions u)"
      using k by (auto simp: on_tables_def dest!: tripleD [of _ _ _ v])
    with assms(1,2) s(2) q id show ?thesis
      by (cases q) (auto simp: served h revoke_handler_def seqE_app ret_app errorHandler_def refuse_def accept_def)
  qed
qed

text \<open>
  C17: A session that was revoked, or exchanged for a new one, is dead: once a revocation or a refresh with
  its token was answered with 200, no later request with the token is answered with anything but 401,
  whatever happens in between.
\<close>

theorem ended_session_never_resolves:
  assumes "w = snd (auth_run env evs empty_auth)"
    and "serve_auth env req w = (a, w')" "aa_status a = 200" "ends_session req" "session_request req = Some h"
    and "w'' = snd (auth_run env evs' w')"
    and "session_request req' = Some h'" "trim (drop 7 h') = trim (drop 7 h)"
  shows "aa_status (fst (serve_auth env req' w'')) = 401"
proof -
  have "distinct (map us_sessionId (aw_sessions w))"
    using run_tables_ok [of env evs] assms(1) by (simp add: on_tables_def tables_ok_def)
  with assms(2-5) have "revoked (trim (drop 7 h)) (aw_sessions w')" by (rule ended_session)
  then have "on_tables (\<lambda>_ _. revoked (trim (drop 7 h))) w'" by (simp add: on_tables_def)
  then have "on_tables (\<lambda>_ _. revoked (trim (drop 7 h))) w''"
    unfolding assms(6) by (rule run_keeps) (rule rv.event_keeps, simp_all)
  then have r: "revoked (trim (drop 7 (or_else (Some h') []))) (aw_sessions w'')"
    using assms(8) by (cases "h' = []") (simp_all add: on_tables_def or_else_def)
  obtain handler where "auth_route env req' = session_middleware env (Some h') handler"
    using assms(7) by (cases req') (auto simp: session_request_def auth_route_def)
  with middleware_401 [OF r, of env handler] show ?thesis by (auto simp: serve_auth_def)
qed

theorem ended_session_never_resolves_witness:
  "let env = sample_auth [] 60; w = snd (auth_run env (sample_start ''buyer'' None) empty_auth)
   in aa_status (fst (serve_auth env (Get_session (bearer 4)) w)) = 200 \<and>
      aa_status (fst (serve_auth env (Get_session (bearer 4))
        (snd (auth_run env [Auth_restart] (snd (serve_auth env (Post_refresh (bearer 4)) w)))))) = 401"
proof -
  let ?env = "sample_auth [] 60" and ?h = "''Bearer '' @ replicate (Suc 4) (CHR ''t'')"
  let ?w = "snd (auth_run ?env (sample_start ''buyer'' None) empty_auth)"
  let ?a = "serve_auth ?env (Post_refresh (bearer 4)) ?w"
  have "aa_status (fst (serve_auth ?env (Get_session (bearer 4)) (snd (auth_run ?env [Auth_restart] (snd ?a))))) = 401"
  proof (rule ended_session_never_resolves [OF refl])
    show "?a = (fst ?a, snd ?a)" by simp
    show "aa_status (fst ?a) = 200" by code_simp
    show "session_request (Post_refresh (bearer 4)) = Some ?h" "session_request (Get_session (bearer 4)) = Some ?h"
      by (simp_all only: session_request_def bearer_def auth_request.case)
    show "ends_session (Post_refresh (bearer 4))" by (simp add: ends_session_def)
  qed (rule refl)+
  moreover have "aa_status (fst (serve_auth ?env (Get_session (bearer 4)) ?w)) = 200" by code_simp
  ultimately show ?thesis by (simp add: Let_def)
qed

section \<open>Lifetimes\<close>

text \<open>
  With a clock that does not run backwards a session that \<open>GET /session\<close> shows has not expired, and
  expires at most \<open>session_limit\<close> seconds after it was issued: the configured maximum, one second or the
  default of an hour, whichever is longest.
\<close>

theorem shown_session_is_within_its_lifetime:
  assumes "mono (ae_now env)" and "w = snd (auth_run env evs empty_auth)"
    and "aa_body (fst (serve_auth env (Get_session h) w)) = Auth_session userId wal role issuedAt expiresAt"
  shows "ae_now env (aw_tick w) div 1000 < expiresAt \<and> expiresAt \<le> issuedAt + session_limit env"
proof -
  obtain a where h: "h = Some a"
    using assms(3) by (cases h) (auto simp: serve_auth_def auth_route_def middleware_app refuse_def)
  obtain x v where r: "catchE (resolveActive env (trim (drop 7 a))) (\<lambda>_. ret None) w = (Inr x, v)"
    and x: "\<And>s. x = Some s \<Longrightarrow> row_by us_sessionId (trim (drop 7 a)) (aw_sessions w) = Some s \<and>
      ae_now env (Suc (aw_tick w)) div 1000 < us_expiresAt s"
    by (rule resolve_cases [of env "trim (drop 7 a)" w]) blast
  obtain s where s: "x = Some s" "us_issuedAt s = issuedAt" "us_expiresAt s = expiresAt"
    using assms(3) r h
    by (cases x) (auto simp: serve_auth_def auth_route_def middleware_app refuse_def getSession_def ret_app accept_def split: if_splits)
  then have now: "ae_now env (Suc (aw_tick w)) div 1000 < expiresAt" and "s \<in> set (aw_sessions w)"
    using x by (auto dest: row_by_Some)
  then have "dated env s"
    using run_tables_ok [of env evs] assms(2) by (auto simp: on_tables_def tables_ok_def session_ok_def)
  then obtain t t' ttl where d: "t \<le> t'" "ttl \<le> session_limit env" "expiresAt = ae_now env t div 1000 + ttl"
      "issuedAt = ae_now env t' div 1000"
    unfolding dated_def s(2,3) by blast
  have later: "ae_now env i div 1000 \<le> ae_now env j div 1000" if "i \<le> j" for i j
    by (rule zdiv_mono1 [OF monoD [OF assms(1) that]]) simp
  from later [OF d(1)] later [of "aw_tick w" "Suc (aw_tick w)"] now d(2-4) show ?thesis by simp
qed

theorem shown_session_is_within_its_lifetime_witness:
  "ae_now (sample_auth [] 60) 8 div 1000 < (3605 :: int) \<and> (3605 :: int) \<le> 6 + session_limit (sample_auth [] 60)"
proof -
  let ?env = "sample_auth [] 60"
  let ?w = "snd (auth_run ?env (sample_start ''buyer'' None) empty_auth)"
  have t: "aw_tick ?w = 8" by code_simp
  have "ae_now ?env (aw_tick ?w) div 1000 < 3605 \<and> 3605 \<le> 6 + session_limit ?env"
  proof (rule shown_session_is_within_its_lifetime [OF _ refl])
    show "mono (ae_now ?env)" by (simp add: sample_auth_def mono_def)
    show "aa_body (fst (serve_auth ?env (Get_session (bearer 4)) ?w)) =
        Auth_session ''uuuu'' (to_lower sample_wallet) Role_buyer 6 3605"
      by code_simp
  qed
  then show ?thesis by (simp only: t)
qed

section \<open>What the service leaves open\<close>

text \<open>The role is what the request says: the wallet that logged in as a buyer logs in as an admin.\<close>

lemma role_is_self_declared:
  "map us_role (aw_sessions (snd (auth_run (sample_auth [] 60)
     (sample_start ''buyer'' None @ [Auth_serve (Get_challenge (Some sample_wallet)),
        Auth_serve (Post_login (sample_login 8 ''admin'' None))]) empty_auth))) = [Role_buyer, Role_admin]"
  by code_simp

text \<open>A login without \<open>ttlSeconds\<close> gets an hour although the maximum is a minute.\<close>

lemma omitted_ttl_exceeds_the_maximum:
  "map (\<lambda>s. us_expiresAt s - us_issuedAt s) (aw_sessions (snd (auth_run (sample_auth [] 60)
     (sample_start ''buyer'' None) empty_auth))) = [3599]"
  by code_simp

text \<open>
  The two statements of a refresh are not a transaction: when the second fails the client is told that the
  refresh failed, the old session lives on, and there is a new one that nobody holds.
\<close>

lemma refresh_is_not_atomic:
  "status_list (sample_auth [18] 60)
     (sample_start ''buyer'' None @ [Auth_serve (Post_refresh (bearer 4)), Auth_serve (Get_session (bearer 4)),
        Auth_serve (Get_session (bearer 13))]) = [Some 200, Some 201, Some 401, Some 200, Some 200]"
  by code_simp

text \<open>The sessions of a profile that was deactivated go on.\<close>

lemma deactivation_keeps_sessions:
  "status_list (sample_auth [] 60)
     (sample_start ''buyer'' None @ [Auth_deactivate ''uuuu'', Auth_serve (Get_session (bearer 4)),
        Auth_serve (Post_refresh (bearer 4))]) = [Some 200, Some 201, None, Some 200, Some 401]"
  by code_simp

text \<open>Anybody can ask for a challenge of a wallet, which makes the signature of its owner stale.\<close>

lemma stranger_voids_a_challenge:
  "status_list (sample_auth [] 60)
     [Auth_serve (Get_challenge (Some sample_wallet)), Auth_serve (Get_challenge (Some sample_wallet)),
      Auth_serve (Post_login (sample_login 0 ''buyer'' None))] = [Some 200, Some 200, Some 401]"
  by code_simp

end
