(* ===== verification/Auth_Gateway.thy ===== *)
theory Auth_Gateway imports Main Auth_Props Gov_Props begin

text \<open>
  The authentication service and the gateway together (\<open>gateway/src/core/authSessionClient.ts\<close>): the gateway
  asks the service for the session of the bearer token of every mutation request.
\<close>

section \<open>The client of the gateway\<close>

text \<open>What the request to \<open>/api/auth/v1/session\<close> comes to: no answer, or a status and a body.\<close>

datatype session_payload = Not_json string | No_session | Session_data auth_session

datatype session_reply = Fetch_failed | Session_reply int session_payload

definition resolveSession :: "session_reply \<Rightarrow> gw_error + auth_session option" where
  "resolveSession reply =
     (case reply of
        Fetch_failed \<Rightarrow> Inl (Gateway_error 503 UPSTREAM_UNAVAILABLE ''Auth service is unavailable'' [])
      | Session_reply status payload \<Rightarrow>
          if status = 401 then Inr None
          else if \<not> (200 \<le> status \<and> status \<le> 299)
          then Inl (Gateway_error 503 UPSTREAM_UNAVAILABLE ''Auth service session lookup failed''
                 [(''upstreamStatus'', show_int status)])
          else (case payload of
                  Not_json e \<Rightarrow> Inl (Other_error e)
                | No_session \<Rightarrow> Inl (Gateway_error 503 UPSTREAM_UNAVAILABLE ''Auth service returned an invalid session payload'' [])
                | Session_data s \<Rightarrow> Inr (Some s)))"

text \<open>The answer of \<open>GET /session\<close> as the gateway reads it.\<close>

definition payload_of :: "auth_body \<Rightarrow> session_payload" where
  "payload_of body =
     (case body of
        Auth_session userId wal role issuedAt expiresAt \<Rightarrow>
          Session_data \<lparr>as_userId = userId, as_walletAddress = wal, as_role = role_text role, as_email = None\<rparr>
      | _ \<Rightarrow> No_session)"

definition session_query :: "auth_env \<Rightarrow> bool \<Rightarrow> auth_world \<Rightarrow> string \<Rightarrow> session_reply" where
  "session_query env reachable w token =
     (if \<not> reachable then Fetch_failed
      else (case serve_auth env (Get_session (Some (''Bearer '' @ token))) w of
              (a, w') \<Rightarrow> Session_reply (aa_status a) (payload_of (aa_body a))))"

section \<open>Both services\<close>

text \<open>
  An event of the authentication service, or a mutation request of the gateway, which reaches the service
  or not.
\<close>

datatype joint_event = Joint_auth auth_event | Joint_mutation bool mutation_route mutation_request

record joint_state =
  js_trace :: auth_trace
  js_auth :: auth_world
  js_gateway :: gw_world

definition joint_start :: joint_state where
  "joint_start = \<lparr>js_trace = [], js_auth = empty_auth, js_gateway = empty_world\<rparr>"

definition with_sessions :: "gw_env \<Rightarrow> (string \<Rightarrow> session_reply) \<Rightarrow> gw_env" where
  "with_sessions genv query = genv\<lparr>gv_session := \<lambda>_ token. resolveSession (query token)\<rparr>"

definition joint_step :: "auth_env \<Rightarrow> gw_env \<Rightarrow> gateway_config \<Rightarrow> joint_event \<Rightarrow> joint_state \<Rightarrow> joint_state" where
  "joint_step env genv cfg ev s =
     (case ev of
        Joint_auth e \<Rightarrow>
          (case auth_event env e (js_auth s) of (a, w) \<Rightarrow> s\<lparr>js_trace := js_trace s @ [(e, a)], js_auth := w\<rparr>)
      | Joint_mutation reachable route req \<Rightarrow>
          (let gw = state_of (serve_mutation (with_sessions genv (session_query env reachable (js_auth s))) cfg route req (js_gateway s));
               asked = (if reachable then map_option (\<lambda>token. Get_session (Some (''Bearer '' @ token))) (getBearerToken (mr_authorization req)) else None)
           in case asked of
                None \<Rightarrow> s\<lparr>js_gateway := gw\<rparr>
              | Some q \<Rightarrow>
                  (case auth_event env (Auth_serve q) (js_auth s) of
                     (a, w) \<Rightarrow> \<lparr>js_trace = js_trace s @ [(Auth_serve q, a)], js_auth = w, js_gateway = gw\<rparr>)))"

fun joint_run :: "auth_env \<Rightarrow> gw_env \<Rightarrow> gateway_config \<Rightarrow> joint_event list \<Rightarrow> joint_state \<Rightarrow> joint_state" where
  "joint_run env genv cfg [] s = s"
| "joint_run env genv cfg (ev # evs) s = joint_run env genv cfg evs (joint_step env genv cfg ev s)"

text \<open>The history of the authentication service in a joint run is a run of it.\<close>

lemma joint_history:
  assumes "\<exists>evs. auth_run env evs empty_auth = (js_trace s, js_auth s)"
  shows "\<exists>evs. auth_run env evs empty_auth = (js_trace (joint_run env genv cfg jes s), js_auth (joint_run env genv cfg jes s))"
  using assms
proof (induction jes arbitrary: s)
  case (Cons je jes)
  then obtain evs where run: "auth_run env evs empty_auth = (js_trace s, js_auth s)" by blast
  have "\<exists>evs'. auth_run env evs' empty_auth = (js_trace (joint_step env genv cfg je s), js_auth (joint_step env genv cfg je s))"
  proof -
    have one: "auth_run env (evs @ [e]) empty_auth =
        (case auth_event env e (js_auth s) of (a, w) \<Rightarrow> (js_trace s @ [(e, a)], w))" for e
      by (simp add: auth_run_snoc run split: prod.splits)
    show ?thesis
    proof (cases je)
      case (Joint_auth e)
      then show ?thesis
        by (intro exI [of _ "evs @ [e]"]) (simp add: one joint_step_def split: prod.splits)
    next
      case (Joint_mutation reachable route req)
      show ?thesis
      proof (cases "if reachable then getBearerToken (mr_authorization req) else None")
        case None
        with Joint_mutation run show ?thesis
          by (intro exI [of _ evs]) (auto simp: joint_step_def Let_def split: if_splits)
      next
        case (Some token)
        with Joint_mutation show ?thesis
          by (intro exI [of _ "evs @ [Auth_serve (Get_session (Some (''Bearer '' @ token)))]"])
             (auto simp: one joint_step_def Let_def split: if_splits prod.splits)
      qed
    qed
  qed
  from Cons.IH [OF this] show ?case by simp
qed simp

section \<open>Authority\<close>

text \<open>A session that \<open>GET /session\<close> shows is a row of the table that is not revoked.\<close>

lemma shown_session:
  assumes "aa_body (fst (serve_auth env (Get_session (Some h)) w)) = Auth_session userId wal role issuedAt expiresAt"
  obtains s where "s \<in> set (aw_sessions w)" "us_sessionId s = trim (drop 7 h)" "us_revokedAt s = None"
    "us_userId s = userId" "us_walletAddress s = wal" "us_role s = role"
proof -
  obtain x v where r: "catchE (resolveActive env (trim (drop 7 h))) (\<lambda>_. ret None) w = (Inr x, v)"
    and x: "\<And>s. x = Some s \<Longrightarrow> row_by us_sessionId (trim (drop 7 h)) (aw_sessions w) = Some s \<and> us_revokedAt s = None"
    by (rule resolve_cases [of env "trim (drop 7 h)" w]) blast
  obtain s where s: "x = Some s" "us_userId s = userId" "us_walletAddress s = wal" "us_role s = role"
    using assms r
    by (cases x) (auto simp: serve_auth_def auth_route_def middleware_app refuse_def getSession_def ret_app accept_def split: if_splits)
  with x [OF s(1)] row_by_Some [of us_sessionId "trim (drop 7 h)" "aw_sessions w" s] show thesis by (intro that) auto
qed

lemma role_text_admin: "role_text r = ''admin'' \<longleftrightarrow> r = Role_admin"
  by (cases r) simp_all

lemma bearer_token:
  "trim (drop 7 (''Bearer '' @ token)) = trim token" "getBearerToken h = Some token \<Longrightarrow> trim token = token"
  by (auto simp: getBearerToken_def Let_def split: option.splits if_splits)

lemma resolved_session:
  assumes "resolveSession (session_query env reachable w token) = Inr (Some a)" "as_role a = ''admin''" "trim token = token"
  obtains s where "s \<in> set (aw_sessions w)" "us_sessionId s = token" "us_revokedAt s = None"
    "us_userId s = as_userId a" "us_walletAddress s = as_walletAddress a" "us_role s = Role_admin" "as_email a = None"
proof -
  let ?q = "Get_session (Some (''Bearer '' @ token))"
  have "payload_of (aa_body (fst (serve_auth env ?q w))) = Session_data a"
    using assms(1) by (auto simp: resolveSession_def session_query_def split: if_splits session_payload.splits prod.splits)
  then obtain role issuedAt expiresAt where
    "aa_body (fst (serve_auth env ?q w)) = Auth_session (as_userId a) (as_walletAddress a) role issuedAt expiresAt"
    and a: "role_text role = as_role a" "as_email a = None"
    by (auto simp: payload_of_def split: auth_body.splits)
  from shown_session [OF this(1)] obtain s where "s \<in> set (aw_sessions w)" "us_sessionId s = token" "us_revokedAt s = None"
    "us_userId s = as_userId a" "us_walletAddress s = as_walletAddress a" "us_role s = role"
    using assms(3) by (metis bearer_token(1))
  with a assms(2) show thesis by (intro that) (auto simp: role_text_admin)
qed

text \<open>
  C14: The authentication service and the gateway together: a mutation request changes the governance tables
  only when its bearer token is a session of the service that is not revoked, the wallet of the session
  logged in as an admin with a signed challenge, mutations are enabled and the allowlist has the wallet or
  its user id.
\<close>

theorem mutation_needs_a_signed_admin_login:
  assumes "s = joint_run env genv cfg jes joint_start"
    and "gov_tabs (js_gateway (joint_step env genv cfg (Joint_mutation reachable route req) s)) \<noteq> gov_tabs (js_gateway s)"
  shows "\<exists>u. u \<in> set (aw_sessions (js_auth s)) \<and> getBearerToken (mr_authorization req) = Some (us_sessionId u) \<and>
    us_revokedAt u = None \<and> signed_login env (js_trace s) (us_walletAddress u) Role_admin \<and> gx_enableMutations cfg \<and>
    (to_lower (us_userId u) \<in> to_lower ` set (gx_writeAllowlist cfg) \<or>
     to_lower (us_walletAddress u) \<in> to_lower ` set (gx_writeAllowlist cfg))"
proof -
  let ?genv = "with_sessions genv (session_query env reachable (js_auth s))"
  have "gov_tabs (js_gateway (joint_step env genv cfg (Joint_mutation reachable route req) s)) =
      gov_tabs (state_of (serve_mutation ?genv cfg route req (js_gateway s)))"
    by (simp add: joint_step_def Let_def split: option.splits prod.splits)
  with assms(2) have "authorised ?genv cfg req (gw_tick (js_gateway s))"
    using serve_unauthorised by metis
  then obtain token a where t: "getBearerToken (mr_authorization req) = Some token"
    "resolveSession (session_query env reachable (js_auth s) token) = Inr (Some a)" "as_role a = ''admin''"
    and g: "gx_enableMutations cfg" "matchesAllowlist a (gx_writeAllowlist cfg)"
    by (auto simp: authorised_def with_sessions_def split: option.splits sum.splits)
  from resolved_session [OF t(2,3) bearer_token(2) [OF t(1)]] obtain u where
    u: "u \<in> set (aw_sessions (js_auth s))" "us_sessionId u = token" "us_revokedAt u = None" "us_userId u = as_userId a"
      "us_walletAddress u = as_walletAddress a" "us_role u = Role_admin" "as_email a = None" .
  obtain evs where run: "auth_run env evs empty_auth = (js_trace s, js_auth s)"
    using joint_history [of env joint_start genv cfg jes] unfolding assms(1)
    by (metis auth_run.simps(1) joint_start_def joint_state.select_convs(1,2))
  have "signed_login env (js_trace s) (us_walletAddress u) Role_admin"
    using run_vouched [OF run] u(1,6) by (auto simp: on_tables_def vouched_def)
  moreover have "to_lower (us_userId u) \<in> to_lower ` set (gx_writeAllowlist cfg) \<or>
      to_lower (us_walletAddress u) \<in> to_lower ` set (gx_writeAllowlist cfg)"
    using g(2) u(4,5,7) by (auto simp: matchesAllowlist_def split: if_splits)
  ultimately show ?thesis using u t(1) g(1) by blast
qed

definition sample_joint :: "joint_event list" where
  "sample_joint = map Joint_auth (sample_start ''admin'' None)"

definition sample_operator :: gateway_config where
  "sample_operator = sample_gateway\<lparr>gx_writeAllowlist := [sample_wallet]\<rparr>"

definition sample_mutation :: mutation_request where
  "sample_mutation = (sample_request ''k1'')\<lparr>mr_authorization := bearer 4\<rparr>"

theorem mutation_needs_a_signed_admin_login_witness:
  "let env = sample_auth [] 60; s = joint_run env (sample_gw []) sample_operator sample_joint joint_start
   in signed_login env (js_trace s) (to_lower sample_wallet) Role_admin"
proof -
  let ?env = "sample_auth [] 60"
  let ?s = "joint_run ?env (sample_gw []) sample_operator sample_joint joint_start"
  have "gw_actions (js_gateway (joint_step ?env (sample_gw []) sample_operator (Joint_mutation True Unpause_cancel sample_mutation) ?s)) \<noteq> []"
    "gw_actions (js_gateway ?s) = []"
    by code_simp+
  then have changed: "gov_tabs (js_gateway (joint_step ?env (sample_gw []) sample_operator (Joint_mutation True Unpause_cancel sample_mutation) ?s)) \<noteq>
      gov_tabs (js_gateway ?s)"
    by (auto simp: gov_tabs_def)
  have "list_all (\<lambda>u. us_walletAddress u = to_lower sample_wallet) (aw_sessions (js_auth ?s))" by code_simp
  with mutation_needs_a_signed_admin_login [OF refl changed] show ?thesis
    by (auto simp: Let_def list_all_iff)
qed

end
