(* ===== verification/Ric_Canonical.thy ===== *)
theory Ric_Canonical imports Main Json "HOL-Library.List_Lexorder" "HOL-Library.Char_ord" begin

text \<open>
  The canonical form of a Ricardian payload and its hash (\<open>ricardian/src/utils/canonicalize.ts\<close>,
  \<open>ricardian/src/utils/hash.ts\<close>).  A number is the text it prints as (\<open>Json\<close>), a string has code units up
  to 255, and texts are compared by their code units, as \<open>Array.prototype.sort\<close> does.
\<close>

section \<open>Objects in the order of the host\<close>

text \<open>
  A key that is the decimal form of an integer below \<open>2^32 - 1\<close> is an array index: the own properties of an
  object are its indices in ascending order, then its other keys in the order of their creation.
\<close>

definition array_index :: "string \<Rightarrow> nat option" where
  "array_index s =
     (let n = nat_of_digits 0 s in if all_digits s \<and> s = show_nat n \<and> n < 4294967295 then Some n else None)"

definition host_order :: "(string \<times> json) list \<Rightarrow> (string \<times> json) list" where
  "host_order ps =
     sort_key (\<lambda>(k, _). case array_index k of Some n \<Rightarrow> n | None \<Rightarrow> 0) (filter (\<lambda>(k, _). array_index k \<noteq> None) ps) @
     filter (\<lambda>(k, _). array_index k = None) ps"

section \<open>Canonical values\<close>

text \<open>A list of results, or the first error.\<close>

fun sequence :: "('e + 'a) list \<Rightarrow> 'e + 'a list" where
  "sequence [] = Inr []"
| "sequence (Inl e # rs) = Inl e"
| "sequence (Inr x # rs) = map_sum id (Cons x) (sequence rs)"

definition sorted_entries :: "(string \<times> json) list \<Rightarrow> (string \<times> json) list" where
  "sorted_entries ps = filter (\<lambda>(_, v). v \<noteq> J_undefined) (sort_key fst ps)"

lemma size_entry: "(k, v) \<in> set ps \<Longrightarrow> size v < Suc (size_list (size_prod (\<lambda>_. 0) size) ps)"
  by (induction ps) auto

function canonicalize :: "json \<Rightarrow> string + json" where
  "canonicalize J_null = Inr J_null"
| "canonicalize (J_str s) = Inr (J_str s)"
| "canonicalize (J_bool b) = Inr (J_bool b)"
| "canonicalize (J_num (Finite t)) = Inr (J_num (Finite t))"
| "canonicalize (J_num Not_finite) = Inl ''Non-finite numbers are not supported in Ricardian canonicalization''"
| "canonicalize (J_arr vs) = map_sum id J_arr (sequence (map canonicalize vs))"
| "canonicalize (J_obj ps) =
     map_sum id (\<lambda>cs. J_obj (host_order cs))
       (sequence (map (\<lambda>(k, v). map_sum id (Pair k) (canonicalize v)) (sorted_entries ps)))"
| "canonicalize J_undefined = Inl ''Unsupported value type in Ricardian payload: undefined''"
  by pat_completeness auto
termination
proof (relation "measure size", goal_cases)
  case (2 vs v)
  then show ?case by (auto simp: less_Suc_eq_le intro: size_list_estimation')
next
  case (3 ps x k v)
  then have "(k, v) \<in> set ps" by (auto simp: sorted_entries_def)
  from size_entry [OF this] show ?case by simp
qed simp

section \<open>JSON texts\<close>

definition hex_digit :: "nat \<Rightarrow> char" where
  "hex_digit n = (if n < 10 then char_of (48 + n) else char_of (87 + n))"

definition quote_char :: "char \<Rightarrow> string" where
  "quote_char c =
     (let n = (of_char c :: nat)
      in if n = 8 then [CHR 0x5C, CHR ''b'']
         else if n = 9 then [CHR 0x5C, CHR ''t'']
         else if n = 10 then [CHR 0x5C, CHR ''n'']
         else if n = 12 then [CHR 0x5C, CHR ''f'']
         else if n = 13 then [CHR 0x5C, CHR ''r'']
         else if n = 34 then [CHR 0x5C, CHR 0x22]
         else if n = 92 then [CHR 0x5C, CHR 0x5C]
         else if n < 32 then [CHR 0x5C, CHR ''u'', CHR ''0'', CHR ''0'', hex_digit (n div 16), hex_digit (n mod 16)]
         else [c])"

definition quote_json :: "string \<Rightarrow> string" where
  "quote_json s = [CHR 0x22] @ concat (map quote_char s) @ [CHR 0x22]"

text \<open>\<open>JSON.stringify\<close>; \<open>undefined\<close> is left out of objects and is \<open>null\<close> in an array.\<close>

fun stringify :: "json \<Rightarrow> string" where
  "stringify J_null = ''null''"
| "stringify J_undefined = ''null''"
| "stringify (J_bool b) = (if b then ''true'' else ''false'')"
| "stringify (J_str s) = quote_json s"
| "stringify (J_num (Finite t)) = t"
| "stringify (J_num Not_finite) = ''null''"
| "stringify (J_arr vs) = ''['' @ join_with '','' (map stringify vs) @ '']''"
| "stringify (J_obj ps) =
     ''{'' @ join_with '','' (map (\<lambda>(k, v). quote_json k @ '':'' @ stringify v)
       (filter (\<lambda>(_, v). v \<noteq> J_undefined) ps)) @ ''}''"

definition canonicalJsonStringify :: "json \<Rightarrow> string + string" where
  "canonicalJsonStringify v = map_sum id stringify (canonicalize v)"

section \<open>The hash\<close>

abbreviation rules_version :: string where
  "rules_version \<equiv> ''RICARDIAN_CANONICAL_V1''"

record hash_result =
  hr_requestId :: json
  hr_documentRef :: string
  hr_canonicalJson :: string
  hr_hash :: string
  hr_rulesVersion :: string
  hr_metadata :: json

definition canonical_payload :: "string \<Rightarrow> json \<Rightarrow> json \<Rightarrow> json" where
  "canonical_payload documentRef metadata terms =
     J_obj [(''documentRef'', J_str documentRef), (''metadata'', metadata), (''terms'', terms)]"

text \<open>\<open>!request.documentRef || request.documentRef.trim().length === 0\<close>; only a text has \<open>trim\<close>.\<close>

definition check_documentRef :: "json \<Rightarrow> string + string" where
  "check_documentRef v =
     (if json_falsy v then Inl ''documentRef is required''
      else (case v of
              J_str s \<Rightarrow> if trim s = [] then Inl ''documentRef is required'' else Inr s
            | _ \<Rightarrow> Inl ''request.documentRef.trim is not a function''))"

text \<open>\<open>sha256\<close> is the hash of the library, \<open>uuid\<close> what \<open>randomUUID\<close> returns.\<close>

definition buildRicardianHash :: "(string \<Rightarrow> string) \<Rightarrow> string \<Rightarrow> json \<Rightarrow> string + hash_result" where
  "buildRicardianHash sha256 uuid request =
     (case check_documentRef (json_get ''documentRef'' request) of
        Inl e \<Rightarrow> Inl e
      | Inr documentRef \<Rightarrow>
          (let terms = json_get ''terms'' request
           in if json_falsy terms \<or> \<not> json_is_object terms then Inl ''terms must be an object''
              else
                (let metadata = (let m = json_get ''metadata'' request in if json_falsy m then J_obj [] else m)
                 in case canonicalJsonStringify (canonical_payload documentRef metadata terms) of
                      Inl e \<Rightarrow> Inl e
                    | Inr canonicalJson \<Rightarrow>
                        Inr \<lparr>hr_requestId = (let r = json_get ''requestId'' request in if json_falsy r then J_str uuid else r),
                          hr_documentRef = documentRef, hr_canonicalJson = canonicalJson,
                          hr_hash = sha256 (rules_version @ '':'' @ canonicalJson), hr_rulesVersion = rules_version,
                          hr_metadata = metadata\<rparr>)))"

end
