(* ===== verification/Ric_Payloads.thy ===== *)
theory Ric_Payloads imports Main Ric_Canonical begin

text \<open>
  The JSON text of a canonical value determines it: \<open>stringify\<close> is a prefix code for texts that go on with a
  comma or a closing bracket.
  Printing is a prefix code, and with it the specification of the canonical text.
\<close>

section \<open>Strings\<close>

text \<open>Reading one quoted character back.\<close>

fun unquote :: "string \<Rightarrow> (char \<times> string) option" where
  "unquote [] = None"
| "unquote (c # r) =
     (if c \<noteq> CHR 0x5C then Some (c, r)
      else (case r of
              [] \<Rightarrow> None
            | d # r' \<Rightarrow>
                if d = CHR ''b'' then Some (char_of (8 :: nat), r')
                else if d = CHR ''t'' then Some (char_of (9 :: nat), r')
                else if d = CHR ''n'' then Some (char_of (10 :: nat), r')
                else if d = CHR ''f'' then Some (char_of (12 :: nat), r')
                else if d = CHR ''r'' then Some (char_of (13 :: nat), r')
                else if d = CHR ''u''
                then Some (char_of (16 * the (hex_val (r' ! 2)) + the (hex_val (r' ! 3))), drop 4 r')
                else Some (d, r')))"

lemma hex_val_digit: "n < 16 \<Longrightarrow> hex_val (hex_digit n) = Some n"
  by (simp add: hex_val_def hex_digit_def Let_def)

lemma unquote_char: "unquote (quote_char c @ r) = Some (c, r)"
proof -
  let ?n = "of_char c :: nat"
  have c: "char_of ?n = c" by simp
  have "16 * (?n div 16) + ?n mod 16 = ?n" by simp
  then have u: "char_of (16 * (?n div 16) + ?n mod 16) = c" using c by simp
  consider "?n \<in> {8, 9, 10, 12, 13, 34, 92}" | "?n < 32" "?n \<notin> {8, 9, 10, 12, 13}" | "32 \<le> ?n" "?n \<noteq> 34" "?n \<noteq> 92"
    by fastforce
  then show ?thesis
  proof cases
    case 1
    have k: "c = char_of k" if "?n = k" for k using that c by simp
    have e: "char_of (34 :: nat) = CHR 0x22" "char_of (92 :: nat) = CHR 0x5C" by code_simp+
    from 1 have "c \<in> {char_of (8 :: nat), char_of (9 :: nat), char_of (10 :: nat), char_of (12 :: nat),
      char_of (13 :: nat), CHR 0x22, CHR 0x5C}"
      using k [of 8] k [of 9] k [of 10] k [of 12] k [of 13] k [of 34] k [of 92] e by auto
    then show ?thesis by (elim insertE emptyE) (simp_all add: quote_char_def Let_def)
  next
    case 2
    then have "hex_val (hex_digit (?n div 16)) = Some (?n div 16)" "hex_val (hex_digit (?n mod 16)) = Some (?n mod 16)"
      by (auto intro!: hex_val_digit)
    with 2 u show ?thesis by (auto simp: quote_char_def Let_def)
  next
    case 3
    then have "c \<noteq> CHR 0x5C" by auto
    with 3 show ?thesis by (simp add: quote_char_def Let_def)
  qed
qed

lemma quote_char_prefix: "quote_char c @ r = quote_char d @ r' \<Longrightarrow> c = d \<and> r = r'"
  by (metis Pair_inject option.inject unquote_char)

lemma quote_char_head: "quote_char c = a # r \<Longrightarrow> a \<noteq> CHR 0x22"
proof
  assume q: "quote_char c = a # r" and a: "a = CHR 0x22"
  from unquote_char [of c "[]"] q a have "c = CHR 0x22" by simp
  with q a show False by (simp add: quote_char_def Let_def)
qed

lemma quote_char_Nil [simp]: "quote_char c \<noteq> []"
  by (simp add: quote_char_def Let_def)

lemma quoted_prefix:
  "concat (map quote_char s) @ CHR 0x22 # r = concat (map quote_char s') @ CHR 0x22 # r' \<Longrightarrow> s = s' \<and> r = r'"
proof (induction s arbitrary: s')
  case Nil
  then show ?case by (cases s') (auto simp: Cons_eq_append_conv dest: quote_char_head [OF sym])
next
  case (Cons c s)
  show ?case
  proof (cases s')
    case Nil
    with Cons.prems show ?thesis by (auto simp: append_eq_Cons_conv dest: quote_char_head)
  next
    case (Cons d t)
    with Cons.prems have "c = d" "concat (map quote_char s) @ CHR 0x22 # r = concat (map quote_char t) @ CHR 0x22 # r'"
      by (auto dest!: quote_char_prefix)
    with Cons.IH [of t] Cons show ?thesis by simp
  qed
qed

lemma quote_json_prefix: "quote_json s @ r = quote_json s' @ r' \<Longrightarrow> s = s' \<and> r = r'"
  by (auto simp: quote_json_def dest!: quoted_prefix)

section \<open>Numbers\<close>

definition num_char :: "char \<Rightarrow> bool" where
  "num_char c \<longleftrightarrow> is_digit c \<or> c \<in> {CHR ''+'', CHR ''-'', CHR ''.'', CHR ''e''}"

text \<open>The texts that numbers print as.\<close>

definition num_text :: "string \<Rightarrow> bool" where
  "num_text t \<longleftrightarrow> t \<noteq> [] \<and> list_all num_char t \<and> (is_digit (hd t) \<or> hd t = CHR ''-'')"

text \<open>What may follow a value in a JSON text.\<close>

definition closes :: "string \<Rightarrow> bool" where
  "closes r \<longleftrightarrow> r = [] \<or> hd r \<in> {CHR '','', CHR '']'', CHR ''}''}"

lemma num_prefix:
  assumes "num_text t" "num_text t'" "closes r" "closes r'" "t @ r = t' @ r'"
  shows "t = t' \<and> r = r'"
proof -
  have stop: "\<not> num_char c" if "c \<in> {CHR '','', CHR '']'', CHR ''}''}" for c
    using that by (auto simp: num_char_def is_digit_def)
  have "takeWhile num_char (x @ y) = x" if "num_text x" "closes y" for x y
  proof -
    have "takeWhile num_char y = []" using that(2) stop by (cases y) (auto simp: closes_def)
    with that(1) show ?thesis by (simp add: num_text_def list_all_iff takeWhile_append)
  qed
  from this [OF assms(1,3)] this [OF assms(2,4)] assms(5) show ?thesis by simp
qed

section \<open>Values\<close>

text \<open>The values that have a JSON text of their own.\<close>

fun printable :: "json \<Rightarrow> bool" where
  "printable J_null = True"
| "printable J_undefined = False"
| "printable (J_bool b) = True"
| "printable (J_str s) = True"
| "printable (J_num (Finite t)) = num_text t"
| "printable (J_num Not_finite) = False"
| "printable (J_arr vs) = list_all printable vs"
| "printable (J_obj ps) = list_all (\<lambda>(_, v). printable v) ps"

definition entry :: "string \<times> json \<Rightarrow> string" where
  "entry p = quote_json (fst p) @ CHR '':'' # stringify (snd p)"

text \<open>The items after the first of an array or object, each with the comma before it.\<close>

definition more_items :: "('a \<Rightarrow> string) \<Rightarrow> 'a list \<Rightarrow> string" where
  "more_items f xs = concat (map (\<lambda>x. CHR '','' # f x) xs)"

lemma join_items: "join_with '','' (map f (x # xs)) = f x @ more_items f xs"
proof (induction xs arbitrary: x)
  case (Cons y ys)
  then show ?case using Cons.IH [of y] by (simp add: more_items_def)
qed (simp add: more_items_def)

lemma more_items_closes: "c \<in> {CHR '']'', CHR ''}''} \<Longrightarrow> closes (more_items f xs @ c # r)"
  by (cases xs) (auto simp: more_items_def closes_def)

lemma more_items_prefix:
  assumes "\<And>x y r r'. x \<in> set xs \<Longrightarrow> y \<in> set ys \<Longrightarrow> closes r \<Longrightarrow> closes r' \<Longrightarrow> f x @ r = f y @ r' \<Longrightarrow> x = y \<and> r = r'"
    and "c \<in> {CHR '']'', CHR ''}''}" "more_items f xs @ c # r = more_items f ys @ c # r'"
  shows "xs = ys \<and> r = r'"
  using assms(1,3)
proof (induction xs arbitrary: ys)
  case Nil
  with assms(2) show ?case by (cases ys) (auto simp: more_items_def)
next
  case (Cons x xs)
  show ?case
  proof (cases ys)
    case Nil
    with Cons.prems(2) assms(2) show ?thesis by (auto simp: more_items_def)
  next
    case (Cons y ys')
    then have "f x @ (more_items f xs @ c # r) = f y @ (more_items f ys' @ c # r')"
      using Cons.prems(2) by (simp add: more_items_def)
    then have "x = y \<and> more_items f xs @ c # r = more_items f ys' @ c # r'"
      using Cons by (intro Cons.prems(1) more_items_closes assms(2)) simp_all
    with Cons.IH [of ys'] Cons.prems(1) Cons show ?thesis by auto
  qed
qed

lemma items_prefix:
  assumes "\<And>x y r r'. x \<in> set xs \<Longrightarrow> y \<in> set ys \<Longrightarrow> closes r \<Longrightarrow> closes r' \<Longrightarrow> f x @ r = f y @ r' \<Longrightarrow> x = y \<and> r = r'"
    and "c \<in> {CHR '']'', CHR ''}''}" "\<And>x. x \<in> set xs \<union> set ys \<Longrightarrow> f x \<noteq> [] \<and> hd (f x) \<noteq> c"
    and "join_with '','' (map f xs) @ c # r = join_with '','' (map f ys) @ c # r'"
  shows "xs = ys \<and> r = r'"
proof (cases xs; cases ys)
  fix x xs' y ys' assume xs: "xs = x # xs'" and ys: "ys = y # ys'"
  with assms(4) have "f x @ (more_items f xs' @ c # r) = f y @ (more_items f ys' @ c # r')"
    by (simp only: join_items append_assoc)
  then have "x = y \<and> more_items f xs' @ c # r = more_items f ys' @ c # r'"
    using xs ys by (intro assms(1) more_items_closes assms(2)) simp_all
  moreover from this have "xs' = ys' \<and> r = r'"
    using xs ys by (intro more_items_prefix [of xs' ys' f c r r'] assms(1,2)) simp_all
  ultimately show ?thesis using xs ys by simp
next
  fix x xs' assume "xs = x # xs'" "ys = []"
  with assms(3) [of x] assms(4) show ?thesis by (simp only: join_items) (cases "f x"; auto)
next
  fix y ys' assume "xs = []" "ys = y # ys'"
  with assms(3) [of y] assms(4) show ?thesis by (simp only: join_items) (cases "f y"; auto)
qed (use assms(4) in simp)

text \<open>The first character tells the kind of a value.\<close>

definition kind_char :: "json \<Rightarrow> char" where
  "kind_char v = (case v of
     J_null \<Rightarrow> CHR ''n'' | J_undefined \<Rightarrow> CHR ''n'' | J_bool b \<Rightarrow> if b then CHR ''t'' else CHR ''f''
   | J_str _ \<Rightarrow> CHR 0x22 | J_num _ \<Rightarrow> CHR ''0'' | J_arr _ \<Rightarrow> CHR ''['' | J_obj _ \<Rightarrow> CHR ''{'')"

definition head_kind :: "char \<Rightarrow> char" where
  "head_kind c = (if is_digit c \<or> c = CHR ''-'' then CHR ''0'' else c)"

lemma stringify_head: "printable v \<Longrightarrow> stringify v \<noteq> [] \<and> head_kind (hd (stringify v)) = kind_char v"
proof (cases v)
  case (J_num n)
  assume "printable v"
  with J_num show ?thesis by (cases n) (auto simp: head_kind_def kind_char_def num_text_def)
qed (auto simp: head_kind_def kind_char_def is_digit_def quote_json_def)

lemma stringify_obj: "list_all (\<lambda>(_, v). printable v) ps \<Longrightarrow> stringify (J_obj ps) = ''{'' @ join_with '','' (map entry ps) @ ''}''"
proof -
  assume "list_all (\<lambda>(_, v). printable v) ps"
  then have "filter (\<lambda>(_, v). v \<noteq> J_undefined) ps = ps" by (auto simp: list_all_iff intro!: filter_True)
  moreover have "(\<lambda>(k, v). quote_json k @ CHR '':'' # stringify v) = entry" by (auto simp: entry_def fun_eq_iff)
  ultimately show ?thesis by simp
qed

lemma same_kind:
  assumes "printable v" "printable v'" "stringify v @ r = stringify v' @ r'"
  shows "kind_char v = kind_char v'"
  using stringify_head [OF assms(1)] stringify_head [OF assms(2)] assms(3) by (metis hd_append2)

lemma entry_prefix:
  assumes "\<And>r r'. closes r \<Longrightarrow> closes r' \<Longrightarrow> stringify (snd p) @ r = stringify (snd q) @ r' \<Longrightarrow> snd p = snd q \<and> r = r'"
    and "closes r" "closes r'" "entry p @ r = entry q @ r'"
  shows "p = q \<and> r = r'"
proof -
  have "fst p = fst q" "stringify (snd p) @ r = stringify (snd q) @ r'"
    using assms(4) by (auto simp: entry_def dest!: quote_json_prefix)
  with assms(1) [OF assms(2,3)] show ?thesis by (simp add: prod_eq_iff)
qed

theorem stringify_prefix:
  assumes "printable v" "printable v'" "closes r" "closes r'" "stringify v @ r = stringify v' @ r'"
  shows "v = v' \<and> r = r'"
  using assms
proof (induction v arbitrary: v' r r')
  case (J_arr vs)
  from same_kind [OF J_arr.prems(1,2,5)] obtain vs' where v': "v' = J_arr vs'"
    by (cases v') (auto simp: kind_char_def split: if_splits)
  have p: "printable x" if "x \<in> set vs \<union> set vs'" for x
    using J_arr.prems(1,2) v' that by (auto simp: list_all_iff)
  have "vs = vs' \<and> r = r'"
  proof (rule items_prefix)
    show "x = y \<and> q = q'" if "x \<in> set vs" "y \<in> set vs'" "closes q" "closes q'" "stringify x @ q = stringify y @ q'" for x y q q'
      by (rule J_arr.IH [OF that(1) _ _ that(3-5)]) (use p that in simp_all)
    show "stringify x \<noteq> [] \<and> hd (stringify x) \<noteq> CHR '']''" if "x \<in> set vs \<union> set vs'" for x
      using stringify_head [OF p [OF that]] by (cases x) (auto simp: kind_char_def head_kind_def is_digit_def split: if_splits)
    show "join_with '','' (map stringify vs) @ CHR '']'' # r = join_with '','' (map stringify vs') @ CHR '']'' # r'"
      using J_arr.prems(5) v' by simp
  qed simp
  with v' show ?case by simp
next
  case (J_obj ps)
  from same_kind [OF J_obj.prems(1,2,5)] obtain ps' where v': "v' = J_obj ps'"
    by (cases v') (auto simp: kind_char_def split: if_splits)
  have p: "printable (snd x)" if "x \<in> set ps \<union> set ps'" for x
    using J_obj.prems(1,2) v' that by (auto simp: list_all_iff)
  have "ps = ps' \<and> r = r'"
  proof (rule items_prefix)
    show "x = y \<and> q = q'" if "x \<in> set ps" "y \<in> set ps'" "closes q" "closes q'" "entry x @ q = entry y @ q'" for x y q q'
    proof (rule entry_prefix [OF _ that(3-5)])
      show "snd x = snd y \<and> s = s'" if "closes s" "closes s'" "stringify (snd x) @ s = stringify (snd y) @ s'" for s s'
        by (rule J_obj.IH [OF \<open>x \<in> set ps\<close> _ _ _ that]) (use p \<open>x \<in> set ps\<close> \<open>y \<in> set ps'\<close> in \<open>simp_all add: snds.simps\<close>)
    qed
    show "entry x \<noteq> [] \<and> hd (entry x) \<noteq> CHR ''}''" for x
      by (simp add: entry_def quote_json_def)
    show "join_with '','' (map entry ps) @ CHR ''}'' # r = join_with '','' (map entry ps') @ CHR ''}'' # r'"
      using J_obj.prems(1,2,5) v' stringify_obj [of ps] stringify_obj [of ps'] by (simp del: stringify.simps)
  qed simp
  with v' show ?case by simp
next
  case (J_num n)
  from same_kind [OF J_num.prems(1,2,5)] obtain m where v': "v' = J_num m"
    by (cases v') (auto simp: kind_char_def split: if_splits)
  from J_num.prems(1,2) v' obtain t t' where t: "n = Finite t" "m = Finite t'" "num_text t" "num_text t'"
    by (cases n; cases m) simp_all
  with num_prefix [OF t(3,4) J_num.prems(3,4)] J_num.prems(5) v' show ?case by simp
next
  case (J_str s)
  from same_kind [OF J_str.prems(1,2,5)] obtain s' where v': "v' = J_str s'"
    by (cases v') (auto simp: kind_char_def split: if_splits)
  with J_str.prems(5) quote_json_prefix [of s r s' r'] show ?case by simp
next
  case (J_bool b)
  from same_kind [OF J_bool.prems(1,2,5)] obtain b' where "v' = J_bool b'" "b = b'"
    by (cases v') (auto simp: kind_char_def split: if_splits)
  with J_bool.prems(5) show ?case by simp
next
  case J_null
  from same_kind [OF J_null.prems(1,2,5)] J_null.prems(2) have "v' = J_null"
    by (cases v') (auto simp: kind_char_def split: if_splits)
  with J_null.prems(5) show ?case by simp
qed simp

section \<open>Payloads\<close>

text \<open>
  Canonicalization against its specification: two payloads have the same canonical text exactly when they
  are the same up to the order of the keys of their objects.
\<close>

section \<open>The specification\<close>

inductive same_json :: "json \<Rightarrow> json \<Rightarrow> bool" where
  same_null: "same_json J_null J_null"
| same_bool: "same_json (J_bool b) (J_bool b)"
| same_str: "same_json (J_str s) (J_str s)"
| same_num: "same_json (J_num n) (J_num n)"
| same_arr: "list_all2 same_json xs ys \<Longrightarrow> same_json (J_arr xs) (J_arr ys)"
| same_obj: "dom (map_of ps) = dom (map_of qs) \<Longrightarrow>
    (\<And>k x y. map_of ps k = Some x \<Longrightarrow> map_of qs k = Some y \<Longrightarrow> same_json x y) \<Longrightarrow>
    same_json (J_obj ps) (J_obj qs)"
monos list.rel_mono_strong

inductive_cases same_arrE: "same_json (J_arr xs) v"
inductive_cases same_objE: "same_json (J_obj ps) v"

lemma same_objD:
  "same_json (J_obj ps) (J_obj qs) \<Longrightarrow> map_of ps k = Some x \<Longrightarrow> map_of qs k = Some y \<Longrightarrow> same_json x y"
  by (erule same_objE) auto

text \<open>The values that \<open>JSON.parse\<close> returns: no \<open>undefined\<close>, and the keys of an object are distinct.\<close>

fun parsed_json :: "json \<Rightarrow> bool" where
  "parsed_json J_null = True"
| "parsed_json J_undefined = False"
| "parsed_json (J_bool b) = True"
| "parsed_json (J_str s) = True"
| "parsed_json (J_num (Finite t)) = num_text t"
| "parsed_json (J_num Not_finite) = True"
| "parsed_json (J_arr vs) = list_all parsed_json vs"
| "parsed_json (J_obj ps) = (distinct (map fst ps) \<and> list_all (\<lambda>(_, v). parsed_json v) ps)"

section \<open>Lists of entries\<close>

lemma map_sum_Inr: "map_sum id f s = Inr y \<longleftrightarrow> (\<exists>x. s = Inr x \<and> y = f x)"
  by (cases s) auto

lemma sequence_map_Inr: "sequence (map Inr xs) = Inr xs"
  by (induction xs) simp_all

lemma sequence_Inr: "sequence rs = Inr xs \<longleftrightarrow> rs = map Inr xs"
proof
  show "sequence rs = Inr xs \<Longrightarrow> rs = map Inr xs"
    by (induction rs arbitrary: xs rule: sequence.induct) (auto simp: map_sum_Inr)
qed (simp add: sequence_map_Inr)

lemma set_host_order: "set (host_order ps) = set ps"
  by (auto simp: host_order_def)

lemma distinct_host_order: "distinct (map fst ps) \<Longrightarrow> distinct (map fst (host_order ps))"
  by (auto simp: host_order_def distinct_map case_prod_unfold inj_on_def distinct_filter)

lemma map_of_host_order: "distinct (map fst ps) \<Longrightarrow> map_of (host_order ps) = map_of ps"
  by (rule map_of_inject_set [THEN iffD2]) (simp_all add: set_host_order distinct_host_order)

lemma sorted_keys:
  assumes "distinct (map fst ps)"
  shows "sort_key fst ps = map (\<lambda>k. (k, the (map_of ps k))) (sorted_list_of_set (dom (map_of ps)))"
proof -
  have d: "distinct (map fst (sort_key fst ps))" using assms by (simp add: distinct_map)
  have "sorted_list_of_set (set (map fst (sort_key fst ps))) = map fst (sort_key fst ps)"
    by (rule sorted_list_of_set.idem_if_sorted_distinct) (use d in simp_all)
  then have k: "sorted_list_of_set (dom (map_of ps)) = map fst (sort_key fst ps)"
    by (simp add: dom_map_of_conv_image_fst)
  have "map (\<lambda>k. (k, the (map_of ps k))) (map fst (sort_key fst ps)) = sort_key fst ps"
    using assms by (auto simp: map_of_eq_Some_iff intro!: map_idI)
  then show ?thesis unfolding k by simp
qed

lemma sorted_entries_parsed:
  assumes "parsed_json (J_obj ps)"
  shows "sorted_entries ps = map (\<lambda>k. (k, the (map_of ps k))) (sorted_list_of_set (dom (map_of ps)))"
proof -
  have "snd p \<noteq> J_undefined" if "p \<in> set ps" for p
    using assms that by (auto simp: list_all_iff)
  then have "sorted_entries ps = sort_key fst ps"
    by (force simp: sorted_entries_def case_prod_unfold intro: filter_True)
  with sorted_keys [of ps] assms show ?thesis by simp
qed

lemma parsed_value: "parsed_json (J_obj ps) \<Longrightarrow> map_of ps k = Some v \<Longrightarrow> parsed_json v"
  by (auto simp: list_all_iff dest!: map_of_SomeD)

section \<open>The same payload has the same canonical form\<close>

lemma same_canonical:
  "same_json v v' \<Longrightarrow> parsed_json v \<Longrightarrow> parsed_json v' \<Longrightarrow> canonicalize v = canonicalize v'"
proof (induction rule: same_json.induct)
  case (same_arr xs ys)
  then have "map canonicalize xs = map canonicalize ys"
    by (induction rule: list_all2_induct) (auto simp: list_all_iff)
  then show ?case by simp
next
  case (same_obj ps qs)
  have "canonicalize (the (map_of ps k)) = canonicalize (the (map_of qs k))" if k: "k \<in> dom (map_of ps)" for k
  proof -
    obtain x y where "map_of ps k = Some x" "map_of qs k = Some y" using k same_obj.hyps(1) by blast
    with same_obj.IH parsed_value same_obj.prems show ?thesis by auto
  qed
  moreover have "set (sorted_list_of_set (dom (map_of qs))) = dom (map_of qs)"
    by (simp add: finite_dom_map_of)
  ultimately have "map (\<lambda>(k, v). map_sum id (Pair k) (canonicalize v)) (sorted_entries ps) =
      map (\<lambda>(k, v). map_sum id (Pair k) (canonicalize v)) (sorted_entries qs)"
    using same_obj.hyps(1) sorted_entries_parsed [OF same_obj.prems(1)] sorted_entries_parsed [OF same_obj.prems(2)]
    by simp
  then show ?case by simp
qed simp_all

section \<open>The same canonical form comes from the same payload\<close>

lemma canonical_entries:
  assumes "canonicalize (J_obj ps) = Inr c" "parsed_json (J_obj ps)"
  obtains cs where "c = J_obj (host_order cs)" "distinct (map fst cs)" "dom (map_of cs) = dom (map_of ps)"
    "\<And>k x. map_of ps k = Some x \<Longrightarrow> \<exists>d. map_of cs k = Some d \<and> canonicalize x = Inr d"
proof -
  let ?ks = "sorted_list_of_set (dom (map_of ps))"
  have fin: "finite (dom (map_of ps))" by (rule finite_dom_map_of)
  obtain cs where c: "c = J_obj (host_order cs)"
    and cs: "map (\<lambda>k. map_sum id (Pair k) (canonicalize (the (map_of ps k)))) ?ks = map Inr cs"
    using assms(1) by (auto simp: map_sum_Inr sequence_Inr sorted_entries_parsed [OF assms(2)] comp_def)
  have "\<exists>d. cs ! i = (?ks ! i, d) \<and> canonicalize (the (map_of ps (?ks ! i))) = Inr d" if i: "i < length ?ks" for i
  proof -
    have "map_sum id (Pair (?ks ! i)) (canonicalize (the (map_of ps (?ks ! i)))) = Inr (cs ! i)"
      using arg_cong [OF cs, of "\<lambda>l. l ! i"] i map_eq_imp_length_eq [OF cs] by simp
    then show ?thesis by (auto simp: map_sum_Inr)
  qed
  note nth = this
  have len: "length cs = length ?ks" using map_eq_imp_length_eq [OF cs] by simp
  have keys: "map fst cs = ?ks"
  proof (rule nth_equalityI)
    show "map fst cs ! i = ?ks ! i" if i: "i < length (map fst cs)" for i
      using nth [of i] i len by (metis fst_conv length_map nth_map)
  qed (simp add: len)
  then have d: "distinct (map fst cs)" by simp
  moreover have "dom (map_of cs) = dom (map_of ps)"
    using keys fin by (metis dom_map_of_conv_image_fst list.set_map sorted_list_of_set.set_sorted_key_list_of_set)
  moreover have "\<exists>e. map_of cs k = Some e \<and> canonicalize x = Inr e" if k: "map_of ps k = Some x" for k x
  proof -
    obtain i where i: "i < length ?ks" "?ks ! i = k" using k fin by (metis domI in_set_conv_nth sorted_list_of_set.set_sorted_key_list_of_set)
    from nth [OF i(1)] i k obtain e where e: "cs ! i = (k, e)" "canonicalize x = Inr e" by auto
    then have "map_of cs k = Some e" using d i(1) len by (metis map_of_is_SomeI nth_mem)
    with e show ?thesis by blast
  qed
  ultimately show thesis using c that by blast
qed

lemma canonical_same:
  "canonicalize v = Inr c \<Longrightarrow> canonicalize v' = Inr c \<Longrightarrow> parsed_json v \<Longrightarrow> parsed_json v' \<Longrightarrow> same_json v v'"
proof (induction v arbitrary: v' c)
  case (J_arr xs)
  then obtain cs where c: "c = J_arr cs" "map canonicalize xs = map Inr cs" by (auto simp: map_sum_Inr sequence_Inr)
  with J_arr.prems(2) obtain ys where v': "v' = J_arr ys" "map canonicalize ys = map Inr cs"
    by (cases v' rule: canonicalize.cases) (auto simp: map_sum_Inr sequence_Inr)
  have "list_all2 same_json xs ys"
  proof (rule list_all2_all_nthI)
    show len: "length xs = length ys" using c(2) v'(2) by (metis length_map)
    show "same_json (xs ! i) (ys ! i)" if i: "i < length xs" for i
    proof (rule J_arr.IH)
      show "xs ! i \<in> set xs" using i by simp
      show "canonicalize (xs ! i) = Inr (cs ! i)"
        using arg_cong [OF c(2), of "\<lambda>l. l ! i"] i map_eq_imp_length_eq [OF c(2)] by simp
      show "canonicalize (ys ! i) = Inr (cs ! i)"
        using arg_cong [OF v'(2), of "\<lambda>l. l ! i"] i len map_eq_imp_length_eq [OF v'(2)] by simp
      show "parsed_json (xs ! i)" "parsed_json (ys ! i)" using J_arr.prems(3,4) v'(1) i len by (simp_all add: list_all_iff)
    qed
  qed
  with v'(1) show ?case by (auto intro: same_json.intros)
next
  case (J_obj ps)
  from canonical_entries [OF J_obj.prems(1,3)] obtain cs where
    c: "c = J_obj (host_order cs)" "distinct (map fst cs)" "dom (map_of cs) = dom (map_of ps)"
    and p: "\<And>k x. map_of ps k = Some x \<Longrightarrow> \<exists>d. map_of cs k = Some d \<and> canonicalize x = Inr d" by metis
  from J_obj.prems(2) c(1) obtain qs where v': "v' = J_obj qs"
    by (cases v' rule: canonicalize.cases) (auto simp: map_sum_Inr)
  from canonical_entries [OF J_obj.prems(2,4) [unfolded v']] obtain ds where
    d: "c = J_obj (host_order ds)" "distinct (map fst ds)" "dom (map_of ds) = dom (map_of qs)"
    and q: "\<And>k x. map_of qs k = Some x \<Longrightarrow> \<exists>d. map_of ds k = Some d \<and> canonicalize x = Inr d" by metis
  have eq: "map_of cs = map_of ds" using c(1,2) d(1,2) map_of_host_order by (metis json.inject(5))
  show ?case unfolding v'
  proof (rule same_obj)
    show "dom (map_of ps) = dom (map_of qs)" using c(3) d(3) eq by simp
    show "same_json x y" if k: "map_of ps k = Some x" "map_of qs k = Some y" for k x y
    proof -
      from p [OF k(1)] q [OF k(2)] eq obtain e where "canonicalize x = Inr e" "canonicalize y = Inr e" by auto
      moreover have "(k, x) \<in> set ps" using k(1) by (rule map_of_SomeD)
      ultimately show ?thesis
        using J_obj.IH [of "(k, x)" x e y] parsed_value [OF J_obj.prems(3) k(1)] parsed_value [of qs k y] J_obj.prems(4) k(2) v'
        by (simp add: snds.simps)
    qed
  qed
next
  case (J_num n)
  then show ?case by (cases n; cases v' rule: canonicalize.cases) (auto simp: map_sum_Inr intro: same_json.intros)
next
  case (J_str s)
  then show ?case by (cases v' rule: canonicalize.cases) (auto simp: map_sum_Inr intro: same_json.intros)
next
  case (J_bool b)
  then show ?case by (cases v' rule: canonicalize.cases) (auto simp: map_sum_Inr intro: same_json.intros)
next
  case J_null
  then show ?case by (cases v' rule: canonicalize.cases) (auto simp: map_sum_Inr intro: same_json.intros)
qed simp

section \<open>The canonical text\<close>

lemma canonical_printable: "canonicalize v = Inr c \<Longrightarrow> parsed_json v \<Longrightarrow> printable c"
proof (induction v arbitrary: c)
  case (J_arr xs)
  then obtain cs where c: "c = J_arr cs" "map canonicalize xs = map Inr cs" by (auto simp: map_sum_Inr sequence_Inr)
  have "printable d" if "d \<in> set cs" for d
  proof -
    from that c(2) obtain x where "x \<in> set xs" "canonicalize x = Inr d" by (metis (no_types, lifting) image_iff list.set_map)
    with J_arr show ?thesis by (auto simp: list_all_iff)
  qed
  with c(1) show ?case by (simp add: list_all_iff)
next
  case (J_obj ps)
  from canonical_entries [OF J_obj.prems] obtain cs where c: "c = J_obj (host_order cs)" "distinct (map fst cs)"
    "dom (map_of cs) = dom (map_of ps)"
    and p: "\<And>k x. map_of ps k = Some x \<Longrightarrow> \<exists>d. map_of cs k = Some d \<and> canonicalize x = Inr d" by metis
  have "printable d" if k: "(k, d) \<in> set cs" for k d
  proof -
    have d: "map_of cs k = Some d" using k c(2) by simp
    with c(3) obtain x where x: "map_of ps k = Some x" by blast
    with p [OF x] d have "canonicalize x = Inr d" by simp
    moreover have "(k, x) \<in> set ps" using x by (rule map_of_SomeD)
    ultimately show ?thesis
      using J_obj.IH [of "(k, x)" x d] parsed_value [OF J_obj.prems(2) x] by (simp add: snds.simps)
  qed
  with c(1) show ?case by (auto simp: list_all_iff set_host_order)
next
  case (J_num n)
  then show ?case by (cases n) auto
qed auto

theorem canonical_text_iff:
  assumes "parsed_json v" "parsed_json v'" "canonicalJsonStringify v = Inr s" "canonicalJsonStringify v' = Inr s'"
  shows "s = s' \<longleftrightarrow> same_json v v'"
proof -
  obtain c c' where c: "canonicalize v = Inr c" "s = stringify c" "canonicalize v' = Inr c'" "s' = stringify c'"
    using assms(3,4) by (auto simp: canonicalJsonStringify_def map_sum_Inr)
  have "s = s' \<longleftrightarrow> c = c'"
    using stringify_prefix [OF canonical_printable [OF c(1) assms(1)] canonical_printable [OF c(3) assms(2)], of "[]" "[]"] c(2,4)
    by (auto simp: closes_def)
  also have "\<dots> \<longleftrightarrow> same_json v v'"
    using canonical_same [of v c v'] same_canonical [of v v'] c(1,3) assms(1,2) by auto
  finally show ?thesis .
qed

section \<open>Requests\<close>

text \<open>What \<open>buildRicardianHash\<close> makes of a request that it accepts.\<close>

lemma check_documentRef_Inr: "check_documentRef v = Inr d \<Longrightarrow> v = J_str d"
  by (cases v) (auto simp: check_documentRef_def split: if_splits)

lemma built_hash:
  assumes "buildRicardianHash sha256 uuid request = Inr r"
  obtains terms where "json_get ''documentRef'' request = J_str (hr_documentRef r)" "json_get ''terms'' request = terms"
    "json_is_object terms" "canonicalJsonStringify (canonical_payload (hr_documentRef r) (hr_metadata r) terms) = Inr (hr_canonicalJson r)"
    "hr_hash r = sha256 (rules_version @ '':'' @ hr_canonicalJson r)"
    "hr_metadata r = (if json_falsy (json_get ''metadata'' request) then J_obj [] else json_get ''metadata'' request)"
proof -
  let ?m = "if json_falsy (json_get ''metadata'' request) then J_obj [] else json_get ''metadata'' request"
  obtain d where d: "check_documentRef (json_get ''documentRef'' request) = Inr d"
    using assms by (cases "check_documentRef (json_get ''documentRef'' request)") (simp_all add: buildRicardianHash_def)
  let ?t = "json_get ''terms'' request"
  have t: "\<not> (json_falsy ?t \<or> \<not> json_is_object ?t)"
    using assms d by (cases "json_falsy ?t \<or> \<not> json_is_object ?t") (simp_all add: buildRicardianHash_def Let_def)
  obtain c where c: "canonicalJsonStringify (canonical_payload d ?m ?t) = Inr c"
    using assms d t by (cases "canonicalJsonStringify (canonical_payload d ?m ?t)") (simp_all add: buildRicardianHash_def Let_def)
  have "buildRicardianHash sha256 uuid request = Inr
     \<lparr>hr_requestId = (let r = json_get ''requestId'' request in if json_falsy r then J_str uuid else r),
      hr_documentRef = d, hr_canonicalJson = c, hr_hash = sha256 (rules_version @ '':'' @ c),
      hr_rulesVersion = rules_version, hr_metadata = ?m\<rparr>"
    unfolding buildRicardianHash_def d Let_def using t c by (simp del: json_falsy.simps)
  then have "r = \<lparr>hr_requestId = (let r = json_get ''requestId'' request in if json_falsy r then J_str uuid else r),
      hr_documentRef = d, hr_canonicalJson = c, hr_hash = sha256 (rules_version @ '':'' @ c),
      hr_rulesVersion = rules_version, hr_metadata = ?m\<rparr>"
    unfolding assms by (rule sum.inject(2) [THEN iffD1])
  then have "hr_documentRef r = d" "hr_metadata r = ?m" "hr_canonicalJson r = c"
    "hr_hash r = sha256 (rules_version @ '':'' @ c)" by simp_all
  with check_documentRef_Inr [OF d] t c show thesis by (intro that [of ?t]) simp_all
qed

lemma parsed_get: "parsed_json request \<Longrightarrow> json_get k request = J_undefined \<or> parsed_json (json_get k request)"
  by (cases request) (auto simp: json_get_def list_all_iff split: option.splits dest!: map_of_SomeD)

lemma same_payload:
  "same_json (canonical_payload d m t) (canonical_payload d' m' t') \<longleftrightarrow> d = d' \<and> same_json m m' \<and> same_json t t'"
proof
  let ?ps = "[(''documentRef'', J_str d), (''metadata'', m), (''terms'', t)]"
  let ?qs = "[(''documentRef'', J_str d'), (''metadata'', m'), (''terms'', t')]"
  assume "same_json (canonical_payload d m t) (canonical_payload d' m' t')"
  then have same: "same_json x y" if "map_of ?ps k = Some x" "map_of ?qs k = Some y" for k x y
    unfolding canonical_payload_def using that by (rule same_objD)
  have "same_json (J_str d) (J_str d')" by (rule same [of "''documentRef''"]) simp_all
  moreover have "same_json m m'" by (rule same [of "''metadata''"]) simp_all
  moreover have "same_json t t'" by (rule same [of "''terms''"]) simp_all
  ultimately show "d = d' \<and> same_json m m' \<and> same_json t t'" by (auto elim: same_json.cases)
next
  assume "d = d' \<and> same_json m m' \<and> same_json t t'"
  then show "same_json (canonical_payload d m t) (canonical_payload d' m' t')"
    unfolding canonical_payload_def by (intro same_obj) (auto split: if_splits intro: same_str)
qed

lemma parsed_payload: "parsed_json m \<Longrightarrow> parsed_json t \<Longrightarrow> parsed_json (canonical_payload d m t)"
  by (simp add: canonical_payload_def)

lemma built_text_iff:
  assumes "parsed_json request" "parsed_json request'"
    and "buildRicardianHash sha256 uuid request = Inr r" "buildRicardianHash sha256 uuid' request' = Inr r'"
  shows "hr_canonicalJson r = hr_canonicalJson r' \<longleftrightarrow>
    hr_documentRef r = hr_documentRef r' \<and> same_json (hr_metadata r) (hr_metadata r') \<and>
    same_json (json_get ''terms'' request) (json_get ''terms'' request')"
proof -
  have meta: "parsed_json (if json_falsy (json_get ''metadata'' q) then J_obj [] else json_get ''metadata'' q)" if "parsed_json q" for q
    using parsed_get [OF that, of "''metadata''"] by auto
  have terms: "parsed_json (json_get ''terms'' q)" if "parsed_json q" "json_is_object (json_get ''terms'' q)" for q
    using parsed_get [OF that(1), of "''terms''"] that(2) by auto
  have built: "json_is_object (json_get ''terms'' q) \<and> parsed_json (hr_metadata x) \<and>
      canonicalJsonStringify (canonical_payload (hr_documentRef x) (hr_metadata x) (json_get ''terms'' q)) = Inr (hr_canonicalJson x)"
    if "buildRicardianHash sha256 u q = Inr x" "parsed_json q" for q x u
    by (rule built_hash [OF that(1)]) (use meta [OF that(2)] in simp)
  note b = built [OF assms(3,1)] and b' = built [OF assms(4,2)]
  show ?thesis
    using b b' terms assms(1,2) by (subst canonical_text_iff [OF parsed_payload parsed_payload]) (auto simp: same_payload)
qed

end
