(* ===== verification/Ric_Limiter.thy ===== *)
theory Ric_Limiter imports Main Effect Js_Text begin

text \<open>
  The rate limiter of the Ricardian service (\<open>ricardian/src/rateLimit/limiter.ts\<close>) with its in-memory store: two
  fixed windows, a short and a long one, for each caller and kind of route.  Times are in seconds.
  The second half bounds how many requests pass.
\<close>

section \<open>Configuration\<close>

record window_config =
  wc_limit :: int
  wc_windowSeconds :: int

record route_limits =
  rl_burst :: window_config
  rl_sustained :: window_config

record limiter_config =
  lc_enabled :: bool
  lc_writeRoute :: route_limits
  lc_readRoute :: route_limits

definition validateConfig :: "limiter_config \<Rightarrow> string + unit" where
  "validateConfig config =
     (let windows = [rl_burst (lc_writeRoute config), rl_sustained (lc_writeRoute config),
            rl_burst (lc_readRoute config), rl_sustained (lc_readRoute config)];
          bad = filter (\<lambda>w. wc_limit w \<le> 0 \<or> wc_windowSeconds w \<le> 0) windows
      in case bad of
           [] \<Rightarrow> Inr ()
         | w # _ \<Rightarrow> Inl (if wc_limit w \<le> 0 then ''Rate limit value must be > 0'' else ''Rate limit window must be > 0''))"

section \<open>The stores\<close>

record store_result =
  sr_count :: int
  sr_resetSeconds :: int

text \<open>The buckets of the in-memory store: a count and the time at which it expires.\<close>

type_synonym buckets = "string \<rightharpoonup> int \<times> int"

definition bucket_key :: "string \<Rightarrow> int \<Rightarrow> string" where
  "bucket_key key windowSeconds = key @ '':'' @ show_int windowSeconds"

definition incrementAndGet :: "string \<Rightarrow> int \<Rightarrow> int \<Rightarrow> buckets \<Rightarrow> store_result \<times> buckets" where
  "incrementAndGet key windowSeconds nowSeconds b =
     (let k = bucket_key key windowSeconds
      in case b k of
           None \<Rightarrow> (\<lparr>sr_count = 1, sr_resetSeconds = windowSeconds\<rparr>, b(k \<mapsto> (1, nowSeconds + windowSeconds)))
         | Some (c, expiresAt) \<Rightarrow>
             if expiresAt \<le> nowSeconds
             then (\<lparr>sr_count = 1, sr_resetSeconds = windowSeconds\<rparr>, b(k \<mapsto> (1, nowSeconds + windowSeconds)))
             else (\<lparr>sr_count = c + 1, sr_resetSeconds = max 0 (expiresAt - nowSeconds)\<rparr>, b(k \<mapsto> (c + 1, expiresAt))))"

text \<open>
  The Redis store: the key and the reset of a window that starts at a multiple of its length; \<open>incr\<close> is the
  answer of \<open>INCR\<close>, and an expiry is set when it is the first.
\<close>

definition redis_key :: "string \<Rightarrow> int \<Rightarrow> int \<Rightarrow> string" where
  "redis_key key windowSeconds nowSeconds =
     ''ricardian:rate-limit:'' @ key @ '':'' @ show_int windowSeconds @ '':'' @ show_int (nowSeconds div windowSeconds)"

definition redis_increment ::
  "(string \<Rightarrow> ('e, 'w, int) eff) \<Rightarrow> (string \<Rightarrow> int \<Rightarrow> ('e, 'w, unit) eff) \<Rightarrow> string \<Rightarrow> int \<Rightarrow> int \<Rightarrow>
   ('e, 'w, store_result) eff" where
  "redis_increment incr expire key windowSeconds nowSeconds =
     (let redisKey = redis_key key windowSeconds nowSeconds
      in bindE (incr redisKey) (\<lambda>count.
         seqE (if count = 1 then expire redisKey windowSeconds else ret ())
           (ret \<lparr>sr_count = count, sr_resetSeconds = windowSeconds - nowSeconds mod windowSeconds\<rparr>)))"

text \<open>Which store the limiter gets; \<open>connection\<close> is why Redis does not answer, if it does not.\<close>

datatype store_mode = Store_memory | Store_redis

definition chooseStore :: "string option \<Rightarrow> string \<Rightarrow> string option \<Rightarrow> string + store_mode" where
  "chooseStore redisUrl nodeEnv connection =
     (if \<not> truthy_opt redisUrl
      then (if nodeEnv = ''production''
            then Inl ''RATE_LIMIT_REDIS_URL is required when RATE_LIMIT_ENABLED=true in production''
            else Inr Store_memory)
      else (case connection of
              None \<Rightarrow> Inr Store_redis
            | Some m \<Rightarrow>
                if nodeEnv = ''production'' then Inl (''Failed to connect rate limiter to Redis: '' @ m)
                else Inr Store_memory))"

section \<open>Callers and routes\<close>

record limiter_request =
  lq_method :: string
  lq_path :: string
  lq_ip :: "string option"
  lq_remoteAddress :: "string option"
  lq_apiKeyId :: "string option"

datatype key_type = Key_ip | Key_apiKey_ip

definition callerContext :: "limiter_request \<Rightarrow> string \<times> key_type" where
  "callerContext req =
     (let ip = or_else (lq_ip req) (or_else (lq_remoteAddress req) ''unknown''); apiKeyId = or_else (lq_apiKeyId req) []
      in if apiKeyId \<noteq> [] then (''apiKey:'' @ apiKeyId @ '':ip:'' @ ip, Key_apiKey_ip) else (''ip:'' @ ip, Key_ip))"

text \<open>\<open>path.replace(/\/+$/, '')\<close>\<close>

definition normalizeRoutePath :: "string \<Rightarrow> string" where
  "normalizeRoutePath path =
     (if length path \<le> 1 then path
      else (let normalized = rev (dropWhile (\<lambda>c. c = CHR ''/'') (rev path))
            in if normalized = [] then ''/'' else normalized))"

datatype route_kind = Write_route | Read_route

definition routeKind :: "limiter_request \<Rightarrow> route_kind option" where
  "routeKind req =
     (let path = normalizeRoutePath (lq_path req)
      in if path = ''/health'' then None
         else if lq_method req = ''POST'' \<and> path = ''/hash'' then Some Write_route
         else if lq_method req = ''GET'' \<and> starts_with path ''/hash/'' then Some Read_route
         else None)"

section \<open>The limiter\<close>

datatype window_name = Burst | Sustained

record window_result =
  wr_name :: window_name
  wr_limit :: int
  wr_count :: int
  wr_resetSeconds :: int

record evaluation =
  ev_limited :: bool
  ev_currentWindow :: window_result

definition window_of :: "window_name \<Rightarrow> window_config \<Rightarrow> store_result \<Rightarrow> window_result" where
  "window_of name w r = \<lparr>wr_name = name, wr_limit = wc_limit w, wr_count = sr_count r, wr_resetSeconds = sr_resetSeconds r\<rparr>"

text \<open>A violated window is the current one.\<close>

definition evaluateRoute :: "route_limits \<Rightarrow> string \<Rightarrow> int \<Rightarrow> buckets \<Rightarrow> evaluation \<times> buckets" where
  "evaluateRoute routePolicy key nowSeconds b =
     (case incrementAndGet (key @ '':burst'') (wc_windowSeconds (rl_burst routePolicy)) nowSeconds b of (burstResult, b') \<Rightarrow>
        if sr_count burstResult > wc_limit (rl_burst routePolicy)
        then (\<lparr>ev_limited = True, ev_currentWindow = window_of Burst (rl_burst routePolicy) burstResult\<rparr>, b')
        else
          (case incrementAndGet (key @ '':sustained'') (wc_windowSeconds (rl_sustained routePolicy)) nowSeconds b' of
             (sustainedResult, b'') \<Rightarrow>
               (\<lparr>ev_limited = (sr_count sustainedResult > wc_limit (rl_sustained routePolicy)),
                 ev_currentWindow = window_of Sustained (rl_sustained routePolicy) sustainedResult\<rparr>, b'')))"

record limit_headers =
  lh_limit :: string
  lh_remaining :: string
  lh_reset :: string
  lh_policy :: string
  lh_retryAfter :: "string option"

definition setRateLimitHeaders :: "route_limits \<Rightarrow> window_result \<Rightarrow> limit_headers" where
  "setRateLimitHeaders routePolicy currentWindow =
     \<lparr>lh_limit = show_int (wr_limit currentWindow),
      lh_remaining = show_int (max 0 (wr_limit currentWindow - wr_count currentWindow)),
      lh_reset = show_int (wr_resetSeconds currentWindow),
      lh_policy = ''burst;w='' @ show_int (wc_windowSeconds (rl_burst routePolicy)) @ '', sustained;w='' @
        show_int (wc_windowSeconds (rl_sustained routePolicy)),
      lh_retryAfter = None\<rparr>"

text \<open>The request goes on, with the headers when its route is limited, or is refused with 429.\<close>

datatype limiter_outcome = Limit_pass "limit_headers option" | Limit_exceeded limit_headers int

definition policy_of :: "limiter_config \<Rightarrow> route_kind \<Rightarrow> route_limits" where
  "policy_of config kind = (case kind of Write_route \<Rightarrow> lc_writeRoute config | Read_route \<Rightarrow> lc_readRoute config)"

definition limiter_key :: "route_kind \<Rightarrow> limiter_request \<Rightarrow> string" where
  "limiter_key kind req = (case kind of Write_route \<Rightarrow> ''write'' | Read_route \<Rightarrow> ''read'') @ '':'' @ fst (callerContext req)"

definition limiter_middleware :: "limiter_config \<Rightarrow> int \<Rightarrow> limiter_request \<Rightarrow> buckets \<Rightarrow> limiter_outcome \<times> buckets" where
  "limiter_middleware config nowSeconds req b =
     (if \<not> lc_enabled config then (Limit_pass None, b)
      else (case routeKind req of
         None \<Rightarrow> (Limit_pass None, b)
       | Some kind \<Rightarrow>
           (let policy = policy_of config kind
            in case evaluateRoute policy (limiter_key kind req) nowSeconds b of (evaluated, b') \<Rightarrow>
                 (let headers = setRateLimitHeaders policy (ev_currentWindow evaluated);
                      reset = wr_resetSeconds (ev_currentWindow evaluated)
                  in if ev_limited evaluated
                     then (Limit_exceeded (headers\<lparr>lh_retryAfter := Some (show_int reset)\<rparr>) reset, b')
                     else (Limit_pass (Some headers), b')))))"

text \<open>Requests one after the other, each with the time at which it is served.\<close>

fun limiter_run :: "limiter_config \<Rightarrow> (int \<times> limiter_request) list \<Rightarrow> buckets \<Rightarrow> limiter_outcome list \<times> buckets" where
  "limiter_run config [] b = ([], b)"
| "limiter_run config ((now, req) # rs) b =
     (case limiter_middleware config now req b of (x, b') \<Rightarrow>
        (case limiter_run config rs b' of (xs, b'') \<Rightarrow> (x # xs, b'')))"

section \<open>How many requests pass\<close>

text \<open>
  How many requests the limiter lets through: in any interval as long as a window no more than twice the limit
  of the window, because an interval meets at most two buckets.
\<close>

section \<open>A counter with a fixed window\<close>

text \<open>
  The contract of a limiter for the requests \<open>mine\<close>: \<open>serve\<close> says whether a request passes, \<open>bucket\<close> is the
  counter.  A request of \<open>mine\<close> counts, or does not pass; nobody else touches the counter.
\<close>

definition hit :: "int \<Rightarrow> int \<Rightarrow> (int \<times> int) option \<Rightarrow> int \<times> int" where
  "hit w now v =
     (case v of None \<Rightarrow> (1, now + w) | Some (c, e) \<Rightarrow> if e \<le> now then (1, now + w) else (c + 1, e))"

locale fixed_window =
  fixes serve :: "int \<Rightarrow> 'r \<Rightarrow> 's \<Rightarrow> bool \<times> 's"
    and bucket :: "'s \<Rightarrow> (int \<times> int) option"
    and mine :: "'r \<Rightarrow> bool"
    and limit :: int and w :: int
  assumes others: "\<not> mine r \<Longrightarrow> bucket (snd (serve now r s)) = bucket s"
    and counts: "mine r \<Longrightarrow>
      bucket (snd (serve now r s)) = bucket s \<and> \<not> fst (serve now r s) \<or>
      bucket (snd (serve now r s)) = Some (hit w now (bucket s)) \<and> (fst (serve now r s) \<longrightarrow> fst (hit w now (bucket s)) \<le> limit)"
begin

fun passed :: "int \<Rightarrow> int \<Rightarrow> (int \<times> 'r) list \<Rightarrow> 's \<Rightarrow> int" where
  "passed a z [] s = 0"
| "passed a z ((now, r) # rs) s =
     (if mine r \<and> fst (serve now r s) \<and> a \<le> now \<and> now < z then 1 else 0) + passed a z rs (snd (serve now r s))"

lemma passed_late: "\<forall>q \<in> set rs. z \<le> fst q \<Longrightarrow> passed a z rs s = 0"
  by (induction rs arbitrary: s) auto

lemma passed_mono: "z \<le> z' \<Longrightarrow> passed a z rs s \<le> passed a z' rs s"
  by (induction rs arbitrary: s) (auto simp: add_mono)

lemma passed_nonneg: "0 \<le> passed a z rs s"
  by (induction rs arbitrary: s) auto

text \<open>Before the bucket expires it lets through what is left of the limit.\<close>

lemma passed_in_bucket:
  assumes "bucket s = Some (c, e)" "sorted (map fst rs)"
  shows "passed a e rs s \<le> max 0 (limit - c)"
  using assms
proof (induction rs arbitrary: s c)
  case (Cons q rs)
  obtain now r where q: "q = (now, r)" by (cases q)
  show ?case
  proof (cases "e \<le> now")
    case True
    with Cons.prems(2) q have "\<forall>x \<in> set (q # rs). e \<le> fst x" by auto
    then show ?thesis by (subst passed_late) auto
  next
    case False
    have "sorted (map fst rs)" using Cons.prems(2) by simp
    note IH = Cons.IH [OF _ this]
    let ?s = "snd (serve now r s)"
    consider "bucket ?s = Some (c, e)" "\<not> (mine r \<and> fst (serve now r s))"
      | "bucket ?s = Some (c + 1, e)" "fst (serve now r s) \<longrightarrow> c + 1 \<le> limit"
      using others [of r now s] counts [of r now s] Cons.prems(1) False by (auto simp: hit_def)
    then show ?thesis
    proof cases
      case 1
      with IH [OF 1(1)] q show ?thesis by auto
    next
      case 2
      with IH [OF 2(1)] q show ?thesis by auto
    qed
  qed
qed simp

text \<open>A new bucket covers a window from any earlier time.\<close>

lemma passed_from_fresh:
  assumes window: "0 < w" "0 < limit"
    and "case bucket s of None \<Rightarrow> True | Some (c, e) \<Rightarrow> e \<le> n" "sorted (map fst rs)" "\<forall>q \<in> set rs. n \<le> fst q"
  shows "passed a (n + w) rs s \<le> limit"
  using assms(3-)
proof (induction rs arbitrary: s)
  case Nil
  then show ?case using window by simp
next
  case (Cons q rs)
  obtain now r where q: "q = (now, r)" by (cases q)
  have s: "sorted (map fst rs)" "\<forall>q \<in> set rs. n \<le> fst q" "n \<le> now" using Cons.prems(2,3) q by auto
  let ?s = "snd (serve now r s)"
  have h: "hit w now (bucket s) = (1, now + w)"
    using Cons.prems(1) s(3) by (auto simp: hit_def split: option.splits)
  consider "bucket ?s = bucket s" "\<not> (mine r \<and> fst (serve now r s))" | "bucket ?s = Some (1, now + w)"
    using others [of r now s] counts [of r now s] h by auto
  then show ?case
  proof cases
    case 1
    with Cons.IH [of ?s] Cons.prems(1) s q show ?thesis by auto
  next
    case 2
    have "passed a (n + w) rs ?s \<le> passed a (now + w) rs ?s" using s(3) by (intro passed_mono) simp
    with passed_in_bucket [OF 2 s(1), of a] q window show ?thesis by auto
  qed
qed

lemma passed_after:
  assumes window: "0 < w" "0 < limit"
    and "case bucket s of None \<Rightarrow> True | Some (c, e) \<Rightarrow> 0 \<le> c" "sorted (map fst rs)" "\<forall>q \<in> set rs. a \<le> fst q"
  shows "passed a (a + w) rs s \<le> 2 * limit"
proof (cases "bucket s")
  case None
  then show ?thesis using passed_from_fresh [OF window, where s = s and n = a and rs = rs and a = a] assms(4,5) window by simp
next
  case (Some v)
  then obtain c e where v: "bucket s = Some (c, e)" "0 \<le> c" using assms(3) by (cases v) auto
  then have "passed a (a + w) rs s \<le> max 0 (limit - c) + limit"
    using assms(4,5)
  proof (induction rs arbitrary: s c)
    case Nil
    then show ?case using window by simp
  next
    case (Cons q rs)
    obtain now r where q: "q = (now, r)" by (cases q)
    have s: "sorted (map fst rs)" "\<forall>q \<in> set rs. a \<le> fst q" "a \<le> now" using Cons.prems(3,4) q by auto
    show ?case
    proof (cases "e \<le> now")
      case True
      have "passed a (a + w) (q # rs) s \<le> passed a (now + w) (q # rs) s" using s(3) by (intro passed_mono) simp
      also have "\<dots> \<le> limit"
        by (rule passed_from_fresh [OF window]) (use Cons.prems True q in auto)
      finally show ?thesis by simp
    next
      case False
      let ?s = "snd (serve now r s)"
      consider "bucket ?s = Some (c, e)" "\<not> (mine r \<and> fst (serve now r s))"
        | "bucket ?s = Some (c + 1, e)" "fst (serve now r s) \<longrightarrow> c + 1 \<le> limit"
        using others [of r now s] counts [of r now s] Cons.prems(1) False by (auto simp: hit_def)
      then show ?thesis
      proof cases
        case 1
        with Cons.IH [OF 1(1) Cons.prems(2) s(1,2)] q show ?thesis by auto
      next
        case 2
        with Cons.IH [OF 2(1) _ s(1,2)] Cons.prems(2) q show ?thesis by auto
      qed
    qed
  qed
  with v(2) window show ?thesis by auto
qed

theorem passed_bound:
  assumes window: "0 < w" "0 < limit"
    and "case bucket s of None \<Rightarrow> True | Some (c, e) \<Rightarrow> 0 \<le> c" "sorted (map fst rs)"
  shows "passed a (a + w) rs s \<le> 2 * limit"
  using assms(3,4)
proof (induction rs arbitrary: s)
  case Nil
  then show ?case using window by simp
next
  case (Cons q rs)
  obtain now r where q: "q = (now, r)" by (cases q)
  show ?case
  proof (cases "a \<le> now")
    case True
    show ?thesis by (rule passed_after [OF window]) (use Cons.prems True q in auto)
  next
    case False
    have "case bucket (snd (serve now r s)) of None \<Rightarrow> True | Some (c, e) \<Rightarrow> 0 \<le> c"
      using others [of r now s] counts [of r now s] Cons.prems(1)
      by (cases "mine r") (auto simp: hit_def split: option.splits if_splits)
    with Cons.IH Cons.prems(2) False q show ?thesis by auto
  qed
qed

end

section \<open>The two windows of the limiter\<close>

definition limiter_serve :: "limiter_config \<Rightarrow> int \<Rightarrow> limiter_request \<Rightarrow> buckets \<Rightarrow> bool \<times> buckets" where
  "limiter_serve config now req b =
     (case limiter_middleware config now req b of (x, b') \<Rightarrow> (case x of Limit_pass _ \<Rightarrow> True | Limit_exceeded _ _ \<Rightarrow> False, b'))"

text \<open>The requests of one caller for one kind of route.\<close>

definition limited_caller :: "limiter_config \<Rightarrow> route_kind \<Rightarrow> string \<Rightarrow> limiter_request \<Rightarrow> bool" where
  "limited_caller config kind caller req \<longleftrightarrow>
     lc_enabled config \<and> routeKind req = Some kind \<and> fst (callerContext req) = caller"

definition caller_key :: "route_kind \<Rightarrow> string \<Rightarrow> string" where
  "caller_key kind caller = (case kind of Write_route \<Rightarrow> ''write'' | Read_route \<Rightarrow> ''read'') @ '':'' @ caller"

lemma colon_not_in_int: "CHR '':'' \<notin> set (show_int i)"
proof -
  have "list_all (\<lambda>c. c \<noteq> CHR '':'') (show_nat n)" for n
    using all_digits_show_nat [of n] by (auto simp: all_digits_def list_all_iff is_digit_def)
  then show ?thesis by (auto simp: show_int_def list_all_iff)
qed

lemma last_colon: "c \<notin> set y \<Longrightarrow> c \<notin> set y' \<Longrightarrow> x @ c # y = x' @ c # y' \<Longrightarrow> x = x'"
proof -
  have stop: "dropWhile (\<lambda>d. d \<noteq> c) (rev z @ c # v) = c # v" if "c \<notin> set z" for z v
    using that by (subst dropWhile_append2) auto
  assume "c \<notin> set y" "c \<notin> set y'" "x @ c # y = x' @ c # y'"
  moreover from this have "rev y @ c # rev x = rev y' @ c # rev x'" by (metis rev.simps(2) rev_append append_assoc append_Cons append_Nil)
  ultimately show "x = x'" using stop [of y "rev x"] stop [of y' "rev x'"] by simp
qed

lemma bucket_key_inj: "bucket_key k w = bucket_key k' w' \<Longrightarrow> k = k'"
  unfolding bucket_key_def by (auto intro: last_colon [OF colon_not_in_int colon_not_in_int])

lemma increment_other:
  "k \<noteq> bucket_key key w \<Longrightarrow> snd (incrementAndGet key w now b) k = b k"
  by (auto simp: incrementAndGet_def Let_def split: option.splits)

lemma increment_own:
  "snd (incrementAndGet key w now b) (bucket_key key w) = Some (hit w now (b (bucket_key key w)))"
  "sr_count (fst (incrementAndGet key w now b)) = fst (hit w now (b (bucket_key key w)))"
  by (auto simp: incrementAndGet_def Let_def hit_def split: option.splits)

lemma window_keys: "x @ '':burst'' \<noteq> y @ '':sustained''" "x @ '':sustained'' \<noteq> y @ '':burst''"
  by (auto dest!: arg_cong [of _ _ last])

text \<open>A request of somebody else has another key: the kinds of route have different prefixes.\<close>

lemma limiter_key_caller:
  "limiter_key kind' req = caller_key kind caller \<longleftrightarrow> kind' = kind \<and> fst (callerContext req) = caller"
  by (cases kind; cases kind') (auto simp: limiter_key_def caller_key_def)

lemma limiter_serve_app:
  "lc_enabled config \<Longrightarrow> routeKind req = Some kind \<Longrightarrow>
   limiter_serve config now req b =
     (case evaluateRoute (policy_of config kind) (limiter_key kind req) now b of (evaluated, b') \<Rightarrow> (\<not> ev_limited evaluated, b'))"
  by (simp add: limiter_serve_def limiter_middleware_def Let_def split: prod.splits)

lemma limiter_serve_free:
  "\<not> (lc_enabled config \<and> routeKind req \<noteq> None) \<Longrightarrow> limiter_serve config now req b = (True, b)"
  by (auto simp: limiter_serve_def limiter_middleware_def)

definition burst_key :: "limiter_config \<Rightarrow> route_kind \<Rightarrow> string \<Rightarrow> string" where
  "burst_key config kind key = bucket_key (caller_key kind key @ '':burst'') (wc_windowSeconds (rl_burst (policy_of config kind)))"

definition sustained_key :: "limiter_config \<Rightarrow> route_kind \<Rightarrow> string \<Rightarrow> string" where
  "sustained_key config kind key = bucket_key (caller_key kind key @ '':sustained'') (wc_windowSeconds (rl_sustained (policy_of config kind)))"

lemma evaluate_other:
  assumes "k \<noteq> bucket_key (key @ '':burst'') (wc_windowSeconds (rl_burst p))"
    and "k \<noteq> bucket_key (key @ '':sustained'') (wc_windowSeconds (rl_sustained p))"
  shows "snd (evaluateRoute p key now b) k = b k"
proof -
  obtain r b1 where one: "incrementAndGet (key @ '':burst'') (wc_windowSeconds (rl_burst p)) now b = (r, b1)"
    by (cases "incrementAndGet (key @ '':burst'') (wc_windowSeconds (rl_burst p)) now b")
  obtain r2 b2 where two: "incrementAndGet (key @ '':sustained'') (wc_windowSeconds (rl_sustained p)) now b1 = (r2, b2)"
    by (cases "incrementAndGet (key @ '':sustained'') (wc_windowSeconds (rl_sustained p)) now b1")
  have "b1 k = b k" using increment_other [OF assms(1), of now b] one by simp
  moreover have "b2 k = b1 k" using increment_other [OF assms(2), of now b1] two by simp
  ultimately show ?thesis by (simp add: evaluateRoute_def one two)
qed

text \<open>What a request of the caller does to its two buckets.\<close>

lemma evaluate_own:
  fixes p :: route_limits and key :: string
  defines "kb \<equiv> bucket_key (key @ '':burst'') (wc_windowSeconds (rl_burst p))"
    and "ks \<equiv> bucket_key (key @ '':sustained'') (wc_windowSeconds (rl_sustained p))"
  shows "snd (evaluateRoute p key now b) kb = Some (hit (wc_windowSeconds (rl_burst p)) now (b kb))"
    "\<not> ev_limited (fst (evaluateRoute p key now b)) \<Longrightarrow> fst (hit (wc_windowSeconds (rl_burst p)) now (b kb)) \<le> wc_limit (rl_burst p)"
    "snd (evaluateRoute p key now b) ks = b ks \<and> ev_limited (fst (evaluateRoute p key now b)) \<or>
     snd (evaluateRoute p key now b) ks = Some (hit (wc_windowSeconds (rl_sustained p)) now (b ks)) \<and>
     (\<not> ev_limited (fst (evaluateRoute p key now b)) \<longrightarrow> fst (hit (wc_windowSeconds (rl_sustained p)) now (b ks)) \<le> wc_limit (rl_sustained p))"
proof -
  have d: "kb \<noteq> ks" unfolding kb_def ks_def using bucket_key_inj window_keys by blast
  obtain r b1 where one: "incrementAndGet (key @ '':burst'') (wc_windowSeconds (rl_burst p)) now b = (r, b1)"
    by (cases "incrementAndGet (key @ '':burst'') (wc_windowSeconds (rl_burst p)) now b")
  obtain r2 b2 where two: "incrementAndGet (key @ '':sustained'') (wc_windowSeconds (rl_sustained p)) now b1 = (r2, b2)"
    by (cases "incrementAndGet (key @ '':sustained'') (wc_windowSeconds (rl_sustained p)) now b1")
  have o: "b1 kb = Some (hit (wc_windowSeconds (rl_burst p)) now (b kb))" "sr_count r = fst (hit (wc_windowSeconds (rl_burst p)) now (b kb))"
    "b1 ks = b ks"
    using increment_own [of "key @ '':burst''" "wc_windowSeconds (rl_burst p)" now b] one d
      increment_other [of ks "key @ '':burst''" "wc_windowSeconds (rl_burst p)" now b] by (simp_all add: kb_def)
  have t: "b2 ks = Some (hit (wc_windowSeconds (rl_sustained p)) now (b ks))"
    "sr_count r2 = fst (hit (wc_windowSeconds (rl_sustained p)) now (b ks))" "b2 kb = b1 kb"
    using increment_own [of "key @ '':sustained''" "wc_windowSeconds (rl_sustained p)" now b1] two d o(3)
      increment_other [of kb "key @ '':sustained''" "wc_windowSeconds (rl_sustained p)" now b1] by (simp_all add: ks_def)
  have e: "evaluateRoute p key now b =
      (if sr_count r > wc_limit (rl_burst p) then (\<lparr>ev_limited = True, ev_currentWindow = window_of Burst (rl_burst p) r\<rparr>, b1)
       else (\<lparr>ev_limited = (sr_count r2 > wc_limit (rl_sustained p)), ev_currentWindow = window_of Sustained (rl_sustained p) r2\<rparr>, b2))"
    by (simp add: evaluateRoute_def one two)
  show "snd (evaluateRoute p key now b) kb = Some (hit (wc_windowSeconds (rl_burst p)) now (b kb))"
    using o(1) t(3) by (simp add: e)
  show "fst (hit (wc_windowSeconds (rl_burst p)) now (b kb)) \<le> wc_limit (rl_burst p)" if "\<not> ev_limited (fst (evaluateRoute p key now b))"
    using that o(2) by (simp add: e split: if_splits)
  show "snd (evaluateRoute p key now b) ks = b ks \<and> ev_limited (fst (evaluateRoute p key now b)) \<or>
     snd (evaluateRoute p key now b) ks = Some (hit (wc_windowSeconds (rl_sustained p)) now (b ks)) \<and>
     (\<not> ev_limited (fst (evaluateRoute p key now b)) \<longrightarrow> fst (hit (wc_windowSeconds (rl_sustained p)) now (b ks)) \<le> wc_limit (rl_sustained p))"
    using o(3) t(1,2) by (simp add: e)
qed

lemma serve_others:
  assumes "\<not> limited_caller config kind key req"
  shows "snd (limiter_serve config now req b) (burst_key config kind key) = b (burst_key config kind key)"
    "snd (limiter_serve config now req b) (sustained_key config kind key) = b (sustained_key config kind key)"
proof -
  have "snd (limiter_serve config now req b) k = b k"
    if k: "k = burst_key config kind key \<or> k = sustained_key config kind key" for k
  proof (cases "lc_enabled config \<and> routeKind req \<noteq> None")
    case False
    then show ?thesis by (simp add: limiter_serve_free)
  next
    case True
    then obtain kind' where kind': "routeKind req = Some kind'" by blast
    have "limiter_key kind' req \<noteq> caller_key kind key"
      using assms True kind' by (auto simp: limited_caller_def limiter_key_caller)
    then have "snd (evaluateRoute (policy_of config kind') (limiter_key kind' req) now b) k = b k"
      using k window_keys by (intro evaluate_other) (auto simp: burst_key_def sustained_key_def dest!: bucket_key_inj)
    with True kind' show ?thesis by (auto simp: limiter_serve_app split: prod.splits)
  qed
  then show "snd (limiter_serve config now req b) (burst_key config kind key) = b (burst_key config kind key)"
    "snd (limiter_serve config now req b) (sustained_key config kind key) = b (sustained_key config kind key)" by blast+
qed

lemma serve_own:
  assumes "limited_caller config kind caller req"
  shows "limiter_serve config now req b =
    (\<not> ev_limited (fst (evaluateRoute (policy_of config kind) (caller_key kind caller) now b)),
     snd (evaluateRoute (policy_of config kind) (caller_key kind caller) now b))"
proof -
  from assms have "limiter_key kind req = caller_key kind caller" by (simp add: limited_caller_def limiter_key_caller)
  with assms show ?thesis by (simp add: limited_caller_def limiter_serve_app prod.case_eq_if)
qed

interpretation burst: fixed_window "limiter_serve config" "\<lambda>b. b (burst_key config kind caller)" "limited_caller config kind caller"
    "wc_limit (rl_burst (policy_of config kind))" "wc_windowSeconds (rl_burst (policy_of config kind))"
  for config kind caller
proof unfold_locales
  fix r now b assume "limited_caller config kind caller r"
  from serve_own [OF this, of now b] evaluate_own(1,2) [where p = "policy_of config kind" and key = "caller_key kind caller" and now = now and b = b]
  show "snd (limiter_serve config now r b) (burst_key config kind caller) = b (burst_key config kind caller) \<and>
      \<not> fst (limiter_serve config now r b) \<or>
    snd (limiter_serve config now r b) (burst_key config kind caller) =
      Some (hit (wc_windowSeconds (rl_burst (policy_of config kind))) now (b (burst_key config kind caller))) \<and>
    (fst (limiter_serve config now r b) \<longrightarrow>
      fst (hit (wc_windowSeconds (rl_burst (policy_of config kind))) now (b (burst_key config kind caller)))
        \<le> wc_limit (rl_burst (policy_of config kind)))"
    by (auto simp: burst_key_def)
qed (rule serve_others)

interpretation sustained: fixed_window "limiter_serve config" "\<lambda>b. b (sustained_key config kind caller)"
    "limited_caller config kind caller"
    "wc_limit (rl_sustained (policy_of config kind))" "wc_windowSeconds (rl_sustained (policy_of config kind))"
  for config kind caller
proof unfold_locales
  fix r now b assume "limited_caller config kind caller r"
  from serve_own [OF this, of now b] evaluate_own(3) [where p = "policy_of config kind" and key = "caller_key kind caller" and now = now and b = b]
  show "snd (limiter_serve config now r b) (sustained_key config kind caller) = b (sustained_key config kind caller) \<and>
      \<not> fst (limiter_serve config now r b) \<or>
    snd (limiter_serve config now r b) (sustained_key config kind caller) =
      Some (hit (wc_windowSeconds (rl_sustained (policy_of config kind))) now (b (sustained_key config kind caller))) \<and>
    (fst (limiter_serve config now r b) \<longrightarrow>
      fst (hit (wc_windowSeconds (rl_sustained (policy_of config kind))) now (b (sustained_key config kind caller)))
        \<le> wc_limit (rl_sustained (policy_of config kind)))"
    by (auto simp: sustained_key_def)
qed (rule serve_others)

text \<open>The requests of a caller that a run lets through in an interval.\<close>

definition let_through :: "limiter_config \<Rightarrow> route_kind \<Rightarrow> string \<Rightarrow> int \<Rightarrow> int \<Rightarrow> (int \<times> limiter_request) list \<Rightarrow> int" where
  "let_through config kind caller a z rs =
     int (length (filter (\<lambda>((now, req), x). limited_caller config kind caller req \<and> a \<le> now \<and> now < z \<and>
       (case x of Limit_pass _ \<Rightarrow> True | Limit_exceeded _ _ \<Rightarrow> False)) (zip rs (fst (limiter_run config rs Map.empty)))))"

lemma passed_let_through:
  "burst.passed config kind caller a z rs b =
     int (length (filter (\<lambda>((now, req), x). limited_caller config kind caller req \<and> a \<le> now \<and> now < z \<and>
       (case x of Limit_pass _ \<Rightarrow> True | Limit_exceeded _ _ \<Rightarrow> False)) (zip rs (fst (limiter_run config rs b)))))"
  by (induction rs arbitrary: b) (auto simp: limiter_serve_def split: prod.splits limiter_outcome.splits)

lemma passed_same: "sustained.passed config kind caller a z rs b = burst.passed config kind caller a z rs b"
  by (induction rs arbitrary: b) auto

lemma validated_windows:
  assumes "validateConfig config = Inr ()"
  shows "0 < wc_limit (rl_burst (policy_of config kind))" "0 < wc_windowSeconds (rl_burst (policy_of config kind))"
    "0 < wc_limit (rl_sustained (policy_of config kind))" "0 < wc_windowSeconds (rl_sustained (policy_of config kind))"
  using assms by (auto simp: validateConfig_def policy_of_def Let_def filter_empty_conv split: list.splits if_splits route_kind.splits)

text \<open>
  C20: the limiter bounds what it lets through.  With a validated configuration, from an empty store and for
  requests served in the order of their times, the requests of one caller for one kind of route that pass in an
  interval as long as the burst window are at most twice the burst limit, and in an interval as long as the
  sustained window at most twice the sustained limit: whatever the other callers send in between.
\<close>

theorem limiter_bounds_each_caller:
  assumes "validateConfig config = Inr ()" and "sorted (map fst rs)"
  shows "let_through config kind caller a (a + wc_windowSeconds (rl_burst (policy_of config kind))) rs
      \<le> 2 * wc_limit (rl_burst (policy_of config kind)) \<and>
    let_through config kind caller a (a + wc_windowSeconds (rl_sustained (policy_of config kind))) rs
      \<le> 2 * wc_limit (rl_sustained (policy_of config kind))"
  using burst.passed_bound [where config = config and kind = kind and caller = caller and s = Map.empty and rs = rs and a = a]
    sustained.passed_bound [where config = config and kind = kind and caller = caller and s = Map.empty and rs = rs and a = a]
    validated_windows [OF assms(1), of kind] assms(2)
  by (simp add: let_through_def passed_let_through passed_same)

text \<open>Two requests in ten seconds and three in a minute; the fourth request at one time is refused, as is the third.\<close>

definition small_limits :: limiter_config where
  "small_limits =
     (let r = \<lparr>rl_burst = \<lparr>wc_limit = 2, wc_windowSeconds = 10\<rparr>, rl_sustained = \<lparr>wc_limit = 3, wc_windowSeconds = 60\<rparr>\<rparr>
      in \<lparr>lc_enabled = True, lc_writeRoute = r, lc_readRoute = r\<rparr>)"

definition post_hash :: "string \<Rightarrow> limiter_request" where
  "post_hash path =
     \<lparr>lq_method = ''POST'', lq_path = path, lq_ip = Some ''10.0.0.1'', lq_remoteAddress = None, lq_apiKeyId = None\<rparr>"

theorem limiter_bounds_each_caller_witness:
  "let_through small_limits Write_route ''ip:10.0.0.1'' 5 15 (map (\<lambda>t. (t, post_hash ''/hash'')) [0, 9, 9, 10, 11]) \<le> 4"
  using limiter_bounds_each_caller [of small_limits "map (\<lambda>t. (t, post_hash ''/hash'')) [0, 9, 9, 10, 11]"
      Write_route "''ip:10.0.0.1''" 5]
  by (simp add: small_limits_def validateConfig_def policy_of_def Let_def)

text \<open>
  The limiter knows its routes by the exact method and path, while the router matches a path in any case
  and serves \<open>HEAD\<close> with the handler of \<open>GET\<close>: such requests reach the handlers and are never counted.
\<close>

lemma other_case_is_not_limited:
  "limiter_middleware config now (post_hash ''/HASH'') b = (Limit_pass None, b)"
  "limiter_middleware config now (req\<lparr>lq_method := ''HEAD''\<rparr>) b = (Limit_pass None, b)"
  by (simp_all add: limiter_middleware_def routeKind_def post_hash_def normalizeRoutePath_def Let_def)

end
