(* ===== verification/Shared_Auth.thy ===== *)
theory Shared_Auth imports Main Effect Json Nonce_Store begin

text \<open>
  The request authentication that the services share (\<open>shared-auth/serviceAuth.js\<close>) and its in-memory nonce
  store (\<open>shared-auth/nonceStore.js\<close>).  SHA-256 and HMAC are parameters with hexadecimal results; the store of
  nonces is a parameter of the middleware.
  The second half says what a request that passes satisfies and how often it passes.
\<close>

section \<open>Keys\<close>

record service_key =
  sk_id :: string
  sk_secret :: string
  sk_active :: bool

abbreviation api_key_max_length :: nat where
  "api_key_max_length \<equiv> 128"

abbreviation nonce_max_length :: nat where
  "nonce_max_length \<equiv> 255"

definition parseActiveFlag :: "json \<Rightarrow> nat \<Rightarrow> string + bool" where
  "parseActiveFlag rawActive index =
     (case rawActive of
        J_bool b \<Rightarrow> Inr b
      | _ \<Rightarrow> Inl (''API_KEYS_JSON['' @ show_nat index @ ''].active must be a boolean true or false''))"

definition trimmed_text :: "json \<Rightarrow> string" where
  "trimmed_text v = (case v of J_str s \<Rightarrow> trim s | _ \<Rightarrow> [])"

definition parse_key :: "nat \<Rightarrow> json \<Rightarrow> string + service_key" where
  "parse_key index candidate =
     (if json_falsy candidate \<or> \<not> json_is_object candidate
      then Inl (''API_KEYS_JSON['' @ show_nat index @ ''] must be an object'')
      else
        (let keyId = trimmed_text (json_get ''id'' candidate); secret = trimmed_text (json_get ''secret'' candidate)
         in case parseActiveFlag (json_get ''active'' candidate) index of
              Inl e \<Rightarrow> Inl e
            | Inr active \<Rightarrow>
                if keyId = [] then Inl ''API_KEYS_JSON[].id is required''
                else if length keyId > api_key_max_length
                then Inl (''API_KEYS_JSON['' @ show_nat index @ ''].id must be <= 128 characters'')
                else if secret = [] then Inl (''API_KEYS_JSON['' @ show_nat index @ ''].secret is required'')
                else Inr \<lparr>sk_id = keyId, sk_secret = secret, sk_active = active\<rparr>))"

fun parse_keys :: "nat \<Rightarrow> json list \<Rightarrow> string + service_key list" where
  "parse_keys index [] = Inr []"
| "parse_keys index (v # vs) =
     (case parse_key index v of
        Inl e \<Rightarrow> Inl e
      | Inr k \<Rightarrow> map_sum id (Cons k) (parse_keys (Suc index) vs))"

text \<open>\<open>parse\<close> is \<open>JSON.parse\<close>, \<open>None\<close> for a throw.\<close>

definition parseServiceApiKeys :: "(string \<Rightarrow> json option) \<Rightarrow> string option \<Rightarrow> string + service_key list" where
  "parseServiceApiKeys parse raw =
     (if trim (or_else raw []) = [] then Inr []
      else (case parse (or_else raw []) of
              None \<Rightarrow> Inl ''API_KEYS_JSON must be valid JSON''
            | Some (J_arr vs) \<Rightarrow> parse_keys 0 vs
            | Some _ \<Rightarrow> Inl ''API_KEYS_JSON must be an array''))"

section \<open>Requests\<close>

text \<open>Headers are looked up by their lower-case names.\<close>

record service_request =
  sq_method :: string
  sq_originalUrl :: string
  sq_header :: "string \<Rightarrow> string option"
  sq_rawBody :: string

record hash_library =
  hl_sha256 :: "string \<Rightarrow> string"
  hl_hmac :: "string \<Rightarrow> string \<Rightarrow> string"

record auth_options =
  ao_enabled :: bool
  ao_maxSkewSeconds :: int
  ao_nonceTtlSeconds :: int
  ao_sharedSecret :: "string option"
  ao_lookupApiKey :: "string \<Rightarrow> service_key option"

datatype auth_scheme = Api_key | Shared_secret

record service_principal =
  sp_id :: string
  sp_secret :: string
  sp_active :: bool
  sp_scheme :: auth_scheme

definition ascii_upper :: "char \<Rightarrow> char" where
  "ascii_upper c = (let n = (of_char c :: nat) in if 97 \<le> n \<and> n \<le> 122 then char_of (n - 32) else c)"

definition to_upper :: "string \<Rightarrow> string" where
  "to_upper s = map ascii_upper s"

definition bodyHash :: "hash_library \<Rightarrow> service_request \<Rightarrow> string" where
  "bodyHash lib req = hl_sha256 lib (sq_rawBody req)"

text \<open>\<open>/^[a-f0-9]{64}$/i\<close>\<close>

definition signature_hex :: "string \<Rightarrow> bool" where
  "signature_hex s \<longleftrightarrow> length s = 64 \<and> list_all is_hex s"

definition timingSafeHexEquals :: "string \<Rightarrow> string \<Rightarrow> bool" where
  "timingSafeHexEquals a b =
     (let normalizedA = to_lower (trim a); normalizedB = to_lower (trim b)
      in if \<not> signature_hex normalizedA \<or> \<not> signature_hex normalizedB then False
         else from_hex normalizedA = from_hex normalizedB)"

definition requestPathAndQuery :: "service_request \<Rightarrow> string \<times> string" where
  "requestPathAndQuery req =
     (let url = sq_originalUrl req
      in (takeWhile (\<lambda>c. c \<noteq> CHR ''?'') url, drop 1 (dropWhile (\<lambda>c. c \<noteq> CHR ''?'') url)))"

fun firstHeader :: "service_request \<Rightarrow> string list \<Rightarrow> string option" where
  "firstHeader req [] = None"
| "firstHeader req (n # ns) =
     (let value = trim (or_else (sq_header req (to_lower n)) [])
      in if value \<noteq> [] then Some value else firstHeader req ns)"

definition resolvePrincipal :: "string option \<Rightarrow> auth_options \<Rightarrow> service_principal option" where
  "resolvePrincipal apiKey opts =
     (case apiKey of
        Some k \<Rightarrow>
          if length k > api_key_max_length then None
          else map_option (\<lambda>r. \<lparr>sp_id = sk_id r, sp_secret = sk_secret r, sp_active = sk_active r, sp_scheme = Api_key\<rparr>)
                 (ao_lookupApiKey opts k)
      | None \<Rightarrow>
          (let secret = trim (or_else (ao_sharedSecret opts) [])
           in if secret \<noteq> [] then Some \<lparr>sp_id = ''__shared_hmac__'', sp_secret = secret, sp_active = True, sp_scheme = Shared_secret\<rparr>
              else None))"

abbreviation line_feed :: string where
  "line_feed \<equiv> [CHR 0x0A]"

definition deriveNonce :: "hash_library \<Rightarrow> string \<Rightarrow> string \<Rightarrow> string \<Rightarrow> string \<Rightarrow> string \<Rightarrow> string" where
  "deriveNonce lib method path query bodySha256 timestamp =
     take nonce_max_length (hl_sha256 lib (join_with line_feed [method, path, query, bodySha256, timestamp]))"

definition buildServiceAuthCanonicalString :: "string \<Rightarrow> string \<Rightarrow> string \<Rightarrow> string \<Rightarrow> string \<Rightarrow> string \<Rightarrow> string" where
  "buildServiceAuthCanonicalString method path query bodySha256 timestamp nonce =
     join_with line_feed [method, path, query, bodySha256, timestamp, nonce]"

definition signServiceAuthCanonicalString :: "hash_library \<Rightarrow> string \<Rightarrow> string \<Rightarrow> string" where
  "signServiceAuthCanonicalString lib secret canonicalString = hl_hmac lib secret canonicalString"

section \<open>The middleware\<close>

datatype service_auth =
    Auth_disabled
  | Auth_passed string auth_scheme
  | Auth_refused int string string

definition unauthorized :: "string \<Rightarrow> string \<Rightarrow> service_auth" where
  "unauthorized code message = Auth_refused 401 code message"

definition forbidden :: "string \<Rightarrow> service_auth" where
  "forbidden message = Auth_refused 403 ''AUTH_FORBIDDEN'' message"

definition unavailable :: service_auth where
  "unavailable = Auth_refused 503 ''AUTH_UNAVAILABLE'' ''Authentication service unavailable''"

text \<open>The value of a timestamp header, when it is a safe positive integer.\<close>

definition timestamp_seconds :: "string \<Rightarrow> int option" where
  "timestamp_seconds s =
     (let n = int (nat_of_digits 0 s) in if all_digits s \<and> 0 < n \<and> n \<le> 9007199254740991 then Some n else None)"

definition request_nonce_of :: "hash_library \<Rightarrow> service_request \<Rightarrow> string \<Rightarrow> string" where
  "request_nonce_of lib req timestamp =
     (case requestPathAndQuery req of (path, query) \<Rightarrow>
        or_else (firstHeader req [''x-agroasys-nonce'', ''X-Nonce''])
          (deriveNonce lib (to_upper (sq_method req)) path query (bodyHash lib req) timestamp))"

definition expected_signature :: "hash_library \<Rightarrow> service_request \<Rightarrow> string \<Rightarrow> string \<Rightarrow> string \<Rightarrow> string" where
  "expected_signature lib req secret timestamp nonce =
     (case requestPathAndQuery req of (path, query) \<Rightarrow>
        signServiceAuthCanonicalString lib secret
          (buildServiceAuthCanonicalString (to_upper (sq_method req)) path query (bodyHash lib req) timestamp nonce))"

text \<open>The checks before the nonce is used: a refusal, or the caller and the nonce.\<close>

definition auth_checks ::
  "hash_library \<Rightarrow> auth_options \<Rightarrow> int \<Rightarrow> service_request \<Rightarrow> service_auth + service_principal \<times> string" where
  "auth_checks lib opts nowSeconds req =
     (let apiKey = firstHeader req [''X-Api-Key''];
          timestamp = or_else (firstHeader req [''x-agroasys-timestamp'', ''X-Timestamp'']) [];
          signature = or_else (firstHeader req [''x-agroasys-signature'', ''X-Signature'']) []
      in if timestamp = [] \<or> signature = []
         then Inl (unauthorized ''AUTH_MISSING_HEADERS'' ''Missing authentication headers'')
         else (case timestamp_seconds timestamp of
            None \<Rightarrow> Inl (unauthorized ''AUTH_INVALID_TIMESTAMP'' ''Invalid timestamp format'')
          | Some t \<Rightarrow>
              if abs (nowSeconds - t) > ao_maxSkewSeconds opts
              then Inl (unauthorized ''AUTH_TIMESTAMP_SKEW'' ''Timestamp outside allowed skew window'')
              else (case resolvePrincipal apiKey opts of
                 None \<Rightarrow> Inl (unauthorized ''AUTH_UNKNOWN_API_KEY'' ''Unknown API key'')
               | Some caller \<Rightarrow>
                   if \<not> sp_active caller then Inl (forbidden ''API key is inactive'')
                   else
                     (let nonce = request_nonce_of lib req timestamp
                      in if trim nonce = [] \<or> length nonce > nonce_max_length
                         then Inl (unauthorized ''AUTH_INVALID_NONCE'' ''Invalid nonce format'')
                         else if \<not> timingSafeHexEquals signature (expected_signature lib req (sp_secret caller) timestamp nonce)
                         then Inl (unauthorized ''AUTH_INVALID_SIGNATURE'' ''Invalid signature'')
                         else Inr (caller, nonce)))))"

definition service_auth_middleware ::
  "hash_library \<Rightarrow> auth_options \<Rightarrow> (string \<Rightarrow> string \<Rightarrow> int \<Rightarrow> ('e, 'w, bool) eff) \<Rightarrow> int \<Rightarrow> service_request \<Rightarrow>
   ('e, 'w, service_auth) eff" where
  "service_auth_middleware lib opts consumeNonce nowSeconds req =
     (if \<not> ao_enabled opts then ret Auth_disabled
      else (case auth_checks lib opts nowSeconds req of
         Inl refused \<Rightarrow> ret refused
       | Inr (caller, nonce) \<Rightarrow>
           catchE
             (bindE (consumeNonce (sp_id caller) nonce (ao_nonceTtlSeconds opts)) (\<lambda>accepted.
                ret (if \<not> accepted then unauthorized ''AUTH_NONCE_REPLAY'' ''Replay detected for nonce''
                     else Auth_passed (sp_id caller) (sp_scheme caller))))
             (\<lambda>_. ret unavailable)))"

section \<open>The in-memory nonce store\<close>

definition assertPositiveInteger :: "int \<Rightarrow> string \<Rightarrow> string + unit" where
  "assertPositiveInteger v name = (if v \<le> 0 then Inl (name @ '' must be a positive integer'') else Inr ())"

definition assertNonEmpty :: "string \<Rightarrow> string \<Rightarrow> string + unit" where
  "assertNonEmpty v name = (if trim v = [] then Inl (name @ '' is required'') else Inr ())"

definition check_nonce_args :: "string \<Rightarrow> string \<Rightarrow> int \<Rightarrow> string + unit" where
  "check_nonce_args apiKey nonce ttlSeconds =
     (case assertNonEmpty apiKey ''apiKey'' of
        Inl e \<Rightarrow> Inl e
      | Inr _ \<Rightarrow>
          (case assertNonEmpty nonce ''nonce'' of
             Inl e \<Rightarrow> Inl e
           | Inr _ \<Rightarrow> assertPositiveInteger ttlSeconds ''nonce ttlSeconds''))"

text \<open>A \<open>Map\<close> from keys to times of expiry, in the order of insertion.\<close>

type_synonym nonce_map = "(string \<times> int) list"

definition map_set :: "string \<Rightarrow> int \<Rightarrow> nonce_map \<Rightarrow> nonce_map" where
  "map_set key v m =
     (if key \<in> fst ` set m then map (\<lambda>(k, x). if k = key then (k, v) else (k, x)) m else m @ [(key, v)])"

definition pruneExpired :: "int \<Rightarrow> nonce_map \<Rightarrow> nonce_map" where
  "pruneExpired currentTime m = filter (\<lambda>(_, expiresAt). \<not> expiresAt \<le> currentTime) m"

text \<open>The oldest entries go while there are more than \<open>maxEntries\<close>.\<close>

definition capStoreSize :: "nat \<Rightarrow> nonce_map \<Rightarrow> nonce_map" where
  "capStoreSize maxEntries m = drop (length m - maxEntries) m"

definition memory_key :: "string \<Rightarrow> string \<Rightarrow> string" where
  "memory_key apiKey nonce = apiKey @ '':'' @ nonce"

definition consume_memory :: "nat \<Rightarrow> nonce_map \<Rightarrow> int \<Rightarrow> string \<Rightarrow> string \<Rightarrow> int \<Rightarrow> bool \<times> nonce_map" where
  "consume_memory maxEntries m currentTime apiKey nonce ttlSeconds =
     (let pruned = pruneExpired currentTime m; key = memory_key apiKey nonce
      in case map_of pruned key of
           Some expiresAt \<Rightarrow>
             if expiresAt \<noteq> 0 \<and> currentTime < expiresAt then (False, pruned)
             else (True, capStoreSize maxEntries (map_set key (currentTime + ttlSeconds * 1000) pruned))
         | None \<Rightarrow> (True, capStoreSize maxEntries (map_set key (currentTime + ttlSeconds * 1000) pruned)))"

section \<open>Promises\<close>

text \<open>
  What the shared authentication promises: the keys it reads are well formed, a request that passes is signed by
  a known active key within the allowed skew, and with a nonce store that keeps the contract of \<open>Nonce_Store\<close>
  a signed request passes at most once.
\<close>

section \<open>Keys\<close>

definition key_ok :: "service_key \<Rightarrow> bool" where
  "key_ok k \<longleftrightarrow> sk_id k \<noteq> [] \<and> length (sk_id k) \<le> api_key_max_length \<and> sk_secret k \<noteq> []"

lemma parse_key_ok: "parse_key i v = Inr k \<Longrightarrow> key_ok k"
  by (auto simp: parse_key_def key_ok_def Let_def split: if_splits sum.splits)

lemma parse_keys_ok: "parse_keys i vs = Inr ks \<Longrightarrow> list_all key_ok ks \<and> length ks = length vs"
proof (induction i vs arbitrary: ks rule: parse_keys.induct)
  case (2 i v vs)
  then obtain k where k: "parse_key i v = Inr k" by (auto split: sum.splits)
  with 2(2) obtain ks' where "parse_keys (Suc i) vs = Inr ks'" "ks = k # ks'"
    by (cases "parse_keys (Suc i) vs") auto
  with 2(1) [OF k] k show ?case by (auto simp: parse_key_ok)
qed simp

lemma parsed_service_keys_ok: "parseServiceApiKeys parse raw = Inr ks \<Longrightarrow> list_all key_ok ks"
  by (auto simp: parseServiceApiKeys_def dest: parse_keys_ok split: if_splits option.splits json.splits)

section \<open>What passes\<close>

definition timestamp_header :: "service_request \<Rightarrow> string" where
  "timestamp_header req = or_else (firstHeader req [''x-agroasys-timestamp'', ''X-Timestamp'']) []"

definition signature_header :: "service_request \<Rightarrow> string" where
  "signature_header req = or_else (firstHeader req [''x-agroasys-signature'', ''X-Signature'']) []"

text \<open>Who signed a request, with which nonce and at what time.\<close>

definition request_identity :: "hash_library \<Rightarrow> auth_options \<Rightarrow> service_request \<Rightarrow> (string \<times> string \<times> int) option" where
  "request_identity lib opts req =
     (case (resolvePrincipal (firstHeader req [''X-Api-Key'']) opts, timestamp_seconds (timestamp_header req)) of
        (Some caller, Some t) \<Rightarrow> Some (sp_id caller, request_nonce_of lib req (timestamp_header req), t)
      | _ \<Rightarrow> None)"

lemma auth_checks_unfold:
  "auth_checks lib opts now req =
     (if timestamp_header req = [] \<or> signature_header req = []
      then Inl (unauthorized ''AUTH_MISSING_HEADERS'' ''Missing authentication headers'')
      else (case timestamp_seconds (timestamp_header req) of
         None \<Rightarrow> Inl (unauthorized ''AUTH_INVALID_TIMESTAMP'' ''Invalid timestamp format'')
       | Some t \<Rightarrow>
           if abs (now - t) > ao_maxSkewSeconds opts
           then Inl (unauthorized ''AUTH_TIMESTAMP_SKEW'' ''Timestamp outside allowed skew window'')
           else (case resolvePrincipal (firstHeader req [''X-Api-Key'']) opts of
              None \<Rightarrow> Inl (unauthorized ''AUTH_UNKNOWN_API_KEY'' ''Unknown API key'')
            | Some caller \<Rightarrow>
                if \<not> sp_active caller then Inl (forbidden ''API key is inactive'')
                else
                  (let nonce = request_nonce_of lib req (timestamp_header req)
                   in if trim nonce = [] \<or> length nonce > nonce_max_length
                      then Inl (unauthorized ''AUTH_INVALID_NONCE'' ''Invalid nonce format'')
                      else if \<not> timingSafeHexEquals (signature_header req)
                        (expected_signature lib req (sp_secret caller) (timestamp_header req) nonce)
                      then Inl (unauthorized ''AUTH_INVALID_SIGNATURE'' ''Invalid signature'')
                      else Inr (caller, nonce)))))"
  unfolding auth_checks_def timestamp_header_def signature_header_def Let_def by (rule refl)

lemma auth_checks_Inr:
  assumes "auth_checks lib opts now req = Inr (caller, nonce)"
  obtains t where "timestamp_seconds (timestamp_header req) = Some t" "\<bar>now - t\<bar> \<le> ao_maxSkewSeconds opts"
    "resolvePrincipal (firstHeader req [''X-Api-Key'']) opts = Some caller" "sp_active caller"
    "nonce = request_nonce_of lib req (timestamp_header req)" "trim nonce \<noteq> []" "length nonce \<le> nonce_max_length"
    "timingSafeHexEquals (signature_header req)
       (expected_signature lib req (sp_secret caller) (timestamp_header req) nonce)"
    "request_identity lib opts req = Some (sp_id caller, nonce, t)"
proof (cases "timestamp_seconds (timestamp_header req)")
  case None
  with assms show ?thesis by (simp add: auth_checks_unfold Let_def split: if_splits)
next
  case t: (Some t)
  show ?thesis
  proof (cases "resolvePrincipal (firstHeader req [''X-Api-Key'']) opts")
    case None
    with assms t show ?thesis by (simp add: auth_checks_unfold Let_def split: if_splits)
  next
    case (Some c)
    with assms t have "c = caller" "nonce = request_nonce_of lib req (timestamp_header req)" "sp_active caller"
        "\<bar>now - t\<bar> \<le> ao_maxSkewSeconds opts" "trim nonce \<noteq> []" "length nonce \<le> nonce_max_length"
        "timingSafeHexEquals (signature_header req)
          (expected_signature lib req (sp_secret caller) (timestamp_header req) nonce)"
      by (simp_all add: auth_checks_unfold Let_def split: if_splits)
    with t Some show ?thesis by (intro that [of t]) (simp_all add: request_identity_def)
  qed
qed

lemma auth_checks_refused: "auth_checks lib opts now req = Inl x \<Longrightarrow> \<exists>s c m. x = Auth_refused s c m"
  by (auto simp: auth_checks_unfold Let_def unauthorized_def forbidden_def split: if_splits option.splits)

lemma middleware_passed:
  assumes "service_auth_middleware lib opts consumeNonce now req w = (Inr (Auth_passed i scheme), w')"
  obtains caller nonce where "auth_checks lib opts now req = Inr (caller, nonce)" "i = sp_id caller" "scheme = sp_scheme caller"
    "consumeNonce i nonce (ao_nonceTtlSeconds opts) w = (Inr True, w')"
  using assms auth_checks_refused [of lib opts now req]
  by (fastforce simp: service_auth_middleware_def eff_simps unauthorized_def unavailable_def
      split: if_splits sum.splits prod.splits)

section \<open>Requests one after the other\<close>

text \<open>\<open>consume\<close> of a store, after the assertions that every store makes; times are in milliseconds.\<close>

definition checked_consume ::
  "('s \<Rightarrow> int \<Rightarrow> string \<Rightarrow> string \<Rightarrow> int \<Rightarrow> bool \<times> 's) \<Rightarrow> int \<Rightarrow> string \<Rightarrow> string \<Rightarrow> int \<Rightarrow> (string, 's, bool) eff" where
  "checked_consume consume now apiKey nonce ttlSeconds s =
     (case check_nonce_args apiKey nonce ttlSeconds of
        Inl e \<Rightarrow> (Inl e, s)
      | Inr _ \<Rightarrow> (case consume s now apiKey nonce ttlSeconds of (accepted, s') \<Rightarrow> (Inr accepted, s')))"

definition auth_step ::
  "('s \<Rightarrow> int \<Rightarrow> string \<Rightarrow> string \<Rightarrow> int \<Rightarrow> bool \<times> 's) \<Rightarrow> hash_library \<Rightarrow> auth_options \<Rightarrow> int \<Rightarrow> service_request \<Rightarrow>
   (string, 's, service_auth) eff" where
  "auth_step consume lib opts now req =
     service_auth_middleware lib opts (checked_consume consume now) (now div 1000) req"

text \<open>How many requests of a run pass with a given identity.\<close>

fun times_passed ::
  "('s \<Rightarrow> int \<Rightarrow> string \<Rightarrow> string \<Rightarrow> int \<Rightarrow> bool \<times> 's) \<Rightarrow> hash_library \<Rightarrow> auth_options \<Rightarrow> string \<times> string \<times> int \<Rightarrow>
   (int \<times> service_request) list \<Rightarrow> 's \<Rightarrow> nat" where
  "times_passed consume lib opts i [] s = 0"
| "times_passed consume lib opts i ((now, req) # rs) s =
     (case auth_step consume lib opts now req s of (r, s') \<Rightarrow>
        (case r of Inr (Auth_passed _ _) \<Rightarrow> if request_identity lib opts req = Some i then 1 else 0 | _ \<Rightarrow> 0) +
        times_passed consume lib opts i rs s')"

text \<open>A request uses at most one nonce.\<close>

lemma auth_step_state:
  "state_of (auth_step consume lib opts now req s) = s \<or>
   (\<exists>k n. state_of (auth_step consume lib opts now req s) = snd (consume s now k n (ao_nonceTtlSeconds opts)))"
proof -
  have u: "state_of (checked_consume consume now k n ttl s) \<in> {s, snd (consume s now k n ttl)}" for k n ttl
    by (simp add: checked_consume_def split: sum.splits prod.splits)
  show ?thesis
  proof (cases "auth_checks lib opts (now div 1000) req")
    case (Inl x)
    then show ?thesis by (simp add: auth_step_def service_auth_middleware_def eff_simps)
  next
    case (Inr x)
    obtain caller nonce where x: "x = (caller, nonce)" by (cases x)
    have "state_of (auth_step consume lib opts now req s) \<in>
        {s, state_of (checked_consume consume now (sp_id caller) nonce (ao_nonceTtlSeconds opts) s)}"
      using Inr x by (simp add: auth_step_def service_auth_middleware_def eff_simps split: sum.splits prod.splits)
    with u [of "sp_id caller" nonce "ao_nonceTtlSeconds opts"]
    have "state_of (auth_step consume lib opts now req s) \<in> {s, snd (consume s now (sp_id caller) nonce (ao_nonceTtlSeconds opts))}"
      by (metis insertE insertI1 insertI2 singletonD)
    then show ?thesis by blast
  qed
qed

lemma auth_step_passed:
  assumes "auth_step consume lib opts now req s = (Inr (Auth_passed k scheme), s')"
    and "request_identity lib opts req = Some (k', n, t)"
  shows "consume s now k' n (ao_nonceTtlSeconds opts) = (True, s')" "\<bar>now div 1000 - t\<bar> \<le> ao_maxSkewSeconds opts"
proof -
  from assms(1) obtain caller nonce where c: "auth_checks lib opts (now div 1000) req = Inr (caller, nonce)" "k = sp_id caller"
    and u: "checked_consume consume now k nonce (ao_nonceTtlSeconds opts) s = (Inr True, s')"
    unfolding auth_step_def by (rule middleware_passed) blast
  obtain t' where t': "request_identity lib opts req = Some (sp_id caller, nonce, t')"
    "\<bar>now div 1000 - t'\<bar> \<le> ao_maxSkewSeconds opts"
    using auth_checks_Inr [OF c(1)] by metis
  with assms(2) c(2) u show "consume s now k' n (ao_nonceTtlSeconds opts) = (True, s')"
    by (auto simp: checked_consume_def split: sum.splits prod.splits)
  show "\<bar>now div 1000 - t\<bar> \<le> ao_maxSkewSeconds opts" using t' assms(2) by simp
qed

section \<open>Replay protection\<close>

lemma seconds_of:
  fixes n b :: int
  shows "n div 1000 \<le> b \<Longrightarrow> n < 1000 * (b + 1)" "b \<le> n div 1000 \<Longrightarrow> 1000 * b \<le> n"
proof -
  have m: "1000 * (n div 1000) + n mod 1000 = n" by simp
  then show "n < 1000 * (b + 1)" if "n div 1000 \<le> b"
    using pos_mod_bound [of 1000 n] that by simp
  from m show "1000 * b \<le> n" if "b \<le> n div 1000"
    using pos_mod_sign [of 1000 n] that by simp
qed

locale auth_nonce_store =
  nonce_store consume live
  for consume :: "'s \<Rightarrow> int \<Rightarrow> string \<Rightarrow> string \<Rightarrow> int \<Rightarrow> bool \<times> 's"
    and live :: "'s \<Rightarrow> int \<Rightarrow> string \<Rightarrow> string \<Rightarrow> bool"
begin

lemma step_keeps_live:
  assumes "live s t k n" "now \<le> t"
  shows "live (state_of (auth_step consume lib opts now req s)) t k n"
  using auth_step_state [of consume lib opts now req s] keep_live [OF assms] assms(1) by auto

lemma blocked:
  assumes "\<forall>t. a \<le> t \<and> t < 1000 * (ts + ao_maxSkewSeconds opts + 1) \<longrightarrow> live s t k n"
    and "sorted (map fst rs)" "\<forall>r \<in> set rs. a \<le> fst r"
  shows "times_passed consume lib opts (k, n, ts) rs s = 0"
  using assms
proof (induction rs arbitrary: s a)
  case (Cons r rs)
  obtain now req where r: "r = (now, req)" by (cases r)
  obtain x s' where x: "auth_step consume lib opts now req s = (x, s')"
    by (cases "auth_step consume lib opts now req s")
  have "times_passed consume lib opts (k, n, ts) rs s' = 0"
  proof (rule Cons.IH)
    show "\<forall>t. now \<le> t \<and> t < 1000 * (ts + ao_maxSkewSeconds opts + 1) \<longrightarrow> live s' t k n"
      using step_keeps_live [of s _ k n now lib opts req] Cons.prems(1,3) x r by auto
  qed (use Cons.prems(2) r in auto)
  moreover have False if p: "x = Inr (Auth_passed i scheme)" "request_identity lib opts req = Some (k, n, ts)" for i scheme
  proof -
    from auth_step_passed [OF x [unfolded p(1)] p(2)]
    have u: "fst (consume s now k n (ao_nonceTtlSeconds opts))" "now div 1000 \<le> ts + ao_maxSkewSeconds opts" by auto
    then have "now < 1000 * (ts + ao_maxSkewSeconds opts + 1)" by (intro seconds_of)
    with Cons.prems(1,3) r have "live s now k n" by auto
    with live_rejects u(1) show False by blast
  qed
  ultimately show ?case using r x by (auto split: sum.splits service_auth.splits)
qed simp

theorem passes_once:
  assumes "2 * ao_maxSkewSeconds opts < ao_nonceTtlSeconds opts" and "sorted (map fst rs)"
  shows "times_passed consume lib opts (k, n, ts) rs s \<le> 1"
  using assms(2)
proof (induction rs arbitrary: s)
  case (Cons r rs)
  obtain now req where r: "r = (now, req)" by (cases r)
  obtain x s' where x: "auth_step consume lib opts now req s = (x, s')"
    by (cases "auth_step consume lib opts now req s")
  have IH: "times_passed consume lib opts (k, n, ts) rs s' \<le> 1" using Cons by simp
  moreover have "times_passed consume lib opts (k, n, ts) rs s' = 0"
    if p: "x = Inr (Auth_passed i scheme)" "request_identity lib opts req = Some (k, n, ts)" for i scheme
  proof (rule blocked)
    from auth_step_passed [OF x [unfolded p(1)] p(2)]
    have u: "consume s now k n (ao_nonceTtlSeconds opts) = (True, s')" "ts - ao_maxSkewSeconds opts \<le> now div 1000" by auto
    then have "1000 * (ts + ao_maxSkewSeconds opts + 1) \<le> now + ao_nonceTtlSeconds opts * 1000"
      using assms(1) seconds_of(2) [OF u(2)] by simp
    then show "\<forall>t. now \<le> t \<and> t < 1000 * (ts + ao_maxSkewSeconds opts + 1) \<longrightarrow> live s' t k n"
      using accept_live [of s now k n "ao_nonceTtlSeconds opts"] u(1) by auto
  qed (use Cons.prems r in auto)
  ultimately show ?case using r x by (auto split: sum.splits service_auth.splits)
qed simp

end

interpretation postgres_auth: auth_nonce_store "consume_row p" live_row
  by unfold_locales

text \<open>
  C19: a signed request passes at most once.  With the table of nonces, whichever of its two statements PostgreSQL
  runs first, and a time to live above twice the allowed skew, the requests of a run that are signed by one key
  with one nonce and timestamp pass at most once, whatever other requests come in between.
\<close>

theorem signed_request_passes_once:
  assumes "2 * ao_maxSkewSeconds opts < ao_nonceTtlSeconds opts" and "sorted (map fst rs)"
  shows "times_passed (consume_row prune_first) lib opts (apiKey, nonce, timestamp) rs rows \<le> 1"
  using assms by (rule postgres_auth.passes_once)

section \<open>Requests that pass twice\<close>

text \<open>A library whose hashes are constant, a key, and a request of that key.\<close>

definition constant_hashes :: hash_library where
  "constant_hashes = \<lparr>hl_sha256 = (\<lambda>_. replicate 64 (CHR ''a'')), hl_hmac = (\<lambda>_ _. replicate 64 (CHR ''b''))\<rparr>"

definition one_key_auth :: "int \<Rightarrow> int \<Rightarrow> auth_options" where
  "one_key_auth skew ttl =
     \<lparr>ao_enabled = True, ao_maxSkewSeconds = skew, ao_nonceTtlSeconds = ttl, ao_sharedSecret = None,
      ao_lookupApiKey = (\<lambda>k. if k = ''ops'' then Some \<lparr>sk_id = ''ops'', sk_secret = ''s'', sk_active = True\<rparr> else None)\<rparr>"

definition ops_request :: "string \<Rightarrow> service_request" where
  "ops_request nonce =
     \<lparr>sq_method = ''POST'', sq_originalUrl = ''/hash'',
      sq_header = map_of [(''x-api-key'', ''ops''), (''x-agroasys-timestamp'', ''1000''), (''x-agroasys-nonce'', nonce),
        (''x-agroasys-signature'', replicate 64 (CHR ''b''))],
      sq_rawBody = []\<rparr>"

text \<open>
  With a time to live of exactly twice the skew, the defaults of the services, the row of a request that came at
  the earliest second expires in the latest second in which its timestamp is allowed.
\<close>

lemma default_ttl_replays:
  "times_passed (consume_row True) constant_hashes (one_key_auth 300 600) (''ops'', ''n1'', 1000)
     [(700000, ops_request ''n1''), (1300000, ops_request ''n1'')] [] = 2"
  by code_simp

text \<open>The in-memory store forgets its oldest nonce when it is full, expired or not.\<close>

lemma full_memory_replays:
  "times_passed (\<lambda>s now k n ttl. consume_memory 1 s now k n ttl) constant_hashes (one_key_auth 300 601) (''ops'', ''n1'', 1000)
     [(1000000, ops_request ''n1''), (1000001, ops_request ''n2''), (1000002, ops_request ''n1'')] [] = 2"
  by code_simp

theorem signed_request_passes_once_witness:
  "times_passed (consume_row False) constant_hashes (one_key_auth 300 601) (''ops'', ''n1'', 1000)
     [(700000, ops_request ''n1''), (800000, ops_request ''n2''), (1300000, ops_request ''n1'')] [] \<le> 1"
  by (rule signed_request_passes_once) (simp_all add: one_key_auth_def)

end
