(* ===== verification/Ric_Service.thy ===== *)
theory Ric_Service imports Main Ric_Payloads Ric_Limiter Shared_Auth Sql_Table begin

text \<open>
  The Ricardian service: its table (\<open>ricardian/src/database\<close>), its handlers (\<open>api/controller.ts\<close>), its nonce
  stores (\<open>auth/nonceStore.ts\<close>), its counters (\<open>metrics/counters.ts\<close>) and its routes (\<open>api/routes.ts\<close>,
  \<open>server.ts\<close>).  A statement may fail at every tick; \<open>he_kept\<close> says whether it took effect although its answer
  was lost.  Times are milliseconds.
\<close>

section \<open>The world\<close>

record ric_row =
  rr_id :: int
  rr_request_id :: string
  rr_document_ref :: string
  rr_hash :: string
  rr_rules_version :: string
  rr_canonical_json :: string
  rr_metadata :: json
  rr_created_at :: int

record ric_world =
  rx_tick :: nat
  rx_sequence :: int
  rx_rows :: "ric_row list"
  rx_nonces :: "nonce_row list"
  rx_memory :: nonce_map
  rx_buckets :: buckets
  rx_authFailures :: nat
  rx_replayRejects :: nat

text \<open>
  What the service does not contain: the clock, the failures of the database, random UUIDs, the hash library, the text
  that the database driver makes of a value of a text column, the value that a \<open>jsonb\<close> column gives back, the
  answers of Redis, and the decoding of a path parameter.
\<close>

record ric_env =
  he_now :: "nat \<Rightarrow> int"
  he_db :: "nat \<Rightarrow> string option"
  he_kept :: "nat \<Rightarrow> bool"
  he_prune_first :: "nat \<Rightarrow> bool"
  he_uuid :: "nat \<Rightarrow> string"
  he_lib :: hash_library
  he_column :: "json \<Rightarrow> string"
  he_jsonb :: "json \<Rightarrow> json"
  he_redis :: "nat \<Rightarrow> string \<Rightarrow> int \<Rightarrow> string + bool"
  he_decode :: "string \<Rightarrow> string option"
  he_iso :: "int \<Rightarrow> string"

datatype nonce_mode = Nonce_redis | Nonce_postgres | Nonce_inmemory

record ric_config =
  rc_auth :: auth_options
  rc_nonceStore :: nonce_mode
  rc_limits :: limiter_config

type_synonym 'a ric_eff = "(string, ric_world, 'a) eff"

definition empty_ricardian :: ric_world where
  "empty_ricardian = \<lparr>rx_tick = 0, rx_sequence = 1, rx_rows = [], rx_nonces = [], rx_memory = [], rx_buckets = Map.empty,
     rx_authFailures = 0, rx_replayRejects = 0\<rparr>"

definition ric_tick :: "ric_world \<Rightarrow> ric_world" where
  "ric_tick w = w\<lparr>rx_tick := Suc (rx_tick w)\<rparr>"

definition ric_query :: "ric_env \<Rightarrow> 'a ric_eff \<Rightarrow> 'a ric_eff" where
  "ric_query env stmt w =
     (case he_db env (rx_tick w) of
        None \<Rightarrow> stmt (ric_tick w)
      | Some m \<Rightarrow> (Inl m, if he_kept env (rx_tick w) then state_of (stmt (ric_tick w)) else ric_tick w))"

section \<open>The table\<close>

text \<open>A value of a column of type \<open>VARCHAR(n)\<close>: only spaces are cut off.\<close>

definition fit_varchar :: "nat \<Rightarrow> string \<Rightarrow> string option" where
  "fit_varchar n s = (if list_all (\<lambda>c. c = CHR '' '') (drop n s) then Some (take n s) else None)"

definition ric_key :: "ric_row \<Rightarrow> string \<times> string" where
  "ric_key r = (rr_hash r, rr_document_ref r)"

definition hash_row :: "ric_env \<Rightarrow> string \<Rightarrow> hash_result \<Rightarrow> ric_world \<Rightarrow> ric_row" where
  "hash_row env requestId d w =
     \<lparr>rr_id = rx_sequence w, rr_request_id = requestId, rr_document_ref = hr_documentRef d, rr_hash = hr_hash d,
      rr_rules_version = hr_rulesVersion d, rr_canonical_json = hr_canonicalJson d,
      rr_metadata = he_jsonb env (hr_metadata d), rr_created_at = he_now env (rx_tick w)\<rparr>"

text \<open>
  \<open>INSERT ... ON CONFLICT (hash, document_ref) DO UPDATE SET metadata RETURNING *\<close>; the sequence advances on a
  conflict too.
\<close>

definition upsert_hash :: "ric_row \<Rightarrow> ric_world \<Rightarrow> ric_row \<times> ric_world" where
  "upsert_hash r w =
     (let rows = upsert ric_key (\<lambda>q. q\<lparr>rr_metadata := rr_metadata r\<rparr>) r (rx_rows w)
      in (case row_by ric_key (ric_key r) rows of Some q \<Rightarrow> q | None \<Rightarrow> r,
          w\<lparr>rx_rows := rows, rx_sequence := rx_sequence w + 1\<rparr>))"

definition createRicardianHash :: "ric_env \<Rightarrow> hash_result \<Rightarrow> ric_row ric_eff" where
  "createRicardianHash env d =
     ric_query env (\<lambda>w.
       case fit_varchar 100 (he_column env (hr_requestId d)) of
         None \<Rightarrow> (Inl ''value too long for type character varying(100)'', w)
       | Some requestId \<Rightarrow> (case upsert_hash (hash_row env requestId d w) w of (row, w') \<Rightarrow> (Inr row, w')))"

text \<open>\<open>WHERE hash = $1 ORDER BY created_at DESC LIMIT 1\<close>\<close>

definition getRicardianHash :: "ric_env \<Rightarrow> string \<Rightarrow> ric_row option ric_eff" where
  "getRicardianHash env hash =
     ric_query env (asks (\<lambda>w. latest_by rr_created_at (filter (\<lambda>r. rr_hash r = hash) (rx_rows w))))"

section \<open>Responses\<close>

record hash_response =
  hv_id :: int
  hv_requestId :: string
  hv_documentRef :: string
  hv_hash :: string
  hv_rulesVersion :: string
  hv_canonicalJson :: string
  hv_metadata :: json
  hv_createdAt :: string

definition mapRowToResponse :: "ric_env \<Rightarrow> ric_row \<Rightarrow> hash_response" where
  "mapRowToResponse env row =
     \<lparr>hv_id = rr_id row, hv_requestId = rr_request_id row, hv_documentRef = rr_document_ref row, hv_hash = rr_hash row,
      hv_rulesVersion = rr_rules_version row, hv_canonicalJson = rr_canonical_json row, hv_metadata = rr_metadata row,
      hv_createdAt = he_iso env (rr_created_at row)\<rparr>"

datatype ric_response =
    Ric_data hash_response "limit_headers option"
  | Ric_error int string
  | Ric_refused int string string
  | Ric_limited limit_headers int
  | Ric_health
  | Ric_ready bool
  | Ric_no_route

text \<open>\<open>error?.message || fallback\<close>\<close>

definition message_or :: "string \<Rightarrow> string \<Rightarrow> string" where
  "message_or m fallback = (if m = [] then fallback else m)"

section \<open>The handlers\<close>

text \<open>Without a JSON body there is no payload, and the first access to it throws.\<close>

definition hash_payload :: "ric_env \<Rightarrow> nat \<Rightarrow> json \<Rightarrow> string + hash_result" where
  "hash_payload env tick payload =
     (if payload = J_undefined
      then Inl (''Cannot read properties of undefined (reading '' @ [CHR 0x27] @ ''documentRef'' @ [CHR 0x27] @ '')'')
      else buildRicardianHash (hl_sha256 (he_lib env)) (he_uuid env tick) payload)"

definition createHash :: "ric_env \<Rightarrow> limit_headers option \<Rightarrow> json \<Rightarrow> ric_response ric_eff" where
  "createHash env headers payload w =
     (case hash_payload env (rx_tick w) payload of
        Inl e \<Rightarrow> (Inr (Ric_error 400 (message_or e ''Invalid Ricardian payload'')), ric_tick w)
      | Inr hashed \<Rightarrow>
          catchE
            (bindE (createRicardianHash env hashed) (\<lambda>row. ret (Ric_data (mapRowToResponse env row) headers)))
            (\<lambda>e. ret (Ric_error 500 (message_or e ''Failed to persist Ricardian hash''))) (ric_tick w))"

definition getHash :: "ric_env \<Rightarrow> limit_headers option \<Rightarrow> string \<Rightarrow> ric_response ric_eff" where
  "getHash env headers hash =
     (if \<not> signature_hex hash then ret (Ric_error 400 ''Invalid hash format'')
      else catchE
        (bindE (getRicardianHash env (to_lower hash)) (\<lambda>row.
           ret (case row of
                  None \<Rightarrow> Ric_error 404 ''Hash not found''
                | Some r \<Rightarrow> Ric_data (mapRowToResponse env r) headers)))
        (\<lambda>e. ret (Ric_error 500 (message_or e ''Failed to fetch Ricardian hash''))))"

section \<open>Authentication and limits\<close>

definition consumeServiceAuthNonce :: "ric_env \<Rightarrow> string \<Rightarrow> string \<Rightarrow> int \<Rightarrow> bool ric_eff" where
  "consumeServiceAuthNonce env apiKey nonce ttlSeconds =
     ric_query env (\<lambda>w.
       case consume_row (he_prune_first env (rx_tick w)) (rx_nonces w) (he_now env (rx_tick w)) apiKey nonce ttlSeconds of
         (accepted, rows) \<Rightarrow> (Inr accepted, w\<lparr>rx_nonces := rows\<rparr>))"

definition createRicardianNonceStore :: "ric_env \<Rightarrow> nonce_mode \<Rightarrow> string \<Rightarrow> string \<Rightarrow> int \<Rightarrow> bool ric_eff" where
  "createRicardianNonceStore env mode apiKey nonce ttlSeconds =
     seqE (lift (check_nonce_args apiKey nonce ttlSeconds))
       (case mode of
          Nonce_postgres \<Rightarrow> consumeServiceAuthNonce env apiKey nonce ttlSeconds
        | Nonce_redis \<Rightarrow>
            (\<lambda>w. (he_redis env (rx_tick w) (''ricardian_auth_nonce:'' @ memory_key apiKey nonce) ttlSeconds, ric_tick w))
        | Nonce_inmemory \<Rightarrow>
            (\<lambda>w. case consume_memory 10000 (rx_memory w) (he_now env (rx_tick w)) apiKey nonce ttlSeconds of
                   (accepted, m) \<Rightarrow> (Inr accepted, (ric_tick w)\<lparr>rx_memory := m\<rparr>)))"

definition incrementAuthFailure :: "ric_world \<Rightarrow> ric_world" where
  "incrementAuthFailure w = w\<lparr>rx_authFailures := Suc (rx_authFailures w)\<rparr>"

definition incrementReplayReject :: "ric_world \<Rightarrow> ric_world" where
  "incrementReplayReject w = w\<lparr>rx_replayRejects := Suc (rx_replayRejects w)\<rparr>"

record ric_request =
  hq_method :: string
  hq_path :: string
  hq_originalUrl :: string
  hq_header :: "string \<Rightarrow> string option"
  hq_rawBody :: string
  hq_body :: json
  hq_ip :: "string option"
  hq_remoteAddress :: "string option"

definition service_request_of :: "ric_request \<Rightarrow> service_request" where
  "service_request_of req =
     \<lparr>sq_method = hq_method req, sq_originalUrl = hq_originalUrl req, sq_header = hq_header req, sq_rawBody = hq_rawBody req\<rparr>"

definition limiter_request_of :: "ric_request \<Rightarrow> string option \<Rightarrow> limiter_request" where
  "limiter_request_of req apiKeyId =
     \<lparr>lq_method = hq_method req, lq_path = hq_path req, lq_ip = hq_ip req, lq_remoteAddress = hq_remoteAddress req,
      lq_apiKeyId = apiKeyId\<rparr>"

text \<open>The middleware with the counters of the service as its callbacks.\<close>

definition createServiceAuthMiddleware :: "ric_env \<Rightarrow> ric_config \<Rightarrow> ric_request \<Rightarrow> service_auth ric_eff" where
  "createServiceAuthMiddleware env config req =
     bindE (\<lambda>w. (Inr (he_now env (rx_tick w) div 1000), ric_tick w)) (\<lambda>nowSeconds.
     bindE (service_auth_middleware (he_lib env) (rc_auth config) (createRicardianNonceStore env (rc_nonceStore config))
              nowSeconds (service_request_of req)) (\<lambda>r.
       case r of
         Auth_refused status code m \<Rightarrow>
           seqE (if code = ''AUTH_NONCE_REPLAY'' then change incrementReplayReject else ret ())
             (seqE (change incrementAuthFailure) (ret r))
       | _ \<Rightarrow> ret r))"

text \<open>The middlewares of a route and its handler, which gets the headers of the limiter.\<close>

definition with_middlewares ::
  "ric_env \<Rightarrow> ric_config \<Rightarrow> ric_request \<Rightarrow> (limit_headers option \<Rightarrow> ric_response ric_eff) \<Rightarrow> ric_response ric_eff" where
  "with_middlewares env config req handler =
     bindE (createServiceAuthMiddleware env config req) (\<lambda>auth.
       case auth of
         Auth_refused status code m \<Rightarrow> ret (Ric_refused status code m)
       | _ \<Rightarrow>
           bindE (\<lambda>w.
             case limiter_middleware (rc_limits config) (he_now env (rx_tick w) div 1000)
                    (limiter_request_of req (case auth of Auth_passed i _ \<Rightarrow> Some i | _ \<Rightarrow> None)) (rx_buckets w) of
               (x, b) \<Rightarrow> (Inr x, (ric_tick w)\<lparr>rx_buckets := b\<rparr>)) (\<lambda>limited.
             case limited of
               Limit_exceeded headers reset \<Rightarrow> ret (Ric_limited headers reset)
             | Limit_pass headers \<Rightarrow> handler headers))"

section \<open>Routes\<close>

datatype ric_route = Route_health | Route_ready | Route_create | Route_get string | Route_undecodable | Route_none

text \<open>
  The router matches a path in any case and with or without a slash at its end, and serves \<open>HEAD\<close> with the
  handlers of \<open>GET\<close>.
\<close>

definition path_segments :: "string \<Rightarrow> string list" where
  "path_segments path =
     (let parts = drop 1 (split_at (CHR ''/'') path)
      in if parts \<noteq> [] \<and> last parts = [] then butlast parts else parts)"

definition createRouter :: "ric_env \<Rightarrow> string \<Rightarrow> string \<Rightarrow> ric_route" where
  "createRouter env requestMethod path =
     (let reads = (requestMethod = ''GET'' \<or> requestMethod = ''HEAD'')
      in case path_segments path of
           [p] \<Rightarrow>
             if reads \<and> to_lower p = ''health'' then Route_health
             else if reads \<and> to_lower p = ''ready'' then Route_ready
             else if requestMethod = ''POST'' \<and> to_lower p = ''hash'' then Route_create
             else Route_none
         | [p, h] \<Rightarrow>
             if reads \<and> to_lower p = ''hash'' \<and> h \<noteq> []
             then (case he_decode env h of Some x \<Rightarrow> Route_get x | None \<Rightarrow> Route_undecodable)
             else Route_none
         | _ \<Rightarrow> Route_none)"

definition ric_handle :: "ric_env \<Rightarrow> ric_config \<Rightarrow> ric_request \<Rightarrow> ric_response ric_eff" where
  "ric_handle env config req =
     (case createRouter env (hq_method req) (hq_path req) of
        Route_health \<Rightarrow> ret Ric_health
      | Route_ready \<Rightarrow>
          catchE (seqE (ric_query env (ret ())) (ret (Ric_ready True))) (\<lambda>_. ret (Ric_ready False))
      | Route_create \<Rightarrow> with_middlewares env config req (\<lambda>headers. createHash env headers (hq_body req))
      | Route_get h \<Rightarrow> with_middlewares env config req (\<lambda>headers. getHash env headers h)
      | Route_undecodable \<Rightarrow> ret (Ric_error 400 ''Failed to decode param'')
      | Route_none \<Rightarrow> ret Ric_no_route)"

text \<open>Requests served one after the other: the responses and the last state.\<close>

fun ric_serve :: "ric_env \<Rightarrow> ric_config \<Rightarrow> ric_request list \<Rightarrow> ric_world \<Rightarrow> ric_response list \<times> ric_world" where
  "ric_serve env config [] w = ([], w)"
| "ric_serve env config (q # qs) w =
     (case ric_handle env config q w of
        (Inr r, w') \<Rightarrow> (case ric_serve env config qs w' of (rs, w'') \<Rightarrow> (r # rs, w''))
      | (Inl e, w') \<Rightarrow> (case ric_serve env config qs w' of (rs, w'') \<Rightarrow> (Ric_error 500 e # rs, w'')))"

end
