(* ===== verification/Ric_Props.thy ===== *)
theory Ric_Props imports Main Ric_Service begin

text \<open>
  What the table of the Ricardian service holds, over any sequence of requests: every row is the hash of a
  payload, rows are never removed and keep all but their metadata, and two answers have the same identifier
  exactly when their payloads are the same up to the order of keys.
\<close>

section \<open>The invariant\<close>

definition row_core :: "ric_row \<Rightarrow> ric_row" where
  "row_core r = r\<lparr>rr_metadata := J_null\<rparr>"

definition stored_ok :: "ric_env \<Rightarrow> ric_row \<Rightarrow> bool" where
  "stored_ok env r \<longleftrightarrow>
     (\<exists>m t. canonicalJsonStringify (canonical_payload (rr_document_ref r) m t) = Inr (rr_canonical_json r)) \<and>
     rr_hash r = hl_sha256 (he_lib env) (rules_version @ '':'' @ rr_canonical_json r) \<and>
     rr_rules_version r = rules_version \<and> length (rr_request_id r) \<le> 100"

definition ric_ok :: "ric_env \<Rightarrow> ric_world \<Rightarrow> bool" where
  "ric_ok env w \<longleftrightarrow>
     distinct (map ric_key (rx_rows w)) \<and> distinct (map rr_id (rx_rows w)) \<and>
     (\<forall>r \<in> set (rx_rows w). rr_id r < rx_sequence w \<and> stored_ok env r)"

definition ric_grows :: "ric_world \<Rightarrow> ric_world \<Rightarrow> bool" where
  "ric_grows w w' \<longleftrightarrow> prefix (map row_core (rx_rows w)) (map row_core (rx_rows w'))"

lemma ric_grows_refl: "ric_grows w w"
  by (simp add: ric_grows_def)

lemma ric_grows_trans: "ric_grows a b \<Longrightarrow> ric_grows b c \<Longrightarrow> ric_grows a c"
  by (auto simp: ric_grows_def intro: prefix_order.trans)

lemma row_core_eq:
  "row_core r = row_core q \<Longrightarrow> ric_key r = ric_key q \<and> rr_id r = rr_id q \<and> rr_hash r = rr_hash q \<and> rr_document_ref r = rr_document_ref q"
  by (cases r; cases q) (simp add: row_core_def ric_key_def)

lemma stored_ok_metadata [simp]: "stored_ok env (r\<lparr>rr_metadata := m\<rparr>) = stored_ok env r"
  by (simp add: stored_ok_def)

lemma ric_key_metadata [simp]: "ric_key (r\<lparr>rr_metadata := m\<rparr>) = ric_key r"
  by (simp add: ric_key_def)

lemma row_core_metadata [simp]: "row_core (r\<lparr>rr_metadata := m\<rparr>) = row_core r"
  by (simp add: row_core_def)

text \<open>A row of an earlier state is there later, but for its metadata.\<close>

lemma ric_grows_row: "ric_grows w w' \<Longrightarrow> r \<in> set (rx_rows w) \<Longrightarrow> \<exists>q \<in> set (rx_rows w'). row_core q = row_core r"
proof -
  assume "ric_grows w w'" "r \<in> set (rx_rows w)"
  then have "row_core r \<in> row_core ` set (rx_rows w)"
      and "row_core ` set (rx_rows w) \<subseteq> row_core ` set (rx_rows w')"
    using set_mono_prefix [of "map row_core (rx_rows w)" "map row_core (rx_rows w')"] by (simp_all add: ric_grows_def)
  then have "row_core r \<in> row_core ` set (rx_rows w')" by blast
  then show ?thesis by auto
qed

section \<open>One statement\<close>

lemma upsert_hash_ok:
  assumes "ric_ok env w" "stored_ok env r" "rr_id r = rx_sequence w"
  shows "ric_ok env (snd (upsert_hash r w))" "ric_grows w (snd (upsert_hash r w))"
    "fst (upsert_hash r w) \<in> set (rx_rows (snd (upsert_hash r w)))" "ric_key (fst (upsert_hash r w)) = ric_key r"
    "ric_key ` set (rx_rows (snd (upsert_hash r w))) = insert (ric_key r) (ric_key ` set (rx_rows w))"
proof -
  let ?f = "\<lambda>q. q\<lparr>rr_metadata := rr_metadata r\<rparr>"
  let ?rows = "upsert ric_key ?f r (rx_rows w)"
  have w': "rx_rows (snd (upsert_hash r w)) = ?rows" "rx_sequence (snd (upsert_hash r w)) = rx_sequence w + 1"
    by (simp_all add: upsert_hash_def Let_def)
  have keys: "distinct (map ric_key ?rows)"
    using assms(1) by (intro distinct_upsert) (simp_all add: ric_ok_def)
  have fresh: "rr_id r \<notin> rr_id ` set (rx_rows w)" using assms(1,3) by (auto simp: ric_ok_def)
  have ids: "distinct (map rr_id ?rows)"
    using assms(1) fresh by (auto simp: upsert_def map_update_where ric_ok_def)
  have all: "\<forall>q \<in> set ?rows. rr_id q < rx_sequence w + 1 \<and> stored_ok env q"
    using assms by (fastforce simp: upsert_def set_update_where ric_ok_def split: if_splits)
  show "ric_ok env (snd (upsert_hash r w))" using keys ids all w' by (simp add: ric_ok_def)
  show "ric_grows w (snd (upsert_hash r w))"
    using w' by (auto simp: ric_grows_def upsert_def map_update_where)
  have "map ric_key ?rows =
      (if ric_key r \<in> ric_key ` set (rx_rows w) then map ric_key (rx_rows w) else map ric_key (rx_rows w) @ [ric_key r])"
    by (simp add: upsert_def map_update_where)
  then have "set (map ric_key ?rows) = insert (ric_key r) (set (map ric_key (rx_rows w)))"
    by (auto simp: insert_absorb simp del: set_map) (simp_all add: insert_absorb)
  then show "ric_key ` set (rx_rows (snd (upsert_hash r w))) = insert (ric_key r) (ric_key ` set (rx_rows w))"
    using w'(1) by simp
  have "row_by ric_key (ric_key r) ?rows \<noteq> None"
    by (subst row_by_upsert) (auto split: option.splits)
  then obtain q where q: "row_by ric_key (ric_key r) ?rows = Some q" by blast
  then have "fst (upsert_hash r w) = q" by (simp add: upsert_hash_def Let_def)
  with row_by_Some [OF q] w' show "fst (upsert_hash r w) \<in> set (rx_rows (snd (upsert_hash r w)))"
    "ric_key (fst (upsert_hash r w)) = ric_key r" by simp_all
qed

text \<open>The payloads that the service hashes.\<close>

lemma built_stored:
  assumes "buildRicardianHash (hl_sha256 (he_lib env)) uuid payload = Inr d" "length q \<le> 100"
  shows "stored_ok env (hash_row env q d w)"
proof -
  have "hr_rulesVersion d = rules_version"
    using assms(1) by (auto simp: buildRicardianHash_def Let_def split: sum.splits if_splits)
  moreover obtain terms where "canonicalJsonStringify (canonical_payload (hr_documentRef d) (hr_metadata d) terms) = Inr (hr_canonicalJson d)"
    "hr_hash d = hl_sha256 (he_lib env) (rules_version @ '':'' @ hr_canonicalJson d)"
    by (rule built_hash [OF assms(1)])
  ultimately show ?thesis using assms(2) by (auto simp: stored_ok_def hash_row_def)
qed

lemma fit_varchar_length: "fit_varchar n s = Some t \<Longrightarrow> length t \<le> n"
  by (auto simp: fit_varchar_def split: if_splits)

text \<open>The states after \<open>w0\<close> whose rows have keys in \<open>K\<close>.\<close>

definition ric_step :: "ric_env \<Rightarrow> (string \<times> string) set \<Rightarrow> ric_world \<Rightarrow> ric_world \<Rightarrow> bool" where
  "ric_step env K w0 w \<longleftrightarrow> ric_ok env w \<and> ric_grows w0 w \<and> ric_key ` set (rx_rows w) \<subseteq> K"

lemma ric_step_same:
  "rx_rows w' = rx_rows w \<Longrightarrow> rx_sequence w' = rx_sequence w \<Longrightarrow> ric_step env K w0 w' = ric_step env K w0 w"
  by (simp add: ric_step_def ric_ok_def ric_grows_def)

lemma ric_step_tick [simp]: "ric_step env K w0 (ric_tick w) = ric_step env K w0 w"
  by (rule ric_step_same) (simp_all add: ric_tick_def)

lemma ric_step_fields [simp]:
  "ric_step env K w0 (w\<lparr>rx_memory := m\<rparr>) = ric_step env K w0 w"
  "ric_step env K w0 (w\<lparr>rx_nonces := ns\<rparr>) = ric_step env K w0 w"
  "ric_step env K w0 (w\<lparr>rx_buckets := b\<rparr>) = ric_step env K w0 w"
  "ric_step env K w0 (w\<lparr>rx_authFailures := i\<rparr>) = ric_step env K w0 w"
  "ric_step env K w0 (w\<lparr>rx_replayRejects := i\<rparr>) = ric_step env K w0 w"
  by (rule ric_step_same; simp)+

lemma keeps_query: "keeps (ric_step env K w0) m \<Longrightarrow> keeps (ric_step env K w0) (ric_query env m)"
  by (auto simp: keeps_def ric_query_def split: option.splits)

lemma insert_step:
  assumes "ric_step env K w0 w" "buildRicardianHash (hl_sha256 (he_lib env)) uuid payload = Inr d" "fit_varchar 100 c = Some q"
    and "(hr_hash d, hr_documentRef d) \<in> K"
  shows "ric_step env K w0 (snd (upsert_hash (hash_row env q d w) w))"
    "fst (upsert_hash (hash_row env q d w) w) \<in> set (rx_rows (snd (upsert_hash (hash_row env q d w) w)))"
    "ric_key (fst (upsert_hash (hash_row env q d w) w)) = (hr_hash d, hr_documentRef d)"
proof -
  have ok: "ric_ok env w" "stored_ok env (hash_row env q d w)" "rr_id (hash_row env q d w) = rx_sequence w"
    using assms(1) built_stored [OF assms(2) fit_varchar_length [OF assms(3)]] by (simp_all add: ric_step_def hash_row_def)
  note u = upsert_hash_ok [OF ok]
  have "ric_grows w0 w" using assms(1) by (simp add: ric_step_def)
  then have "ric_grows w0 (snd (upsert_hash (hash_row env q d w) w))" using u(2) by (rule ric_grows_trans)
  moreover have "ric_key ` set (rx_rows (snd (upsert_hash (hash_row env q d w) w))) \<subseteq> K"
    unfolding u(5) using assms(1,4) by (simp add: ric_step_def ric_key_def hash_row_def)
  ultimately show "ric_step env K w0 (snd (upsert_hash (hash_row env q d w) w))" using u(1) by (simp add: ric_step_def)
  show "fst (upsert_hash (hash_row env q d w) w) \<in> set (rx_rows (snd (upsert_hash (hash_row env q d w) w)))" by (rule u(3))
  show "ric_key (fst (upsert_hash (hash_row env q d w) w)) = (hr_hash d, hr_documentRef d)"
    unfolding u(4) by (simp add: ric_key_def hash_row_def)
qed

lemma keeps_create:
  assumes "buildRicardianHash (hl_sha256 (he_lib env)) uuid payload = Inr d" "(hr_hash d, hr_documentRef d) \<in> K"
  shows "keeps (ric_step env K w0) (createRicardianHash env d)"
  unfolding createRicardianHash_def
  by (intro keeps_query keepsI) (simp add: insert_step(1) [OF _ assms(1) _ assms(2)] prod.case_eq_if split: option.splits)

section \<open>Handlers\<close>

text \<open>The key under which a payload is stored.\<close>

definition payload_keys :: "ric_env \<Rightarrow> json \<Rightarrow> (string \<times> string) set" where
  "payload_keys env payload =
     {(hr_hash d, hr_documentRef d) | uuid d. buildRicardianHash (hl_sha256 (he_lib env)) uuid payload = Inr d}"

lemma keeps_createHash:
  assumes "payload_keys env payload \<subseteq> K"
  shows "keeps (ric_step env K w0) (createHash env headers payload)"
proof (rule keepsI)
  fix w assume w: "ric_step env K w0 w"
  show "ric_step env K w0 (state_of (createHash env headers payload w))"
  proof (cases "hash_payload env (rx_tick w) payload")
    case (Inl e)
    with w show ?thesis by (simp add: createHash_def)
  next
    case (Inr d)
    then have "buildRicardianHash (hl_sha256 (he_lib env)) (he_uuid env (rx_tick w)) payload = Inr d"
      by (simp add: hash_payload_def split: if_splits)
    moreover from this have "(hr_hash d, hr_documentRef d) \<in> K" using assms by (auto simp: payload_keys_def)
    ultimately have "keeps (ric_step env K w0) (catchE
        (bindE (createRicardianHash env d) (\<lambda>row. ret (Ric_data (mapRowToResponse env row) headers)))
        (\<lambda>e. ret (Ric_error 500 (message_or e ''Failed to persist Ricardian hash''))))"
      by (intro keeps_rules keeps_create)
    from keepsD [OF this, of "ric_tick w"] w Inr show ?thesis by (simp add: createHash_def)
  qed
qed

lemma keeps_getHash: "keeps (ric_step env K w0) (getHash env headers h)"
  unfolding getHash_def getRicardianHash_def by (intro keeps_rules keeps_query)

lemma keeps_nonces: "keeps (ric_step env K w0) (createRicardianNonceStore env mode k n ttl)"
proof -
  have memory: "keeps (ric_step env K w0) (\<lambda>w. case consume_memory 10000 (rx_memory w) (he_now env (rx_tick w)) k n ttl of
      (accepted, m) \<Rightarrow> (Inr accepted, (ric_tick w)\<lparr>rx_memory := m\<rparr>))"
    by (intro keepsI) (auto split: prod.splits)
  have redis: "keeps (ric_step env K w0) (\<lambda>w. (he_redis env (rx_tick w) (''ricardian_auth_nonce:'' @ memory_key k n) ttl, ric_tick w))"
    by (intro keepsI) simp
  have table: "keeps (ric_step env K w0) (consumeServiceAuthNonce env k n ttl)"
    unfolding consumeServiceAuthNonce_def
    by (intro keeps_query keepsI) (auto split: prod.splits)
  show ?thesis
    unfolding createRicardianNonceStore_def
    by (intro keeps_seq keeps_lift) (cases mode; use memory redis table in simp)
qed

lemma keeps_service_auth:
  assumes "\<And>k n ttl. keeps P (consumeNonce k n ttl)"
  shows "keeps P (service_auth_middleware lib opts consumeNonce now req)"
  unfolding service_auth_middleware_def using assms by (intro keeps_rules)

lemma keeps_auth: "keeps (ric_step env K w0) (createServiceAuthMiddleware env config req)"
proof -
  have c: "keeps (ric_step env K w0) (change incrementReplayReject)" "keeps (ric_step env K w0) (change incrementAuthFailure)"
    by (auto intro!: keeps_change simp: incrementReplayReject_def incrementAuthFailure_def)
  have t: "keeps (ric_step env K w0) (\<lambda>w. (Inr (he_now env (rx_tick w) div 1000), ric_tick w))"
    by (intro keepsI) simp
  show ?thesis
    unfolding createServiceAuthMiddleware_def
    by (intro keeps_bind t keeps_service_auth keeps_nonces)
       (simp split: service_auth.split, intro conjI allI impI keeps_rules c)
qed

lemma keeps_middlewares:
  assumes "\<And>headers. keeps (ric_step env K w0) (handler headers)"
  shows "keeps (ric_step env K w0) (with_middlewares env config req handler)"
proof -
  have l: "keeps (ric_step env K w0) (\<lambda>w.
      case limiter_middleware limits (he_now env (rx_tick w) div 1000) (limiter_request_of req i) (rx_buckets w) of
        (x, b) \<Rightarrow> (Inr x, (ric_tick w)\<lparr>rx_buckets := b\<rparr>))" for limits i
    by (intro keepsI) (auto split: prod.splits)
  have h: "keeps (ric_step env K w0) (case limited of
      Limit_exceeded headers reset \<Rightarrow> ret (Ric_limited headers reset) | Limit_pass headers \<Rightarrow> handler headers)" for limited
    by (cases limited) (simp_all add: assms keeps_ret)
  show ?thesis
    unfolding with_middlewares_def
    by (intro keeps_bind keeps_auth) (simp split: service_auth.split, intro conjI allI impI keeps_bind keeps_ret l h)
qed

definition request_keys :: "ric_env \<Rightarrow> ric_request \<Rightarrow> (string \<times> string) set" where
  "request_keys env req =
     (if createRouter env (hq_method req) (hq_path req) = Route_create then payload_keys env (hq_body req) else {})"

lemma keeps_handle:
  assumes "request_keys env req \<subseteq> K"
  shows "keeps (ric_step env K w0) (ric_handle env config req)"
  using assms
  unfolding ric_handle_def
  by (cases "createRouter env (hq_method req) (hq_path req)")
     (simp_all add: request_keys_def, (intro keeps_rules keeps_query keeps_middlewares keeps_createHash keeps_getHash; assumption?)+)

section \<open>Answers\<close>

text \<open>An answer shows a row of the table.\<close>

definition shows_row :: "ric_env \<Rightarrow> hash_response \<Rightarrow> string \<times> string \<Rightarrow> ric_world \<Rightarrow> bool" where
  "shows_row env v key w \<longleftrightarrow> (\<exists>r \<in> set (rx_rows w). ric_key r = key \<and> v = mapRowToResponse env r)"

lemma createHash_data:
  assumes "createHash env headers payload w = (Inr (Ric_data v h), w')" "ric_ok env w"
  obtains uuid d where "buildRicardianHash (hl_sha256 (he_lib env)) uuid payload = Inr d"
    "shows_row env v (hr_hash d, hr_documentRef d) w'"
proof (cases "hash_payload env (rx_tick w) payload")
  case (Inl e)
  with assms show ?thesis by (simp add: createHash_def)
next
  case (Inr d)
  then have d: "buildRicardianHash (hl_sha256 (he_lib env)) (he_uuid env (rx_tick w)) payload = Inr d"
    by (simp add: hash_payload_def split: if_splits)
  obtain r where r: "createRicardianHash env d (ric_tick w) = (Inr r, w')" "v = mapRowToResponse env r"
    using assms(1) Inr by (auto simp: createHash_def eff_simps split: sum.splits prod.splits)
  obtain c q where q: "fit_varchar 100 c = Some q"
    "upsert_hash (hash_row env q d (ric_tick (ric_tick w))) (ric_tick (ric_tick w)) = (r, w')"
    using r(1) by (auto simp: createRicardianHash_def ric_query_def split: option.splits prod.splits)
  have "ric_step env UNIV w w" using assms(2) by (simp add: ric_step_def ric_grows_refl)
  then have "ric_step env UNIV w (ric_tick (ric_tick w))" by simp
  from insert_step(2,3) [OF this d q(1)] q(2) r(2) have "shows_row env v (hr_hash d, hr_documentRef d) w'"
    by (auto simp: shows_row_def)
  with d show ?thesis by (rule that)
qed

lemma getHash_data:
  assumes "getHash env headers hash w = (Inr (Ric_data v h), w')"
  shows "\<exists>r \<in> set (rx_rows w'). rr_hash r = to_lower hash \<and> v = mapRowToResponse env r"
  using assms
  by (auto simp: getHash_def getRicardianHash_def ric_query_def eff_simps ric_tick_def
      dest!: latest_by_Some split: if_splits option.splits sum.splits prod.splits)

lemma middlewares_app:
  assumes "createServiceAuthMiddleware env config req w = (r, w1)"
  shows "with_middlewares env config req handler w =
    (case r of
       Inl e \<Rightarrow> (Inl e, w1)
     | Inr (Auth_refused status code m) \<Rightarrow> (Inr (Ric_refused status code m), w1)
     | Inr a \<Rightarrow>
         (case limiter_middleware (rc_limits config) (he_now env (rx_tick w1) div 1000)
             (limiter_request_of req (case a of Auth_passed i _ \<Rightarrow> Some i | _ \<Rightarrow> None)) (rx_buckets w1) of
            (x, b) \<Rightarrow> (case x of
               Limit_exceeded headers reset \<Rightarrow> (Inr (Ric_limited headers reset), (ric_tick w1)\<lparr>rx_buckets := b\<rparr>)
             | Limit_pass headers \<Rightarrow> handler headers ((ric_tick w1)\<lparr>rx_buckets := b\<rparr>))))"
proof (cases r)
  case (Inl e)
  with assms show ?thesis by (simp add: with_middlewares_def bindE_app)
next
  case (Inr a)
  show ?thesis
    by (cases a) (simp_all add: with_middlewares_def bindE_app assms Inr ret_app split: prod.split limiter_outcome.split)
qed

lemma middlewares_data:
  assumes "with_middlewares env config req handler w = (Inr x, w')" "ric_step env K w0 w"
    and "x = Ric_data v h \<or> x = Ric_error status m"
  obtains headers w1 where "handler headers w1 = (Inr x, w')" "ric_step env K w0 w1"
proof -
  obtain r w1 where a: "createServiceAuthMiddleware env config req w = (r, w1)"
    by (cases "createServiceAuthMiddleware env config req w")
  have s: "ric_step env K w0 w1" using keepsD [OF keeps_auth [of env K w0 config req] assms(2)] a by simp
  have "\<exists>headers b. handler headers ((ric_tick w1)\<lparr>rx_buckets := b\<rparr>) = (Inr x, w')"
    using assms(1,3) unfolding middlewares_app [OF a]
    by (auto split: sum.splits service_auth.splits prod.splits limiter_outcome.splits)
  then obtain headers b where "handler headers ((ric_tick w1)\<lparr>rx_buckets := b\<rparr>) = (Inr x, w')" by blast
  then show ?thesis by (rule that) (simp add: s)
qed

lemma handle_create_data:
  assumes "ric_handle env config req w = (Inr (Ric_data v h), w')" "ric_ok env w"
    and "createRouter env (hq_method req) (hq_path req) = Route_create"
  obtains uuid d where "buildRicardianHash (hl_sha256 (he_lib env)) uuid (hq_body req) = Inr d"
    "shows_row env v (hr_hash d, hr_documentRef d) w'"
proof -
  have "with_middlewares env config req (\<lambda>headers. createHash env headers (hq_body req)) w = (Inr (Ric_data v h), w')"
    using assms(1,3) by (simp add: ric_handle_def)
  moreover have "ric_step env UNIV w w" using assms(2) by (simp add: ric_step_def ric_grows_refl)
  ultimately obtain headers w1 where "createHash env headers (hq_body req) w1 = (Inr (Ric_data v h), w')" "ric_step env UNIV w w1"
    by (rule middlewares_data) simp
  then show ?thesis using createHash_data that unfolding ric_step_def by metis
qed

lemma handle_get_data:
  assumes "ric_handle env config req w = (Inr (Ric_data v h), w')" "ric_ok env w"
    and "createRouter env (hq_method req) (hq_path req) = Route_get hash"
  shows "\<exists>r \<in> set (rx_rows w'). rr_hash r = to_lower hash \<and> v = mapRowToResponse env r"
proof -
  have "with_middlewares env config req (\<lambda>headers. getHash env headers hash) w = (Inr (Ric_data v h), w')"
    using assms(1,3) by (simp add: ric_handle_def)
  moreover have "ric_step env UNIV w w" using assms(2) by (simp add: ric_step_def ric_grows_refl)
  ultimately show ?thesis by (rule middlewares_data [OF _ _ disjI1 [OF refl]]) (rule getHash_data)
qed

lemma handle_get_missing:
  assumes "ric_handle env config req w = (Inr (Ric_error 404 m), w')" "ric_ok env w"
    and "createRouter env (hq_method req) (hq_path req) = Route_get hash" "u \<in> set (rx_rows w)"
  shows "rr_hash u \<noteq> to_lower hash"
proof -
  have "with_middlewares env config req (\<lambda>headers. getHash env headers hash) w = (Inr (Ric_error 404 m), w')"
    using assms(1,3) by (simp add: ric_handle_def)
  moreover have "ric_step env UNIV w w" using assms(2) by (simp add: ric_step_def ric_grows_refl)
  ultimately obtain headers w1 where g: "getHash env headers hash w1 = (Inr (Ric_error 404 m), w')" "ric_step env UNIV w w1"
    by (rule middlewares_data) simp
  from g(1) have "\<forall>r \<in> set (rx_rows w1). rr_hash r \<noteq> to_lower hash"
    by (auto simp: getHash_def getRicardianHash_def ric_query_def eff_simps ric_tick_def latest_by_None filter_empty_conv
        split: if_splits option.splits sum.splits prod.splits)
  moreover obtain q where "q \<in> set (rx_rows w1)" "row_core q = row_core u"
    using ric_grows_row [OF _ assms(4), of w1] g(2) by (auto simp: ric_step_def)
  ultimately show ?thesis using row_core_eq by metis
qed

section \<open>Runs\<close>

lemma serve_Cons:
  "ric_serve env config (q # qs) w =
     (case ric_handle env config q w of (r, w') \<Rightarrow>
        (case ric_serve env config qs w' of (rs, w'') \<Rightarrow> ((case r of Inl e \<Rightarrow> Ric_error 500 e | Inr x \<Rightarrow> x) # rs, w'')))"
  by (simp split: prod.splits sum.splits)

definition run_keys :: "ric_env \<Rightarrow> ric_request list \<Rightarrow> (string \<times> string) set" where
  "run_keys env reqs = (\<Union>q \<in> set reqs. request_keys env q)"

lemma handle_step:
  assumes "ric_handle env config q w = (r, w1)" "ric_ok env w" "ric_key ` set (rx_rows w) \<subseteq> K" "request_keys env q \<subseteq> K"
  shows "ric_ok env w1" "ric_grows w w1" "ric_key ` set (rx_rows w1) \<subseteq> K"
proof -
  have "ric_step env K w w" using assms(2,3) by (simp add: ric_step_def ric_grows_refl)
  from keepsD [OF keeps_handle [OF assms(4)] this, of config] assms(1)
  show "ric_ok env w1" "ric_grows w w1" "ric_key ` set (rx_rows w1) \<subseteq> K" by (simp_all add: ric_step_def)
qed

lemma serve_step:
  "ric_serve env config qs w = (rs, w') \<Longrightarrow> ric_ok env w \<Longrightarrow> ric_key ` set (rx_rows w) \<subseteq> K \<Longrightarrow> run_keys env qs \<subseteq> K \<Longrightarrow>
   length rs = length qs \<and> ric_ok env w' \<and> ric_grows w w' \<and> ric_key ` set (rx_rows w') \<subseteq> K"
proof (induction qs arbitrary: w rs)
  case Nil
  then show ?case by (simp add: ric_grows_refl)
next
  case (Cons q qs)
  obtain r w1 where h: "ric_handle env config q w = (r, w1)" by (cases "ric_handle env config q w")
  obtain rs1 where s: "ric_serve env config qs w1 = (rs1, w')" "length rs = Suc (length rs1)"
    using Cons.prems(1) h by (auto simp: serve_Cons simp del: ric_serve.simps split: prod.splits)
  have k: "request_keys env q \<subseteq> K" "run_keys env qs \<subseteq> K" using Cons.prems(4) by (simp_all add: run_keys_def)
  from handle_step [OF h Cons.prems(2,3) k(1)] have w1: "ric_ok env w1" "ric_grows w w1" "ric_key ` set (rx_rows w1) \<subseteq> K" .
  from Cons.IH [OF s(1) w1(1,3) k(2)] w1(2) s(2) show ?case by (auto intro: ric_grows_trans)
qed

text \<open>The state in which a request of a run is served, and the one in which it is answered.\<close>

lemma serve_nth:
  assumes "ric_serve env config qs w = (rs, w')" "ric_ok env w" "i < length qs" "rs ! i = x" "\<forall>e. x \<noteq> Ric_error 500 e"
  obtains w1 w2 where "ric_serve env config (take i qs) w = (take i rs, w1)" "ric_ok env w1"
    "ric_handle env config (qs ! i) w1 = (Inr x, w2)" "ric_ok env w2" "ric_grows w1 w2"
    "ric_serve env config (drop (Suc i) qs) w2 = (drop (Suc i) rs, w')"
  using assms
proof (induction qs arbitrary: w rs i thesis)
  case (Cons q qs)
  obtain r w1 where h: "ric_handle env config q w = (r, w1)" by (cases "ric_handle env config q w")
  obtain rs1 where s: "ric_serve env config qs w1 = (rs1, w')" "rs = (case r of Inl e \<Rightarrow> Ric_error 500 e | Inr x \<Rightarrow> x) # rs1"
    using Cons.prems(2) h by (auto simp: serve_Cons simp del: ric_serve.simps split: prod.splits)
  have w1: "ric_ok env w1" "ric_grows w w1"
    using handle_step [OF h Cons.prems(3), of UNIV] by simp_all
  show ?case
  proof (cases i)
    case 0
    then have "r = Inr x" using Cons.prems(5,6) s(2) by (auto split: sum.splits)
    with 0 h w1 s Cons.prems(3) show ?thesis by (intro Cons.prems(1)) auto
  next
    case (Suc j)
    show ?thesis
    proof (rule Cons.IH [OF _ s(1) w1(1)])
      fix v1 v2
      assume "ric_serve env config (take j qs) w1 = (take j rs1, v1)" "ric_ok env v1"
        "ric_handle env config (qs ! j) v1 = (Inr x, v2)" "ric_ok env v2" "ric_grows v1 v2"
        "ric_serve env config (drop (Suc j) qs) v2 = (drop (Suc j) rs1, w')"
      with Suc h s(2) show ?thesis by (intro Cons.prems(1)) (simp_all add: serve_Cons del: ric_serve.simps(2))
    qed (use Suc Cons.prems(4-6) s(2) in simp_all)
  qed
qed simp

lemma shows_row_later:
  assumes "shows_row env v key w" "ric_grows w w'"
  obtains q where "q \<in> set (rx_rows w')" "ric_key q = key" "rr_id q = hv_id v" "rr_hash q = hv_hash v"
proof -
  from assms(1) obtain r where r: "r \<in> set (rx_rows w)" "ric_key r = key" "v = mapRowToResponse env r"
    by (auto simp: shows_row_def)
  obtain q where q: "q \<in> set (rx_rows w')" "row_core q = row_core r" using ric_grows_row [OF assms(2) r(1)] by blast
  from q(1) show ?thesis by (rule that) (use row_core_eq [OF q(2)] r in \<open>simp_all add: mapRowToResponse_def\<close>)
qed

lemma serve_create:
  assumes "ric_serve env config reqs w = (rs, w')" "ric_ok env w" "i < length reqs" "rs ! i = Ric_data v h"
    and "createRouter env (hq_method (reqs ! i)) (hq_path (reqs ! i)) = Route_create"
  obtains uuid d where "buildRicardianHash (hl_sha256 (he_lib env)) uuid (hq_body (reqs ! i)) = Inr d"
    "\<exists>q \<in> set (rx_rows w'). ric_key q = (hr_hash d, hr_documentRef d) \<and> rr_id q = hv_id v \<and> rr_hash q = hv_hash v"
proof -
  obtain w1 w2 where s: "ric_ok env w1" "ric_handle env config (reqs ! i) w1 = (Inr (Ric_data v h), w2)" "ric_ok env w2"
    "ric_serve env config (drop (Suc i) reqs) w2 = (drop (Suc i) rs, w')"
    by (rule serve_nth [OF assms(1-4)]) simp_all
  obtain uuid d where d: "buildRicardianHash (hl_sha256 (he_lib env)) uuid (hq_body (reqs ! i)) = Inr d"
    "shows_row env v (hr_hash d, hr_documentRef d) w2"
    using handle_create_data [OF s(2,1) assms(5)] .
  have "ric_grows w2 w'" using serve_step [OF s(4,3), of UNIV] by simp
  with d(2) have "\<exists>q \<in> set (rx_rows w'). ric_key q = (hr_hash d, hr_documentRef d) \<and> rr_id q = hv_id v \<and> rr_hash q = hv_hash v"
    by (rule shows_row_later) blast
  with d(1) show ?thesis by (rule that)
qed

lemma empty_ok: "ric_ok env empty_ricardian" "ric_key ` set (rx_rows empty_ricardian) = {}"
  by (simp_all add: ric_ok_def empty_ricardian_def)

lemma unique_row:
  assumes "ric_ok env w" "q \<in> set (rx_rows w)" "q' \<in> set (rx_rows w)"
  shows "rr_id q = rr_id q' \<longleftrightarrow> ric_key q = ric_key q'"
  using assms by (auto simp: ric_ok_def distinct_map dest: inj_onD)

section \<open>The properties\<close>

definition payload_metadata :: "json \<Rightarrow> json" where
  "payload_metadata payload = (let m = json_get ''metadata'' payload in if json_falsy m then J_obj [] else m)"

definition same_hash_request :: "json \<Rightarrow> json \<Rightarrow> bool" where
  "same_hash_request a b \<longleftrightarrow>
     json_get ''documentRef'' a = json_get ''documentRef'' b \<and> same_json (payload_metadata a) (payload_metadata b) \<and>
     same_json (json_get ''terms'' a) (json_get ''terms'' b)"

text \<open>The texts that a run hashes.\<close>

definition hashed_texts :: "ric_env \<Rightarrow> ric_request list \<Rightarrow> string set" where
  "hashed_texts env reqs =
     {rules_version @ '':'' @ hr_canonicalJson d | uuid q d.
       q \<in> set reqs \<and> buildRicardianHash (hl_sha256 (he_lib env)) uuid (hq_body q) = Inr d}"

lemma built_same_hash_request:
  assumes "parsed_json a" "parsed_json b" "buildRicardianHash sha256 u a = Inr d" "buildRicardianHash sha256 u' b = Inr e"
  shows "hr_canonicalJson d = hr_canonicalJson e \<longleftrightarrow> same_hash_request a b"
proof -
  have "json_get ''documentRef'' p = J_str (hr_documentRef x) \<and> hr_metadata x = payload_metadata p"
    if "buildRicardianHash sha256 v p = Inr x" for v p x
    by (rule built_hash [OF that]) (simp add: payload_metadata_def Let_def)
  from this [OF assms(3)] this [OF assms(4)] show ?thesis
    using built_text_iff [OF assms] by (simp add: same_hash_request_def)
qed

text \<open>
  C18: identifiers stand for payloads.  In a run from the empty table, whatever fails and whatever is stored in
  between, two posts that are answered with data have the same identifier exactly when their payloads have the same
  \<open>documentRef\<close>, and the same metadata and terms up to the order of the keys of their objects; provided that the
  hash has no collision among the texts of the run.
\<close>

theorem same_id_same_payload:
  assumes "ric_serve env config reqs empty_ricardian = (rs, w')" and "i < length reqs" and "j < length reqs"
    and "rs ! i = Ric_data v h" and "rs ! j = Ric_data v' h'"
    and "createRouter env (hq_method (reqs ! i)) (hq_path (reqs ! i)) = Route_create"
    and "createRouter env (hq_method (reqs ! j)) (hq_path (reqs ! j)) = Route_create"
    and "parsed_json (hq_body (reqs ! i))" and "parsed_json (hq_body (reqs ! j))"
    and "inj_on (hl_sha256 (he_lib env)) (hashed_texts env reqs)"
  shows "hv_id v = hv_id v' \<longleftrightarrow> same_hash_request (hq_body (reqs ! i)) (hq_body (reqs ! j))"
proof -
  obtain u d q where d: "buildRicardianHash (hl_sha256 (he_lib env)) u (hq_body (reqs ! i)) = Inr d"
    and q: "q \<in> set (rx_rows w')" "ric_key q = (hr_hash d, hr_documentRef d)" "rr_id q = hv_id v"
    using serve_create [OF assms(1) empty_ok(1) assms(2,4,6)] by metis
  obtain u' e q' where e: "buildRicardianHash (hl_sha256 (he_lib env)) u' (hq_body (reqs ! j)) = Inr e"
    and q': "q' \<in> set (rx_rows w')" "ric_key q' = (hr_hash e, hr_documentRef e)" "rr_id q' = hv_id v'"
    using serve_create [OF assms(1) empty_ok(1) assms(3,5,7)] by metis
  have "ric_ok env w'" using serve_step [OF assms(1) empty_ok(1), of UNIV] by simp
  from unique_row [OF this q(1) q'(1)] have "hv_id v = hv_id v' \<longleftrightarrow> (hr_hash d, hr_documentRef d) = (hr_hash e, hr_documentRef e)"
    using q q' by simp
  moreover have texts: "rules_version @ '':'' @ hr_canonicalJson d \<in> hashed_texts env reqs"
      "rules_version @ '':'' @ hr_canonicalJson e \<in> hashed_texts env reqs"
    unfolding hashed_texts_def using d e assms(2,3) nth_mem by blast+
  moreover have "hr_hash d = hl_sha256 (he_lib env) (rules_version @ '':'' @ hr_canonicalJson d)"
      "hr_hash e = hl_sha256 (he_lib env) (rules_version @ '':'' @ hr_canonicalJson e)"
    by (rule built_hash [OF d], assumption) (rule built_hash [OF e], assumption)
  ultimately have "hv_id v = hv_id v' \<longleftrightarrow> hr_canonicalJson d = hr_canonicalJson e \<and> hr_documentRef d = hr_documentRef e"
    using inj_on_eq_iff [OF assms(10) texts] by simp
  moreover have "hr_canonicalJson d = hr_canonicalJson e \<Longrightarrow> hr_documentRef d = hr_documentRef e"
    using built_text_iff [OF assms(8,9) d e] by simp
  ultimately show ?thesis using built_same_hash_request [OF assms(8,9) d e] by blast
qed

text \<open>
  C35: a read shows what was posted.  The data that a read answers with has the hash that was asked for, and this
  hash and its \<open>documentRef\<close> are those of the payload of an earlier post of the run.
\<close>

theorem read_shows_posted:
  assumes "ric_serve env config reqs empty_ricardian = (rs, w')" and "j < length reqs"
    and "createRouter env (hq_method (reqs ! j)) (hq_path (reqs ! j)) = Route_get hash" and "rs ! j = Ric_data v h"
  shows "hv_hash v = to_lower hash \<and>
    (\<exists>i < j. (hv_hash v, hv_documentRef v) \<in> request_keys env (reqs ! i))"
proof -
  obtain w1 w2 where s: "ric_serve env config (take j reqs) empty_ricardian = (take j rs, w1)" "ric_ok env w1"
    "ric_handle env config (reqs ! j) w1 = (Inr (Ric_data v h), w2)"
    by (rule serve_nth [OF assms(1) empty_ok(1) assms(2,4)]) simp_all
  let ?K = "run_keys env (take j reqs)"
  have "ric_key ` set (rx_rows w1) \<subseteq> ?K" using serve_step [OF s(1) empty_ok(1), of ?K] empty_ok(2) by simp
  then have K: "ric_key ` set (rx_rows w2) \<subseteq> ?K"
    using handle_step(3) [OF s(3,2), of ?K] assms(3) by (simp add: request_keys_def)
  obtain r where r: "r \<in> set (rx_rows w2)" "rr_hash r = to_lower hash" "v = mapRowToResponse env r"
    using handle_get_data [OF s(3,2) assms(3)] by blast
  then have "(hv_hash v, hv_documentRef v) \<in> ?K" using K by (auto simp: mapRowToResponse_def ric_key_def)
  then have "\<exists>i < j. (hv_hash v, hv_documentRef v) \<in> request_keys env (reqs ! i)"
    using assms(2) by (fastforce simp: run_keys_def in_set_conv_nth)
  with r show ?thesis by (simp add: mapRowToResponse_def)
qed

text \<open>
  what was posted is found.  After a post that was answered with data, no read of its hash, in either case of
  its digits, is answered with 404.
\<close>

theorem posted_is_found:
  assumes "ric_serve env config reqs empty_ricardian = (rs, w')" and "i < j" and "j < length reqs"
    and "createRouter env (hq_method (reqs ! i)) (hq_path (reqs ! i)) = Route_create" and "rs ! i = Ric_data v h"
    and "createRouter env (hq_method (reqs ! j)) (hq_path (reqs ! j)) = Route_get hash" and "to_lower hash = hv_hash v"
  shows "rs ! j \<noteq> Ric_error 404 m"
proof
  assume "rs ! j = Ric_error 404 m"
  then obtain w1 w2 where s: "ric_serve env config (take j reqs) empty_ricardian = (take j rs, w1)" "ric_ok env w1"
    "ric_handle env config (reqs ! j) w1 = (Inr (Ric_error 404 m), w2)"
    by (rule serve_nth [OF assms(1) empty_ok(1) assms(3)]) simp_all
  have "\<exists>q \<in> set (rx_rows w1). rr_hash q = hv_hash v"
    by (rule serve_create [OF s(1) empty_ok(1), of i v h]) (use assms in auto)
  with handle_get_missing [OF s(3,2) assms(6)] assms(7) show False by auto
qed

section \<open>A run\<close>

definition sample_ric_env :: "(string \<Rightarrow> string) \<Rightarrow> ric_env" where
  "sample_ric_env sha256 =
     \<lparr>he_now = (\<lambda>t. 1000 * int t), he_db = (\<lambda>_. None), he_kept = (\<lambda>_. False), he_prune_first = (\<lambda>_. True),
      he_uuid = (\<lambda>_. ''u''), he_lib = \<lparr>hl_sha256 = sha256, hl_hmac = (\<lambda>_ s. s)\<rparr>,
      he_column = (\<lambda>v. case v of J_str s \<Rightarrow> s | _ \<Rightarrow> []), he_jsonb = (\<lambda>v. v), he_redis = (\<lambda>_ _ _. Inr True),
      he_decode = Some, he_iso = (\<lambda>_. ''t'')\<rparr>"

definition open_config :: ric_config where
  "open_config =
     (let w = \<lparr>wc_limit = 1, wc_windowSeconds = 1\<rparr>; l = \<lparr>rl_burst = w, rl_sustained = w\<rparr>
      in \<lparr>rc_auth = \<lparr>ao_enabled = False, ao_maxSkewSeconds = 300, ao_nonceTtlSeconds = 600, ao_sharedSecret = None,
            ao_lookupApiKey = (\<lambda>_. None)\<rparr>,
          rc_nonceStore = Nonce_inmemory, rc_limits = \<lparr>lc_enabled = False, lc_writeRoute = l, lc_readRoute = l\<rparr>\<rparr>)"

definition plain_request :: "string \<Rightarrow> string \<Rightarrow> json \<Rightarrow> ric_request" where
  "plain_request m path body =
     \<lparr>hq_method = m, hq_path = path, hq_originalUrl = path, hq_header = (\<lambda>_. None), hq_rawBody = [], hq_body = body,
      hq_ip = None, hq_remoteAddress = None\<rparr>"

definition terms_payload :: "(string \<times> json) list \<Rightarrow> json" where
  "terms_payload ts = J_obj [(''documentRef'', J_str ''d''), (''terms'', J_obj ts)]"

definition two_posts :: "ric_request list" where
  "two_posts =
     [plain_request ''POST'' ''/hash'' (terms_payload [(''b'', J_bool True), (''a'', J_null)]),
      plain_request ''POST'' ''/hash/'' (terms_payload [(''a'', J_null), (''b'', J_bool True)])]"

definition sample_response :: "string \<Rightarrow> hash_response" where
  "sample_response hash =
     \<lparr>hv_id = 1, hv_requestId = ''u'', hv_documentRef = ''d'', hv_hash = hash, hv_rulesVersion = rules_version,
      hv_canonicalJson = stringify (J_obj [(''documentRef'', J_str ''d''), (''metadata'', J_obj []),
        (''terms'', J_obj [(''a'', J_null), (''b'', J_bool True)])]),
      hv_metadata = J_obj [], hv_createdAt = ''t''\<rparr>"

definition plain_hash :: "string" where
  "plain_hash = rules_version @ '':'' @ hv_canonicalJson (sample_response [])"

lemma two_posts_data:
  "fst (ric_serve (sample_ric_env (\<lambda>s. s)) open_config two_posts empty_ricardian) ! 0 = Ric_data (sample_response plain_hash) None"
  "fst (ric_serve (sample_ric_env (\<lambda>s. s)) open_config two_posts empty_ricardian) ! 1 = Ric_data (sample_response plain_hash) None"
  by code_simp+

lemma create_routes:
  "createRouter (sample_ric_env f) ''POST'' ''/hash'' = Route_create" "createRouter (sample_ric_env f) ''POST'' ''/hash/'' = Route_create"
  "createRouter (sample_ric_env f) ''GET'' ''/hash/AaAaAaAaAaAaAaAaAaAaAaAaAaAaAaAaAaAaAaAaAaAaAaAaAaAaAaAaAaAaAaAa'' =
     Route_get ''AaAaAaAaAaAaAaAaAaAaAaAaAaAaAaAaAaAaAaAaAaAaAaAaAaAaAaAaAaAaAaAa''"
  by code_simp+

theorem same_id_same_payload_witness:
  "same_hash_request (terms_payload [(''b'', J_bool True), (''a'', J_null)]) (terms_payload [(''a'', J_null), (''b'', J_bool True)])"
proof -
  let ?env = "sample_ric_env (\<lambda>s. s)" let ?run = "ric_serve ?env open_config two_posts empty_ricardian"
  have "hv_id (sample_response plain_hash) = hv_id (sample_response plain_hash) \<longleftrightarrow>
      same_hash_request (hq_body (two_posts ! 0)) (hq_body (two_posts ! 1))"
  proof (rule same_id_same_payload)
    show "?run = (fst ?run, snd ?run)" by simp
    show "fst ?run ! 0 = Ric_data (sample_response plain_hash) None" "fst ?run ! 1 = Ric_data (sample_response plain_hash) None"
      by (rule two_posts_data)+
    show "inj_on (hl_sha256 (he_lib ?env)) (hashed_texts ?env two_posts)" by (simp add: sample_ric_env_def)
  qed (simp_all add: two_posts_def plain_request_def create_routes, simp_all add: terms_payload_def)
  then show ?thesis by (simp add: two_posts_def plain_request_def)
qed

definition hex_hash :: string where
  "hex_hash = ''aaaaaaaaaaaaaaaaaaaaaaaaaaaaaaaaaaaaaaaaaaaaaaaaaaaaaaaaaaaaaaaa''"

definition post_and_read :: "ric_request list" where
  "post_and_read =
     [plain_request ''POST'' ''/hash'' (terms_payload [(''b'', J_bool True), (''a'', J_null)]),
      plain_request ''GET'' ''/hash/AaAaAaAaAaAaAaAaAaAaAaAaAaAaAaAaAaAaAaAaAaAaAaAaAaAaAaAaAaAaAaAa'' J_undefined]"

lemma post_and_read_data:
  "fst (ric_serve (sample_ric_env (\<lambda>_. hex_hash)) open_config post_and_read empty_ricardian) ! 0 = Ric_data (sample_response hex_hash) None"
  "fst (ric_serve (sample_ric_env (\<lambda>_. hex_hash)) open_config post_and_read empty_ricardian) ! 1 = Ric_data (sample_response hex_hash) None"
  by code_simp+

theorem read_shows_posted_witness:
  "\<exists>i < 1. (hex_hash, ''d'') \<in> request_keys (sample_ric_env (\<lambda>_. hex_hash)) (post_and_read ! i)"
proof -
  let ?env = "sample_ric_env (\<lambda>_. hex_hash)" let ?run = "ric_serve ?env open_config post_and_read empty_ricardian"
  have "createRouter ?env (hq_method (post_and_read ! 1)) (hq_path (post_and_read ! 1)) =
      Route_get ''AaAaAaAaAaAaAaAaAaAaAaAaAaAaAaAaAaAaAaAaAaAaAaAaAaAaAaAaAaAaAaAa''"
    by (simp add: post_and_read_def plain_request_def create_routes)
  from read_shows_posted [where env = ?env and config = open_config and reqs = post_and_read and j = 1, OF prod.collapse [symmetric] _ this
      post_and_read_data(2)]
  show ?thesis by (simp add: post_and_read_def sample_response_def)
qed

theorem posted_is_found_witness:
  "fst (ric_serve (sample_ric_env (\<lambda>_. hex_hash)) open_config post_and_read empty_ricardian) ! 1 \<noteq> Ric_error 404 ''Hash not found''"
proof -
  let ?env = "sample_ric_env (\<lambda>_. hex_hash)" let ?run = "ric_serve ?env open_config post_and_read empty_ricardian"
  have "createRouter ?env (hq_method (post_and_read ! 0)) (hq_path (post_and_read ! 0)) = Route_create"
    "createRouter ?env (hq_method (post_and_read ! 1)) (hq_path (post_and_read ! 1)) =
      Route_get ''AaAaAaAaAaAaAaAaAaAaAaAaAaAaAaAaAaAaAaAaAaAaAaAaAaAaAaAaAaAaAaAa''"
    by (simp_all add: post_and_read_def plain_request_def create_routes)
  note routes = this
  have "to_lower ''AaAaAaAaAaAaAaAaAaAaAaAaAaAaAaAaAaAaAaAaAaAaAaAaAaAaAaAaAaAaAaAa'' = hv_hash (sample_response hex_hash)"
    by code_simp
  note found = posted_is_found [where i = 0 and j = 1, OF prod.collapse [symmetric] _ _ routes(1) post_and_read_data(1) routes(2) this]
  show ?thesis by (rule found) (simp_all add: post_and_read_def)
qed

text \<open>
  A request identifier of more than 100 characters passes the handler's checks and is refused by the table, as an
  internal error.
\<close>

lemma long_request_id:
  "result_of (ric_handle (sample_ric_env (\<lambda>s. s)) open_config
     (plain_request ''POST'' ''/hash''
       (J_obj [(''requestId'', J_str (replicate 101 (CHR ''r''))), (''documentRef'', J_str ''d''), (''terms'', J_obj [])]))
     empty_ricardian) = Inr (Ric_error 500 ''value too long for type character varying(100)'')"
  by code_simp

text \<open>The keys of a canonical text are not in alphabetical order when they are array indices.\<close>

lemma array_index_keys: "array_index ''10'' = Some 10" "array_index ''9'' = Some 9" "array_index ''a'' = None"
proof -
  have d: "nat_of_digits 0 ''10'' = 10" "nat_of_digits 0 ''9'' = 9" "all_digits ''10''" "all_digits ''9''" "\<not> all_digits ''a''"
    by code_simp+
  have "show_nat 10 = ''10''" "show_nat 9 = ''9''" by code_simp+
  with d show "array_index ''10'' = Some 10" "array_index ''9'' = Some 9" "array_index ''a'' = None"
    by (simp_all add: array_index_def Let_def)
qed

lemma numeric_keys_first:
  "map_sum id (\<lambda>v. case v of J_obj ps \<Rightarrow> map fst ps | _ \<Rightarrow> []) (canonicalize (J_obj [(''a'', J_null), (''10'', J_null), (''9'', J_null)])) =
     (Inr [''9'', ''10'', ''a''] :: string + string list)"
  by (simp add: sorted_entries_def host_order_def array_index_keys)

end
