(* ===== verification/Service_Config.thy ===== *)
theory Service_Config imports Main Oracle_Config Ric_Service Shared_Auth Ric_Limiter begin

text \<open>
  The configuration of the Ricardian service and of the treasury (\<open>ricardian/src/config.ts\<close>,
  \<open>treasury/src/config.ts\<close>) and what \<open>ricardian/src/server.ts\<close> makes of it.  The environment of the process is a function;
  a failed assertion, which ends the process, is its message.
\<close>

section \<open>Values\<close>

definition env_text :: "process_env \<Rightarrow> string \<Rightarrow> string + string" where
  "env_text penv name =
     (case penv name of
        None \<Rightarrow> Inl (name @ '' is missing'')
      | Some v \<Rightarrow> if v = [] then Inl (name @ '' is missing'') else Inr v)"

definition env_bool :: "process_env \<Rightarrow> string \<Rightarrow> bool \<Rightarrow> string + bool" where
  "env_bool penv name fallback =
     (if \<not> truthy_opt (penv name) then Inr fallback
      else (let raw = to_lower (the (penv name))
            in if raw = ''true'' then Inr True
               else if raw = ''false'' then Inr False
               else Inl (name @ '' must be true or false'')))"

definition env_number :: "process_env \<Rightarrow> string \<Rightarrow> int option \<Rightarrow> string + int" where
  "env_number penv name fallback =
     (if \<not> truthy_opt (penv name) \<and> fallback \<noteq> None then Inr (the fallback)
      else bindS (case penv name of Some v \<Rightarrow> Inr v | None \<Rightarrow> env_text penv name) (\<lambda>v.
        case parse_int10 v of None \<Rightarrow> Inl (name @ '' must be a number'') | Some n \<Rightarrow> Inr n))"

definition resolveNonceStoreMode :: "process_env \<Rightarrow> string \<Rightarrow> string + nonce_mode" where
  "resolveNonceStoreMode penv nodeEnv =
     (let rawMode = to_lower (trim (or_else (penv ''NONCE_STORE'') []))
      in if rawMode = []
         then Inr (if nodeEnv = ''production''
                   then (if trim (or_else (penv ''REDIS_URL'') []) \<noteq> [] then Nonce_redis else Nonce_postgres)
                   else Nonce_inmemory)
         else if rawMode = ''redis'' then Inr Nonce_redis
         else if rawMode = ''postgres'' then Inr Nonce_postgres
         else if rawMode = ''inmemory'' then Inr Nonce_inmemory
         else Inl ''NONCE_STORE must be one of: redis, postgres, inmemory'')"

section \<open>The settings of the authentication\<close>

text \<open>The part that the two services have in common; the skew is read later than the rest.\<close>

record service_settings =
  sv_nodeEnv :: string
  sv_authEnabled :: bool
  sv_apiKeys :: "service_key list"
  sv_hmacSecret :: "string option"
  sv_nonceStore :: nonce_mode
  sv_nonceRedisUrl :: "string option"
  sv_authNonceTtlSeconds :: int
  sv_nonceTtlSeconds :: int

definition read_settings :: "(string \<Rightarrow> json option) \<Rightarrow> process_env \<Rightarrow> string + service_settings" where
  "read_settings parse penv =
     (let nodeEnv = or_else (penv ''NODE_ENV'') ''development'';
          redisUrl = trim (or_else (penv ''REDIS_URL'') [])
      in bindS (env_bool penv ''AUTH_ENABLED'' False) (\<lambda>authEnabled.
         bindS (parseServiceApiKeys parse (penv ''API_KEYS_JSON'')) (\<lambda>apiKeys.
         bindS (resolveNonceStoreMode penv nodeEnv) (\<lambda>nonceStore.
         bindS (env_number penv ''AUTH_NONCE_TTL_SECONDS'' (Some 600)) (\<lambda>authNonceTtl.
         bindS (if truthy_opt (penv ''NONCE_TTL_SECONDS'') then env_number penv ''NONCE_TTL_SECONDS'' None else Inr authNonceTtl)
           (\<lambda>nonceTtl.
           Inr \<lparr>sv_nodeEnv = nodeEnv, sv_authEnabled = authEnabled, sv_apiKeys = apiKeys,
                sv_hmacSecret = map_option trim (penv ''HMAC_SECRET''), sv_nonceStore = nonceStore,
                sv_nonceRedisUrl = (if redisUrl = [] then None else Some redisUrl),
                sv_authNonceTtlSeconds = authNonceTtl, sv_nonceTtlSeconds = nonceTtl\<rparr>))))))"

definition check_settings :: "service_settings \<Rightarrow> string + 'a \<Rightarrow> string + 'a" where
  "check_settings s m =
     guardS (sv_authEnabled s \<longrightarrow> sv_apiKeys s \<noteq> [] \<or> truthy_opt (sv_hmacSecret s))
       ''AUTH_ENABLED=true requires either API_KEYS_JSON entries or HMAC_SECRET''
     (guardS (\<not> (sv_nodeEnv s = ''production'' \<and> sv_nonceStore s = Nonce_inmemory))
       ''NONCE_STORE=inmemory is not allowed when NODE_ENV=production''
     (guardS (sv_nonceStore s = Nonce_redis \<longrightarrow> sv_nonceRedisUrl s \<noteq> None) ''REDIS_URL is required when NONCE_STORE=redis''
       m))"

definition check_positive :: "(string \<times> int) list \<Rightarrow> string + unit" where
  "check_positive vs =
     (case filter (\<lambda>(_, n). n \<le> 0) vs of [] \<Rightarrow> Inr () | (name, _) # _ \<Rightarrow> Inl (name @ '' must be > 0''))"

section \<open>The Ricardian service\<close>

record ricardian_config =
  rg_port :: int
  rg_dbHost :: string
  rg_dbPort :: int
  rg_dbName :: string
  rg_dbUser :: string
  rg_dbPassword :: string
  rg_settings :: service_settings
  rg_authMaxSkewSeconds :: int
  rg_rateLimitRedisUrl :: "string option"
  rg_limits :: limiter_config

definition read_window :: "process_env \<Rightarrow> string \<Rightarrow> int \<Rightarrow> int \<Rightarrow> string + window_config" where
  "read_window penv name limit seconds =
     bindS (env_number penv (name @ ''_LIMIT'') (Some limit)) (\<lambda>l.
     bindS (env_number penv (name @ ''_WINDOW_SECONDS'') (Some seconds)) (\<lambda>w.
       Inr \<lparr>wc_limit = l, wc_windowSeconds = w\<rparr>))"

definition read_limits :: "process_env \<Rightarrow> bool \<Rightarrow> string + limiter_config" where
  "read_limits penv enabled =
     bindS (read_window penv ''RATE_LIMIT_WRITE_BURST'' 10 10) (\<lambda>wb.
     bindS (read_window penv ''RATE_LIMIT_WRITE_SUSTAINED'' 120 60) (\<lambda>ws.
     bindS (read_window penv ''RATE_LIMIT_READ_BURST'' 30 10) (\<lambda>rb.
     bindS (read_window penv ''RATE_LIMIT_READ_SUSTAINED'' 600 60) (\<lambda>rs.
       Inr \<lparr>lc_enabled = enabled, lc_writeRoute = \<lparr>rl_burst = wb, rl_sustained = ws\<rparr>,
            lc_readRoute = \<lparr>rl_burst = rb, rl_sustained = rs\<rparr>\<rparr>))))"

definition window_checks :: "string \<Rightarrow> window_config \<Rightarrow> (string \<times> int) list" where
  "window_checks name w = [(name @ ''_LIMIT'', wc_limit w), (name @ ''_WINDOW_SECONDS'', wc_windowSeconds w)]"

definition ricardian_checks :: "ricardian_config \<Rightarrow> (string \<times> int) list" where
  "ricardian_checks c =
     [(''AUTH_MAX_SKEW_SECONDS'', rg_authMaxSkewSeconds c),
      (''AUTH_NONCE_TTL_SECONDS'', sv_authNonceTtlSeconds (rg_settings c)),
      (''NONCE_TTL_SECONDS'', sv_nonceTtlSeconds (rg_settings c))] @
     window_checks ''RATE_LIMIT_WRITE_BURST'' (rl_burst (lc_writeRoute (rg_limits c))) @
     window_checks ''RATE_LIMIT_WRITE_SUSTAINED'' (rl_sustained (lc_writeRoute (rg_limits c))) @
     window_checks ''RATE_LIMIT_READ_BURST'' (rl_burst (lc_readRoute (rg_limits c))) @
     window_checks ''RATE_LIMIT_READ_SUSTAINED'' (rl_sustained (lc_readRoute (rg_limits c)))"

definition read_ricardian :: "process_env \<Rightarrow> service_settings \<Rightarrow> bool \<Rightarrow> string + ricardian_config" where
  "read_ricardian penv s rateLimitEnabled =
     bindS (env_number penv ''PORT'' None) (\<lambda>port.
     bindS (env_text penv ''DB_HOST'') (\<lambda>dbHost.
     bindS (env_number penv ''DB_PORT'' None) (\<lambda>dbPort.
     bindS (env_text penv ''DB_NAME'') (\<lambda>dbName.
     bindS (env_text penv ''DB_USER'') (\<lambda>dbUser.
     bindS (env_text penv ''DB_PASSWORD'') (\<lambda>dbPassword.
     bindS (env_number penv ''AUTH_MAX_SKEW_SECONDS'' (Some 300)) (\<lambda>skew.
     bindS (read_limits penv rateLimitEnabled) (\<lambda>limits.
       Inr \<lparr>rg_port = port, rg_dbHost = dbHost, rg_dbPort = dbPort, rg_dbName = dbName, rg_dbUser = dbUser,
            rg_dbPassword = dbPassword, rg_settings = s, rg_authMaxSkewSeconds = skew,
            rg_rateLimitRedisUrl = penv ''RATE_LIMIT_REDIS_URL'', rg_limits = limits\<rparr>))))))))"

definition load_ricardian :: "(string \<Rightarrow> json option) \<Rightarrow> process_env \<Rightarrow> string + ricardian_config" where
  "load_ricardian parse penv =
     bindS (read_settings parse penv) (\<lambda>s.
       check_settings s
         (bindS (env_bool penv ''RATE_LIMIT_ENABLED'' False) (\<lambda>enabled.
          bindS (read_ricardian penv s enabled) (\<lambda>c.
          bindS (check_positive (ricardian_checks c)) (\<lambda>_. Inr c)))))"

text \<open>The middlewares of \<open>bootstrap\<close>; of two keys with one id the later one counts.\<close>

definition bootstrap :: "ricardian_config \<Rightarrow> ric_config" where
  "bootstrap c =
     (let s = rg_settings c
      in \<lparr>rc_auth = \<lparr>ao_enabled = sv_authEnabled s, ao_maxSkewSeconds = rg_authMaxSkewSeconds c,
            ao_nonceTtlSeconds = sv_nonceTtlSeconds s, ao_sharedSecret = sv_hmacSecret s,
            ao_lookupApiKey = map_of (rev (map (\<lambda>k. (sk_id k, k)) (sv_apiKeys s)))\<rparr>,
          rc_nonceStore = sv_nonceStore s, rc_limits = rg_limits c\<rparr>)"

section \<open>The treasury\<close>

record treasury_settings =
  tg_port :: int
  tg_dbHost :: string
  tg_dbPort :: int
  tg_dbName :: string
  tg_dbUser :: string
  tg_dbPassword :: string
  tg_indexerGraphqlUrl :: string
  tg_indexerGraphqlRequestTimeoutMs :: int
  tg_ingestBatchSize :: int
  tg_ingestMaxEvents :: int
  tg_settings :: service_settings
  tg_authMaxSkewSeconds :: int

definition read_treasury :: "process_env \<Rightarrow> service_settings \<Rightarrow> int \<Rightarrow> string + treasury_settings" where
  "read_treasury penv s timeoutMs =
     bindS (env_number penv ''PORT'' None) (\<lambda>port.
     bindS (env_text penv ''DB_HOST'') (\<lambda>dbHost.
     bindS (env_number penv ''DB_PORT'' None) (\<lambda>dbPort.
     bindS (env_text penv ''DB_NAME'') (\<lambda>dbName.
     bindS (env_text penv ''DB_USER'') (\<lambda>dbUser.
     bindS (env_text penv ''DB_PASSWORD'') (\<lambda>dbPassword.
     bindS (env_text penv ''INDEXER_GRAPHQL_URL'') (\<lambda>url.
     bindS (env_number penv ''TREASURY_INGEST_BATCH_SIZE'' (Some 100)) (\<lambda>batchSize.
     bindS (env_number penv ''TREASURY_INGEST_MAX_EVENTS'' (Some 2000)) (\<lambda>maxEvents.
     bindS (env_number penv ''AUTH_MAX_SKEW_SECONDS'' (Some 300)) (\<lambda>skew.
       Inr \<lparr>tg_port = port, tg_dbHost = dbHost, tg_dbPort = dbPort, tg_dbName = dbName, tg_dbUser = dbUser,
            tg_dbPassword = dbPassword, tg_indexerGraphqlUrl = url, tg_indexerGraphqlRequestTimeoutMs = timeoutMs,
            tg_ingestBatchSize = batchSize, tg_ingestMaxEvents = maxEvents, tg_settings = s,
            tg_authMaxSkewSeconds = skew\<rparr>))))))))))"

definition treasury_checks :: "treasury_settings \<Rightarrow> (string \<times> int) list" where
  "treasury_checks c =
     [(''TREASURY_INGEST_BATCH_SIZE'', tg_ingestBatchSize c), (''TREASURY_INGEST_MAX_EVENTS'', tg_ingestMaxEvents c),
      (''AUTH_MAX_SKEW_SECONDS'', tg_authMaxSkewSeconds c),
      (''AUTH_NONCE_TTL_SECONDS'', sv_authNonceTtlSeconds (tg_settings c)),
      (''NONCE_TTL_SECONDS'', sv_nonceTtlSeconds (tg_settings c))]"

definition load_treasury :: "(string \<Rightarrow> json option) \<Rightarrow> process_env \<Rightarrow> string + treasury_settings" where
  "load_treasury parse penv =
     bindS (read_settings parse penv) (\<lambda>s.
     bindS (env_number penv ''INDEXER_GQL_TIMEOUT_MIN_MS'' (Some 1000)) (\<lambda>timeoutMin.
     bindS (env_number penv ''INDEXER_GQL_TIMEOUT_MAX_MS'' (Some 60000)) (\<lambda>timeoutMax.
     bindS (env_number penv ''INDEXER_GQL_TIMEOUT_MS'' (Some 10000)) (\<lambda>timeoutMs.
       check_settings s
         (guardS (timeoutMin \<ge> 1000) ''INDEXER_GQL_TIMEOUT_MIN_MS must be >= 1000''
         (guardS (timeoutMax \<le> 60000) ''INDEXER_GQL_TIMEOUT_MAX_MS must be <= 60000''
         (guardS (timeoutMin \<le> timeoutMax) ''INDEXER_GQL_TIMEOUT_MIN_MS must be <= INDEXER_GQL_TIMEOUT_MAX_MS''
         (guardS (timeoutMs \<ge> timeoutMin \<and> timeoutMs \<le> timeoutMax)
            (''INDEXER_GQL_TIMEOUT_MS must be between '' @ show_int timeoutMin @ '' and '' @ show_int timeoutMax)
            (bindS (read_treasury penv s timeoutMs) (\<lambda>c.
             bindS (check_positive (treasury_checks c)) (\<lambda>_. Inr c)))))))))))"

section \<open>What a loaded configuration satisfies\<close>

lemma check_positive_Inr: "check_positive vs = Inr () \<longleftrightarrow> list_all (\<lambda>(_, n). 0 < n) vs"
  by (induction vs) (auto simp: check_positive_def)

lemma check_settings_Inr:
  "check_settings s m = Inr x \<Longrightarrow>
     (sv_authEnabled s \<longrightarrow> sv_apiKeys s \<noteq> [] \<or> truthy_opt (sv_hmacSecret s)) \<and>
     \<not> (sv_nodeEnv s = ''production'' \<and> sv_nonceStore s = Nonce_inmemory) \<and> m = Inr x"
  by (auto simp: check_settings_def guardS_Inr)

lemma read_settings_keys: "read_settings parse penv = Inr s \<Longrightarrow> list_all key_ok (sv_apiKeys s)"
  by (auto simp: read_settings_def bindS_Inr Let_def dest: parsed_service_keys_ok)

lemma load_ricardian_Inr:
  assumes "load_ricardian parse penv = Inr c"
  shows "list_all (\<lambda>(_, n). 0 < n) (ricardian_checks c)" "list_all key_ok (sv_apiKeys (rg_settings c))"
    "sv_nonceStore (rg_settings c) \<noteq> Nonce_inmemory \<or> sv_nodeEnv (rg_settings c) \<noteq> ''production''"
proof -
  obtain s where s: "read_settings parse penv = Inr s"
    and c: "check_settings s (bindS (env_bool penv ''RATE_LIMIT_ENABLED'' False) (\<lambda>enabled.
          bindS (read_ricardian penv s enabled) (\<lambda>c. bindS (check_positive (ricardian_checks c)) (\<lambda>_. Inr c)))) = Inr c"
    using assms by (auto simp: load_ricardian_def bindS_Inr)
  note k = check_settings_Inr [OF c]
  then obtain e where e: "read_ricardian penv s e = Inr c" "check_positive (ricardian_checks c) = Inr ()"
    by (auto simp: bindS_Inr)
  then have "rg_settings c = s" by (auto simp: read_ricardian_def bindS_Inr)
  with e(2) k read_settings_keys [OF s] show "list_all (\<lambda>(_, n). 0 < n) (ricardian_checks c)"
    "list_all key_ok (sv_apiKeys (rg_settings c))"
    "sv_nonceStore (rg_settings c) \<noteq> Nonce_inmemory \<or> sv_nodeEnv (rg_settings c) \<noteq> ''production''"
    by (simp_all add: check_positive_Inr) blast
qed

text \<open>The limiter of a loaded configuration passes its own check, and every key that it finds has a secret and the id it was asked for.\<close>

lemma loaded_limits_valid: "load_ricardian parse penv = Inr c \<Longrightarrow> validateConfig (rc_limits (bootstrap c)) = Inr ()"
  using load_ricardian_Inr(1) [of parse penv c]
  by (auto simp: bootstrap_def validateConfig_def ricardian_checks_def window_checks_def Let_def)

lemma loaded_keys:
  assumes "load_ricardian parse penv = Inr c" "ao_lookupApiKey (rc_auth (bootstrap c)) i = Some k"
  shows "sk_id k = i \<and> key_ok k"
proof -
  from assms(2) have "(i, k) \<in> set (rev (map (\<lambda>k. (sk_id k, k)) (sv_apiKeys (rg_settings c))))"
    by (auto simp: bootstrap_def Let_def dest: map_of_SomeD)
  with load_ricardian_Inr(2) [OF assms(1)] show ?thesis by (auto simp: list_all_iff)
qed

text \<open>
  Nothing relates the life of a nonce to the skew: with the defaults of both, or with any positive life, the
  configuration loads.
\<close>

definition plain_environment :: "string \<Rightarrow> process_env" where
  "plain_environment ttl =
     map_of [(''PORT'', ''3000''), (''DB_HOST'', ''h''), (''DB_PORT'', ''5432''), (''DB_NAME'', ''n''), (''DB_USER'', ''u''),
       (''DB_PASSWORD'', ''p''), (''NONCE_TTL_SECONDS'', ttl)]"

lemma short_nonce_life_loads:
  "case load_ricardian (\<lambda>_. None) (plain_environment ''1'') of
     Inr c \<Rightarrow> sv_nonceTtlSeconds (rg_settings c) = 1 \<and> rg_authMaxSkewSeconds c = 300 | Inl _ \<Rightarrow> False"
  "case load_ricardian (\<lambda>_. None) (plain_environment []) of
     Inr c \<Rightarrow> sv_nonceTtlSeconds (rg_settings c) = 2 * rg_authMaxSkewSeconds c \<and> \<not> sv_authEnabled (rg_settings c) | Inl _ \<Rightarrow> False"
  by code_simp+

end
