(* ===== verification/Trade_Reads.thy ===== *)
theory Trade_Reads imports Main Compliance_Service Compliance_Props "HOL-Library.Multiset" begin

text \<open>
  The trades of the dashboard: the gateway reads them from the indexer and adds the compliance status
  (\<open>gateway/src/core/tradeReadService.ts\<close>, \<open>routes/trades.ts\<close>).  A field of the indexer that may be absent or null is
  an option.
  The second half holds the properties.
\<close>

section \<open>Types\<close>

record trade_event_record =
  tv_eventName :: string
  tv_timestamp :: string
  tv_txHash :: "string option"
  tv_extrinsicHash :: "string option"
  tv_totalAmount :: "string option"
  tv_releasedFirstTranche :: "string option"
  tv_releasedLogisticsAmount :: "string option"
  tv_paidPlatformFees :: "string option"
  tv_arrivalTimestamp :: "string option"
  tv_finalTranche :: "string option"
  tv_finalRecipient :: "string option"
  tv_refundedAmount :: "string option"
  tv_refundedTo :: "string option"
  tv_refundedBuyerPrincipal :: "string option"
  tv_claimType :: "string option"
  tv_claimRecipient :: "string option"
  tv_claimAmount :: "string option"
  tv_payoutRecipient :: "string option"
  tv_payoutAmount :: "string option"
  tv_payoutType :: "string option"

record trade_graphql_record =
  tg_tradeId :: string
  tg_buyer :: string
  tg_supplier :: string
  tg_status :: string
  tg_totalAmountLocked :: string
  tg_logisticsAmount :: string
  tg_platformFeesAmount :: string
  tg_ricardianHash :: string
  tg_createdAt :: string
  tg_events :: "trade_event_record list option"

datatype dashboard_status = Dash_locked | Dash_stage_1 | Dash_stage_2 | Dash_completed | Dash_disputed

datatype dashboard_compliance = Compliance_pass | Compliance_fail | Compliance_unavailable

record dashboard_event =
  de_stage :: string
  de_timestamp :: string
  de_actor :: string
  de_txHash :: "string option"
  de_detail :: "string option"

record dashboard_trade =
  dt_id :: string
  dt_buyer :: string
  dt_supplier :: string
  dt_amount :: js_number
  dt_status :: dashboard_status
  dt_txHash :: "string option"
  dt_createdAt :: string
  dt_updatedAt :: string
  dt_ricardianHash :: string
  dt_platformFee :: js_number
  dt_logisticsAmount :: js_number
  dt_timeline :: "dashboard_event list"
  dt_complianceStatus :: dashboard_compliance

text \<open>
  The answer of the indexer: an abort by the timeout, another throw with its text, or a response with its status and
  its payload; \<open>Inl\<close> is a body that is not JSON.  \<open>gp_trades\<close> is \<open>None\<close> when \<open>data.trades\<close> is not an array.
\<close>

record trades_payload =
  gt_errors :: "string list"
  gt_trades :: "trade_graphql_record list option"

datatype trades_reply =
    Trades_aborted
  | Trades_threw string
  | Trades_response bool int "string + trades_payload option"

datatype trades_query = Readiness_query | List_query nat nat | Detail_query string

text \<open>
  The host: \<open>Date.parse\<close> and \<open>toISOString\<close>, the time of a text of seconds (\<open>None\<close> when \<open>Number\<close> or \<open>Date\<close> makes no valid
  time of it), \<open>formatUnits(value, 6)\<close> of ethers, \<open>Number\<close> and \<open>toLocaleString\<close>, the order in which \<open>sort\<close> leaves events
  with times that do not parse, the double next to an integer (\<open>None\<close> for infinity), and which of
  several rejected promises was rejected first.
\<close>

record trades_env =
  tr_indexer :: "nat \<Rightarrow> trades_query \<Rightarrow> trades_reply"
  tr_timeoutMs :: int
  tr_parse :: "string \<Rightarrow> int option"
  tr_iso :: "int \<Rightarrow> string"
  tr_unix :: "string \<Rightarrow> int option"
  tr_units :: "int \<Rightarrow> string + string"
  tr_number :: "string \<Rightarrow> js_number"
  tr_locale :: "js_number \<Rightarrow> string"
  tr_mixed :: "trade_event_record list \<Rightarrow> trade_event_record list"
  tr_double :: "nat \<Rightarrow> nat option"
  tr_rejected :: "nat \<Rightarrow> nat"

section \<open>Values\<close>

definition upstream :: "string \<Rightarrow> (string \<times> string) list \<Rightarrow> gw_error" where
  "upstream m details = Gateway_error 502 UPSTREAM_UNAVAILABLE m details"

definition invalid_timestamp :: "string \<Rightarrow> string \<Rightarrow> gw_error" where
  "invalid_timestamp field v =
     upstream (''Indexer returned invalid '' @ field @ '' timestamp'') [(''field'', field), (''value'', v)]"

definition assertIsoTimestamp :: "trades_env \<Rightarrow> string \<Rightarrow> string \<Rightarrow> gw_error + string" where
  "assertIsoTimestamp env v field =
     (case tr_parse env v of None \<Rightarrow> Inl (invalid_timestamp field v) | Some t \<Rightarrow> Inr (tr_iso env t))"

definition assertUnixSecondsTimestamp :: "trades_env \<Rightarrow> string \<Rightarrow> string \<Rightarrow> gw_error + string" where
  "assertUnixSecondsTimestamp env v field =
     (case tr_unix env v of None \<Rightarrow> Inl (invalid_timestamp field v) | Some t \<Rightarrow> Inr (tr_iso env t))"

definition parseHash :: "string option \<Rightarrow> string option \<Rightarrow> string option" where
  "parseHash txHash extrinsicHash =
     (case (case txHash of None \<Rightarrow> extrinsicHash | Some h \<Rightarrow> Some h) of
        None \<Rightarrow> None
      | Some candidate \<Rightarrow> if trim candidate = [] then None else Some candidate)"

text \<open>\<open>BigInt(raw)\<close> on a text: white space around it is ignored, and a sign is only allowed before decimal digits.\<close>

fun nat_in_base :: "nat \<Rightarrow> nat \<Rightarrow> string \<Rightarrow> nat option" where
  "nat_in_base b acc [] = Some acc"
| "nat_in_base b acc (c # cs) =
     (case hex_val c of None \<Rightarrow> None | Some d \<Rightarrow> if d < b then nat_in_base b (b * acc + d) cs else None)"

definition parse_bigint :: "string \<Rightarrow> int option" where
  "parse_bigint raw =
     (let s = trim raw;
          digits = (\<lambda>b t. if t = [] then None else map_option int (nat_in_base b 0 t));
          prefixed = (\<lambda>p. to_lower (take 2 s) = p)
      in if s = [] then Some 0
         else if prefixed ''0x'' then digits 16 (drop 2 s)
         else if prefixed ''0o'' then digits 8 (drop 2 s)
         else if prefixed ''0b'' then digits 2 (drop 2 s)
         else if starts_with s ''-'' then map_option uminus (digits 10 (drop 1 s))
         else if starts_with s ''+'' then digits 10 (drop 1 s)
         else digits 10 s)"

definition asUsdcNumber :: "trades_env \<Rightarrow> string \<Rightarrow> string \<Rightarrow> gw_error + js_number" where
  "asUsdcNumber env raw field =
     (let invalid = (\<lambda>reason. upstream (''Indexer returned invalid '' @ field @ '' amount'')
            [(''field'', field), (''raw'', raw), (''reason'', reason)])
      in case parse_bigint raw of
           None \<Rightarrow> Inl (invalid (''Cannot convert '' @ raw @ '' to a BigInt''))
         | Some units \<Rightarrow>
             (case tr_units env units of
                Inl m \<Rightarrow> Inl (invalid m)
              | Inr formatted \<Rightarrow>
                  (case tr_number env formatted of
                     Not_finite \<Rightarrow> Inl (invalid ''Formatted value is not finite'')
                   | Finite t \<Rightarrow> Inr (Finite t))))"

section \<open>Names of the dashboard\<close>

definition TRADE_STATUSES :: "(string \<times> dashboard_status) list" where
  "TRADE_STATUSES =
     [(''LOCKED'', Dash_locked), (''IN_TRANSIT'', Dash_stage_1), (''ARRIVAL_CONFIRMED'', Dash_stage_2),
      (''FROZEN'', Dash_disputed), (''CLOSED'', Dash_completed)]"

definition mapTradeStatus :: "string \<Rightarrow> gw_error + dashboard_status" where
  "mapTradeStatus status =
     (case map_of TRADE_STATUSES status of
        Some s \<Rightarrow> Inr s
      | None \<Rightarrow> Inl (upstream ''Indexer returned unknown trade status'' [(''status'', status)]))"

definition mapComplianceStatus :: "compliance_result option \<Rightarrow> dashboard_compliance" where
  "mapComplianceStatus result =
     (case result of Some ALLOW \<Rightarrow> Compliance_pass | Some DENY \<Rightarrow> Compliance_fail | None \<Rightarrow> Compliance_unavailable)"

definition EVENT_STAGES :: "(string \<times> string) list" where
  "EVENT_STAGES =
     [(''TradeLocked'', ''Lock''), (''FundsReleasedStage1'', ''Stage 1 Release''),
      (''PlatformFeesPaidStage1'', ''Platform Fee Settlement''), (''ArrivalConfirmed'', ''Arrival Confirmed''),
      (''FinalTrancheReleased'', ''Final Settlement''), (''DisputeOpenedByBuyer'', ''Dispute Opened''),
      (''TradeCancelledAfterLockTimeout'', ''Lock Timeout Refund''),
      (''InTransitTimeoutRefunded'', ''Transit Timeout Refund''), (''DisputePayout'', ''Dispute Payout''),
      (''ClaimableAccrued'', ''Claim Accrued'')]"

definition mapEventStage :: "string \<Rightarrow> string" where
  "mapEventStage eventName = (case map_of EVENT_STAGES eventName of Some s \<Rightarrow> s | None \<Rightarrow> eventName)"

definition EVENT_ACTORS :: "(string \<times> string) list" where
  "EVENT_ACTORS =
     [(''TradeLocked'', ''Buyer''), (''DisputeOpenedByBuyer'', ''Buyer''), (''TradeCancelledAfterLockTimeout'', ''Buyer''),
      (''InTransitTimeoutRefunded'', ''Buyer''), (''FundsReleasedStage1'', ''Oracle''), (''ArrivalConfirmed'', ''Oracle''),
      (''FinalTrancheReleased'', ''Oracle''), (''PlatformFeesPaidStage1'', ''Treasury''), (''ClaimableAccrued'', ''Treasury''),
      (''DisputePayout'', ''Governance'')]"

definition mapEventActor :: "string \<Rightarrow> string" where
  "mapEventActor eventName = (case map_of EVENT_ACTORS eventName of Some s \<Rightarrow> s | None \<Rightarrow> ''Protocol'')"

section \<open>The timeline\<close>

definition amount_text :: "trades_env \<Rightarrow> string \<Rightarrow> string \<Rightarrow> gw_error + string" where
  "amount_text env raw field = map_sum id (tr_locale env) (asUsdcNumber env raw field)"

definition nullish_or :: "string option \<Rightarrow> string \<Rightarrow> string" where
  "nullish_or x d = (case x of None \<Rightarrow> d | Some v \<Rightarrow> v)"

text \<open>A text around one amount.\<close>

definition with_amount ::
  "trades_env \<Rightarrow> string \<Rightarrow> string option \<Rightarrow> string \<Rightarrow> string \<Rightarrow> gw_error + string option" where
  "with_amount env before raw field after =
     andThen (amount_text env (nullish_or raw ''0'') field) (\<lambda>a. Inr (Some (before @ a @ after)))"

definition mapEventDetail :: "trades_env \<Rightarrow> trade_event_record \<Rightarrow> gw_error + string option" where
  "mapEventDetail env event =
     (let n = tv_eventName event
      in if n = ''TradeLocked'' then
           (if truthy_opt (tv_totalAmount event)
            then with_amount env ''Escrow locked for '' (tv_totalAmount event) ''event.totalAmount'' '' USDC.''
            else Inr None)
         else if n = ''FundsReleasedStage1'' then
           andThen (amount_text env (nullish_or (tv_releasedFirstTranche event) ''0'') ''event.releasedFirstTranche'') (\<lambda>first.
             with_amount env (''Stage 1 released '' @ first @ '' USDC plus '') (tv_releasedLogisticsAmount event)
               ''event.releasedLogisticsAmount'' '' USDC logistics.'')
         else if n = ''PlatformFeesPaidStage1'' then
           with_amount env ''Platform fees settled: '' (tv_paidPlatformFees event) ''event.paidPlatformFees'' '' USDC.''
         else if n = ''ArrivalConfirmed'' then
           (if truthy_opt (tv_arrivalTimestamp event)
            then andThen (assertUnixSecondsTimestamp env (the (tv_arrivalTimestamp event)) ''event.arrivalTimestamp'') (\<lambda>t.
                   Inr (Some (''Arrival confirmed at '' @ t @ ''.'')))
            else Inr (Some ''Arrival milestone confirmed by oracle.''))
         else if n = ''FinalTrancheReleased'' then
           with_amount env (''Final tranche released to '' @ nullish_or (tv_finalRecipient event) ''supplier'' @ '' for '')
             (tv_finalTranche event) ''event.finalTranche'' '' USDC.''
         else if n = ''DisputeOpenedByBuyer'' then
           Inr (Some ''Buyer opened a dispute within the post-arrival review window.'')
         else if n = ''TradeCancelledAfterLockTimeout'' then
           with_amount env ''Trade cancelled after lock timeout. Refunded '' (tv_refundedAmount event) ''event.refundedAmount''
             ('' USDC to '' @ nullish_or (tv_refundedTo event) ''buyer'' @ ''.'')
         else if n = ''InTransitTimeoutRefunded'' then
           with_amount env ''In-transit timeout refund executed for '' (tv_refundedBuyerPrincipal event)
             ''event.refundedBuyerPrincipal'' '' USDC.''
         else if n = ''DisputePayout'' then
           with_amount env (''Governance resolved dispute with '' @ nullish_or (tv_payoutType event) ''unknown'' @ '' payout of '')
             (tv_payoutAmount event) ''event.payoutAmount''
             ('' USDC to '' @ nullish_or (tv_payoutRecipient event) ''recipient'' @ ''.'')
         else if n = ''ClaimableAccrued'' then
           with_amount env (''Claim accrued: '' @ nullish_or (tv_claimType event) ''unknown'' @ '' for '' @
               nullish_or (tv_claimRecipient event) ''recipient'' @ '' ('')
             (tv_claimAmount event) ''event.claimAmount'' '' USDC).''
         else Inr None)"

text \<open>
  The comparison subtracts times; with a time that does not parse it is not an order, and the result of \<open>sort\<close> is
  the host's.
\<close>

definition sort_events :: "trades_env \<Rightarrow> trade_event_record list \<Rightarrow> trade_event_record list" where
  "sort_events env events =
     (if list_all (\<lambda>e. tr_parse env (tv_timestamp e) \<noteq> None) events
      then sort_key (\<lambda>e. the (tr_parse env (tv_timestamp e))) events
      else tr_mixed env events)"

definition map_event :: "trades_env \<Rightarrow> trade_event_record \<Rightarrow> gw_error + dashboard_event" where
  "map_event env event =
     andThen (mapEventDetail env event) (\<lambda>eventDetail.
     andThen (assertIsoTimestamp env (tv_timestamp event) ''tradeEvent.timestamp'') (\<lambda>timestamp.
       Inr \<lparr>de_stage = mapEventStage (tv_eventName event), de_timestamp = timestamp, de_actor = mapEventActor (tv_eventName event),
            de_txHash = parseHash (tv_txHash event) (tv_extrinsicHash event),
            de_detail = (if truthy_opt eventDetail then eventDetail else None)\<rparr>))"

text \<open>\<open>xs.map(f)\<close> of a function that may throw.\<close>

fun map_each :: "('a \<Rightarrow> 'e + 'b) \<Rightarrow> 'a list \<Rightarrow> 'e + 'b list" where
  "map_each f [] = Inr []"
| "map_each f (x # xs) = andThen (f x) (\<lambda>y. andThen (map_each f xs) (\<lambda>ys. Inr (y # ys)))"

definition mapTimeline :: "trades_env \<Rightarrow> trade_event_record list option \<Rightarrow> gw_error + dashboard_event list" where
  "mapTimeline env events =
     map_each (map_event env) (sort_events env (case events of None \<Rightarrow> [] | Some es \<Rightarrow> es))"

section \<open>Queries\<close>

definition query_name :: "trades_query \<Rightarrow> string" where
  "query_name q =
     (case q of Readiness_query \<Rightarrow> ''DashboardGatewayTradeReadiness'' | List_query _ _ \<Rightarrow> ''DashboardTrades''
      | Detail_query _ \<Rightarrow> ''DashboardTradeDetail'')"

definition query_result :: "trades_env \<Rightarrow> string \<Rightarrow> trades_reply \<Rightarrow> gw_error + trades_payload" where
  "query_result env operationName reply =
     (let operation = (''operationName'', operationName);
          failed = (\<lambda>reason. upstream ''Indexer request failed'' [operation, (''reason'', reason)])
      in case reply of
           Trades_aborted \<Rightarrow>
             Inl (Gateway_error 504 UPSTREAM_UNAVAILABLE ''Indexer request timed out''
               [operation, (''timeoutMs'', show_int (tr_timeoutMs env))])
         | Trades_threw reason \<Rightarrow> Inl (failed reason)
         | Trades_response ok status body \<Rightarrow>
             if \<not> ok
             then Inl (upstream (''Indexer request failed with HTTP '' @ show_int status) [operation, (''status'', show_int status)])
             else (case body of
                Inl reason \<Rightarrow> Inl (failed reason)
              | Inr None \<Rightarrow> Inl (upstream ''Indexer returned an invalid GraphQL payload'' [])
              | Inr (Some payload) \<Rightarrow>
                  if gt_errors payload \<noteq> []
                  then Inl (upstream ''Indexer returned GraphQL errors'' [operation, (''errors'', join_with '','' (gt_errors payload))])
                  else Inr payload))"

definition executeQuery :: "trades_env \<Rightarrow> trades_query \<Rightarrow> trades_payload compliance_eff" where
  "executeQuery env q =
     bindE (cask (\<lambda>t. tr_indexer env t q)) (\<lambda>reply. lift (query_result env (query_name q) reply))"

definition readTradesArray :: "trades_payload \<Rightarrow> gw_error + trade_graphql_record list" where
  "readTradesArray payload =
     (case gt_trades payload of
        None \<Rightarrow> Inl (upstream ''Indexer returned an invalid GraphQL payload'' [])
      | Some trades \<Rightarrow> Inr trades)"

definition read_trades :: "trades_env \<Rightarrow> trades_query \<Rightarrow> trade_graphql_record list compliance_eff" where
  "read_trades env q = bindE (executeQuery env q) (\<lambda>payload. lift (readTradesArray payload))"

definition checkReadiness :: "trades_env \<Rightarrow> unit compliance_eff" where
  "checkReadiness env = seqE (read_trades env Readiness_query) (ret ())"

section \<open>The service\<close>

text \<open>The hash of the lock, or the first hash of the timeline.\<close>

definition lock_reference :: "dashboard_event list \<Rightarrow> string option" where
  "lock_reference timeline =
     (case find (\<lambda>e. de_stage e = ''Lock'' \<and> truthy_opt (de_txHash e)) timeline of
        Some e \<Rightarrow> de_txHash e
      | None \<Rightarrow> (case find (\<lambda>e. truthy_opt (de_txHash e)) timeline of Some e \<Rightarrow> de_txHash e | None \<Rightarrow> None))"

definition trade_record ::
  "trades_env \<Rightarrow> trade_graphql_record \<Rightarrow> dashboard_event list \<Rightarrow> compliance_status option \<Rightarrow> gw_error + dashboard_trade" where
  "trade_record env trade timeline compliance =
     andThen (if timeline = [] then assertIsoTimestamp env (tg_createdAt trade) ''trade.createdAt''
              else Inr (de_timestamp (last timeline))) (\<lambda>updatedAt.
     andThen (asUsdcNumber env (tg_totalAmountLocked trade) ''trade.totalAmountLocked'') (\<lambda>amount.
     andThen (mapTradeStatus (tg_status trade)) (\<lambda>status.
     andThen (assertIsoTimestamp env (tg_createdAt trade) ''trade.createdAt'') (\<lambda>createdAt.
     andThen (asUsdcNumber env (tg_platformFeesAmount trade) ''trade.platformFeesAmount'') (\<lambda>platformFee.
     andThen (asUsdcNumber env (tg_logisticsAmount trade) ''trade.logisticsAmount'') (\<lambda>logisticsAmount.
       Inr \<lparr>dt_id = tg_tradeId trade, dt_buyer = tg_buyer trade, dt_supplier = tg_supplier trade, dt_amount = amount,
            dt_status = status, dt_txHash = lock_reference timeline, dt_createdAt = createdAt, dt_updatedAt = updatedAt,
            dt_ricardianHash = tg_ricardianHash trade, dt_platformFee = platformFee, dt_logisticsAmount = logisticsAmount,
            dt_timeline = timeline, dt_complianceStatus = mapComplianceStatus (map_option tc_currentResult compliance)\<rparr>))))))"

text \<open>What is left of a call once it waits for the compliance store.\<close>

definition awaited_record ::
  "trades_env \<Rightarrow> compliance_env \<Rightarrow> trade_graphql_record \<Rightarrow> dashboard_event list \<Rightarrow> dashboard_trade compliance_eff" where
  "awaited_record env cenv trade timeline =
     bindE (getTradeStatus cenv (tg_tradeId trade)) (\<lambda>compliance. lift (trade_record env trade timeline compliance))"

definition mapTradeRecord :: "trades_env \<Rightarrow> compliance_env \<Rightarrow> trade_graphql_record \<Rightarrow> dashboard_trade compliance_eff" where
  "mapTradeRecord env cenv trade =
     bindE (lift (mapTimeline env (tg_events trade))) (awaited_record env cenv trade)"

definition getTradeRecord :: "trades_env \<Rightarrow> compliance_env \<Rightarrow> string \<Rightarrow> dashboard_trade option compliance_eff" where
  "getTradeRecord env cenv tradeId =
     bindE (read_trades env (Detail_query tradeId)) (\<lambda>trades.
       case trades of
         [] \<Rightarrow> ret None
       | trade # _ \<Rightarrow> bindE (mapTradeRecord env cenv trade) (\<lambda>r. ret (Some r)))"

text \<open>A promise with its outcome.\<close>

definition settled :: "'a compliance_eff \<Rightarrow> (gw_error + 'a) compliance_eff" where
  "settled m w = (case m w of (r, w') \<Rightarrow> (Inr r, w'))"

fun settled_each :: "('b \<Rightarrow> 'a compliance_eff) \<Rightarrow> 'b list \<Rightarrow> (gw_error + 'a) list compliance_eff" where
  "settled_each f [] = ret []"
| "settled_each f (x # xs) = bindE (settled (f x)) (\<lambda>r. bindE (settled_each f xs) (\<lambda>rs. ret (r # rs)))"

definition errors_of :: "('e + 'a) list \<Rightarrow> 'e list" where
  "errors_of rs = concat (map (\<lambda>r. case r of Inl e \<Rightarrow> [e] | Inr _ \<Rightarrow> []) rs)"

definition values_of :: "('e + 'a) list \<Rightarrow> 'a list" where
  "values_of rs = concat (map (\<lambda>r. case r of Inl _ \<Rightarrow> [] | Inr x \<Rightarrow> [x]) rs)"

text \<open>
  \<open>Promise.all\<close>: the calls that throw before they wait are rejected first, in their order; \<open>n\<close> says which of the
  others was.
\<close>

definition promise_trades :: "nat \<Rightarrow> 'e list \<Rightarrow> ('e + 'a) list \<Rightarrow> 'e + 'a list" where
  "promise_trades n early results =
     (case early of
        e # _ \<Rightarrow> Inl e
      | [] \<Rightarrow> (let late = errors_of results in if late = [] then Inr (values_of results) else Inl (late ! (n mod length late))))"

definition listTrades :: "trades_env \<Rightarrow> compliance_env \<Rightarrow> nat \<Rightarrow> nat \<Rightarrow> dashboard_trade list compliance_eff" where
  "listTrades env cenv limit offset =
     bindE (read_trades env (List_query limit offset)) (\<lambda>trades.
       (let started = map (\<lambda>t. map_sum id (Pair t) (mapTimeline env (tg_events t))) trades
        in bindE (settled_each (\<lambda>(trade, timeline). awaited_record env cenv trade timeline) (values_of started)) (\<lambda>results.
           bindE (cask (tr_rejected env)) (\<lambda>n. lift (promise_trades n (errors_of started) results)))))"

section \<open>The routes\<close>

definition requireGatewayRole :: "string \<Rightarrow> gateway_principal \<Rightarrow> gw_error + unit" where
  "requireGatewayRole role caller =
     (if role \<notin> set (gp_gatewayRoles caller)
      then Inl (Gateway_error 403 FORBIDDEN (''Gateway role '' @ [CHR 0x27] @ role @ [CHR 0x27] @ '' is required'') [])
      else Inr ())"

definition query_error :: "string \<Rightarrow> string \<Rightarrow> gw_error" where
  "query_error name what =
     bad_request (''Query parameter '' @ [CHR 0x27] @ name @ [CHR 0x27] @ '' must be '' @ what)"

definition trades_limit :: "trades_env \<Rightarrow> json \<Rightarrow> gw_error + nat" where
  "trades_limit env raw =
     (if raw = J_undefined then Inr 100
      else (case json_text raw of
              None \<Rightarrow> Inl (query_error ''limit'' ''an integer'')
            | Some text \<Rightarrow>
                if text = [] \<or> \<not> all_digits text then Inl (query_error ''limit'' ''an integer'')
                else (case tr_double env (nat_of_digits 0 text) of
                        None \<Rightarrow> Inl (query_error ''limit'' ''between 1 and 200'')
                      | Some limit \<Rightarrow>
                          if limit < 1 \<or> limit > 200 then Inl (query_error ''limit'' ''between 1 and 200'') else Inr limit)))"

definition trades_offset :: "trades_env \<Rightarrow> json \<Rightarrow> gw_error + nat" where
  "trades_offset env raw =
     (if raw = J_undefined then Inr 0
      else (case json_text raw of
              None \<Rightarrow> Inl (query_error ''offset'' ''an integer'')
            | Some text \<Rightarrow>
                if text = [] \<or> \<not> all_digits text then Inl (query_error ''offset'' ''an integer'')
                else (case tr_double env (nat_of_digits 0 text) of
                        None \<Rightarrow> Inl (query_error ''offset'' ''zero or greater'')
                      | Some offset \<Rightarrow> Inr offset)))"

datatype trades_request = Get_trades json json | Get_one_trade string

datatype trades_answer = Trades_answer "dashboard_trade list" | One_trade_answer dashboard_trade

definition trades_handler :: "trades_env \<Rightarrow> compliance_env \<Rightarrow> trades_request \<Rightarrow> trades_answer compliance_eff" where
  "trades_handler env cenv request =
     (case request of
        Get_trades limit offset \<Rightarrow>
          bindE (lift (trades_limit env limit)) (\<lambda>n.
          bindE (lift (trades_offset env offset)) (\<lambda>m.
          bindE (listTrades env cenv n m) (\<lambda>records. ret (Trades_answer records))))
      | Get_one_trade raw \<Rightarrow>
          (let tradeId = trim raw
           in if tradeId = [] then throw (bad_request ''Path parameter tradeId is required'')
              else bindE (getTradeRecord env cenv tradeId) (\<lambda>r.
                case r of
                  None \<Rightarrow> throw (Gateway_error 404 NOT_FOUND ''Trade not found'' [(''tradeId'', tradeId)])
                | Some t \<Rightarrow> ret (One_trade_answer t))))"

text \<open>\<open>caller\<close> is what the authentication of the gateway makes of the request.\<close>

definition trade_route ::
  "trades_env \<Rightarrow> compliance_env \<Rightarrow> gw_error + gateway_principal \<Rightarrow> trades_request \<Rightarrow> trades_answer compliance_eff" where
  "trade_route env cenv caller request =
     bindE (lift caller) (\<lambda>p. seqE (lift (requireGatewayRole ''operator:read'' p)) (trades_handler env cenv request))"

section \<open>Facts\<close>

text \<open>
  The trades of the dashboard: reading them changes nothing, every failure has a status of the gateway's own choice unless
  the database fails, the compliance status is that of the last recorded decision, and a timeline is in the order
  of time.
\<close>

section \<open>Reading changes nothing\<close>

lemma keeps_read_trades [keeps_rules]: "keeps (same_compliance w) (read_trades env q)"
  unfolding read_trades_def executeQuery_def by (intro keeps_rules)

lemma keeps_awaited [keeps_rules]: "keeps (same_compliance w) (awaited_record env cenv trade timeline)"
  unfolding awaited_record_def by (intro keeps_rules)

lemma keeps_settled: "keeps P m \<Longrightarrow> keeps P (settled m)"
  by (auto simp: keeps_def settled_def split: prod.splits)

lemma keeps_settled_each [keeps_rules]: "(\<And>x. keeps P (f x)) \<Longrightarrow> keeps P (settled_each f xs)"
  by (induction xs) (auto intro!: keeps_rules keeps_settled)

lemma keeps_trade_route: "keeps (same_compliance w) (trade_route env cenv caller request)"
proof -
  have one: "keeps (same_compliance w) (getTradeRecord env cenv i)" for i
    unfolding getTradeRecord_def mapTradeRecord_def
    by (intro keeps_bind keeps_read_trades) (auto split: list.split intro!: keeps_rules)
  have all: "keeps (same_compliance w) (listTrades env cenv n m)" for n m
    unfolding listTrades_def Let_def by (intro keeps_rules)
  show ?thesis
    unfolding trade_route_def trades_handler_def Let_def
    by (intro keeps_rules) (cases request; auto split: option.split intro!: keeps_rules one all)
qed

section \<open>Failures\<close>

text \<open>The errors that a read of trades may end with.\<close>

definition read_error :: "compliance_env \<Rightarrow> gw_error \<Rightarrow> bool" where
  "read_error cenv e \<longleftrightarrow>
     (case e of
        Gateway_error status _ _ _ \<Rightarrow> status \<in> {400, 403, 404, 502, 504}
      | Other_error m \<Rightarrow> \<exists>t. ce_db cenv t = Some m)"

definition fails_with :: "(gw_error \<Rightarrow> bool) \<Rightarrow> 'a compliance_eff \<Rightarrow> bool" where
  "fails_with P m \<longleftrightarrow> (\<forall>w e. result_of (m w) = Inl e \<longrightarrow> P e)"

definition refused_with :: "(gw_error \<Rightarrow> bool) \<Rightarrow> gw_error + 'a \<Rightarrow> bool" where
  "refused_with P r \<longleftrightarrow> (\<forall>e. r = Inl e \<longrightarrow> P e)"

named_theorems fails_rules "rules that split the errors of a call along its body"

lemma fails_bind_after:
  assumes "fails_with P m" "\<And>w x w'. m w = (Inr x, w') \<Longrightarrow> fails_with P (f x)"
  shows "fails_with P (bindE m f)"
  unfolding fails_with_def bindE_app
proof (intro allI impI)
  fix w e
  assume e: "result_of (case m w of (r, w') \<Rightarrow> (case r of Inl e \<Rightarrow> (Inl e, w') | Inr x \<Rightarrow> f x w')) = Inl e"
  obtain r w' where r: "m w = (r, w')" by (cases "m w")
  show "P e"
  proof (cases r)
    case (Inl e')
    with e r have "result_of (m w) = Inl e" by simp
    with assms(1) show ?thesis unfolding fails_with_def by blast
  next
    case (Inr x)
    then have "fails_with P (f x)" using assms(2) r by blast
    with Inr e r show ?thesis by (simp add: fails_with_def)
  qed
qed

lemma fails_bind [fails_rules]: "fails_with P m \<Longrightarrow> (\<And>x. fails_with P (f x)) \<Longrightarrow> fails_with P (bindE m f)"
  by (rule fails_bind_after)

lemma fails_seq [fails_rules]: "fails_with P m \<Longrightarrow> fails_with P n \<Longrightarrow> fails_with P (seqE m n)"
  unfolding seqE_def by (rule fails_bind)

lemma fails_basic [fails_rules]: "fails_with P (ret x)" "fails_with P (cask f)" "P e \<Longrightarrow> fails_with P (throw e)"
  by (simp_all add: fails_with_def ret_app cask_def throw_app)

lemma fails_lift [fails_rules]: "refused_with P r \<Longrightarrow> fails_with P (lift r)"
  by (simp add: fails_with_def refused_with_def lift_app)

lemma refused_then [fails_rules]: "refused_with P r \<Longrightarrow> (\<And>x. refused_with P (f x)) \<Longrightarrow> refused_with P (andThen r f)"
  by (auto simp: refused_with_def andThen_def split: sum.splits)

lemma refused_basic [fails_rules]: "refused_with P (Inr x)" "P e \<Longrightarrow> refused_with P (Inl e)"
  by (simp_all add: refused_with_def)

lemma fails_query [fails_rules]: "fails_with (read_error cenv) (cquery cenv (asks f))"
  by (auto simp: fails_with_def cquery_def asks_app read_error_def split: option.splits)

lemma read_error_upstream [simp]: "read_error cenv (upstream m d)" "read_error cenv (invalid_timestamp f v)"
  "read_error cenv (bad_request m)"
  by (simp_all add: read_error_def upstream_def invalid_timestamp_def bad_request_def)

lemma refused_iso [fails_rules]: "refused_with (read_error cenv) (assertIsoTimestamp env v f)"
  by (auto simp: assertIsoTimestamp_def refused_with_def split: option.splits)

lemma refused_unix [fails_rules]: "refused_with (read_error cenv) (assertUnixSecondsTimestamp env v f)"
  by (auto simp: assertUnixSecondsTimestamp_def refused_with_def split: option.splits)

lemma refused_number [fails_rules]: "refused_with (read_error cenv) (asUsdcNumber env raw f)"
  by (auto simp: asUsdcNumber_def refused_with_def Let_def split: option.splits sum.splits js_number.splits)

lemma refused_text [fails_rules]: "refused_with (read_error cenv) (amount_text env raw f)"
  using refused_number [of cenv env raw f]
  by (cases "asUsdcNumber env raw f") (auto simp: amount_text_def refused_with_def)

lemma refused_amount [fails_rules]: "refused_with (read_error cenv) (with_amount env b raw f a)"
  unfolding with_amount_def by (intro fails_rules)

lemma refused_detail [fails_rules]: "refused_with (read_error cenv) (mapEventDetail env e)"
  by (simp add: mapEventDetail_def Let_def, intro conjI impI fails_rules)

lemma refused_each: "(\<And>x. refused_with P (f x)) \<Longrightarrow> refused_with P (map_each f xs)"
  by (induction xs) (auto intro!: fails_rules)

lemma refused_timeline [fails_rules]: "refused_with (read_error cenv) (mapTimeline env events)"
  unfolding mapTimeline_def map_event_def by (intro refused_each fails_rules)

lemma refused_status [fails_rules]: "refused_with (read_error cenv) (mapTradeStatus s)"
  by (auto simp: mapTradeStatus_def refused_with_def split: option.splits)

lemma refused_record [fails_rules]: "refused_with (read_error cenv) (trade_record env t line c)"
  unfolding trade_record_def by (cases "line = []") (simp_all, (intro fails_rules)+)

lemma fails_status [fails_rules]: "fails_with (read_error cenv) (getTradeStatus cenv t)"
proof -
  have block: "fails_with (read_error cenv) (loadBlockState cenv t)" for t
    unfolding loadBlockState_def by (intro fails_rules)
  show ?thesis
    unfolding getTradeStatus_def getLatestDecision_def with_block_def
    by (intro fails_rules) (auto split: option.splits intro!: fails_rules block)
qed

lemma fails_awaited [fails_rules]: "fails_with (read_error cenv) (awaited_record env cenv t line)"
  unfolding awaited_record_def by (intro fails_rules)

lemma fails_read_trades [fails_rules]: "fails_with (read_error cenv) (read_trades env q)"
proof -
  have "refused_with (read_error cenv) (query_result env n reply)" for n reply
    by (auto simp: query_result_def refused_with_def Let_def read_error_def upstream_def
        split: trades_reply.splits sum.splits option.splits if_splits)
  moreover have "refused_with (read_error cenv) (readTradesArray p)" for p
    by (auto simp: readTradesArray_def refused_with_def split: option.splits)
  ultimately show ?thesis unfolding read_trades_def executeQuery_def by (intro fails_rules)
qed

lemma settled_errors:
  "(\<And>x. fails_with P (f x)) \<Longrightarrow> settled_each f xs w = (Inr rs, w') \<Longrightarrow> list_all P (errors_of rs) \<and> length rs = length xs"
proof (induction xs arbitrary: w rs)
  case (Cons x xs)
  obtain r w1 where r: "f x w = (r, w1)" by (cases "f x w")
  obtain rs' where rs': "settled_each f xs w1 = (Inr rs', w')" "rs = r # rs'"
    using Cons.prems(2) r by (auto simp: bindE_app settled_def ret_app split: prod.splits sum.splits)
  have "P e" if "r = Inl e" for e using Cons.prems(1) r that unfolding fails_with_def by (metis fst_conv)
  with Cons.IH [OF Cons.prems(1) rs'(1)] rs'(2) show ?case by (auto simp: errors_of_def split: sum.splits)
qed (simp add: ret_app errors_of_def)

lemma settled_never_fails: "fails_with P (settled_each f xs)"
  by (induction xs) (auto intro!: fails_rules simp: settled_def fails_with_def [of _ "settled _"] split: prod.splits)

lemma promise_trades_refused: "list_all P early \<Longrightarrow> list_all P (errors_of rs) \<Longrightarrow> refused_with P (promise_trades n early rs)"
  by (cases early) (auto simp: promise_trades_def refused_with_def Let_def list_all_length split: if_splits)

lemma fails_list: "fails_with (read_error cenv) (listTrades env cenv n m)"
proof -
  let ?f = "\<lambda>(trade, timeline). awaited_record env cenv trade timeline"
  have each: "fails_with (read_error cenv) (?f x)" for x
    by (cases x) (simp add: fails_awaited)
  have start: "read_error cenv e" if "map_sum id (Pair t) (mapTimeline env (tg_events t)) = Inl e" for t e
    using refused_timeline [of cenv env "tg_events t"] that by (cases "mapTimeline env (tg_events t)") (auto simp: refused_with_def)
  have early: "list_all (read_error cenv) (errors_of (map (\<lambda>t. map_sum id (Pair t) (mapTimeline env (tg_events t))) trades))" for trades
    by (induction trades) (auto simp: errors_of_def dest: start [unfolded id_def] split: sum.splits)
  have late: "fails_with (read_error cenv) (bindE (settled_each ?f xs) (\<lambda>results. bindE (cask (tr_rejected env)) (\<lambda>n.
      lift (promise_trades n (errors_of (map (\<lambda>t. map_sum id (Pair t) (mapTimeline env (tg_events t))) trades)) results))))" for xs trades
    by (rule fails_bind_after [OF settled_never_fails])
       (intro fails_bind fails_basic fails_lift promise_trades_refused early conjunct1 [OF settled_errors [OF each]])
  show ?thesis unfolding listTrades_def Let_def by (rule fails_bind [OF fails_read_trades late])
qed

lemma fails_get: "fails_with (read_error cenv) (getTradeRecord env cenv i)"
  unfolding getTradeRecord_def mapTradeRecord_def
  by (intro fails_bind fails_read_trades) (auto split: list.split intro!: fails_rules)

lemma fails_route:
  assumes "refused_with P caller" "\<And>e. read_error cenv e \<Longrightarrow> P e"
  shows "fails_with P (trade_route env cenv caller request)"
proof -
  have weaken: "fails_with P m" if "fails_with (read_error cenv) m" for m :: "'x compliance_eff"
    using that assms(2) by (auto simp: fails_with_def)
  have q: "refused_with (read_error cenv) (trades_limit env j)" "refused_with (read_error cenv) (trades_offset env j)"
    "refused_with (read_error cenv) (requireGatewayRole role p)" for j role p
    by (auto simp: trades_limit_def trades_offset_def requireGatewayRole_def query_error_def refused_with_def read_error_def
        bad_request_def split: option.splits if_splits)
  have "read_error cenv (Gateway_error 404 c m d)" for c m d by (simp add: read_error_def)
  then have "fails_with (read_error cenv) (trades_handler env cenv request)"
    unfolding trades_handler_def
    by (cases request) (auto simp: Let_def split: option.split intro!: fails_rules q fails_list fails_get)
  then show ?thesis unfolding trade_route_def by (intro fails_bind fails_seq fails_lift assms(1) weaken q)
qed

text \<open>
  C34: what a read of trades may do.  Whatever the indexer and the compliance database answer, a request for trades
  leaves the compliance tables as they are; when it fails, the error is the refusal of the caller, an error of the
  gateway with one of the statuses 400, 403, 404, 502 and 504, or the failure of a statement of the compliance
  database.
\<close>

theorem trade_reads_fail_safely:
  "case trade_route env cenv caller request w of (r, w') \<Rightarrow>
     same_compliance w w' \<and> (case r of Inl e \<Rightarrow> caller = Inl e \<or> read_error cenv e | Inr _ \<Rightarrow> True)"
proof -
  have "same_compliance w (state_of (trade_route env cenv caller request w))"
    by (rule keepsD [OF keeps_trade_route]) simp
  moreover have "fails_with (\<lambda>e. caller = Inl e \<or> read_error cenv e) (trade_route env cenv caller request)"
    by (rule fails_route) (auto simp: refused_with_def)
  then have "caller = Inl e \<or> read_error cenv e" if "trade_route env cenv caller request w = (Inl e, w')" for e w'
    using that unfolding fails_with_def by (metis fst_conv)
  ultimately show ?thesis by (auto split: prod.splits sum.splits)
qed

section \<open>Compliance\<close>

definition shown_compliance :: "string \<Rightarrow> compliance_world \<Rightarrow> dashboard_compliance" where
  "shown_compliance t w =
     (case trade_decisions t w of
        [] \<Rightarrow> Compliance_unavailable
      | d # ds \<Rightarrow> (case cd_result (last (d # ds)) of ALLOW \<Rightarrow> Compliance_pass | DENY \<Rightarrow> Compliance_fail))"

definition answer_trades :: "trades_answer \<Rightarrow> dashboard_trade list" where
  "answer_trades a = (case a of Trades_answer rs \<Rightarrow> rs | One_trade_answer r \<Rightarrow> [r])"

lemma andThen_Inr: "andThen r f = Inr y \<longleftrightarrow> (\<exists>x. r = Inr x \<and> f x = Inr y)"
  by (auto simp: andThen_def split: sum.splits)

lemma trade_record_facts:
  "trade_record env t line c = Inr r \<Longrightarrow> dt_id r = tg_tradeId t \<and> dt_timeline r = line \<and>
     dt_complianceStatus r = mapComplianceStatus (map_option tc_currentResult c)"
  by (auto simp: trade_record_def andThen_Inr)

text \<open>Between reads the decisions are the same.\<close>

lemma awaited_compliance:
  assumes "awaited_record env cenv t line v = (Inr r, v')" "compliance_inv w" "same_compliance w v"
  shows "dt_complianceStatus r = shown_compliance (dt_id r) w"
proof -
  obtain c v1 where c: "getTradeStatus cenv (tg_tradeId t) v = (Inr c, v1)" "trade_record env t line c = Inr r"
    using assms(1) unfolding awaited_record_def by (auto simp: lift_app elim!: bindE_Inr)
  obtain d v2 where d: "getLatestDecision cenv (tg_tradeId t) v = (Inr d, v2)"
    and rest: "(case d of None \<Rightarrow> ret None
      | Some d \<Rightarrow> bindE (loadBlockState cenv (tg_tradeId t)) (\<lambda>b. ret (Some (status_of_decision (tg_tradeId t) d b)))) v2 = (Inr c, v1)"
    using c(1) unfolding getTradeStatus_def by (elim bindE_Inr)
  obtain st where st: "d = map_option (\<lambda>d. mapDecisionRow d st) (latest_decision (tg_tradeId t) v)"
    using getLatestDecision_Inr [OF d] by blast
  have "map_option tc_currentResult c = map_option cd_result (latest_decision (tg_tradeId t) v)"
    using rest st by (auto simp: ret_app status_of_decision_def mapDecisionRow_def split: option.splits elim!: bindE_Inr)
  moreover have "latest_decision (tg_tradeId t) v = latest_decision (tg_tradeId t) w"
    using assms(3) by (simp add: same_views)
  moreover have "latest_decision (tg_tradeId t) w =
      (case trade_decisions (tg_tradeId t) w of [] \<Rightarrow> None | _ \<Rightarrow> Some (last (trade_decisions (tg_tradeId t) w)))"
    using assms(2) by (intro last_decision_is_latest) (simp add: compliance_inv_def)
  ultimately show ?thesis
    using trade_record_facts [OF c(2)]
    by (auto simp: shown_compliance_def mapComplianceStatus_def split: list.splits compliance_result.splits)
qed

lemma settled_values:
  assumes "settled_each f xs v = (Inr rs, v')" "same_compliance w v"
    and "\<And>x. keeps (same_compliance w) (f x)"
    and "\<And>x v r v'. x \<in> set xs \<Longrightarrow> same_compliance w v \<Longrightarrow> f x v = (Inr r, v') \<Longrightarrow> Q r"
  shows "\<forall>r \<in> set (values_of rs). Q r"
  using assms(1,2,4)
proof (induction xs arbitrary: v rs)
  case (Cons x xs)
  obtain r v1 where r: "f x v = (r, v1)" by (cases "f x v")
  obtain rs' where rs': "settled_each f xs v1 = (Inr rs', v')" "rs = r # rs'"
    using Cons.prems(1) r by (auto simp: bindE_app settled_def ret_app split: prod.splits sum.splits)
  have "same_compliance w v1" using keepsD [OF assms(3) Cons.prems(2), of x] r by simp
  from Cons.IH [OF rs'(1) this] Cons.prems(3) have "\<forall>r \<in> set (values_of rs'). Q r" by (metis list.set_intros(2))
  moreover have "Q y" if "r = Inr y" for y using Cons.prems(2,3) r that by (metis list.set_intros(1))
  ultimately show ?case using rs'(2) by (auto simp: values_of_def split: sum.splits)
qed (simp add: ret_app values_of_def)

lemma promise_trades_Inr: "promise_trades n early rs = Inr ys \<Longrightarrow> early = [] \<and> errors_of rs = [] \<and> ys = values_of rs"
  by (auto simp: promise_trades_def Let_def split: list.splits if_splits)

lemma handler_compliance:
  assumes "trades_handler env cenv request v = (Inr a, v')" "compliance_inv w" "same_compliance w v"
  shows "\<forall>r \<in> set (answer_trades a). dt_complianceStatus r = shown_compliance (dt_id r) w"
proof (cases request)
  case (Get_trades limit offset)
  obtain n m rs v1 where rs: "listTrades env cenv n m v = (Inr rs, v1)" "a = Trades_answer rs"
    using assms(1) unfolding trades_handler_def Get_trades
    by (auto simp: lift_app ret_app elim!: bindE_Inr)
  obtain trades v2 where t: "read_trades env (List_query n m) v = (Inr trades, v2)"
    and rest: "bindE (settled_each (\<lambda>(trade, timeline). awaited_record env cenv trade timeline)
        (values_of (map (\<lambda>t. map_sum id (Pair t) (mapTimeline env (tg_events t))) trades)))
      (\<lambda>results. bindE (cask (tr_rejected env)) (\<lambda>n. lift (promise_trades n
        (errors_of (map (\<lambda>t. map_sum id (Pair t) (mapTimeline env (tg_events t))) trades)) results))) v2 = (Inr rs, v1)"
    using rs(1) unfolding listTrades_def Let_def by (rule bindE_Inr)
  from rest obtain results v3 where s: "settled_each (\<lambda>(trade, timeline). awaited_record env cenv trade timeline)
        (values_of (map (\<lambda>t. map_sum id (Pair t) (mapTimeline env (tg_events t))) trades)) v2 = (Inr results, v3)"
    and "rs = values_of results"
    by (rule bindE_Inr) (auto simp: cask_def bindE_app lift_app dest: promise_trades_Inr)
  moreover have "same_compliance w v2" using keepsD [OF keeps_read_trades assms(3), of env "List_query n m"] t by simp
  moreover have "keeps (same_compliance w) ((\<lambda>(trade, timeline). awaited_record env cenv trade timeline) x)" for x
    by (cases x) (simp add: keeps_awaited)
  ultimately show ?thesis
    using settled_values [OF s, of w "\<lambda>r. dt_complianceStatus r = shown_compliance (dt_id r) w"]
      awaited_compliance [OF _ assms(2)] rs(2) by (auto simp: answer_trades_def)
next
  case (Get_one_trade raw)
  obtain r v1 where r: "getTradeRecord env cenv (trim raw) v = (Inr (Some r), v1)" "a = One_trade_answer r"
    using assms(1) unfolding trades_handler_def Get_one_trade Let_def
    by (auto simp: throw_app ret_app elim!: bindE_Inr split: if_splits option.splits)
  obtain trades v2 where t: "read_trades env (Detail_query (trim raw)) v = (Inr trades, v2)"
    and rest: "(case trades of [] \<Rightarrow> ret None | trade # _ \<Rightarrow> bindE (mapTradeRecord env cenv trade) (\<lambda>r. ret (Some r))) v2 = (Inr (Some r), v1)"
    using r(1) unfolding getTradeRecord_def by (rule bindE_Inr)
  have "same_compliance w v2" using keepsD [OF keeps_read_trades assms(3), of env "Detail_query (trim raw)"] t by simp
  moreover from rest obtain trade line v3 where "awaited_record env cenv trade line v2 = (Inr r, v3)"
    unfolding mapTradeRecord_def
    by (cases trades) (auto simp: ret_app lift_app elim!: bindE_Inr)
  ultimately have "dt_complianceStatus r = shown_compliance (dt_id r) w" using awaited_compliance [OF _ assms(2)] by blast
  with r(2) show ?thesis by (simp add: answer_trades_def)
qed

text \<open>
  C33: the dashboard shows the last decision.  After any requests to the compliance routes, every trade that a read
  of trades is answered with shows \<open>pass\<close>, \<open>fail\<close> or \<open>unavailable\<close> as the last decision recorded for that trade is
  \<open>ALLOW\<close>, is \<open>DENY\<close>, or does not exist.
\<close>

theorem dashboard_shows_the_last_decision:
  assumes "w = compliance_run cenv requests empty_compliance"
    and "trade_route env cenv caller request w = (Inr a, w')"
  shows "\<forall>r \<in> set (answer_trades a). dt_complianceStatus r = shown_compliance (dt_id r) w"
proof -
  have inv: "compliance_inv w" unfolding assms(1) by (rule compliance_inv_run [OF compliance_inv_empty])
  obtain v where "trades_handler env cenv request w = (Inr a, v)"
    using assms(2) unfolding trade_route_def seqE_def by (auto simp: lift_app elim!: bindE_Inr)
  then show ?thesis using inv by (rule handler_compliance) simp
qed

section \<open>Timelines\<close>

definition events_of :: "trade_graphql_record \<Rightarrow> trade_event_record list" where
  "events_of t = (case tg_events t of None \<Rightarrow> [] | Some es \<Rightarrow> es)"

lemma map_each_Inr: "map_each f xs = Inr ys \<longleftrightarrow> list_all2 (\<lambda>x y. f x = Inr y) xs ys"
  by (induction xs arbitrary: ys) (auto simp: andThen_Inr list_all2_Cons1)

lemma map_event_Inr:
  assumes "map_event env e = Inr d"
  obtains t where "tr_parse env (tv_timestamp e) = Some t" "de_timestamp d = tr_iso env t"
    "de_stage d = mapEventStage (tv_eventName e)" "de_actor d = mapEventActor (tv_eventName e)"
  using assms by (auto simp: map_event_def andThen_Inr assertIsoTimestamp_def split: option.splits)

text \<open>The events of a timeline with their times.\<close>

definition timed :: "trades_env \<Rightarrow> trade_event_record \<Rightarrow> int option \<times> string \<times> string" where
  "timed env e = (tr_parse env (tv_timestamp e), mapEventStage (tv_eventName e), mapEventActor (tv_eventName e))"

lemma mapped_events:
  assumes "list_all2 (\<lambda>e d. map_event env e = Inr d) es line"
  shows "map2 (\<lambda>t d. (Some t, de_stage d, de_actor d)) (map (\<lambda>e. the (tr_parse env (tv_timestamp e))) es) line = map (timed env) es \<and>
    map de_timestamp line = map (\<lambda>e. tr_iso env (the (tr_parse env (tv_timestamp e)))) es \<and>
    list_all (\<lambda>e. tr_parse env (tv_timestamp e) \<noteq> None) es"
  using assms
proof (induction rule: list_all2_induct)
  case (Cons e es d line)
  obtain t where "tr_parse env (tv_timestamp e) = Some t" "de_timestamp d = tr_iso env t"
    "de_stage d = mapEventStage (tv_eventName e)" "de_actor d = mapEventActor (tv_eventName e)"
    by (rule map_event_Inr [OF Cons(1)])
  with Cons(3) show ?case by (simp add: timed_def)
qed simp

lemma sorted_last_max:
  fixes ts :: "int list"
  assumes "sorted ts" "ts \<noteq> []"
  shows "last ts = Max (set ts)"
  using assms by (cases ts rule: rev_cases) (auto simp: sorted_append intro!: Max_eqI [symmetric])

text \<open>
  C36: a timeline is in the order of time.  Provided that the host's \<open>sort\<close> permutes, the timeline of a trade
  shows each of its events once, with its stage and its actor, at times that do not decrease; the trade's \<open>updatedAt\<close> is
  the latest of these times, or the time of its creation when it has no events.
\<close>

theorem timeline_in_order_of_time:
  assumes "\<forall>es. mset (tr_mixed env es) = mset es"
    and "mapTimeline env (tg_events t) = Inr line" and "trade_record env t line c = Inr r"
  shows "\<exists>ts. sorted ts \<and> map de_timestamp (dt_timeline r) = map (tr_iso env) ts \<and>
    mset (map2 (\<lambda>t d. (Some t, de_stage d, de_actor d)) ts (dt_timeline r)) = mset (map (timed env) (events_of t)) \<and>
    (if events_of t = [] then tr_parse env (tg_createdAt t) \<noteq> None \<and> dt_updatedAt r = tr_iso env (the (tr_parse env (tg_createdAt t)))
     else dt_updatedAt r = tr_iso env (Max (set ts)))"
proof -
  let ?time = "\<lambda>e. the (tr_parse env (tv_timestamp e))"
  let ?s = "sort_events env (events_of t)"
  have l: "list_all2 (\<lambda>e d. map_event env e = Inr d) ?s line"
    using assms(2) by (simp add: mapTimeline_def map_each_Inr events_of_def)
  note m = mapped_events [OF l]
  have perm: "mset ?s = mset (events_of t)" using assms(1) by (simp add: sort_events_def)
  then have "list_all (\<lambda>e. tr_parse env (tv_timestamp e) \<noteq> None) (events_of t)"
    using m by (metis (no_types, lifting) list_all_iff mset_eq_setD)
  then have sorted: "sorted (map ?time ?s)" by (simp add: sort_events_def)
  have line: "dt_timeline r = line" using trade_record_facts [OF assms(3)] by simp
  have up: "if line = [] then assertIsoTimestamp env (tg_createdAt t) ''trade.createdAt'' = Inr (dt_updatedAt r)
      else dt_updatedAt r = de_timestamp (last line)"
    using assms(3) by (auto simp: trade_record_def andThen_Inr split: if_splits)
  have len: "length line = length (events_of t)" using l perm by (metis list_all2_lengthD size_mset)
  have "dt_updatedAt r = tr_iso env (Max (set (map ?time ?s)))" if "events_of t \<noteq> []"
  proof -
    have ne: "?s \<noteq> []" "line \<noteq> []" using that perm len by auto
    have "de_timestamp (last line) = last (map de_timestamp line)" using ne by (simp add: last_map)
    also have "\<dots> = tr_iso env (last (map ?time ?s))" using m ne by (simp add: last_map)
    also have "last (map ?time ?s) = Max (set (map ?time ?s))" using sorted ne by (intro sorted_last_max) simp_all
    finally show ?thesis using up ne by simp
  qed
  moreover have "tr_parse env (tg_createdAt t) \<noteq> None \<and> dt_updatedAt r = tr_iso env (the (tr_parse env (tg_createdAt t)))"
    if "events_of t = []"
    using up len that by (auto simp: assertIsoTimestamp_def split: option.splits)
  moreover have "mset (map2 (\<lambda>t d. (Some t, de_stage d, de_actor d)) (map ?time ?s) line) = mset (map (timed env) (events_of t))"
    using m perm by (simp add: mset_map)
  ultimately show ?thesis
    using m sorted line by (intro exI [of _ "map ?time ?s"]) (simp add: comp_def)
qed

section \<open>A sample\<close>

definition sample_trade_event :: "string \<Rightarrow> string \<Rightarrow> string option \<Rightarrow> trade_event_record" where
  "sample_trade_event name time hash =
     \<lparr>tv_eventName = name, tv_timestamp = time, tv_txHash = hash, tv_extrinsicHash = None, tv_totalAmount = Some ''5'',
      tv_releasedFirstTranche = None, tv_releasedLogisticsAmount = None, tv_paidPlatformFees = None,
      tv_arrivalTimestamp = None, tv_finalTranche = None, tv_finalRecipient = None, tv_refundedAmount = None,
      tv_refundedTo = None, tv_refundedBuyerPrincipal = None, tv_claimType = None, tv_claimRecipient = None,
      tv_claimAmount = None, tv_payoutRecipient = None, tv_payoutAmount = None, tv_payoutType = None\<rparr>"

definition sample_trade :: trade_graphql_record where
  "sample_trade =
     \<lparr>tg_tradeId = ''7'', tg_buyer = ''0xb'', tg_supplier = ''0xs'', tg_status = ''IN_TRANSIT'', tg_totalAmountLocked = ''0x0a'',
      tg_logisticsAmount = '' 2 '', tg_platformFeesAmount = ''1'', tg_ricardianHash = ''h'', tg_createdAt = ''1'',
      tg_events = Some [sample_trade_event ''FundsReleasedStage1'' ''12'' (Some ''0x2''), sample_trade_event ''TradeLocked'' ''1'' (Some ''0x1'')]\<rparr>"

definition sample_trades :: trades_env where
  "sample_trades =
     \<lparr>tr_indexer = (\<lambda>_ _. Trades_response True 200 (Inr (Some \<lparr>gt_errors = [], gt_trades = Some [sample_trade]\<rparr>))),
      tr_timeoutMs = 5000, tr_parse = (\<lambda>s. if all_digits s then Some (int (nat_of_digits 0 s)) else None),
      tr_iso = show_int, tr_unix = (\<lambda>_. None), tr_units = (\<lambda>n. Inr (show_int n)), tr_number = Finite,
      tr_locale = (\<lambda>n. case n of Finite t \<Rightarrow> t | Not_finite \<Rightarrow> []), tr_mixed = (\<lambda>es. es), tr_double = Some,
      tr_rejected = (\<lambda>_. 0)\<rparr>"

definition sample_reader :: "gw_error + gateway_principal" where
  "sample_reader =
     Inr \<lparr>gp_caller = \<lparr>gp_sessionReference = ''s'', gp_userId = ''u'', gp_walletAddress = ''0xa'', gp_role = ''admin''\<rparr>,
       gp_gatewayRoles = [''operator:read''], gp_writeEnabled = False\<rparr>"

definition sample_dashboard_events :: "dashboard_event list" where
  "sample_dashboard_events =
     [\<lparr>de_stage = ''Lock'', de_timestamp = ''1'', de_actor = ''Buyer'', de_txHash = Some ''0x1'',
       de_detail = Some ''Escrow locked for 5 USDC.''\<rparr>,
      \<lparr>de_stage = ''Stage 1 Release'', de_timestamp = ''12'', de_actor = ''Oracle'', de_txHash = Some ''0x2'',
       de_detail = Some ''Stage 1 released 0 USDC plus 0 USDC logistics.''\<rparr>]"

definition sample_dashboard_trade :: dashboard_trade where
  "sample_dashboard_trade =
     \<lparr>dt_id = ''7'', dt_buyer = ''0xb'', dt_supplier = ''0xs'', dt_amount = Finite ''10'', dt_status = Dash_stage_1,
      dt_txHash = Some ''0x1'', dt_createdAt = ''1'', dt_updatedAt = ''12'', dt_ricardianHash = ''h'',
      dt_platformFee = Finite ''1'', dt_logisticsAmount = Finite ''2'', dt_timeline = sample_dashboard_events,
      dt_complianceStatus = Compliance_pass\<rparr>"

lemma sample_trade_record:
  "mapTimeline sample_trades (tg_events sample_trade) = Inr sample_dashboard_events"
  by code_simp

lemma sample_read:
  "result_of (trade_route sample_trades sample_compliance sample_reader (Get_one_trade '' 7'') sample_ledger) =
     Inr (One_trade_answer sample_dashboard_trade)"
  by code_simp

theorem dashboard_shows_the_last_decision_witness:
  "shown_compliance ''7'' sample_ledger = Compliance_pass"
proof -
  obtain w' where "trade_route sample_trades sample_compliance sample_reader (Get_one_trade '' 7'') sample_ledger =
      (Inr (One_trade_answer sample_dashboard_trade), w')"
    using sample_read by (metis prod.collapse)
  from dashboard_shows_the_last_decision [OF refl this]
  show ?thesis by (simp add: answer_trades_def sample_dashboard_trade_def)
qed

theorem timeline_in_order_of_time_witness:
  "\<exists>ts. sorted ts \<and> map de_timestamp sample_dashboard_events = map show_int ts \<and> ''12'' = show_int (Max (set ts))"
proof -
  have "\<forall>es. mset (tr_mixed sample_trades es) = mset es" by (simp add: sample_trades_def)
  moreover obtain c where "trade_record sample_trades sample_trade sample_dashboard_events c = Inr sample_dashboard_trade"
    by (rule that [of "Some \<lparr>tc_tradeId = ''7'', tc_currentResult = ALLOW, tc_oracleProgressionBlocked = False,
        tc_blockState = Not_blocked, tc_latestDecisionId = [], tc_latestReasonCode = [], tc_latestProvider = [],
        tc_latestCorrelationId = [], tc_updatedAt = 0\<rparr>"]) code_simp
  ultimately show ?thesis
    using timeline_in_order_of_time [OF _ sample_trade_record, of _ sample_dashboard_trade]
    by (auto simp: sample_dashboard_trade_def sample_trade_def events_of_def) (auto simp: sample_trades_def)
qed

text \<open>One trade with an unknown status makes the whole list fail, and an empty amount is read as zero.\<close>

lemma one_bad_trade_fails_the_list:
  "result_of (trade_route (sample_trades\<lparr>tr_indexer := (\<lambda>_ _. Trades_response True 200
       (Inr (Some \<lparr>gt_errors = [], gt_trades = Some [sample_trade, sample_trade\<lparr>tg_status := ''PAUSED''\<rparr>]\<rparr>)))\<rparr>)
     sample_compliance sample_reader (Get_trades J_undefined J_undefined) sample_ledger) =
   Inl (upstream ''Indexer returned unknown trade status'' [(''status'', ''PAUSED'')])"
  by code_simp

lemma empty_amount_is_zero: "tr_units env 0 = Inr u \<Longrightarrow> tr_number env u = Finite n \<Longrightarrow> asUsdcNumber env [] field = Inr (Finite n)"
  by (simp add: asUsdcNumber_def parse_bigint_def trim_def Let_def)

end
