(* ===== verification/Spec2Isabelle.thy ===== *)
theory Spec2Isabelle
  imports Main Oracle_Manager_Props Oracle_Worker_Props Oracle_Api_Props Notifier Recon_Props Gov_Props
    Treasury_Props Index_Props Index_Treasury Compliance_Props Auth_Props Auth_Gateway Ric_Props Ric_Limiter
    Shared_Auth Service_Config Trade_Reads
begin

text \<open>
  A verification development for the off-chain services of the Agroasys trade escrow.

  The escrow contract (\<open>contracts/src/AgroasysEscrow.sol\<close>) holds the money of a trade and moves it
  when the oracle, the parties or the administrators say so.  The services around it are TypeScript:
  the oracle turns requests of the operator into transactions and watches their confirmation, the
  reconciliation compares the contract with the index, the notifications package reports what needs
  a person, the gateway queues and executes the actions of the administrators and keeps the
  compliance decisions, the indexer turns the events of the contract into tables, and the treasury
  keeps a ledger of the amounts the contract paid out to it, as the indexer reports them, and of their
  payouts.  The authentication service logs wallets in and tells the gateway whose session a token is.
  The Ricardian service hashes the documents of the trades, and the gateway shows the trades of the
  index with their compliance status.  The contract, ethers, the databases, the GraphQL endpoint and the webhook are outside the model: they are
  functions of a tick, a counter that every external call advances, so that a theorem quantifies
  over everything they may answer, failures included.

  \<^bold>\<open>Conventions.\<close>  A method is a state transformer with an error sum (\<open>Effect\<close>): \<open>Inl\<close> is a throw,
  which keeps the state the method left.  Dates are milliseconds, \<open>bigint\<close> is \<open>int\<close>, a string is a
  list of characters, \<open>undefined\<close> and \<open>null\<close> are \<open>None\<close>.  A table is a list of rows in the order of
  insertion (\<open>Sql_Table\<close>, with the contract of a unique key as the locale \<open>sql_table\<close>); a statement
  that would break a constraint is refused.  Log calls are left out.

  \<^bold>\<open>Foundations.\<close>  \<open>Effect\<close>: combinators, the invariant predicate \<open>keeps\<close>, triples.  \<open>Js_Text\<close>: the
  string functions the sources use.  \<open>Trade_Types\<close>: \<open>sdk/src/types\<close> and
  \<open>sdk/src/utils/validation.ts\<close>.  \<open>Nonce_Store\<close>: the interface of the nonce stores as a locale, with
  replay protection proved once, interpreted on the SQL statement of the oracle.  \<open>Notifier\<close>:
  \<open>notifications/src/index.ts\<close>, with the exact delays of the retries; a base delay above the documented
  cap is used as it is (\<open>base_delay_exceeds_the_cap\<close>).

  \<^bold>\<open>Oracle.\<close>  \<open>Oracle_World\<close> (\<open>types/trigger.ts\<close>, \<open>utils/errors.ts\<close>, environment and
  state), \<open>Oracle_Store\<close> (\<open>database/queries.ts\<close>), \<open>Oracle_Chain\<close> (\<open>blockchain/sdk-client.ts\<close> over
  \<open>sdk/src/modules/oracleSDK.ts\<close>), \<open>Oracle_Crypto\<close> (\<open>utils/crypto.ts\<close>), \<open>Oracle_Validator\<close>
  (\<open>core/state-validator.ts\<close>), \<open>Oracle_Manager\<close> (\<open>core/trigger-manager.ts\<close>), \<open>Oracle_Worker\<close>
  (\<open>worker/confirmation-worker.ts\<close>), \<open>Oracle_Api\<close> (\<open>middleware/middleware.ts\<close>,
  \<open>api/controller.ts\<close>, \<open>api/routes.ts\<close>), \<open>Oracle_Config\<close> (\<open>config.ts\<close>).  The facts are in
  \<open>Oracle_Manager_Facts\<close> (every sent transaction is justified by a read of the chain),
  \<open>Oracle_Manager_Loop\<close> (what the retry loop records), \<open>Oracle_Manager_Entry\<close> and
  \<open>Oracle_Manager_Runs\<close> (the entry points), and the properties in \<open>Oracle_Manager_Props\<close>,
  \<open>Oracle_Worker_Props\<close> and \<open>Oracle_Api_Props\<close>.  The retry loop is a function whose measure is the
  number of attempts left; nothing in the model uses fuel.  A statement that would break the primary key or the
  partial unique index on the active triggers of an action is refused, as PostgreSQL refuses it
  (\<open>triggers_ok\<close>).  The theorems about a whole entry point are about one call at a time.

  \<^bold>\<open>Reconciliation.\<close>  \<open>Recon_Classifier\<close> (\<open>core/classifier.ts\<close>), \<open>Recon_Run\<close> (\<open>core/reconciler.ts\<close>,
  \<open>database/queries.ts\<close>), \<open>Recon_Report\<close> (\<open>core/reconciliationReport.ts\<close>), with the invariants in
  \<open>Recon_Facts\<close>, the specification of a run against a steady chain and index in \<open>Recon_Spec\<close>, and the
  properties in \<open>Recon_Props\<close>.  The page loop ends because every page it goes on after is not empty
  and the total is bounded; the daemon's endless loop is modelled as any number of its rounds.

  \<^bold>\<open>Gateway.\<close>  Administrators queue governance actions over HTTP, and an executor sends them to the
  contract.  \<open>Json\<close> and \<open>Gov_Types\<close> hold the data (\<open>core/governanceStore.ts\<close>, \<open>errors.ts\<close>),
  \<open>Gov_World\<close> the environment and the state, \<open>Gov_Store\<close> the PostgreSQL statements and transactions
  (\<open>core/governanceStore.ts\<close>, \<open>core/governanceWriteStore.ts\<close>, \<open>core/auditLogStore.ts\<close>), \<open>Gov_Service\<close>
  the queue and its cleanup (\<open>core/governanceMutationService.ts\<close>, \<open>core/governanceCleanupService.ts\<close>),
  \<open>Gov_Status\<close> the reads of the contract (\<open>core/governanceStatusService.ts\<close>), \<open>Gov_Executor\<close> the
  execution (\<open>executor/governanceExecutor.ts\<close>), \<open>Gov_Idempotency\<close> and \<open>Gov_Routes\<close> the routes behind
  their middlewares (\<open>middleware/idempotency.ts\<close>, \<open>middleware/auth.ts\<close>,
  \<open>routes/governanceMutations.ts\<close>).  \<open>Gov_Facts\<close> and \<open>Gov_Steps\<close> say which events (a row saved with
  its audit entry, an audit entry, a call) each operation makes, and that time goes on.
  \<open>Gov_Spec\<close> is the abstract queue, a step relation with its invariants, \<open>Gov_Refine\<close> and
  \<open>Gov_System\<close> the refinement by every sequence of requests; \<open>Gov_Mutations\<close>
  holds what the properties in \<open>Gov_Props\<close> need besides.  The requests of a sequence are
  served one after the other.  Two hypotheses describe the surroundings: the clock does not run
  backwards and no random identifier is drawn twice (\<open>sound_env\<close>); where a theorem needs the
  database, \<open>gw_up\<close> says that it answers.  A client of the list route has a number of requests (\<open>pages\<close>) and
  \<open>None\<close> is that it ran out of them with a cursor in its hand; the theorem names the number that is enough.
  Proposal ids are rounded to doubles as \<open>Number.parseInt\<close> does it (\<open>nearest_double\<close>).

  \<^bold>\<open>Treasury.\<close>  \<open>Treasury_Store\<close> holds the tables and statements (\<open>treasury/src/database/queries.ts\<close>,
  \<open>schema.sql\<close>), \<open>Treasury_Service\<close> the indexer client, the ingestion loop, the payout states, the
  handlers and the routes (\<open>indexer/client.ts\<close>, \<open>core/ingestion.ts\<close>, \<open>core/payout.ts\<close>,
  \<open>api/controller.ts\<close>, \<open>api/routes.ts\<close>).  \<open>Sql_Transaction\<close> is a transaction around a method with its
  contract as the locale \<open>transactional\<close>, whose lemma is all or nothing; \<open>Treasury_Steps\<close> interprets it
  and proves that every request is a sequence of steps of the relation \<open>treasury_step\<close>, over which
  \<open>Treasury_Invariant\<close> proves the invariant of the tables.  \<open>Treasury_Coverage\<close> compares the ledger with
  the events of the indexer, \<open>Treasury_Progress\<close> shows that ingestion advances when nothing fails and
  what it reports, \<open>Treasury_Props\<close> holds the properties.  The ingestion loop is a function whose
  measure is the number of events it may still fetch: a page after which it goes on is not empty.
  Requests are served one after the other; \<open>interleaved_requests_leave_processing_twice\<close> shows what
  two at once may do.  Three hypotheses describe the surroundings: the clock does not run backwards,
  every page of the indexer is a window of its events in some order by block, and blocks are added
  whole (\<open>growing_indexer\<close>), and, for progress, database and indexer answer (\<open>reliable\<close>).  The query orders
  by block only, so the events of one block may stand differently in two answers: \<open>covered\<close> speaks of an
  event unless a page that was asked for began inside its block (\<open>uncut\<close>, over the offsets that the
  world keeps as \<open>tw_queries\<close>), and \<open>event_of_a_cut_block_is_lost\<close> shows what happens otherwise.  Events
  without an EVM transaction hash or without an amount are skipped for good (\<open>due_entries\<close>).  The CSV
  export has no escaping; \<open>csv_export_reads_back\<close> says exactly which entries read back.

  \<^bold>\<open>Indexer.\<close>  \<open>Index_Types\<close> holds the entities (\<open>indexer/src/model/generated\<close>) and the events of the
  contract as ethers decodes them, \<open>Index_Handlers\<close> a definition for each of the 36 handlers of
  \<open>indexer/src/main.ts\<close>, \<open>Index_Batch\<close> the loop over the blocks of a batch, the hashes
  (\<open>utils/eventHashes.ts\<close>) and the save.  The record \<open>index_tables\<close> is both the database and what a batch
  has collected; \<open>flush\<close> lays the second over the first.  \<open>Index_Replay\<close> proves that a handler
  sees only the flushed tables (\<open>view_only\<close>), and so turns a run into a fold of one step over
  the log of decoded events, whatever the batches.  \<open>Index_Trades\<close> compares a step with the contract,
  \<open>Index_Props\<close> holds the properties and what the handlers do not do.  \<open>Index_Treasury\<close> runs the indexer
  and the treasury together: the ledger against the events of the contract.  Decoding and hashing
  are parameters (\<open>index_env\<close>); a read of the store may be rejected; the query of the treasury returns
  the rows in any order by block, a new one for every query (\<open>query_rows\<close>), and an entity that is saved
  again keeps its relations.

  \<^bold>\<open>Compliance.\<close>  \<open>Compliance_Store\<close> holds the decisions of the gateway and the blocks of the oracle's
  progression (\<open>gateway/src/core/complianceStore.ts\<close>, \<open>complianceWriteStore.ts\<close>), \<open>Compliance_Service\<close> the
  checks of the bodies, the service and the routes (\<open>complianceService.ts\<close>, \<open>routes/compliance.ts\<close>).
  \<open>Compliance_Steps\<close> interprets \<open>transactional\<close> and proves that every request is a step: nothing, a
  decision, or a change of a block, each with its audit entry.  \<open>Compliance_Props\<close> holds the
  properties over runs from the empty tables, and what the service leaves open.  \<open>Date.parse\<close> and the text
  of a timestamp column are parameters.

  \<^bold>\<open>Authentication.\<close>  \<open>Auth_Store\<close> holds the challenges, profiles and sessions of the authentication
  service (\<open>auth/src/core\<close>, \<open>auth/src/database/queries.ts\<close>), \<open>Auth_Service\<close> the session service, the
  middleware, the handlers and the routes (\<open>core/sessionService.ts\<close>, \<open>middleware/middleware.ts\<close>,
  \<open>api/controller.ts\<close>, \<open>api/routes.ts\<close>), with runs of requests, restarts, timers and deactivations.
  \<open>Auth_Facts\<close> states what an invariant of the service has to allow as the locales \<open>auth_tables\<close> and
  \<open>auth_service\<close> and proves once that every event keeps such an invariant; \<open>Auth_Runs\<close> interprets them
  for well-formed tables, signed logins, revoked sessions and challenges, and \<open>Auth_Props\<close> holds the
  properties and what the service leaves open.  \<open>Auth_Gateway\<close> runs the service and the gateway together
  (\<open>gateway/src/core/authSessionClient.ts\<close>): who can change the governance tables.  The recovery of an
  address from a signature is a parameter; where a theorem needs it the clock does not run backwards.
  Requests are served one after the other; the check of a signature and the removal of its challenge
  have no \<open>await\<close> between them.

  \<^bold>\<open>Ricardian service.\<close>  \<open>Ric_Canonical\<close> turns a payload into its canonical text and its hash
  (\<open>ricardian/src/utils/canonicalize.ts\<close>, \<open>utils/hash.ts\<close>).  \<open>Ric_Payloads\<close> proves that the printed texts are a
  prefix code, and with it the specification: two payloads have the same text exactly when they are
  the same up to the order of keys (\<open>same_json\<close>).  \<open>Ric_Limiter\<close> is the rate limiter
  (\<open>rateLimit/limiter.ts\<close>), with its contract as the locale \<open>fixed_window\<close>,
  interpreted on both windows.  \<open>Ric_Service\<close> holds the table, the handlers and the routes
  (\<open>database/queries.ts\<close>, \<open>api/controller.ts\<close>, \<open>api/routes.ts\<close>) behind authentication and limiter,
  \<open>Ric_Props\<close> the invariant of the table over runs and the properties.  SHA-256 is a parameter;
  where a theorem needs it, it has no collision among the texts of the run.  Characters have codes
  up to 255, and a number is the text that it prints as.

  \<^bold>\<open>Shared authentication.\<close>  \<open>Shared_Auth\<close> is the middleware of the Ricardian service and the treasury
  with its in-memory nonce store (\<open>shared-auth/serviceAuth.js\<close>, \<open>nonceStore.js\<close>); it extends
  the interface of the nonce stores and proves replay protection for a whole run, with what a
  short life of a nonce or a full memory does to it.  \<open>Service_Config\<close> reads the configurations of the two services
  (\<open>config.ts\<close>).

  \<^bold>\<open>Trades of the dashboard.\<close>  \<open>Trade_Reads\<close> (\<open>gateway/src/core/tradeReadService.ts\<close>,
  \<open>routes/trades.ts\<close>) reads trades from the indexer and adds the compliance status;
  it proves that a read changes nothing, how it fails, and what it shows.  The
  formats of dates and numbers are parameters.

  \<^bold>\<open>Not modelled.\<close>  The contract itself (Solidity), the generated types of its interface, start-up
  and logging, and the rest of the SDK, whose modules wrap calls of the contract and of the services;
  the Redis stores beyond their keys, whose behaviour is that of the server.
\<close>

end
